(* ===== verification/Prelude.thy ===== *)
theory Prelude
  imports Main "HOL-Library.AList" "HOL-Library.Sublist" "HOL-Library.List_Lexorder" "HOL-Library.Char_ord"
begin

section \<open>Prelude: effects, association lists and small list facts\<close>

text \<open>
  What every component shares. A Go function that returns \<open>(T, error)\<close> and touches outside
  state is a function from the state to a sum (\<open>Inl\<close> the error, \<open>Inr\<close> the value) and the new
  state. The combinators below are the three shapes in which the source sequences such calls:
  return on error (\<^verbatim>\<open>if err != nil { return err }\<close>), handle the error and go on, and
  \<^verbatim>\<open>defer\<close>. They are definitions on functions, so that every operation stays executable.
\<close>

type_synonym ('w, 'e, 'a) eff = "'w \<Rightarrow> ('e + 'a) \<times> 'w"

named_theorems eff_simps "unfolding of the effect combinators"
named_theorems eff_elims "inversion of the effect combinators"

definition retE :: "'a \<Rightarrow> ('w, 'e, 'a) eff" where
  "retE x w = (Inr x, w)"

definition failE :: "'e \<Rightarrow> ('w, 'e, 'a) eff" where
  "failE e w = (Inl e, w)"

text \<open>\<open>bindE m k\<close>: run \<open>m\<close>, return its error, else go on with \<open>k\<close>.\<close>

definition bindE :: "('w, 'e, 'a) eff \<Rightarrow> ('a \<Rightarrow> ('w, 'e, 'b) eff) \<Rightarrow> ('w, 'e, 'b) eff" where
  "bindE m k w = (case m w of (Inl e, w') \<Rightarrow> (Inl e, w') | (Inr x, w') \<Rightarrow> k x w')"

text \<open>\<open>tryE m h k\<close>: run \<open>m\<close>, continue with \<open>h\<close> on an error and with \<open>k\<close> on a value.\<close>

definition tryE :: "('w, 'e, 'a) eff \<Rightarrow> ('e \<Rightarrow> ('w, 'f, 'b) eff) \<Rightarrow> ('a \<Rightarrow> ('w, 'f, 'b) eff) \<Rightarrow>
    ('w, 'f, 'b) eff" where
  "tryE m h k w = (case m w of (Inl e, w') \<Rightarrow> h e w' | (Inr x, w') \<Rightarrow> k x w')"

text \<open>\<open>finallyE m d\<close>: a deferred call \<open>d\<close> whose own result is dropped.\<close>

definition finallyE :: "('w, 'e, 'a) eff \<Rightarrow> ('w, 'f, 'b) eff \<Rightarrow> ('w, 'e, 'a) eff" where
  "finallyE m d w = (case m w of (r, w') \<Rightarrow> (r, snd (d w')))"

text \<open>\<open>_ = f()\<close>: the call is made, its result is dropped.\<close>

definition ignoreE :: "('w, 'e, 'a) eff \<Rightarrow> ('w, 'f, unit) eff" where
  "ignoreE m w = (Inr (), snd (m w))"

text \<open>Mapping the error of a result, as the \<^verbatim>\<open>fmt.Errorf\<close> wrappers do.\<close>

definition mapErrE :: "('e \<Rightarrow> 'f) \<Rightarrow> ('w, 'e, 'a) eff \<Rightarrow> ('w, 'f, 'a) eff" where
  "mapErrE f m w = (case m w of (Inl e, w') \<Rightarrow> (Inl (f e), w') | (Inr x, w') \<Rightarrow> (Inr x, w'))"

lemmas eff_defs = retE_def failE_def bindE_def tryE_def finallyE_def ignoreE_def mapErrE_def

lemma retE_apply [simp, eff_simps]: "retE x w = (Inr x, w)"
  by (simp add: retE_def)

lemma failE_apply [simp, eff_simps]: "failE e w = (Inl e, w)"
  by (simp add: failE_def)

lemma ignoreE_apply [simp, eff_simps]: "ignoreE m w = (Inr (), snd (m w))"
  by (simp add: ignoreE_def)

lemma bindE_Inr: "m w = (Inr x, w') \<Longrightarrow> bindE m k w = k x w'"
  by (simp add: bindE_def)

lemma bindE_Inl: "m w = (Inl e, w') \<Longrightarrow> bindE m k w = (Inl e, w')"
  by (simp add: bindE_def)

lemma bindE_InrE [eff_elims]:
  assumes "bindE m k w = (Inr y, w'')"
  obtains x w' where "m w = (Inr x, w')" and "k x w' = (Inr y, w'')"
  using assms by (auto simp: bindE_def split: prod.splits sum.splits)

lemma bindE_InlE [eff_elims]:
  assumes "bindE m k w = (Inl e, w'')"
  obtains "m w = (Inl e, w'')" | x w' where "m w = (Inr x, w')" and "k x w' = (Inl e, w'')"
  using assms by (auto simp: bindE_def split: prod.splits sum.splits)

lemma tryE_cases:
  assumes "tryE m h k w = r"
  obtains (err) e w' where "m w = (Inl e, w')" and "h e w' = r"
    | (ok) x w' where "m w = (Inr x, w')" and "k x w' = r"
  using assms by (auto simp: tryE_def split: prod.splits sum.splits)

lemma mapErrE_snd [simp]: "snd (mapErrE f m w) = snd (m w)"
  by (auto simp: mapErrE_def split: prod.splits sum.splits)

text \<open>
  A state predicate that every effect keeps: the frame rule of the combinators. The components
  use it to show that an operation leaves a part of the state alone.
\<close>

definition keeps :: "('w \<Rightarrow> 'v) \<Rightarrow> ('w, 'e, 'a) eff \<Rightarrow> bool" where
  "keeps f m \<longleftrightarrow> (\<forall>w. f (snd (m w)) = f w)"

named_theorems keeps_intros "frame rules"

lemma keeps_ret [keeps_intros]: "keeps f (retE x)"
  by (simp add: keeps_def)

lemma keeps_fail [keeps_intros]: "keeps f (failE e)"
  by (simp add: keeps_def)

lemma keepsD: "keeps f m \<Longrightarrow> m w = (r, w') \<Longrightarrow> f w' = f w"
  unfolding keeps_def by (metis snd_conv)

lemma keeps_bind [keeps_intros]: "keeps f m \<Longrightarrow> (\<And>x. keeps f (k x)) \<Longrightarrow> keeps f (bindE m k)"
  unfolding keeps_def bindE_def by (auto split: prod.splits sum.splits) (metis snd_conv)+

lemma keeps_try [keeps_intros]:
  "keeps f m \<Longrightarrow> (\<And>e. keeps f (h e)) \<Longrightarrow> (\<And>x. keeps f (k x)) \<Longrightarrow> keeps f (tryE m h k)"
  unfolding keeps_def tryE_def by (auto split: prod.splits sum.splits) (metis snd_conv)+

lemma keeps_finally [keeps_intros]: "keeps f m \<Longrightarrow> keeps f d \<Longrightarrow> keeps f (finallyE m d)"
  unfolding keeps_def finallyE_def by (auto split: prod.splits) (metis snd_conv)

lemma keeps_ignore [keeps_intros]: "keeps f m \<Longrightarrow> keeps f (ignoreE m)"
  unfolding keeps_def by auto

lemma keeps_mapErr [keeps_intros]: "keeps f m \<Longrightarrow> keeps f (mapErrE g m)"
  unfolding keeps_def by simp

lemma keeps_if [keeps_intros]: "(b \<Longrightarrow> keeps f m) \<Longrightarrow> (\<not> b \<Longrightarrow> keeps f n) \<Longrightarrow> keeps f (if b then m else n)"
  by simp

subsection \<open>Pre- and postconditions\<close>

text \<open>
  \<open>valid P m Q E\<close>: from a state with \<open>P\<close>, a returned value ends in \<open>Q\<close> and an error in \<open>E\<close>.
  The rules follow the combinators, so a proof about an operation follows its text.
\<close>

definition valid :: "('w \<Rightarrow> bool) \<Rightarrow> ('w, 'e, 'a) eff \<Rightarrow> ('a \<Rightarrow> 'w \<Rightarrow> bool) \<Rightarrow> ('e \<Rightarrow> 'w \<Rightarrow> bool) \<Rightarrow> bool" where
  "valid P m Q E \<longleftrightarrow> (\<forall>w. P w \<longrightarrow> (case m w of (Inl e, w') \<Rightarrow> E e w' | (Inr x, w') \<Rightarrow> Q x w'))"

named_theorems valid_intros "rules of the pre/postcondition calculus"

lemma validI:
  "(\<And>w x w'. P w \<Longrightarrow> m w = (Inr x, w') \<Longrightarrow> Q x w') \<Longrightarrow>
   (\<And>w e w'. P w \<Longrightarrow> m w = (Inl e, w') \<Longrightarrow> E e w') \<Longrightarrow> valid P m Q E"
  by (auto simp: valid_def split: prod.splits sum.splits)

lemma validD_Inr: "valid P m Q E \<Longrightarrow> P w \<Longrightarrow> m w = (Inr x, w') \<Longrightarrow> Q x w'"
  by (force simp: valid_def)

lemma validD_Inl: "valid P m Q E \<Longrightarrow> P w \<Longrightarrow> m w = (Inl e, w') \<Longrightarrow> E e w'"
  by (force simp: valid_def)

lemma valid_weaken:
  "valid P m Q E \<Longrightarrow> (\<And>w. P' w \<Longrightarrow> P w) \<Longrightarrow> (\<And>x w. Q x w \<Longrightarrow> Q' x w) \<Longrightarrow>
   (\<And>e w. E e w \<Longrightarrow> E' e w) \<Longrightarrow> valid P' m Q' E'"
  by (rule validI) (blast dest: validD_Inr, blast dest: validD_Inl)

lemma valid_ret: "(\<And>w. P w \<Longrightarrow> Q x w) \<Longrightarrow> valid P (retE x) Q E"
  by (simp add: valid_def)

lemma valid_fail: "(\<And>w. P w \<Longrightarrow> E e w) \<Longrightarrow> valid P (failE e) Q E"
  by (simp add: valid_def)

lemma valid_try:
  assumes m: "valid P m R F" and h: "\<And>e. valid (F e) (h e) Q E" and k: "\<And>x. valid (R x) (k x) Q E"
  shows "valid P (tryE m h k) Q E"
proof (rule validI)
  fix w y w'' assume P: "P w" and "tryE m h k w = (Inr y, w'')"
  from this(2) show "Q y w''"
  proof (cases rule: tryE_cases)
    case (err e w')
    show ?thesis by (rule validD_Inr [OF h validD_Inl [OF m P err(1)] err(2)])
  next
    case (ok x w')
    show ?thesis by (rule validD_Inr [OF k validD_Inr [OF m P ok(1)] ok(2)])
  qed
next
  fix w y w'' assume P: "P w" and "tryE m h k w = (Inl y, w'')"
  from this(2) show "E y w''"
  proof (cases rule: tryE_cases)
    case (err e w')
    show ?thesis by (rule validD_Inl [OF h validD_Inl [OF m P err(1)] err(2)])
  next
    case (ok x w')
    show ?thesis by (rule validD_Inl [OF k validD_Inr [OF m P ok(1)] ok(2)])
  qed
qed

lemma bindE_as_try: "bindE m k = tryE m failE k"
  by (rule ext) (simp add: bindE_def tryE_def split: prod.splits sum.splits)

lemma valid_bind: "valid P m R E \<Longrightarrow> (\<And>x. valid (R x) (k x) Q E) \<Longrightarrow> valid P (bindE m k) Q E"
  unfolding bindE_as_try by (rule valid_try) (auto intro: valid_fail)

lemma valid_snd: "valid P d (\<lambda>_. Q) (\<lambda>_. Q) \<Longrightarrow> P w \<Longrightarrow> Q (snd (d w))"
  by (cases "d w"; cases "fst (d w)") (auto simp: valid_def)

lemma valid_finally:
  assumes m: "valid P m R F" and d: "\<And>x. valid (R x) d (\<lambda>_. Q x) (\<lambda>_. Q x)"
    and e: "\<And>e. valid (F e) d (\<lambda>_. E e) (\<lambda>_. E e)"
  shows "valid P (finallyE m d) Q E"
proof (rule validI)
  fix w x w'' assume P: "P w" and "finallyE m d w = (Inr x, w'')"
  then obtain w' where "m w = (Inr x, w')" "w'' = snd (d w')"
    by (auto simp: finallyE_def split: prod.splits)
  then show "Q x w''" using valid_snd [OF d] validD_Inr [OF m P] by blast
next
  fix w x w'' assume P: "P w" and "finallyE m d w = (Inl x, w'')"
  then obtain w' where "m w = (Inl x, w')" "w'' = snd (d w')"
    by (auto simp: finallyE_def split: prod.splits)
  then show "E x w''" using valid_snd [OF e] validD_Inl [OF m P] by blast
qed

lemma valid_ignore: "valid P m (\<lambda>_. Q ()) (\<lambda>_. Q ()) \<Longrightarrow> valid P (ignoreE m) Q E"
  by (rule validI) (auto dest: valid_snd)

lemma valid_mapErr:
  assumes "valid P m Q (\<lambda>e. E (f e))"
  shows "valid P (mapErrE f m) Q E"
proof (rule validI)
  fix w x w' assume "P w" "mapErrE f m w = (Inr x, w')"
  with assms show "Q x w'" by (auto simp: mapErrE_def split: prod.splits sum.splits dest: validD_Inr)
next
  fix w x w' assume "P w" "mapErrE f m w = (Inl x, w')"
  with assms show "E x w'" by (auto simp: mapErrE_def split: prod.splits sum.splits dest: validD_Inl)
qed

lemma valid_if:
  "(b \<Longrightarrow> valid P m Q E) \<Longrightarrow> (\<not> b \<Longrightarrow> valid P n Q E) \<Longrightarrow> valid P (if b then m else n) Q E"
  by simp

lemmas [valid_intros] = valid_ret valid_fail valid_bind valid_try valid_finally valid_ignore
  valid_mapErr valid_if

subsection \<open>Effects that never fail\<close>

definition returns :: "('w, 'e, 'a) eff \<Rightarrow> bool" where
  "returns m \<longleftrightarrow> (\<forall>w. \<exists>x w'. m w = (Inr x, w'))"

named_theorems returns_intros "effects that return a value from every state"

lemma returnsI: "(\<And>w. \<exists>x w'. m w = (Inr x, w')) \<Longrightarrow> returns m"
  by (simp add: returns_def)

lemma returnsE:
  assumes "returns m"
  obtains x w' where "m w = (Inr x, w')"
  using assms unfolding returns_def by metis

lemma returns_ret [returns_intros]: "returns (retE x)"
  by (simp add: returns_def)

lemma returns_Pair [returns_intros]: "returns (Pair (Inr x))"
  by (simp add: returns_def)

lemma returns_ignore [returns_intros]: "returns (ignoreE m)"
  by (simp add: returns_def)

lemma returns_try [returns_intros]: "(\<And>e. returns (h e)) \<Longrightarrow> (\<And>x. returns (k x)) \<Longrightarrow> returns (tryE m h k)"
  by (simp add: returns_def tryE_def split: prod.split sum.split)

lemma returns_bind [returns_intros]: "returns m \<Longrightarrow> (\<And>x. returns (k x)) \<Longrightarrow> returns (bindE m k)"
  unfolding returns_def bindE_def by (metis (no_types, lifting) case_prod_conv sum.case(2))

lemma returns_prod [returns_intros]: "(\<And>a b. returns (f a b)) \<Longrightarrow> returns (case p of (a, b) \<Rightarrow> f a b)"
  by (cases p) simp

lemma returns_if [returns_intros]: "(b \<Longrightarrow> returns m) \<Longrightarrow> (\<not> b \<Longrightarrow> returns n) \<Longrightarrow> returns (if b then m else n)"
  by simp

lemma returns_option [returns_intros]:
  "(p = None \<Longrightarrow> returns m) \<Longrightarrow> (\<And>x. p = Some x \<Longrightarrow> returns (f x)) \<Longrightarrow> returns (case p of None \<Rightarrow> m | Some x \<Rightarrow> f x)"
  by (cases p) simp_all

lemma returns_sum [returns_intros]:
  "(\<And>e. p = Inl e \<Longrightarrow> returns (g e)) \<Longrightarrow> (\<And>x. p = Inr x \<Longrightarrow> returns (f x)) \<Longrightarrow>
   returns (case p of Inl e \<Rightarrow> g e | Inr x \<Rightarrow> f x)"
  by (cases p) simp_all

subsection \<open>Association lists\<close>

text \<open>
  A Go map is an association list with distinct keys: its order stands for the order in which
  one \<^verbatim>\<open>range\<close> loop happens to visit the map, so a statement about all such lists holds for
  every iteration order.
\<close>

lemma map_of_filter_key [simp]:
  "map_of (filter (\<lambda>kv. fst kv \<noteq> k) al) = (map_of al)(k := None)"
  by (induction al) auto

lemma map_of_perm:
  assumes "distinct (map fst al)" "distinct (map fst bl)" "set al = set bl"
  shows "map_of al = map_of bl"
  using assms by (metis map_of_inject_set)

lemma map_of_sort_key:
  "distinct (map fst al) \<Longrightarrow> map_of (sort_key g al) = map_of al"
  by (rule map_of_perm) (simp_all add: distinct_map)

end
