(* ===== verification/GoStrings.thy ===== *)
theory GoStrings
  imports Prelude
begin

section \<open>The string functions of Go's standard library that the source calls\<close>

text \<open>
  A Go string is a sequence of bytes: here a \<open>string\<close>, whose characters are bytes. The
  functions follow the documentation of package \<open>strings\<close>: \<open>trim_space\<close> removes the
  white space of Unicode (one, two or three bytes in UTF-8), \<open>split_on\<close> and \<open>join_with\<close> are
  \<open>Split\<close> and \<open>Join\<close> for a one-byte separator, \<open>cut_at\<close> is \<open>Cut\<close>, \<open>trim_right_set\<close>,
  \<open>trim_left_set\<close> are \<open>TrimRight\<close>, \<open>TrimLeft\<close> for a set of ASCII characters. \<open>to_lower\<close> and
  \<open>to_upper\<close> map ASCII letters; of the letters outside ASCII, the two whose lower case is an
  ASCII letter (U+0130 and U+212A) are mapped too, and every other byte is kept.
\<close>

definition has_prefix :: "string \<Rightarrow> string \<Rightarrow> bool" where
  "has_prefix s p \<longleftrightarrow> prefix p s"

definition has_suffix :: "string \<Rightarrow> string \<Rightarrow> bool" where
  "has_suffix s p \<longleftrightarrow> suffix p s"

definition contains_any :: "string \<Rightarrow> string \<Rightarrow> bool" where
  "contains_any s cs \<longleftrightarrow> list_ex (\<lambda>c. c \<in> set cs) s"

fun split_on :: "char \<Rightarrow> string \<Rightarrow> string list" where
  "split_on c [] = [[]]"
| "split_on c (x # xs) =
     (if x = c then [] # split_on c xs
      else (case split_on c xs of [] \<Rightarrow> [[x]] | l # ls \<Rightarrow> (x # l) # ls))"

fun join_with :: "char \<Rightarrow> string list \<Rightarrow> string" where
  "join_with c [] = []"
| "join_with c [l] = l"
| "join_with c (l # ls) = l @ c # join_with c ls"

text \<open>\<open>strings.Cut(s, sep)\<close>: \<open>None\<close> when the separator is absent.\<close>

fun cut_at :: "char \<Rightarrow> string \<Rightarrow> (string \<times> string) option" where
  "cut_at c [] = None"
| "cut_at c (x # xs) =
     (if x = c then Some ([], xs) else map_option (\<lambda>(a, b). (x # a, b)) (cut_at c xs))"

definition trim_right_set :: "string \<Rightarrow> string \<Rightarrow> string" where
  "trim_right_set s cs = rev (dropWhile (\<lambda>c. c \<in> set cs) (rev s))"

definition trim_left_set :: "string \<Rightarrow> string \<Rightarrow> string" where
  "trim_left_set s cs = dropWhile (\<lambda>c. c \<in> set cs) s"

definition trim_set :: "string \<Rightarrow> string \<Rightarrow> string" where
  "trim_set s cs = trim_right_set (trim_left_set s cs) cs"

text \<open>The white space of \<open>unicode.IsSpace\<close>, each in its UTF-8 encoding.\<close>

definition go_spaces :: "string list" where
  "go_spaces =
    [[CHR 0x20], [CHR 0x09], [CHR 0x0A], [CHR 0x0B], [CHR 0x0C], [CHR 0x0D],
     [CHR 0xC2, CHR 0x85], [CHR 0xC2, CHR 0xA0], [CHR 0xE1, CHR 0x9A, CHR 0x80],
     [CHR 0xE2, CHR 0x80, CHR 0x80], [CHR 0xE2, CHR 0x80, CHR 0x81], [CHR 0xE2, CHR 0x80, CHR 0x82],
     [CHR 0xE2, CHR 0x80, CHR 0x83], [CHR 0xE2, CHR 0x80, CHR 0x84], [CHR 0xE2, CHR 0x80, CHR 0x85],
     [CHR 0xE2, CHR 0x80, CHR 0x86], [CHR 0xE2, CHR 0x80, CHR 0x87], [CHR 0xE2, CHR 0x80, CHR 0x88],
     [CHR 0xE2, CHR 0x80, CHR 0x89], [CHR 0xE2, CHR 0x80, CHR 0x8A], [CHR 0xE2, CHR 0x80, CHR 0xA8],
     [CHR 0xE2, CHR 0x80, CHR 0xA9], [CHR 0xE2, CHR 0x80, CHR 0xAF], [CHR 0xE2, CHR 0x81, CHR 0x9F],
     [CHR 0xE3, CHR 0x80, CHR 0x80]]"

function strip_words :: "string list \<Rightarrow> string \<Rightarrow> string" where
  "strip_words ws s =
     (case find (\<lambda>w. w \<noteq> [] \<and> prefix w s) ws of
        None \<Rightarrow> s
      | Some w \<Rightarrow> strip_words ws (drop (length w) s))"
  by pat_completeness auto
termination
proof (relation "measure (\<lambda>(ws, s). length s)", simp)
  fix ws :: "string list" and s w
  assume "find (\<lambda>w. w \<noteq> [] \<and> prefix w s) ws = Some w"
  then have "w \<noteq> []" "prefix w s" by (auto simp: find_Some_iff)
  then have "0 < length w" "0 < length s" by (auto simp: prefix_def)
  then show "((ws, drop (length w) s), (ws, s)) \<in> measure (\<lambda>(ws, s). length s)" by simp
qed

declare strip_words.simps [simp del]

definition trim_space :: "string \<Rightarrow> string" where
  "trim_space s = rev (strip_words (map rev go_spaces) (rev (strip_words go_spaces s)))"

definition ascii_lower :: "char \<Rightarrow> char" where
  "ascii_lower c = (if CHR ''A'' \<le> c \<and> c \<le> CHR ''Z'' then char_of (of_char c + 32 :: nat) else c)"

definition ascii_upper :: "char \<Rightarrow> char" where
  "ascii_upper c = (if CHR ''a'' \<le> c \<and> c \<le> CHR ''z'' then char_of (of_char c - 32 :: nat) else c)"

function to_lower :: "string \<Rightarrow> string" where
  "to_lower s =
     (if s = [] then []
      else if prefix [CHR 0xC4, CHR 0xB0] s then CHR ''i'' # to_lower (drop 2 s)
      else if prefix [CHR 0xE2, CHR 0x84, CHR 0xAA] s then CHR ''k'' # to_lower (drop 3 s)
      else ascii_lower (hd s) # to_lower (tl s))"
  by pat_completeness auto
termination by (relation "measure length") auto

declare to_lower.simps [simp del]

definition to_upper :: "string \<Rightarrow> string" where
  "to_upper = map ascii_upper"

text \<open>\<^verbatim>\<open>strings.Contains(s, sub)\<close>.\<close>

fun str_contains :: "string \<Rightarrow> string \<Rightarrow> bool" where
  "str_contains [] sub \<longleftrightarrow> sub = []"
| "str_contains (c # cs) sub \<longleftrightarrow> has_prefix (c # cs) sub \<or> str_contains cs sub"

subsection \<open>Splitting and joining\<close>

lemma split_on_nonempty [simp]: "split_on c s \<noteq> []"
  by (induction s) (auto split: list.splits)

lemma split_on_append: "split_on c (a @ c # b) = split_on c a @ split_on c b"
  by (induction a) (auto split: list.splits simp: Cons_eq_append_conv)

lemma split_on_snoc_sep: "split_on c (a @ [c]) = split_on c a @ [[]]"
  by (simp add: split_on_append)

lemma split_on_snoc:
  "x \<noteq> c \<Longrightarrow> split_on c (a @ [x]) = butlast (split_on c a) @ [last (split_on c a) @ [x]]"
  by (induction a) (auto split: list.splits simp: neq_Nil_conv)

lemma split_on_no_sep [simp]: "c \<notin> set s \<Longrightarrow> split_on c s = [s]"
  by (induction s) auto

lemma split_on_parts: "l \<in> set (split_on c s) \<Longrightarrow> c \<notin> set l"
  by (induction s arbitrary: l) (auto split: list.splits if_splits)

lemma join_Cons: "ls \<noteq> [] \<Longrightarrow> join_with c (l # ls) = l @ c # join_with c ls"
  by (cases ls) auto

lemma join_split [simp]: "join_with c (split_on c s) = s"
proof (induction s)
  case (Cons x xs)
  obtain l ls where l: "split_on c xs = l # ls"
    by (cases "split_on c xs") auto
  with Cons show ?case by (cases ls) auto
qed simp

lemma split_join: "ls \<noteq> [] \<Longrightarrow> (\<And>l. l \<in> set ls \<Longrightarrow> c \<notin> set l) \<Longrightarrow> split_on c (join_with c ls) = ls"
proof (induction ls)
  case (Cons l ls)
  show ?case
  proof (cases "ls = []")
    case False
    with Cons show ?thesis by (simp add: join_Cons split_on_append)
  qed (use Cons.prems in simp)
qed simp

lemma cut_at_first: "c \<notin> set a \<Longrightarrow> cut_at c (a @ c # b) = Some (a, b)"
  by (induction a) auto

lemma cut_at_snoc: "x \<noteq> c \<Longrightarrow> cut_at c (s @ [x]) = map_option (\<lambda>(a, b). (a, b @ [x])) (cut_at c s)"
  by (induction s) (auto simp: option.map_comp comp_def split_def)

subsection \<open>Trimming\<close>

lemma trim_right_set_last: "c \<notin> set cs \<Longrightarrow> trim_right_set (s @ [c]) cs = s @ [c]"
  by (simp add: trim_right_set_def)

lemma trim_right_set_snoc: "c \<in> set cs \<Longrightarrow> trim_right_set (s @ [c]) cs = trim_right_set s cs"
  by (simp add: trim_right_set_def)

lemma strip_words_stop:
  "(\<And>w. w \<in> set ws \<Longrightarrow> w \<noteq> [] \<Longrightarrow> \<not> prefix w s) \<Longrightarrow> strip_words ws s = s"
  by (subst strip_words.simps) (auto simp: find_None_iff split: option.splits dest!: find_Some_iff[THEN iffD1])

lemma strip_words_stopped: "w \<in> set ws \<Longrightarrow> w \<noteq> [] \<Longrightarrow> \<not> prefix w (strip_words ws s)"
proof (induction ws s rule: strip_words.induct)
  case (1 ws s)
  show ?case
  proof (cases "find (\<lambda>w. w \<noteq> [] \<and> prefix w s) ws")
    case None
    then have "strip_words ws s = s" by (subst strip_words.simps) simp
    with None 1 show ?thesis by (auto simp: find_None_iff)
  next
    case (Some v)
    with 1 show ?thesis by (subst strip_words.simps) auto
  qed
qed

lemma strip_words_suffix: "suffix (strip_words ws s) s"
proof (induction ws s rule: strip_words.induct)
  case (1 ws s)
  then show ?case
    by (subst strip_words.simps) (auto split: option.splits intro: suffix_order.trans suffix_drop)
qed

text \<open>
  A character that occurs in no white space encoding (every printable ASCII character but the
  space) stops the trimming from either side.
\<close>

definition plain :: "char \<Rightarrow> bool" where
  "plain c \<longleftrightarrow> (33::nat) \<le> of_char c \<and> (of_char c :: nat) \<le> 126"

definition trim_right_space :: "string \<Rightarrow> string" where
  "trim_right_space s = rev (strip_words (map rev go_spaces) (rev s))"

lemma trim_space_alt: "trim_space s = trim_right_space (strip_words go_spaces s)"
  by (simp add: trim_space_def trim_right_space_def)

lemma go_spaces_scan:
  "list_all (\<lambda>w. w \<noteq> [] \<and> list_all (\<lambda>c. \<not> plain c) w) go_spaces"
  "list_all (\<lambda>v. list_all (\<lambda>w. length v = 1 \<longrightarrow> last w = hd v \<or> hd w = hd v \<longrightarrow> w = v) go_spaces) go_spaces"
  by code_simp+

lemma go_spaces_plain: "w \<in> set go_spaces \<Longrightarrow> plain c \<Longrightarrow> c \<notin> set w"
  using go_spaces_scan(1) by (auto simp: list_all_iff)

lemma go_spaces_single_last: "w \<in> set go_spaces \<Longrightarrow> [c] \<in> set go_spaces \<Longrightarrow> last w = c \<Longrightarrow> w = [c]"
  using go_spaces_scan(2) by (fastforce simp: list_all_iff)

lemma go_spaces_single_hd: "w \<in> set go_spaces \<Longrightarrow> [c] \<in> set go_spaces \<Longrightarrow> hd w = c \<Longrightarrow> w = [c]"
  using go_spaces_scan(2) by (fastforce simp: list_all_iff)

lemma go_spaces_nonempty: "w \<in> set go_spaces \<Longrightarrow> w \<noteq> []"
  using go_spaces_scan(1) by (auto simp: list_all_iff)

lemma prefix_snoc_notin: "c \<notin> set w \<Longrightarrow> prefix w (x @ c # y) \<longleftrightarrow> prefix w x"
proof (induction w arbitrary: x)
  case (Cons d w)
  then show ?case by (cases x) auto
qed simp

lemma strip_words_stop_at:
  assumes "\<And>w. w \<in> set ws \<Longrightarrow> c \<notin> set w"
  shows "strip_words ws (x @ c # y) = strip_words ws x @ c # y"
  using assms
proof (induction ws x rule: strip_words.induct)
  case (1 ws s)
  have eq: "find (\<lambda>w. w \<noteq> [] \<and> prefix w (s @ c # y)) ws = find (\<lambda>w. w \<noteq> [] \<and> prefix w s) ws"
    by (rule find_cong) (auto simp: prefix_snoc_notin 1(2))
  show ?case
  proof (cases "find (\<lambda>w. w \<noteq> [] \<and> prefix w s) ws")
    case None
    then show ?thesis by (simp add: strip_words.simps [of ws "s @ c # y"] strip_words.simps [of ws s] eq)
  next
    case (Some w)
    then have "length w \<le> length s" by (auto simp: find_Some_iff prefix_length_le)
    with Some "1.IH" [OF Some "1.prems"] show ?thesis
      by (simp add: strip_words.simps [of ws "s @ c # y"] strip_words.simps [of ws s] eq)
  qed
qed

lemma strip_words_Cons_single:
  assumes "[c] \<in> set ws" and "\<And>w. w \<in> set ws \<Longrightarrow> w \<noteq> [] \<Longrightarrow> hd w = c \<Longrightarrow> w = [c]"
  shows "strip_words ws (c # s) = strip_words ws s"
proof -
  let ?P = "\<lambda>w. w \<noteq> [] \<and> prefix w (c # s)"
  have "find ?P ws \<noteq> None" using assms(1) by (auto simp: find_None_iff)
  then obtain w where w: "find ?P ws = Some w" by blast
  then have in_ws: "w \<in> set ws" and ne: "w \<noteq> []" and "prefix w (c # s)"
    by (auto simp: find_Some_iff)
  then have "hd w = c" by (auto simp: prefix_Cons)
  with in_ws ne have "w = [c]" by (rule assms(2))
  with w show ?thesis by (subst strip_words.simps) simp
qed

lemma strip_words_snoc_single:
  assumes "[c] \<in> set ws" and "\<And>w. w \<in> set ws \<Longrightarrow> w \<noteq> [] \<Longrightarrow> last w = c \<Longrightarrow> w = [c]"
  shows "strip_words ws (s @ [c]) = (if strip_words ws s = [] then [] else strip_words ws s @ [c])"
  using assms
proof (induction ws s rule: strip_words.induct)
  case (1 ws s)
  show ?case
  proof (cases "s = []")
    case True
    let ?P = "\<lambda>w. w \<noteq> [] \<and> prefix w [c]"
    have "find ?P ws \<noteq> None" using "1.prems"(1) by (auto simp: find_None_iff)
    then obtain w where w: "find ?P ws = Some w" by blast
    then have "w = [c]" by (auto simp: find_Some_iff prefix_Cons)
    with w have "strip_words ws [c] = strip_words ws []" by (subst strip_words.simps) simp
    moreover have "strip_words ws [] = []" by (rule strip_words_stop) auto
    ultimately show ?thesis using True by simp
  next
    case False
    have eq: "find (\<lambda>w. w \<noteq> [] \<and> prefix w (s @ [c])) ws = find (\<lambda>w. w \<noteq> [] \<and> prefix w s) ws"
    proof (rule find_cong [OF refl])
      fix w assume w: "w \<in> set ws"
      then have "\<lbrakk>w \<noteq> []; w = s @ [c]\<rbrakk> \<Longrightarrow> False" using "1.prems"(2) [of w] False by auto
      then show "(w \<noteq> [] \<and> prefix w (s @ [c])) = (w \<noteq> [] \<and> prefix w s)" by auto
    qed
    show ?thesis
    proof (cases "find (\<lambda>w. w \<noteq> [] \<and> prefix w s) ws")
      case None
      then have "strip_words ws s = s" "strip_words ws (s @ [c]) = s @ [c]"
        by (simp_all del: prefix_snoc add: strip_words.simps [of ws "s @ [c]"] strip_words.simps [of ws s] eq)
      with False show ?thesis by simp
    next
      case (Some w)
      then have "length w \<le> length s" by (auto simp: find_Some_iff prefix_length_le)
      then have "strip_words ws (s @ [c]) = strip_words ws (drop (length w) s @ [c])"
        by (simp del: prefix_snoc add: strip_words.simps [of ws "s @ [c]"] eq Some)
      moreover have "strip_words ws s = strip_words ws (drop (length w) s)"
        by (simp add: strip_words.simps [of ws s] Some)
      ultimately show ?thesis using "1.IH" [OF Some "1.prems"] by presburger
    qed
  qed
qed

lemma trim_right_space_single: "[c] \<in> set go_spaces \<Longrightarrow> trim_right_space (s @ [c]) = trim_right_space s"
proof -
  assume c: "[c] \<in> set go_spaces"
  then have "[c] \<in> set (map rev go_spaces)" by force
  moreover have "w = [c]" if "w \<in> set (map rev go_spaces)" "w \<noteq> []" "hd w = c" for w
    using that c go_spaces_single_last [of "rev w" c] by (auto simp: hd_rev last_rev)
  ultimately have "strip_words (map rev go_spaces) (c # rev s) = strip_words (map rev go_spaces) (rev s)"
    by (rule strip_words_Cons_single)
  then show ?thesis by (simp add: trim_right_space_def)
qed

lemma trim_space_Cons_single: "[c] \<in> set go_spaces \<Longrightarrow> trim_space (c # s) = trim_space s"
  unfolding trim_space_def
  by (subst strip_words_Cons_single) (auto dest: go_spaces_single_hd)

lemma trim_right_space_Nil [simp]: "trim_right_space [] = []"
  by (simp add: trim_right_space_def strip_words_stop)

lemma trim_space_snoc_single: "[c] \<in> set go_spaces \<Longrightarrow> trim_space (s @ [c]) = trim_space s"
  unfolding trim_space_alt
  by (subst strip_words_snoc_single) (auto dest: go_spaces_single_last simp: trim_right_space_single)

lemma go_spaces_ascii:
  "[CHR 0x20] \<in> set go_spaces" "[CHR 0x0D] \<in> set go_spaces" "[CHR 0x09] \<in> set go_spaces"
  "[CHR 0x0A] \<in> set go_spaces"
  unfolding go_spaces_def by simp_all

lemma trim_right_space_plain: "plain c \<Longrightarrow> trim_right_space (x @ c # y) = x @ c # trim_right_space y"
proof -
  assume "plain c"
  then have "c \<notin> set w" if "w \<in> set (map rev go_spaces)" for w
    using that by (auto dest: go_spaces_plain)
  from strip_words_stop_at [of "map rev go_spaces" c "rev y" "rev x", OF this]
  show ?thesis by (simp add: trim_right_space_def)
qed

lemma strip_words_plain: "plain c \<Longrightarrow> strip_words go_spaces (x @ c # y) = strip_words go_spaces x @ c # y"
  by (rule strip_words_stop_at) (auto dest: go_spaces_plain)

lemma strip_go_Nil [simp]: "strip_words go_spaces [] = []"
  by (rule strip_words_stop) auto

lemma trim_space_Nil [simp]: "trim_space [] = []"
  by (simp add: trim_space_alt)

lemma trim_space_Cons_plain: "plain c \<Longrightarrow> trim_space (c # s) = c # trim_right_space s"
  using strip_words_plain [of c "[]" s] trim_right_space_plain [of c "[]" s]
  by (simp add: trim_space_alt)

lemma trim_right_space_snoc_plain: "plain c \<Longrightarrow> trim_right_space (s @ [c]) = s @ [c]"
  using trim_right_space_plain [of c s "[]"] by simp

lemma trim_space_plain_ends:
  assumes "s \<noteq> []" "plain (hd s)" "plain (last s)"
  shows "trim_space s = s"
proof -
  obtain c t where s: "s = c # t" using assms(1) by (cases s) auto
  have "trim_right_space t = t"
  proof (cases t rule: rev_cases)
    case (snoc u d)
    with assms(3) s show ?thesis by (simp add: trim_right_space_snoc_plain)
  qed simp
  with assms(2) s show ?thesis by (simp add: trim_space_Cons_plain)
qed

lemma trim_right_space_prefix: "prefix (trim_right_space s) s"
  unfolding trim_right_space_def
  using strip_words_suffix [of "map rev go_spaces" "rev s"] by (simp add: suffix_to_prefix)

lemma trim_space_idem [simp]: "trim_space (trim_space s) = trim_space s"
proof -
  let ?t = "strip_words go_spaces s"
  let ?r = "trim_right_space ?t"
  have "strip_words go_spaces ?r = ?r"
  proof (rule strip_words_stop)
    fix w assume "w \<in> set go_spaces" "w \<noteq> []"
    then have "\<not> prefix w ?t" by (rule strip_words_stopped)
    with trim_right_space_prefix [of ?t] show "\<not> prefix w ?r" by (meson prefix_order.trans)
  qed
  moreover have "trim_right_space ?r = ?r"
    unfolding trim_right_space_def
    using strip_words_stop [of "map rev go_spaces", OF strip_words_stopped] by simp
  ultimately show ?thesis by (simp add: trim_space_alt)
qed

lemma trim_space_sublist: "sublist (trim_space s) s"
  unfolding trim_space_alt
  using trim_right_space_prefix [of "strip_words go_spaces s"] strip_words_suffix [of go_spaces s]
  by (meson prefix_imp_sublist suffix_imp_sublist sublist_order.order.trans)

lemma trim_space_set: "set (trim_space s) \<subseteq> set s"
  using trim_space_sublist [of s] by (rule set_mono_sublist)

subsection \<open>Case mapping\<close>

lemma prefix_Cons_hd: "prefix (c # cs) s \<Longrightarrow> c \<in> set s"
  by (auto simp: prefix_def)

lemma to_lower_id:
  assumes "\<And>c. c \<in> set s \<Longrightarrow> ascii_lower c = c \<and> (of_char c :: nat) < 128"
  shows "to_lower s = s"
  using assms
proof (induction s rule: to_lower.induct)
  case (1 s)
  have "CHR 0xC4 \<notin> set s" "CHR 0xE2 \<notin> set s"
    using "1.prems" [of "CHR 0xC4"] "1.prems" [of "CHR 0xE2"] by auto
  then have np: "\<not> prefix [CHR 0xC4, CHR 0xB0] s" "\<not> prefix [CHR 0xE2, CHR 0x84, CHR 0xAA] s"
    by (auto dest: prefix_Cons_hd)
  show ?case
  proof (cases s)
    case Nil
    then show ?thesis by (simp add: to_lower.simps)
  next
    case (Cons c cs)
    with np "1.IH"(3) "1.prems" have "to_lower cs = cs" by simp
    with Cons np "1.prems" show ?thesis by (auto simp: to_lower.simps [of "c # cs"])
  qed
qed

end
