(* ===== verification/GoPath.thy ===== *)
theory GoPath
  imports GoStrings
begin

section \<open>File paths: the functions of \<^verbatim>\<open>path/filepath\<close> on Unix\<close>

text \<open>
  Paths are strings with \<^verbatim>\<open>/\<close> as the separator. \<open>clean\<close>, \<open>join_path\<close>, \<open>dir_of\<close>, \<open>base_of\<close>,
  \<open>ext_of\<close> and \<open>rel_path\<close> are \<open>Clean\<close>, \<open>Join\<close>, \<open>Dir\<close>, \<open>Base\<close>, \<open>Ext\<close> and \<open>Rel\<close>, stated over the list
  of path elements. \<open>itoa\<close> is \<^verbatim>\<open>strconv.Itoa\<close> for numbers that are not negative.
\<close>

abbreviation slash :: char where "slash \<equiv> CHR 0x2F"

fun itoa :: "nat \<Rightarrow> string" where
  "itoa n = (if n < 10 then [char_of (48 + n)] else itoa (n div 10) @ [char_of (48 + n mod 10)])"

declare itoa.simps [simp del]

definition is_abs :: "string \<Rightarrow> bool" where
  "is_abs p \<longleftrightarrow> has_prefix p [slash]"

text \<open>One element of a path processed against the elements kept so far (last first).\<close>

definition clean_step :: "bool \<Rightarrow> string list \<Rightarrow> string \<Rightarrow> string list" where
  "clean_step rooted kept e =
     (if e = [] \<or> e = ''.'' then kept
      else if e = ''..'' then
        (case kept of
           [] \<Rightarrow> (if rooted then [] else [e])
         | k # ks \<Rightarrow> (if k = ''..'' then e # kept else ks))
      else e # kept)"

definition clean_elems :: "bool \<Rightarrow> string list \<Rightarrow> string list" where
  "clean_elems rooted es = rev (foldl (clean_step rooted) [] es)"

definition path_elems :: "string \<Rightarrow> string list" where
  "path_elems p = clean_elems (is_abs p) (split_on slash p)"

definition unparse_path :: "bool \<Rightarrow> string list \<Rightarrow> string" where
  "unparse_path rooted es =
     (if rooted then slash # join_with slash es
      else if es = [] then ''.'' else join_with slash es)"

definition clean :: "string \<Rightarrow> string" where
  "clean p = unparse_path (is_abs p) (path_elems p)"

definition join_path :: "string list \<Rightarrow> string" where
  "join_path es =
     (case dropWhile (\<lambda>e. e = []) es of [] \<Rightarrow> [] | es' \<Rightarrow> clean (join_with slash es'))"

definition dir_of :: "string \<Rightarrow> string" where
  "dir_of p = clean (rev (dropWhile (\<lambda>c. c \<noteq> slash) (rev p)))"

definition last_elem :: "string \<Rightarrow> string" where
  "last_elem p = last (split_on slash p)"

definition base_of :: "string \<Rightarrow> string" where
  "base_of p =
     (if p = [] then ''.''
      else let q = trim_right_set p [slash]
           in if q = [] then [slash] else last_elem q)"

text \<open>\<^verbatim>\<open>filepath.Ext\<close>: from the last dot of the last element on, empty without a dot.\<close>

definition ext_of :: "string \<Rightarrow> string" where
  "ext_of p =
     (let e = last_elem p in
      if CHR ''.'' \<in> set e then CHR ''.'' # rev (takeWhile (\<lambda>c. c \<noteq> CHR ''.'') (rev e)) else [])"

text \<open>
  \<^verbatim>\<open>filepath.Rel\<close>: the common elements are dropped, one \<^verbatim>\<open>..\<close> is put for each element of the base
  that is left; an error (\<open>None\<close>) when only one of the paths is absolute or when a \<^verbatim>\<open>..\<close> of the base
  is left.
\<close>

fun drop_common :: "string list \<Rightarrow> string list \<Rightarrow> string list \<times> string list" where
  "drop_common (b # bs) (t # ts) = (if b = t then drop_common bs ts else (b # bs, t # ts))"
| "drop_common bs ts = (bs, ts)"

definition rel_path :: "string \<Rightarrow> string \<Rightarrow> string option" where
  "rel_path base targ =
     (if is_abs base \<noteq> is_abs targ then None
      else (case drop_common (path_elems base) (path_elems targ) of
              (bs, ts) \<Rightarrow>
                if ''..'' \<in> set bs then None
                else Some (unparse_path False (map (\<lambda>_. ''..'') bs @ ts))))"

lemma itoa_no_slash: "slash \<notin> set (itoa n)"
proof (induction n rule: itoa.induct)
  case (1 n)
  have digit: "slash \<noteq> char_of (48 + m)" if "m < 10" for m :: nat
  proof
    assume "slash = char_of (48 + m)"
    then have "of_char slash = (of_char (char_of (48 + m) :: char) :: nat)" by simp
    with that show False by simp
  qed
  show ?case
  proof (cases "n < 10")
    case True
    with digit [of n] show ?thesis by (simp add: itoa.simps)
  next
    case False
    with 1 digit [of "n mod 10"] show ?thesis by (simp add: itoa.simps [of n])
  qed
qed

lemma last_split_append: "last (split_on c (a @ c # b)) = last (split_on c b)"
  by (simp add: split_on_append)

lemma last_elem_append: "slash \<notin> set e \<Longrightarrow> last_elem (d @ slash # e) = e"
  by (simp add: last_elem_def last_split_append)

end
