(* ===== verification/GoErrors.thy ===== *)
theory GoErrors
  imports Prelude
begin

section \<open>Errors: sentinels, wrapping and the typed errors of the runtime and the control core\<close>

text \<open>
  Go errors as the source builds them. \<open>Sentinel\<close> is a package-level \<^verbatim>\<open>errors.New\<close> value (the
  operating system's included), \<open>Plain\<close> an error with only a text, \<open>Wrap\<close> the result of
  \<^verbatim>\<open>fmt.Errorf\<close> with one or more \<^verbatim>\<open>%w\<close>, \<open>Joined\<close> that of \<^verbatim>\<open>errors.Join\<close>, \<open>RtErr\<close> and \<open>CoreErr\<close> the
  structured errors of \<^verbatim>\<open>core/runtime/types.go\<close> and \<^verbatim>\<open>core/control/errors.go\<close>. A message is the
  list of the fragments its format string puts together, so that nothing depends on how
  \<^verbatim>\<open>%q\<close> quotes.
\<close>

datatype sentinel =
    OsNotExist | OsExist | ErrUnsupported | CtxCanceled | CtxDeadline
  | PresetInvalid | PresetExists | PresetNotFound
  | AutostartCapExceeded | ConfigEmpty | ConfigTooLarge | ConfigMalformed
  | CatalogInvalidInput | CatalogNotFound
  | DownloadInvalidInput | DownloadNotFound | DownloadConflict
  | SymlinkNotAllowed | ExecNotFound | SetupCancelled | ServerClosed

text \<open>\<^verbatim>\<open>runtime.ErrorKind\<close> and \<^verbatim>\<open>control.ErrorKind\<close>; the empty kind is \<open>None\<close> of an option.\<close>

datatype rt_kind = RtInvalidInput | RtRuntime | RtTimeout

datatype error_kind =
    ErrorInvalidInput | ErrorNotFound | ErrorConflict | ErrorRuntime
  | ErrorTimeout | ErrorPermission | ErrorInternal

datatype gerror =
    Sentinel sentinel
  | Plain "frag list"
  | Wrap "frag list" "gerror list"
  | Joined "gerror list"
  | RtErr rt_kind "frag list" "gerror option"
  | CoreErr error_kind "frag list" "gerror option"
and frag =
    Lit string
  | Quoted string
  | Str string
  | Num int
  | Names "string list"
  | TextOf gerror

type_synonym msg = "frag list"

text \<open>\<^verbatim>\<open>errors.Is\<close>: the tree of wrapped errors holds the sentinel.\<close>

fun errors_is :: "gerror \<Rightarrow> sentinel \<Rightarrow> bool" where
  "errors_is (Sentinel s) t \<longleftrightarrow> s = t"
| "errors_is (Plain m) t \<longleftrightarrow> False"
| "errors_is (Wrap m es) t \<longleftrightarrow> list_ex (\<lambda>e. errors_is e t) es"
| "errors_is (Joined es) t \<longleftrightarrow> list_ex (\<lambda>e. errors_is e t) es"
| "errors_is (RtErr k m c) t \<longleftrightarrow> (case c of None \<Rightarrow> False | Some e \<Rightarrow> errors_is e t)"
| "errors_is (CoreErr k m c) t \<longleftrightarrow> (case c of None \<Rightarrow> False | Some e \<Rightarrow> errors_is e t)"

text \<open>\<^verbatim>\<open>errors.AsType\<close>: the first error of the wanted type, depth first.\<close>

fun first_some :: "'a option list \<Rightarrow> 'a option" where
  "first_some [] = None"
| "first_some (None # xs) = first_some xs"
| "first_some (Some x # xs) = Some x"

fun as_runtime :: "gerror \<Rightarrow> (rt_kind \<times> msg) option" where
  "as_runtime (RtErr k m c) = Some (k, m)"
| "as_runtime (CoreErr k m c) = (case c of None \<Rightarrow> None | Some e \<Rightarrow> as_runtime e)"
| "as_runtime (Wrap m es) = first_some (map as_runtime es)"
| "as_runtime (Joined es) = first_some (map as_runtime es)"
| "as_runtime (Sentinel s) = None"
| "as_runtime (Plain m) = None"

fun as_core :: "gerror \<Rightarrow> (error_kind \<times> msg) option" where
  "as_core (CoreErr k m c) = Some (k, m)"
| "as_core (RtErr k m c) = (case c of None \<Rightarrow> None | Some e \<Rightarrow> as_core e)"
| "as_core (Wrap m es) = first_some (map as_core es)"
| "as_core (Joined es) = first_some (map as_core es)"
| "as_core (Sentinel s) = None"
| "as_core (Plain m) = None"

text \<open>Whether the text of an error is the empty string (\<^verbatim>\<open>err.Error() == ""\<close>).\<close>

fun text_empty :: "gerror \<Rightarrow> bool" and frag_empty :: "frag \<Rightarrow> bool" where
  "text_empty (Sentinel s) = False"
| "text_empty (Plain m) = list_all frag_empty m"
| "text_empty (Wrap m es) = list_all frag_empty m"
| "text_empty (Joined es) = (length es \<le> 1 \<and> list_all text_empty es)"
| "text_empty (RtErr k m c) = list_all frag_empty m"
| "text_empty (CoreErr k m c) = list_all frag_empty m"
| "frag_empty (Lit s) = (s = [])"
| "frag_empty (Quoted s) = False"
| "frag_empty (Str s) = (s = [])"
| "frag_empty (Num i) = False"
| "frag_empty (Names ns) = False"
| "frag_empty (TextOf e) = text_empty e"

definition errors_join :: "gerror list \<Rightarrow> gerror option" where
  "errors_join es = (if es = [] then None else Some (Joined es))"

lemma errors_is_wrap1 [simp]: "errors_is (Wrap m [e]) t = errors_is e t"
  by simp

lemma as_core_wrap1 [simp]: "as_core (Wrap m [e]) = as_core e"
  by (simp split: option.splits) (cases "as_core e"; simp)

text \<open>The error kinds of \<^verbatim>\<open>core/runtime/types.go\<close> (the empty kind is \<open>None\<close>).\<close>

definition runtime_NewError :: "rt_kind \<Rightarrow> msg \<Rightarrow> gerror option \<Rightarrow> gerror" where
  "runtime_NewError kind message err = RtErr kind message err"

definition runtime_Errorf :: "rt_kind \<Rightarrow> msg \<Rightarrow> gerror" where
  "runtime_Errorf kind message = RtErr kind message None"

definition runtime_Kind :: "gerror option \<Rightarrow> rt_kind option" where
  "runtime_Kind err = (case err of None \<Rightarrow> None | Some e \<Rightarrow> map_option fst (as_runtime e))"

end
