(* ===== verification/Os.thy ===== *)
theory Os
  imports GoPath GoErrors
begin

section \<open>The operating system as the source sees it\<close>

text \<open>
  The state that the calls of package \<open>os\<close> read and change. \<open>os_files\<close> maps a path to its node;
  every call counts one tick, and \<open>os_fault\<close> says at which tick a call fails, with which error
  and, for a write, how many bytes reached the file before. A statement for every \<open>os_fault\<close>
  thus covers every pattern of failing calls. \<open>os_trace\<close> records the files after each change:
  what another process, or a reader after a crash, can find. \<open>os_rand\<close> supplies the numbers of
  temporary names, \<open>os_stamp\<close> the time stamps and random suffixes of backup names and \<open>os_sha\<close> is SHA-256 in
  hexadecimal, \<open>os_cwd\<close> the working directory. The record is extended by the components that talk to something else.
\<close>

datatype node = RegFile string nat | DirNode nat | LinkNode string

record os =
  os_files :: "string \<Rightarrow> node option"
  os_tick :: nat
  os_fault :: "nat \<Rightarrow> (gerror \<times> nat) option"
  os_trace :: "(string \<Rightarrow> node option) list"
  os_rand :: "nat \<Rightarrow> nat"
  os_stamp :: "nat \<Rightarrow> string"
  os_sha :: "string \<Rightarrow> string"
  os_cwd :: string

type_synonym ('z, 'a) io = "('z os_scheme, gerror, 'a) eff"

definition set_node :: "string \<Rightarrow> node option \<Rightarrow> 'z os_scheme \<Rightarrow> 'z os_scheme" where
  "set_node p n w =
     (let fs = (os_files w)(p := n) in w\<lparr>os_files := fs, os_trace := os_trace w @ [fs]\<rparr>)"

text \<open>One call: a tick, then the planned failure or the effect.\<close>

definition os_call :: "('z, 'a) io \<Rightarrow> ('z, 'a) io" where
  "os_call f w =
     (let w' = w\<lparr>os_tick := Suc (os_tick w)\<rparr> in
      case os_fault w (os_tick w) of Some (e, n) \<Rightarrow> (Inl e, w') | None \<Rightarrow> f w')"

text \<open>The node a path leads to, following links (at most forty, as Linux does).\<close>

fun follow :: "nat \<Rightarrow> (string \<Rightarrow> node option) \<Rightarrow> string \<Rightarrow> string option" where
  "follow 0 fs p = None"
| "follow (Suc n) fs p = (case fs p of Some (LinkNode t) \<Rightarrow> follow n fs t | _ \<Rightarrow> Some p)"

definition link_loop :: gerror where
  "link_loop = Plain [Lit ''too many levels of symbolic links'']"

definition stat_node :: "(string \<Rightarrow> node option) \<Rightarrow> string \<Rightarrow> gerror + node" where
  "stat_node fs p =
     (case follow 40 fs p of
        None \<Rightarrow> Inl link_loop
      | Some q \<Rightarrow> (case fs q of None \<Rightarrow> Inl (Sentinel OsNotExist) | Some n \<Rightarrow> Inr n))"

definition os_stat :: "string \<Rightarrow> ('z, node) io" where
  "os_stat p = os_call (\<lambda>w. (stat_node (os_files w) p, w))"

definition os_lstat :: "string \<Rightarrow> ('z, node) io" where
  "os_lstat p =
     os_call (\<lambda>w. (case os_files w p of None \<Rightarrow> Inl (Sentinel OsNotExist) | Some n \<Rightarrow> Inr n, w))"

fun node_data :: "node \<Rightarrow> gerror + string" where
  "node_data (RegFile d m) = Inr d"
| "node_data (DirNode m) = Inl (Plain [Lit ''is a directory''])"
| "node_data (LinkNode t) = Inl link_loop"

definition os_read_file :: "string \<Rightarrow> ('z, string) io" where
  "os_read_file p =
     os_call (\<lambda>w. (case stat_node (os_files w) p of Inl e \<Rightarrow> Inl e | Inr n \<Rightarrow> node_data n, w))"

text \<open>\<^verbatim>\<open>os.CreateTemp\<close>: names are tried until one does not exist, ten thousand times at most.\<close>

definition temp_name :: "string \<Rightarrow> string \<Rightarrow> nat \<Rightarrow> string" where
  "temp_name dir pfx n = dir @ slash # pfx @ itoa n"

fun create_temp_try :: "nat \<Rightarrow> string \<Rightarrow> string \<Rightarrow> ('z, string) io" where
  "create_temp_try 0 dir pfx w = (Inl (Sentinel OsExist), w)"
| "create_temp_try (Suc k) dir pfx w =
     (let p = temp_name dir pfx (os_rand w (os_tick w)); w' = w\<lparr>os_tick := Suc (os_tick w)\<rparr> in
      case os_files w p of
        Some _ \<Rightarrow> create_temp_try k dir pfx w'
      | None \<Rightarrow> (Inr p, set_node p (Some (RegFile [] 384)) w'))"

definition os_create_temp :: "string \<Rightarrow> string \<Rightarrow> ('z, string) io" where
  "os_create_temp dir pfx = os_call (create_temp_try 10000 dir pfx)"

text \<open>\<^verbatim>\<open>filepath.Abs\<close>: relative to the working directory.\<close>

definition os_abs :: "string \<Rightarrow> ('z, string) io" where
  "os_abs p =
     (if is_abs p then retE (clean p) else os_call (\<lambda>w. (Inr (join_path [os_cwd w, p]), w)))"

text \<open>
  \<^verbatim>\<open>(*os.File).Write\<close> at the end of the file behind \<open>p\<close>: a failing write may have written a prefix.
\<close>

definition append_data :: "string \<Rightarrow> string \<Rightarrow> 'z os_scheme \<Rightarrow> 'z os_scheme" where
  "append_data p d w =
     (case os_files w p of Some (RegFile old m) \<Rightarrow> set_node p (Some (RegFile (old @ d) m)) w | _ \<Rightarrow> w)"

definition os_write :: "string \<Rightarrow> string \<Rightarrow> ('z, unit) io" where
  "os_write p d w =
     (let w' = w\<lparr>os_tick := Suc (os_tick w)\<rparr> in
      case os_fault w (os_tick w) of
        Some (e, n) \<Rightarrow> (Inl e, append_data p (take n d) w')
      | None \<Rightarrow> (Inr (), append_data p d w'))"

definition os_chmod :: "string \<Rightarrow> nat \<Rightarrow> ('z, unit) io" where
  "os_chmod p m =
     os_call (\<lambda>w. case os_files w p of
       Some (RegFile d _) \<Rightarrow> (Inr (), set_node p (Some (RegFile d m)) w)
     | Some (DirNode _) \<Rightarrow> (Inr (), set_node p (Some (DirNode m)) w)
     | _ \<Rightarrow> (Inl (Sentinel OsNotExist), w))"

text \<open>\<open>Sync\<close>, \<open>Close\<close> and the opening of a directory can fail and change nothing that is visible.\<close>

definition os_sync :: "string \<Rightarrow> ('z, unit) io" where
  "os_sync p = os_call (\<lambda>w. (Inr (), w))"

definition os_close :: "string \<Rightarrow> ('z, unit) io" where
  "os_close p = os_call (\<lambda>w. (Inr (), w))"

definition os_open :: "string \<Rightarrow> ('z, unit) io" where
  "os_open p =
     os_call (\<lambda>w. (case stat_node (os_files w) p of Inl e \<Rightarrow> Inl e | Inr n \<Rightarrow> Inr (), w))"

text \<open>\<^verbatim>\<open>os.Rename\<close> replaces what is at the target in one step; a file does not replace a directory.\<close>

definition is_dir_at :: "(string \<Rightarrow> node option) \<Rightarrow> string \<Rightarrow> bool" where
  "is_dir_at fs p = (case fs p of Some (DirNode m) \<Rightarrow> True | _ \<Rightarrow> False)"

definition os_rename :: "string \<Rightarrow> string \<Rightarrow> ('z, unit) io" where
  "os_rename p q =
     os_call (\<lambda>w. case os_files w p of
       None \<Rightarrow> (Inl (Sentinel OsNotExist), w)
     | Some n \<Rightarrow>
         if is_dir_at (os_files w) q \<and> \<not> is_dir_at (os_files w) p
         then (Inl (Sentinel OsExist), w)
         else
           (let fs = (os_files w)(p := None, q := Some n)
            in (Inr (), w\<lparr>os_files := fs, os_trace := os_trace w @ [fs]\<rparr>)))"

definition os_remove :: "string \<Rightarrow> ('z, unit) io" where
  "os_remove p =
     os_call (\<lambda>w. case os_files w p of
       None \<Rightarrow> (Inl (Sentinel OsNotExist), w) | Some n \<Rightarrow> (Inr (), set_node p None w))"

text \<open>
  \<^verbatim>\<open>os.OpenFile\<close> with \<^verbatim>\<open>O_CREATE|O_TRUNC\<close> (through links), and \<^verbatim>\<open>os.WriteFile\<close>: create or truncate, then
  write; a failing write leaves a prefix.
\<close>

definition os_create_trunc :: "string \<Rightarrow> nat \<Rightarrow> ('z, string) io" where
  "os_create_trunc p m =
     os_call (\<lambda>w. case follow 40 (os_files w) p of
       None \<Rightarrow> (Inl link_loop, w)
     | Some q \<Rightarrow>
         (case os_files w q of
            Some (DirNode _) \<Rightarrow> (Inl (Plain [Lit ''is a directory'']), w)
          | Some (RegFile _ m') \<Rightarrow> (Inr q, set_node q (Some (RegFile [] m')) w)
          | _ \<Rightarrow> (Inr q, set_node q (Some (RegFile [] m)) w)))"

definition os_write_file :: "string \<Rightarrow> string \<Rightarrow> nat \<Rightarrow> ('z, unit) io" where
  "os_write_file p d m = bindE (os_create_trunc p m) (\<lambda>q. os_write q d)"

definition os_mkdir_all :: "string \<Rightarrow> nat \<Rightarrow> ('z, unit) io" where
  "os_mkdir_all p m =
     os_call (\<lambda>w. case stat_node (os_files w) p of
       Inr (DirNode _) \<Rightarrow> (Inr (), w)
     | Inr _ \<Rightarrow> (Inl (Plain [Lit ''not a directory'']), w)
     | Inl e \<Rightarrow> (if e = Sentinel OsNotExist then (Inr (), set_node p (Some (DirNode m)) w) else (Inl e, w)))"

subsection \<open>Frames\<close>

text \<open>\<open>touches P m\<close>: outside \<open>P\<close> the files, and every state on the way, are those of the start.\<close>

definition agree_off :: "string set \<Rightarrow> (string \<Rightarrow> node option) \<Rightarrow> (string \<Rightarrow> node option) \<Rightarrow> bool" where
  "agree_off P f g \<longleftrightarrow> (\<forall>q. q \<notin> P \<longrightarrow> f q = g q)"

definition touches :: "string set \<Rightarrow> ('z, 'a) io \<Rightarrow> bool" where
  "touches P m \<longleftrightarrow>
     (\<forall>w. agree_off P (os_files (snd (m w))) (os_files w) \<and>
          (\<exists>ts. os_trace (snd (m w)) = os_trace w @ ts \<and> (\<forall>t \<in> set ts. agree_off P t (os_files w))))"

named_theorems touches_intros "frame rules for the files"

lemma agree_off_refl [simp]: "agree_off P f f"
  by (simp add: agree_off_def)

lemma agree_off_trans: "agree_off P f g \<Longrightarrow> agree_off P g h \<Longrightarrow> agree_off P f h"
  by (simp add: agree_off_def)

lemma agree_off_mono: "agree_off P f g \<Longrightarrow> P \<subseteq> Q \<Longrightarrow> agree_off Q f g"
  by (auto simp: agree_off_def)

lemma touchesI:
  assumes "\<And>w. agree_off P (os_files (snd (m w))) (os_files w)"
    and "\<And>w. \<exists>ts. os_trace (snd (m w)) = os_trace w @ ts \<and> (\<forall>t \<in> set ts. agree_off P t (os_files w))"
  shows "touches P m"
  using assms by (simp add: touches_def)

lemma touches_seq:
  assumes "agree_off P (os_files w') (os_files w)"
    and "os_trace w' = os_trace w @ ts" "\<forall>t \<in> set ts. agree_off P t (os_files w)"
    and "touches P m"
  shows "agree_off P (os_files (snd (m w'))) (os_files w) \<and>
    (\<exists>us. os_trace (snd (m w')) = os_trace w @ us \<and> (\<forall>t \<in> set us. agree_off P t (os_files w)))"
proof -
  from assms(4) obtain us where "agree_off P (os_files (snd (m w'))) (os_files w')"
    and "os_trace (snd (m w')) = os_trace w' @ us" and "\<forall>t \<in> set us. agree_off P t (os_files w')"
    unfolding touches_def by blast
  with assms(1-3) show ?thesis by (auto intro: agree_off_trans)
qed

lemma touches_ret [touches_intros]: "touches P (retE x)"
  by (simp add: touches_def)

lemma touches_fail [touches_intros]: "touches P (failE x)"
  by (simp add: touches_def)

lemma touchesE:
  assumes "touches P m" "m w = (r, w')"
  obtains ts where "agree_off P (os_files w') (os_files w)" "os_trace w' = os_trace w @ ts"
    "\<forall>t \<in> set ts. agree_off P t (os_files w)"
  using assms unfolding touches_def by (metis snd_conv)

lemma touches_try [touches_intros]:
  assumes "touches P m" "\<And>e. touches P (h e)" "\<And>x. touches P (k x)"
  shows "touches P (tryE m h k)"
  unfolding touches_def
proof
  fix w
  obtain r w' where r: "m w = (r, w')" by force
  with assms(1) obtain ts where ts: "agree_off P (os_files w') (os_files w)"
    "os_trace w' = os_trace w @ ts" "\<forall>t \<in> set ts. agree_off P t (os_files w)" by (rule touchesE)
  show "agree_off P (os_files (snd (tryE m h k w))) (os_files w) \<and>
    (\<exists>ts. os_trace (snd (tryE m h k w)) = os_trace w @ ts \<and> (\<forall>t\<in>set ts. agree_off P t (os_files w)))"
    using touches_seq [OF ts assms(2)] touches_seq [OF ts assms(3)]
    by (cases r) (simp_all add: tryE_def r)
qed

lemma touches_bind [touches_intros]: "touches P m \<Longrightarrow> (\<And>x. touches P (k x)) \<Longrightarrow> touches P (bindE m k)"
  unfolding bindE_as_try by (intro touches_intros)

lemma touches_snd: "touches P m \<Longrightarrow> (\<And>w. snd (n w) = snd (m w)) \<Longrightarrow> touches P n"
  by (simp add: touches_def)

lemma touches_ignore [touches_intros]: "touches P m \<Longrightarrow> touches P (ignoreE m)"
  by (erule touches_snd) simp

lemma touches_mapErr [touches_intros]: "touches P m \<Longrightarrow> touches P (mapErrE f m)"
  by (erule touches_snd) simp

lemma touches_finally [touches_intros]:
  assumes "touches P m" "touches P d"
  shows "touches P (finallyE m d)"
proof (rule touches_snd)
  show "touches P (tryE m (\<lambda>_. ignoreE d) (\<lambda>_. ignoreE d))" using assms by (intro touches_intros)
qed (auto simp: finallyE_def tryE_def split: prod.splits sum.splits)

lemma touches_if [touches_intros]:
  "(b \<Longrightarrow> touches P m) \<Longrightarrow> (\<not> b \<Longrightarrow> touches P n) \<Longrightarrow> touches P (if b then m else n)"
  by simp

lemma touches_mono: "touches P m \<Longrightarrow> P \<subseteq> Q \<Longrightarrow> touches Q m"
  unfolding touches_def by (meson agree_off_mono)

lemma touches_call:
  fixes f :: "('a, 'b) io"
  assumes "touches P f"
  shows "touches P (os_call f)"
  unfolding touches_def
proof
  fix w :: "'a os_scheme"
  let ?w = "w\<lparr>os_tick := Suc (os_tick w)\<rparr>"
  from assms have "agree_off P (os_files (snd (f ?w))) (os_files ?w) \<and>
    (\<exists>ts. os_trace (snd (f ?w)) = os_trace ?w @ ts \<and> (\<forall>t\<in>set ts. agree_off P t (os_files ?w)))"
    unfolding touches_def by blast
  then show "agree_off P (os_files (snd (os_call f w))) (os_files w) \<and>
    (\<exists>ts. os_trace (snd (os_call f w)) = os_trace w @ ts \<and> (\<forall>t\<in>set ts. agree_off P t (os_files w)))"
    by (simp add: os_call_def Let_def split: option.splits prod.splits)
qed

lemma set_node_agree: "p \<in> P \<Longrightarrow> agree_off P (os_files (set_node p n w)) (os_files w)"
  by (auto simp: set_node_def agree_off_def Let_def)

lemma touches_pure: "(\<And>w. snd (f w) = w) \<Longrightarrow> touches P (os_call f)"
  by (rule touches_call) (simp add: touches_def)

lemma touches_set_node:
  assumes "\<And>w. snd (f w) = w \<or> (\<exists>n. snd (f w) = set_node p n w)"
  shows "touches {p} f"
proof (rule touchesI)
  fix w
  show "agree_off {p} (os_files (snd (f w))) (os_files w)"
    using assms [of w] by (auto intro: set_node_agree)
  show "\<exists>ts. os_trace (snd (f w)) = os_trace w @ ts \<and> (\<forall>t \<in> set ts. agree_off {p} t (os_files w))"
    using assms [of w] by (auto simp: set_node_def Let_def agree_off_def)
qed

subsection \<open>What no call changes\<close>

text \<open>The plan of failures, the sources of names and the state of the components that extend the record.\<close>

definition os_env :: "'z os_scheme \<Rightarrow>
    (nat \<Rightarrow> (gerror \<times> nat) option) \<times> (nat \<Rightarrow> nat) \<times> (nat \<Rightarrow> string) \<times> (string \<Rightarrow> string) \<times> string \<times> 'z" where
  "os_env w = (os_fault w, os_rand w, os_stamp w, os_sha w, os_cwd w, os.more w)"

lemma os_env_tick [simp]: "os_env (w\<lparr>os_tick := n\<rparr>) = os_env w"
  by (simp add: os_env_def)

lemma os_env_files [simp]: "os_env (w\<lparr>os_files := fs, os_trace := t\<rparr>) = os_env w"
  by (simp add: os_env_def)

lemma os_env_set_node [simp]: "os_env (set_node p n w) = os_env w"
  by (simp add: os_env_def set_node_def Let_def)

lemma os_env_append [simp]: "os_env (append_data p d w) = os_env w"
  by (simp add: append_data_def split: option.splits node.splits)

lemma keeps_env_call: "(\<And>w. os_env (snd (f w)) = os_env w) \<Longrightarrow> keeps os_env (os_call f)"
  by (simp add: keeps_def os_call_def Let_def split: option.splits)

lemma create_temp_try_env: "os_env (snd (create_temp_try k d p w)) = os_env w"
  by (induction k arbitrary: w) (auto simp: Let_def split: option.splits)

lemma keeps_env_ops [keeps_intros]:
  "keeps os_env (os_stat p)" "keeps os_env (os_lstat p)" "keeps os_env (os_read_file p)"
  "keeps os_env (os_create_temp d pfx)" "keeps os_env (os_abs p)" "keeps os_env (os_write p s)"
  "keeps os_env (os_chmod p m)" "keeps os_env (os_sync p)" "keeps os_env (os_close p)"
  "keeps os_env (os_open p)" "keeps os_env (os_rename p q)" "keeps os_env (os_remove p)"
  "keeps os_env (os_mkdir_all p m)"
  unfolding os_stat_def os_lstat_def os_read_file_def os_create_temp_def os_abs_def os_chmod_def
    os_sync_def os_close_def os_open_def os_rename_def os_remove_def os_mkdir_all_def
  by (auto intro!: keeps_env_call keeps_if keeps_ret simp: create_temp_try_env Let_def os_write_def keeps_def [of os_env "os_write p s"]
      split: option.splits node.splits sum.splits)

lemma keeps_env_create_trunc [keeps_intros]: "keeps os_env (os_create_trunc p m)"
  unfolding os_create_trunc_def by (rule keeps_env_call) (auto split: option.splits node.splits)

lemma keeps_env_write_file [keeps_intros]: "keeps os_env (os_write_file p d m)"
  unfolding os_write_file_def by (intro keeps_intros)

text \<open>No planned failure of a call pretends that a file is absent.\<close>

definition honest_faults :: "'z os_scheme \<Rightarrow> bool" where
  "honest_faults w \<longleftrightarrow> (\<forall>t e n. os_fault w t = Some (e, n) \<longrightarrow> \<not> errors_is e OsNotExist)"

lemma honest_tick [simp]: "honest_faults (w\<lparr>os_tick := n\<rparr>) = honest_faults w"
  by (simp add: honest_faults_def)

lemma honest_env: "os_env w' = os_env w \<Longrightarrow> honest_faults w' = honest_faults w"
  by (simp add: honest_faults_def os_env_def)

definition not_link :: "string \<Rightarrow> (string \<Rightarrow> node option) \<Rightarrow> bool" where
  "not_link path fs \<longleftrightarrow> (\<forall>t. fs path \<noteq> Some (LinkNode t))"

lemma follow_not_link: "not_link path fs \<Longrightarrow> n > 0 \<Longrightarrow> follow n fs path = Some path"
  by (cases n) (auto simp: not_link_def split: option.splits node.splits)

end
