(* ===== verification/FileDoc.thy ===== *)
theory FileDoc
  imports Os
begin

section \<open>Atomic file replacement (\<^verbatim>\<open>platform/filedoc\<close>)\<close>

text \<open>
  \<open>filedoc.go\<close> whole: \<open>write_file\<close> with its backup and its replacement through a temporary file,
  the directory sync, and the two link checks. The lemmas show that a replacement is atomic: in
  every state on the way, whatever calls fail, the target holds its old or its new contents.
\<close>

record write_options =
  wo_perm :: nat
  wo_backup :: bool
  wo_normalize :: "(string \<Rightarrow> string) option"

record write_result =
  wr_path :: string
  wr_backup_path :: string
  wr_size_bytes :: nat
  wr_sha256 :: string

definition zero_write_result :: write_result where
  "zero_write_result = \<lparr>wr_path = [], wr_backup_path = [], wr_size_bytes = 0, wr_sha256 = []\<rparr>"

fun node_perm :: "node \<Rightarrow> nat" where
  "node_perm (RegFile d m) = m"
| "node_perm (DirNode m) = m"
| "node_perm (LinkNode t) = 511"

definition wrap_err :: "string \<Rightarrow> gerror \<Rightarrow> gerror" where
  "wrap_err what e = Wrap [Lit what, Lit '': '', TextOf e] [e]"

definition sync_dir :: "string \<Rightarrow> ('z, unit) io" where
  "sync_dir dir = bindE (os_open dir) (\<lambda>_. finallyE (os_sync dir) (os_close dir))"

definition sync_file :: "string \<Rightarrow> ('z, unit) io" where
  "sync_file path = bindE (os_open path) (\<lambda>_. finallyE (os_sync path) (os_close path))"

definition reject_symlink :: "string \<Rightarrow> ('z, unit) io" where
  "reject_symlink path =
     bindE (os_lstat path) (\<lambda>info.
       case info of
         LinkNode t \<Rightarrow> failE (Wrap [TextOf (Sentinel SymlinkNotAllowed), Lit '': '', Str path] [Sentinel SymlinkNotAllowed])
       | _ \<Rightarrow> retE ())"

fun reject_symlink_parts :: "string \<Rightarrow> string list \<Rightarrow> ('z, unit) io" where
  "reject_symlink_parts current [] = retE ()"
| "reject_symlink_parts current (part # parts) =
     (if part = [] then reject_symlink_parts current parts
      else let current' = join_path [current, part]
           in bindE (reject_symlink current') (\<lambda>_. reject_symlink_parts current' parts))"

definition reject_symlink_ancestors :: "string \<Rightarrow> ('z, unit) io" where
  "reject_symlink_ancestors path =
     bindE (os_abs path) (\<lambda>abs.
       reject_symlink_parts [slash] (split_on slash (clean abs)))"

definition timestamp_suffix :: "('z, string) io" where
  "timestamp_suffix w = (Inr (os_stamp w (os_tick w)), w\<lparr>os_tick := Suc (os_tick w)\<rparr>)"

definition write_backup :: "string \<Rightarrow> ('z, string \<times> nat) io" where
  "write_backup path =
     bindE (os_stat path) (\<lambda>info.
     let perm = node_perm info in
     bindE (mapErrE (wrap_err ''read backup source'') (os_read_file path)) (\<lambda>current.
     bindE timestamp_suffix (\<lambda>stamp.
     let backup_path = path @ ''.backup-'' @ stamp in
     bindE (mapErrE (wrap_err ''write backup'') (os_write_file backup_path current perm)) (\<lambda>_.
     bindE (mapErrE (wrap_err ''sync backup'') (sync_file backup_path)) (\<lambda>_.
     retE (backup_path, perm))))))"

definition write_replacement :: "string \<Rightarrow> string \<Rightarrow> nat \<Rightarrow> string \<Rightarrow> ('z, write_result) io" where
  "write_replacement path data perm backup_path =
     bindE (mapErrE (wrap_err ''create temp file'')
       (os_create_temp (dir_of path) (CHR ''.'' # base_of path @ ''-''))) (\<lambda>tmp.
     finallyE
       (tryE (os_write tmp data)
         (\<lambda>e. bindE (ignoreE (os_close tmp)) (\<lambda>_. failE (wrap_err ''write temp file'' e))) (\<lambda>_.
        tryE (os_chmod tmp perm)
         (\<lambda>e. bindE (ignoreE (os_close tmp)) (\<lambda>_. failE (wrap_err ''chmod temp file'' e))) (\<lambda>_.
        tryE (os_sync tmp)
         (\<lambda>e. bindE (ignoreE (os_close tmp)) (\<lambda>_. failE (wrap_err ''sync temp file'' e))) (\<lambda>_.
        bindE (mapErrE (wrap_err ''close temp file'') (os_close tmp)) (\<lambda>_.
        bindE (mapErrE (wrap_err ''replace file'') (os_rename tmp path)) (\<lambda>_.
        bindE (mapErrE (wrap_err ''sync directory'') (sync_dir (dir_of path))) (\<lambda>_ w.
          (Inr \<lparr>wr_path = path, wr_backup_path = backup_path, wr_size_bytes = length data,
                wr_sha256 = os_sha w data\<rparr>, w))))))))
       (os_remove tmp))"

definition write_file_data :: "string \<Rightarrow> string \<Rightarrow> write_options \<Rightarrow> ('z, write_result) io" where
  "write_file_data path data opts =
     (let perm = (if wo_perm opts = 0 then 384 else wo_perm opts) in
      if wo_backup opts
      then bindE (write_backup path) (\<lambda>(backup_path, backup_perm).
             write_replacement path data backup_perm backup_path)
      else write_replacement path data perm [])"

definition write_file :: "string \<Rightarrow> string \<Rightarrow> write_options \<Rightarrow> ('z, write_result) io" where
  "write_file path content opts =
     (let content' = (case wo_normalize opts of None \<Rightarrow> content | Some f \<Rightarrow> f content)
      in write_file_data path content' opts)"

definition atomic_create :: "string \<Rightarrow> string \<Rightarrow> nat \<Rightarrow> ('z, unit) io" where
  "atomic_create path data perm =
     bindE (write_file_data path data \<lparr>wo_perm = perm, wo_backup = False, wo_normalize = None\<rparr>)
       (\<lambda>_. retE ())"

subsection \<open>The temporary file\<close>

lemma temp_name_neq:
  "temp_name dir (CHR ''.'' # base_of path @ ''-'') n \<noteq> path"
proof
  let ?e = "CHR ''.'' # base_of path @ ''-'' @ itoa n"
  assume path: "temp_name dir (CHR ''.'' # base_of path @ ''-'') n = path"
  then have eq: "path = dir @ slash # ?e" by (simp add: temp_name_def)
  have nonempty: "itoa n \<noteq> []" by (subst itoa.simps) simp
  have "base_of path = last_elem path"
  proof -
    have "last path = last (itoa n)" by (subst eq) (simp add: nonempty)
    then have "last path \<noteq> slash" using itoa_no_slash [of n] last_in_set [OF nonempty] by auto
    moreover have "path \<noteq> []" by (subst eq) simp
    ultimately have "trim_right_set path [slash] = path"
      using trim_right_set_last [of "last path" "[slash]" "butlast path"] by simp
    with \<open>path \<noteq> []\<close> show ?thesis by (simp add: base_of_def)
  qed
  moreover have "slash \<notin> set (last_elem path)"
    unfolding last_elem_def by (rule split_on_parts [OF last_in_set]) simp
  ultimately have "slash \<notin> set ?e" using itoa_no_slash [of n] by auto
  then have "last_elem path = ?e" using eq last_elem_append by metis
  with \<open>base_of path = last_elem path\<close> have "length (base_of path) = length ?e" by simp
  then show False by simp
qed

text \<open>
  The state during a replacement of \<open>path\<close> by \<open>new\<close>: outside the target and the temporary
  file nothing changed, and the target showed only its old or its new node.
\<close>

definition replacing ::
  "'z os_scheme \<Rightarrow> string \<Rightarrow> string \<Rightarrow> node \<Rightarrow> node option \<Rightarrow> node option \<Rightarrow> 'z os_scheme \<Rightarrow> bool" where
  "replacing w0 path tmp new cur tnode w \<longleftrightarrow>
     os_files w0 tmp = None \<and> tmp \<noteq> path \<and>
     agree_off {path, tmp} (os_files w) (os_files w0) \<and>
     os_files w path = cur \<and> (cur = os_files w0 path \<or> cur = Some new) \<and>
     os_files w tmp = tnode \<and>
     (\<exists>ts. os_trace w = os_trace w0 @ ts \<and>
        (\<forall>t \<in> set ts. agree_off {path, tmp} t (os_files w0) \<and>
           (t path = os_files w0 path \<or> t path = Some new)))"

lemma replacing_tick [simp]:
  "replacing w0 path tmp new cur tn (w\<lparr>os_tick := n\<rparr>) = replacing w0 path tmp new cur tn w"
  by (simp add: replacing_def)

lemma replacing_set_tmp:
  "replacing w0 path tmp new cur tn w \<Longrightarrow> replacing w0 path tmp new cur n (set_node tmp n w)"
  unfolding replacing_def set_node_def Let_def agree_off_def
  by (elim conjE exE) (auto intro!: exI)

lemma create_temp_try_replacing:
  assumes "create_temp_try k dir (CHR ''.'' # base_of path @ ''-'') w = (r, w')"
    and "os_files w = os_files w0" "os_trace w = os_trace w0"
  shows "case r of
      Inl e \<Rightarrow> os_files w' = os_files w0 \<and> os_trace w' = os_trace w0
    | Inr tmp \<Rightarrow> replacing w0 path tmp new (os_files w0 path) (Some (RegFile [] 384)) w'"
  using assms
proof (induction k arbitrary: w)
  case 0
  then show ?case by (auto split: sum.splits)
next
  case (Suc k)
  let ?p = "temp_name dir (CHR ''.'' # base_of path @ ''-'') (os_rand w (os_tick w))"
  show ?case
  proof (cases "os_files w ?p")
    case None
    let ?fs = "(os_files w0)(?p \<mapsto> RegFile [] 384)"
    from None Suc.prems have r: "r = Inr ?p" and w': "os_files w' = ?fs" "os_trace w' = os_trace w0 @ [?fs]"
      by (auto simp: Let_def set_node_def)
    show ?thesis
      using None Suc.prems(2) temp_name_neq [of dir path "os_rand w (os_tick w)"]
      by (simp add: r replacing_def w' agree_off_def)
  next
    case (Some n)
    with Suc show ?thesis by (simp add: Let_def)
  qed
qed

lemma valid_os_call:
  "valid (\<lambda>w. P w) f Q E \<Longrightarrow> (\<And>w n. P w \<Longrightarrow> P (w\<lparr>os_tick := n\<rparr>)) \<Longrightarrow> (\<And>e w. P w \<Longrightarrow> E e w) \<Longrightarrow>
   valid P (os_call f) Q E"
  by (auto simp: valid_def os_call_def Let_def split: option.splits)

lemma valid_create_temp:
  fixes w0 :: "'z os_scheme"
  shows "valid (\<lambda>w. os_files w = os_files w0 \<and> os_trace w = os_trace w0)
     (os_create_temp dir (CHR ''.'' # base_of path @ ''-''))
     (\<lambda>tmp. replacing w0 path tmp new (os_files w0 path) (Some (RegFile [] 384)))
     (\<lambda>_ w. os_files w = os_files w0 \<and> os_trace w = os_trace w0)"
  unfolding os_create_temp_def
proof (rule valid_os_call [OF validI])
  fix w x and w' :: "'z os_scheme" assume "os_files w = os_files w0 \<and> os_trace w = os_trace w0"
    "create_temp_try 10000 dir (CHR ''.'' # base_of path @ ''-'') w = (Inr x, w')"
  then show "replacing w0 path x new (os_files w0 path) (Some (RegFile [] 384)) w'"
    using create_temp_try_replacing by fastforce
next
  fix w e and w' :: "'z os_scheme" assume "os_files w = os_files w0 \<and> os_trace w = os_trace w0"
    "create_temp_try 10000 dir (CHR ''.'' # base_of path @ ''-'') w = (Inl e, w')"
  then show "os_files w' = os_files w0 \<and> os_trace w' = os_trace w0"
    using create_temp_try_replacing by fastforce
qed auto

lemma append_data_replacing:
  "replacing w0 path tmp new cur (Some (RegFile c m)) w \<Longrightarrow>
   replacing w0 path tmp new cur (Some (RegFile (c @ d) m)) (append_data tmp d w)"
proof -
  assume r: "replacing w0 path tmp new cur (Some (RegFile c m)) w"
  then have "os_files w tmp = Some (RegFile c m)" by (simp add: replacing_def)
  then show ?thesis using replacing_set_tmp [OF r] by (simp add: append_data_def)
qed

lemma valid_write_tmp:
  "valid (replacing w0 path tmp new cur (Some (RegFile c m))) (os_write tmp d)
     (\<lambda>_. replacing w0 path tmp new cur (Some (RegFile (c @ d) m)))
     (\<lambda>_ w. \<exists>tn. replacing w0 path tmp new cur tn w)"
  unfolding valid_def os_write_def Let_def
  by (auto split: option.splits intro!: append_data_replacing) (metis append_data_replacing replacing_tick)

lemma valid_chmod_tmp:
  "valid (replacing w0 path tmp new cur (Some (RegFile c m))) (os_chmod tmp m')
     (\<lambda>_. replacing w0 path tmp new cur (Some (RegFile c m')))
     (\<lambda>_. replacing w0 path tmp new cur (Some (RegFile c m)))"
  unfolding os_chmod_def
proof (rule valid_os_call)
  show "valid (replacing w0 path tmp new cur (Some (RegFile c m)))
     (\<lambda>w. case os_files w tmp of
       Some (RegFile d _) \<Rightarrow> (Inr (), set_node tmp (Some (RegFile d m')) w)
     | Some (DirNode _) \<Rightarrow> (Inr (), set_node tmp (Some (DirNode m')) w)
     | _ \<Rightarrow> (Inl (Sentinel OsNotExist), w))
     (\<lambda>_. replacing w0 path tmp new cur (Some (RegFile c m')))
     (\<lambda>_. replacing w0 path tmp new cur (Some (RegFile c m)))"
    unfolding valid_def
    by (auto simp: replacing_def [of _ _ _ _ _ "Some (RegFile c m)"] intro!: replacing_set_tmp)
      (auto simp: replacing_def)
qed auto

lemma valid_quiet_call:
  "(\<And>w. snd (f w) = w) \<Longrightarrow> (\<And>w n. P w \<Longrightarrow> P (w\<lparr>os_tick := n\<rparr>)) \<Longrightarrow>
   valid P (os_call f) (\<lambda>_. P) (\<lambda>_. P)"
  by (auto simp: valid_def os_call_def Let_def split: option.splits prod.splits sum.splits) (metis snd_conv)+

lemma valid_sync: "(\<And>w n. P w \<Longrightarrow> P (w\<lparr>os_tick := n\<rparr>)) \<Longrightarrow> valid P (os_sync p) (\<lambda>_. P) (\<lambda>_. P)"
  unfolding os_sync_def by (rule valid_quiet_call) auto

lemma valid_close: "(\<And>w n. P w \<Longrightarrow> P (w\<lparr>os_tick := n\<rparr>)) \<Longrightarrow> valid P (os_close p) (\<lambda>_. P) (\<lambda>_. P)"
  unfolding os_close_def by (rule valid_quiet_call) auto

lemma valid_open: "(\<And>w n. P w \<Longrightarrow> P (w\<lparr>os_tick := n\<rparr>)) \<Longrightarrow> valid P (os_open p) (\<lambda>_. P) (\<lambda>_. P)"
  unfolding os_open_def by (rule valid_quiet_call) auto

lemma valid_sync_dir:
  "(\<And>w n. P w \<Longrightarrow> P (w\<lparr>os_tick := n\<rparr>)) \<Longrightarrow> valid P (sync_dir d) (\<lambda>_. P) (\<lambda>_. P)"
  unfolding sync_dir_def
  by (rule valid_bind [where R = "\<lambda>_. P"])
    (auto intro!: valid_open valid_finally [where R = "\<lambda>_. P" and F = "\<lambda>_. P"] valid_sync valid_close)

lemma valid_rename_tmp:
  fixes w0 :: "'z os_scheme"
  shows "valid (replacing w0 path tmp new (os_files w0 path) (Some new)) (os_rename tmp path)
     (\<lambda>_. replacing w0 path tmp new (Some new) None)
     (\<lambda>_. replacing w0 path tmp new (os_files w0 path) (Some new))"
  unfolding os_rename_def
proof (rule valid_os_call [OF validI])
  fix w w' :: "'z os_scheme" and x
  let ?fs = "(os_files w)(tmp := None, path := Some new)"
  assume r: "replacing w0 path tmp new (os_files w0 path) (Some new) w"
    and eq: "(case os_files w tmp of None \<Rightarrow> (Inl (Sentinel OsNotExist), w)
      | Some n \<Rightarrow> if is_dir_at (os_files w) path \<and> \<not> is_dir_at (os_files w) tmp
          then (Inl (Sentinel OsExist), w)
          else let fs = (os_files w)(tmp := None, path := Some n)
            in (Inr (), w\<lparr>os_files := fs, os_trace := os_trace w @ [fs]\<rparr>)) = (Inr x, w')"
  from r have "os_files w tmp = Some new" by (simp add: replacing_def)
  with eq have w': "os_files w' = ?fs" "os_trace w' = os_trace w @ [?fs]"
    by (auto simp: Let_def split: if_splits)
  from r obtain ts where ts: "os_trace w = os_trace w0 @ ts"
    "\<forall>t \<in> set ts. agree_off {path, tmp} t (os_files w0) \<and> (t path = os_files w0 path \<or> t path = Some new)"
    unfolding replacing_def by blast
  with r show "replacing w0 path tmp new (Some new) None w'"
    by (auto simp: replacing_def w' agree_off_def)
next
  fix w w' :: "'z os_scheme" and e
  assume "replacing w0 path tmp new (os_files w0 path) (Some new) w"
    and "(case os_files w tmp of None \<Rightarrow> (Inl (Sentinel OsNotExist), w)
      | Some n \<Rightarrow> if is_dir_at (os_files w) path \<and> \<not> is_dir_at (os_files w) tmp
          then (Inl (Sentinel OsExist), w)
          else let fs = (os_files w)(tmp := None, path := Some n)
            in (Inr (), w\<lparr>os_files := fs, os_trace := os_trace w @ [fs]\<rparr>)) = (Inl e, w')"
  then show "replacing w0 path tmp new (os_files w0 path) (Some new) w'"
    by (auto simp: Let_def split: option.splits if_splits)
qed auto

lemma valid_remove_tmp:
  "valid (\<lambda>w. \<exists>tn. replacing w0 path tmp new cur tn w) (os_remove tmp)
     (\<lambda>_ w. \<exists>tn. replacing w0 path tmp new cur tn w)
     (\<lambda>_ w. \<exists>tn. replacing w0 path tmp new cur tn w)"
  unfolding os_remove_def
  by (rule valid_os_call [OF validI]) (auto split: option.splits intro: replacing_set_tmp)

definition maybe_replaced :: "'z os_scheme \<Rightarrow> string \<Rightarrow> node \<Rightarrow> 'z os_scheme \<Rightarrow> bool" where
  "maybe_replaced w0 path new w \<longleftrightarrow>
     (os_files w = os_files w0 \<and> os_trace w = os_trace w0) \<or>
     (\<exists>tmp cur tn. replacing w0 path tmp new cur tn w)"

lemma valid_close_fail:
  assumes "\<And>w n. P w \<Longrightarrow> P (w\<lparr>os_tick := n\<rparr>)"
  shows "valid P (bindE (ignoreE (os_close t)) (\<lambda>_. failE e)) Q (\<lambda>_. P)"
  by (rule valid_bind [where R = "\<lambda>_. P"]; rule valid_ignore valid_fail)
    (auto intro: valid_close assms)

text \<open>The part of a replacement between the creation of the temporary file and its removal.\<close>

abbreviation kept_error :: "'z os_scheme \<Rightarrow> string \<Rightarrow> string \<Rightarrow> node \<Rightarrow> gerror \<Rightarrow> 'z os_scheme \<Rightarrow> bool" where
  "kept_error w0 path tmp new \<equiv> (\<lambda>_ w. \<exists>cur tn. replacing w0 path tmp new cur tn w)"

lemma valid_replace_body:
  fixes w0 :: "'z os_scheme" and res :: "'z os_scheme \<Rightarrow> write_result"
  assumes new_def: "new = RegFile data perm"
  shows "valid (replacing w0 path tmp new (os_files w0 path) (Some (RegFile [] 384)))
    (tryE (os_write tmp data)
       (\<lambda>e. bindE (ignoreE (os_close tmp)) (\<lambda>_. failE (wrap_err s1 e))) (\<lambda>_.
     tryE (os_chmod tmp perm)
       (\<lambda>e. bindE (ignoreE (os_close tmp)) (\<lambda>_. failE (wrap_err s2 e))) (\<lambda>_.
     tryE (os_sync tmp)
       (\<lambda>e. bindE (ignoreE (os_close tmp)) (\<lambda>_. failE (wrap_err s3 e))) (\<lambda>_.
     bindE (mapErrE (wrap_err s4) (os_close tmp)) (\<lambda>_.
     bindE (mapErrE (wrap_err s5) (os_rename tmp path)) (\<lambda>_.
     bindE (mapErrE (wrap_err s6) (sync_dir dir)) (\<lambda>_ w. (Inr (res w), w))))))))
    (\<lambda>_ w. \<exists>tn. replacing w0 path tmp new (Some new) tn w) (kept_error w0 path tmp new)"
proof -
  let ?I = "\<lambda>cur tn. replacing w0 path tmp new cur tn"
  let ?E = "kept_error w0 path tmp new"
  have fail: "valid (\<lambda>w. \<exists>cur tn. ?I cur tn w)
      (bindE (ignoreE (os_close tmp)) (\<lambda>_. failE (wrap_err s e))) Q ?E" for s and e :: gerror and Q :: "write_result \<Rightarrow> 'z os_scheme \<Rightarrow> bool"
    by (rule valid_close_fail) simp
  have last: "valid (?I (os_files w0 path) (Some new))
     (bindE (mapErrE (wrap_err s4) (os_close tmp)) (\<lambda>_.
      bindE (mapErrE (wrap_err s5) (os_rename tmp path)) (\<lambda>_.
      bindE (mapErrE (wrap_err s6) (sync_dir dir)) (\<lambda>_ w. (Inr (res w), w)))))
     (\<lambda>_ w. \<exists>tn. ?I (Some new) tn w) ?E"
    apply (rule valid_bind [where R = "\<lambda>_. ?I (os_files w0 path) (Some new)"])
     apply (rule valid_mapErr, rule valid_weaken [OF valid_close [of "?I (os_files w0 path) (Some new)"]]; auto)
    apply (rule valid_bind [where R = "\<lambda>_. ?I (Some new) None"])
     apply (rule valid_mapErr, rule valid_weaken [OF valid_rename_tmp]; auto)
    apply (rule valid_bind [where R = "\<lambda>_. ?I (Some new) None"])
     apply (rule valid_mapErr, rule valid_weaken [OF valid_sync_dir [of "?I (Some new) None"]]; auto)
    apply (auto simp: valid_def)
    done
  have wr: "valid (?I (os_files w0 path) (Some (RegFile [] 384))) (os_write tmp data)
     (\<lambda>_. ?I (os_files w0 path) (Some (RegFile data 384))) (\<lambda>_ w. \<exists>cur tn. ?I cur tn w)"
    using valid_write_tmp [of w0 path tmp new "os_files w0 path" "[]" 384 data]
    by (rule valid_weaken) auto
  show ?thesis
    apply (rule valid_try [where R = "\<lambda>_. ?I (os_files w0 path) (Some (RegFile data 384))"
          and F = "\<lambda>_ w. \<exists>cur tn. ?I cur tn w"])
      apply (rule wr)
     apply (rule fail)
    apply (rule valid_try [where R = "\<lambda>_. ?I (os_files w0 path) (Some new)"
          and F = "\<lambda>_ w. \<exists>cur tn. ?I cur tn w"])
      apply (rule valid_weaken [OF valid_chmod_tmp]; auto simp: new_def)
     apply (rule fail)
    apply (rule valid_try [where R = "\<lambda>_. ?I (os_files w0 path) (Some new)"
          and F = "\<lambda>_ w. \<exists>cur tn. ?I cur tn w"])
      apply (rule valid_weaken [OF valid_sync [of "?I (os_files w0 path) (Some new)"]]; auto)
     apply (rule fail)
    apply (rule last)
    done
qed

lemma valid_write_replacement:
  fixes w0 :: "'z os_scheme"
  shows "valid (\<lambda>w. os_files w = os_files w0 \<and> os_trace w = os_trace w0)
     (write_replacement path data perm bk)
     (\<lambda>_ w. \<exists>tmp tn. replacing w0 path tmp (RegFile data perm) (Some (RegFile data perm)) tn w)
     (\<lambda>_. maybe_replaced w0 path (RegFile data perm))"
  unfolding write_replacement_def
proof (rule valid_bind [where R = "\<lambda>tmp. replacing w0 path tmp (RegFile data perm) (os_files w0 path)
       (Some (RegFile [] 384))"], rule valid_mapErr, rule valid_weaken [OF valid_create_temp])
  fix tmp
  show "valid (replacing w0 path tmp (RegFile data perm) (os_files w0 path) (Some (RegFile [] 384)))
     (finallyE
       (tryE (os_write tmp data)
         (\<lambda>e. bindE (ignoreE (os_close tmp)) (\<lambda>_. failE (wrap_err ''write temp file'' e))) (\<lambda>_.
        tryE (os_chmod tmp perm)
         (\<lambda>e. bindE (ignoreE (os_close tmp)) (\<lambda>_. failE (wrap_err ''chmod temp file'' e))) (\<lambda>_.
        tryE (os_sync tmp)
         (\<lambda>e. bindE (ignoreE (os_close tmp)) (\<lambda>_. failE (wrap_err ''sync temp file'' e))) (\<lambda>_.
        bindE (mapErrE (wrap_err ''close temp file'') (os_close tmp)) (\<lambda>_.
        bindE (mapErrE (wrap_err ''replace file'') (os_rename tmp path)) (\<lambda>_.
        bindE (mapErrE (wrap_err ''sync directory'') (sync_dir (dir_of path))) (\<lambda>_ w.
          (Inr \<lparr>wr_path = path, wr_backup_path = bk, wr_size_bytes = length data,
                wr_sha256 = os_sha w data\<rparr>, w))))))))
       (os_remove tmp))
     (\<lambda>_ w. \<exists>tmp tn. replacing w0 path tmp (RegFile data perm) (Some (RegFile data perm)) tn w)
     (\<lambda>_. maybe_replaced w0 path (RegFile data perm))"
  proof (rule valid_finally [OF valid_replace_body [OF refl]])
    fix x :: write_result
    show "valid (\<lambda>w. \<exists>tn. replacing w0 path tmp (RegFile data perm) (Some (RegFile data perm)) tn w)
      (os_remove tmp)
      (\<lambda>_ w. \<exists>tmp tn. replacing w0 path tmp (RegFile data perm) (Some (RegFile data perm)) tn w)
      (\<lambda>_ w. \<exists>tmp tn. replacing w0 path tmp (RegFile data perm) (Some (RegFile data perm)) tn w)"
      by (rule valid_weaken [OF valid_remove_tmp]) auto
  next
    fix e :: gerror
    show "valid (\<lambda>w. \<exists>cur tn. replacing w0 path tmp (RegFile data perm) cur tn w)
      (os_remove tmp) (\<lambda>_. maybe_replaced w0 path (RegFile data perm))
      (\<lambda>_. maybe_replaced w0 path (RegFile data perm))"
    proof (rule validI)
      fix w x w' assume "\<exists>cur tn. replacing w0 path tmp (RegFile data perm) cur tn w"
        and "os_remove tmp w = (Inr x, w')"
      then show "maybe_replaced w0 path (RegFile data perm) w'"
        unfolding maybe_replaced_def using validD_Inr [OF valid_remove_tmp] by blast
    next
      fix w x w' assume "\<exists>cur tn. replacing w0 path tmp (RegFile data perm) cur tn w"
        and "os_remove tmp w = (Inl x, w')"
      then show "maybe_replaced w0 path (RegFile data perm) w'"
        unfolding maybe_replaced_def using validD_Inl [OF valid_remove_tmp] by blast
    qed
  qed
qed (auto simp: maybe_replaced_def)

lemma keeps_env_write_replacement [keeps_intros]: "keeps os_env (write_replacement path data perm bk)"
  unfolding write_replacement_def sync_dir_def
  by (intro keeps_intros) (simp_all add: keeps_def)

lemma keeps_env_write_file_data [keeps_intros]: "keeps os_env (write_file_data path data opts)"
  unfolding write_file_data_def write_backup_def Let_def sync_file_def
  by (intro keeps_intros) (auto intro: keeps_intros split: prod.splits simp: keeps_def [of _ timestamp_suffix] timestamp_suffix_def)

lemma keeps_env_filedoc_write [keeps_intros]: "keeps os_env (write_file path data opts)"
  unfolding write_file_def Let_def by (rule keeps_env_write_file_data)

subsection \<open>Without failing calls\<close>

text \<open>Where no call fails, the first temporary name is free and the directory exists, a replacement succeeds.\<close>

definition can_replace :: "string \<Rightarrow> 'z os_scheme \<Rightarrow> bool" where
  "can_replace path w \<longleftrightarrow>
     (\<forall>t. os_fault w t = None) \<and> \<not> is_dir_at (os_files w) path \<and>
     (\<exists>m. os_files w (dir_of path) = Some (DirNode m)) \<and>
     (\<forall>n. os_files w (temp_name (dir_of path) (CHR ''.'' # base_of path @ ''-'') (os_rand w n)) = None)"

lemma set_node_fields [simp]:
  "os_files (set_node p n w) = (os_files w)(p := n)" "os_fault (set_node p n w) = os_fault w"
  "os_tick (set_node p n w) = os_tick w" "os_sha (set_node p n w) = os_sha w"
  "os_rand (set_node p n w) = os_rand w"
  by (simp_all add: set_node_def Let_def)

lemma stat_dir: "fs p = Some (DirNode m) \<Longrightarrow> stat_node fs p = Inr (DirNode m)"
  by (simp add: stat_node_def eval_nat_numeral)

lemma write_replacement_total:
  assumes "can_replace path w"
  shows "\<exists>w'. write_replacement path data perm bk w =
      (Inr \<lparr>wr_path = path, wr_backup_path = bk, wr_size_bytes = length data, wr_sha256 = os_sha w data\<rparr>, w') \<and>
    os_files w' = (os_files w)(path \<mapsto> RegFile data perm)"
proof -
  let ?tmp = "temp_name (dir_of path) (CHR ''.'' # base_of path @ ''-'') (os_rand w (Suc (os_tick w)))"
  from assms obtain m where c: "\<And>t. os_fault w t = None" "\<not> is_dir_at (os_files w) path"
    "os_files w (dir_of path) = Some (DirNode m)" "os_files w ?tmp = None"
    unfolding can_replace_def by blast
  then have dp: "dir_of path \<noteq> path" "dir_of path \<noteq> ?tmp" by (auto simp: is_dir_at_def)
  have tp: "?tmp \<noteq> path" by (rule temp_name_neq)
  let ?w1 = "set_node ?tmp (Some (RegFile [] 384)) (w\<lparr>os_tick := Suc (os_tick w), os_tick := Suc (Suc (os_tick w))\<rparr>)"
  have create: "os_create_temp (dir_of path) (CHR ''.'' # base_of path @ ''-'') w = (Inr ?tmp, ?w1)"
    using c by (simp add: os_create_temp_def os_call_def Let_def eval_nat_numeral)
  define tmp where "tmp = ?tmp"
  define w1 where "w1 = ?w1"
  have w1: "os_files w1 = (os_files w)(tmp \<mapsto> RegFile [] 384)" "os_fault w1 = os_fault w" "os_sha w1 = os_sha w"
    by (simp_all add: w1_def tmp_def)
  have t1: "tmp \<noteq> path" "path \<noteq> tmp" "dir_of path \<noteq> tmp" "tmp \<noteq> dir_of path" "os_files w tmp = None"
    using tp dp c by (auto simp: tmp_def)
  have eff: "(os_files w)(tmp := None) = os_files w"
    using t1 by (auto simp: fun_eq_iff)
  from c(2) have nd: "\<not> is_dir_at ((os_files w)(tmp := n)) path" for n
    using t1 by (simp add: is_dir_at_def)
  show ?thesis
    unfolding write_replacement_def bindE_def mapErrE_def create
    unfolding tmp_def [symmetric] w1_def [symmetric]
    using c(1,3) dp(1) t1
    by (simp add: finallyE_def tryE_def bindE_def os_write_def append_data_def os_chmod_def os_call_def mapErrE_def
        os_sync_def os_close_def os_rename_def sync_dir_def os_open_def os_remove_def Let_def w1 nd stat_dir
        eff)
qed

lemma write_file_total:
  assumes "can_replace path w"
  shows "\<exists>w'. write_file path data \<lparr>wo_perm = perm, wo_backup = False, wo_normalize = None\<rparr> w =
      (Inr \<lparr>wr_path = path, wr_backup_path = [], wr_size_bytes = length data, wr_sha256 = os_sha w data\<rparr>, w') \<and>
    os_files w' = (os_files w)(path \<mapsto> RegFile data (if perm = 0 then 384 else perm))"
  using write_replacement_total [OF assms] by (simp add: write_file_def write_file_data_def)

end
