(* ===== verification/FileDocProps.thy ===== *)
theory FileDocProps
  imports FileDoc
begin

section \<open>Properties of the file replacement\<close>

text \<open>Atomicity of \<open>write_file\<close> for every plan of failures, and what a kept backup holds.\<close>

lemma write_file_plain:
  "write_file path content \<lparr>wo_perm = perm, wo_backup = False, wo_normalize = norm\<rparr> =
     write_replacement path (case norm of None \<Rightarrow> content | Some f \<Rightarrow> f content)
       (if perm = 0 then 384 else perm) []"
  by (simp add: write_file_def write_file_data_def Let_def)

text \<open>Every state on the way of a replacement shows the old node or the new file, and no third file changes but
  a temporary one.\<close>

definition shows_old_or_new :: "'z os_scheme \<Rightarrow> string \<Rightarrow> node \<Rightarrow> 'z os_scheme \<Rightarrow> bool" where
  "shows_old_or_new w path new w' \<longleftrightarrow>
     (\<exists>tmp ts. os_files w tmp = None \<and> tmp \<noteq> path \<and> os_trace w' = os_trace w @ ts \<and>
        (\<forall>t \<in> set (os_files w' # ts).
           (t path = os_files w path \<or> t path = Some new) \<and> agree_off {path, tmp} t (os_files w)))"

lemma replacing_shows:
  "replacing w path tmp new cur tn w' \<Longrightarrow> shows_old_or_new w path new w'"
  unfolding shows_old_or_new_def replacing_def by (intro exI [of _ tmp]) auto

lemma maybe_replaced_shows:
  "maybe_replaced w path new w' \<Longrightarrow> os_files w tmp = None \<Longrightarrow> tmp \<noteq> path \<Longrightarrow> shows_old_or_new w path new w'"
  unfolding maybe_replaced_def using replacing_shows by (fastforce simp: shows_old_or_new_def)

lemma write_replacement_outcome:
  assumes "write_replacement path data perm bk w = (r, w')"
  shows "(\<forall>x. r = Inr x \<longrightarrow> os_files w' path = Some (RegFile data perm)) \<and>
    (os_files w' = os_files w \<and> os_trace w' = os_trace w \<or> shows_old_or_new w path (RegFile data perm) w')"
proof (cases r)
  case (Inl e)
  with validD_Inl [OF valid_write_replacement [of w], of w path data perm bk] assms show ?thesis
    by (auto simp: maybe_replaced_def intro: replacing_shows)
next
  case (Inr x)
  with validD_Inr [OF valid_write_replacement [of w], of w path data perm bk] assms obtain tmp tn where
    "replacing w path tmp (RegFile data perm) (Some (RegFile data perm)) tn w'" by auto
  then have "os_files w' path = Some (RegFile data perm)" "shows_old_or_new w path (RegFile data perm) w'"
    by (simp add: replacing_def, rule replacing_shows)
  then show ?thesis by simp
qed

text \<open>C5: \<^verbatim>\<open>WriteFile\<close> without a backup is atomic whatever system calls fail, and wherever the process
  stops: the target shows its old node or the complete new file with the wanted mode (0600 when none is given), no other
  existing file changes, and a return without error means that the new file is there.\<close>

theorem write_file_atomic:
  assumes "write_file path content \<lparr>wo_perm = perm, wo_backup = False, wo_normalize = norm\<rparr> w = (r, w')"
  shows "let new = RegFile (case norm of None \<Rightarrow> content | Some f \<Rightarrow> f content) (if perm = 0 then 384 else perm) in
    (\<forall>x. r = Inr x \<longrightarrow> os_files w' path = Some new) \<and>
    (os_files w' = os_files w \<and> os_trace w' = os_trace w \<or> shows_old_or_new w path new w')"
  unfolding Let_def by (rule write_replacement_outcome [OF assms [unfolded write_file_plain]])

definition one_file :: "(nat \<Rightarrow> (gerror \<times> nat) option) \<Rightarrow> os" where
  "one_file fault =
     \<lparr>os_files = [''/d'' \<mapsto> DirNode 493, ''/d/f'' \<mapsto> RegFile ''old'' 420], os_tick = 0, os_fault = fault,
      os_trace = [], os_rand = (\<lambda>t. t), os_stamp = (\<lambda>t. itoa t), os_sha = (\<lambda>s. s), os_cwd = ''/''\<rparr>"

theorem write_file_atomic_witness:
  "let w = one_file (\<lambda>t. if t = 1 then Some (Plain [Lit ''disk full''], 2) else None);
       rw = write_file ''/d/f'' ''new text'' \<lparr>wo_perm = 0, wo_backup = False, wo_normalize = None\<rparr> w;
       new = RegFile ''new text'' 384 in
   (\<forall>x. fst rw = Inr x \<longrightarrow> os_files (snd rw) ''/d/f'' = Some new) \<and>
   (os_files (snd rw) = os_files w \<and> os_trace (snd rw) = os_trace w \<or> shows_old_or_new w ''/d/f'' new (snd rw))"
proof -
  let ?w = "one_file (\<lambda>t. if t = 1 then Some (Plain [Lit ''disk full''], 2) else None)"
  let ?m = "write_file ''/d/f'' ''new text'' \<lparr>wo_perm = 0, wo_backup = False, wo_normalize = None\<rparr>"
  have "?m ?w = (fst (?m ?w), snd (?m ?w))" by (rule surjective_pairing)
  from write_file_atomic [OF this] show ?thesis unfolding Let_def option.case if_P [OF refl] .
qed

text \<open>\<open>u\<close> is a state on the way from \<open>w\<close> to \<open>w'\<close> (the last one included).\<close>

definition on_the_way :: "'z os_scheme \<Rightarrow> 'z os_scheme \<Rightarrow> (string \<Rightarrow> node option) set" where
  "on_the_way w w' = {os_files w'} \<union> set (drop (length (os_trace w)) (os_trace w'))"

lemma on_the_way_trace: "os_trace w' = os_trace w @ ts \<Longrightarrow> on_the_way w w' = insert (os_files w') (set ts)"
  by (simp add: on_the_way_def)

subsection \<open>A node that is left alone\<close>

text \<open>The node at \<open>p\<close> is \<open>N\<close> now and was at every moment since the trace \<open>T\<close>.\<close>

definition stays :: "string \<Rightarrow> node option \<Rightarrow> (string \<Rightarrow> node option) list \<Rightarrow> 'z os_scheme \<Rightarrow> bool" where
  "stays p N T w \<longleftrightarrow> os_files w p = N \<and> (\<exists>ts. os_trace w = T @ ts \<and> (\<forall>t \<in> set ts. t p = N))"

lemma stays_tick [simp]: "stays p N T (w\<lparr>os_tick := n\<rparr>) = stays p N T w"
  by (simp add: stays_def)

lemma stays_set_node: "q \<noteq> p \<Longrightarrow> stays p N T w \<Longrightarrow> stays p N T (set_node q n w)"
  by (auto simp: stays_def set_node_def Let_def)

lemma stays_append: "q \<noteq> p \<Longrightarrow> stays p N T w \<Longrightarrow> stays p N T (append_data q d w)"
  by (auto simp: append_data_def stays_set_node split: option.splits node.splits)

lemma valid_stays_write:
  assumes "q \<noteq> p"
  shows "valid (stays p N T) (os_write q d) (\<lambda>_. stays p N T) (\<lambda>_. stays p N T)"
  unfolding valid_def os_write_def Let_def
  using assms by (auto intro: stays_append split: option.splits)

lemma valid_stays_write_file:
  assumes "q \<noteq> p"
  shows "valid (\<lambda>w. stays p N T w \<and> os_files w q = None) (os_write_file q d m) (\<lambda>_. stays p N T) (\<lambda>_. stays p N T)"
  unfolding os_write_file_def os_create_trunc_def
proof (rule valid_bind [where R = "\<lambda>x w. x = q \<and> stays p N T w"], rule valid_os_call)
  show "valid (\<lambda>w. stays p N T w \<and> os_files w q = None)
     (\<lambda>w. case follow 40 (os_files w) q of
          None \<Rightarrow> (Inl link_loop, w)
        | Some q \<Rightarrow>
            (case os_files w q of
               Some (DirNode _) \<Rightarrow> (Inl (Plain [Lit ''is a directory'']), w)
             | Some (RegFile _ m') \<Rightarrow> (Inr q, set_node q (Some (RegFile [] m')) w)
             | _ \<Rightarrow> (Inr q, set_node q (Some (RegFile [] m)) w)))
     (\<lambda>x w. x = q \<and> stays p N T w) (\<lambda>_. stays p N T)"
    unfolding valid_def using assms by (auto simp: eval_nat_numeral intro: stays_set_node)
  show "valid (\<lambda>w. x = q \<and> stays p N T w) (os_write x d) (\<lambda>_. stays p N T) (\<lambda>_. stays p N T)" for x
    by (rule validI) (use validD_Inr [OF valid_stays_write [OF assms, of N T d]]
        validD_Inl [OF valid_stays_write [OF assms, of N T d]] in blast)+
qed auto

lemma valid_sync_file:
  "(\<And>w n. P w \<Longrightarrow> P (w\<lparr>os_tick := n\<rparr>)) \<Longrightarrow> valid P (sync_file d) (\<lambda>_. P) (\<lambda>_. P)"
  unfolding sync_file_def
  by (rule valid_bind [where R = "\<lambda>_. P"])
    (auto intro!: valid_open valid_finally [where R = "\<lambda>_. P" and F = "\<lambda>_. P"] valid_sync valid_close)

subsection \<open>Backups\<close>

abbreviation backup_name :: "string \<Rightarrow> string \<Rightarrow> string" where
  "backup_name path stamp \<equiv> path @ ''.backup-'' @ stamp"

lemma os_write_file_new:
  assumes "os_write_file p d m w = (Inr x, w')" "os_files w p = None"
  shows "os_files w' = (os_files w)(p \<mapsto> RegFile d m)"
proof -
  have f: "follow 40 (os_files w) p = Some p" using assms(2) by (simp add: eval_nat_numeral)
  from assms show ?thesis
    by (auto simp: os_write_file_def os_create_trunc_def bindE_def os_call_def os_write_def f Let_def append_data_def
        split: option.splits prod.splits sum.splits)
qed

lemma os_stat_file:
  assumes "os_stat p w = (Inr n, w')" "os_files w p = Some (RegFile d m)"
  shows "n = RegFile d m \<and> os_files w' = os_files w"
  using assms by (auto simp: os_stat_def os_call_def stat_node_def eval_nat_numeral Let_def split: option.splits)

lemma os_read_regular:
  assumes "os_read_file p w = (Inr s, w')" "os_files w p = Some (RegFile d m)"
  shows "s = d \<and> os_files w' = os_files w"
  using assms by (auto simp: os_read_file_def os_call_def stat_node_def eval_nat_numeral Let_def split: option.splits)

lemma quiet_files: "snd (sync_file p w) = w' \<Longrightarrow> os_files w' = os_files w"
  by (auto simp: sync_file_def bindE_def finallyE_def os_open_def os_sync_def os_close_def os_call_def Let_def
      split: option.splits prod.splits sum.splits)

lemma mapErrE_Inr: "mapErrE f m w = (Inr x, w') \<longleftrightarrow> m w = (Inr x, w')"
  by (auto simp: mapErrE_def split: prod.splits sum.splits)

lemma write_backup_Inr:
  assumes "write_backup path w = (Inr (bp, pm), w')" "os_files w path = Some (RegFile d m)"
    and fresh: "\<And>s. os_files w (backup_name path s) = None"
  shows "pm = m \<and> (\<exists>s. bp = backup_name path s) \<and> os_files w' = (os_files w)(bp \<mapsto> RegFile d m)"
proof -
  from assms(1) obtain info w1 cur w2 stamp w3 w4 where
    s1: "os_stat path w = (Inr info, w1)" and s2: "os_read_file path w1 = (Inr cur, w2)"
    and s3: "timestamp_suffix w2 = (Inr stamp, w3)"
    and s4: "os_write_file (backup_name path stamp) cur (node_perm info) w3 = (Inr (), w4)"
    and s5: "sync_file (backup_name path stamp) w4 = (Inr (), w')"
    and r: "bp = backup_name path stamp" "pm = node_perm info"
    by (auto simp: write_backup_def Let_def mapErrE_Inr elim!: bindE_InrE)
  from os_stat_file [OF s1 assms(2)] have i: "info = RegFile d m" "os_files w1 = os_files w" by auto
  from os_read_regular [OF s2, of d m] i assms(2) have c: "cur = d" "os_files w2 = os_files w" by auto
  from s3 c have w3: "os_files w3 = os_files w" by (auto simp: timestamp_suffix_def)
  from os_write_file_new [OF s4] w3 fresh have w4: "os_files w4 = (os_files w)(bp \<mapsto> RegFile d m)"
    by (simp add: i c r)
  from quiet_files [of _ w4 w'] s5 have "os_files w' = os_files w4" by (metis snd_conv)
  with w4 i r show ?thesis by auto
qed

text \<open>\<^verbatim>\<open>WriteFile\<close> with a backup: if it returns without error, the target holds the new contents with
  the mode of the old file, and the backup path it returns holds the old contents with that mode; whatever fails, the
  target shows the old or the new file.\<close>

theorem write_file_backup:
  assumes "write_file path content \<lparr>wo_perm = perm, wo_backup = True, wo_normalize = norm\<rparr> w = (Inr res, w')"
    and old: "os_files w path = Some (RegFile d m)" and fresh: "\<And>s. os_files w (backup_name path s) = None"
  shows "os_files w' path = Some (RegFile (case norm of None \<Rightarrow> content | Some f \<Rightarrow> f content) m) \<and>
    os_files w' (wr_backup_path res) = Some (RegFile d m) \<and> wr_path res = path"
proof -
  let ?data = "case norm of None \<Rightarrow> content | Some f \<Rightarrow> f content"
  from assms(1) obtain bp pm w1 where b: "write_backup path w = (Inr (bp, pm), w1)"
    and rep: "write_replacement path ?data pm bp w1 = (Inr res, w')"
    by (auto simp: write_file_def write_file_data_def Let_def elim!: bindE_InrE)
  from write_backup_Inr [OF b old fresh] obtain s where pm: "pm = m" and bp: "bp = backup_name path s"
    and w1: "os_files w1 = (os_files w)(bp \<mapsto> RegFile d m)" by auto
  from validD_Inr [OF valid_write_replacement [of w1] _ rep] obtain tmp tn where
    r: "replacing w1 path tmp (RegFile ?data pm) (Some (RegFile ?data pm)) tn w'" by auto
  from r w1 have "tmp \<noteq> bp" by (auto simp: replacing_def)
  moreover have "bp \<noteq> path" by (simp add: bp)
  ultimately have "os_files w' bp = os_files w1 bp" using r by (auto simp: replacing_def agree_off_def)
  moreover have "wr_backup_path res = bp" "wr_path res = path"
    using rep by (auto simp: write_replacement_def finallyE_def tryE_def bindE_def mapErrE_def
        split: prod.splits sum.splits)
  ultimately show ?thesis using r w1 pm by (auto simp: replacing_def)
qed

theorem write_file_backup_witness:
  "let w = one_file (\<lambda>_. None);
       rw = write_file ''/d/f'' ''new'' \<lparr>wo_perm = 0, wo_backup = True, wo_normalize = None\<rparr> w in
   os_files (snd rw) ''/d/f'' = Some (RegFile (case None of None \<Rightarrow> ''new'' | Some f \<Rightarrow> f ''new'') 420) \<and>
   os_files (snd rw) (wr_backup_path (projr (fst rw))) = Some (RegFile ''old'' 420) \<and>
   wr_path (projr (fst rw)) = ''/d/f''"
proof -
  let ?rw = "write_file ''/d/f'' ''new'' \<lparr>wo_perm = 0, wo_backup = True, wo_normalize = None\<rparr> (one_file (\<lambda>_. None))"
  have "isl (fst ?rw) = False" by code_simp
  then have "?rw = (Inr (projr (fst ?rw)), snd ?rw)" by (simp add: prod_eq_iff)
  then show ?thesis unfolding Let_def
    by (rule write_file_backup) (simp_all add: one_file_def)
qed

end
