(* ===== verification/PresetIni.thy ===== *)
theory PresetIni
  imports GoErrors GoStrings
begin

section \<open>The grammar of \<^verbatim>\<open>models.ini\<close> (\<^verbatim>\<open>core/modelpresets/store.go\<close>)\<close>

text \<open>
  The pure part of \<open>store.go\<close>: section names and keys are validated and made canonical, the file
  is read line by line into sections, one section is printed, one is removed from the text. A
  \<^verbatim>\<open>map[string]string\<close> is an association list; its order stands for one iteration order.
\<close>

record preset_section =
  sec_name :: string
  sec_values :: "(string \<times> string) list"

type_synonym sections = "(string \<times> preset_section) list"

abbreviation nl :: char where "nl \<equiv> CHR 0x0A"
abbreviation cr :: char where "cr \<equiv> CHR 0x0D"

definition invalid :: "msg \<Rightarrow> gerror" where
  "invalid m = Wrap (TextOf (Sentinel PresetInvalid) # Lit '': '' # m) [Sentinel PresetInvalid]"

definition validate_section_name :: "string \<Rightarrow> gerror option" where
  "validate_section_name name =
     (if trim_space name = [] \<or> contains_any name (''[]'' @ [cr, nl] @ '';#='')
      then Some (invalid [Lit ''name '', Quoted name]) else None)"

definition key_aliases :: "(string \<times> string) list" where
  "key_aliases =
    [(''batch'', ''batch-size''), (''ubatch'', ''ubatch-size''), (''n-parallel'', ''parallel''),
     (''endpoint-metrics'', ''metrics''), (''endpoint-props'', ''props''),
     (''endpoint-slots'', ''slots''), (''think'', ''reasoning-format''),
     (''think-budget'', ''reasoning-budget''), (''models_dir'', ''models-dir''),
     (''models_preset'', ''models-preset''), (''models_max'', ''models-max'')]"

text \<open>The pattern \<^verbatim>\<open>^[a-z_][a-z0-9_.-]*$\<close>.\<close>

definition key_start :: "char \<Rightarrow> bool" where
  "key_start c \<longleftrightarrow> CHR ''a'' \<le> c \<and> c \<le> CHR ''z'' \<or> c = CHR ''_''"

definition key_char :: "char \<Rightarrow> bool" where
  "key_char c \<longleftrightarrow> key_start c \<or> CHR ''0'' \<le> c \<and> c \<le> CHR ''9'' \<or> c = CHR ''.'' \<or> c = CHR ''-''"

fun canonical_key_pattern :: "string \<Rightarrow> bool" where
  "canonical_key_pattern [] \<longleftrightarrow> False"
| "canonical_key_pattern (c # cs) \<longleftrightarrow> key_start c \<and> list_all key_char cs"

definition replace_char :: "char \<Rightarrow> char \<Rightarrow> string \<Rightarrow> string" where
  "replace_char a b = map (\<lambda>c. if c = a then b else c)"

definition canonical_key_tail :: "string \<Rightarrow> string \<Rightarrow> gerror + string" where
  "canonical_key_tail key trimmed =
     (if \<not> canonical_key_pattern trimmed
      then Inl (invalid [Lit ''invalid models.ini key '', Quoted key])
      else (case map_of key_aliases trimmed of Some alt \<Rightarrow> Inr alt | None \<Rightarrow> Inr trimmed))"

definition canonical_key :: "string \<Rightarrow> gerror + string" where
  "canonical_key key =
     (let trimmed = trim_space key in
      if trimmed = [] then Inl (invalid [Lit ''models.ini contains empty key''])
      else if has_prefix trimmed ''LLAMA_ARG_'' then
        (if trimmed \<noteq> to_upper trimmed
         then Inl (invalid [Lit ''models.ini environment key '', Quoted key, Lit '' must use uppercase''])
         else canonical_key_tail key
                (to_lower (replace_char (CHR ''_'') (CHR ''-'') (drop (length ''LLAMA_ARG_'') trimmed))))
      else if trimmed \<noteq> to_lower trimmed
        then Inl (invalid [Lit ''models.ini key '', Quoted key,
                           Lit '' must use lowercase CLI form or exact LLAMA_ARG_* form''])
      else canonical_key_tail key trimmed)"

text \<open>The first match of \<^verbatim>\<open>[ \t][;#]\<close> in a value, and the value in front of it.\<close>

fun inline_comment :: "string \<Rightarrow> nat option" where
  "inline_comment (a # b # s) =
     (if (a = CHR '' '' \<or> a = CHR 0x09) \<and> (b = CHR '';'' \<or> b = CHR ''#'') then Some 0
      else map_option Suc (inline_comment (b # s)))"
| "inline_comment s = None"

definition strip_comment :: "string \<Rightarrow> string" where
  "strip_comment value = (case inline_comment value of None \<Rightarrow> value | Some i \<Rightarrow> take i value)"

definition is_comment :: "string \<Rightarrow> bool" where
  "is_comment trimmed \<longleftrightarrow> has_prefix trimmed '';'' \<or> has_prefix trimmed ''#''"

text \<open>\<^verbatim>\<open>strings.TrimSpace(trimmed[1:len(trimmed)-1])\<close>\<close>

definition header_name :: "string \<Rightarrow> string" where
  "header_name trimmed = trim_space (butlast (tl trimmed))"

definition set_value :: "string \<Rightarrow> string \<Rightarrow> string \<Rightarrow> sections \<Rightarrow> sections" where
  "set_value current key value secs =
     AList.map_entry current (\<lambda>s. s\<lparr>sec_values := AList.update key value (sec_values s)\<rparr>) secs"

text \<open>
  The reading loop. Its state is the current section and the sections so far; a line is blank or a
  comment, a header, or an entry of the current section (before the first header, entries are
  ignored: \<^verbatim>\<open>version\<close> and future file-level keys).
\<close>

definition parse_header :: "string \<Rightarrow> sections \<Rightarrow> gerror + string \<times> sections" where
  "parse_header trimmed secs =
     (if \<not> has_suffix trimmed '']''
      then Inl (invalid [Lit ''malformed section header '', Quoted trimmed])
      else
        let name = header_name trimmed in
        case validate_section_name name of
          Some err \<Rightarrow> Inl err
        | None \<Rightarrow>
            (case map_of secs name of
               Some _ \<Rightarrow> Inl (invalid [Lit ''duplicate models.ini section '', Quoted name])
             | None \<Rightarrow> Inr (name, secs @ [(name, \<lparr>sec_name = name, sec_values = []\<rparr>)])))"

definition parse_entry :: "string \<Rightarrow> gerror + string \<times> string" where
  "parse_entry line =
     (case cut_at (CHR ''='') line of
        None \<Rightarrow> Inl (invalid [Lit ''expected key = value, got '', Quoted (trim_space line)])
      | Some (key, value) \<Rightarrow>
          (case canonical_key (trim_space key) of
             Inl err \<Rightarrow> Inl err
           | Inr canonical \<Rightarrow> Inr (canonical, trim_space (strip_comment value))))"

definition parse_line :: "string \<times> sections \<Rightarrow> string \<Rightarrow> gerror + string \<times> sections" where
  "parse_line st line =
     (let trimmed = trim_space line in
      if trimmed = [] \<or> is_comment trimmed then Inr st
      else if has_prefix trimmed ''['' then parse_header trimmed (snd st)
      else if fst st = [] then Inr st
      else (case parse_entry line of
              Inl err \<Rightarrow> Inl err
            | Inr (key, value) \<Rightarrow> Inr (fst st, set_value (fst st) key value (snd st))))"

fun parse_lines :: "string \<times> sections \<Rightarrow> string list \<Rightarrow> gerror + string \<times> sections" where
  "parse_lines st [] = Inr st"
| "parse_lines st (line # ls) =
     (case parse_line st line of Inl err \<Rightarrow> Inl err | Inr st' \<Rightarrow> parse_lines st' ls)"

definition parse_ini :: "string \<Rightarrow> gerror + sections" where
  "parse_ini data = map_sum id snd (parse_lines ([], []) (split_on nl data))"

text \<open>\<^verbatim>\<open>renderSection\<close>: the keys sorted, one line each.\<close>

definition render_line :: "string \<times> string \<Rightarrow> string" where
  "render_line kv = fst kv @ '' = '' @ snd kv"

definition render_section :: "preset_section \<Rightarrow> string" where
  "render_section sec =
     (let keys = sort (map fst (sec_values sec)) in
      [nl, nl] @ ''['' @ sec_name sec @ '']'' @ [nl] @
      concat (map (\<lambda>k. render_line (k, the (map_of (sec_values sec) k)) @ [nl]) keys))"

text \<open>\<^verbatim>\<open>removeSection\<close>: the loop that looks for the header and for the next header, then the loop
  that leaves trailing blank lines and comments to the next section.\<close>

definition is_header :: "string \<Rightarrow> bool" where
  "is_header trimmed \<longleftrightarrow> has_prefix trimmed ''['' \<and> has_suffix trimmed '']''"

fun section_bounds :: "string \<Rightarrow> nat \<Rightarrow> nat option \<Rightarrow> string list \<Rightarrow> nat option \<times> nat option" where
  "section_bounds name i start [] = (start, None)"
| "section_bounds name i start (line # ls) =
     (let trimmed = trim_space line in
      if \<not> is_header trimmed then section_bounds name (Suc i) start ls
      else (case start of
              Some s \<Rightarrow> (start, Some i)
            | None \<Rightarrow> section_bounds name (Suc i)
                        (if header_name trimmed = name then Some i else None) ls))"

fun shrink_end :: "string list \<Rightarrow> nat \<Rightarrow> nat \<Rightarrow> nat" where
  "shrink_end lines start 0 = 0"
| "shrink_end lines start (Suc e) =
     (if Suc e > start + 1 then
        (let trimmed = trim_space (lines ! e) in
         if trimmed \<noteq> [] \<and> \<not> is_comment trimmed then Suc e else shrink_end lines start e)
      else Suc e)"

definition remove_section :: "string \<Rightarrow> string \<Rightarrow> string" where
  "remove_section content name =
     (let lines = split_on nl content in
      case section_bounds name 0 None lines of
        (None, _) \<Rightarrow> content
      | (Some start, stop) \<Rightarrow>
          (let e = shrink_end lines start (case stop of None \<Rightarrow> length lines | Some i \<Rightarrow> i)
           in join_with nl (take start lines @ drop e lines)))"

text \<open>The loop of \<^verbatim>\<open>Put\<close> over the values of a section.\<close>

fun canonical_values :: "(string \<times> string) list \<Rightarrow> (string \<times> string) list \<Rightarrow>
    gerror + (string \<times> string) list" where
  "canonical_values acc [] = Inr acc"
| "canonical_values acc ((key, value) # kvs) =
     (case canonical_key key of
        Inl err \<Rightarrow> Inl err
      | Inr canonical \<Rightarrow>
          (if canonical \<in> set (map fst acc)
           then Inl (invalid [Lit ''duplicate models.ini key '', Quoted canonical])
           else if contains_any value [cr, nl]
           then Inl (invalid [Lit ''value for key '', Quoted key, Lit '' contains a newline''])
           else canonical_values (acc @ [(canonical, value)]) kvs))"

end
