(* ===== verification/PresetIniFacts.thy ===== *)
theory PresetIniFacts
  imports PresetIni
begin

section \<open>Reading, printing and removing sections\<close>

text \<open>
  The facts about \<open>PresetIni\<close> that the store rests on: what a printed section reads as, what the
  text without a section reads as, and that line endings do not matter.
\<close>

abbreviation secs_keys :: "sections \<Rightarrow> string list" where
  "secs_keys S \<equiv> map fst S"

definition skip_line :: "string \<Rightarrow> bool" where
  "skip_line line \<longleftrightarrow> trim_space line = [] \<or> is_comment (trim_space line)"

subsection \<open>The reading loop\<close>

lemma parse_lines_append:
  "parse_lines st (a @ b) = (case parse_lines st a of Inl e \<Rightarrow> Inl e | Inr st' \<Rightarrow> parse_lines st' b)"
  by (induction a arbitrary: st) (auto split: sum.splits)

lemma parse_line_skip: "skip_line l \<Longrightarrow> parse_line st l = Inr st"
  by (auto simp: parse_line_def skip_line_def split: prod.splits)

lemma parse_lines_skip: "(\<And>l. l \<in> set ls \<Longrightarrow> skip_line l) \<Longrightarrow> parse_lines st ls = Inr st"
  by (induction ls) (auto simp: parse_line_skip)

lemma inline_comment_cr: "inline_comment (v @ [cr]) = inline_comment v"
  by (induction v rule: inline_comment.induct) auto

lemma inline_comment_le: "inline_comment v = Some i \<Longrightarrow> i \<le> length v"
  by (induction v arbitrary: i rule: inline_comment.induct) (auto split: if_splits)

lemma trim_space_cr [simp]: "trim_space (s @ [cr]) = trim_space s"
  by (rule trim_space_snoc_single [OF go_spaces_ascii(2)])

lemma strip_comment_cr: "trim_space (strip_comment (v @ [cr])) = trim_space (strip_comment v)"
  unfolding strip_comment_def inline_comment_cr
  by (auto split: option.splits dest: inline_comment_le)

lemma parse_entry_cr: "parse_entry (l @ [cr]) = parse_entry l"
proof -
  have cut: "cut_at (CHR ''='') (l @ [cr]) = map_option (\<lambda>(a, b). (a, b @ [cr])) (cut_at (CHR ''='') l)"
    by (rule cut_at_snoc) simp
  show ?thesis
    unfolding parse_entry_def cut
    by (cases "cut_at (CHR ''='') l") (auto simp: strip_comment_cr split: prod.splits sum.splits)
qed

lemma parse_line_cr: "parse_line st (l @ [cr]) = parse_line st l"
  unfolding parse_line_def parse_entry_cr trim_space_cr ..

lemma parse_lines_last_cr:
  "xs \<noteq> [] \<Longrightarrow> parse_lines st (butlast xs @ [last xs @ [cr]]) = parse_lines st xs"
  using parse_lines_append [of st "butlast xs" "[last xs]"]
  by (simp add: parse_lines_append parse_line_cr split: sum.splits)

lemma parse_lines_trim_right:
  "parse_lines st (split_on nl (trim_right_set s [cr, nl])) = parse_lines st (split_on nl s)"
proof (induction s rule: rev_induct)
  case (snoc x s)
  consider "x = nl" | "x = cr" | "x \<notin> set [cr, nl]" by auto
  then show ?case
  proof cases
    case 1
    have "parse_lines st (split_on nl (s @ [nl])) = parse_lines st (split_on nl s)"
      by (simp add: split_on_snoc_sep parse_lines_append parse_line_skip skip_line_def split: sum.splits)
    with 1 snoc show ?thesis by (simp add: trim_right_set_snoc)
  next
    case 2
    have "parse_lines st (split_on nl (s @ [cr])) = parse_lines st (split_on nl s)"
      by (simp add: split_on_snoc parse_lines_last_cr)
    with 2 snoc show ?thesis by (simp add: trim_right_set_snoc)
  next
    case 3
    then show ?thesis using trim_right_set_last [of x "[cr, nl]" s] by simp
  qed
qed (simp add: trim_right_set_def)

subsection \<open>Keys\<close>

lemma key_char_ascii: "key_char c \<Longrightarrow> plain c \<and> ascii_lower c = c \<and> (of_char c :: nat) < 128 \<and> c \<noteq> CHR ''=''"
  by (auto simp: key_char_def key_start_def plain_def ascii_lower_def less_eq_char_def)

lemma key_start_char: "key_start c \<Longrightarrow> key_char c"
  by (simp add: key_char_def)

lemma pattern_chars: "canonical_key_pattern k \<Longrightarrow> c \<in> set k \<Longrightarrow> key_char c"
  by (cases k) (auto simp: list_all_iff key_start_char)

lemma key_char_special: "key_char c \<Longrightarrow> c \<noteq> nl \<and> c \<noteq> CHR ''=''"
  by (auto simp: key_char_def key_start_def less_eq_char_def)

lemma pattern_nonempty: "canonical_key_pattern k \<Longrightarrow> k \<noteq> []"
  by auto

lemma pattern_trim: "canonical_key_pattern k \<Longrightarrow> trim_space k = k"
  by (rule trim_space_plain_ends)
    (auto dest: pattern_nonempty intro!: key_char_ascii [THEN conjunct1] pattern_chars [of k])

lemma pattern_lower: "canonical_key_pattern k \<Longrightarrow> to_lower k = k"
  by (rule to_lower_id) (auto dest!: pattern_chars key_char_ascii)

lemma pattern_no_arg: "canonical_key_pattern k \<Longrightarrow> \<not> has_prefix k ''LLAMA_ARG_''"
  by (cases k) (auto simp: has_prefix_def key_start_def less_eq_char_def)

lemma aliases_canonical:
  "list_all (\<lambda>(a, b). canonical_key_pattern b \<and> map_of key_aliases b = None) key_aliases"
  by code_simp

lemma canonical_key_tail_Inr:
  "canonical_key_tail key t = Inr c \<Longrightarrow> canonical_key_pattern c \<and> map_of key_aliases c = None"
  using aliases_canonical
  by (fastforce simp: canonical_key_tail_def list_all_iff split: if_splits option.splits dest: map_of_SomeD)

text \<open>A canonical key: what \<^verbatim>\<open>canonicalKey\<close> returns.\<close>

definition key_ok :: "string \<Rightarrow> bool" where
  "key_ok k \<longleftrightarrow> canonical_key_pattern k \<and> map_of key_aliases k = None"

lemma canonical_key_ok: "canonical_key key = Inr c \<Longrightarrow> key_ok c"
  by (auto simp: canonical_key_def key_ok_def Let_def split: if_splits dest: canonical_key_tail_Inr)

lemma canonical_key_fixed: "key_ok k \<Longrightarrow> canonical_key k = Inr k"
  by (auto simp: key_ok_def canonical_key_def pattern_trim pattern_lower pattern_no_arg canonical_key_tail_def)

subsection \<open>Printed lines\<close>

text \<open>What a value reads as after it has been written.\<close>

definition stored_value :: "string \<Rightarrow> string" where
  "stored_value v = trim_space (strip_comment (CHR '' '' # v))"

lemma bracket_plain: "plain (CHR ''['')" "plain (CHR '']'')"
  by (simp_all add: plain_def)

lemma parse_line_entry:
  assumes "key_ok k" "current \<noteq> []"
  shows "parse_line (current, S) (render_line (k, v)) = Inr (current, set_value current k (stored_value v) S)"
proof -
  from assms(1) obtain c cs where k: "k = c # cs" and c: "key_start c"
    by (cases k) (auto simp: key_ok_def)
  from c have c': "CHR ''['' \<noteq> c \<and> CHR '';'' \<noteq> c \<and> CHR ''#'' \<noteq> c"
    by (auto simp: key_start_def less_eq_char_def)
  let ?line = "render_line (k, v)"
  have line: "?line = (k @ '' '') @ CHR ''='' # CHR '' '' # v" by (simp add: render_line_def)
  have trimmed: "trim_space ?line = c # trim_right_space (cs @ '' = '' @ v)"
    using trim_space_Cons_plain [of c] key_char_ascii [OF key_start_char [OF c]]
    by (simp add: render_line_def k)
  have "CHR ''='' \<notin> set (k @ '' '')"
    using assms(1) by (auto simp: key_ok_def dest: pattern_chars key_char_ascii)
  then have cut: "cut_at (CHR ''='') ?line = Some (k @ '' '', CHR '' '' # v)"
    unfolding line by (rule cut_at_first)
  have key: "canonical_key (trim_space (k @ '' '')) = Inr k"
    using trim_space_snoc_single [OF go_spaces_ascii(1), of k] assms(1)
    by (simp add: canonical_key_fixed key_ok_def pattern_trim)
  have "parse_entry ?line = Inr (k, stored_value v)"
    by (simp add: parse_entry_def cut key stored_value_def)
  then show ?thesis
    using c' assms(2) by (simp add: parse_line_def trimmed is_comment_def has_prefix_def)
qed

lemma validate_name_None:
  "validate_section_name name = None \<longleftrightarrow>
     trim_space name \<noteq> [] \<and> (\<forall>c \<in> set name. c \<notin> set (''[]'' @ [cr, nl] @ '';#=''))"
  by (auto simp: validate_section_name_def contains_any_def list_ex_iff)

lemma validate_name_trim:
  "validate_section_name name = None \<Longrightarrow> validate_section_name (trim_space name) = None"
  unfolding validate_name_None using trim_space_set [of name] by auto

lemma parse_line_header:
  assumes "validate_section_name name = None"
  shows "parse_line (current, S) (CHR ''['' # name @ '']'') =
    (case map_of S (trim_space name) of
       Some _ \<Rightarrow> Inl (invalid [Lit ''duplicate models.ini section '', Quoted (trim_space name)])
     | None \<Rightarrow> Inr (trim_space name, S @ [(trim_space name, \<lparr>sec_name = trim_space name, sec_values = []\<rparr>)]))"
proof -
  let ?h = "CHR ''['' # name @ '']''"
  have trimmed: "trim_space ?h = ?h"
    by (rule trim_space_plain_ends) (simp_all add: bracket_plain)
  have "header_name ?h = trim_space name"
    by (simp add: header_name_def)
  then show ?thesis
    using validate_name_trim [OF assms]
    by (simp add: Let_def parse_line_def parse_header_def trimmed is_comment_def has_prefix_def
        has_suffix_def suffix_def)
qed

subsection \<open>Successful lines\<close>

text \<open>How a line that is read without error changes the sections.\<close>

lemma parse_header_Inr:
  assumes "parse_header t S = Inr (c', S')"
  shows "has_suffix t '']'' \<and> c' = header_name t \<and> validate_section_name c' = None \<and>
    c' \<notin> set (secs_keys S) \<and> S' = S @ [(c', \<lparr>sec_name = c', sec_values = []\<rparr>)] \<and>
    (\<forall>T. c' \<notin> set (secs_keys T) \<longrightarrow>
       parse_header t T = Inr (c', T @ [(c', \<lparr>sec_name = c', sec_values = []\<rparr>)]))"
proof -
  from assms have suf: "has_suffix t '']''" by (auto simp: parse_header_def split: if_splits)
  from assms suf have v: "validate_section_name (header_name t) = None"
    by (auto simp: parse_header_def Let_def split: option.splits)
  from assms suf v have m: "map_of S (header_name t) = None"
    by (auto simp: parse_header_def Let_def split: option.splits)
  from assms suf v m have "c' = header_name t" "S' = S @ [(c', \<lparr>sec_name = c', sec_values = []\<rparr>)]"
    by (auto simp: parse_header_def Let_def)
  with suf v m show ?thesis by (auto simp: parse_header_def Let_def map_of_eq_None_iff image_iff split: option.splits dest!: map_of_SomeD)
      force
qed

lemma parse_entry_key: "parse_entry l = Inr (k, v) \<Longrightarrow> key_ok k"
  by (auto simp: parse_entry_def split: option.splits sum.splits dest: canonical_key_ok)

lemma parse_line_cases:
  assumes "parse_line (c, S) l = Inr (c', S')"
  obtains (skip) "\<not> is_header (trim_space l)" "c' = c" "S' = S" "\<And>T. parse_line (c, T) l = Inr (c, T)"
    | (header) "is_header (trim_space l)" "c' = header_name (trim_space l)"
        "validate_section_name c' = None" "c' \<notin> set (secs_keys S)"
        "S' = S @ [(c', \<lparr>sec_name = c', sec_values = []\<rparr>)]"
        "\<And>d T. c' \<notin> set (secs_keys T) \<Longrightarrow>
           parse_line (d, T) l = Inr (c', T @ [(c', \<lparr>sec_name = c', sec_values = []\<rparr>)])"
    | (entry) k v where "\<not> is_header (trim_space l)" "c \<noteq> []" "c' = c" "S' = set_value c k v S" "key_ok k"
        "\<And>d T. d \<noteq> [] \<Longrightarrow> parse_line (d, T) l = Inr (d, set_value d k v T)"
proof (cases "skip_line l")
  case True
  then have "\<not> is_header (trim_space l)"
    by (auto simp: skip_line_def is_header_def is_comment_def has_prefix_def prefix_def)
  with True assms skip show thesis by (simp add: parse_line_skip)
next
  case False
  then have eq: "parse_line (d, T) l =
      (if has_prefix (trim_space l) ''['' then parse_header (trim_space l) T
       else if d = [] then Inr (d, T)
       else (case parse_entry l of Inl err \<Rightarrow> Inl err
             | Inr (key, value) \<Rightarrow> Inr (d, set_value d key value T)))" for d T
    by (simp add: parse_line_def skip_line_def split: sum.split)
  show thesis
  proof (cases "has_prefix (trim_space l) ''[''")
    case True
    with assms have h: "parse_header (trim_space l) S = Inr (c', S')" by (simp add: eq)
    note i = parse_header_Inr [OF h]
    with True show thesis by (intro header) (auto simp: eq is_header_def)
  next
    case False
    then have nh: "\<not> is_header (trim_space l)" by (simp add: is_header_def)
    show thesis
    proof (cases "c = []")
      case True
      with False assms nh skip show thesis by (simp add: eq)
    next
      case False
      with \<open>\<not> has_prefix (trim_space l) ''[''\<close> assms obtain k v where
        kv: "parse_entry l = Inr (k, v)" "c' = c" "S' = set_value c k v S"
        by (auto simp: eq split: sum.splits)
      show thesis
        by (rule entry [OF nh False kv(2,3) parse_entry_key [OF kv(1)]])
          (simp add: eq kv(1) \<open>\<not> has_prefix (trim_space l) ''[''\<close>)
    qed
  qed
qed

lemma set_value_keys [simp]: "secs_keys (set_value c k v S) = secs_keys S"
  by (induction S) (auto simp: set_value_def)

lemma set_value_filter:
  "c \<noteq> name \<Longrightarrow> filter (\<lambda>kv. fst kv \<noteq> name) (set_value c k v S) = set_value c k v (filter (\<lambda>kv. fst kv \<noteq> name) S)"
  by (induction S) (auto simp: set_value_def)

lemma set_value_append:
  "c \<notin> set (secs_keys S) \<Longrightarrow> set_value c k v (S @ T) = S @ set_value c k v T"
  by (induction S) (auto simp: set_value_def)

text \<open>A header of a section that stays, an entry of another section: both commute with the removal of
  a section from the map. This is the simulation behind \<open>remove_section\<close>.\<close>

abbreviation without :: "string \<Rightarrow> sections \<Rightarrow> sections" where
  "without name \<equiv> filter (\<lambda>kv. fst kv \<noteq> name)"

lemma parse_line_without:
  assumes "parse_line (c, S) l = Inr (c', S')" "name \<in> set (secs_keys S)" "c \<noteq> name"
  shows "parse_line (c, without name S) l = Inr (c', without name S') \<and>
    name \<in> set (secs_keys S') \<and> c' \<noteq> name"
  using assms(1)
proof (cases rule: parse_line_cases)
  case skip
  then show ?thesis using assms by simp
next
  case header
  with assms have "c' \<noteq> name" by auto
  moreover have "c' \<notin> set (secs_keys (without name S))" using header by auto
  ultimately show ?thesis using header assms by auto
next
  case (entry k v)
  then show ?thesis using assms set_value_filter [of c name k v S] by auto
qed

lemma parse_lines_without:
  assumes "parse_lines (c, S) ls = Inr (c', S')" "name \<in> set (secs_keys S)" "c \<noteq> name"
  shows "parse_lines (c, without name S) ls = Inr (c', without name S')"
  using assms
proof (induction ls arbitrary: c S)
  case (Cons l ls)
  from Cons.prems(1) obtain d T where l: "parse_line (c, S) l = Inr (d, T)"
    and ls: "parse_lines (d, T) ls = Inr (c', S')" by (auto split: sum.splits)
  from parse_line_without [OF l Cons.prems(2,3)] Cons.IH [OF ls] show ?case by simp
qed simp

text \<open>The keys of the map are the headers, in order.\<close>

definition header_names :: "string list \<Rightarrow> string list" where
  "header_names ls = map (\<lambda>l. header_name (trim_space l)) (filter (\<lambda>l. is_header (trim_space l)) ls)"

lemma parse_lines_keys:
  "parse_lines (c, S) ls = Inr (c', S') \<Longrightarrow> secs_keys S' = secs_keys S @ header_names ls"
proof (induction ls arbitrary: c S)
  case (Cons l ls)
  from Cons.prems obtain d T where l: "parse_line (c, S) l = Inr (d, T)"
    and ls: "parse_lines (d, T) ls = Inr (c', S')" by (auto split: sum.splits)
  from l have "secs_keys T = secs_keys S @ header_names [l]"
    by (cases rule: parse_line_cases) (auto simp: header_names_def)
  with Cons.IH [OF ls] show ?case by (simp add: header_names_def)
qed (simp add: header_names_def)

lemma parse_lines_distinct:
  "parse_lines (c, S) ls = Inr (c', S') \<Longrightarrow> distinct (secs_keys S) \<Longrightarrow> distinct (secs_keys S')"
proof (induction ls arbitrary: c S)
  case (Cons l ls)
  from Cons.prems obtain d T where l: "parse_line (c, S) l = Inr (d, T)"
    and ls: "parse_lines (d, T) ls = Inr (c', S')" by (auto split: sum.splits)
  from l Cons.prems(2) have "distinct (secs_keys T)"
    by (cases rule: parse_line_cases) auto
  with Cons.IH [OF ls] show ?case by simp
qed simp

text \<open>What lies between a header and the next one only changes that section.\<close>

lemma parse_lines_body:
  assumes "parse_lines (n, S @ [(n, s)]) ls = Inr (c', S')" "header_names ls = []"
    and "n \<notin> set (secs_keys S)"
  shows "c' = n \<and> (\<exists>s'. S' = S @ [(n, s')])"
  using assms
proof (induction ls arbitrary: s)
  case (Cons l ls)
  from Cons.prems(1) obtain d T where l: "parse_line (n, S @ [(n, s)]) l = Inr (d, T)"
    and ls: "parse_lines (d, T) ls = Inr (c', S')" by (auto split: sum.splits)
  from Cons.prems(2) have nh: "\<not> is_header (trim_space l)" "header_names ls = []"
    by (auto simp: header_names_def split: if_splits)
  from l have "d = n \<and> (\<exists>s'. T = S @ [(n, s')])"
  proof (cases rule: parse_line_cases)
    case (entry k v)
    then show ?thesis using Cons.prems(3) by (simp add: set_value_append) (simp add: set_value_def)
  qed (use nh in auto)
  with Cons.IH ls nh Cons.prems(3) show ?case by blast
qed auto

subsection \<open>Removing a section\<close>

declare section_bounds.simps(2) [simp del]

lemma section_bounds_simps [simp]:
  "\<not> is_header (trim_space l) \<Longrightarrow> section_bounds name i st (l # ls) = section_bounds name (Suc i) st ls"
  "is_header (trim_space l) \<Longrightarrow> section_bounds name i (Some s) (l # ls) = (Some s, Some i)"
  "is_header (trim_space l) \<Longrightarrow> section_bounds name i None (l # ls) =
     section_bounds name (Suc i) (if header_name (trim_space l) = name then Some i else None) ls"
  by (simp_all add: section_bounds.simps(2) Let_def)

lemma section_bounds_from:
  "section_bounds name i (Some s) ls = (Some s, stop) \<Longrightarrow>
   (stop = None \<and> header_names ls = []) \<or>
   (\<exists>body h post. ls = body @ h # post \<and> header_names body = [] \<and> is_header (trim_space h) \<and>
      stop = Some (i + length body))"
proof (induction ls arbitrary: i)
  case (Cons l ls)
  show ?case
  proof (cases "is_header (trim_space l)")
    case True
    with Cons.prems have "l # ls = [] @ l # ls" "stop = Some (i + length [])" by simp_all
    with True show ?thesis by (metis header_names_def filter.simps(1) list.simps(8))
  next
    case False
    with Cons.prems have "section_bounds name (Suc i) (Some s) ls = (Some s, stop)" by simp
    from Cons.IH [OF this] consider "stop = None" "header_names ls = []"
      | body h post where "ls = body @ h # post" "header_names body = []" "is_header (trim_space h)"
          "stop = Some (Suc i + length body)" by blast
    then show ?thesis
    proof cases
      case 1
      with False show ?thesis by (simp add: header_names_def)
    next
      case 2
      with False have "l # ls = (l # body) @ h # post" "header_names (l # body) = []"
        "stop = Some (i + length (l # body))" by (simp_all add: header_names_def)
      with 2 show ?thesis by blast
    qed
  qed
qed (simp add: header_names_def)

lemma section_bounds_fst: "\<exists>stop. section_bounds name i (Some s) ls = (Some s, stop)"
proof (induction ls arbitrary: i)
  case (Cons l ls)
  then show ?case by (cases "is_header (trim_space l)") auto
qed simp

text \<open>The lines of a section that is found: before it, its header, its lines, and the rest.\<close>

lemma section_bounds_split:
  assumes "name \<in> set (header_names ls)"
  shows "\<exists>pre h body post. ls = pre @ h # body @ post \<and> name \<notin> set (header_names pre) \<and>
    is_header (trim_space h) \<and> header_name (trim_space h) = name \<and> header_names body = [] \<and>
    (post = [] \<or> is_header (trim_space (hd post))) \<and>
    (\<exists>stop. section_bounds name i None ls = (Some (i + length pre), stop) \<and>
      (case stop of None \<Rightarrow> i + length ls | Some j \<Rightarrow> j) = i + length pre + 1 + length body)"
  using assms
proof (induction ls arbitrary: i)
  case (Cons l ls)
  show ?case
  proof (cases "is_header (trim_space l) \<and> header_name (trim_space l) = name")
    case True
    obtain stop where stop: "section_bounds name (Suc i) (Some i) ls = (Some i, stop)"
      using section_bounds_fst by blast
    with True have b: "section_bounds name i None (l # ls) = (Some i, stop)" by simp
    from section_bounds_from [OF stop] show ?thesis
    proof (elim disjE exE conjE)
      assume "stop = None" "header_names ls = []"
      with True b show ?thesis
        by (intro exI [of _ "[]"] exI [of _ l] exI [of _ ls]) (auto simp: header_names_def)
    next
      fix body h post
      assume "ls = body @ h # post" "header_names body = []" "is_header (trim_space h)"
        "stop = Some (Suc i + length body)"
      with True b show ?thesis
        by (intro exI [of _ "[]"] exI [of _ l] exI [of _ body] exI [of _ "h # post"])
          (auto simp: header_names_def)
    qed
  next
    case False
    with Cons.prems have "name \<in> set (header_names ls)" by (auto simp: header_names_def split: if_splits)
    from Cons.IH [OF this, of "Suc i"] obtain pre h body post stop where
      ls: "ls = pre @ h # body @ post" "name \<notin> set (header_names pre)" "is_header (trim_space h)"
        "header_name (trim_space h) = name" "header_names body = []"
        "post = [] \<or> is_header (trim_space (hd post))"
        "section_bounds name (Suc i) None ls = (Some (Suc i + length pre), stop)"
        "(case stop of None \<Rightarrow> Suc i + length ls | Some j \<Rightarrow> j) = Suc i + length pre + 1 + length body"
      by blast
    have "section_bounds name i None (l # ls) = section_bounds name (Suc i) None ls"
      using False by (cases "is_header (trim_space l)") simp_all
    moreover have "name \<notin> set (header_names (l # pre))"
      using False ls(2) by (auto simp: header_names_def)
    ultimately show ?thesis using ls
      by (intro exI [of _ "l # pre"] exI [of _ h] exI [of _ body] exI [of _ post])
        (auto split: option.splits)
  qed
qed (simp add: header_names_def)

lemma shrink_end_bounds:
  "start < e \<Longrightarrow> start < shrink_end ls start e \<and> shrink_end ls start e \<le> e \<and>
     (\<forall>j. shrink_end ls start e \<le> j \<longrightarrow> j < e \<longrightarrow> skip_line (ls ! j))"
proof (induction e)
  case (Suc e)
  show ?case
  proof (cases "Suc e > start + 1 \<and> skip_line (ls ! e)")
    case True
    then have eq: "shrink_end ls start (Suc e) = shrink_end ls start e"
      by (auto simp: skip_line_def)
    from True Suc.IH have "start < shrink_end ls start e \<and> shrink_end ls start e \<le> e \<and>
      (\<forall>j. shrink_end ls start e \<le> j \<longrightarrow> j < e \<longrightarrow> skip_line (ls ! j))" by simp
    with True show ?thesis unfolding eq by (auto simp: less_Suc_eq)
  next
    case False
    then have "shrink_end ls start (Suc e) = Suc e" by (auto simp: skip_line_def Let_def)
    with Suc.prems show ?thesis by simp
  qed
qed simp

lemma section_bounds_absent:
  "name \<notin> set (header_names ls) \<Longrightarrow> section_bounds name i None ls = (None, None)"
proof (induction ls arbitrary: i)
  case (Cons l ls)
  then have "name \<notin> set (header_names ls)" "is_header (trim_space l) \<Longrightarrow> header_name (trim_space l) \<noteq> name"
    by (auto simp: header_names_def split: if_splits)
  with Cons.IH [of "Suc i"] show ?case by (cases "is_header (trim_space l)") simp_all
qed simp

lemma parse_lines_join:
  assumes "\<And>l. l \<in> set ls \<Longrightarrow> nl \<notin> set l"
  shows "parse_lines st (split_on nl (join_with nl ls)) = parse_lines st ls"
proof (cases "ls = []")
  case True
  then show ?thesis by (simp add: parse_line_skip skip_line_def)
next
  case False
  then show ?thesis using assms by (simp add: split_join)
qed

lemma without_id: "name \<notin> set (secs_keys S) \<Longrightarrow> without name S = S"
  by (induction S) auto

text \<open>The lines without the lines of one section read as the map without it.\<close>

lemma parse_lines_drop_section:
  assumes all: "parse_lines ([], []) (pre @ h # body @ trail @ post) = Inr (c, S)"
    and name: "name \<notin> set (header_names pre)" "is_header (trim_space h)" "header_name (trim_space h) = name"
    and body: "header_names body = []" and trail: "\<And>l. l \<in> set trail \<Longrightarrow> skip_line l"
    and post: "post = [] \<or> is_header (trim_space (hd post))"
  shows "\<exists>c'. parse_lines ([], []) (pre @ trail @ post) = Inr (c', without name S)"
proof -
  from all obtain c0 S0 where pre: "parse_lines ([], []) pre = Inr (c0, S0)"
    and rest0: "parse_lines (c0, S0) (h # body @ trail @ post) = Inr (c, S)"
    by (auto simp: parse_lines_append split: sum.splits)
  from parse_lines_keys [OF pre] name(1) have n0: "name \<notin> set (secs_keys S0)" by simp
  from rest0 obtain d T where h: "parse_line (c0, S0) h = Inr (d, T)"
    and rest1: "parse_lines (d, T) (body @ trail @ post) = Inr (c, S)" by (auto split: sum.splits)
  from h name have "d = name \<and> T = S0 @ [(name, \<lparr>sec_name = name, sec_values = []\<rparr>)]"
    by (cases rule: parse_line_cases) auto
  with rest1 obtain d1 T1 where
    b: "parse_lines (name, S0 @ [(name, \<lparr>sec_name = name, sec_values = []\<rparr>)]) body = Inr (d1, T1)"
    and rest2: "parse_lines (d1, T1) (trail @ post) = Inr (c, S)"
    by (auto simp: parse_lines_append split: sum.splits)
  from parse_lines_body [OF b body n0] obtain s where T1: "d1 = name" "T1 = S0 @ [(name, s)]" by blast
  with rest2 trail have rest3: "parse_lines (name, S0 @ [(name, s)]) post = Inr (c, S)"
    by (simp add: parse_lines_append parse_lines_skip)
  have goal: "parse_lines ([], []) (pre @ trail @ post) = parse_lines (c0, S0) post"
    using trail by (simp add: parse_lines_append pre parse_lines_skip)
  show ?thesis
  proof (cases post)
    case Nil
    with rest3 n0 goal show ?thesis by (auto simp: without_id)
  next
    case (Cons p ps)
    with rest3 obtain n U where p: "parse_line (name, S0 @ [(name, s)]) p = Inr (n, U)"
      and ps: "parse_lines (n, U) ps = Inr (c, S)" by (auto split: sum.splits)
    from p post Cons have
      n: "n \<notin> set (secs_keys (S0 @ [(name, s)]))"
        "U = (S0 @ [(name, s)]) @ [(n, \<lparr>sec_name = n, sec_values = []\<rparr>)]"
        "parse_line (c0, S0) p = Inr (n, S0 @ [(n, \<lparr>sec_name = n, sec_values = []\<rparr>)])"
      by (cases rule: parse_line_cases; simp)+
    from parse_lines_without [OF ps, of name] n n0
    have "parse_lines (n, S0 @ [(n, \<lparr>sec_name = n, sec_values = []\<rparr>)]) ps = Inr (c, without name S)"
      by (simp add: without_id)
    with goal Cons n(3) show ?thesis by simp
  qed
qed

lemma parse_remove_section:
  assumes "parse_ini content = Inr S"
  shows "parse_ini (remove_section content name) = Inr (without name S)"
proof -
  let ?ls = "split_on nl content"
  from assms obtain c where all: "parse_lines ([], []) ?ls = Inr (c, S)"
    by (auto simp: parse_ini_def map_sum_def split: sum.splits)
  note keys = parse_lines_keys [OF all]
  show ?thesis
  proof (cases "name \<in> set (header_names ?ls)")
    case False
    then have "remove_section content name = content"
      by (simp add: remove_section_def section_bounds_absent)
    with assms keys False show ?thesis by (simp add: without_id)
  next
    case True
    from section_bounds_split [OF True, of 0, unfolded add_0] obtain pre h body post stop where
      ls: "?ls = pre @ h # body @ post" and pre: "name \<notin> set (header_names pre)"
      and h: "is_header (trim_space h)" "header_name (trim_space h) = name" and body: "header_names body = []"
      and post: "post = [] \<or> is_header (trim_space (hd post))"
      and b: "section_bounds name 0 None ?ls = (Some (length pre), stop)"
      and stop: "(case stop of None \<Rightarrow> length ?ls | Some j \<Rightarrow> j) = length pre + 1 + length body"
      by blast
    define e where "e = shrink_end ?ls (length pre) (length pre + 1 + length body)"
    have e: "length pre < e" "e \<le> length pre + 1 + length body"
      and sk: "\<And>j. e \<le> j \<Longrightarrow> j < length pre + 1 + length body \<Longrightarrow> skip_line (?ls ! j)"
      using shrink_end_bounds [of "length pre" "length pre + 1 + length body" ?ls] by (auto simp: e_def)
    define m where "m = e - length pre - 1"
    from e have m: "e = length pre + 1 + m" "m \<le> length body" by (auto simp: m_def)
    have trail: "skip_line l" if "l \<in> set (drop m body)" for l
    proof -
      from that obtain k where "k < length (drop m body)" "drop m body ! k = l"
        unfolding in_set_conv_nth by blast
      then have "m + k < length body" "l = body ! (m + k)" by auto
      moreover have "?ls ! (length pre + 1 + (m + k)) = body ! (m + k)" if "m + k < length body" for k
        using that by (simp add: ls nth_append)
      ultimately show ?thesis using sk [of "length pre + 1 + (m + k)"] m by simp
    qed
    have new: "remove_section content name = join_with nl (pre @ drop m body @ post)"
    proof -
      have "remove_section content name = join_with nl (take (length pre) ?ls @ drop e ?ls)"
        by (simp only: remove_section_def b stop Let_def prod.case option.case e_def)
      also have "take (length pre) ?ls @ drop e ?ls = pre @ drop m body @ post"
        using m by (simp add: ls)
      finally show ?thesis .
    qed
    have hn: "header_names (take m body) = []"
      using body append_take_drop_id [of m body]
      by (metis append_is_Nil_conv filter_append header_names_def map_append)
    have "?ls = pre @ h # take m body @ drop m body @ post" by (simp add: ls)
    with all have all': "parse_lines ([], []) (pre @ h # take m body @ drop m body @ post) = Inr (c, S)"
      by simp
    obtain c' where "parse_lines ([], []) (pre @ drop m body @ post) = Inr (c', without name S)"
      using parse_lines_drop_section [OF all' pre h hn trail post] by blast
    moreover have "nl \<notin> set l" if "l \<in> set (pre @ drop m body @ post)" for l
    proof -
      from that have "l \<in> set ?ls" unfolding ls by (auto dest: in_set_dropD)
      then show ?thesis by (rule split_on_parts)
    qed
    ultimately show ?thesis
      unfolding new parse_ini_def by (subst parse_lines_join) simp_all
  qed
qed

subsection \<open>Writing a section\<close>

abbreviation no_newline :: "string \<Rightarrow> bool" where
  "no_newline v \<equiv> cr \<notin> set v \<and> nl \<notin> set v"

text \<open>The values that \<^verbatim>\<open>Put\<close> writes: canonical keys, each once, and values on one line.\<close>

definition put_values_ok :: "(string \<times> string) list \<Rightarrow> bool" where
  "put_values_ok vs \<longleftrightarrow>
     distinct (map fst vs) \<and> (\<forall>(k, v) \<in> set vs. key_ok k \<and> no_newline v)"

lemma canonical_values_ok:
  "canonical_values acc kvs = Inr vs \<Longrightarrow> put_values_ok acc \<Longrightarrow> put_values_ok vs"
proof (induction acc kvs rule: canonical_values.induct)
  case (2 acc key v kvs)
  then show ?case
    by (auto simp: put_values_ok_def contains_any_def list_ex_iff canonical_key_ok
        split: sum.splits if_splits)
qed simp

lemma no_newline_trim_right:
  "c \<noteq> cr \<Longrightarrow> c \<noteq> nl \<Longrightarrow> trim_right_set (s @ [c, nl]) [cr, nl] = s @ [c]"
  using trim_right_set_snoc [of nl "[cr, nl]" "s @ [c]"] trim_right_set_last [of c "[cr, nl]" s] by simp

lemma render_line_last:
  assumes "key_ok k" "no_newline v"
  shows "\<exists>s c. render_line (k, v) = s @ [c] \<and> c \<noteq> cr \<and> c \<noteq> nl"
proof (cases v rule: rev_cases)
  case Nil
  then show ?thesis
    by (intro exI [of _ "k @ '' =''"] exI [of _ "CHR '' ''"]) (simp add: render_line_def)
next
  case (snoc s c)
  with assms show ?thesis
    by (intro exI [of _ "k @ '' = '' @ s"] exI [of _ c]) (auto simp: render_line_def)
qed

text \<open>The final \<^verbatim>\<open>TrimRight\<close> and line feed of \<^verbatim>\<open>write\<close> leave a text that ends in a printed section.\<close>

lemma write_normal_form:
  assumes "put_values_ok (sec_values sec)"
  shows "trim_right_set (A @ render_section sec) [cr, nl] @ [nl] = A @ render_section sec"
proof -
  let ?keys = "sort (map fst (sec_values sec))"
  let ?f = "\<lambda>k. render_line (k, the (map_of (sec_values sec) k)) @ [nl]"
  have "\<exists>s c. render_section sec = s @ [c, nl] \<and> c \<noteq> cr \<and> c \<noteq> nl"
  proof (cases ?keys rule: rev_cases)
    case Nil
    then show ?thesis
      by (intro exI [of _ "[nl, nl] @ ''['' @ sec_name sec"] exI [of _ "CHR '']''"])
        (simp add: render_section_def)
  next
    case (snoc ks k)
    have "k \<in> set (map fst (sec_values sec))"
      using snoc by (metis in_set_conv_decomp set_sort)
    then obtain v where "map_of (sec_values sec) k = Some v" by (metis map_of_eq_None_iff not_None_eq set_map)
    moreover from this have "(k, v) \<in> set (sec_values sec)" by (rule map_of_SomeD)
    ultimately obtain s c where "render_line (k, the (map_of (sec_values sec) k)) = s @ [c]" "c \<noteq> cr" "c \<noteq> nl"
      using assms render_line_last [of k v] by (fastforce simp: put_values_ok_def)
    with snoc show ?thesis
      by (intro exI [of _ "[nl, nl] @ ''['' @ sec_name sec @ '']'' @ [nl] @ concat (map ?f ks) @ s"] exI [of _ c])
        (simp add: render_section_def)
  qed
  then obtain s c where "render_section sec = s @ [c, nl]" "c \<noteq> cr" "c \<noteq> nl" by blast
  with no_newline_trim_right [of c "A @ s"] show ?thesis by simp
qed

lemma split_on_lines:
  "(\<And>l. l \<in> set ls \<Longrightarrow> nl \<notin> set l) \<Longrightarrow> split_on nl (concat (map (\<lambda>l. l @ [nl]) ls)) = ls @ [[]]"
  by (induction ls) (auto simp: split_on_append)

lemma parse_rendered_lines:
  assumes "\<And>k v. (k, v) \<in> set kvs \<Longrightarrow> key_ok k" "distinct (map fst kvs)" "n \<noteq> []"
    "n \<notin> set (secs_keys S)" "\<And>k. k \<in> set (map fst kvs) \<Longrightarrow> k \<notin> set (map fst acc)"
  shows "parse_lines (n, S @ [(n, \<lparr>sec_name = n, sec_values = acc\<rparr>)]) (map render_line kvs) =
    Inr (n, S @ [(n, \<lparr>sec_name = n, sec_values = acc @ map (\<lambda>(k, v). (k, stored_value v)) kvs\<rparr>)])"
  using assms
proof (induction kvs arbitrary: acc)
  case (Cons kv kvs)
  obtain k v where kv: "kv = (k, v)" by force
  have upd: "AList.update k x acc = acc @ [(k, x)]" for x
    using Cons.prems(5) [of k] kv by (induction acc) auto
  have line: "parse_line (n, S @ [(n, \<lparr>sec_name = n, sec_values = acc\<rparr>)]) (render_line (k, v)) =
    Inr (n, S @ [(n, \<lparr>sec_name = n, sec_values = acc @ [(k, stored_value v)]\<rparr>)])"
  proof -
    have "set_value n k (stored_value v) (S @ [(n, \<lparr>sec_name = n, sec_values = acc\<rparr>)]) =
      S @ [(n, \<lparr>sec_name = n, sec_values = acc @ [(k, stored_value v)]\<rparr>)]"
      using Cons.prems(4) by (subst set_value_append) (simp_all add: set_value_def upd)
    moreover have "key_ok k" using Cons.prems(1) [of k v] kv by simp
    ultimately show ?thesis using parse_line_entry [of k n] Cons.prems(3) by simp
  qed
  have "parse_lines (n, S @ [(n, \<lparr>sec_name = n, sec_values = acc @ [(k, stored_value v)]\<rparr>)])
      (map render_line kvs) =
    Inr (n, S @ [(n, \<lparr>sec_name = n, sec_values =
      (acc @ [(k, stored_value v)]) @ map (\<lambda>(k, v). (k, stored_value v)) kvs\<rparr>)])"
    using Cons.prems kv by (intro Cons.IH) force+
  with line kv show ?case by simp
qed simp

text \<open>The section that a written section reads back as: keys in order, values as they are stored.\<close>

definition stored_section :: "string \<Rightarrow> (string \<times> string) list \<Rightarrow> preset_section" where
  "stored_section name vs =
     \<lparr>sec_name = name,
      sec_values = map (\<lambda>k. (k, stored_value (the (map_of vs k)))) (sort (map fst vs))\<rparr>"

lemma parse_rendered_section:
  assumes name: "validate_section_name name = None" and vs: "put_values_ok vs"
    and S: "parse_ini content = Inr S"
  shows "parse_ini (trim_right_set (trim_right_set content [cr, nl] @
             render_section \<lparr>sec_name = name, sec_values = vs\<rparr>) [cr, nl] @ [nl]) =
    (if trim_space name \<in> set (secs_keys S)
     then Inl (invalid [Lit ''duplicate models.ini section '', Quoted (trim_space name)])
     else Inr (S @ [(trim_space name, stored_section (trim_space name) vs)]))"
proof -
  let ?n = "trim_space name" and ?A = "trim_right_set content [cr, nl]"
  let ?keys = "sort (map fst vs)"
  let ?kvs = "map (\<lambda>k. (k, the (map_of vs k))) ?keys"
  have nl_name: "nl \<notin> set name" and n_ne: "?n \<noteq> []" using name by (auto simp: validate_name_None)
  have kvs: "(k, v) \<in> set vs" if kv: "(k, v) \<in> set ?kvs" for k v
  proof -
    from kv have "k \<in> fst ` set vs" and v: "v = the (map_of vs k)" by auto
    then obtain u where "map_of vs k = Some u" by (metis domD dom_map_of_conv_image_fst)
    with v show ?thesis by (simp add: map_of_SomeD)
  qed
  have nl_line: "nl \<notin> set l" if "l \<in> set (map render_line ?kvs)" for l
  proof -
    from that have "l \<in> render_line ` set ?kvs" by (simp only: set_map)
    then obtain kv where lkv: "l = render_line kv" and mem: "kv \<in> set ?kvs" by (rule imageE)
    obtain k v where kv: "kv = (k, v)" by (cases kv)
    note l = lkv [unfolded kv]
    from kvs [OF mem [unfolded kv]] vs have "key_ok k" "nl \<notin> set v"
      unfolding put_values_ok_def by blast+
    moreover from this have "nl \<notin> set k"
      using pattern_chars [of k nl] key_char_special [of nl] by (auto simp: key_ok_def)
    ultimately show ?thesis by (simp add: l render_line_def)
  qed
  define L where "L = map render_line ?kvs"
  have txt_eq: "trim_right_set (?A @ render_section \<lparr>sec_name = name, sec_values = vs\<rparr>) [cr, nl] @ [nl] =
    ?A @ nl # [] @ nl # (CHR ''['' # name @ '']'') @ nl # concat (map (\<lambda>l. l @ [nl]) L)"
    using write_normal_form [of "\<lparr>sec_name = name, sec_values = vs\<rparr>" ?A] vs
    by (simp add: render_section_def comp_def L_def)
  have lines: "split_on nl (?A @ nl # [] @ nl # (CHR ''['' # name @ '']'') @ nl #
      concat (map (\<lambda>l. l @ [nl]) L)) = split_on nl ?A @ [[], CHR ''['' # name @ '']''] @ L @ [[]]"
  proof -
    have "split_on nl (concat (map (\<lambda>l. l @ [nl]) L)) = L @ [[]]"
      using split_on_lines [of L] nl_line by (simp add: L_def)
    moreover have "split_on nl (CHR ''['' # name @ '']'') = [CHR ''['' # name @ '']'']"
      using nl_name by (intro split_on_no_sep) simp
    ultimately show ?thesis unfolding split_on_append by simp
  qed
  from S obtain c where "parse_lines ([], []) (split_on nl content) = Inr (c, S)"
    by (auto simp: parse_ini_def map_sum_def split: sum.splits)
  then have A: "parse_lines ([], []) (split_on nl ?A) = Inr (c, S)" by (simp add: parse_lines_trim_right)
  have blank: "parse_line st [] = Inr st" for st by (rule parse_line_skip) (simp add: skip_line_def)
  show ?thesis
  proof (cases "?n \<in> set (secs_keys S)")
    case True
    then obtain s where "map_of S ?n = Some s" by (metis map_of_eq_None_iff not_None_eq set_map)
    with True show ?thesis
      unfolding txt_eq parse_ini_def lines parse_lines_append [of _ "split_on nl ?A"] A
      by (simp add: blank parse_line_header [OF name])
  next
    case False
    then have new: "map_of S ?n = None" by (simp add: map_of_eq_None_iff)
    have L: "parse_lines (?n, S @ [(?n, \<lparr>sec_name = ?n, sec_values = []\<rparr>)]) L =
      Inr (?n, S @ [(?n, \<lparr>sec_name = ?n, sec_values = [] @ map (\<lambda>(k, v). (k, stored_value v)) ?kvs\<rparr>)])"
      unfolding L_def
    proof (rule parse_rendered_lines)
      show "distinct (map fst ?kvs)" using vs by (simp add: put_values_ok_def comp_def)
      show "key_ok k" if "(k, v) \<in> set ?kvs" for k v
        using kvs [OF that] vs by (auto simp: put_values_ok_def)
    qed (use n_ne False in auto)
    have "parse_lines (c, S) ([[], CHR ''['' # name @ '']''] @ L @ [[]]) =
      Inr (?n, S @ [(?n, stored_section ?n vs)])"
      using L by (simp add: blank parse_line_header [OF name] new parse_lines_append stored_section_def comp_def)
    with False show ?thesis
      unfolding txt_eq parse_ini_def lines parse_lines_append [of _ "split_on nl ?A"] A by simp
  qed
qed

lemma stored_section_values:
  assumes "distinct (map fst vs)"
  shows "map_of (sec_values (stored_section name vs)) = map_option stored_value \<circ> map_of vs"
proof
  fix k
  have "map_of (map (\<lambda>k. (k, f k)) ks) k = (if k \<in> set ks then Some (f k) else None)" for f :: "string \<Rightarrow> string" and ks
    by (induction ks) auto
  then show "map_of (sec_values (stored_section name vs)) k = (map_option stored_value \<circ> map_of vs) k"
    by (cases "map_of vs k") (force simp: stored_section_def map_of_eq_None_iff dest: map_of_SomeD)+
qed

end
