(* ===== verification/PresetStore.thy ===== *)
theory PresetStore
  imports FileDoc PresetIniFacts
begin

section \<open>The preset store (\<^verbatim>\<open>core/modelpresets/store.go\<close>)\<close>

text \<open>
  The operations of \<open>Store\<close> over the operating system state: \<open>store_list\<close>, \<open>store_global\<close>,
  \<open>store_get\<close>, \<open>store_put\<close>, \<open>store_delete\<close> for a store of path \<open>path\<close>. The lemmas relate each to
  the sections that the file reads as (\<open>ini_sections\<close>), and \<open>preset_store\<close> is the contract on
  which the control core relies. The lock of the source makes each operation one step.
\<close>

definition empty_ini :: string where
  "empty_ini = ''version = 1'' @ [nl]"

definition store_read :: "string \<Rightarrow> ('z, sections \<times> string) io" where
  "store_read path =
     tryE (os_read_file path)
       (\<lambda>err. if errors_is err OsNotExist then retE ([], empty_ini) else failE err)
       (\<lambda>data. case parse_ini data of Inl err \<Rightarrow> failE err | Inr secs \<Rightarrow> retE (secs, data))"

definition store_write :: "string \<Rightarrow> string \<Rightarrow> ('z, unit) io" where
  "store_write path content =
     bindE (write_file path (trim_right_set content [cr, nl] @ [nl])
              \<lparr>wo_perm = 384, wo_backup = False, wo_normalize = None\<rparr>)
       (\<lambda>_. retE ())"

definition section_list :: "sections \<Rightarrow> preset_section list" where
  "section_list secs = sort_key sec_name (map snd (filter (\<lambda>kv. fst kv \<noteq> ''*'') secs))"

definition store_list :: "string \<Rightarrow> ('z, preset_section list) io" where
  "store_list path = bindE (store_read path) (\<lambda>(secs, _). retE (section_list secs))"

definition store_global :: "string \<Rightarrow> ('z, preset_section) io" where
  "store_global path =
     bindE (store_read path) (\<lambda>(secs, _).
       case map_of secs ''*'' of
         Some sec \<Rightarrow> retE sec
       | None \<Rightarrow> retE \<lparr>sec_name = ''*'', sec_values = []\<rparr>)"

definition not_found_preset :: "string \<Rightarrow> gerror" where
  "not_found_preset name =
     Wrap [TextOf (Sentinel PresetNotFound), Lit '': '', Quoted name] [Sentinel PresetNotFound]"

definition store_get :: "string \<Rightarrow> string \<Rightarrow> ('z, preset_section) io" where
  "store_get path name =
     bindE (store_read path) (\<lambda>(secs, _).
       case map_of secs name of Some sec \<Rightarrow> retE sec | None \<Rightarrow> failE (not_found_preset name))"

definition preset_exists_err :: "string \<Rightarrow> gerror" where
  "preset_exists_err name =
     Wrap [TextOf (Sentinel PresetExists), Lit '': '', Quoted name] [Sentinel PresetExists]"

definition store_put :: "string \<Rightarrow> preset_section \<Rightarrow> bool \<Rightarrow> ('z, unit) io" where
  "store_put path sec create_only =
     (case validate_section_name (sec_name sec) of
        Some err \<Rightarrow> failE err
      | None \<Rightarrow>
          (case canonical_values [] (sec_values sec) of
             Inl err \<Rightarrow> failE err
           | Inr vals \<Rightarrow>
               bindE (store_read path) (\<lambda>(secs, content).
                 let exists = sec_name sec \<in> set (secs_keys secs) in
                 if create_only \<and> exists then failE (preset_exists_err (sec_name sec))
                 else
                   let content' = (if exists then remove_section content (sec_name sec) else content)
                   in store_write path (trim_right_set content' [cr, nl] @
                        render_section \<lparr>sec_name = sec_name sec, sec_values = vals\<rparr>))))"

definition store_delete :: "string \<Rightarrow> string \<Rightarrow> ('z, unit) io" where
  "store_delete path name =
     (case validate_section_name name of
        Some err \<Rightarrow> failE err
      | None \<Rightarrow>
          if name = ''*'' then failE (invalid [Lit ''global preset section cannot be deleted''])
          else bindE (store_read path) (\<lambda>(secs, content).
                 if name \<notin> set (secs_keys secs) then retE ()
                 else store_write path (remove_section content name)))"

subsection \<open>What the file reads as\<close>

definition ini_text :: "string \<Rightarrow> (string \<Rightarrow> node option) \<Rightarrow> gerror + string" where
  "ini_text path fs =
     (case stat_node fs path of
        Inl err \<Rightarrow> if errors_is err OsNotExist then Inr empty_ini else Inl err
      | Inr n \<Rightarrow> node_data n)"

definition ini_sections :: "string \<Rightarrow> (string \<Rightarrow> node option) \<Rightarrow> gerror + sections" where
  "ini_sections path fs = (case ini_text path fs of Inl err \<Rightarrow> Inl err | Inr t \<Rightarrow> parse_ini t)"

lemma parse_empty_ini: "parse_ini empty_ini = Inr []"
  by code_simp

lemma node_data_absent: "node_data n = Inl e \<Longrightarrow> \<not> errors_is e OsNotExist"
  by (cases n) (auto simp: link_loop_def)

lemma read_file_cases:
  assumes "os_read_file p w = (r, w')"
  obtains (fault) e n where "os_fault w (os_tick w) = Some (e, n)" "r = Inl e"
      "w' = w\<lparr>os_tick := Suc (os_tick w)\<rparr>"
    | (ran) "os_fault w (os_tick w) = None" "w' = w\<lparr>os_tick := Suc (os_tick w)\<rparr>"
      "r = (case stat_node (os_files w) p of Inl e \<Rightarrow> Inl e | Inr n \<Rightarrow> node_data n)"
  using assms by (auto simp: os_read_file_def os_call_def Let_def split: option.splits)

lemma store_read_Inr:
  assumes "store_read path w = (Inr (secs, content), w')" "honest_faults w"
  shows "ini_text path (os_files w) = Inr content \<and> parse_ini content = Inr secs \<and>
    w' = w\<lparr>os_tick := Suc (os_tick w)\<rparr>"
proof -
  obtain r w1 where r: "os_read_file path w = (r, w1)" by force
  from r show ?thesis
  proof (cases rule: read_file_cases)
    case (fault e n)
    with assms(2) have "\<not> errors_is e OsNotExist" by (auto simp: honest_faults_def)
    with assms(1) r fault show ?thesis by (simp add: store_read_def tryE_def)
  next
    case ran
    then show ?thesis
      using assms r
      by (cases r) (auto simp: store_read_def tryE_def ini_text_def parse_empty_ini dest: node_data_absent
          split: sum.splits if_splits)
  qed
qed

lemma store_read_Inl: "store_read path w = (Inl e, w') \<Longrightarrow> w' = w\<lparr>os_tick := Suc (os_tick w)\<rparr>"
  by (auto simp: store_read_def tryE_def os_read_file_def os_call_def Let_def
      split: sum.splits prod.splits if_splits option.splits)

lemma store_read_total:
  assumes "os_fault w (os_tick w) = None" "ini_text path (os_files w) = Inr content" "parse_ini content = Inr secs"
  shows "store_read path w = (Inr (secs, content), w\<lparr>os_tick := Suc (os_tick w)\<rparr>)"
  using assms
  by (auto simp: store_read_def tryE_def os_read_file_def os_call_def ini_text_def Let_def parse_empty_ini
      dest: node_data_absent split: sum.splits if_splits)

lemma store_read_env: "keeps os_env (store_read path)"
  unfolding store_read_def by (intro keeps_intros) (auto intro: keeps_intros split: sum.splits)

lemma store_write_env: "keeps os_env (store_write path content)"
  unfolding store_write_def by (intro keeps_intros)

lemma store_ops_env:
  "keeps os_env (store_list path)" "keeps os_env (store_global path)" "keeps os_env (store_get path name)"
  "keeps os_env (store_put path sec co)" "keeps os_env (store_delete path name)"
  unfolding store_list_def store_global_def store_get_def store_put_def store_delete_def Let_def
  by (auto intro!: keeps_intros store_read_env store_write_env split: option.splits sum.splits prod.splits)

text \<open>A write ends with the new text at the path, or, on an error, with the old node or the new text.\<close>

definition written :: "string \<Rightarrow> node" where
  "written content = RegFile (trim_right_set content [cr, nl] @ [nl]) 384"

lemma store_write_as:
  "store_write path content =
     bindE (write_replacement path (trim_right_set content [cr, nl] @ [nl]) 384 []) (\<lambda>_. retE ())"
  by (simp add: store_write_def write_file_def write_file_data_def)

lemma store_write_Inr:
  assumes "store_write path content w = (Inr x, w')"
  shows "os_files w' path = Some (written content)"
proof -
  from assms obtain r where r:
    "write_replacement path (trim_right_set content [cr, nl] @ [nl]) 384 [] w = (Inr r, w')"
    unfolding store_write_as by (auto elim!: bindE_InrE)
  from validD_Inr [OF valid_write_replacement [of w] _ r] show ?thesis
    by (auto simp: replacing_def written_def)
qed

lemma store_write_Inl:
  assumes "store_write path content w = (Inl e, w')"
  shows "os_files w' path = os_files w path \<or> os_files w' path = Some (written content)"
proof -
  from assms have r:
    "write_replacement path (trim_right_set content [cr, nl] @ [nl]) 384 [] w = (Inl e, w')"
    unfolding store_write_as by (auto elim!: bindE_InlE)
  from validD_Inl [OF valid_write_replacement [of w] _ r] show ?thesis
    by (auto simp: maybe_replaced_def replacing_def written_def)
qed

lemma parse_written: "parse_ini (trim_right_set content [cr, nl] @ [nl]) = parse_ini content"
proof -
  have "parse_lines st (split_on nl (trim_right_set content [cr, nl]) @ [[]]) =
      parse_lines st (split_on nl (trim_right_set content [cr, nl]))" for st
    by (simp add: parse_lines_append parse_line_skip skip_line_def split: sum.split)
  then show ?thesis by (simp add: parse_ini_def split_on_snoc_sep parse_lines_trim_right)
qed

lemma ini_sections_node:
  "fs path = Some (RegFile d m) \<Longrightarrow> ini_sections path fs = parse_ini d"
  by (simp add: ini_sections_def ini_text_def stat_node_def eval_nat_numeral)

lemma ini_sections_written:
  "fs path = Some (written content) \<Longrightarrow> ini_sections path fs = parse_ini content"
  by (simp add: written_def ini_sections_node parse_written)

lemma ini_sections_local:
  "not_link path fs \<Longrightarrow> fs' path = fs path \<Longrightarrow> ini_sections path fs' = ini_sections path fs"
  using follow_not_link [of path fs 40] follow_not_link [of path fs' 40]
  by (simp add: ini_sections_def ini_text_def stat_node_def not_link_def)

subsection \<open>What each operation does to the sections\<close>

text \<open>The sections after a successful \<^verbatim>\<open>Put\<close>.\<close>

definition put_sections :: "string \<Rightarrow> (string \<times> string) list \<Rightarrow> sections \<Rightarrow> gerror + sections" where
  "put_sections name vals S =
     (let n = trim_space name in
      if n \<in> set (secs_keys (without name S))
      then Inl (invalid [Lit ''duplicate models.ini section '', Quoted n])
      else Inr (without name S @ [(n, stored_section n vals)]))"

lemma read_put:
  assumes v: "validate_section_name name = None" and ok: "put_values_ok vals" and S: "parse_ini content = Inr S"
  shows "parse_ini (trim_right_set (if name \<in> set (secs_keys S) then remove_section content name else content) [cr, nl] @
      render_section \<lparr>sec_name = name, sec_values = vals\<rparr>) = put_sections name vals S"
proof -
  let ?c = "if name \<in> set (secs_keys S) then remove_section content name else content"
  have c: "parse_ini ?c = Inr (without name S)"
    using parse_remove_section [OF S, of name] S by (simp add: without_id)
  from parse_rendered_section [OF v ok c] show ?thesis by (simp only: put_sections_def Let_def parse_written)
qed

lemma store_read_state: "store_read path w = (r, w') \<Longrightarrow> w' = w\<lparr>os_tick := Suc (os_tick w)\<rparr>"
  by (auto simp: store_read_def tryE_def os_read_file_def os_call_def Let_def
      split: sum.splits prod.splits if_splits option.splits)

text \<open>Both writing operations either fail before anything is written, or end with one write.\<close>

lemma store_put_shape:
  assumes "store_put path sec co w = (r, w')" "honest_faults w"
  obtains (early) e where "r = Inl e" "os_files w' = os_files w" "os_trace w' = os_trace w"
  | (writes) vals S content w1 where "validate_section_name (sec_name sec) = None"
      "canonical_values [] (sec_values sec) = Inr vals" "put_values_ok vals"
      "ini_sections path (os_files w) = Inr S" "co \<Longrightarrow> sec_name sec \<notin> set (secs_keys S)"
      "parse_ini content = put_sections (sec_name sec) vals S"
      "os_files w1 = os_files w" "os_trace w1 = os_trace w" "store_write path content w1 = (r, w')"
proof (cases "validate_section_name (sec_name sec)")
  case (Some e)
  with assms early show ?thesis by (auto simp: store_put_def)
next
  case v: None
  show ?thesis
  proof (cases "canonical_values [] (sec_values sec)")
    case (Inl e)
    with v assms early show ?thesis by (auto simp: store_put_def)
  next
    case vals: (Inr vals)
    obtain r1 w1 where rd: "store_read path w = (r1, w1)" by force
    from store_read_state [OF rd] have w1: "os_files w1 = os_files w" "os_trace w1 = os_trace w" by auto
    let ?n = "sec_name sec"
    show ?thesis
    proof (cases r1)
      case (Inl e)
      with v vals rd assms early w1 show ?thesis by (auto simp: store_put_def bindE_def)
    next
      case (Inr sc)
      obtain S content where sc: "sc = (S, content)" by force
      from store_read_Inr [of path w S content w1] rd Inr sc assms(2)
      have S: "parse_ini content = Inr S" and iS: "ini_sections path (os_files w) = Inr S"
        by (auto simp: ini_sections_def)
      show ?thesis
      proof (cases "co \<and> ?n \<in> set (secs_keys S)")
        case True
        with v vals rd Inr sc assms early w1 show ?thesis by (auto simp: store_put_def bindE_def Let_def)
      next
        case co: False
        let ?c = "trim_right_set (if ?n \<in> set (secs_keys S) then remove_section content ?n else content)
          [cr, nl] @ render_section \<lparr>sec_name = ?n, sec_values = vals\<rparr>"
        have wr: "store_write path ?c w1 = (r, w')"
          using v vals rd Inr sc assms(1) co by (cases co) (simp_all add: store_put_def bindE_def Let_def)
        have ok: "put_values_ok vals" by (rule canonical_values_ok [OF vals]) (simp add: put_values_ok_def)
        show ?thesis by (rule writes [OF v vals ok iS _ read_put [OF v ok S] w1 wr]) (use co in blast)
      qed
    qed
  qed
qed

lemma store_delete_shape:
  assumes "store_delete path name w = (r, w')" "honest_faults w"
  obtains (early) e where "r = Inl e" "os_files w' = os_files w" "os_trace w' = os_trace w"
  | (absent) S where "name \<noteq> ''*''" "ini_sections path (os_files w) = Inr S" "name \<notin> set (secs_keys S)"
      "os_files w' = os_files w" "os_trace w' = os_trace w"
  | (writes) S content w1 where "name \<noteq> ''*''" "ini_sections path (os_files w) = Inr S"
      "name \<in> set (secs_keys S)" "parse_ini content = Inr (without name S)"
      "os_files w1 = os_files w" "os_trace w1 = os_trace w" "store_write path content w1 = (r, w')"
proof (cases "validate_section_name name")
  case (Some e)
  with assms early show ?thesis by (auto simp: store_delete_def)
next
  case v: None
  show ?thesis
  proof (cases "name = ''*''")
    case True
    with v assms early show ?thesis by (auto simp: store_delete_def)
  next
    case star: False
    obtain r1 w1 where rd: "store_read path w = (r1, w1)" by force
    from store_read_state [OF rd] have w1: "os_files w1 = os_files w" "os_trace w1 = os_trace w" by auto
    show ?thesis
    proof (cases r1)
      case (Inl e)
      with v star rd assms early w1 show ?thesis by (auto simp: store_delete_def bindE_def)
    next
      case (Inr sc)
      obtain S content where sc: "sc = (S, content)" by force
      from store_read_Inr [of path w S content w1] rd Inr sc assms(2)
      have S: "parse_ini content = Inr S" and iS: "ini_sections path (os_files w) = Inr S"
        by (auto simp: ini_sections_def)
      show ?thesis
      proof (cases "name \<in> set (secs_keys S)")
        case False
        with v star rd Inr sc assms w1 show ?thesis
          by (intro absent [OF star iS]) (auto simp: store_delete_def bindE_def)
      next
        case True
        have wr: "store_write path (remove_section content name) w1 = (r, w')"
          using v star rd Inr sc assms True by (simp add: store_delete_def bindE_def)
        show ?thesis by (rule writes [OF star iS True parse_remove_section [OF S] w1 wr])
      qed
    qed
  qed
qed

text \<open>
  The outcomes, whatever calls fail: an error with the file as it was, or the new sections in the
  file. An error after the replacement (of the directory sync) is of the second kind.
\<close>

lemma store_write_outcome:
  assumes "store_write path content w = (r, w')"
  obtains (kept) e where "r = Inl e" "os_files w' path = os_files w path"
  | (new) "not_link path (os_files w')" "ini_sections path (os_files w') = parse_ini content"
proof -
  have new': thesis if w': "os_files w' path = Some (written content)"
    using new w' ini_sections_written [where fs = "os_files w'", OF w'] by (auto simp: not_link_def written_def)
  show thesis
  proof (cases r)
    case (Inl e)
    with assms kept new' show ?thesis by (auto dest: store_write_Inl)
  next
    case (Inr x)
    with assms new' show ?thesis by (auto dest: store_write_Inr)
  qed
qed

lemma store_put_outcome:
  assumes "store_put path sec co w = (r, w')" "honest_faults w"
  obtains (kept) e where "r = Inl e" "os_files w' path = os_files w path"
  | (stored) vals S where "validate_section_name (sec_name sec) = None"
      "canonical_values [] (sec_values sec) = Inr vals" "put_values_ok vals"
      "ini_sections path (os_files w) = Inr S" "co \<Longrightarrow> sec_name sec \<notin> set (secs_keys S)"
      "not_link path (os_files w')" "ini_sections path (os_files w') = put_sections (sec_name sec) vals S"
  using assms
proof (cases rule: store_put_shape)
  case (early e)
  then show ?thesis using kept by auto
next
  case (writes vals S content w1)
  from writes(9) show ?thesis
  proof (cases rule: store_write_outcome)
    case (kept e)
    then show ?thesis using that(1) writes by auto
  next
    case new
    then show ?thesis using that(2) writes by auto
  qed
qed

lemma store_delete_outcome:
  assumes "store_delete path name w = (r, w')" "honest_faults w"
  obtains (kept) e where "r = Inl e" "os_files w' path = os_files w path"
  | (absent) S where "name \<noteq> ''*''" "ini_sections path (os_files w) = Inr S" "name \<notin> set (secs_keys S)"
      "os_files w' = os_files w"
  | (removed) S where "name \<noteq> ''*''" "ini_sections path (os_files w) = Inr S" "name \<in> set (secs_keys S)"
      "not_link path (os_files w')" "ini_sections path (os_files w') = Inr (without name S)"
  using assms
proof (cases rule: store_delete_shape)
  case (early e)
  then show ?thesis using kept by auto
next
  case (absent S)
  then show ?thesis using that(2) by blast
next
  case (writes S content w1)
  from writes(7) show ?thesis
  proof (cases rule: store_write_outcome)
    case (kept e)
    then show ?thesis using that(1) writes by auto
  next
    case new
    then show ?thesis using that(3) writes by auto
  qed
qed

text \<open>What a reader finds at any moment of a write.\<close>

lemma store_write_trace:
  assumes "store_write path content w = (r, w')" "not_link path (os_files w)"
  shows "\<exists>ts. os_trace w' = os_trace w @ ts \<and>
    (\<forall>t \<in> set ts. ini_sections path t = ini_sections path (os_files w) \<or> ini_sections path t = parse_ini content)"
proof -
  let ?new = "written content"
  have "\<exists>ts. os_trace w' = os_trace w @ ts \<and>
      (\<forall>t \<in> set ts. t path = os_files w path \<or> t path = Some ?new)"
  proof (cases r)
    case (Inl e)
    with assms(1) have r: "write_replacement path (trim_right_set content [cr, nl] @ [nl]) 384 [] w = (Inl e, w')"
      unfolding store_write_as by (auto elim!: bindE_InlE)
    from validD_Inl [OF valid_write_replacement [of w] _ r] show ?thesis
      by (force simp: maybe_replaced_def replacing_def written_def)
  next
    case (Inr x)
    with assms(1) obtain y where r: "write_replacement path (trim_right_set content [cr, nl] @ [nl]) 384 [] w = (Inr y, w')"
      unfolding store_write_as by (auto elim!: bindE_InrE)
    from validD_Inr [OF valid_write_replacement [of w] _ r] show ?thesis
      by (force simp: replacing_def written_def)
  qed
  then obtain ts where ts: "os_trace w' = os_trace w @ ts"
    and all: "\<And>t. t \<in> set ts \<Longrightarrow> t path = os_files w path \<or> t path = Some ?new" by blast
  have "ini_sections path t = ini_sections path (os_files w) \<or> ini_sections path t = parse_ini content"
    if "t \<in> set ts" for t
    using all [OF that] ini_sections_local [OF assms(2), of t] ini_sections_written [of t path content] by blast
  with ts show ?thesis by blast
qed

subsection \<open>Well-formed sections\<close>

definition section_ok :: "string \<times> preset_section \<Rightarrow> bool" where
  "section_ok kv \<longleftrightarrow>
     sec_name (snd kv) = fst kv \<and> fst kv \<noteq> [] \<and> trim_space (fst kv) = fst kv \<and>
     validate_section_name (fst kv) = None \<and>
     distinct (map fst (sec_values (snd kv))) \<and> list_all (key_ok \<circ> fst) (sec_values (snd kv))"

definition sections_ok :: "sections \<Rightarrow> bool" where
  "sections_ok S \<longleftrightarrow> distinct (secs_keys S) \<and> list_all section_ok S"

lemma sections_ok_without: "sections_ok S \<Longrightarrow> sections_ok (without name S)"
  by (auto simp: sections_ok_def list_all_iff distinct_map_filter)

lemma update_key_ok: "list_all (key_ok \<circ> fst) kvs \<Longrightarrow> key_ok k \<Longrightarrow> list_all (key_ok \<circ> fst) (AList.update k v kvs)"
  by (induction kvs) auto

lemma section_ok_set_value:
  "list_all section_ok S \<Longrightarrow> key_ok k \<Longrightarrow> list_all section_ok (set_value c k v S)"
  by (induction S) (auto simp: set_value_def section_ok_def update_key_ok distinct_update)

lemma parse_line_ok:
  assumes "parse_line (c, S) l = Inr (c', S')" "sections_ok S"
  shows "sections_ok S'"
  using assms(1)
proof (cases rule: parse_line_cases)
  case skip
  with assms show ?thesis by simp
next
  case header
  then have "section_ok (c', \<lparr>sec_name = c', sec_values = []\<rparr>)"
    by (auto simp: section_ok_def header_name_def validate_name_None)
  with header assms show ?thesis by (auto simp: sections_ok_def)
next
  case (entry k v)
  with assms show ?thesis by (simp add: sections_ok_def section_ok_set_value)
qed

lemma parse_lines_ok: "parse_lines (c, S) ls = Inr (c', S') \<Longrightarrow> sections_ok S \<Longrightarrow> sections_ok S'"
proof (induction ls arbitrary: c S)
  case (Cons l ls)
  from Cons.prems(1) obtain d T where l: "parse_line (c, S) l = Inr (d, T)"
    and ls: "parse_lines (d, T) ls = Inr (c', S')" by (auto split: sum.splits)
  from Cons.IH [OF ls parse_line_ok [OF l Cons.prems(2)]] show ?case .
qed simp

lemma parse_ini_ok:
  assumes "parse_ini t = Inr S"
  shows "sections_ok S"
proof -
  from assms obtain c where "parse_lines ([], []) (split_on nl t) = Inr (c, S)"
    by (auto simp: parse_ini_def map_sum_def split: sum.splits)
  then show ?thesis by (rule parse_lines_ok) (simp add: sections_ok_def)
qed

lemma ini_sections_ok: "ini_sections path fs = Inr S \<Longrightarrow> sections_ok S"
  by (auto simp: ini_sections_def split: sum.splits dest: parse_ini_ok)

end
