(* ===== verification/PresetContract.thy ===== *)
theory PresetContract
  imports PresetStore
begin

section \<open>The contract of the preset store\<close>

text \<open>
  \<open>preset_store\<close> states what the clients of the store (\<^verbatim>\<open>control.PresetStore\<close>) rely on: reading changes
  nothing, a write ends in the old contents or in the new ones, other presets stay. Its lemmas are
  proved from the laws alone; \<open>ini\<close> interprets it on the file store, for every plan of failures that does not
  pretend a file is absent. The properties of the store follow.
\<close>

type_synonym preset_map = "string \<Rightarrow> (string \<Rightarrow> string option) option"

abbreviation sec_map :: "preset_section \<Rightarrow> string \<Rightarrow> string option" where
  "sec_map sec \<equiv> map_of (sec_values sec)"

definition stored_map :: "(string \<times> string) list \<Rightarrow> string \<Rightarrow> string option" where
  "stored_map vals = map_option stored_value \<circ> map_of vals"

locale preset_store =
  fixes plist :: "('w, gerror, preset_section list) eff"
    and pget :: "string \<Rightarrow> ('w, gerror, preset_section) eff"
    and pput :: "preset_section \<Rightarrow> bool \<Rightarrow> ('w, gerror, unit) eff"
    and pdelete :: "string \<Rightarrow> ('w, gerror, unit) eff"
    and view :: "'w \<Rightarrow> preset_map option"
    and ok :: "'w \<Rightarrow> bool"
  assumes get_law: "\<And>w name r w'. ok w \<Longrightarrow> pget name w = (r, w') \<Longrightarrow>
      ok w' \<and> view w' = view w \<and>
      (\<forall>sec. r = Inr sec \<longrightarrow> sec_name sec = name \<and> (\<exists>m. view w = Some m \<and> m name = Some (sec_map sec)))"
    and list_law: "\<And>w r w'. ok w \<Longrightarrow> plist w = (r, w') \<Longrightarrow>
      ok w' \<and> view w' = view w \<and>
      (\<forall>secs. r = Inr secs \<longrightarrow> sorted (map sec_name secs) \<and> distinct (map sec_name secs) \<and>
         (\<exists>m. view w = Some m \<and> map_of (map (\<lambda>s. (sec_name s, sec_map s)) secs) = m(''*'' := None)))"
    and put_law: "\<And>w sec co r w'. ok w \<Longrightarrow> trim_space (sec_name sec) = sec_name sec \<Longrightarrow> pput sec co w = (r, w') \<Longrightarrow>
      ok w' \<and>
      ((\<exists>e. r = Inl e) \<and> view w' = view w \<or>
       (\<exists>m vals. view w = Some m \<and> canonical_values [] (sec_values sec) = Inr vals \<and>
          (co \<longrightarrow> m (sec_name sec) = None) \<and> view w' = Some (m(sec_name sec \<mapsto> stored_map vals))))"
    and delete_law: "\<And>w name r w'. ok w \<Longrightarrow> pdelete name w = (r, w') \<Longrightarrow>
      ok w' \<and>
      ((\<exists>e. r = Inl e) \<and> view w' = view w \<or>
       (\<exists>m. name \<noteq> ''*'' \<and> view w = Some m \<and> view w' = Some (m(name := None))))"
begin

lemma get_view: "ok w \<Longrightarrow> pget name w = (Inr sec, w') \<Longrightarrow> \<exists>m. view w' = Some m \<and> m name = Some (sec_map sec)"
  using get_law [of w name "Inr sec" w'] by auto

lemma put_then_get:
  assumes "ok w" "trim_space (sec_name sec) = sec_name sec"
    and "pput sec co w = (Inr (), w1)" "pget (sec_name sec) w1 = (Inr sec', w2)"
  shows "\<exists>vals. canonical_values [] (sec_values sec) = Inr vals \<and> sec_map sec' = stored_map vals"
  using put_law [OF assms(1-3)] get_law [OF _ assms(4)] by auto

lemma put_keeps_others:
  assumes "ok w" "trim_space (sec_name sec) = sec_name sec" "pput sec co w = (r, w1)"
    and "other \<noteq> sec_name sec" "view w = Some m"
  shows "\<exists>m'. view w1 = Some m' \<and> m' other = m other"
  using put_law [OF assms(1-3)] assms(4,5) by auto

lemma delete_then_get:
  assumes "ok w" "pdelete name w = (Inr (), w1)" "pget name w1 = (Inr sec, w2)"
  shows False
  using delete_law [OF assms(1,2)] get_law [OF _ assms(3)] by auto

lemma delete_keeps_others:
  assumes "ok w" "pdelete name w = (r, w1)" "other \<noteq> name" "view w = Some m"
  shows "\<exists>m'. view w1 = Some m' \<and> m' other = m other"
  using delete_law [OF assms(1,2)] assms(3,4) by auto

lemma create_twice:
  assumes "ok w" "trim_space (sec_name sec) = sec_name sec" "pput sec co w = (Inr (), w1)"
    and "sec_name sec' = sec_name sec" "pput sec' True w1 = (r, w2)"
  shows "(\<exists>e. r = Inl e) \<and> view w2 = view w1"
  using put_law [OF assms(1-3)] put_law [OF _ _ assms(5)] assms(2,4) by fastforce

text \<open>A write that is taken back: after a successful creation, deletion leads to the contents before.\<close>

lemma create_then_delete:
  assumes "ok w" "trim_space (sec_name sec) = sec_name sec" "pput sec True w = (Inr (), w1)"
    and "pdelete (sec_name sec) w1 = (Inr (), w2)"
  shows "view w2 = view w"
proof -
  from put_law [OF assms(1-3)] obtain m vals where "ok w1" "view w = Some m" "m (sec_name sec) = None"
    "view w1 = Some (m(sec_name sec \<mapsto> stored_map vals))" by auto
  with delete_law [OF _ assms(4)] show ?thesis by (auto simp: fun_upd_idem)
qed

end

subsection \<open>The file store keeps the contract\<close>

definition preset_view :: "string \<Rightarrow> 'z os_scheme \<Rightarrow> preset_map option" where
  "preset_view path w =
     (case ini_sections path (os_files w) of
        Inl e \<Rightarrow> None
      | Inr S \<Rightarrow> Some (\<lambda>name. map_option sec_map (map_of S name)))"

definition store_ok :: "string \<Rightarrow> 'z os_scheme \<Rightarrow> bool" where
  "store_ok path w \<longleftrightarrow> honest_faults w \<and> not_link path (os_files w)"

lemma store_okI:
  "store_ok path w \<Longrightarrow> keeps os_env m \<Longrightarrow> m w = (r, w') \<Longrightarrow> not_link path (os_files w') \<Longrightarrow> store_ok path w'"
  using honest_env keepsD unfolding store_ok_def by metis

lemma store_read_keeps_view:
  assumes "store_read path w = (r, w1)"
  shows "os_files w1 = os_files w" "honest_faults w1 = honest_faults w"
proof -
  show "os_files w1 = os_files w" using assms
    by (auto simp: store_read_def tryE_def os_read_file_def os_call_def Let_def
        split: sum.splits prod.splits if_splits option.splits)
  show "honest_faults w1 = honest_faults w" using keepsD [OF store_read_env assms] by (rule honest_env)
qed

lemma store_get_cases:
  assumes "store_get path name w = (r, w')" "honest_faults w"
  shows "os_files w' = os_files w \<and>
    (\<forall>sec. r = Inr sec \<longrightarrow> (\<exists>S. ini_sections path (os_files w) = Inr S \<and> map_of S name = Some sec))"
proof -
  obtain r1 w1 where rd: "store_read path w = (r1, w1)" by force
  note f = store_read_keeps_view [OF rd]
  show ?thesis
  proof (cases r1)
    case (Inl e)
    with rd assms f show ?thesis by (auto simp: store_get_def bindE_def)
  next
    case (Inr sc)
    obtain S c where "sc = (S, c)" by force
    with Inr rd store_read_Inr [of path w S c w1] assms f show ?thesis
      by (auto simp: store_get_def bindE_def ini_sections_def split: option.splits)
  qed
qed

lemma store_list_cases:
  assumes "store_list path w = (r, w')" "honest_faults w"
  shows "os_files w' = os_files w \<and>
    (\<forall>secs. r = Inr secs \<longrightarrow> (\<exists>S. ini_sections path (os_files w) = Inr S \<and> secs = section_list S))"
proof -
  obtain r1 w1 where rd: "store_read path w = (r1, w1)" by force
  note f = store_read_keeps_view [OF rd]
  show ?thesis
  proof (cases r1)
    case (Inl e)
    with rd assms f show ?thesis by (auto simp: store_list_def bindE_def)
  next
    case (Inr sc)
    obtain S c where "sc = (S, c)" by force
    with Inr rd store_read_Inr [of path w S c w1] assms f show ?thesis
      by (auto simp: store_list_def bindE_def ini_sections_def)
  qed
qed

lemma distinct_map_sort_key: "distinct (map f (sort_key g xs)) = distinct (map f xs)"
  by (simp add: distinct_map)

lemma section_list_names:
  assumes "sections_ok S"
  shows "sorted (map sec_name (section_list S))" "distinct (map sec_name (section_list S))"
    "distinct (map sec_name (map snd (without ''*'' S)))"
proof -
  show "sorted (map sec_name (section_list S))" by (simp add: section_list_def)
  have "map sec_name (map snd (without ''*'' S)) = map fst (without ''*'' S)"
    using assms by (auto simp: sections_ok_def list_all_iff section_ok_def)
  moreover have "distinct (map fst (without ''*'' S))" using assms by (simp add: sections_ok_def distinct_map_filter)
  ultimately show d: "distinct (map sec_name (map snd (without ''*'' S)))" by (simp only:)
  then show "distinct (map sec_name (section_list S))"
    by (simp only: section_list_def distinct_map_sort_key)
qed

lemma map_of_section_list:
  assumes "sections_ok S"
  shows "map_of (map (\<lambda>s. (sec_name s, sec_map s)) (section_list S)) =
    (\<lambda>name. map_option sec_map (map_of S name))(''*'' := None)"
proof -
  let ?T = "without ''*'' S" and ?f = "\<lambda>s. (sec_name s, sec_map s)"
  have fst_f: "map fst (map ?f xs) = map sec_name xs" for xs by (induction xs) auto
  have "map_of (map ?f (section_list S)) = map_of (map ?f (map snd ?T))"
  proof (rule map_of_perm)
    show "distinct (map fst (map ?f (map snd ?T)))" using section_list_names(3) [OF assms] by (simp only: fst_f)
    show "distinct (map fst (map ?f (section_list S)))" using section_list_names(2) [OF assms] by (simp only: fst_f)
  qed (simp add: section_list_def image_image)
  also have "map ?f (map snd ?T) = map (\<lambda>(n, s). (n, sec_map s)) ?T"
    using assms by (auto simp: sections_ok_def list_all_iff section_ok_def)
  also have "map_of \<dots> = (\<lambda>name. map_option sec_map (map_of S name))(''*'' := None)"
    by (rule ext) (simp add: map_of_map)
  finally show ?thesis .
qed

lemma map_of_put_sections:
  assumes "put_sections name vals S = Inr S'" "trim_space name = name" "distinct (map fst vals)"
  shows "(\<lambda>n. map_option sec_map (map_of S' n)) =
    (\<lambda>n. map_option sec_map (map_of S n))(name \<mapsto> stored_map vals)"
  using assms by (auto simp: put_sections_def Let_def fun_eq_iff map_add_def stored_map_def
      stored_section_values split: if_splits option.splits)

interpretation ini: preset_store "store_list path" "store_get path" "store_put path" "store_delete path"
  "preset_view path" "store_ok path" for path
proof
  fix w :: "'z os_scheme" and r w' name
  assume ok: "store_ok path w" and m: "store_get path name w = (r, w')"
  from ok have h: "honest_faults w" by (simp add: store_ok_def)
  from store_get_cases [OF m h] have f: "os_files w' = os_files w" by simp
  have "store_ok path w'"
    by (rule store_okI [where m = "store_get path name", OF ok _ m]) (use ok f in \<open>auto simp: store_ok_def intro: store_ops_env\<close>)
  moreover have "sec_name sec = name" if "map_of S name = Some sec" "ini_sections path (os_files w) = Inr S" for S sec
    using map_of_SomeD [OF that(1)] ini_sections_ok [OF that(2)]
    by (auto simp: sections_ok_def section_ok_def list_all_iff)
  ultimately show "store_ok path w' \<and> preset_view path w' = preset_view path w \<and>
      (\<forall>sec. r = Inr sec \<longrightarrow> sec_name sec = name \<and> (\<exists>m. preset_view path w = Some m \<and> m name = Some (sec_map sec)))"
    using store_get_cases [OF m h] f by (auto simp: preset_view_def)
next
  fix w :: "'z os_scheme" and r w'
  assume ok: "store_ok path w" and m: "store_list path w = (r, w')"
  from ok have h: "honest_faults w" by (simp add: store_ok_def)
  from store_list_cases [OF m h] have f: "os_files w' = os_files w" by simp
  have "store_ok path w'"
    by (rule store_okI [where m = "store_list path", OF ok _ m]) (use ok f in \<open>auto simp: store_ok_def intro: store_ops_env\<close>)
  then show "store_ok path w' \<and> preset_view path w' = preset_view path w \<and>
      (\<forall>secs. r = Inr secs \<longrightarrow> sorted (map sec_name secs) \<and> distinct (map sec_name secs) \<and>
         (\<exists>m. preset_view path w = Some m \<and> map_of (map (\<lambda>s. (sec_name s, sec_map s)) secs) = m(''*'' := None)))"
    using store_list_cases [OF m h] f map_of_section_list [OF ini_sections_ok] section_list_names [OF ini_sections_ok]
    by (fastforce simp: preset_view_def)
next
  fix w :: "'z os_scheme" and sec co r w'
  assume ok: "store_ok path w" and t: "trim_space (sec_name sec) = sec_name sec"
    and m: "store_put path sec co w = (r, w')"
  from ok have h: "honest_faults w" by (simp add: store_ok_def)
  from m h have "not_link path (os_files w') \<and>
      ((\<exists>e. r = Inl e) \<and> preset_view path w' = preset_view path w \<or>
       (\<exists>m vals. preset_view path w = Some m \<and> canonical_values [] (sec_values sec) = Inr vals \<and>
          (co \<longrightarrow> m (sec_name sec) = None) \<and> preset_view path w' = Some (m(sec_name sec \<mapsto> stored_map vals))))"
  proof (cases rule: store_put_outcome)
    case (kept e)
    with ok show ?thesis using ini_sections_local [of path "os_files w" "os_files w'"]
      by (auto simp: preset_view_def store_ok_def not_link_def)
  next
    case (stored vals S)
    have "put_sections (sec_name sec) vals S = Inr (without (sec_name sec) S @ [(sec_name sec, stored_section (sec_name sec) vals)])"
      by (auto simp: put_sections_def t Let_def)
    with stored map_of_put_sections [OF this t] show ?thesis
      by (simp add: preset_view_def put_values_ok_def map_of_eq_None_iff)
  qed
  moreover from this have "store_ok path w'" by (intro store_okI [where m = "store_put path sec co", OF ok _ m]) (auto intro: store_ops_env)
  ultimately show "store_ok path w' \<and>
      ((\<exists>e. r = Inl e) \<and> preset_view path w' = preset_view path w \<or>
       (\<exists>m vals. preset_view path w = Some m \<and> canonical_values [] (sec_values sec) = Inr vals \<and>
          (co \<longrightarrow> m (sec_name sec) = None) \<and> preset_view path w' = Some (m(sec_name sec \<mapsto> stored_map vals))))"
    by blast
next
  fix w :: "'z os_scheme" and name r w'
  assume ok: "store_ok path w" and m: "store_delete path name w = (r, w')"
  from ok have h: "honest_faults w" by (simp add: store_ok_def)
  from m h have "not_link path (os_files w') \<and>
      ((\<exists>e. r = Inl e) \<and> preset_view path w' = preset_view path w \<or>
       (\<exists>m. name \<noteq> ''*'' \<and> preset_view path w = Some m \<and> preset_view path w' = Some (m(name := None))))"
  proof (cases rule: store_delete_outcome)
    case (kept e)
    with ok show ?thesis using ini_sections_local [of path "os_files w" "os_files w'"]
      by (auto simp: preset_view_def store_ok_def not_link_def)
  next
    case (absent S)
    then have "map_of S name = None" by (simp add: map_of_eq_None_iff)
    then have "(\<lambda>n. map_option sec_map (map_of S n)) = (\<lambda>n. map_option sec_map (map_of S n))(name := None)"
      by (simp add: fun_eq_iff)
    with absent ok show ?thesis by (simp add: preset_view_def store_ok_def)
  next
    case (removed S)
    then show ?thesis by (auto simp: preset_view_def fun_eq_iff)
  qed
  moreover from this have "store_ok path w'" by (intro store_okI [where m = "store_delete path name", OF ok _ m]) (auto intro: store_ops_env)
  ultimately show "store_ok path w' \<and>
      ((\<exists>e. r = Inl e) \<and> preset_view path w' = preset_view path w \<or>
       (\<exists>m. name \<noteq> ''*'' \<and> preset_view path w = Some m \<and> preset_view path w' = Some (m(name := None))))"
    by blast
qed

end
