(* ===== verification/PresetProps.thy ===== *)
theory PresetProps
  imports PresetContract
begin

section \<open>Properties of the preset store\<close>

text \<open>
  What \<^verbatim>\<open>Store\<close> guarantees: a \<^verbatim>\<open>Put\<close> that can be carried out is carried out and changes exactly one
  section, at every moment of a write the file reads as before or as after, values that can be
  represented come back as they were given, and a creation is undone by a deletion.
\<close>

lemma can_replace_tick [simp]: "can_replace path (w\<lparr>os_tick := n\<rparr>) = can_replace path w"
  by (simp add: can_replace_def)

lemma can_replace_honest: "can_replace path w \<Longrightarrow> honest_faults w"
  by (simp add: can_replace_def honest_faults_def)

lemma store_write_total:
  assumes "can_replace path w"
  shows "\<exists>w'. store_write path content w = (Inr (), w') \<and>
    os_files w' = (os_files w)(path \<mapsto> written content)"
  using write_file_total [OF assms, of "trim_right_set content [cr, nl] @ [nl]" 384]
  by (auto simp: store_write_def bindE_def written_def)

lemma ini_sections_InrE:
  assumes "ini_sections path fs = Inr S"
  obtains t where "ini_text path fs = Inr t" "parse_ini t = Inr S"
  using assms by (auto simp: ini_sections_def split: sum.splits)

text \<open>\<^verbatim>\<open>Put\<close> without failing calls: the exact effect, for every section name.\<close>

lemma store_put_effect:
  assumes "can_replace path w" and S: "ini_sections path (os_files w) = Inr S"
    and v: "validate_section_name (sec_name sec) = None"
    and vals: "canonical_values [] (sec_values sec) = Inr vals"
    and co: "co \<longrightarrow> sec_name sec \<notin> set (secs_keys S)"
  shows "\<exists>w'. store_put path sec co w = (Inr (), w') \<and> (\<forall>q. q \<noteq> path \<longrightarrow> os_files w' q = os_files w q) \<and>
    ini_sections path (os_files w') = put_sections (sec_name sec) vals S"
proof -
  from S obtain t where t: "ini_text path (os_files w) = Inr t" "parse_ini t = Inr S" by (rule ini_sections_InrE)
  let ?w1 = "w\<lparr>os_tick := Suc (os_tick w)\<rparr>"
  from assms(1) have "os_fault w (os_tick w) = None" by (simp add: can_replace_def)
  note rd = store_read_total [OF this t]
  let ?c = "trim_right_set (if sec_name sec \<in> set (secs_keys S) then remove_section t (sec_name sec) else t)
    [cr, nl] @ render_section \<lparr>sec_name = sec_name sec, sec_values = vals\<rparr>"
  from store_write_total [of path ?w1 ?c] assms(1) obtain w' where w': "store_write path ?c ?w1 = (Inr (), w')"
    "os_files w' = (os_files w)(path \<mapsto> written ?c)" by auto
  have put: "store_put path sec co w = (Inr (), w')"
    using v vals co w'(1) by (cases co) (simp_all add: store_put_def bindE_Inr [where m = "store_read path" and w = w, OF rd] Let_def)
  have ok: "put_values_ok vals" by (rule canonical_values_ok [OF vals]) (simp add: put_values_ok_def)
  have "os_files w' path = Some (written ?c)" by (simp add: w'(2))
  from ini_sections_written [where fs = "os_files w'", OF this] read_put [OF v ok t(2)] put w'(2)
  show ?thesis by auto
qed

lemma put_sections_trimmed:
  "trim_space n = n \<Longrightarrow> put_sections n vals S = Inr (without n S @ [(n, stored_section n vals)])"
  by (auto simp: put_sections_def Let_def)

text \<open>C1: Where no system call fails and the directory exists, \<^verbatim>\<open>Put\<close> of a section with a trimmed valid
  name and valid values (and, when \<^verbatim>\<open>createOnly\<close>, a new name) returns without error; no other file
  changes, and the file then reads as the sections of before without the old section of that name,
  followed by the new one, with canonical keys and the values as they are stored.\<close>

theorem put_stores_section:
  assumes "can_replace path w" "ini_sections path (os_files w) = Inr S"
    "validate_section_name (sec_name sec) = None" "trim_space (sec_name sec) = sec_name sec"
    "canonical_values [] (sec_values sec) = Inr vals" "co \<longrightarrow> sec_name sec \<notin> set (secs_keys S)"
  shows "\<exists>w'. store_put path sec co w = (Inr (), w') \<and> (\<forall>q. q \<noteq> path \<longrightarrow> os_files w' q = os_files w q) \<and>
    ini_sections path (os_files w') =
      Inr (without (sec_name sec) S @ [(sec_name sec, stored_section (sec_name sec) vals)])"
  using store_put_effect [OF assms(1-3,5,6)] put_sections_trimmed [OF assms(4), of vals S] by auto

definition demo_path :: string where "demo_path = ''/c/models.ini''"

definition demo_os :: "(string \<Rightarrow> node option) \<Rightarrow> os" where
  "demo_os fs = \<lparr>os_files = fs, os_tick = 0, os_fault = (\<lambda>_. None), os_trace = [], os_rand = (\<lambda>_. 7),
     os_stamp = (\<lambda>_. ''t''), os_sha = (\<lambda>_. ''h''), os_cwd = ''/''\<rparr>"

definition demo_ini :: string where
  "demo_ini = ''version = 1'' @ [nl, nl] @ ''[foo]'' @ [nl] @ ''model = /m/a.gguf'' @ [nl]"

definition demo_files :: "string \<Rightarrow> node option" where
  "demo_files = [''/c'' \<mapsto> DirNode 493, ''/c/models.ini'' \<mapsto> RegFile demo_ini 384]"

definition demo_world :: os where "demo_world = demo_os demo_files"

lemma demo_ready: "can_replace demo_path demo_world" "store_ok demo_path demo_world"
proof -
  have d: "dir_of demo_path = ''/c''" "base_of demo_path = ''models.ini''" by code_simp+
  have i: "itoa 7 = ''7''" by code_simp
  show "can_replace demo_path demo_world"
    unfolding can_replace_def d
    by (simp add: demo_world_def demo_os_def demo_files_def demo_path_def is_dir_at_def temp_name_def i)
  show "store_ok demo_path demo_world"
    by (simp add: store_ok_def honest_faults_def not_link_def demo_world_def demo_os_def demo_files_def demo_path_def)
qed

definition demo_sections :: sections where
  "demo_sections = [(''foo'', \<lparr>sec_name = ''foo'', sec_values = [(''model'', ''/m/a.gguf'')]\<rparr>)]"

lemma demo_reads: "ini_sections demo_path (os_files demo_world) = Inr demo_sections"
proof -
  have "os_files demo_world demo_path = Some (RegFile demo_ini 384)"
    by (simp add: demo_world_def demo_os_def demo_files_def demo_path_def)
  moreover have "parse_ini demo_ini = Inr demo_sections" by code_simp
  ultimately show ?thesis by (simp add: ini_sections_node)
qed

definition demo_section :: preset_section where
  "demo_section = \<lparr>sec_name = ''bar'', sec_values = [(''batch'', ''512''), (''model'', ''/m/b.gguf'')]\<rparr>"

definition demo_values :: "(string \<times> string) list" where
  "demo_values = [(''batch-size'', ''512''), (''model'', ''/m/b.gguf'')]"

lemma demo_section_valid:
  "validate_section_name (sec_name demo_section) = None"
  "trim_space (sec_name demo_section) = sec_name demo_section"
  "canonical_values [] (sec_values demo_section) = Inr demo_values"
  "True \<longrightarrow> sec_name demo_section \<notin> set (secs_keys demo_sections)"
  by code_simp+

theorem put_stores_section_witness:
  "\<exists>w'. store_put demo_path demo_section True demo_world = (Inr (), w') \<and>
     (\<forall>q. q \<noteq> demo_path \<longrightarrow> os_files w' q = os_files demo_world q) \<and>
     ini_sections demo_path (os_files w') =
       Inr (without (sec_name demo_section) demo_sections @
         [(sec_name demo_section, stored_section (sec_name demo_section) demo_values)])"
  by (rule put_stores_section [OF demo_ready(1) demo_reads demo_section_valid])

text \<open>C2: Whatever system calls fail during a \<^verbatim>\<open>Put\<close>, and wherever the process stops, the file reads as
  the sections of before or as the sections with the new one: every state on the way is one of the two.\<close>

theorem put_crash_safe:
  assumes "store_ok path w" "store_put path sec co w = (r, w')"
  shows "\<exists>ts. os_trace w' = os_trace w @ ts \<and>
    (\<forall>t \<in> set ts. ini_sections path t = ini_sections path (os_files w) \<or>
       (\<exists>vals S. canonical_values [] (sec_values sec) = Inr vals \<and> ini_sections path (os_files w) = Inr S \<and>
          (co \<longrightarrow> sec_name sec \<notin> set (secs_keys S)) \<and>
          ini_sections path t = put_sections (sec_name sec) vals S))"
proof -
  from assms(1) have h: "honest_faults w" and n: "not_link path (os_files w)" by (simp_all add: store_ok_def)
  from assms(2) h show ?thesis
  proof (cases rule: store_put_shape)
    case (early e)
    then show ?thesis by simp
  next
    case (writes vals S content w1)
    from writes(7) n have "not_link path (os_files w1)" by simp
    from store_write_trace [OF writes(9) this] writes show ?thesis by fastforce
  qed
qed

definition faulty_world :: os where
  "faulty_world = demo_world\<lparr>os_fault := (\<lambda>t. if t = 4 then Some (Plain [Lit ''disk full''], 3) else None)\<rparr>"

theorem put_crash_safe_witness:
  "\<exists>ts. os_trace (snd (store_put demo_path demo_section True faulty_world)) = os_trace faulty_world @ ts \<and>
    (\<forall>t \<in> set ts. ini_sections demo_path t = ini_sections demo_path (os_files faulty_world) \<or>
       (\<exists>vals S. canonical_values [] (sec_values demo_section) = Inr vals \<and>
          ini_sections demo_path (os_files faulty_world) = Inr S \<and>
          (True \<longrightarrow> sec_name demo_section \<notin> set (secs_keys S)) \<and>
          ini_sections demo_path t = put_sections (sec_name demo_section) vals S))"
proof (rule put_crash_safe)
  show "store_ok demo_path faulty_world"
    using demo_ready(2) by (simp add: store_ok_def faulty_world_def honest_faults_def)
qed (rule surjective_pairing)

text \<open>\<^verbatim>\<open>Delete\<close>, whatever calls fail, never touches another section: if it returns without error
  the file reads as before without the named section (which is not \<^verbatim>\<open>*\<close>); if it returns an error,
  the file reads as before or as that. Every state on the way is one of the two.\<close>

theorem delete_removes_only_its_section:
  assumes "store_ok path w" "ini_sections path (os_files w) = Inr S" "store_delete path name w = (r, w')"
  shows "(r = Inr () \<longrightarrow> name \<noteq> ''*'' \<and> ini_sections path (os_files w') = Inr (without name S)) \<and>
    (ini_sections path (os_files w') = Inr S \<or> name \<noteq> ''*'' \<and> ini_sections path (os_files w') = Inr (without name S)) \<and>
    (\<exists>ts. os_trace w' = os_trace w @ ts \<and>
      (\<forall>t \<in> set ts. ini_sections path t = Inr S \<or> name \<noteq> ''*'' \<and> ini_sections path t = Inr (without name S)))"
proof -
  from assms(1) have h: "honest_faults w" and n: "not_link path (os_files w)" by (simp_all add: store_ok_def)
  from assms(3) h show ?thesis
  proof (cases rule: store_delete_shape)
    case (early e)
    then show ?thesis using assms(2) by simp
  next
    case (absent S')
    then show ?thesis using assms(2) by (simp add: without_id)
  next
    case (writes S' content w1)
    have n1: "not_link path (os_files w1)" using writes(5) n by simp
    from writes(7) have "r = Inl (projl r) \<and> ini_sections path (os_files w') = Inr S \<or>
        ini_sections path (os_files w') = Inr (without name S)"
    proof (cases rule: store_write_outcome)
      case (kept e)
      then have "os_files w' path = os_files w path" using writes(5) by simp
      from ini_sections_local [of path "os_files w" "os_files w'", OF n this] assms(2) kept show ?thesis by simp
    next
      case new
      then show ?thesis using writes(2,4) assms(2) by simp
    qed
    moreover have "\<exists>ts. os_trace w' = os_trace w @ ts \<and>
      (\<forall>t \<in> set ts. ini_sections path t = Inr S \<or> name \<noteq> ''*'' \<and> ini_sections path t = Inr (without name S))"
      using store_write_trace [OF writes(7) n1] writes(1,2,4,5,6) assms(2) by fastforce
    ultimately show ?thesis using writes(1) by auto
  qed
qed

theorem delete_removes_only_its_section_witness:
  "let w' = snd (store_delete demo_path ''foo'' demo_world); r = fst (store_delete demo_path ''foo'' demo_world) in
   (r = Inr () \<longrightarrow> ''foo'' \<noteq> ''*'' \<and> ini_sections demo_path (os_files w') = Inr (without ''foo'' demo_sections)) \<and>
    (ini_sections demo_path (os_files w') = Inr demo_sections \<or>
     ''foo'' \<noteq> ''*'' \<and> ini_sections demo_path (os_files w') = Inr (without ''foo'' demo_sections)) \<and>
    (\<exists>ts. os_trace w' = os_trace demo_world @ ts \<and>
      (\<forall>t \<in> set ts. ini_sections demo_path t = Inr demo_sections \<or>
         ''foo'' \<noteq> ''*'' \<and> ini_sections demo_path t = Inr (without ''foo'' demo_sections)))"
  unfolding Let_def by (rule delete_removes_only_its_section [OF demo_ready(2) demo_reads]) simp

text \<open>A value that \<^verbatim>\<open>models.ini\<close> can represent: no white space at its ends, no inline comment.\<close>

definition clean_value :: "string \<Rightarrow> bool" where
  "clean_value v \<longleftrightarrow> trim_space v = v \<and> inline_comment (CHR '' '' # v) = None"

lemma stored_clean: "clean_value v \<Longrightarrow> stored_value v = v"
  by (simp add: clean_value_def stored_value_def strip_comment_def trim_space_Cons_single go_spaces_def)

lemma canonical_values_entries:
  "canonical_values acc kvs = Inr vals \<Longrightarrow> set vals \<subseteq> set acc \<union> {(k, v). v \<in> snd ` set kvs}"
proof (induction acc kvs rule: canonical_values.induct)
  case (2 acc key v kvs)
  then show ?case by (fastforce split: sum.splits if_splits)
qed simp

text \<open>C3: Round trip: after a successful \<^verbatim>\<open>Put\<close> of clean values under a trimmed name, a successful \<^verbatim>\<open>Get\<close>
  of the name returns exactly the values given, under their canonical keys, in spite of any failures in between.\<close>

theorem put_get_roundtrip:
  assumes "store_ok path w" "trim_space (sec_name sec) = sec_name sec"
    and "list_all (clean_value \<circ> snd) (sec_values sec)"
    and "store_put path sec co w = (Inr (), w1)" "store_get path (sec_name sec) w1 = (Inr sec', w2)"
  shows "\<exists>vals. canonical_values [] (sec_values sec) = Inr vals \<and> sec_map sec' = map_of vals"
proof -
  from ini.put_then_get [OF assms(1,2,4,5)] obtain vals where
    vals: "canonical_values [] (sec_values sec) = Inr vals" and m: "sec_map sec' = stored_map vals" by blast
  have "clean_value v" if "(k, v) \<in> set vals" for k v
    using canonical_values_entries [OF vals] that assms(3) by (force simp: list_all_iff)
  then have "stored_map vals x = map_of vals x" for x
    by (cases "map_of vals x") (auto simp: stored_map_def stored_clean dest: map_of_SomeD)
  then have "stored_map vals = map_of vals" by (rule ext)
  with vals m show ?thesis by simp
qed

definition demo_after_put :: os where
  "demo_after_put = snd (store_put demo_path demo_section True demo_world)"

lemma demo_put_runs: "store_put demo_path demo_section True demo_world = (Inr (), demo_after_put)"
proof -
  have "fst (store_put demo_path demo_section True demo_world) = Inr ()" by code_simp
  then show ?thesis by (simp add: demo_after_put_def prod_eq_iff)
qed

theorem put_get_roundtrip_witness:
  "\<exists>vals. canonical_values [] (sec_values demo_section) = Inr vals \<and>
     sec_map (projr (fst (store_get demo_path ''bar'' demo_after_put))) = map_of vals"
proof -
  have "isl (fst (store_get demo_path ''bar'' demo_after_put)) = False"
    unfolding demo_after_put_def by code_simp
  then have "store_get demo_path (sec_name demo_section) demo_after_put =
      (Inr (projr (fst (store_get demo_path ''bar'' demo_after_put))), snd (store_get demo_path ''bar'' demo_after_put))"
    by (simp add: demo_section_def prod_eq_iff)
  moreover have "list_all (clean_value \<circ> snd) (sec_values demo_section)" by code_simp
  ultimately show ?thesis
    using put_get_roundtrip [OF demo_ready(2) demo_section_valid(2) _ demo_put_runs] by blast
qed

text \<open>\<^verbatim>\<open>List\<close> changes no file and returns the presets without the global section, sorted by name,
  no name twice, each with a valid trimmed name and with distinct canonical keys.\<close>

theorem list_well_formed:
  assumes "honest_faults w" "store_list path w = (Inr secs, w')"
  shows "os_files w' = os_files w \<and> sorted (map sec_name secs) \<and> distinct (map sec_name secs) \<and>
    (\<forall>sec \<in> set secs. sec_name sec \<noteq> ''*'' \<and> section_ok (sec_name sec, sec))"
proof -
  from store_list_cases [OF assms(2,1)] obtain S where f: "os_files w' = os_files w"
    and S: "ini_sections path (os_files w) = Inr S" and secs: "secs = section_list S" by blast
  note ok = ini_sections_ok [OF S]
  have "sec_name sec \<noteq> ''*'' \<and> section_ok (sec_name sec, sec)" if "sec \<in> set secs" for sec
    using that ok by (auto simp: secs section_list_def sections_ok_def list_all_iff section_ok_def)
  with f secs section_list_names [OF ok] show ?thesis by blast
qed

theorem list_well_formed_witness:
  "os_files (snd (store_list demo_path demo_world)) = os_files demo_world \<and>
   sorted (map sec_name [snd (hd demo_sections)]) \<and> distinct (map sec_name [snd (hd demo_sections)]) \<and>
   sec_name (snd (hd demo_sections)) \<noteq> ''*'' \<and>
   section_ok (sec_name (snd (hd demo_sections)), snd (hd demo_sections))"
proof -
  have h: "honest_faults demo_world" using demo_ready(1) by (rule can_replace_honest)
  have "fst (store_list demo_path demo_world) = Inr [snd (hd demo_sections)]" by code_simp
  then have "store_list demo_path demo_world = (Inr [snd (hd demo_sections)], snd (store_list demo_path demo_world))"
    by (simp add: prod_eq_iff)
  from list_well_formed [OF h this] show ?thesis by simp
qed

text \<open>C4: A section name with white space at its ends passes the checks of \<^verbatim>\<open>Put\<close>: with \<^verbatim>\<open>createOnly\<close>
  and a name whose trimmed form exists already, \<^verbatim>\<open>Put\<close> returns no error, and the file it wrote can no longer be read:
  it holds the section twice.\<close>

theorem put_padded_name_breaks_store:
  assumes "can_replace path w" "ini_sections path (os_files w) = Inr S"
    "validate_section_name (sec_name sec) = None" "trim_space (sec_name sec) \<noteq> sec_name sec"
    "trim_space (sec_name sec) \<in> set (secs_keys S)" "canonical_values [] (sec_values sec) = Inr vals"
  shows "\<exists>w'. store_put path sec True w = (Inr (), w') \<and>
    ini_sections path (os_files w') =
      Inl (invalid [Lit ''duplicate models.ini section '', Quoted (trim_space (sec_name sec))])"
proof -
  have "sec_name sec \<notin> set (secs_keys S)"
    using ini_sections_ok [OF assms(2)] assms(4) by (auto simp: sections_ok_def list_all_iff section_ok_def)
  moreover have "trim_space (sec_name sec) \<in> set (secs_keys (without (sec_name sec) S))"
    using assms(4,5) by auto
  ultimately show ?thesis
    using store_put_effect [OF assms(1,2,3,6), of True] by (auto simp: put_sections_def Let_def)
qed

definition padded_section :: preset_section where
  "padded_section = \<lparr>sec_name = '' foo'', sec_values = []\<rparr>"

theorem put_padded_name_breaks_store_witness:
  "\<exists>w'. store_put demo_path padded_section True demo_world = (Inr (), w') \<and>
    ini_sections demo_path (os_files w') =
      Inl (invalid [Lit ''duplicate models.ini section '', Quoted (trim_space (sec_name padded_section))])"
  by (rule put_padded_name_breaks_store [OF demo_ready(1) demo_reads, where vals = "[]"]) code_simp+

end
