(* ===== verification/Config.thy ===== *)
theory Config
  imports GoPath GoErrors
begin

section \<open>The configuration (\<^verbatim>\<open>config/config.go\<close>)\<close>

text \<open>
  The structs of the configuration, its defaults and its checks. Decoding YAML is the library's:
  \<open>parse_config\<close> takes as an argument what \<^verbatim>\<open>dec.Decode(&cfg)\<close> makes of a text, starting from the
  defaults. A duration is its number of nanoseconds; \<^verbatim>\<open>nil\<close> of \<^verbatim>\<open>StartupServices\<close> is \<open>None\<close>.
\<close>

record router_config =
  rc_executable :: string
  rc_host :: string
  rc_port :: int
  rc_models_max :: int
  rc_default_preset :: string
  rc_autostart_presets :: "string list"
  rc_stop_timeout :: int
  rc_env :: "(string \<times> string) list"
  rc_readiness_timeout :: int
  rc_readiness_interval :: int

record security_config =
  sc_auth_token_env :: string
  sc_disable_origin_check :: bool

record config =
  cfg_listen_addr :: string
  cfg_model_storage_dir :: string
  cfg_catalog_cache_dir :: string
  cfg_catalog_cache_ttl :: int
  cfg_log_archive_retention :: int
  cfg_startup_services :: "string list option"
  cfg_router :: router_config
  cfg_security :: security_config

definition nanos_per_second :: int where "nanos_per_second = 1000000000"

definition default_command_timeout :: int where "default_command_timeout = 30 * nanos_per_second"
definition default_catalog_cache_ttl :: int where "default_catalog_cache_ttl = 6 * 3600 * nanos_per_second"
definition default_log_archive_retention :: int where
  "default_log_archive_retention = 7 * 24 * 3600 * nanos_per_second"
definition default_readiness_timeout :: int where "default_readiness_timeout = 60 * nanos_per_second"
definition default_readiness_interval :: int where "default_readiness_interval = 500 * 1000000"

definition startup_service_control :: string where "startup_service_control = ''control''"
definition startup_service_web :: string where "startup_service_web = ''web''"
definition default_llama_executable :: string where "default_llama_executable = ''llama-server''"

definition default_startup_services :: "string list" where
  "default_startup_services = [startup_service_control, startup_service_web]"

definition default_config :: config where
  "default_config =
    \<lparr>cfg_listen_addr = ''127.0.0.1:7000'', cfg_model_storage_dir = [], cfg_catalog_cache_dir = [],
     cfg_catalog_cache_ttl = 0, cfg_log_archive_retention = default_log_archive_retention,
     cfg_startup_services = Some default_startup_services,
     cfg_router =
       \<lparr>rc_executable = [], rc_host = ''127.0.0.1'', rc_port = 8080, rc_models_max = 1,
        rc_default_preset = [], rc_autostart_presets = [], rc_stop_timeout = default_command_timeout,
        rc_env = [], rc_readiness_timeout = default_readiness_timeout,
        rc_readiness_interval = default_readiness_interval\<rparr>,
     cfg_security = \<lparr>sc_auth_token_env = ''LLAMARIG_CONTROL_TOKEN'', sc_disable_origin_check = False\<rparr>\<rparr>"

text \<open>\<^verbatim>\<open>cmp.Or\<close> of two values.\<close>

definition or_str :: "string \<Rightarrow> string \<Rightarrow> string" where
  "or_str a b = (if a \<noteq> [] then a else b)"

definition or_int :: "int \<Rightarrow> int \<Rightarrow> int" where
  "or_int a b = (if a \<noteq> 0 then a else b)"

definition apply_router_defaults :: "router_config \<Rightarrow> router_config" where
  "apply_router_defaults r = r\<lparr>
     rc_executable := or_str (rc_executable r) default_llama_executable,
     rc_host := or_str (rc_host r) ''127.0.0.1'',
     rc_port := or_int (rc_port r) 8080,
     rc_models_max := or_int (rc_models_max r) 1,
     rc_stop_timeout := or_int (rc_stop_timeout r) default_command_timeout,
     rc_readiness_timeout := or_int (rc_readiness_timeout r) default_readiness_timeout,
     rc_readiness_interval := or_int (rc_readiness_interval r) default_readiness_interval\<rparr>"

definition apply_defaults :: "config \<Rightarrow> config" where
  "apply_defaults c = c\<lparr>
     cfg_listen_addr := or_str (cfg_listen_addr c) ''127.0.0.1:7000'',
     cfg_router := apply_router_defaults (cfg_router c),
     cfg_catalog_cache_ttl := or_int (cfg_catalog_cache_ttl c) default_catalog_cache_ttl,
     cfg_security := (cfg_security c)\<lparr>sc_auth_token_env :=
       or_str (sc_auth_token_env (cfg_security c)) ''LLAMARIG_CONTROL_TOKEN''\<rparr>,
     cfg_startup_services :=
       (case cfg_startup_services c of None \<Rightarrow> Some default_startup_services | Some s \<Rightarrow> Some s)\<rparr>"

definition router_validate :: "router_config \<Rightarrow> gerror option" where
  "router_validate c =
     (if rc_port c < 1 \<or> rc_port c > 65535
      then Some (Plain [Lit ''router.port must be between 1 and 65535''])
      else if rc_models_max c < 1 then Some (Plain [Lit ''router.models_max must be at least 1''])
      else if int (length (rc_autostart_presets c)) > rc_models_max c
      then Some (Wrap [Lit ''router.autostart_presets has '', Num (int (length (rc_autostart_presets c))),
                  Lit '' entries but router.models_max is '', Num (rc_models_max c), Lit '': '',
                  TextOf (Sentinel AutostartCapExceeded)] [Sentinel AutostartCapExceeded])
      else None)"

fun validate_startup_services :: "string list \<Rightarrow> gerror option" where
  "validate_startup_services [] = None"
| "validate_startup_services (name # services) =
     (if name \<noteq> startup_service_control \<and> name \<noteq> startup_service_web
      then Some (Plain [Lit ''unknown startup service '', Quoted name, Lit '' (want '',
             Quoted startup_service_control, Lit '' or '', Quoted startup_service_web, Lit '')''])
      else validate_startup_services services)"

definition services_of :: "config \<Rightarrow> string list" where
  "services_of c = (case cfg_startup_services c of None \<Rightarrow> [] | Some s \<Rightarrow> s)"

text \<open>\<open>decode\<close> is the strict YAML decoder: from the defaults and a text, the decoded struct.\<close>

definition parse_config :: "(config \<Rightarrow> string \<Rightarrow> gerror + config) \<Rightarrow> string \<Rightarrow> gerror + config" where
  "parse_config decode data =
     (case decode default_config data of
        Inl err \<Rightarrow> Inl err
      | Inr cfg0 \<Rightarrow>
          (let cfg = apply_defaults cfg0 in
           case router_validate (cfg_router cfg) of
             Some err \<Rightarrow> Inl err
           | None \<Rightarrow>
               (if cfg_log_archive_retention cfg < 0
                then Inl (Plain [Lit ''log_archive_retention must not be negative''])
                else (case validate_startup_services (services_of cfg) of
                        Some err \<Rightarrow> Inl err
                      | None \<Rightarrow> Inr cfg))))"

definition router_allows_non_loopback :: "config \<Rightarrow> bool" where
  "router_allows_non_loopback c \<longleftrightarrow>
     rc_host (cfg_router c) \<noteq> [] \<and> rc_host (cfg_router c) \<noteq> ''127.0.0.1'' \<and>
     rc_host (cfg_router c) \<noteq> ''localhost'' \<and> rc_host (cfg_router c) \<noteq> ''::1''"

subsection \<open>Paths\<close>

text \<open>The environment: variables (unset reads as the empty string) and \<^verbatim>\<open>os.UserHomeDir\<close>.\<close>

record host_env =
  he_getenv :: "string \<Rightarrow> string"
  he_user_home :: "gerror + string"

definition llama_rig_home :: "host_env \<Rightarrow> gerror + string" where
  "llama_rig_home env =
     (if he_getenv env ''LLAMARIG_HOME'' \<noteq> [] then Inr (he_getenv env ''LLAMARIG_HOME'')
      else (case he_user_home env of
              Inl err \<Rightarrow> Inl (Wrap [Lit ''resolve user home: '', TextOf err] [err])
            | Inr home \<Rightarrow> Inr (join_path [home, ''.llamarig''])))"

definition llama_rig_path :: "host_env \<Rightarrow> string list \<Rightarrow> gerror + string" where
  "llama_rig_path env sub =
     (case llama_rig_home env of Inl err \<Rightarrow> Inl err | Inr home \<Rightarrow> Inr (join_path (home # sub)))"

definition default_config_path :: "host_env \<Rightarrow> gerror + string" where
  "default_config_path env = llama_rig_path env [''config.yaml'']"

definition default_model_storage_dir :: "host_env \<Rightarrow> gerror + string" where
  "default_model_storage_dir env = llama_rig_path env [''models'']"

definition default_catalog_cache_dir :: "host_env \<Rightarrow> gerror + string" where
  "default_catalog_cache_dir env = llama_rig_path env [''cache'', ''hf-catalog'']"

definition control_socket_path :: "host_env \<Rightarrow> gerror + string" where
  "control_socket_path env = llama_rig_path env [''run'', ''control.sock'']"

definition expand_home :: "host_env \<Rightarrow> string \<Rightarrow> string" where
  "expand_home env path =
     (if path = [] \<or> path = ''~'' then
        (case he_user_home env of
           Inr home \<Rightarrow> if path = ''~'' then home else path
         | Inl _ \<Rightarrow> path)
      else if has_prefix path (''~'' @ [slash]) then
        (case he_user_home env of Inr home \<Rightarrow> join_path [home, drop 2 path] | Inl _ \<Rightarrow> path)
      else path)"

definition resolve_home_relative_path :: "host_env \<Rightarrow> string \<Rightarrow> gerror + string" where
  "resolve_home_relative_path env value0 =
     (let val = expand_home env value0 in
      if is_abs val then Inr (clean val)
      else (case llama_rig_home env of
              Inl err \<Rightarrow> Inl err
            | Inr home \<Rightarrow> Inr (join_path [home, clean val])))"

definition resolve_dir :: "host_env \<Rightarrow> string \<Rightarrow> gerror + string \<Rightarrow> gerror + string" where
  "resolve_dir env val dflt = (if val = [] then dflt else resolve_home_relative_path env val)"

definition resolve_model_storage_dir :: "host_env \<Rightarrow> string \<Rightarrow> gerror + string" where
  "resolve_model_storage_dir env val = resolve_dir env val (default_model_storage_dir env)"

definition resolve_catalog_cache_dir :: "host_env \<Rightarrow> string \<Rightarrow> gerror + string" where
  "resolve_catalog_cache_dir env val = resolve_dir env val (default_catalog_cache_dir env)"

definition config_path :: "host_env \<Rightarrow> gerror + string" where
  "config_path env =
     (if he_getenv env ''LLAMARIG_CONFIG'' \<noteq> [] then Inr (he_getenv env ''LLAMARIG_CONFIG'')
      else default_config_path env)"

subsection \<open>What a parsed configuration satisfies\<close>

definition config_ok :: "config \<Rightarrow> bool" where
  "config_ok c \<longleftrightarrow>
     1 \<le> rc_port (cfg_router c) \<and> rc_port (cfg_router c) \<le> 65535 \<and>
     1 \<le> rc_models_max (cfg_router c) \<and>
     int (length (rc_autostart_presets (cfg_router c))) \<le> rc_models_max (cfg_router c) \<and>
     rc_executable (cfg_router c) \<noteq> [] \<and> rc_host (cfg_router c) \<noteq> [] \<and>
     rc_stop_timeout (cfg_router c) \<noteq> 0 \<and> rc_readiness_timeout (cfg_router c) \<noteq> 0 \<and>
     rc_readiness_interval (cfg_router c) \<noteq> 0 \<and>
     cfg_listen_addr c \<noteq> [] \<and> cfg_catalog_cache_ttl c \<noteq> 0 \<and> 0 \<le> cfg_log_archive_retention c \<and>
     sc_auth_token_env (cfg_security c) \<noteq> [] \<and>
     (\<exists>s. cfg_startup_services c = Some s \<and> set s \<subseteq> {startup_service_control, startup_service_web})"

lemma validate_services_None:
  "validate_startup_services s = None \<longleftrightarrow> set s \<subseteq> {startup_service_control, startup_service_web}"
  by (induction s) auto

lemma router_validate_None:
  "router_validate c = None \<longleftrightarrow>
     1 \<le> rc_port c \<and> rc_port c \<le> 65535 \<and> 1 \<le> rc_models_max c \<and>
     int (length (rc_autostart_presets c)) \<le> rc_models_max c"
  by (auto simp: router_validate_def)

lemma or_simps [simp]: "or_str a b = [] \<longleftrightarrow> a = [] \<and> b = []" "or_int x y = 0 \<longleftrightarrow> x = 0 \<and> y = 0"
  by (auto simp: or_str_def or_int_def)

lemmas default_defs = default_command_timeout_def default_catalog_cache_ttl_def
  default_log_archive_retention_def default_readiness_timeout_def default_readiness_interval_def
  nanos_per_second_def default_llama_executable_def

lemma parse_config_Inr:
  assumes "parse_config decode data = Inr cfg"
  shows "config_ok cfg \<and> (\<exists>cfg0. decode default_config data = Inr cfg0 \<and> cfg = apply_defaults cfg0)"
proof -
  from assms obtain cfg0 where d: "decode default_config data = Inr cfg0" and c: "cfg = apply_defaults cfg0"
    and r: "router_validate (cfg_router cfg) = None" and l: "0 \<le> cfg_log_archive_retention cfg"
    and s: "validate_startup_services (services_of cfg) = None"
    by (auto simp: parse_config_def Let_def split: sum.splits option.splits if_splits)
  have "\<exists>s. cfg_startup_services cfg = Some s \<and> set s \<subseteq> {startup_service_control, startup_service_web}"
    using s by (cases "cfg_startup_services cfg0")
      (simp_all add: c apply_defaults_def services_of_def validate_services_None)
  moreover have "rc_executable (cfg_router cfg) \<noteq> [] \<and> rc_host (cfg_router cfg) \<noteq> [] \<and>
      rc_stop_timeout (cfg_router cfg) \<noteq> 0 \<and> rc_readiness_timeout (cfg_router cfg) \<noteq> 0 \<and>
      rc_readiness_interval (cfg_router cfg) \<noteq> 0 \<and> cfg_listen_addr cfg \<noteq> [] \<and>
      cfg_catalog_cache_ttl cfg \<noteq> 0 \<and> sc_auth_token_env (cfg_security cfg) \<noteq> []"
    by (simp add: c apply_defaults_def apply_router_defaults_def default_defs)
  ultimately show ?thesis using d c r l by (simp add: config_ok_def router_validate_None)
qed

text \<open>Applying the defaults twice changes nothing more.\<close>

lemma apply_defaults_idem: "apply_defaults (apply_defaults c) = apply_defaults c"
  by (simp add: apply_defaults_def apply_router_defaults_def or_str_def or_int_def split: option.split)

lemma config_ok_checks:
  assumes "config_ok (apply_defaults cfg0)"
  shows "router_validate (cfg_router (apply_defaults cfg0)) = None"
    "validate_startup_services (services_of (apply_defaults cfg0)) = None"
  using assms by (auto simp: config_ok_def router_validate_None services_of_def validate_services_None)

text \<open>C6: \<^verbatim>\<open>Parse\<close> returns a configuration exactly when the decoder does and the result, after the defaults,
  is well formed: port and \<^verbatim>\<open>models_max\<close> in range, no more autostart presets than \<^verbatim>\<open>models_max\<close>, no empty field
  that has a default, a retention that is not negative and only known startup services.\<close>

theorem parse_config_exact:
  "parse_config decode data = Inr cfg \<longleftrightarrow>
     (\<exists>cfg0. decode default_config data = Inr cfg0 \<and> cfg = apply_defaults cfg0 \<and> config_ok cfg)"
proof
  assume "parse_config decode data = Inr cfg"
  then show "\<exists>cfg0. decode default_config data = Inr cfg0 \<and> cfg = apply_defaults cfg0 \<and> config_ok cfg"
    using parse_config_Inr by blast
next
  assume "\<exists>cfg0. decode default_config data = Inr cfg0 \<and> cfg = apply_defaults cfg0 \<and> config_ok cfg"
  then obtain cfg0 where d: "decode default_config data = Inr cfg0" "cfg = apply_defaults cfg0"
    and ok: "config_ok (apply_defaults cfg0)" by blast
  from ok have "\<not> cfg_log_archive_retention (apply_defaults cfg0) < 0" by (simp add: config_ok_def)
  then show "parse_config decode data = Inr cfg"
    using config_ok_checks [OF ok] d by (simp add: parse_config_def Let_def)
qed

text \<open>\<^verbatim>\<open>Router.Validate\<close> reports the autostart limit (\<^verbatim>\<open>ErrAutostartCapExceeded\<close>) exactly when port and
  \<^verbatim>\<open>models_max\<close> are in range and there are more autostart presets than \<^verbatim>\<open>models_max\<close>, so that a caller
  can tell this error from the others.\<close>

theorem autostart_cap_error_exact:
  "(\<exists>e. router_validate c = Some e \<and> errors_is e AutostartCapExceeded) \<longleftrightarrow>
     1 \<le> rc_port c \<and> rc_port c \<le> 65535 \<and> 1 \<le> rc_models_max c \<and>
     rc_models_max c < int (length (rc_autostart_presets c))"
  by (auto simp: router_validate_def)

subsection \<open>Resolved paths\<close>

lemma is_abs_clean: "is_abs p \<Longrightarrow> is_abs (clean p)"
  by (auto simp: clean_def unparse_path_def is_abs_def has_prefix_def)

lemma is_abs_join:
  assumes "is_abs home"
  shows "is_abs (join_path (home # sub))"
proof -
  from assms obtain h where h: "home = slash # h" by (auto simp: is_abs_def has_prefix_def prefix_def)
  have "join_path (home # sub) = clean (join_with slash (home # sub))" by (simp add: join_path_def h)
  moreover have "is_abs (join_with slash (home # sub))"
    by (cases sub) (simp_all add: h is_abs_def has_prefix_def)
  ultimately show ?thesis by (simp add: is_abs_clean)
qed

lemma llama_rig_home_abs:
  assumes "he_getenv env ''LLAMARIG_HOME'' \<noteq> [] \<longrightarrow> is_abs (he_getenv env ''LLAMARIG_HOME'')"
    and "\<And>h. he_user_home env = Inr h \<Longrightarrow> is_abs h" and "llama_rig_home env = Inr home"
  shows "is_abs home"
  using assms by (auto simp: llama_rig_home_def is_abs_join split: if_splits sum.splits)

text \<open>With an absolute home, every resolved model storage or cache directory is an absolute path, whatever
  the configuration says: empty, relative, with a tilde or absolute.\<close>

theorem resolved_dir_absolute:
  assumes "he_getenv env ''LLAMARIG_HOME'' \<noteq> [] \<longrightarrow> is_abs (he_getenv env ''LLAMARIG_HOME'')"
    and "\<And>h. he_user_home env = Inr h \<Longrightarrow> is_abs h"
    and "resolve_model_storage_dir env val = Inr dir \<or> resolve_catalog_cache_dir env val = Inr dir"
  shows "is_abs dir"
proof -
  have "is_abs dir" if "resolve_home_relative_path env val = Inr dir"
    using that llama_rig_home_abs [OF assms(1,2)]
    by (auto simp: resolve_home_relative_path_def Let_def is_abs_clean is_abs_join split: if_splits sum.splits)
  moreover have "is_abs dir" if "llama_rig_path env sub = Inr dir" for sub
    using that llama_rig_home_abs [OF assms(1,2)]
    by (auto simp: llama_rig_path_def is_abs_join split: sum.splits)
  ultimately show ?thesis using assms(3)
    by (auto simp: resolve_model_storage_dir_def resolve_catalog_cache_dir_def resolve_dir_def
        default_model_storage_dir_def default_catalog_cache_dir_def split: if_splits)
qed

theorem resolved_dir_absolute_witness: "is_abs ''/home/u/.llamarig/llms''"
proof (rule resolved_dir_absolute)
  let ?env = "\<lparr>he_getenv = (\<lambda>_. []), he_user_home = Inr ''/home/u''\<rparr> :: host_env"
  show "he_getenv ?env ''LLAMARIG_HOME'' \<noteq> [] \<longrightarrow> is_abs (he_getenv ?env ''LLAMARIG_HOME'')" by simp
  show "is_abs h" if "he_user_home ?env = Inr h" for h
    using that by (auto simp: is_abs_def has_prefix_def)
  show "resolve_model_storage_dir ?env ''llms'' = Inr ''/home/u/.llamarig/llms'' \<or>
      resolve_catalog_cache_dir ?env ''llms'' = Inr ''/home/u/.llamarig/llms''"
    by (rule disjI1) code_simp
qed

end
