(* ===== verification/YamlTree.thy ===== *)
theory YamlTree
  imports Config
begin

section \<open>Edits of the configuration document (\<^verbatim>\<open>core/configstore\<close>, node functions)\<close>

text \<open>
  A \<^verbatim>\<open>yaml.Node\<close> tree: kind, tag, value and content, and in \<open>y_rest\<close> what the edits carry along
  unread (style, anchor, comments, position). The source finds a node by pointer and changes it in
  place; here a change of the value of a key is \<open>update_value\<close>, at the place that \<open>mapping_value\<close>
  reads. An editing function returns whether it changed the document and the document; \<open>None\<close> is
  a nil dereference.
\<close>

datatype ykind = DocumentNode | SequenceNode | MappingNode | ScalarNode | AliasNode | NoKind

datatype ynode = YNode (y_kind: ykind) (y_tag: string) (y_value: string) (y_rest: string) (y_content: "ynode list")

definition scalar_node :: "string \<Rightarrow> ynode" where
  "scalar_node v = YNode ScalarNode ''!!str'' v [] []"

definition set_content :: "ynode list \<Rightarrow> ynode \<Rightarrow> ynode" where
  "set_content c n = YNode (y_kind n) (y_tag n) (y_value n) (y_rest n) c"

definition set_y_value :: "string \<Rightarrow> ynode \<Rightarrow> ynode" where
  "set_y_value v n = YNode (y_kind n) (y_tag n) v (y_rest n) (y_content n)"

fun find_pair :: "string \<Rightarrow> ynode list \<Rightarrow> ynode option" where
  "find_pair key (k # v # rest) = (if y_value k = key then Some v else find_pair key rest)"
| "find_pair key _ = None"

definition mapping_value :: "ynode \<Rightarrow> string \<Rightarrow> ynode option" where
  "mapping_value n key = (if y_kind n \<noteq> MappingNode then None else find_pair key (y_content n))"

text \<open>Assigning to the node that \<open>mapping_value\<close> found.\<close>

fun update_pair :: "string \<Rightarrow> (ynode \<Rightarrow> ynode) \<Rightarrow> ynode list \<Rightarrow> ynode list" where
  "update_pair key f (k # v # rest) =
     (if y_value k = key then k # f v # rest else k # v # update_pair key f rest)"
| "update_pair key f ns = ns"

definition update_value :: "string \<Rightarrow> (ynode \<Rightarrow> ynode) \<Rightarrow> ynode \<Rightarrow> ynode" where
  "update_value key f n =
     (if y_kind n \<noteq> MappingNode then n else set_content (update_pair key f (y_content n)) n)"

definition append_pair :: "string \<Rightarrow> ynode \<Rightarrow> ynode \<Rightarrow> ynode" where
  "append_pair key v n = set_content (y_content n @ [scalar_node key, v]) n"

definition document_root :: "ynode \<Rightarrow> ynode option" where
  "document_root doc =
     (case y_content doc of [] \<Rightarrow> None | r # _ \<Rightarrow> if y_kind r \<noteq> MappingNode then None else Some r)"

definition set_root :: "ynode \<Rightarrow> ynode \<Rightarrow> ynode" where
  "set_root r doc = set_content (r # tl (y_content doc)) doc"

fun sequence_equals :: "ynode option \<Rightarrow> string list \<Rightarrow> bool" where
  "sequence_equals None vs = False"
| "sequence_equals (Some n) vs = (y_kind n = SequenceNode \<and> map y_value (y_content n) = vs)"

text \<open>
  \<^verbatim>\<open>findOrCreateRouterNode\<close>: the root after a possible creation and the router node, absent when there is none to find or
  when it is not a mapping.
\<close>

definition find_or_create_router :: "bool \<Rightarrow> ynode \<Rightarrow> ynode \<times> ynode option" where
  "find_or_create_router enabled root =
     (case mapping_value root ''router'' of
        None \<Rightarrow>
          (if \<not> enabled then (root, None)
           else let router = YNode MappingNode ''!!map'' [] [] []
                in (append_pair ''router'' router root, Some router))
      | Some router \<Rightarrow> (root, if y_kind router \<noteq> MappingNode then None else Some router))"

definition find_or_create_autostart :: "ynode \<Rightarrow> ynode \<times> ynode" where
  "find_or_create_autostart router =
     (case mapping_value router ''autostart_presets'' of
        None \<Rightarrow> let s = YNode SequenceNode ''!!seq'' [] [] []
                in (append_pair ''autostart_presets'' s router, s)
      | Some s \<Rightarrow> (router, s))"

definition append_name_if_absent :: "string \<Rightarrow> ynode \<Rightarrow> bool \<times> ynode" where
  "append_name_if_absent name s =
     (if y_kind s \<noteq> SequenceNode \<or> name \<in> set (map y_value (y_content s)) then (False, s)
      else (True, set_content (y_content s @ [scalar_node name]) s))"

definition remove_seq_items :: "(string \<Rightarrow> bool) \<Rightarrow> ynode \<Rightarrow> bool \<times> ynode" where
  "remove_seq_items match s =
     (if y_kind s \<noteq> SequenceNode then (False, s)
      else (list_ex (match \<circ> y_value) (y_content s),
            set_content (filter (\<lambda>i. \<not> match (y_value i)) (y_content s)) s))"

text \<open>Removing items of the sequence under \<^verbatim>\<open>autostart_presets\<close> of a router node.\<close>

definition remove_autostart :: "(string \<Rightarrow> bool) \<Rightarrow> ynode \<Rightarrow> bool \<times> ynode" where
  "remove_autostart match router =
     (case mapping_value router ''autostart_presets'' of
        None \<Rightarrow> (False, router)
      | Some s \<Rightarrow> (fst (remove_seq_items match s),
                   update_value ''autostart_presets'' (\<lambda>s. snd (remove_seq_items match s)) router))"

definition set_autostart_preset :: "string \<Rightarrow> bool \<Rightarrow> ynode \<Rightarrow> bool \<times> ynode" where
  "set_autostart_preset name enabled doc =
     (case document_root doc of
        None \<Rightarrow> (False, doc)
      | Some root \<Rightarrow>
          (case find_or_create_router enabled root of
             (root', None) \<Rightarrow> (False, set_root root' doc)
           | (root', Some router) \<Rightarrow>
               (if enabled then
                  (case find_or_create_autostart router of (router', s) \<Rightarrow>
                     (case append_name_if_absent name s of (changed, s') \<Rightarrow>
                        (changed,
                         set_root (update_value ''router''
                           (\<lambda>_. update_value ''autostart_presets'' (\<lambda>_. s') router') root') doc)))
                else (case remove_autostart (\<lambda>v. v = name) router of (changed, router') \<Rightarrow>
                        (changed, set_root (update_value ''router'' (\<lambda>_. router') root') doc)))))"

definition remove_preset_reference_nodes :: "string list \<Rightarrow> ynode \<Rightarrow> bool \<times> ynode" where
  "remove_preset_reference_nodes remove doc =
     (case document_root doc of
        None \<Rightarrow> (False, doc)
      | Some root \<Rightarrow>
          (case mapping_value root ''router'' of
             None \<Rightarrow> (False, doc)
           | Some router \<Rightarrow>
               let (cleared, router1) =
                     (case mapping_value router ''default_preset'' of
                        Some n \<Rightarrow>
                          if y_value n \<in> set remove
                          then (True, update_value ''default_preset'' (set_y_value []) router)
                          else (False, router)
                      | None \<Rightarrow> (False, router));
                   (changed, router2) = remove_autostart (\<lambda>v. v \<in> set remove) router1
               in (changed \<or> cleared, set_root (update_value ''router'' (\<lambda>_. router2) root) doc)))"

definition sequence_of :: "string list \<Rightarrow> ynode \<Rightarrow> ynode" where
  "sequence_of services n = YNode SequenceNode ''!!seq'' [] (y_rest n) (map scalar_node services)"

definition set_startup_services_node :: "string list \<Rightarrow> ynode \<Rightarrow> bool \<times> ynode" where
  "set_startup_services_node services doc =
     (case document_root doc of
        None \<Rightarrow> (False, doc)
      | Some root \<Rightarrow>
          if sequence_equals (mapping_value root ''startup_services'') services then (False, doc)
          else
            let root' = (case mapping_value root ''startup_services'' of
                  None \<Rightarrow> append_pair ''startup_services'' (YNode SequenceNode ''!!seq'' [] [] []) root
                | Some _ \<Rightarrow> root)
            in (True, set_root (update_value ''startup_services'' (sequence_of services) root') doc))"

definition executable_of :: "string \<Rightarrow> ynode \<Rightarrow> ynode" where
  "executable_of exe n = YNode ScalarNode ''!!str'' exe (y_rest n) (y_content n)"

text \<open>\<^verbatim>\<open>SetRouterExecutable\<close> appends to the router node without a check that there is one.\<close>

definition set_router_executable_node :: "string \<Rightarrow> string \<Rightarrow> ynode \<Rightarrow> (bool \<times> ynode) option" where
  "set_router_executable_node exe replace doc =
     (case document_root doc of
        None \<Rightarrow> Some (False, doc)
      | Some root \<Rightarrow>
          (case find_or_create_router True root of
             (root', None) \<Rightarrow> None
           | (root', Some router) \<Rightarrow>
               (case mapping_value router ''executable'' of
                  Some current \<Rightarrow>
                    if y_value current \<noteq> default_llama_executable \<and> y_value current \<noteq> replace
                       \<or> y_value current = exe
                    then Some (False, set_root root' doc)
                    else Some (True, set_root (update_value ''router''
                           (update_value ''executable'' (executable_of exe)) root') doc)
                | None \<Rightarrow>
                    Some (True, set_root (update_value ''router''
                      (append_pair ''executable'' (executable_of exe (YNode NoKind [] [] [] []))) root') doc))))"

end
