(* ===== verification/YamlFacts.thy ===== *)
theory YamlFacts
  imports YamlTree
begin

section \<open>Facts on the document edits\<close>

text \<open>
  Reading after writing in a node tree: \<open>doc_at\<close> reads the node at a path of keys, and each edit is
  described by what it puts at one path; at every path that does not meet that one the document is
  as before (\<open>frame_at\<close>).
\<close>

named_theorems yaml_simps "reading after an edit"

definition even_mapping :: "ynode \<Rightarrow> bool" where
  "even_mapping n \<longleftrightarrow> y_kind n = MappingNode \<and> even (length (y_content n))"

fun value_at :: "string list \<Rightarrow> ynode \<Rightarrow> ynode option" where
  "value_at [] n = Some n"
| "value_at (k # ks) n = (case mapping_value n k of None \<Rightarrow> None | Some m \<Rightarrow> value_at ks m)"

definition doc_at :: "string list \<Rightarrow> ynode \<Rightarrow> ynode option" where
  "doc_at p doc = (case document_root doc of None \<Rightarrow> None | Some r \<Rightarrow> value_at p r)"

lemma set_content_sel [simp]:
  "y_kind (set_content c n) = y_kind n" "y_content (set_content c n) = c"
  "y_value (set_content c n) = y_value n" "y_tag (set_content c n) = y_tag n"
  "y_rest (set_content c n) = y_rest n"
  by (simp_all add: set_content_def)

lemma scalar_value [simp]: "y_value (scalar_node v) = v" "y_kind (scalar_node v) = ScalarNode"
  by (simp_all add: scalar_node_def)

lemma find_pair_update:
  "find_pair k' (update_pair k f ns) = (if k' = k then map_option f (find_pair k ns) else find_pair k' ns)"
  by (induction k f ns rule: update_pair.induct) auto

lemma find_pair_append:
  "even (length ns) \<Longrightarrow>
   find_pair k' (ns @ [k, v]) = (case find_pair k' ns of Some u \<Rightarrow> Some u | None \<Rightarrow> if y_value k = k' then Some v else None)"
  by (induction k' ns rule: find_pair.induct) auto

lemma update_pair_length [simp]: "length (update_pair k f ns) = length ns"
  by (induction k f ns rule: update_pair.induct) auto

lemma update_kind [simp]: "y_kind (update_value k f n) = y_kind n"
  by (simp add: update_value_def)

lemma append_kind [simp]: "y_kind (append_pair k v n) = y_kind n"
  by (simp add: append_pair_def)

lemma even_update [simp]: "even_mapping (update_value k f n) = even_mapping n"
  by (simp add: even_mapping_def update_value_def)

lemma even_append [simp]: "even_mapping (append_pair k v n) = even_mapping n"
  by (simp add: even_mapping_def append_pair_def)

lemma mapping_value_update [simp, yaml_simps]:
  "mapping_value (update_value k f n) k' =
     (if k' = k then map_option f (mapping_value n k) else mapping_value n k')"
  by (simp add: mapping_value_def update_value_def find_pair_update)

lemma mapping_value_append [simp, yaml_simps]:
  "even_mapping n \<Longrightarrow> mapping_value n k = None \<Longrightarrow>
   mapping_value (append_pair k v n) k' = (if k' = k then Some v else mapping_value n k')"
  by (auto simp: mapping_value_def append_pair_def even_mapping_def find_pair_append split: option.splits)

lemma even_mapping_kind: "even_mapping n \<Longrightarrow> y_kind n = MappingNode"
  by (simp add: even_mapping_def)

lemma document_root_set [simp]:
  "document_root doc = Some r0 \<Longrightarrow> y_kind r = MappingNode \<Longrightarrow> document_root (set_root r doc) = Some r"
  by (simp add: document_root_def set_root_def)

lemma document_root_mapping: "document_root doc = Some r \<Longrightarrow> y_kind r = MappingNode"
  by (auto simp: document_root_def split: list.splits if_splits)

lemma find_pair_in: "find_pair k ns = Some v \<Longrightarrow> v \<in> set ns"
  by (induction k ns rule: find_pair.induct) (auto split: if_splits)

text \<open>At every path that leaves \<open>target\<close>, the two nodes read the same.\<close>

definition frame_at :: "string list \<Rightarrow> ynode \<Rightarrow> ynode \<Rightarrow> bool" where
  "frame_at target n n' \<longleftrightarrow>
     (\<forall>p. \<not> prefix p target \<and> \<not> prefix target p \<longrightarrow> value_at p n' = value_at p n)"

lemma frame_at_refl [simp]: "frame_at t n n"
  by (simp add: frame_at_def)

lemma frame_at_trans: "frame_at t a b \<Longrightarrow> frame_at t b c \<Longrightarrow> frame_at t a c"
  by (simp add: frame_at_def)

lemma value_at_hd:
  "(\<And>k'. k' \<noteq> k \<Longrightarrow> mapping_value n' k' = mapping_value n k') \<Longrightarrow> p \<noteq> [] \<Longrightarrow> hd p \<noteq> k \<Longrightarrow> value_at p n' = value_at p n"
  by (cases p) auto

lemma frame_at_one: "(\<And>k'. k' \<noteq> k \<Longrightarrow> mapping_value n' k' = mapping_value n k') \<Longrightarrow> frame_at [k] n n'"
  unfolding frame_at_def
proof (intro allI impI)
  fix p assume *: "\<And>k'. k' \<noteq> k \<Longrightarrow> mapping_value n' k' = mapping_value n k'"
    and "\<not> prefix p [k] \<and> \<not> prefix [k] p"
  then have "p \<noteq> [] \<and> hd p \<noteq> k" by (cases p) auto
  with * show "value_at p n' = value_at p n" by (intro value_at_hd) auto
qed

lemma frame_at_two:
  assumes "\<And>k'. k' \<noteq> k \<Longrightarrow> mapping_value n' k' = mapping_value n k'"
    and "mapping_value n' k = Some m'"
    and "mapping_value n k = Some m \<and> frame_at [l] m m' \<or>
         mapping_value n k = None \<and> (\<forall>k'. k' \<noteq> l \<longrightarrow> mapping_value m' k' = None)"
  shows "frame_at [k, l] n n'"
  unfolding frame_at_def
proof (intro allI impI)
  fix p assume p: "\<not> prefix p [k, l] \<and> \<not> prefix [k, l] p"
  then obtain a q where a: "p = a # q" by (cases p) auto
  show "value_at p n' = value_at p n"
  proof (cases "a = k")
    case False
    with a assms(1) show ?thesis by (intro value_at_hd) auto
  next
    case True
    with p a have q: "\<not> prefix q [l]" "\<not> prefix [l] q" by auto
    then obtain b r where b: "q = b # r" "b \<noteq> l" by (cases q) auto
    from assms(3) show ?thesis
    proof (elim disjE conjE)
      assume m: "mapping_value n k = Some m" "frame_at [l] m m'"
      with q have "value_at q m' = value_at q m" by (simp add: frame_at_def)
      with m a True assms(2) show ?thesis by simp
    next
      assume "mapping_value n k = None" "\<forall>k'. k' \<noteq> l \<longrightarrow> mapping_value m' k' = None"
      with a b True assms(2) show ?thesis by simp
    qed
  qed
qed

subsection \<open>The documents the store edits\<close>

text \<open>
  What the decoder guarantees of a document it accepts: mappings have keys and values in pairs. The three
  nodes the edits reach may still be absent or of another kind (an alias, a null).
\<close>

definition seq_values :: "ynode option \<Rightarrow> string list" where
  "seq_values n = (case n of Some s \<Rightarrow> if y_kind s = SequenceNode then map y_value (y_content s) else [] | None \<Rightarrow> [])"

definition autostart_names :: "ynode \<Rightarrow> string list" where
  "autostart_names doc = seq_values (doc_at [''router'', ''autostart_presets''] doc)"

definition default_preset_name :: "ynode \<Rightarrow> string option" where
  "default_preset_name doc = map_option y_value (doc_at [''router'', ''default_preset''] doc)"

definition editable :: "ynode \<Rightarrow> bool" where
  "editable doc \<longleftrightarrow>
     (\<exists>root. document_root doc = Some root \<and> even_mapping root \<and>
        (case mapping_value root ''router'' of
           None \<Rightarrow> True
         | Some router \<Rightarrow>
             even_mapping router \<and>
             (case mapping_value router ''autostart_presets'' of None \<Rightarrow> True | Some s \<Rightarrow> y_kind s = SequenceNode)))"

lemma remove_seq_items_values:
  "y_kind s = SequenceNode \<Longrightarrow>
   remove_seq_items match s = (c, s') \<Longrightarrow>
   y_kind s' = SequenceNode \<and> map y_value (y_content s') = filter (\<lambda>v. \<not> match v) (map y_value (y_content s)) \<and>
   (c \<longleftrightarrow> (\<exists>v \<in> set (map y_value (y_content s)). match v)) \<and> y_rest s' = y_rest s"
  by (auto simp: remove_seq_items_def filter_map comp_def list_ex_iff)

definition doc_frame :: "string list \<Rightarrow> ynode \<Rightarrow> ynode \<Rightarrow> bool" where
  "doc_frame target doc doc' \<longleftrightarrow>
     (\<forall>p. \<not> prefix p target \<and> \<not> prefix target p \<longrightarrow> doc_at p doc' = doc_at p doc)"

lemma doc_at_set_root:
  "document_root doc = Some root \<Longrightarrow> y_kind r = MappingNode \<Longrightarrow> doc_at p (set_root r doc) = value_at p r"
  by (simp add: doc_at_def)

lemma doc_frameI:
  "document_root doc = Some root \<Longrightarrow> y_kind r = MappingNode \<Longrightarrow> frame_at t root r \<Longrightarrow>
   doc_frame t doc (set_root r doc)"
  by (simp add: doc_frame_def frame_at_def doc_at_set_root) (simp add: doc_at_def)

lemma editableE:
  assumes "editable doc"
  obtains root where "document_root doc = Some root" "even_mapping root" "y_kind root = MappingNode"
    "\<And>router. mapping_value root ''router'' = Some router \<Longrightarrow> even_mapping router \<and> y_kind router = MappingNode"
    "\<And>router s. mapping_value root ''router'' = Some router \<Longrightarrow>
       mapping_value router ''autostart_presets'' = Some s \<Longrightarrow> y_kind s = SequenceNode"
proof -
  from assms obtain root where r: "document_root doc = Some root" "even_mapping root"
    and c: "case mapping_value root ''router'' of None \<Rightarrow> True
      | Some router \<Rightarrow> even_mapping router \<and>
          (case mapping_value router ''autostart_presets'' of None \<Rightarrow> True | Some s \<Rightarrow> y_kind s = SequenceNode)"
    unfolding editable_def by blast
  show thesis by (rule that [OF r]) (use r c in \<open>auto simp: even_mapping_def\<close>)
qed

text \<open>Enabling an autostart preset, seen through the names it lists.\<close>

lemma set_autostart_enabled:
  assumes "editable doc" "set_autostart_preset name True doc = (changed, doc')"
  shows "changed = (name \<notin> set (autostart_names doc))"
    "autostart_names doc' = (if changed then autostart_names doc @ [name] else autostart_names doc)"
    "doc_frame [''router'', ''autostart_presets''] doc doc'"
proof -
  from assms(1) obtain root where r: "document_root doc = Some root" "even_mapping root" "y_kind root = MappingNode"
    and rt: "\<And>router. mapping_value root ''router'' = Some router \<Longrightarrow> even_mapping router \<and> y_kind router = MappingNode"
    and sq: "\<And>router s. mapping_value root ''router'' = Some router \<Longrightarrow>
       mapping_value router ''autostart_presets'' = Some s \<Longrightarrow> y_kind s = SequenceNode"
    by (rule editableE) (rule that, simp_all)
  let ?goal = "changed = (name \<notin> set (autostart_names doc)) \<and>
    autostart_names doc' = (if changed then autostart_names doc @ [name] else autostart_names doc) \<and>
    doc_frame [''router'', ''autostart_presets''] doc doc'"
  have ?goal
  proof (cases "mapping_value root ''router''")
    case None
    let ?m = "YNode MappingNode ''!!map'' [] [] []" and ?s = "YNode SequenceNode ''!!seq'' [] [] []"
    let ?r1 = "append_pair ''autostart_presets'' ?s ?m"
    let ?s1 = "set_content [scalar_node name] ?s"
    let ?r2 = "update_value ''autostart_presets'' (\<lambda>_. ?s1) ?r1"
    let ?root1 = "update_value ''router'' (\<lambda>_. ?r2) (append_pair ''router'' ?m root)"
    have m: "mapping_value ?m k = None" for k by (simp add: mapping_value_def)
    have em: "even_mapping ?m" by (simp add: even_mapping_def)
    have doc': "changed" "doc' = set_root ?root1 doc"
      using assms(2) r None by (auto simp: set_autostart_preset_def find_or_create_router_def Let_def
          find_or_create_autostart_def m append_name_if_absent_def)
    have e: "autostart_names doc = []" using r None by (simp add: autostart_names_def doc_at_def seq_values_def)
    have rt': "mapping_value ?root1 ''router'' = Some ?r2" using r None by simp
    have f: "frame_at [''router'', ''autostart_presets''] root ?root1"
      by (rule frame_at_two [OF _ rt']) (use r None m em in auto)
    have "doc_at [''router'', ''autostart_presets''] doc' = Some ?s1"
      unfolding doc'(2) using r None m em by (simp add: doc_at_set_root)
    then have "autostart_names doc' = [name]" by (simp add: autostart_names_def seq_values_def)
    with e doc' doc_frameI [OF r(1) _ f] r show ?thesis by simp
  next
    case (Some router)
    note rr = rt [OF Some]
    show ?thesis
    proof (cases "mapping_value router ''autostart_presets''")
      case None
      let ?s = "YNode SequenceNode ''!!seq'' [] [] []"
      let ?s1 = "set_content [scalar_node name] ?s"
      let ?r2 = "update_value ''autostart_presets'' (\<lambda>_. ?s1) (append_pair ''autostart_presets'' ?s router)"
      let ?root1 = "update_value ''router'' (\<lambda>_. ?r2) root"
      have doc': "changed" "doc' = set_root ?root1 doc"
        using assms(2) r Some None rr by (auto simp: set_autostart_preset_def find_or_create_router_def
            find_or_create_autostart_def Let_def append_name_if_absent_def)
      have e: "autostart_names doc = []"
        using r Some None by (simp add: autostart_names_def doc_at_def seq_values_def)
      have rt': "mapping_value ?root1 ''router'' = Some ?r2" using Some by simp
      have f: "frame_at [''router'', ''autostart_presets''] root ?root1"
        by (rule frame_at_two [OF _ rt']) (use r Some None rr in \<open>auto intro!: frame_at_one\<close>)
      have "doc_at [''router'', ''autostart_presets''] doc' = Some ?s1"
        unfolding doc'(2) using r Some None rr by (simp add: doc_at_set_root)
      then have "autostart_names doc' = [name]" by (simp add: autostart_names_def seq_values_def)
      with e doc' doc_frameI [OF r(1) _ f] r show ?thesis by simp
    next
      case s: (Some s)
      note k = sq [OF Some s]
      let ?s1 = "snd (append_name_if_absent name s)"
      let ?r2 = "update_value ''autostart_presets'' (\<lambda>_. ?s1) router"
      let ?root1 = "update_value ''router'' (\<lambda>_. ?r2) root"
      have doc': "changed = fst (append_name_if_absent name s)" "doc' = set_root ?root1 doc"
        using assms(2) r Some s rr by (auto simp: set_autostart_preset_def find_or_create_router_def
            find_or_create_autostart_def Let_def split: prod.splits)
      have e: "autostart_names doc = map y_value (y_content s)"
        using r Some s k by (simp add: autostart_names_def doc_at_def seq_values_def)
      have rt': "mapping_value ?root1 ''router'' = Some ?r2" using Some by simp
      have f: "frame_at [''router'', ''autostart_presets''] root ?root1"
        by (rule frame_at_two [OF _ rt']) (use r Some rr in \<open>auto intro!: frame_at_one\<close>)
      have "doc_at [''router'', ''autostart_presets''] doc' = Some ?s1"
        unfolding doc'(2) using r Some s by (simp add: doc_at_set_root)
      then have "autostart_names doc' = seq_values (Some ?s1)" by (simp add: autostart_names_def)
      with e doc' doc_frameI [OF r(1) _ f] r k show ?thesis
        by (auto simp: append_name_if_absent_def seq_values_def)
    qed
  qed
  then show "changed = (name \<notin> set (autostart_names doc))"
    "autostart_names doc' = (if changed then autostart_names doc @ [name] else autostart_names doc)"
    "doc_frame [''router'', ''autostart_presets''] doc doc'" by blast+
qed

lemma remove_autostart_router:
  assumes "remove_autostart match router = (c, router')"
    and "\<And>s. mapping_value router ''autostart_presets'' = Some s \<Longrightarrow> y_kind s = SequenceNode"
  shows "seq_values (mapping_value router' ''autostart_presets'') =
      filter (\<lambda>v. \<not> match v) (seq_values (mapping_value router ''autostart_presets''))"
    "c = (\<exists>v \<in> set (seq_values (mapping_value router ''autostart_presets'')). match v)"
    "\<And>k. k \<noteq> ''autostart_presets'' \<Longrightarrow> mapping_value router' k = mapping_value router k"
proof -
  show "\<And>k. k \<noteq> ''autostart_presets'' \<Longrightarrow> mapping_value router' k = mapping_value router k"
    using assms by (auto simp: remove_autostart_def split: option.splits)
  have "seq_values (mapping_value router' ''autostart_presets'') =
      filter (\<lambda>v. \<not> match v) (seq_values (mapping_value router ''autostart_presets'')) \<and>
    c = (\<exists>v \<in> set (seq_values (mapping_value router ''autostart_presets'')). match v)"
    using assms remove_seq_items_values [of _ match]
    by (cases "mapping_value router ''autostart_presets''"; cases "remove_seq_items match (the (mapping_value router ''autostart_presets''))")
      (auto simp: remove_autostart_def seq_values_def)
  then show "seq_values (mapping_value router' ''autostart_presets'') =
      filter (\<lambda>v. \<not> match v) (seq_values (mapping_value router ''autostart_presets''))"
    "c = (\<exists>v \<in> set (seq_values (mapping_value router ''autostart_presets'')). match v)" by blast+
qed

lemma autostart_names_router:
  "document_root doc = Some root \<Longrightarrow> mapping_value root ''router'' = Some router \<Longrightarrow>
   autostart_names doc = seq_values (mapping_value router ''autostart_presets'')"
  by (simp add: autostart_names_def doc_at_def split: option.splits)

lemma autostart_names_set:
  "document_root doc = Some root \<Longrightarrow> y_kind r = MappingNode \<Longrightarrow> mapping_value r ''router'' = Some router \<Longrightarrow>
   autostart_names (set_root r doc) = seq_values (mapping_value router ''autostart_presets'')"
  by (simp add: autostart_names_def doc_at_set_root split: option.splits)

lemma autostart_names_none:
  "document_root doc = Some root \<Longrightarrow> mapping_value root ''router'' = None \<Longrightarrow> autostart_names doc = []"
  by (simp add: autostart_names_def doc_at_def seq_values_def)

lemma set_autostart_disabled:
  assumes "editable doc" "set_autostart_preset name False doc = (changed, doc')"
  shows "changed = (name \<in> set (autostart_names doc))"
    "autostart_names doc' = filter (\<lambda>v. v \<noteq> name) (autostart_names doc)"
    "doc_frame [''router'', ''autostart_presets''] doc doc'"
proof -
  from assms(1) obtain root where r: "document_root doc = Some root" "even_mapping root" "y_kind root = MappingNode"
    and rt: "\<And>router. mapping_value root ''router'' = Some router \<Longrightarrow> even_mapping router \<and> y_kind router = MappingNode"
    and sq: "\<And>router s. mapping_value root ''router'' = Some router \<Longrightarrow>
       mapping_value router ''autostart_presets'' = Some s \<Longrightarrow> y_kind s = SequenceNode"
    by (rule editableE) (rule that, simp_all)
  have "changed = (name \<in> set (autostart_names doc)) \<and>
    autostart_names doc' = filter (\<lambda>v. v \<noteq> name) (autostart_names doc) \<and>
    doc_frame [''router'', ''autostart_presets''] doc doc'"
  proof (cases "mapping_value root ''router''")
    case None
    with r assms(2) have "changed = False" "doc' = set_root root doc"
      by (auto simp: set_autostart_preset_def find_or_create_router_def)
    with None r doc_frameI [OF r(1) _ frame_at_refl] show ?thesis
      by (simp add: autostart_names_none)
  next
    case (Some router)
    note rr = rt [OF Some]
    obtain c router' where rm: "remove_autostart (\<lambda>v. v = name) router = (c, router')" by force
    let ?root1 = "update_value ''router'' (\<lambda>_. router') root"
    from assms(2) r Some rr rm have doc': "changed = c" "doc' = set_root ?root1 doc"
      by (auto simp: set_autostart_preset_def find_or_create_router_def)
    note f = remove_autostart_router [OF rm sq [OF Some]]
    have rt': "mapping_value ?root1 ''router'' = Some router'" using Some by simp
    have "frame_at [''router'', ''autostart_presets''] root ?root1"
      by (rule frame_at_two [OF _ rt']) (use Some f(3) in \<open>auto intro!: frame_at_one\<close>)
    from doc_frameI [OF r(1) _ this] f(1,2) autostart_names_router [OF r(1) Some]
      autostart_names_set [OF r(1) _ rt'] doc' r show ?thesis by simp
  qed
  then show "changed = (name \<in> set (autostart_names doc))"
    "autostart_names doc' = filter (\<lambda>v. v \<noteq> name) (autostart_names doc)"
    "doc_frame [''router'', ''autostart_presets''] doc doc'" by blast+
qed

lemma default_preset_router:
  "document_root doc = Some root \<Longrightarrow> mapping_value root ''router'' = Some router \<Longrightarrow>
   default_preset_name doc = map_option y_value (mapping_value router ''default_preset'')"
  by (simp add: default_preset_name_def doc_at_def split: option.splits)

lemma remove_references:
  assumes "editable doc" "remove_preset_reference_nodes remove doc = (changed, doc')"
  shows "autostart_names doc' = filter (\<lambda>v. v \<notin> set remove) (autostart_names doc)"
    "default_preset_name doc' =
       (case default_preset_name doc of Some n \<Rightarrow> Some (if n \<in> set remove then [] else n) | None \<Rightarrow> None)"
    "changed = ((\<exists>v \<in> set (autostart_names doc). v \<in> set remove) \<or>
       (\<exists>n \<in> set remove. default_preset_name doc = Some n))"
    "\<And>k p. k \<noteq> ''router'' \<Longrightarrow> doc_at (k # p) doc' = doc_at (k # p) doc"
    "\<And>k p. k \<noteq> ''default_preset'' \<Longrightarrow> k \<noteq> ''autostart_presets'' \<Longrightarrow>
       doc_at (''router'' # k # p) doc' = doc_at (''router'' # k # p) doc"
proof -
  from assms(1) obtain root where r: "document_root doc = Some root" "even_mapping root" "y_kind root = MappingNode"
    and sq: "\<And>router s. mapping_value root ''router'' = Some router \<Longrightarrow>
       mapping_value router ''autostart_presets'' = Some s \<Longrightarrow> y_kind s = SequenceNode"
    by (rule editableE) (rule that, simp_all)
  let ?names = "autostart_names doc' = filter (\<lambda>v. v \<notin> set remove) (autostart_names doc)"
  let ?dflt = "default_preset_name doc' =
       (case default_preset_name doc of Some n \<Rightarrow> Some (if n \<in> set remove then [] else n) | None \<Rightarrow> None)"
  let ?ch = "changed = ((\<exists>v \<in> set (autostart_names doc). v \<in> set remove) \<or>
       (\<exists>n \<in> set remove. default_preset_name doc = Some n))"
  have all: "?names \<and> ?dflt \<and> ?ch \<and> (\<forall>k p. k \<noteq> ''router'' \<longrightarrow> doc_at (k # p) doc' = doc_at (k # p) doc) \<and>
    (\<forall>k p. k \<noteq> ''default_preset'' \<longrightarrow> k \<noteq> ''autostart_presets'' \<longrightarrow>
       doc_at (''router'' # k # p) doc' = doc_at (''router'' # k # p) doc)"
  proof (cases "mapping_value root ''router''")
    case None
    with r assms(2) have "changed = False" "doc' = doc" by (auto simp: remove_preset_reference_nodes_def)
    moreover have "autostart_names doc = []" using r None by (simp add: autostart_names_none)
    moreover have "default_preset_name doc = None" using r None by (simp add: default_preset_name_def doc_at_def)
    ultimately show ?thesis by simp
  next
    case (Some router)
    define hit where "hit = (\<exists>n \<in> set remove. map_option y_value (mapping_value router ''default_preset'') = Some n)"
    define router1 where "router1 = (if hit then update_value ''default_preset'' (set_y_value []) router else router)"
    obtain c router2 where rm: "remove_autostart (\<lambda>v. v \<in> set remove) router1 = (c, router2)" by force
    let ?root1 = "update_value ''router'' (\<lambda>_. router2) root"
    have doc': "changed = (c \<or> hit)" "doc' = set_root ?root1 doc"
      using assms(2) r Some rm
      by (auto simp: remove_preset_reference_nodes_def hit_def router1_def Let_def split: option.splits if_splits)
    have a1: "mapping_value router1 ''autostart_presets'' = mapping_value router ''autostart_presets''"
      by (simp add: router1_def)
    note f = remove_autostart_router [OF rm, unfolded a1, OF sq [OF Some]]
    have rt': "mapping_value ?root1 ''router'' = Some router2" using Some by simp
    have d2: "map_option y_value (mapping_value router2 ''default_preset'') =
       (case map_option y_value (mapping_value router ''default_preset'') of
          Some n \<Rightarrow> Some (if n \<in> set remove then [] else n) | None \<Rightarrow> None)"
      using f(3) [of "''default_preset''"]
      by (auto simp: router1_def hit_def set_y_value_def split: option.splits)
    have at: "doc_at p doc' = value_at p ?root1" for p unfolding doc'(2) using r by (simp add: doc_at_set_root)
    have at0: "doc_at p doc = value_at p root" for p using r by (simp add: doc_at_def)
    have dp': "default_preset_name doc' = map_option y_value (mapping_value router2 ''default_preset'')"
      unfolding default_preset_name_def at using rt' by (simp split: option.splits)
    have n1: ?names
      using f(1) autostart_names_router [OF r(1) Some] autostart_names_set [OF r(1) _ rt'] r doc'(2) by simp
    have n2: ?dflt using d2 dp' default_preset_router [OF r(1) Some] by simp
    have n3: ?ch
      using f(2) autostart_names_router [OF r(1) Some] default_preset_router [OF r(1) Some]
      by (simp add: doc'(1) hit_def)
    have n4: "\<forall>k p. k \<noteq> ''router'' \<longrightarrow> doc_at (k # p) doc' = doc_at (k # p) doc"
      unfolding at at0 by simp
    have n5: "\<forall>k p. k \<noteq> ''default_preset'' \<longrightarrow> k \<noteq> ''autostart_presets'' \<longrightarrow>
        doc_at (''router'' # k # p) doc' = doc_at (''router'' # k # p) doc"
      unfolding at at0 using Some f(3) by (auto simp: router1_def)
    show ?thesis by (intro conjI n1 n2 n3 n4 n5)
  qed
  from all show ?names ?dflt ?ch
    "\<And>k p. k \<noteq> ''router'' \<Longrightarrow> doc_at (k # p) doc' = doc_at (k # p) doc"
    "\<And>k p. k \<noteq> ''default_preset'' \<Longrightarrow> k \<noteq> ''autostart_presets'' \<Longrightarrow>
       doc_at (''router'' # k # p) doc' = doc_at (''router'' # k # p) doc" by blast+
qed

text \<open>When \<^verbatim>\<open>SetRouterExecutable\<close> dereferences nil: a \<^verbatim>\<open>router\<close> key whose value is not a mapping.\<close>

lemma set_executable_panics:
  "set_router_executable_node exe replace doc = None \<longleftrightarrow>
     (\<exists>root router. document_root doc = Some root \<and> mapping_value root ''router'' = Some router \<and>
        y_kind router \<noteq> MappingNode)"
  by (auto simp: set_router_executable_node_def find_or_create_router_def Let_def split: option.splits)

end
