(* ===== verification/ConfigStore.thy ===== *)
theory ConfigStore
  imports FileDocProps YamlFacts
begin

section \<open>The configuration file (\<^verbatim>\<open>core/configstore/config_store.go\<close>)\<close>

text \<open>
  \<open>FileStore\<close>: reading and validating \<^verbatim>\<open>config.yaml\<close>, and the mutations that parse the document, edit
  the node tree, validate the new text and replace the file with a backup. The YAML library is the
  record \<open>yaml_lib\<close>: strict decoding into the struct, parsing into a node tree, encoding, closing.
\<close>

record yaml_lib =
  yl_decode :: "config \<Rightarrow> string \<Rightarrow> gerror + config"
  yl_parse :: "string \<Rightarrow> gerror + ynode"
  yl_encode :: "ynode \<Rightarrow> gerror + string"
  yl_close :: "ynode \<Rightarrow> gerror option"

record config_file =
  cf_path :: string
  cf_limit :: nat

definition default_limit_bytes :: nat where "default_limit_bytes = 2 * 1048576"

definition new_file_store :: "string \<Rightarrow> nat \<Rightarrow> config_file" where
  "new_file_store path limit =
     \<lparr>cf_path = clean path, cf_limit = (if limit = 0 then default_limit_bytes else limit)\<rparr>"

definition malformed :: "gerror \<Rightarrow> gerror" where
  "malformed err = Wrap [TextOf (Sentinel ConfigMalformed), Lit '': '', TextOf err] [Sentinel ConfigMalformed, err]"

definition config_validate :: "yaml_lib \<Rightarrow> config_file \<Rightarrow> string \<Rightarrow> gerror option" where
  "config_validate yl s content =
     (if trim_space content = [] then Some (Sentinel ConfigEmpty)
      else if length content > cf_limit s then Some (Sentinel ConfigTooLarge)
      else (case parse_config (yl_decode yl) content of
              Inl err \<Rightarrow> Some (malformed err)
            | Inr _ \<Rightarrow> None))"

fun node_size :: "node \<Rightarrow> nat" where
  "node_size (RegFile d m) = length d"
| "node_size (DirNode m) = 0"
| "node_size (LinkNode t) = length t"

definition stat_config_err :: "gerror \<Rightarrow> gerror" where
  "stat_config_err err =
     (if errors_is err OsNotExist then Wrap [Lit ''config.yaml not found: '', TextOf err] [err]
      else Wrap [Lit ''stat config.yaml: '', TextOf err] [err])"

definition read_parsed :: "yaml_lib \<Rightarrow> config_file \<Rightarrow> ('z, string \<times> config) io" where
  "read_parsed yl s =
     bindE (mapErrE stat_config_err (os_stat (cf_path s))) (\<lambda>info.
       if node_size info > cf_limit s then failE (Sentinel ConfigTooLarge)
       else bindE (mapErrE (wrap_err ''read config.yaml'') (os_read_file (cf_path s))) (\<lambda>data.
         case parse_config (yl_decode yl) data of
           Inl err \<Rightarrow> failE (malformed err)
         | Inr parsed \<Rightarrow> retE (data, parsed)))"

definition config_read :: "yaml_lib \<Rightarrow> config_file \<Rightarrow> ('z, config) io" where
  "config_read yl s = bindE (read_parsed yl s) (\<lambda>(_, parsed). retE parsed)"

definition normalize :: "string \<Rightarrow> string" where
  "normalize content = trim_right_set content [CHR 0x0A] @ [CHR 0x0A]"

definition replace_locked :: "config_file \<Rightarrow> string \<Rightarrow> ('z, write_result) io" where
  "replace_locked s content =
     bindE (mapErrE stat_config_err (os_stat (cf_path s))) (\<lambda>_.
       mapErrE (wrap_err ''replace config.yaml'')
         (write_file (cf_path s) content \<lparr>wo_perm = 0, wo_backup = True, wo_normalize = Some normalize\<rparr>))"

text \<open>A nil dereference in an edit is a panic: the lock is released and no later statement runs.\<close>

definition nil_dereference :: gerror where
  "nil_dereference = Plain [Lit ''runtime error: invalid memory address or nil pointer dereference'']"

definition encode_checked :: "yaml_lib \<Rightarrow> ynode \<Rightarrow> gerror + string" where
  "encode_checked yl doc =
     (case yl_encode yl doc of
        Inl err \<Rightarrow> Inl (wrap_err ''encode config YAML document'' err)
      | Inr out \<Rightarrow> (case yl_close yl doc of Some err \<Rightarrow> Inl err | None \<Rightarrow> Inr out))"

definition mutate_document ::
  "yaml_lib \<Rightarrow> config_file \<Rightarrow> gerror option \<Rightarrow> (ynode \<Rightarrow> (bool \<times> ynode) option) \<Rightarrow> ('z, write_result) io" where
  "mutate_document yl s ctx mutate =
     (case ctx of
        Some err \<Rightarrow> failE err
      | None \<Rightarrow>
          bindE (read_parsed yl s) (\<lambda>(data, _).
            case yl_parse yl data of
              Inl err \<Rightarrow> failE (wrap_err ''parse config YAML document'' err)
            | Inr doc \<Rightarrow>
                (case mutate doc of
                   None \<Rightarrow> failE nil_dereference
                 | Some (False, _) \<Rightarrow> retE zero_write_result
                 | Some (True, doc') \<Rightarrow>
                     (case encode_checked yl doc' of
                        Inl err \<Rightarrow> failE err
                      | Inr out \<Rightarrow>
                          (case config_validate yl s out of
                             Some err \<Rightarrow> failE err
                           | None \<Rightarrow> replace_locked s out)))))"

definition remove_router_preset_references ::
  "yaml_lib \<Rightarrow> config_file \<Rightarrow> gerror option \<Rightarrow> string list \<Rightarrow> ('z, unit) io" where
  "remove_router_preset_references yl s ctx names =
     bindE (mutate_document yl s ctx (\<lambda>doc. Some (remove_preset_reference_nodes names doc))) (\<lambda>_. retE ())"

definition set_router_autostart_preset ::
  "yaml_lib \<Rightarrow> config_file \<Rightarrow> gerror option \<Rightarrow> string \<Rightarrow> bool \<Rightarrow> ('z, write_result) io" where
  "set_router_autostart_preset yl s ctx name enabled =
     mutate_document yl s ctx (\<lambda>doc. Some (set_autostart_preset name enabled doc))"

definition set_startup_services ::
  "yaml_lib \<Rightarrow> config_file \<Rightarrow> gerror option \<Rightarrow> string list \<Rightarrow> ('z, write_result) io" where
  "set_startup_services yl s ctx services =
     mutate_document yl s ctx (\<lambda>doc. Some (set_startup_services_node services doc))"

definition set_router_executable ::
  "yaml_lib \<Rightarrow> config_file \<Rightarrow> gerror option \<Rightarrow> string \<Rightarrow> string \<Rightarrow> ('z, write_result) io" where
  "set_router_executable yl s ctx exe replace =
     mutate_document yl s ctx (set_router_executable_node exe replace)"

subsection \<open>What a mutation leaves in the file\<close>

text \<open>The text of the configuration file, when it is a regular file.\<close>

definition config_text :: "config_file \<Rightarrow> (string \<Rightarrow> node option) \<Rightarrow> string option" where
  "config_text s fs = (case fs (cf_path s) of Some (RegFile d m) \<Rightarrow> Some d | _ \<Rightarrow> None)"

lemma stat_node_regular: "fs p = Some (RegFile d m) \<Longrightarrow> stat_node fs p = Inr (RegFile d m)"
  by (simp add: stat_node_def eval_nat_numeral)

lemma os_stat_state: "os_stat p w = (r, w') \<Longrightarrow> w' = w\<lparr>os_tick := Suc (os_tick w)\<rparr>"
  by (auto simp: os_stat_def os_call_def Let_def split: option.splits)

lemma os_read_state: "os_read_file p w = (r, w') \<Longrightarrow> w' = w\<lparr>os_tick := Suc (os_tick w)\<rparr>"
  by (auto simp: os_read_file_def os_call_def Let_def split: option.splits)

lemma read_parsed_files: "read_parsed yl s w = (r, w') \<Longrightarrow> os_files w' = os_files w \<and> os_trace w' = os_trace w"
  by (auto simp: read_parsed_def bindE_def mapErrE_def split: prod.splits sum.splits if_splits
      dest!: os_stat_state os_read_state)

lemma read_parsed_Inr:
  assumes "read_parsed yl s w = (Inr (data, parsed), w')" "config_text s (os_files w) = Some t"
  shows "data = t \<and> parse_config (yl_decode yl) t = Inr parsed \<and> length t \<le> cf_limit s"
proof -
  from assms(2) obtain m where f: "os_files w (cf_path s) = Some (RegFile t m)"
    by (auto simp: config_text_def split: option.splits node.splits)
  from assms(1) obtain info w1 w2 where st: "os_stat (cf_path s) w = (Inr info, w1)"
    and sz: "\<not> node_size info > cf_limit s" and rd: "os_read_file (cf_path s) w1 = (Inr data, w2)"
    and p: "parse_config (yl_decode yl) data = Inr parsed"
    by (auto simp: read_parsed_def mapErrE_Inr elim!: bindE_InrE split: if_splits sum.splits)
  from os_stat_file [OF st f] have i: "info = RegFile t m" "os_files w1 = os_files w" by auto
  from os_read_regular [OF rd] f i(2) have "data = t" by auto
  with p sz i show ?thesis by simp
qed

lemma write_backup_stays:
  assumes "write_backup path w = (r, w')" and fresh: "\<And>s. os_files w (backup_name path s) = None"
  shows "stays path (os_files w path) (os_trace w) w'"
proof -
  let ?I = "stays path (os_files w path) (os_trace w)"
  let ?J = "\<lambda>w'. ?I w' \<and> (\<forall>s. os_files w' (backup_name path s) = None)"
  have neq: "backup_name path s \<noteq> path" for s by simp
  have v: "valid ?J (write_backup path) (\<lambda>_. ?I) (\<lambda>_. ?I)"
    unfolding write_backup_def Let_def
    apply (rule valid_bind [where R = "\<lambda>_. ?J"])
     apply (rule valid_weaken [where P = ?J and Q = "\<lambda>_. ?J" and E = "\<lambda>_. ?J"])
        apply (simp add: os_stat_def, rule valid_quiet_call; simp)
       apply auto [3]
    apply (rule valid_bind [where R = "\<lambda>_. ?J"], rule valid_mapErr)
     apply (rule valid_weaken [where P = ?J and Q = "\<lambda>_. ?J" and E = "\<lambda>_. ?J"])
        apply (simp add: os_read_file_def, rule valid_quiet_call; simp)
       apply auto [3]
    apply (rule valid_bind [where R = "\<lambda>_. ?J"])
     apply (simp add: valid_def timestamp_suffix_def)
    apply (rule valid_bind [where R = "\<lambda>_. ?I"], rule valid_mapErr)
     apply (rule valid_weaken [OF valid_stays_write_file [OF neq]]; simp)
    apply (rule valid_bind [where R = "\<lambda>_. ?I"], rule valid_mapErr)
     apply (rule valid_sync_file, simp)
    apply (rule valid_ret, simp)
    done
  have J: "?J w" using fresh by (simp add: stays_def)
  show ?thesis
  proof (cases r)
    case (Inl e)
    show ?thesis by (rule validD_Inl [OF v J assms(1) [unfolded Inl]])
  next
    case (Inr x)
    show ?thesis by (rule validD_Inr [OF v J assms(1) [unfolded Inr]])
  qed
qed

lemma mapErrE_cases:
  assumes "mapErrE f m w = (r, w')"
  obtains e where "m w = (Inl e, w')" "r = Inl (f e)" | x where "m w = (Inr x, w')" "r = Inr x"
  using assms by (auto simp: mapErrE_def split: prod.splits sum.splits)

lemma bindE_cases:
  assumes "bindE m k w = (r, w')"
  obtains e where "m w = (Inl e, w')" "r = Inl e" | x w1 where "m w = (Inr x, w1)" "k x w1 = (r, w')"
  using assms by (auto simp: bindE_def split: prod.splits sum.splits)

lemma write_with_backup_outcome:
  assumes "write_file path content \<lparr>wo_perm = 0, wo_backup = True, wo_normalize = Some f\<rparr> w = (r, w')"
    and old: "os_files w path = Some (RegFile d m)" and fresh: "\<And>s. os_files w (backup_name path s) = None"
  shows "\<forall>u \<in> on_the_way w w'. u path = Some (RegFile d m) \<or> u path = Some (RegFile (f content) m)"
proof -
  from assms(1) have run: "bindE (write_backup path) (\<lambda>(bp, pm). write_replacement path (f content) pm bp) w = (r, w')"
    by (simp add: write_file_def write_file_data_def Let_def)
  from run show ?thesis
  proof (cases rule: bindE_cases)
    case (1 e)
    from write_backup_stays [OF 1(1) fresh] show ?thesis
      by (auto simp: stays_def old on_the_way_trace)
  next
    case (2 x w1)
    obtain bp pm where x: "x = (bp, pm)" by force
    from write_backup_stays [OF 2(1) fresh] obtain ts where st: "os_files w1 path = Some (RegFile d m)"
      "os_trace w1 = os_trace w @ ts" "\<forall>t \<in> set ts. t path = Some (RegFile d m)" by (auto simp: stays_def old)
    from write_backup_Inr [OF 2(1) [unfolded x] old fresh] have pm: "pm = m" by simp
    from 2(2) have wr: "write_replacement path (f content) m bp w1 = (r, w')" by (simp add: x pm)
    from write_replacement_outcome [OF wr]
    consider "os_files w' = os_files w1" "os_trace w' = os_trace w1"
      | us where "os_trace w' = os_trace w1 @ us" "\<forall>t \<in> set (os_files w' # us).
          t path = os_files w1 path \<or> t path = Some (RegFile (f content) m)"
      by (auto simp: shows_old_or_new_def)
    then show ?thesis
    proof cases
      case 1
      with st show ?thesis by (auto simp: on_the_way_def)
    next
      case 2
      with st show ?thesis by (auto simp: on_the_way_trace [of w' w "ts @ us"])
    qed
  qed
qed

text \<open>The text a mutation may write: that of the edited document, encoded, validated, normalized.\<close>

definition mutation_result :: "yaml_lib \<Rightarrow> config_file \<Rightarrow> (ynode \<Rightarrow> (bool \<times> ynode) option) \<Rightarrow> string \<Rightarrow> string \<Rightarrow> bool" where
  "mutation_result yl s mutate t t' \<longleftrightarrow>
     (\<exists>doc doc' out. yl_parse yl t = Inr doc \<and> mutate doc = Some (True, doc') \<and>
        encode_checked yl doc' = Inr out \<and> config_validate yl s out = None \<and> t' = normalize out)"

lemma mutate_document_cases:
  assumes "mutate_document yl s ctx mutate w = (r, w')" "config_text s (os_files w) = Some t"
  obtains (early) "os_files w' = os_files w" "os_trace w' = os_trace w"
      "\<And>res. r = Inr res \<Longrightarrow> res = zero_write_result \<and>
         (\<exists>doc doc'. yl_parse yl t = Inr doc \<and> mutate doc = Some (False, doc'))"
  | (writes) out w1 where "mutation_result yl s mutate t (normalize out)"
      "os_files w1 = os_files w" "os_trace w1 = os_trace w" "replace_locked s out w1 = (r, w')"
proof (cases ctx)
  case (Some err)
  with assms early show ?thesis by (auto simp: mutate_document_def)
next
  case None
  obtain r1 w1 where rd: "read_parsed yl s w = (r1, w1)" by force
  from read_parsed_files [OF rd] have w1: "os_files w1 = os_files w" "os_trace w1 = os_trace w" by auto
  show ?thesis
  proof (cases r1)
    case (Inl e)
    with assms(1) None rd early w1 show ?thesis by (auto simp: mutate_document_def bindE_def)
  next
    case (Inr dp)
    obtain data parsed where dp: "dp = (data, parsed)" by force
    from read_parsed_Inr [OF _ assms(2), of yl data parsed w1] rd Inr dp have d: "data = t" by simp
    have run: "(case yl_parse yl t of
              Inl err \<Rightarrow> failE (wrap_err ''parse config YAML document'' err)
            | Inr doc \<Rightarrow>
                (case mutate doc of
                   None \<Rightarrow> failE nil_dereference
                 | Some (False, _) \<Rightarrow> retE zero_write_result
                 | Some (True, doc') \<Rightarrow>
                     (case encode_checked yl doc' of
                        Inl err \<Rightarrow> failE err
                      | Inr out \<Rightarrow>
                          (case config_validate yl s out of
                             Some err \<Rightarrow> failE err
                           | None \<Rightarrow> replace_locked s out)))) w1 = (r, w')"
      using assms(1) None rd Inr dp d by (simp add: mutate_document_def bindE_def)
    show ?thesis
    proof (cases "\<exists>out. mutation_result yl s mutate t (normalize out) \<and> replace_locked s out w1 = (r, w')")
      case True
      with writes w1 show ?thesis by blast
    next
      case False
      show ?thesis
        by (rule early) (use run w1 False in \<open>auto simp: mutation_result_def split: sum.splits option.splits prod.splits bool.splits\<close>)
    qed
  qed
qed

text \<open>C7: A mutation of \<^verbatim>\<open>config.yaml\<close>, whatever edit it makes and whatever system calls fail: at every moment
  the file holds its old text, or the text of the edited document after this was validated. So a
  configuration that does not validate, or half a file, is never in place.\<close>

theorem config_never_broken:
  assumes "config_text s (os_files w) = Some t" "\<And>x. os_files w (backup_name (cf_path s) x) = None"
    and "mutate_document yl s ctx mutate w = (r, w')"
  shows "\<forall>u \<in> on_the_way w w'. config_text s u = Some t \<or>
    (\<exists>t'. mutation_result yl s mutate t t' \<and> config_text s u = Some t')"
  using assms(3,1)
proof (cases rule: mutate_document_cases)
  case early
  then show ?thesis using assms(1) by (auto simp: on_the_way_def)
next
  case (writes out w1)
  from assms(1) obtain m where f: "os_files w (cf_path s) = Some (RegFile t m)"
    by (auto simp: config_text_def split: option.splits node.splits)
  from writes(4) show ?thesis unfolding replace_locked_def
  proof (cases rule: bindE_cases)
    case (1 e)
    then have "os_files w' = os_files w1" "os_trace w' = os_trace w1"
      by (auto elim!: mapErrE_cases dest!: os_stat_state)
    with writes assms(1) show ?thesis by (auto simp: on_the_way_def)
  next
    case (2 x w2)
    then have w2: "os_files w2 = os_files w" "os_trace w2 = os_trace w"
      using writes by (auto elim!: mapErrE_cases dest!: os_stat_state)
    from 2(2) obtain r0 where wf: "write_file (cf_path s) out
        \<lparr>wo_perm = 0, wo_backup = True, wo_normalize = Some normalize\<rparr> w2 = (r0, w')"
      by (auto elim!: mapErrE_cases)
    from write_with_backup_outcome [OF wf, of t m] f assms(2)
    have "\<forall>u \<in> on_the_way w w'. u (cf_path s) = Some (RegFile t m) \<or> u (cf_path s) = Some (RegFile (normalize out) m)"
      by (simp add: w2 on_the_way_def)
    with writes(1) show ?thesis by (fastforce simp: config_text_def)
  qed
qed

end
