(* ===== verification/ConfigProps.thy ===== *)
theory ConfigProps
  imports ConfigStore
begin

section \<open>Properties of the configuration file\<close>

text \<open>
  What the four mutations do to the document and to the file, the failure when the autostart limit is
  exceeded, and the panic of \<^verbatim>\<open>SetRouterExecutable\<close>. The YAML library is any: its functions occur as
  they are called.
\<close>

lemma mutation_success:
  assumes "config_text s (os_files w) = Some t" "\<And>x. os_files w (backup_name (cf_path s) x) = None"
    and "mutate_document yl s ctx mutate w = (Inr res, w')"
  obtains (same) doc doc' where "yl_parse yl t = Inr doc" "mutate doc = Some (False, doc')"
      "res = zero_write_result" "os_files w' = os_files w"
  | (changed) doc doc' out where "yl_parse yl t = Inr doc" "mutate doc = Some (True, doc')"
      "encode_checked yl doc' = Inr out" "config_validate yl s out = None"
      "config_text s (os_files w') = Some (normalize out)"
      "config_text (s\<lparr>cf_path := wr_backup_path res\<rparr>) (os_files w') = Some t"
  using assms(3,1)
proof (cases rule: mutate_document_cases)
  case early
  then show ?thesis using same by auto
next
  case (writes out w1)
  from assms(1) obtain m where f: "os_files w (cf_path s) = Some (RegFile t m)"
    by (auto simp: config_text_def split: option.splits node.splits)
  from writes(4) obtain x w2 where st: "os_stat (cf_path s) w1 = (Inr x, w2)" and wf: "write_file (cf_path s) out
        \<lparr>wo_perm = 0, wo_backup = True, wo_normalize = Some normalize\<rparr> w2 = (Inr res, w')"
    by (auto simp: replace_locked_def mapErrE_Inr elim!: bindE_InrE)
  from os_stat_state [OF st] writes have w2: "os_files w2 = os_files w" by simp
  from write_file_backup [OF wf, of t m] f assms(2) w2
  have "os_files w' (cf_path s) = Some (RegFile (normalize out) m)" "os_files w' (wr_backup_path res) = Some (RegFile t m)"
    by auto
  with writes(1) show ?thesis by (auto simp: mutation_result_def config_text_def intro: changed)
qed


definition demo_router :: "string list \<Rightarrow> ynode" where
  "demo_router names = YNode MappingNode ''!!map'' [] []
     [scalar_node ''host'', scalar_node ''::1'', scalar_node ''autostart_presets'',
      YNode SequenceNode ''!!seq'' [] [] (map scalar_node names)]"

definition demo_doc :: "string list \<Rightarrow> ynode" where
  "demo_doc names = YNode DocumentNode [] [] []
     [YNode MappingNode ''!!map'' [] [] [scalar_node ''router'', demo_router names]]"

text \<open>A YAML library for one document; the encoded text lists the names.\<close>

definition demo_yaml :: "ynode \<Rightarrow> yaml_lib" where
  "demo_yaml doc =
     \<lparr>yl_decode = (\<lambda>c t. Inr c), yl_parse = (\<lambda>t. Inr doc),
      yl_encode = (\<lambda>d. Inr (concat (''router:'' # autostart_names d))), yl_close = (\<lambda>d. None)\<rparr>"

definition demo_config :: config_file where "demo_config = new_file_store ''/d/f'' 100"


text \<open>\<^verbatim>\<open>RemoveRouterPresetReferences\<close>: after a return without error no removed name is left in the document
  the file holds, neither as the default preset nor among the autostart presets; the other autostart presets keep
  their order, another default stays, and every other key of the document and of the router reads as before.\<close>

theorem remove_references_effect:
  assumes "config_text s (os_files w) = Some t" "\<And>x. os_files w (backup_name (cf_path s) x) = None"
    and "yl_parse yl t = Inr doc" "editable doc"
    and "remove_router_preset_references yl s ctx names w = (Inr (), w')"
  shows "\<exists>doc'.
    (os_files w' = os_files w \<and> doc' = doc \<or>
     (\<exists>out. encode_checked yl doc' = Inr out \<and> config_validate yl s out = None \<and>
        config_text s (os_files w') = Some (normalize out))) \<and>
    autostart_names doc' = filter (\<lambda>v. v \<notin> set names) (autostart_names doc) \<and>
    (\<forall>n. default_preset_name doc' = Some n \<longrightarrow> n \<in> set names \<longrightarrow> n = []) \<and>
    (\<forall>n. default_preset_name doc = Some n \<longrightarrow> n \<notin> set names \<longrightarrow> default_preset_name doc' = Some n) \<and>
    (\<forall>k p. k \<noteq> ''router'' \<longrightarrow> doc_at (k # p) doc' = doc_at (k # p) doc) \<and>
    (\<forall>k p. k \<noteq> ''default_preset'' \<longrightarrow> k \<noteq> ''autostart_presets'' \<longrightarrow>
       doc_at (''router'' # k # p) doc' = doc_at (''router'' # k # p) doc)"
proof -
  from assms(5) obtain res where m: "mutate_document yl s ctx
      (\<lambda>doc. Some (remove_preset_reference_nodes names doc)) w = (Inr res, w')"
    by (auto simp: remove_router_preset_references_def elim!: bindE_InrE)
  from assms(1,2) m show ?thesis
  proof (cases rule: mutation_success)
    case (same d doc')
    with assms(3) have e: "remove_preset_reference_nodes names doc = (False, doc')" by simp
    note f = remove_references(3) [OF assms(4) e]
    from f have "filter (\<lambda>v. v \<notin> set names) (autostart_names doc) = autostart_names doc"
      by (auto simp: filter_id_conv)
    moreover from f have "n \<notin> set names" if "default_preset_name doc = Some n" for n using that by auto
    ultimately show ?thesis using same by (intro exI [of _ doc]) auto
  next
    case (changed d doc' out)
    with assms(3) have e: "remove_preset_reference_nodes names doc = (True, doc')" by simp
    note f = remove_references [OF assms(4) e]
    have "n \<in> set names \<longrightarrow> n = []" if "default_preset_name doc' = Some n" for n
      using that f(2) by (auto split: option.splits if_splits)
    moreover have "default_preset_name doc' = Some n" if "default_preset_name doc = Some n" "n \<notin> set names" for n
      using that f(2) by simp
    ultimately show ?thesis using changed f by (intro exI [of _ doc']) auto
  qed
qed

lemma demo_editable: "editable (demo_doc names)"
  by (simp add: editable_def demo_doc_def demo_router_def document_root_def even_mapping_def mapping_value_def scalar_node_def)

lemma demo_config_path: "cf_path demo_config = ''/d/f''"
  by code_simp

theorem remove_references_effect_witness:
  "let w = one_file (\<lambda>_. None); doc = demo_doc [''a'', ''b'']; yl = demo_yaml doc;
       rw = remove_router_preset_references yl demo_config None [''a''] w in
   \<exists>doc'.
    (os_files (snd rw) = os_files w \<and> doc' = doc \<or>
     (\<exists>out. encode_checked yl doc' = Inr out \<and> config_validate yl demo_config out = None \<and>
        config_text demo_config (os_files (snd rw)) = Some (normalize out))) \<and>
    autostart_names doc' = filter (\<lambda>v. v \<notin> set [''a'']) (autostart_names doc) \<and>
    (\<forall>n. default_preset_name doc' = Some n \<longrightarrow> n \<in> set [''a''] \<longrightarrow> n = []) \<and>
    (\<forall>n. default_preset_name doc = Some n \<longrightarrow> n \<notin> set [''a''] \<longrightarrow> default_preset_name doc' = Some n) \<and>
    (\<forall>k p. k \<noteq> ''router'' \<longrightarrow> doc_at (k # p) doc' = doc_at (k # p) doc) \<and>
    (\<forall>k p. k \<noteq> ''default_preset'' \<longrightarrow> k \<noteq> ''autostart_presets'' \<longrightarrow>
       doc_at (''router'' # k # p) doc' = doc_at (''router'' # k # p) doc)"
proof -
  let ?rw = "remove_router_preset_references (demo_yaml (demo_doc [''a'', ''b''])) demo_config None [''a''] (one_file (\<lambda>_. None))"
  have "fst ?rw = Inr ()" by code_simp
  then have run: "?rw = (Inr (), snd ?rw)" by (simp add: prod_eq_iff)
  show ?thesis unfolding Let_def
    by (rule remove_references_effect [OF _ _ _ demo_editable run])
      (simp_all add: one_file_def config_text_def demo_config_path demo_yaml_def)
qed

text \<open>Where no system call fails and the edited document would list more autostart presets than
  \<^verbatim>\<open>models_max\<close>, \<^verbatim>\<open>SetRouterAutostartPreset\<close> returns an error that is \<^verbatim>\<open>ErrAutostartCapExceeded\<close> (and malformed), and no file changes.\<close>

theorem autostart_cap_keeps_file:
  assumes "\<forall>n. os_fault w n = None" "config_text s (os_files w) = Some t" "length t \<le> cf_limit s"
    and "parse_config (yl_decode yl) t = Inr cfg" "yl_parse yl t = Inr doc"
    and "set_autostart_preset name True doc = (True, doc')" "encode_checked yl doc' = Inr out"
    and "trim_space out \<noteq> []" "length out \<le> cf_limit s"
    and "yl_decode yl default_config out = Inr cfg'" "config_ok cfg"
    and "cfg_router (apply_defaults cfg') = (cfg_router cfg)\<lparr>rc_autostart_presets := names\<rparr>"
    and "rc_models_max (cfg_router cfg) < int (length names)"
  shows "\<exists>e w'. set_router_autostart_preset yl s None name True w = (Inl e, w') \<and>
    errors_is e AutostartCapExceeded \<and> errors_is e ConfigMalformed \<and> os_files w' = os_files w"
proof -
  from assms(2) obtain m where f: "os_files w (cf_path s) = Some (RegFile t m)"
    by (auto simp: config_text_def split: option.splits node.splits)
  note st = stat_node_regular [where fs = "os_files w", OF f]
  let ?w2 = "w\<lparr>os_tick := Suc (Suc (os_tick w))\<rparr>"
  have rd: "read_parsed yl s w = (Inr (t, cfg), ?w2)"
    using assms(1,3,4) by (simp add: read_parsed_def bindE_def mapErrE_def os_stat_def os_read_file_def os_call_def Let_def st)
  from autostart_cap_error_exact [of "cfg_router (apply_defaults cfg')"] assms(11,12,13)
  obtain e where e: "router_validate (cfg_router (apply_defaults cfg')) = Some e" "errors_is e AutostartCapExceeded"
    by (auto simp: config_ok_def)
  with assms(8,9,10) have v: "config_validate yl s out = Some (malformed e)"
    by (simp add: config_validate_def parse_config_def Let_def)
  have "set_router_autostart_preset yl s None name True w = (Inl (malformed e), ?w2)"
    using assms(5,6,7) v by (simp add: set_router_autostart_preset_def mutate_document_def bindE_def rd)
  with e(2) show ?thesis by (simp add: malformed_def)
qed

definition cap_yaml :: yaml_lib where
  "cap_yaml = (demo_yaml (demo_doc [''a'']))\<lparr>
     yl_decode := (\<lambda>c t. Inr (if t = ''new'' then c\<lparr>cfg_router := (cfg_router c)\<lparr>rc_autostart_presets := [''a'', ''b'']\<rparr>\<rparr> else c)),
     yl_encode := (\<lambda>d. Inr ''new'')\<rparr>"

theorem autostart_cap_keeps_file_witness:
  "\<exists>e w'. set_router_autostart_preset cap_yaml demo_config None ''b'' True (one_file (\<lambda>_. None)) = (Inl e, w') \<and>
    errors_is e AutostartCapExceeded \<and> errors_is e ConfigMalformed \<and> os_files w' = os_files (one_file (\<lambda>_. None))"
proof (rule autostart_cap_keeps_file)
  show p: "parse_config (yl_decode cap_yaml) ''old'' = Inr (apply_defaults default_config)" by code_simp
  show "config_ok (apply_defaults default_config)" using parse_config_Inr [OF p] by simp
  show "config_text demo_config (os_files (one_file (\<lambda>_. None))) = Some ''old''"
    by (simp add: config_text_def demo_config_path one_file_def)
  show "yl_parse cap_yaml ''old'' = Inr (demo_doc [''a''])" by (simp add: cap_yaml_def demo_yaml_def)
  show "set_autostart_preset ''b'' True (demo_doc [''a'']) =
      (True, snd (set_autostart_preset ''b'' True (demo_doc [''a''])))" by code_simp
  show "encode_checked cap_yaml (snd (set_autostart_preset ''b'' True (demo_doc [''a'']))) = Inr ''new''"
    by (simp add: encode_checked_def cap_yaml_def demo_yaml_def)
  show "yl_decode cap_yaml default_config ''new'' =
      Inr (default_config\<lparr>cfg_router := (cfg_router default_config)\<lparr>rc_autostart_presets := [''a'', ''b'']\<rparr>\<rparr>)"
    by (simp add: cap_yaml_def)
  show "trim_space ''new'' \<noteq> []" by code_simp
  show "length ''new'' \<le> cf_limit demo_config" "length ''old'' \<le> cf_limit demo_config"
    by (simp_all add: demo_config_def new_file_store_def)
  show "cfg_router (apply_defaults (default_config\<lparr>cfg_router := (cfg_router default_config)\<lparr>rc_autostart_presets := [''a'', ''b'']\<rparr>\<rparr>)) =
      (cfg_router (apply_defaults default_config))\<lparr>rc_autostart_presets := [''a'', ''b'']\<rparr>"
    by (simp add: apply_defaults_def apply_router_defaults_def)
  show "rc_models_max (cfg_router (apply_defaults default_config)) < int (length [''a'', ''b''])"
    by (simp add: apply_defaults_def apply_router_defaults_def default_config_def or_int_def)
qed (simp add: one_file_def)

text \<open>\<^verbatim>\<open>SetRouterExecutable\<close> dereferences nil on a configuration that reads without error but whose \<^verbatim>\<open>router\<close>
  key is not a mapping (an empty value, an alias): there \<^verbatim>\<open>findOrCreateRouterNode\<close> returns nil and the node is used without a check.\<close>

theorem set_executable_nil_dereference:
  assumes "\<forall>n. os_fault w n = None" "config_text s (os_files w) = Some t" "length t \<le> cf_limit s"
    and "parse_config (yl_decode yl) t = Inr cfg" "yl_parse yl t = Inr doc"
    and "document_root doc = Some root" "mapping_value root ''router'' = Some router" "y_kind router \<noteq> MappingNode"
  shows "\<exists>w'. set_router_executable yl s None exe replace w = (Inl nil_dereference, w') \<and> os_files w' = os_files w"
proof -
  from assms(2) obtain m where f: "os_files w (cf_path s) = Some (RegFile t m)"
    by (auto simp: config_text_def split: option.splits node.splits)
  note st = stat_node_regular [where fs = "os_files w", OF f]
  let ?w2 = "w\<lparr>os_tick := Suc (Suc (os_tick w))\<rparr>"
  have rd: "read_parsed yl s w = (Inr (t, cfg), ?w2)"
    using assms(1,3,4) by (simp add: read_parsed_def bindE_def mapErrE_def os_stat_def os_read_file_def os_call_def Let_def st)
  have "set_router_executable_node exe replace doc = None"
    using assms(6,7,8) by (simp add: set_executable_panics)
  then have "set_router_executable yl s None exe replace w = (Inl nil_dereference, ?w2)"
    using assms(5) by (simp add: set_router_executable_def mutate_document_def bindE_def rd)
  then show ?thesis by simp
qed

definition null_router_root :: ynode where
  "null_router_root = YNode MappingNode ''!!map'' [] [] [scalar_node ''router'', YNode ScalarNode ''!!null'' [] [] []]"

theorem set_executable_nil_dereference_witness:
  "\<exists>w'. set_router_executable (demo_yaml (YNode DocumentNode [] [] [] [null_router_root])) demo_config None ''/x'' [] (one_file (\<lambda>_. None))
     = (Inl nil_dereference, w') \<and> os_files w' = os_files (one_file (\<lambda>_. None))"
proof (rule set_executable_nil_dereference)
  show "parse_config (yl_decode (demo_yaml (YNode DocumentNode [] [] [] [null_router_root]))) ''old'' =
      Inr (apply_defaults default_config)" by code_simp
  show "config_text demo_config (os_files (one_file (\<lambda>_. None))) = Some ''old''"
    by (simp add: config_text_def demo_config_path one_file_def)
  show "document_root (YNode DocumentNode [] [] [] [null_router_root]) = Some null_router_root"
    "mapping_value null_router_root ''router'' = Some (YNode ScalarNode ''!!null'' [] [] [])"
    "y_kind (YNode ScalarNode ''!!null'' [] [] []) \<noteq> MappingNode"
    by (simp_all add: document_root_def null_router_root_def mapping_value_def)
qed (simp_all add: one_file_def demo_yaml_def demo_config_def new_file_store_def)

theorem config_never_broken_witness:
  "let w = one_file (\<lambda>t. if t = 8 then Some (Plain [Lit ''disk full''], 1) else None);
       yl = demo_yaml (demo_doc [''a'']); edit = (\<lambda>doc. Some (set_autostart_preset ''b'' True doc));
       w' = snd (mutate_document yl demo_config None edit w) in
   \<forall>u \<in> on_the_way w w'. config_text demo_config u = Some ''old'' \<or>
    (\<exists>t'. mutation_result yl demo_config edit ''old'' t' \<and> config_text demo_config u = Some t')"
  unfolding Let_def
  by (rule config_never_broken [OF _ _ surjective_pairing])
    (simp_all add: one_file_def config_text_def demo_config_path)

end
