(* ===== verification/CatalogTypes.thy ===== *)
theory CatalogTypes
  imports GoErrors
begin

section \<open>The data of the model catalog (\<^verbatim>\<open>core/modelcatalog/types.go\<close>)\<close>

text \<open>The structs that the catalog returns and that the download manager and the control core use.\<close>

record model_source =
  src_kind :: string
  src_owner :: string
  src_repo :: string
  src_url :: string

record llama_compat =
  lc_compatible :: bool
  lc_hf_ref :: string
  lc_reason :: string

record catalog_file =
  fl_filename :: string
  fl_quant :: string
  fl_size_bytes :: int
  fl_downloadable :: bool
  fl_local_path :: string
  fl_exists :: bool
  fl_est_ram_bytes :: int
  fl_est_vram_bytes :: int
  fl_fit_level :: string
  fl_fit_reason :: string

record resolution =
  rs_ok :: bool
  rs_source :: model_source
  rs_llama_cpp :: llama_compat
  rs_description :: string
  rs_params :: int
  rs_architecture :: string
  rs_context_length :: int
  rs_is_moe :: bool
  rs_files :: "catalog_file list"

record machine_profile =
  mp_total_ram :: int
  mp_available_ram :: int
  mp_gpu_name :: string
  mp_vram :: int
  mp_has_gpu :: bool

record machine_fit =
  mf_level :: string
  mf_reason :: string
  mf_required_ram :: int
  mf_available_ram :: int
  mf_required_vram :: int
  mf_available_vram :: int

end
