(* ===== verification/Download.thy ===== *)
theory Download
  imports FileDoc CatalogTypes
begin

section \<open>Model downloads (\<^verbatim>\<open>core/modeldownload\<close>)\<close>

text \<open>
  \<open>manager.go\<close>, \<open>store.go\<close> and \<open>types.go\<close>. The table of the manager is \<open>dl_table\<close>: its jobs, the active job
  of each target path, the registered cancel functions and the contexts that were cancelled. Each critical
  section of the source is one function on the table; the goroutine of a download is \<open>run_download\<close>, which
  works on the files as well. The catalog, the URL builder, the HTTP response and the clock are arguments.
\<close>

datatype dl_state = DlQueued | DlRunning | DlCompleted | DlFailed | DlCancelled | DlAlreadyDownloaded

text \<open>The percentage: the float expressions the source assigns to it.\<close>

datatype percent = PercentZero | PercentFull | PercentOf int int

record dl_request =
  rq_url :: string
  rq_filename :: string
  rq_force :: bool

record dl_job =
  job_id :: string
  job_state :: dl_state
  job_url :: string
  job_filename :: string
  job_target :: string
  job_received :: int
  job_total :: int
  job_percent :: percent
  job_error :: "gerror option"
  job_started :: string
  job_completed :: string

record dl_table =
  dl_jobs :: "string \<Rightarrow> dl_job option"
  dl_active :: "string \<Rightarrow> string option"
  dl_cancel :: "string set"
  dl_ctx_done :: "string set"

definition new_manager :: dl_table where
  "new_manager = \<lparr>dl_jobs = (\<lambda>_. None), dl_active = (\<lambda>_. None), dl_cancel = {}, dl_ctx_done = {}\<rparr>"

definition dl_invalid :: "msg \<Rightarrow> gerror" where
  "dl_invalid m = Wrap (TextOf (Sentinel DownloadInvalidInput) # Lit '': '' # m) [Sentinel DownloadInvalidInput]"

fun find_file :: "catalog_file list \<Rightarrow> string \<Rightarrow> catalog_file option" where
  "find_file [] filename = None"
| "find_file (f # fs) filename = (if fl_filename f = filename then Some f else find_file fs filename)"

definition already_downloaded_job :: "string \<Rightarrow> string \<Rightarrow> dl_request \<Rightarrow> catalog_file \<Rightarrow> dl_job" where
  "already_downloaded_job nid now req f =
     \<lparr>job_id = nid, job_state = DlAlreadyDownloaded, job_url = rq_url req, job_filename = rq_filename req,
      job_target = fl_local_path f, job_received = fl_size_bytes f, job_total = fl_size_bytes f,
      job_percent = PercentFull, job_error = None, job_started = [], job_completed = now\<rparr>"

definition queued_job :: "string \<Rightarrow> dl_request \<Rightarrow> catalog_file \<Rightarrow> dl_job" where
  "queued_job nid req f =
     \<lparr>job_id = nid, job_state = DlQueued, job_url = rq_url req, job_filename = rq_filename req,
      job_target = fl_local_path f, job_received = 0, job_total = fl_size_bytes f,
      job_percent = PercentZero, job_error = None, job_started = [], job_completed = []\<rparr>"

text \<open>
  \<^verbatim>\<open>Start\<close>: the checks and calls in front of the critical section (\<open>start_prepare\<close>), then what is done to the
  table. \<open>StartPanics\<close> is the nil dereference of \<^verbatim>\<open>*m.jobs[existingID]\<close>; \<open>Spawned\<close> carries the URL the new goroutine fetches.
\<close>

datatype start_plan = PlanPresent catalog_file | PlanFetch catalog_file string

definition start_prepare ::
  "(string \<Rightarrow> gerror + resolution) option \<Rightarrow> (model_source \<Rightarrow> string \<Rightarrow> gerror + string) option \<Rightarrow>
   dl_request \<Rightarrow> gerror + start_plan" where
  "start_prepare catalog download_url req =
     (if rq_url req = [] \<or> rq_filename req = []
      then Inl (dl_invalid [Lit ''url and filename are required''])
      else (case (catalog, download_url) of
          (Some resolve, Some mk_url) \<Rightarrow>
            (case resolve (rq_url req) of
               Inl err \<Rightarrow> Inl err
             | Inr res \<Rightarrow>
                 (case find_file (rs_files res) (rq_filename req) of
                    None \<Rightarrow> Inl (dl_invalid [Lit ''selected GGUF file not found in resolved repo''])
                  | Some f \<Rightarrow>
                      (if fl_exists f \<and> \<not> rq_force req then Inr (PlanPresent f)
                       else (case mk_url (rs_source res) (rq_filename req) of
                               Inl err \<Rightarrow> Inl err
                             | Inr u \<Rightarrow> Inr (PlanFetch f u)))))
        | _ \<Rightarrow> Inl (dl_invalid [Lit ''downloader is not configured''])))"

datatype start_result = StartPanics | Returned dl_job | Spawned dl_job string

definition start_commit :: "string \<Rightarrow> string \<Rightarrow> dl_request \<Rightarrow> start_plan \<Rightarrow> dl_table \<Rightarrow> start_result \<times> dl_table" where
  "start_commit nid now req plan t =
     (case plan of
        PlanPresent f \<Rightarrow>
          (let job = already_downloaded_job nid now req f
           in (Returned job, t\<lparr>dl_jobs := (dl_jobs t)(job_id job \<mapsto> job)\<rparr>))
      | PlanFetch f u \<Rightarrow>
          (case dl_active t (fl_local_path f) of
             Some existing \<Rightarrow>
               (case dl_jobs t existing of None \<Rightarrow> (StartPanics, t) | Some job \<Rightarrow> (Returned job, t))
           | None \<Rightarrow>
               (let job = queued_job nid req f
                in (Spawned job u,
                    t\<lparr>dl_jobs := (dl_jobs t)(job_id job \<mapsto> job),
                      dl_active := (dl_active t)(job_target job \<mapsto> job_id job),
                      dl_cancel := insert (job_id job) (dl_cancel t)\<rparr>))))"

definition dl_start ::
  "(string \<Rightarrow> gerror + resolution) option \<Rightarrow> (model_source \<Rightarrow> string \<Rightarrow> gerror + string) option \<Rightarrow>
   string \<Rightarrow> string \<Rightarrow> dl_request \<Rightarrow> dl_table \<Rightarrow> (gerror + start_result) \<times> dl_table" where
  "dl_start catalog download_url nid now req t =
     (case start_prepare catalog download_url req of
        Inl err \<Rightarrow> (Inl err, t)
      | Inr plan \<Rightarrow> (case start_commit nid now req plan t of (res, t') \<Rightarrow> (Inr res, t')))"

definition dl_get :: "gerror option \<Rightarrow> string \<Rightarrow> dl_table \<Rightarrow> gerror + dl_job" where
  "dl_get ctx i t =
     (case ctx of
        Some err \<Rightarrow> Inl err
      | None \<Rightarrow>
          (case dl_jobs t i of
             None \<Rightarrow> Inl (Wrap [TextOf (Sentinel DownloadNotFound), Lit '': '', Str i] [Sentinel DownloadNotFound])
           | Some job \<Rightarrow> Inr job))"

definition unfinished :: "dl_state \<Rightarrow> bool" where
  "unfinished s \<longleftrightarrow> s = DlQueued \<or> s = DlRunning"

fun state_text :: "dl_state \<Rightarrow> string" where
  "state_text DlQueued = ''queued''"
| "state_text DlRunning = ''running''"
| "state_text DlCompleted = ''completed''"
| "state_text DlFailed = ''failed''"
| "state_text DlCancelled = ''cancelled''"
| "state_text DlAlreadyDownloaded = ''already_downloaded''"

definition dl_cancel_job :: "gerror option \<Rightarrow> string \<Rightarrow> string \<Rightarrow> dl_table \<Rightarrow> (gerror + dl_job) \<times> dl_table" where
  "dl_cancel_job ctx now i t =
     (case ctx of
        Some err \<Rightarrow> (Inl err, t)
      | None \<Rightarrow>
          (case dl_jobs t i of
             None \<Rightarrow> (Inl (Wrap [TextOf (Sentinel DownloadNotFound), Lit '': '', Str i] [Sentinel DownloadNotFound]), t)
           | Some job \<Rightarrow>
               (if \<not> unfinished (job_state job)
                then (Inl (Wrap [TextOf (Sentinel DownloadConflict), Lit '': download '', Str i, Lit '' is '',
                        Str (state_text (job_state job))] [Sentinel DownloadConflict]), t)
                else
                  (let job' = job\<lparr>job_state := DlCancelled, job_completed := now\<rparr>
                   in (Inr job',
                       t\<lparr>dl_ctx_done := (if i \<in> dl_cancel t then insert i (dl_ctx_done t) else dl_ctx_done t),
                         dl_jobs := (dl_jobs t)(i \<mapsto> job')\<rparr>)))))"

text \<open>\<^verbatim>\<open>update\<close>, and the four updates of the goroutine.\<close>

definition dl_update :: "string \<Rightarrow> (dl_job \<Rightarrow> dl_job) \<Rightarrow> dl_table \<Rightarrow> dl_table" where
  "dl_update i f t =
     (case dl_jobs t i of None \<Rightarrow> t | Some job \<Rightarrow> t\<lparr>dl_jobs := (dl_jobs t)(i \<mapsto> f job)\<rparr>)"

definition mark_running :: "string \<Rightarrow> dl_job \<Rightarrow> dl_job" where
  "mark_running now job =
     (if job_state job = DlCancelled then job else job\<lparr>job_state := DlRunning, job_started := now\<rparr>)"

definition set_total :: "int \<Rightarrow> dl_job \<Rightarrow> dl_job" where
  "set_total n job = (if n > 0 then job\<lparr>job_total := n\<rparr> else job)"

definition add_progress :: "int \<Rightarrow> dl_job \<Rightarrow> dl_job" where
  "add_progress n job =
     (let job1 = job\<lparr>job_received := job_received job + n\<rparr>
      in if job_total job1 > 0
         then job1\<lparr>job_percent := PercentOf (job_received job1 * 100) (job_total job1)\<rparr> else job1)"

definition finish_job :: "string \<Rightarrow> gerror option \<Rightarrow> dl_job \<Rightarrow> dl_job" where
  "finish_job now err job0 =
     (let job = job0\<lparr>job_completed := now\<rparr>
      in if job_state job = DlCancelled \<or> (case err of Some e \<Rightarrow> errors_is e CtxCanceled | None \<Rightarrow> False)
         then job\<lparr>job_state := DlCancelled, job_error := None\<rparr>
         else (case err of
                 Some e \<Rightarrow> job\<lparr>job_state := DlFailed, job_error := Some e\<rparr>
               | None \<Rightarrow> job\<lparr>job_state := DlCompleted, job_percent := PercentFull\<rparr>))"

definition clear_active :: "string \<Rightarrow> dl_table \<Rightarrow> dl_table" where
  "clear_active i t =
     (case dl_jobs t i of
        None \<Rightarrow> t
      | Some job \<Rightarrow>
          t\<lparr>dl_active := (if dl_active t (job_target job) = Some i
                          then (dl_active t)(job_target job := None) else dl_active t),
            dl_cancel := dl_cancel t - {i}\<rparr>)"

subsection \<open>The files of a download (\<open>store.go\<close> and \<open>download\<close>)\<close>

definition wrap_symlink_error :: "gerror \<Rightarrow> gerror" where
  "wrap_symlink_error err = (if errors_is err SymlinkNotAllowed then dl_invalid [TextOf err] else err)"

definition dl_reject_symlink :: "string \<Rightarrow> ('z, unit) io" where
  "dl_reject_symlink path = mapErrE wrap_symlink_error (reject_symlink path)"

definition dl_reject_symlink_ancestors :: "string \<Rightarrow> ('z, unit) io" where
  "dl_reject_symlink_ancestors path = mapErrE wrap_symlink_error (reject_symlink_ancestors path)"

text \<open>\<^verbatim>\<open>if err := rejectSymlink(p); err != nil && !os.IsNotExist(err)\<close>; \<^verbatim>\<open>os.IsNotExist\<close> does not unwrap.\<close>

definition no_link_at :: "string \<Rightarrow> ('z, unit) io" where
  "no_link_at path =
     tryE (dl_reject_symlink path) (\<lambda>err. if err = Sentinel OsNotExist then retE () else failE err) retE"

definition prepare_target :: "string \<Rightarrow> string \<Rightarrow> ('z, unit) io" where
  "prepare_target target part =
     bindE (mapErrE (wrap_err ''create model directory'') (os_mkdir_all (dir_of target) 448)) (\<lambda>_.
     bindE (dl_reject_symlink_ancestors (dir_of target)) (\<lambda>_.
     bindE (no_link_at target) (\<lambda>_. no_link_at part)))"

text \<open>The HTTP exchange: the request fails, or there is a response whose body comes in reads.\<close>

datatype read_end = ReadMore | ReadEOF | ReadErr gerror

record http_response =
  hr_status :: int
  hr_length :: int
  hr_body :: "(string \<times> read_end) list"

definition open_download :: "gerror + http_response \<Rightarrow> string \<Rightarrow> ('z, http_response) io" where
  "open_download exchange part =
     (case exchange of
        Inl err \<Rightarrow> failE (wrap_err ''download model'' err)
      | Inr resp \<Rightarrow>
          (if 200 \<le> hr_status resp \<and> hr_status resp < 300 then retE resp
           else bindE (ignoreE (os_remove part)) (\<lambda>_.
                  failE (Plain [Lit ''download model: status '', Num (hr_status resp)]))))"

text \<open>The state the goroutine works on: the files and, in the extension, the table.\<close>

record dl_os = os +
  dl_tab :: dl_table

definition table_step :: "(dl_table \<Rightarrow> dl_table) \<Rightarrow> ('z dl_os_ext, unit) io" where
  "table_step f w = (Inr (), w\<lparr>dl_tab := f (dl_tab w)\<rparr>)"

fun copy_download :: "string \<Rightarrow> string \<Rightarrow> (string \<times> read_end) list \<Rightarrow> ('z dl_os_ext, unit) io" where
  "copy_download i out [] = retE ()"
| "copy_download i out ((chunk, fin) # reads) =
     bindE
       (if chunk = [] then retE ()
        else bindE (mapErrE (wrap_err ''write partial model file'') (os_write out chunk)) (\<lambda>_.
               table_step (dl_update i (add_progress (int (length chunk))))))
       (\<lambda>_. case fin of
              ReadEOF \<Rightarrow> retE ()
            | ReadErr err \<Rightarrow> failE (wrap_err ''read model download'' err)
            | ReadMore \<Rightarrow> copy_download i out reads)"

definition finalize_download :: "string \<Rightarrow> string \<Rightarrow> ('z, unit) io" where
  "finalize_download part target =
     tryE (no_link_at target) (\<lambda>err. bindE (ignoreE (os_remove part)) (\<lambda>_. failE err)) (\<lambda>_.
     tryE (os_rename part target)
       (\<lambda>err. bindE (ignoreE (os_remove part)) (\<lambda>_. failE (wrap_err ''finalize model file'' err))) (\<lambda>_.
     sync_dir (dir_of target)))"

text \<open>
  \<^verbatim>\<open>download\<close>: \<open>ctx\<close> says what \<^verbatim>\<open>ctx.Err()\<close> returns after the copy. The deferred \<^verbatim>\<open>Close\<close> runs when
  the file was not closed; closing again changes no file.
\<close>

definition download :: "string \<Rightarrow> gerror + http_response \<Rightarrow> gerror option \<Rightarrow> ('z dl_os_ext, unit) io" where
  "download i exchange ctx w0 =
     (case dl_get None i (dl_tab w0) of
        Inl err \<Rightarrow> (Inl err, w0)
      | Inr job \<Rightarrow>
          (let target = job_target job; part = target @ ''.part'' in
           bindE (prepare_target target part) (\<lambda>_.
           bindE (open_download exchange part) (\<lambda>resp.
           bindE (table_step (dl_update i (set_total (hr_length resp)))) (\<lambda>_.
           bindE (mapErrE (wrap_err ''create partial model file'') (os_create_trunc part 384)) (\<lambda>out.
           tryE (copy_download i out (hr_body resp))
             (\<lambda>err. bindE (ignoreE (os_remove part)) (\<lambda>_. bindE (ignoreE (os_close out)) (\<lambda>_. failE err))) (\<lambda>_.
           case ctx of
             Some err \<Rightarrow> bindE (ignoreE (os_remove part)) (\<lambda>_. bindE (ignoreE (os_close out)) (\<lambda>_. failE err))
           | None \<Rightarrow>
               tryE (os_sync out)
                 (\<lambda>err. bindE (ignoreE (os_remove part)) (\<lambda>_. bindE (ignoreE (os_close out)) (\<lambda>_.
                    failE (wrap_err ''sync partial model file'' err)))) (\<lambda>_.
               tryE (os_close out)
                 (\<lambda>err. bindE (ignoreE (os_remove part)) (\<lambda>_. bindE (ignoreE (os_close out)) (\<lambda>_.
                    failE (wrap_err ''close partial model file'' err)))) (\<lambda>_.
               finalize_download part target)))))))
           w0))"

definition run_download ::
  "string \<Rightarrow> string \<Rightarrow> string \<Rightarrow> gerror + http_response \<Rightarrow> gerror option \<Rightarrow> ('z dl_os_ext, unit) io" where
  "run_download started finished i exchange ctx =
     bindE (table_step (dl_update i (mark_running started))) (\<lambda>_.
     tryE (download i exchange ctx)
       (\<lambda>err. bindE (table_step (dl_update i (finish_job finished (Some err)))) (\<lambda>_. table_step (clear_active i)))
       (\<lambda>_. bindE (table_step (dl_update i (finish_job finished None))) (\<lambda>_. table_step (clear_active i))))"

end
