(* ===== verification/DownloadFiles.thy ===== *)
theory DownloadFiles
  imports Download FileDocProps
begin

section \<open>The files of a download\<close>

text \<open>
  A download writes next to its target and renames at the end. The lemmas follow \<open>download\<close> call by
  call, for every plan of failures: until the rename the target is left alone; after it, it holds the
  whole body of the response.
\<close>

fun body_data :: "(string \<times> read_end) list \<Rightarrow> string" where
  "body_data [] = []"
| "body_data ((chunk, ReadMore) # reads) = chunk @ body_data reads"
| "body_data ((chunk, ReadEOF) # reads) = chunk"
| "body_data ((chunk, ReadErr e) # reads) = chunk"

text \<open>The state during a download: the target is as it was, failures are honest.\<close>

definition idle_target :: "string \<Rightarrow> node option \<Rightarrow> (string \<Rightarrow> node option) list \<Rightarrow> 'z os_scheme \<Rightarrow> bool" where
  "idle_target p N T w \<longleftrightarrow> stays p N T w \<and> honest_faults w"

lemma idle_tick [simp]: "idle_target p N T (w\<lparr>os_tick := n\<rparr>) = idle_target p N T w"
  by (simp add: idle_target_def)

lemma honest_set_node [simp]: "honest_faults (set_node q n w) = honest_faults w"
  by (simp add: honest_faults_def)

lemma idle_set_node: "q \<noteq> p \<Longrightarrow> idle_target p N T w \<Longrightarrow> idle_target p N T (set_node q n w)"
  by (simp add: idle_target_def stays_set_node)

lemma valid_idle_quiet:
  "(\<And>w. snd (f w) = w) \<Longrightarrow> valid (idle_target p N T) (os_call f) (\<lambda>_. idle_target p N T) (\<lambda>_. idle_target p N T)"
  by (rule valid_quiet_call) auto

lemma valid_idle_lstat: "valid (idle_target p N T) (os_lstat q) (\<lambda>_. idle_target p N T) (\<lambda>_. idle_target p N T)"
  unfolding os_lstat_def by (rule valid_idle_quiet) simp

lemma valid_idle_mkdir:
  "q \<noteq> p \<Longrightarrow> valid (idle_target p N T) (os_mkdir_all q m) (\<lambda>_. idle_target p N T) (\<lambda>_. idle_target p N T)"
  unfolding os_mkdir_all_def
  by (rule valid_os_call) (auto simp: valid_def intro: idle_set_node split: sum.splits node.splits)

lemma valid_idle_remove:
  "q \<noteq> p \<Longrightarrow> valid (idle_target p N T) (os_remove q) (\<lambda>_. idle_target p N T) (\<lambda>_. idle_target p N T)"
  unfolding os_remove_def
  by (rule valid_os_call) (auto simp: valid_def intro: idle_set_node split: option.splits)

lemma valid_idle_reject:
  "valid (idle_target p N T) (reject_symlink q) (\<lambda>_. idle_target p N T) (\<lambda>_. idle_target p N T)"
  unfolding reject_symlink_def
  by (rule valid_bind [OF valid_idle_lstat]) (auto simp: valid_def split: node.splits)

lemma valid_idle_parts:
  "valid (idle_target p N T) (reject_symlink_parts c parts) (\<lambda>_. idle_target p N T) (\<lambda>_. idle_target p N T)"
proof (induction c parts rule: reject_symlink_parts.induct)
  case (2 current part parts)
  show ?case
  proof (cases "part = []")
    case True
    with 2(1) show ?thesis by simp
  next
    case False
    show ?thesis
      unfolding reject_symlink_parts.simps Let_def if_not_P [OF False]
      by (rule valid_bind [OF valid_idle_reject]) (use False 2(2) in auto)
  qed
qed (simp add: valid_def)

lemma valid_idle_ancestors:
  "valid (idle_target p N T) (reject_symlink_ancestors q) (\<lambda>_. idle_target p N T) (\<lambda>_. idle_target p N T)"
  unfolding reject_symlink_ancestors_def
proof (rule valid_bind [where R = "\<lambda>_. idle_target p N T"])
  show "valid (idle_target p N T) (os_abs q) (\<lambda>_. idle_target p N T) (\<lambda>_. idle_target p N T)"
    unfolding os_abs_def by (rule valid_if) (auto intro: valid_ret valid_idle_quiet)
qed (rule valid_idle_parts)

lemma valid_no_link:
  "valid (idle_target p N T) (no_link_at q)
     (\<lambda>_ w. idle_target p N T w \<and> not_link q (os_files w)) (\<lambda>_. idle_target p N T)"
proof (rule validI)
  fix w x and w' :: "'a os_scheme"
  assume idle: "idle_target p N T w" and run: "no_link_at q w = (Inr x, w')"
  have "\<not> errors_is e OsNotExist" if "os_fault w (os_tick w) = Some (e, n)" for e n
    using idle that by (auto simp: idle_target_def honest_faults_def)
  then have "w' = w\<lparr>os_tick := Suc (os_tick w)\<rparr> \<and> not_link q (os_files w)"
    using run
    by (auto simp: no_link_at_def tryE_def dl_reject_symlink_def mapErrE_def reject_symlink_def bindE_def os_lstat_def
        os_call_def Let_def not_link_def wrap_symlink_error_def dl_invalid_def split: option.splits node.splits if_splits)
  with idle show "idle_target p N T w' \<and> not_link q (os_files w')" by simp
next
  fix w x and w' :: "'a os_scheme"
  assume idle: "idle_target p N T w" and run: "no_link_at q w = (Inl x, w')"
  from run have "w' = w\<lparr>os_tick := Suc (os_tick w)\<rparr>"
    by (auto simp: no_link_at_def tryE_def dl_reject_symlink_def mapErrE_def reject_symlink_def bindE_def os_lstat_def
        os_call_def Let_def split: option.splits node.splits if_splits)
  with idle show "idle_target p N T w'" by simp
qed

text \<open>After the checks there is no link at the partial file.\<close>

lemma valid_prepare:
  assumes "dir_of target \<noteq> target"
  shows "valid (idle_target target N T) (prepare_target target part)
     (\<lambda>_ w. idle_target target N T w \<and> not_link part (os_files w)) (\<lambda>_. idle_target target N T)"
  unfolding prepare_target_def dl_reject_symlink_ancestors_def
  apply (rule valid_bind [where R = "\<lambda>_. idle_target target N T"], rule valid_mapErr)
   apply (rule valid_idle_mkdir [OF assms])
  apply (rule valid_bind [where R = "\<lambda>_. idle_target target N T"], rule valid_mapErr)
   apply (rule valid_idle_ancestors)
  apply (rule valid_bind [where R = "\<lambda>_. idle_target target N T"])
   apply (rule valid_weaken [OF valid_no_link]; simp)
  apply (rule valid_no_link)
  done

text \<open>The partial file with its contents.\<close>

definition partial :: "string \<Rightarrow> string \<Rightarrow> node option \<Rightarrow> (string \<Rightarrow> node option) list \<Rightarrow> string \<Rightarrow> 'z os_scheme \<Rightarrow> bool" where
  "partial part p N T c w \<longleftrightarrow> idle_target p N T w \<and> (\<exists>m. os_files w part = Some (RegFile c m))"

lemma partial_tick [simp]: "partial part p N T c (w\<lparr>os_tick := n\<rparr>) = partial part p N T c w"
  by (simp add: partial_def)

lemma partial_idle: "partial part p N T c w \<Longrightarrow> idle_target p N T w"
  by (simp add: partial_def)

lemma valid_create_part:
  assumes "part \<noteq> p"
  shows "valid (\<lambda>w. idle_target p N T w \<and> not_link part (os_files w)) (os_create_trunc part m)
     (\<lambda>q w. q = part \<and> partial part p N T [] w) (\<lambda>_. idle_target p N T)"
  unfolding os_create_trunc_def
proof (rule valid_os_call)
  show "valid (\<lambda>w. idle_target p N T w \<and> not_link part (os_files w))
     (\<lambda>w. case follow 40 (os_files w) part of
          None \<Rightarrow> (Inl link_loop, w)
        | Some q \<Rightarrow>
            (case os_files w q of
               Some (DirNode _) \<Rightarrow> (Inl (Plain [Lit ''is a directory'']), w)
             | Some (RegFile _ m') \<Rightarrow> (Inr q, set_node q (Some (RegFile [] m')) w)
             | _ \<Rightarrow> (Inr q, set_node q (Some (RegFile [] m)) w)))
     (\<lambda>q w. q = part \<and> partial part p N T [] w) (\<lambda>_. idle_target p N T)"
    unfolding valid_def
    using assms by (auto simp: follow_not_link partial_def intro: idle_set_node split: option.splits node.splits)
qed auto

lemma valid_write_part:
  assumes "part \<noteq> p"
  shows "valid (partial part p N T c) (os_write part d) (\<lambda>_. partial part p N T (c @ d)) (\<lambda>_. idle_target p N T)"
  unfolding valid_def os_write_def Let_def partial_def
  using assms by (auto simp: append_data_def intro!: idle_set_node split: option.splits)

lemma os_fields_dl [simp]:
  "os_files (w\<lparr>dl_tab := x\<rparr>) = os_files w" "os_trace (w\<lparr>dl_tab := x\<rparr>) = os_trace w" "os_fault (w\<lparr>dl_tab := x\<rparr>) = os_fault w"
  by simp_all

lemma idle_table [simp]:
  "idle_target p N T (w\<lparr>dl_tab := x\<rparr>) = idle_target p N T w" "partial part p N T c (w\<lparr>dl_tab := x\<rparr>) = partial part p N T c w"
  by (simp_all add: idle_target_def stays_def honest_faults_def partial_def)

lemma valid_table: "(\<And>w x. P (w\<lparr>dl_tab := x\<rparr>) = P w) \<Longrightarrow> valid P (table_step f) (\<lambda>_. P) (\<lambda>_. P)"
  by (simp add: valid_def table_step_def)

lemma valid_copy:
  assumes "part \<noteq> p"
  shows "valid (partial part p N T c :: 'z dl_os_scheme \<Rightarrow> bool) (copy_download i part reads)
    (\<lambda>_. partial part p N T (c @ body_data reads)) (\<lambda>_. idle_target p N T)"
proof (induction reads arbitrary: c)
  case Nil
  then show ?case by (simp add: valid_def)
next
  case (Cons cr reads)
  obtain chunk fin where cr: "cr = (chunk, fin)" by force
  let ?body = "case fin of ReadMore \<Rightarrow> chunk @ body_data reads | _ \<Rightarrow> chunk"
  have step: "valid (partial part p N T c :: 'z dl_os_scheme \<Rightarrow> bool)
      (if chunk = [] then retE ()
        else bindE (mapErrE (wrap_err ''write partial model file'') (os_write part chunk)) (\<lambda>_.
               table_step (dl_update i (add_progress (int (length chunk))))))
      (\<lambda>_. partial part p N T (c @ chunk)) (\<lambda>_. idle_target p N T)"
    apply (rule valid_if)
     apply (simp add: valid_def)
    apply (rule valid_bind [where R = "\<lambda>_. partial part p N T (c @ chunk)"], rule valid_mapErr)
     apply (rule valid_write_part [OF assms])
    apply (rule valid_weaken [OF valid_table [of "partial part p N T (c @ chunk)"]])
       apply (auto intro: partial_idle)
    done
  have "valid (partial part p N T c :: 'z dl_os_scheme \<Rightarrow> bool) (copy_download i part (cr # reads))
    (\<lambda>_. partial part p N T (c @ ?body)) (\<lambda>_. idle_target p N T)"
    unfolding cr copy_download.simps
  proof (rule valid_bind [OF step])
    show "valid (partial part p N T (c @ chunk) :: 'z dl_os_scheme \<Rightarrow> bool)
      (case fin of ReadEOF \<Rightarrow> retE () | ReadErr err \<Rightarrow> failE (wrap_err ''read model download'' err)
         | ReadMore \<Rightarrow> copy_download i part reads)
      (\<lambda>_. partial part p N T (c @ ?body)) (\<lambda>_. idle_target p N T)" for x :: unit
    proof (cases fin)
      case ReadMore
      with Cons.IH [of "c @ chunk"] show ?thesis by simp
    qed (auto simp: valid_def intro: partial_idle)
  qed
  then show ?case by (cases fin) (simp_all add: cr)
qed

text \<open>The end: the target is untouched, or it holds the whole body; so it was at every moment.\<close>

definition done_target :: "string \<Rightarrow> node option \<Rightarrow> (string \<Rightarrow> node option) list \<Rightarrow> string \<Rightarrow> 'z os_scheme \<Rightarrow> bool" where
  "done_target p N T c w \<longleftrightarrow>
     (\<exists>m. os_files w p = Some (RegFile c m) \<and>
        (\<exists>ts. os_trace w = T @ ts \<and> (\<forall>t \<in> set ts. t p = N \<or> t p = Some (RegFile c m))))"

definition target_outcome :: "string \<Rightarrow> node option \<Rightarrow> (string \<Rightarrow> node option) list \<Rightarrow> string \<Rightarrow> 'z os_scheme \<Rightarrow> bool" where
  "target_outcome p N T c w \<longleftrightarrow> stays p N T w \<or> done_target p N T c w"

lemma idle_outcome: "idle_target p N T w \<Longrightarrow> target_outcome p N T c w"
  by (simp add: idle_target_def target_outcome_def)

lemma done_tick [simp]: "done_target p N T c (w\<lparr>os_tick := n\<rparr>) = done_target p N T c w"
  by (simp add: done_target_def)

lemma valid_rename_part:
  fixes N :: "node option"
  assumes "part \<noteq> p"
  shows "valid (partial part p N T c) (os_rename part p) (\<lambda>_. done_target p N T c) (\<lambda>_. partial part p N T c)"
  unfolding os_rename_def
proof (rule valid_os_call [OF validI])
  fix w x and w' :: "'z os_scheme"
  assume pt: "partial part p N T c w" and run: "(case os_files w part of None \<Rightarrow> (Inl (Sentinel OsNotExist), w)
      | Some n \<Rightarrow> if is_dir_at (os_files w) p \<and> \<not> is_dir_at (os_files w) part
          then (Inl (Sentinel OsExist), w)
          else let fs = (os_files w)(part := None, p := Some n)
            in (Inr (), w\<lparr>os_files := fs, os_trace := os_trace w @ [fs]\<rparr>)) = (Inr x, w')"
  from pt obtain m where m: "os_files w part = Some (RegFile c m)" by (auto simp: partial_def)
  let ?fs = "(os_files w)(part := None, p := Some (RegFile c m))"
  from run m have w': "os_files w' = ?fs" "os_trace w' = os_trace w @ [?fs]"
    by (auto simp: Let_def split: if_splits)
  from pt obtain ts where ts: "os_trace w = T @ ts" "\<forall>t \<in> set ts. t p = N"
    by (auto simp: partial_def idle_target_def stays_def)
  show "done_target p N T c w'"
    unfolding done_target_def w' ts(1) using ts(2)
    by (intro exI [of _ m] conjI exI [of _ "ts @ [?fs]"]) auto
next
  fix w x and w' :: "'z os_scheme"
  assume "partial part p N T c w" and "(case os_files w part of None \<Rightarrow> (Inl (Sentinel OsNotExist), w)
      | Some n \<Rightarrow> if is_dir_at (os_files w) p \<and> \<not> is_dir_at (os_files w) part
          then (Inl (Sentinel OsExist), w)
          else let fs = (os_files w)(part := None, p := Some n)
            in (Inr (), w\<lparr>os_files := fs, os_trace := os_trace w @ [fs]\<rparr>)) = (Inl x, w')"
  then show "partial part p N T c w'"
    by (auto simp: Let_def split: option.splits if_splits)
qed auto

text \<open>\<open>no_link_at\<close> changes no file.\<close>

lemma no_link_state: "no_link_at q w = (r, w') \<Longrightarrow> w' = w\<lparr>os_tick := Suc (os_tick w)\<rparr>"
  by (auto simp: no_link_at_def tryE_def dl_reject_symlink_def mapErrE_def reject_symlink_def bindE_def os_lstat_def
      os_call_def Let_def split: option.splits node.splits if_splits)

lemma valid_no_link_quiet:
  "(\<And>w n. P (w\<lparr>os_tick := n\<rparr>) = P w) \<Longrightarrow> valid P (no_link_at q) (\<lambda>_. P) (\<lambda>_. P)"
  by (rule validI) (drule no_link_state, simp)+

lemma valid_cleanup:
  assumes "part \<noteq> p"
  shows "valid (idle_target p N T) (bindE (ignoreE (os_remove part)) (\<lambda>_. failE e)) Q (\<lambda>_. target_outcome p N T c)"
  by (rule valid_bind [where R = "\<lambda>_. idle_target p N T"], rule valid_ignore,
      rule valid_weaken [OF valid_idle_remove [OF assms]]) (auto simp: valid_def idle_outcome)

lemma valid_finalize:
  assumes "part \<noteq> p"
  shows "valid (partial part p N T c) (finalize_download part p)
    (\<lambda>_. done_target p N T c) (\<lambda>_. target_outcome p N T c)"
  unfolding finalize_download_def
  apply (rule valid_try [where R = "\<lambda>_. partial part p N T c" and F = "\<lambda>_. idle_target p N T"])
    apply (rule valid_weaken [OF valid_no_link_quiet [of "partial part p N T c"]]; auto intro: partial_idle)
   apply (rule valid_cleanup [OF assms])
  apply (rule valid_try [where R = "\<lambda>_. done_target p N T c" and F = "\<lambda>_. idle_target p N T"])
    apply (rule valid_weaken [OF valid_rename_part [OF assms]]; auto intro: partial_idle)
   apply (rule valid_cleanup [OF assms])
  apply (rule valid_weaken [OF valid_sync_dir [of "done_target p N T c"]]; simp add: target_outcome_def)
  done

lemma valid_cleanup_close:
  assumes "part \<noteq> p"
  shows "valid (idle_target p N T) (bindE (ignoreE (os_remove part)) (\<lambda>_. bindE (ignoreE (os_close out)) (\<lambda>_. failE e)))
    Q (\<lambda>_. target_outcome p N T c)"
  apply (rule valid_bind [where R = "\<lambda>_. idle_target p N T"], rule valid_ignore)
   apply (rule valid_weaken [OF valid_idle_remove [OF assms]]; simp)
  apply (rule valid_bind [where R = "\<lambda>_. idle_target p N T"], rule valid_ignore)
   apply (rule valid_weaken [OF valid_close [of "idle_target p N T"]]; simp)
  apply (simp add: valid_def idle_outcome)
  done

text \<open>The calls of \<open>download\<close> after the job was found.\<close>

definition download_steps ::
  "string \<Rightarrow> string \<Rightarrow> gerror + http_response \<Rightarrow> gerror option \<Rightarrow> ('z dl_os_ext, unit) io" where
  "download_steps i target exchange ctx =
     (let part = target @ ''.part'' in
      bindE (prepare_target target part) (\<lambda>_.
      bindE (open_download exchange part) (\<lambda>resp.
      bindE (table_step (dl_update i (set_total (hr_length resp)))) (\<lambda>_.
      bindE (mapErrE (wrap_err ''create partial model file'') (os_create_trunc part 384)) (\<lambda>out.
      tryE (copy_download i out (hr_body resp))
        (\<lambda>err. bindE (ignoreE (os_remove part)) (\<lambda>_. bindE (ignoreE (os_close out)) (\<lambda>_. failE err))) (\<lambda>_.
      case ctx of
        Some err \<Rightarrow> bindE (ignoreE (os_remove part)) (\<lambda>_. bindE (ignoreE (os_close out)) (\<lambda>_. failE err))
      | None \<Rightarrow>
          tryE (os_sync out)
            (\<lambda>err. bindE (ignoreE (os_remove part)) (\<lambda>_. bindE (ignoreE (os_close out)) (\<lambda>_.
               failE (wrap_err ''sync partial model file'' err)))) (\<lambda>_.
          tryE (os_close out)
            (\<lambda>err. bindE (ignoreE (os_remove part)) (\<lambda>_. bindE (ignoreE (os_close out)) (\<lambda>_.
               failE (wrap_err ''close partial model file'' err)))) (\<lambda>_.
          finalize_download part target))))))))"

lemma download_as_steps:
  "dl_jobs (dl_tab w) i = Some job \<Longrightarrow> download i exchange ctx w = download_steps i (job_target job) exchange ctx w"
  by (simp add: download_def dl_get_def download_steps_def Let_def)

lemma valid_open_download:
  assumes "part \<noteq> p"
  shows "valid (\<lambda>w. idle_target p N T w \<and> not_link part (os_files w)) (open_download exchange part)
    (\<lambda>resp w. exchange = Inr resp \<and> idle_target p N T w \<and> not_link part (os_files w)) (\<lambda>_. target_outcome p N T c)"
proof (cases exchange)
  case (Inl e)
  then show ?thesis by (auto simp: open_download_def valid_def idle_outcome)
next
  case (Inr resp)
  show ?thesis
    unfolding Inr open_download_def sum.case
    apply (rule valid_if)
     apply (simp add: valid_def)
    apply (rule valid_weaken [OF valid_cleanup [OF assms]]; simp)
    done
qed

lemma valid_sync_close_finalize:
  assumes "part \<noteq> p"
  shows "valid (partial part p N T c)
    (tryE (os_sync part)
       (\<lambda>err. bindE (ignoreE (os_remove part)) (\<lambda>_. bindE (ignoreE (os_close part)) (\<lambda>_.
          failE (wrap_err s1 err)))) (\<lambda>_.
     tryE (os_close part)
       (\<lambda>err. bindE (ignoreE (os_remove part)) (\<lambda>_. bindE (ignoreE (os_close part)) (\<lambda>_.
          failE (wrap_err s2 err)))) (\<lambda>_.
     finalize_download part p)))
    (\<lambda>_. done_target p N T c) (\<lambda>_. target_outcome p N T c)"
  apply (rule valid_try [where R = "\<lambda>_. partial part p N T c" and F = "\<lambda>_. idle_target p N T"])
    apply (rule valid_weaken [OF valid_sync [of "partial part p N T c"]]; auto intro: partial_idle)
   apply (rule valid_cleanup_close [OF assms])
  apply (rule valid_try [where R = "\<lambda>_. partial part p N T c" and F = "\<lambda>_. idle_target p N T"])
    apply (rule valid_weaken [OF valid_close [of "partial part p N T c"]]; auto intro: partial_idle)
   apply (rule valid_cleanup_close [OF assms])
  apply (rule valid_finalize [OF assms])
  done

lemma valid_download_steps:
  assumes dir: "dir_of target \<noteq> target" and ex: "exchange = Inr resp"
  shows "valid (idle_target target N T :: 'z dl_os_scheme \<Rightarrow> bool) (download_steps i target exchange ctx)
    (\<lambda>_. done_target target N T (body_data (hr_body resp)))
    (\<lambda>_. target_outcome target N T (body_data (hr_body resp)))"
  unfolding download_steps_def Let_def
proof (rule valid_bind [where R = "\<lambda>_ w. idle_target target N T w \<and> not_link (target @ ''.part'') (os_files w)"],
    rule valid_weaken [OF valid_prepare [OF dir]])
  let ?part = "target @ ''.part''" and ?c = "body_data (hr_body resp)"
  let ?I = "\<lambda>w :: 'z dl_os_scheme. idle_target target N T w \<and> not_link ?part (os_files w)"
  have neq: "?part \<noteq> target" by simp
  fix u :: unit
  show "valid ?I
     (bindE (open_download exchange ?part) (\<lambda>resp.
      bindE (table_step (dl_update i (set_total (hr_length resp)))) (\<lambda>_.
      bindE (mapErrE (wrap_err ''create partial model file'') (os_create_trunc ?part 384)) (\<lambda>out.
      tryE (copy_download i out (hr_body resp))
        (\<lambda>err. bindE (ignoreE (os_remove ?part)) (\<lambda>_. bindE (ignoreE (os_close out)) (\<lambda>_. failE err))) (\<lambda>_.
      case ctx of
        Some err \<Rightarrow> bindE (ignoreE (os_remove ?part)) (\<lambda>_. bindE (ignoreE (os_close out)) (\<lambda>_. failE err))
      | None \<Rightarrow>
          tryE (os_sync out)
            (\<lambda>err. bindE (ignoreE (os_remove ?part)) (\<lambda>_. bindE (ignoreE (os_close out)) (\<lambda>_.
               failE (wrap_err ''sync partial model file'' err)))) (\<lambda>_.
          tryE (os_close out)
            (\<lambda>err. bindE (ignoreE (os_remove ?part)) (\<lambda>_. bindE (ignoreE (os_close out)) (\<lambda>_.
               failE (wrap_err ''close partial model file'' err)))) (\<lambda>_.
          finalize_download ?part target)))))))
     (\<lambda>_. done_target target N T ?c) (\<lambda>_. target_outcome target N T ?c)"
  proof (rule valid_bind [OF valid_open_download [OF neq]])
    fix r
    show "valid (\<lambda>w. exchange = Inr r \<and> ?I w)
       (bindE (table_step (dl_update i (set_total (hr_length r)))) (\<lambda>_.
        bindE (mapErrE (wrap_err ''create partial model file'') (os_create_trunc ?part 384)) (\<lambda>out.
        tryE (copy_download i out (hr_body r))
          (\<lambda>err. bindE (ignoreE (os_remove ?part)) (\<lambda>_. bindE (ignoreE (os_close out)) (\<lambda>_. failE err))) (\<lambda>_.
        case ctx of
          Some err \<Rightarrow> bindE (ignoreE (os_remove ?part)) (\<lambda>_. bindE (ignoreE (os_close out)) (\<lambda>_. failE err))
        | None \<Rightarrow>
            tryE (os_sync out)
              (\<lambda>err. bindE (ignoreE (os_remove ?part)) (\<lambda>_. bindE (ignoreE (os_close out)) (\<lambda>_.
                 failE (wrap_err ''sync partial model file'' err)))) (\<lambda>_.
            tryE (os_close out)
              (\<lambda>err. bindE (ignoreE (os_remove ?part)) (\<lambda>_. bindE (ignoreE (os_close out)) (\<lambda>_.
                 failE (wrap_err ''close partial model file'' err)))) (\<lambda>_.
            finalize_download ?part target))))))
       (\<lambda>_. done_target target N T ?c) (\<lambda>_. target_outcome target N T ?c)"
    proof (cases "r = resp")
      case False
      with ex show ?thesis by (simp add: valid_def)
    next
      case True
      show ?thesis
        unfolding True
        apply (rule valid_bind [where R = "\<lambda>_. ?I"])
         apply (rule valid_weaken [OF valid_table [of ?I]]; auto intro: idle_outcome)
        apply (rule valid_bind [where R = "\<lambda>q w. q = ?part \<and> partial ?part target N T [] w"], rule valid_mapErr)
         apply (rule valid_weaken [OF valid_create_part [OF neq]]; auto intro: idle_outcome)
        subgoal for x y
          apply (cases "y = ?part")
           apply (simp only: simp_thms)
           apply (rule valid_try [OF valid_copy [OF neq] valid_cleanup_close [OF neq]])
           apply (cases ctx)
            apply (simp only: option.case append_Nil)
            apply (rule valid_sync_close_finalize [OF neq])
           apply (simp only: option.case)
           apply (rule valid_weaken [OF valid_cleanup_close [OF neq]]; auto intro: partial_idle)
          apply (simp add: valid_def)
          done
        done
    qed
  qed
qed (auto intro: idle_outcome)

end
