(* ===== verification/StateMachine.thy ===== *)
theory StateMachine
  imports Main
begin

section \<open>Step relations, reachability and invariants\<close>

text \<open>
  The state machines of the components share their reachability relation. \<open>inductive_invariant\<close> is
  the contract between a machine and the properties of its reachable states: what holds at the
  start and is kept by every step holds in every reachable state.
\<close>

inductive reach :: "('s \<Rightarrow> bool) \<Rightarrow> ('s \<Rightarrow> 's \<Rightarrow> bool) \<Rightarrow> 's \<Rightarrow> bool" for init step where
  reach_init: "init s \<Longrightarrow> reach init step s"
| reach_step: "reach init step s \<Longrightarrow> step s s' \<Longrightarrow> reach init step s'"

locale inductive_invariant =
  fixes init :: "'s \<Rightarrow> bool" and step :: "'s \<Rightarrow> 's \<Rightarrow> bool" and inv :: "'s \<Rightarrow> bool"
  assumes inv_init: "init s \<Longrightarrow> inv s"
    and inv_step: "inv s \<Longrightarrow> step s s' \<Longrightarrow> inv s'"
begin

lemma inv_reach: "reach init step s \<Longrightarrow> inv s"
  by (induction rule: reach.induct) (auto intro: inv_init inv_step)

lemma reach_inv_step: "reach init step s \<Longrightarrow> step s s' \<Longrightarrow> inv s \<and> inv s'"
  using inv_reach inv_step by blast

end

end
