(* ===== verification/DownloadSteps.thy ===== *)
theory DownloadSteps
  imports Download StateMachine
begin

section \<open>Downloads as a state machine\<close>

text \<open>
  Any number of callers of \<^verbatim>\<open>Start\<close> and \<^verbatim>\<open>Cancel\<close> and of download goroutines, interleaved at the
  critical sections of the manager. \<open>dp_pc\<close> says where the goroutine of a job is: spawned, between
  the first and the last update of \<^verbatim>\<open>run\<close>, or in front of the deferred \<^verbatim>\<open>clearActive\<close>. New job ids
  are taken to be new, as 24 random bits and the second of the clock make likely.
\<close>

datatype dl_pc = PcSpawned | PcDownloading | PcFinished

record dl_system =
  ds_table :: dl_table
  ds_pc :: "string \<Rightarrow> dl_pc option"

definition dl_init :: "dl_system \<Rightarrow> bool" where
  "dl_init s \<longleftrightarrow> s = \<lparr>ds_table = new_manager, ds_pc = (\<lambda>_. None)\<rparr>"

inductive dl_step :: "dl_system \<Rightarrow> dl_system \<Rightarrow> bool" where
  step_spawn: "start_commit nid now req plan (ds_table s) = (Spawned job u, t') \<Longrightarrow> dl_jobs (ds_table s) nid = None \<Longrightarrow>
    dl_step s \<lparr>ds_table = t', ds_pc = (ds_pc s)(nid \<mapsto> PcSpawned)\<rparr>"
| step_returned: "start_commit nid now req plan (ds_table s) = (Returned job, t') \<Longrightarrow> dl_jobs (ds_table s) nid = None \<Longrightarrow>
    dl_step s (s\<lparr>ds_table := t'\<rparr>)"
| step_cancel: "dl_cancel_job None now i (ds_table s) = (Inr job, t') \<Longrightarrow> dl_step s (s\<lparr>ds_table := t'\<rparr>)"
| step_begin: "ds_pc s i = Some PcSpawned \<Longrightarrow>
    dl_step s \<lparr>ds_table = dl_update i (mark_running now) (ds_table s), ds_pc = (ds_pc s)(i \<mapsto> PcDownloading)\<rparr>"
| step_total: "ds_pc s i = Some PcDownloading \<Longrightarrow> dl_step s (s\<lparr>ds_table := dl_update i (set_total n) (ds_table s)\<rparr>)"
| step_progress: "ds_pc s i = Some PcDownloading \<Longrightarrow> 0 \<le> n \<Longrightarrow>
    dl_step s (s\<lparr>ds_table := dl_update i (add_progress n) (ds_table s)\<rparr>)"
| step_finish: "ds_pc s i = Some PcDownloading \<Longrightarrow>
    dl_step s \<lparr>ds_table = dl_update i (finish_job now err) (ds_table s), ds_pc = (ds_pc s)(i \<mapsto> PcFinished)\<rparr>"
| step_clear: "ds_pc s i = Some PcFinished \<Longrightarrow>
    dl_step s \<lparr>ds_table = clear_active i (ds_table s), ds_pc = (ds_pc s)(i := None)\<rparr>"

inductive_cases dl_stepE: "dl_step s s'"

definition pc_state_ok :: "dl_pc \<Rightarrow> dl_state \<Rightarrow> bool" where
  "pc_state_ok pc st \<longleftrightarrow>
     (case pc of
        PcSpawned \<Rightarrow> st = DlQueued \<or> st = DlCancelled
      | PcDownloading \<Rightarrow> st = DlRunning \<or> st = DlCancelled
      | PcFinished \<Rightarrow> st = DlCompleted \<or> st = DlFailed \<or> st = DlCancelled)"

text \<open>
  The invariant: a live goroutine has a job in a fitting state whose target is active for it; an
  active target has a live goroutine; a job without one is not unfinished.
\<close>

definition dl_inv :: "dl_system \<Rightarrow> bool" where
  "dl_inv s \<longleftrightarrow>
     (\<forall>i job. dl_jobs (ds_table s) i = Some job \<longrightarrow> job_id job = i) \<and>
     (\<forall>i pc. ds_pc s i = Some pc \<longrightarrow>
        (\<exists>job. dl_jobs (ds_table s) i = Some job \<and> pc_state_ok pc (job_state job) \<and>
           dl_active (ds_table s) (job_target job) = Some i)) \<and>
     (\<forall>i job. dl_jobs (ds_table s) i = Some job \<longrightarrow> ds_pc s i = None \<longrightarrow> \<not> unfinished (job_state job)) \<and>
     (\<forall>p i. dl_active (ds_table s) p = Some i \<longrightarrow>
        (\<exists>pc job. ds_pc s i = Some pc \<and> dl_jobs (ds_table s) i = Some job \<and> job_target job = p)) \<and>
     (\<forall>i. i \<in> dl_cancel (ds_table s) \<longleftrightarrow> ds_pc s i \<noteq> None)"

lemma dl_invI:
  assumes "\<And>i job. dl_jobs (ds_table s) i = Some job \<Longrightarrow> job_id job = i"
    and "\<And>i pc. ds_pc s i = Some pc \<Longrightarrow>
        \<exists>job. dl_jobs (ds_table s) i = Some job \<and> pc_state_ok pc (job_state job) \<and>
           dl_active (ds_table s) (job_target job) = Some i"
    and "\<And>i job. dl_jobs (ds_table s) i = Some job \<Longrightarrow> ds_pc s i = None \<Longrightarrow> \<not> unfinished (job_state job)"
    and "\<And>p i. dl_active (ds_table s) p = Some i \<Longrightarrow>
        \<exists>pc job. ds_pc s i = Some pc \<and> dl_jobs (ds_table s) i = Some job \<and> job_target job = p"
    and "\<And>i. i \<in> dl_cancel (ds_table s) \<longleftrightarrow> ds_pc s i \<noteq> None"
  shows "dl_inv s"
  unfolding dl_inv_def using assms by (intro conjI allI impI) blast+

lemma dl_invD:
  assumes "dl_inv s"
  shows "dl_jobs (ds_table s) i = Some job \<Longrightarrow> job_id job = i"
    and "ds_pc s i = Some pc \<Longrightarrow>
        \<exists>job. dl_jobs (ds_table s) i = Some job \<and> pc_state_ok pc (job_state job) \<and>
           dl_active (ds_table s) (job_target job) = Some i"
    and "dl_jobs (ds_table s) i = Some job \<Longrightarrow> ds_pc s i = None \<Longrightarrow> \<not> unfinished (job_state job)"
    and "dl_active (ds_table s) p = Some i \<Longrightarrow>
        \<exists>pc job. ds_pc s i = Some pc \<and> dl_jobs (ds_table s) i = Some job \<and> job_target job = p"
    and "i \<in> dl_cancel (ds_table s) \<longleftrightarrow> ds_pc s i \<noteq> None"
  using assms unfolding dl_inv_def by blast+

text \<open>A live goroutine is the only one for its target.\<close>

lemma dl_inv_unique:
  assumes "dl_inv s" "ds_pc s i = Some pc" "dl_jobs (ds_table s) i = Some job"
    and "ds_pc s k = Some pc'" "dl_jobs (ds_table s) k = Some job'" "job_target job' = job_target job"
  shows "k = i"
  using dl_invD(2) [OF assms(1,2)] dl_invD(2) [OF assms(1,4)] assms(3,5,6) by auto

text \<open>What a step does to the table, case by case: a new job, an update of a job that keeps its
  target, or a freed target.\<close>

lemma start_spawned:
  assumes "start_commit nid now req plan t = (Spawned job u, t')"
  obtains f where "plan = PlanFetch f u" "job = queued_job nid req f" "dl_active t (fl_local_path f) = None"
    "t' = t\<lparr>dl_jobs := (dl_jobs t)(nid \<mapsto> job), dl_active := (dl_active t)(fl_local_path f \<mapsto> nid),
      dl_cancel := insert nid (dl_cancel t)\<rparr>"
proof (cases plan)
  case (PlanPresent f)
  with assms show thesis by (simp add: start_commit_def Let_def)
next
  case (PlanFetch f v)
  show thesis
  proof (cases "dl_active t (fl_local_path f)")
    case None
    with assms PlanFetch show thesis by (intro that [of f]) (auto simp: start_commit_def Let_def queued_job_def)
  next
    case (Some e)
    with assms PlanFetch show thesis by (auto simp: start_commit_def split: option.splits)
  qed
qed

lemma start_returned:
  assumes "start_commit nid now req plan t = (Returned job, t')"
  obtains (present) f where "plan = PlanPresent f" "job = already_downloaded_job nid now req f"
      "t' = t\<lparr>dl_jobs := (dl_jobs t)(nid \<mapsto> job)\<rparr>"
    | (existing) f u i where "plan = PlanFetch f u" "dl_active t (fl_local_path f) = Some i" "dl_jobs t i = Some job" "t' = t"
proof (cases plan)
  case (PlanPresent f)
  with assms show thesis
    by (intro present [of f]) (auto simp: start_commit_def Let_def already_downloaded_job_def)
next
  case (PlanFetch f u)
  show thesis
  proof (cases "dl_active t (fl_local_path f)")
    case None
    with assms PlanFetch show thesis by (simp add: start_commit_def Let_def)
  next
    case (Some i)
    show thesis
    proof (cases "dl_jobs t i")
      case None
      with assms PlanFetch Some show thesis by (simp add: start_commit_def)
    next
      case job: (Some jb)
      with assms PlanFetch Some show thesis by (intro existing [of f u i]) (simp_all add: start_commit_def)
    qed
  qed
qed

lemma cancel_Inr:
  assumes "dl_cancel_job None now i t = (Inr job', t')"
  obtains job where "dl_jobs t i = Some job" "unfinished (job_state job)"
    "job' = job\<lparr>job_state := DlCancelled, job_completed := now\<rparr>"
    "dl_jobs t' = (dl_jobs t)(i \<mapsto> job')" "dl_active t' = dl_active t" "dl_cancel t' = dl_cancel t"
    "dl_ctx_done t' = (if i \<in> dl_cancel t then insert i (dl_ctx_done t) else dl_ctx_done t)"
  using assms by (auto simp: dl_cancel_job_def Let_def split: option.splits if_splits)

lemma update_Some:
  "dl_jobs t i = Some job \<Longrightarrow> dl_update i f t = t\<lparr>dl_jobs := (dl_jobs t)(i \<mapsto> f job)\<rparr>"
  by (simp add: dl_update_def)

text \<open>An update of a live job that keeps id and target keeps the invariant if the new state fits the new
  place of the goroutine.\<close>

lemma dl_inv_update:
  assumes inv: "dl_inv s" and pc: "ds_pc s i \<noteq> None" and job: "dl_jobs (ds_table s) i = Some job"
    and keep: "job_id job' = job_id job" "job_target job' = job_target job" and ok: "pc_state_ok pc' (job_state job')"
    and t': "dl_jobs t' = (dl_jobs (ds_table s))(i \<mapsto> job')" "dl_active t' = dl_active (ds_table s)"
      "dl_cancel t' = dl_cancel (ds_table s)"
  shows "dl_inv \<lparr>ds_table = t', ds_pc = (ds_pc s)(i \<mapsto> pc')\<rparr>"
proof (rule dl_invI, simp_all only: dl_system.simps t')
  have a: "dl_active (ds_table s) (job_target job) = Some i" using pc dl_invD(2) [OF inv] job by fastforce
  show "job_id jb = k" if "((dl_jobs (ds_table s))(i \<mapsto> job')) k = Some jb" for k jb
    using that dl_invD(1) [OF inv] job keep by (auto split: if_splits)
  show "\<exists>jb. ((dl_jobs (ds_table s))(i \<mapsto> job')) k = Some jb \<and> pc_state_ok pk (job_state jb) \<and>
      dl_active (ds_table s) (job_target jb) = Some k" if "((ds_pc s)(i \<mapsto> pc')) k = Some pk" for k pk
    using that dl_invD(2) [OF inv, of k] ok keep a by (auto split: if_splits)
  show "\<not> unfinished (job_state jb)"
    if "((dl_jobs (ds_table s))(i \<mapsto> job')) k = Some jb" "((ds_pc s)(i \<mapsto> pc')) k = None" for k jb
    using that dl_invD(3) [OF inv, of k] by (auto split: if_splits)
  show "\<exists>pc job. ((ds_pc s)(i \<mapsto> pc')) k = Some pc \<and> ((dl_jobs (ds_table s))(i \<mapsto> job')) k = Some job \<and> job_target job = p"
    if "dl_active (ds_table s) p = Some k" for p k
    using that dl_invD(4) [OF inv that] job keep by auto
  show "k \<in> dl_cancel (ds_table s) \<longleftrightarrow> ((ds_pc s)(i \<mapsto> pc')) k \<noteq> None" for k
    using dl_invD(5) [OF inv, of k] pc by auto
qed

lemma update_fields [simp]:
  "job_id (mark_running now job) = job_id job" "job_target (mark_running now job) = job_target job"
  "job_id (set_total n job) = job_id job" "job_target (set_total n job) = job_target job"
  "job_state (set_total n job) = job_state job"
  "job_id (add_progress n job) = job_id job" "job_target (add_progress n job) = job_target job"
  "job_state (add_progress n job) = job_state job"
  "job_id (finish_job now err job) = job_id job" "job_target (finish_job now err job) = job_target job"
  by (simp_all add: mark_running_def set_total_def add_progress_def finish_job_def Let_def split: option.splits)

lemma mark_running_state: "pc_state_ok PcSpawned (job_state job) \<Longrightarrow> pc_state_ok PcDownloading (job_state (mark_running now job))"
  by (auto simp: pc_state_ok_def mark_running_def)

lemma finish_state: "pc_state_ok PcFinished (job_state (finish_job now err job))"
  by (auto simp: pc_state_ok_def finish_job_def Let_def split: option.splits)

lemma same_pc: "ds_pc s i = Some pc \<Longrightarrow> s\<lparr>ds_table := t\<rparr> = \<lparr>ds_table = t, ds_pc = (ds_pc s)(i \<mapsto> pc)\<rparr>"
  by (cases s) (auto simp: fun_upd_idem)

text \<open>A new job with a new id, spawned or present.\<close>

lemma dl_inv_spawn:
  assumes inv: "dl_inv s" and new: "dl_jobs (ds_table s) nid = None"
    and free: "dl_active (ds_table s) (job_target job) = None"
    and job: "job_id job = nid" "job_state job = DlQueued"
  shows "dl_inv \<lparr>ds_table = (ds_table s)\<lparr>dl_jobs := (dl_jobs (ds_table s))(nid \<mapsto> job),
      dl_active := (dl_active (ds_table s))(job_target job \<mapsto> nid), dl_cancel := insert nid (dl_cancel (ds_table s))\<rparr>,
    ds_pc = (ds_pc s)(nid \<mapsto> PcSpawned)\<rparr>" (is "dl_inv ?s")
proof (rule dl_invI)
  have np: "ds_pc s nid = None" using dl_invD(2) [OF inv, of nid] new by (cases "ds_pc s nid") auto
  show "job_id jb = k" if "dl_jobs (ds_table ?s) k = Some jb" for k jb
    using that dl_invD(1) [OF inv, of k] job(1) by (auto split: if_splits)
  show "\<exists>jb. dl_jobs (ds_table ?s) k = Some jb \<and> pc_state_ok pk (job_state jb) \<and>
      dl_active (ds_table ?s) (job_target jb) = Some k" if "ds_pc ?s k = Some pk" for k pk
  proof (cases "k = nid")
    case True
    with that job show ?thesis by (simp add: pc_state_ok_def)
  next
    case False
    with that dl_invD(2) [OF inv, of k pk] obtain jb where jb: "dl_jobs (ds_table s) k = Some jb"
      "pc_state_ok pk (job_state jb)" "dl_active (ds_table s) (job_target jb) = Some k" by auto
    from jb(3) free have "job_target jb \<noteq> job_target job" by auto
    with False jb show ?thesis by simp
  qed
  show "\<not> unfinished (job_state jb)" if "dl_jobs (ds_table ?s) k = Some jb" "ds_pc ?s k = None" for k jb
    using that dl_invD(3) [OF inv, of k jb] by (auto split: if_splits)
  show "\<exists>pc jb. ds_pc ?s k = Some pc \<and> dl_jobs (ds_table ?s) k = Some jb \<and> job_target jb = p"
    if "dl_active (ds_table ?s) p = Some k" for p k
    using that dl_invD(4) [OF inv, of p k] new by (cases "p = job_target job") auto
  show "k \<in> dl_cancel (ds_table ?s) \<longleftrightarrow> ds_pc ?s k \<noteq> None" for k
    using dl_invD(5) [OF inv, of k] by auto
qed

lemma dl_inv_present:
  assumes inv: "dl_inv s" and new: "dl_jobs (ds_table s) nid = None"
    and job: "job_id job = nid" "\<not> unfinished (job_state job)"
  shows "dl_inv (s\<lparr>ds_table := (ds_table s)\<lparr>dl_jobs := (dl_jobs (ds_table s))(nid \<mapsto> job)\<rparr>\<rparr>)" (is "dl_inv ?s")
proof (rule dl_invI)
  have np: "ds_pc s nid = None" using dl_invD(2) [OF inv, of nid] new by (cases "ds_pc s nid") auto
  show "job_id jb = k" if "dl_jobs (ds_table ?s) k = Some jb" for k jb
    using that dl_invD(1) [OF inv, of k] job(1) by (auto split: if_splits)
  show "\<exists>jb. dl_jobs (ds_table ?s) k = Some jb \<and> pc_state_ok pk (job_state jb) \<and>
      dl_active (ds_table ?s) (job_target jb) = Some k" if "ds_pc ?s k = Some pk" for k pk
    using that dl_invD(2) [OF inv, of k pk] np by (cases "k = nid") auto
  show "\<not> unfinished (job_state jb)" if "dl_jobs (ds_table ?s) k = Some jb" "ds_pc ?s k = None" for k jb
    using that dl_invD(3) [OF inv, of k jb] job(2) by (auto split: if_splits)
  show "\<exists>pc jb. ds_pc ?s k = Some pc \<and> dl_jobs (ds_table ?s) k = Some jb \<and> job_target jb = p"
    if "dl_active (ds_table ?s) p = Some k" for p k
    using that dl_invD(4) [OF inv, of p k] new by auto
  show "k \<in> dl_cancel (ds_table ?s) \<longleftrightarrow> ds_pc ?s k \<noteq> None" for k
    using dl_invD(5) [OF inv, of k] by auto
qed

lemma dl_inv_clear:
  assumes inv: "dl_inv s" and pc: "ds_pc s i = Some PcFinished"
  shows "dl_inv \<lparr>ds_table = clear_active i (ds_table s), ds_pc = (ds_pc s)(i := None)\<rparr>"
proof -
  from dl_invD(2) [OF inv pc] obtain job where j: "dl_jobs (ds_table s) i = Some job"
    "pc_state_ok PcFinished (job_state job)" "dl_active (ds_table s) (job_target job) = Some i" by blast
  have t: "clear_active i (ds_table s) = (ds_table s)\<lparr>dl_active := (dl_active (ds_table s))(job_target job := None),
      dl_cancel := dl_cancel (ds_table s) - {i}\<rparr>"
    using j by (simp add: clear_active_def)
  let ?s = "\<lparr>ds_table = (ds_table s)\<lparr>dl_active := (dl_active (ds_table s))(job_target job := None),
      dl_cancel := dl_cancel (ds_table s) - {i}\<rparr>, ds_pc = (ds_pc s)(i := None)\<rparr>"
  show ?thesis unfolding t
  proof (rule dl_invI)
    show "job_id jb = k" if "dl_jobs (ds_table ?s) k = Some jb" for k jb
      using that dl_invD(1) [OF inv, of k] by auto
    show "\<exists>jb. dl_jobs (ds_table ?s) k = Some jb \<and> pc_state_ok pk (job_state jb) \<and>
        dl_active (ds_table ?s) (job_target jb) = Some k" if pk: "ds_pc ?s k = Some pk" for k pk
    proof -
      from pk have k: "k \<noteq> i" "ds_pc s k = Some pk" by (auto split: if_splits)
      from dl_invD(2) [OF inv k(2)] obtain jb where jb: "dl_jobs (ds_table s) k = Some jb"
        "pc_state_ok pk (job_state jb)" "dl_active (ds_table s) (job_target jb) = Some k" by blast
      with k(1) j(3) have "job_target jb \<noteq> job_target job" by auto
      with jb show ?thesis by simp
    qed
    show "\<not> unfinished (job_state jb)" if "dl_jobs (ds_table ?s) k = Some jb" "ds_pc ?s k = None" for k jb
      using that dl_invD(3) [OF inv, of k jb] j by (cases "k = i") (auto simp: pc_state_ok_def unfinished_def)
    show "\<exists>pc jb. ds_pc ?s k = Some pc \<and> dl_jobs (ds_table ?s) k = Some jb \<and> job_target jb = p"
      if "dl_active (ds_table ?s) p = Some k" for p k
      using that dl_invD(4) [OF inv, of p k] j(1) by (cases "p = job_target job") auto
    show "k \<in> dl_cancel (ds_table ?s) \<longleftrightarrow> ds_pc ?s k \<noteq> None" for k
      using dl_invD(5) [OF inv, of k] by auto
  qed
qed

lemma dl_inv_step:
  assumes inv: "dl_inv s" and step: "dl_step s s'"
  shows "dl_inv s'"
  using step
proof cases
  case (step_spawn nid now req plan job u t')
  from step_spawn(2) obtain f where f: "job = queued_job nid req f" "dl_active (ds_table s) (fl_local_path f) = None"
    "t' = (ds_table s)\<lparr>dl_jobs := (dl_jobs (ds_table s))(nid \<mapsto> job),
      dl_active := (dl_active (ds_table s))(fl_local_path f \<mapsto> nid), dl_cancel := insert nid (dl_cancel (ds_table s))\<rparr>"
    by (rule start_spawned)
  with dl_inv_spawn [OF inv step_spawn(3), of job] show ?thesis
    unfolding step_spawn(1) by (simp add: queued_job_def)
next
  case (step_returned nid now req plan job t')
  from step_returned(2) show ?thesis
  proof (cases rule: start_returned)
    case (present f)
    with dl_inv_present [OF inv step_returned(3), of job] show ?thesis
      unfolding step_returned(1) by (simp add: already_downloaded_job_def unfinished_def)
  next
    case (existing f u i)
    with inv step_returned(1) show ?thesis by simp
  qed
next
  case (step_cancel now i job' t')
  from step_cancel(2) obtain job where c: "dl_jobs (ds_table s) i = Some job" "unfinished (job_state job)"
    "job' = job\<lparr>job_state := DlCancelled, job_completed := now\<rparr>"
    "dl_jobs t' = (dl_jobs (ds_table s))(i \<mapsto> job')" "dl_active t' = dl_active (ds_table s)"
    "dl_cancel t' = dl_cancel (ds_table s)" by (rule cancel_Inr)
  obtain pc where pc: "ds_pc s i = Some pc" using dl_invD(3) [OF inv c(1)] c(2) by blast
  have "pc_state_ok pc DlCancelled" by (simp add: pc_state_ok_def split: dl_pc.split)
  with dl_inv_update [OF inv _ c(1), of job' pc t'] c pc show ?thesis
    unfolding step_cancel(1) by (simp add: same_pc [OF pc])
next
  case (step_begin i now)
  from dl_invD(2) [OF inv step_begin(2)] obtain job where j: "dl_jobs (ds_table s) i = Some job"
    "pc_state_ok PcSpawned (job_state job)" by blast
  show ?thesis unfolding step_begin(1) update_Some [OF j(1)]
    by (rule dl_inv_update [OF inv _ j(1)]) (simp_all add: step_begin(2) mark_running_state [OF j(2)])
next
  case (step_total i n)
  from dl_invD(2) [OF inv step_total(2)] obtain job where j: "dl_jobs (ds_table s) i = Some job"
    "pc_state_ok PcDownloading (job_state job)" by blast
  show ?thesis unfolding step_total(1) update_Some [OF j(1)] same_pc [OF step_total(2)]
    by (rule dl_inv_update [OF inv _ j(1)]) (simp_all add: step_total(2) j(2))
next
  case (step_progress i n)
  from dl_invD(2) [OF inv step_progress(2)] obtain job where j: "dl_jobs (ds_table s) i = Some job"
    "pc_state_ok PcDownloading (job_state job)" by blast
  show ?thesis unfolding step_progress(1) update_Some [OF j(1)] same_pc [OF step_progress(2)]
    by (rule dl_inv_update [OF inv _ j(1)]) (simp_all add: step_progress(2) j(2))
next
  case (step_finish i now err)
  from dl_invD(2) [OF inv step_finish(2)] obtain job where j: "dl_jobs (ds_table s) i = Some job" by blast
  show ?thesis unfolding step_finish(1) update_Some [OF j]
    by (rule dl_inv_update [OF inv _ j]) (simp_all add: step_finish(2) finish_state)
next
  case (step_clear i)
  show ?thesis unfolding step_clear(1) by (rule dl_inv_clear [OF inv step_clear(2)])
qed

interpretation downloads: inductive_invariant dl_init dl_step dl_inv
proof
  show "dl_inv s" if "dl_init s" for s
    using that by (auto simp: dl_init_def dl_inv_def new_manager_def)
qed (rule dl_inv_step)

end
