(* ===== verification/DownloadProps.thy ===== *)
theory DownloadProps
  imports DownloadFiles DownloadSteps
begin

section \<open>Properties of downloads\<close>

text \<open>
  One download per target under every interleaving, final states stay final, a target is free once its
  goroutine is gone, and on disk a model file is either the old one or complete.
\<close>


definition demo_file :: "string \<Rightarrow> catalog_file" where
  "demo_file p = \<lparr>fl_filename = ''m.gguf'', fl_quant = [], fl_size_bytes = 9, fl_downloadable = True, fl_local_path = p,
     fl_exists = False, fl_est_ram_bytes = 0, fl_est_vram_bytes = 0, fl_fit_level = [], fl_fit_reason = []\<rparr>"

definition demo_request :: dl_request where
  "demo_request = \<lparr>rq_url = ''u'', rq_filename = ''m.gguf'', rq_force = False\<rparr>"

definition demo_job :: dl_job where "demo_job = queued_job ''a'' demo_request (demo_file ''/m'')"

definition demo_plan :: start_plan where "demo_plan = PlanFetch (demo_file ''/m'') ''http''"

definition demo_spawned :: dl_system where
  "demo_spawned = \<lparr>ds_table = snd (start_commit ''a'' ''now'' demo_request demo_plan new_manager), ds_pc = [''a'' \<mapsto> PcSpawned]\<rparr>"

lemma demo_spawned_reach: "reach dl_init dl_step demo_spawned"
proof (rule reach_step [OF reach_init])
  let ?s = "\<lparr>ds_table = new_manager, ds_pc = (\<lambda>_. None)\<rparr>"
  show "dl_init ?s" by (simp add: dl_init_def)
  show "dl_step ?s demo_spawned"
    using dl_step.step_spawn [of "''a''" "''now''" demo_request demo_plan ?s demo_job "''http''"
        "snd (start_commit ''a'' ''now'' demo_request demo_plan new_manager)"]
    by (simp add: demo_spawned_def start_commit_def demo_plan_def new_manager_def Let_def demo_job_def queued_job_def)
qed

lemma demo_spawned_job: "dl_jobs (ds_table demo_spawned) ''a'' = Some demo_job" "unfinished (job_state demo_job)"
  by (simp_all add: demo_spawned_def start_commit_def demo_plan_def new_manager_def Let_def demo_job_def
      queued_job_def unfinished_def)


text \<open>A job that is completed, failed, cancelled or already downloaded keeps that state and its target in every
  further step of the system: a cancelled download never turns into a completed one.\<close>

theorem final_states_stay:
  assumes "reach dl_init dl_step s" "dl_step s s'"
    and "dl_jobs (ds_table s) i = Some job" "\<not> unfinished (job_state job)"
  shows "\<exists>job'. dl_jobs (ds_table s') i = Some job' \<and> job_state job' = job_state job \<and> job_target job' = job_target job"
  using assms(2)
proof cases
  case (step_spawn nid now req plan job1 u t')
  from step_spawn(2) show ?thesis
    by (rule start_spawned) (use step_spawn assms(3) in auto)
next
  case (step_returned nid now req plan job1 t')
  from step_returned(2) show ?thesis
    by (cases rule: start_returned) (use step_returned assms(3) in auto)
next
  case (step_cancel now k job1 t')
  from step_cancel(2) show ?thesis
    by (rule cancel_Inr) (use step_cancel assms(3,4) in \<open>auto simp: fun_upd_def\<close>)
next
  case (step_begin k now)
  note inv = downloads.inv_reach [OF assms(1)]
  from dl_invD(2) [OF inv step_begin(2)] obtain jb where jb: "dl_jobs (ds_table s) k = Some jb"
    "pc_state_ok PcSpawned (job_state jb)" by blast
  with assms(3,4) step_begin show ?thesis
    by (auto simp: dl_update_def mark_running_def pc_state_ok_def unfinished_def)
next
  case (step_total k n)
  with assms(3) show ?thesis by (auto simp: dl_update_def split: option.splits)
next
  case (step_progress k n)
  with assms(3) show ?thesis by (auto simp: dl_update_def split: option.splits)
next
  case (step_finish k now err)
  note inv = downloads.inv_reach [OF assms(1)]
  from dl_invD(2) [OF inv step_finish(2)] obtain jb where jb: "dl_jobs (ds_table s) k = Some jb"
    "pc_state_ok PcDownloading (job_state jb)" by blast
  with assms(3,4) step_finish show ?thesis
    by (auto simp: dl_update_def finish_job_def pc_state_ok_def unfinished_def Let_def)
next
  case (step_clear k)
  with assms(3) show ?thesis by (auto simp: clear_active_def split: option.splits)
qed

definition demo_cancelled :: dl_system where
  "demo_cancelled = demo_spawned\<lparr>ds_table := snd (dl_cancel_job None ''now'' ''a'' (ds_table demo_spawned))\<rparr>"

lemma demo_cancel_runs:
  "dl_cancel_job None ''now'' ''a'' (ds_table demo_spawned) =
     (Inr (demo_job\<lparr>job_state := DlCancelled, job_completed := ''now''\<rparr>), ds_table demo_cancelled)"
  by (simp add: demo_cancelled_def dl_cancel_job_def demo_spawned_job Let_def)

lemma demo_cancelled_reach: "reach dl_init dl_step demo_cancelled"
  using reach_step [OF demo_spawned_reach dl_step.step_cancel [OF demo_cancel_runs]]
  by (simp add: demo_cancelled_def)

lemma demo_cancelled_job:
  "dl_jobs (ds_table demo_cancelled) ''a'' = Some (demo_job\<lparr>job_state := DlCancelled, job_completed := ''now''\<rparr>)"
  using demo_cancel_runs by (rule cancel_Inr) (simp add: demo_spawned_job(1))

theorem final_states_stay_witness:
  "\<exists>job'. dl_jobs (dl_update ''a'' (mark_running ''t'') (ds_table demo_cancelled)) ''a'' = Some job' \<and>
     job_state job' = DlCancelled \<and> job_target job' = ''/m''"
proof -
  have pc: "ds_pc demo_cancelled ''a'' = Some PcSpawned" by (simp add: demo_cancelled_def demo_spawned_def)
  from final_states_stay [OF demo_cancelled_reach dl_step.step_begin [OF pc, of "''t''"] demo_cancelled_job]
  show ?thesis by (simp add: unfinished_def demo_job_def queued_job_def demo_file_def)
qed

text \<open>C13: \<^verbatim>\<open>Start\<close> of a file that is to be fetched starts a new goroutine exactly when no goroutine is alive for its
  target: each finished, failed or cancelled download frees its target once its goroutine has ended.\<close>

theorem start_spawns_iff_target_free:
  assumes "reach dl_init dl_step s"
  shows "(\<exists>job t'. start_commit nid now req (PlanFetch f u) (ds_table s) = (Spawned job u, t')) \<longleftrightarrow>
    (\<forall>i job. dl_jobs (ds_table s) i = Some job \<longrightarrow> job_target job = fl_local_path f \<longrightarrow> ds_pc s i = None)"
proof -
  from downloads.inv_reach [OF assms] have inv: "dl_inv s" .
  have "(\<exists>job t'. start_commit nid now req (PlanFetch f u) (ds_table s) = (Spawned job u, t')) \<longleftrightarrow>
      dl_active (ds_table s) (fl_local_path f) = None"
    by (auto simp: start_commit_def Let_def split: option.splits)
  also have "\<dots> \<longleftrightarrow> (\<forall>i job. dl_jobs (ds_table s) i = Some job \<longrightarrow> job_target job = fl_local_path f \<longrightarrow> ds_pc s i = None)"
  proof
    assume none: "dl_active (ds_table s) (fl_local_path f) = None"
    show "\<forall>i job. dl_jobs (ds_table s) i = Some job \<longrightarrow> job_target job = fl_local_path f \<longrightarrow> ds_pc s i = None"
    proof (intro allI impI)
      fix i job assume j: "dl_jobs (ds_table s) i = Some job" "job_target job = fl_local_path f"
      show "ds_pc s i = None"
      proof (rule ccontr)
        assume "ds_pc s i \<noteq> None"
        then obtain pc where "ds_pc s i = Some pc" by blast
        from dl_invD(2) [OF inv this] j none show False by auto
      qed
    qed
  next
    assume all: "\<forall>i job. dl_jobs (ds_table s) i = Some job \<longrightarrow> job_target job = fl_local_path f \<longrightarrow> ds_pc s i = None"
    show "dl_active (ds_table s) (fl_local_path f) = None"
    proof (rule ccontr)
      assume "dl_active (ds_table s) (fl_local_path f) \<noteq> None"
      then obtain i where "dl_active (ds_table s) (fl_local_path f) = Some i" by blast
      from dl_invD(4) [OF inv this] all show False by auto
    qed
  qed
  finally show ?thesis .
qed

theorem start_spawns_iff_target_free_witness:
  "(\<exists>job t'. start_commit ''b'' ''now'' demo_request (PlanFetch (demo_file ''/m'') ''http'') (ds_table demo_spawned) = (Spawned job ''http'', t'))
     \<longleftrightarrow> (\<forall>i job. dl_jobs (ds_table demo_spawned) i = Some job \<longrightarrow>
            job_target job = fl_local_path (demo_file ''/m'') \<longrightarrow> ds_pc demo_spawned i = None)"
  by (rule start_spawns_iff_target_free [OF demo_spawned_reach])

text \<open>A download that is started again between its cancellation and the end of its goroutine is not started:
  \<^verbatim>\<open>Start\<close> returns the cancelled job without an error and changes nothing.\<close>

theorem restart_after_cancel_returns_cancelled:
  assumes "reach dl_init dl_step s" "dl_jobs (ds_table s) i = Some job" "unfinished (job_state job)"
    and "dl_cancel_job None now i (ds_table s) = (Inr job1, t1)" "fl_local_path f = job_target job"
  shows "\<exists>job'. start_commit nid now' req (PlanFetch f u) t1 = (Returned job', t1) \<and>
    job_id job' = i \<and> job_state job' = DlCancelled"
proof -
  from downloads.inv_reach [OF assms(1)] have inv: "dl_inv s" .
  from assms(4) obtain jb where c: "dl_jobs (ds_table s) i = Some jb" "job1 = jb\<lparr>job_state := DlCancelled, job_completed := now\<rparr>"
    "dl_jobs t1 = (dl_jobs (ds_table s))(i \<mapsto> job1)" "dl_active t1 = dl_active (ds_table s)" by (rule cancel_Inr)
  from dl_invD(3) [OF inv assms(2)] assms(3) obtain pc where "ds_pc s i = Some pc" by blast
  from dl_invD(2) [OF inv this] assms(2) have "dl_active (ds_table s) (job_target job) = Some i" by auto
  with c assms(2,5) dl_invD(1) [OF inv assms(2)] show ?thesis by (auto simp: start_commit_def)
qed

theorem restart_after_cancel_returns_cancelled_witness:
  "\<exists>job'. start_commit ''b'' ''later'' demo_request (PlanFetch (demo_file ''/m'') ''http'') (ds_table demo_cancelled) =
     (Returned job', ds_table demo_cancelled) \<and> job_id job' = ''a'' \<and> job_state job' = DlCancelled"
  by (rule restart_after_cancel_returns_cancelled [OF demo_spawned_reach demo_spawned_job demo_cancel_runs])
    (simp add: demo_job_def queued_job_def)

text \<open>C14: The files of a download, whatever system calls fail: at every moment the target holds what it held before
  or the whole body of the response, and it holds the whole body if the download ends without error.\<close>

theorem download_atomic:
  fixes w :: "'z dl_os_scheme"
  assumes "dl_jobs (dl_tab w) i = Some job" "dir_of (job_target job) \<noteq> job_target job" "honest_faults w"
    and "download i (Inr resp) ctx w = (r, w')"
  shows "(r = Inr () \<longrightarrow> (\<exists>m. os_files w' (job_target job) = Some (RegFile (body_data (hr_body resp)) m))) \<and>
    (\<forall>u \<in> on_the_way w w'. u (job_target job) = os_files w (job_target job) \<or>
       (\<exists>m. u (job_target job) = Some (RegFile (body_data (hr_body resp)) m)))"
proof -
  let ?p = "job_target job" and ?c = "body_data (hr_body resp)"
  have run: "download_steps i ?p (Inr resp) ctx w = (r, w')"
    using assms(4) download_as_steps [OF assms(1)] by simp
  have pre: "idle_target ?p (os_files w ?p) (os_trace w) w"
    using assms(3) by (simp add: idle_target_def stays_def)
  note v = valid_download_steps [OF assms(2) refl, of "os_files w ?p" "os_trace w" i resp ctx]
  have "target_outcome ?p (os_files w ?p) (os_trace w) ?c w' \<and>
      (r = Inr () \<longrightarrow> done_target ?p (os_files w ?p) (os_trace w) ?c w')"
  proof (cases r)
    case (Inl e)
    from validD_Inl [OF v pre run [unfolded Inl]] Inl show ?thesis by simp
  next
    case (Inr x)
    from validD_Inr [OF v pre run [unfolded Inr]] Inr show ?thesis by (simp add: target_outcome_def)
  qed
  then show ?thesis
    by (auto simp: target_outcome_def done_target_def stays_def on_the_way_trace)
qed

definition demo_download_world :: dl_os where
  "demo_download_world = os.extend (one_file (\<lambda>t. if t = 10 then Some (Plain [Lit ''disk full''], 1) else None))
     \<lparr>dl_tab = new_manager\<lparr>dl_jobs := [''a'' \<mapsto> queued_job ''a'' demo_request (demo_file ''/d/m'')]\<rparr>\<rparr>"

definition demo_response :: http_response where
  "demo_response = \<lparr>hr_status = 200, hr_length = 9, hr_body = [(''GGUF'', ReadMore), (''model'', ReadEOF)]\<rparr>"

theorem download_atomic_witness:
  "let w = demo_download_world; rw = download ''a'' (Inr demo_response) None w in
   (fst rw = Inr () \<longrightarrow> (\<exists>m. os_files (snd rw) ''/d/m'' = Some (RegFile (body_data (hr_body demo_response)) m))) \<and>
    (\<forall>u \<in> on_the_way w (snd rw). u ''/d/m'' = os_files w ''/d/m'' \<or>
       (\<exists>m. u ''/d/m'' = Some (RegFile (body_data (hr_body demo_response)) m)))"
proof -
  let ?job = "queued_job ''a'' demo_request (demo_file ''/d/m'')"
  have t: "job_target ?job = ''/d/m''" by (simp add: queued_job_def demo_file_def)
  have j: "dl_jobs (dl_tab demo_download_world) ''a'' = Some ?job"
    by (simp add: demo_download_world_def os.extend_def)
  have d: "dir_of (job_target ?job) \<noteq> job_target ?job" unfolding t by code_simp
  have h: "honest_faults demo_download_world"
    by (simp add: honest_faults_def demo_download_world_def os.extend_def one_file_def)
  show ?thesis
    unfolding Let_def by (rule download_atomic [OF j d h surjective_pairing, unfolded t])
qed

end
