(* ===== verification/LocalModels.thy ===== *)
theory LocalModels
  imports Os Config CatalogTypes
begin

section \<open>Canonical paths and the local inventory (\<^verbatim>\<open>core/modelcatalog/local.go\<close>)\<close>

text \<open>
  \<^verbatim>\<open>CanonicalPath\<close> with the link resolution of \<^verbatim>\<open>filepath.EvalSymlinks\<close>, \<^verbatim>\<open>PathContains\<close>, the debouncing
  state of the inventory watch, and the check in front of a deletion.
\<close>

text \<open>
  \<^verbatim>\<open>filepath.EvalSymlinks\<close> on an absolute path: the parts are followed one by one, a link is replaced
  by its target, at most 255 times.
\<close>

function eval_links :: "nat \<Rightarrow> (string \<Rightarrow> node option) \<Rightarrow> string \<Rightarrow> string list \<Rightarrow> gerror + string" where
  "eval_links n fs cur [] = Inr cur"
| "eval_links n fs cur (p # ps) =
     (if p = [] \<or> p = ''.'' then eval_links n fs cur ps
      else if p = ''..'' then eval_links n fs (dir_of cur) ps
      else (let q = join_path [cur, p] in
        case fs q of
          None \<Rightarrow> Inl (Sentinel OsNotExist)
        | Some (LinkNode t) \<Rightarrow>
            (case n of
               0 \<Rightarrow> Inl (Plain [Lit ''too many links''])
             | Suc k \<Rightarrow> eval_links k fs (if is_abs t then [slash] else cur) (split_on slash t @ ps))
        | Some _ \<Rightarrow> eval_links n fs q ps))"
  by pat_completeness auto
termination
  by (relation "measures [\<lambda>(n, fs, cur, ps). n, \<lambda>(n, fs, cur, ps). length ps]") auto

definition os_eval_symlinks :: "string \<Rightarrow> ('z, string) io" where
  "os_eval_symlinks p =
     os_call (\<lambda>w. (eval_links 255 (os_files w) (if is_abs p then [slash] else os_cwd w) (split_on slash p), w))"

definition canonical_path :: "string \<Rightarrow> ('z, string) io" where
  "canonical_path path =
     bindE (tryE (os_abs path) (\<lambda>_. retE path) retE) (\<lambda>p.
       tryE (os_eval_symlinks p) (\<lambda>_. retE (clean p)) (\<lambda>r. retE (clean r)))"

definition path_contains :: "string \<Rightarrow> string \<Rightarrow> bool" where
  "path_contains dir path =
     (case rel_path dir path of
        None \<Rightarrow> False
      | Some r \<Rightarrow> r \<noteq> ''..'' \<and> \<not> has_prefix r (''..'' @ [slash]))"

text \<open>\<^verbatim>\<open>strings.EqualFold(filepath.Ext(path), ".gguf")\<close>; no other letter folds to those of the suffix.\<close>

definition is_gguf :: "string \<Rightarrow> bool" where
  "is_gguf path \<longleftrightarrow> map ascii_lower (ext_of path) = ''.gguf''"

definition catalog_invalid :: "string \<Rightarrow> gerror" where
  "catalog_invalid m = Wrap [TextOf (Sentinel CatalogInvalidInput), Lit '': '', Lit m] [Sentinel CatalogInvalidInput]"

subsection \<open>Directories\<close>

text \<open>
  \<open>names\<close> enumerates the paths that may exist: with it a directory can be listed and tested for being empty.
  \<open>entry\<close> is a directory entry, its path and its node; entries come sorted by file name, as \<^verbatim>\<open>os.ReadDir\<close> returns them.
\<close>

definition dir_children :: "string list \<Rightarrow> (string \<Rightarrow> node option) \<Rightarrow> string \<Rightarrow> string list" where
  "dir_children names fs p =
     sort_key base_of (filter (\<lambda>q. fs q \<noteq> None \<and> q \<noteq> p \<and> dir_of q = p) (remdups names))"

definition os_read_dir :: "string list \<Rightarrow> string \<Rightarrow> ('z, (string \<times> node) list) io" where
  "os_read_dir names p =
     os_call (\<lambda>w. (case stat_node (os_files w) p of
         Inl err \<Rightarrow> Inl err
       | Inr (DirNode m) \<Rightarrow> Inr (map (\<lambda>q. (q, the (os_files w q))) (dir_children names (os_files w) p))
       | Inr _ \<Rightarrow> Inl (Plain [Lit ''not a directory'']), w))"

text \<open>\<^verbatim>\<open>os.Remove\<close> on any path: a directory has to be empty.\<close>

definition os_remove_empty :: "string list \<Rightarrow> string \<Rightarrow> ('z, unit) io" where
  "os_remove_empty names p =
     os_call (\<lambda>w. case os_files w p of
         None \<Rightarrow> (Inl (Sentinel OsNotExist), w)
       | Some n \<Rightarrow>
           (if is_dir_at (os_files w) p \<and> dir_children names (os_files w) p \<noteq> []
            then (Inl (Plain [Lit ''directory not empty'']), w) else (Inr (), set_node p None w)))"

subsection \<open>Listing and deleting local models\<close>

record local_model =
  lm_path :: string
  lm_filename :: string
  lm_size :: nat
  lm_modified :: string

text \<open>\<^verbatim>\<open>collectLocalModel\<close>: the models that one visited path adds. \<open>mtime\<close> is the modification time of a path.\<close>

definition collect_local_model ::
  "gerror option \<Rightarrow> (string \<Rightarrow> string) \<Rightarrow> string \<Rightarrow> string \<Rightarrow> gerror + node \<Rightarrow> ('z, local_model list) io" where
  "collect_local_model ctx mtime root path entry =
     (case entry of
        Inl walk_err \<Rightarrow> (if path = root \<and> errors_is walk_err OsNotExist then retE [] else failE walk_err)
      | Inr n \<Rightarrow>
          (case ctx of
             Some err \<Rightarrow> failE err
           | None \<Rightarrow>
               (case n of
                  LinkNode t \<Rightarrow> retE []
                | DirNode m \<Rightarrow> retE []
                | RegFile d m \<Rightarrow>
                    (if \<not> is_gguf (base_of path) then retE []
                     else bindE (os_lstat path) (\<lambda>info. case info of
                         RegFile d' m' \<Rightarrow> retE [\<lparr>lm_path = clean path, lm_filename = base_of path,
                           lm_size = length d', lm_modified = mtime path\<rparr>]
                       | _ \<Rightarrow> retE [])))))"

text \<open>
  \<^verbatim>\<open>filepath.WalkDir\<close> with that visitor. A child has a longer path than its directory; the test of it is
  always true and makes the recursion end.
\<close>

function walk_dir ::
  "gerror option \<Rightarrow> (string \<Rightarrow> string) \<Rightarrow> string list \<Rightarrow> string \<Rightarrow> string \<Rightarrow> node \<Rightarrow> ('z, local_model list) io"
and walk_entries ::
  "gerror option \<Rightarrow> (string \<Rightarrow> string) \<Rightarrow> string list \<Rightarrow> string \<Rightarrow> string \<Rightarrow> (string \<times> node) list \<Rightarrow>
   ('z, local_model list) io" where
  "walk_dir ctx mtime names root path n =
     bindE (collect_local_model ctx mtime root path (Inr n)) (\<lambda>found.
       if \<not> (case n of DirNode m \<Rightarrow> True | _ \<Rightarrow> False) then retE found
       else tryE (os_read_dir names path)
         (\<lambda>err. bindE (collect_local_model ctx mtime root path (Inl err)) (\<lambda>more. retE (found @ more)))
         (\<lambda>entries. bindE (walk_entries ctx mtime names root path entries) (\<lambda>more. retE (found @ more))))"
| "walk_entries ctx mtime names root path [] = retE []"
| "walk_entries ctx mtime names root path ((q, n) # es) =
     (if q \<in> set names \<and> length path < length q then
        bindE (walk_dir ctx mtime names root q n) (\<lambda>found.
        bindE (walk_entries ctx mtime names root path es) (\<lambda>more. retE (found @ more)))
      else walk_entries ctx mtime names root path es)"
  by pat_completeness auto

lemma longer_names_less:
  "q \<in> set names \<Longrightarrow> length p < length q \<Longrightarrow>
   length (filter (\<lambda>x. length q < length x) names) < length (filter (\<lambda>x. length p < length x) names)"
proof (induction names)
  case (Cons x xs)
  have "length (filter (\<lambda>x. length q < length x) xs) \<le> length (filter (\<lambda>x. length p < length x) xs)"
    using Cons.prems(2) by (induction xs) auto
  with Cons show ?case by auto
qed simp

termination walk_dir
  by (relation "measures [
      \<lambda>x. case x of Inl (ctx, mtime, names, root, path, n) \<Rightarrow> length (filter (\<lambda>x. length path < length x) names)
        | Inr (ctx, mtime, names, root, path, es) \<Rightarrow> length (filter (\<lambda>x. length path < length x) names),
      \<lambda>x. case x of Inl _ \<Rightarrow> 1 | Inr _ \<Rightarrow> 0,
      \<lambda>x. case x of Inl _ \<Rightarrow> 0 | Inr (ctx, mtime, names, root, path, es) \<Rightarrow> length es]")
    (auto intro: longer_names_less)

definition list_local ::
  "gerror option \<Rightarrow> (string \<Rightarrow> string) \<Rightarrow> string list \<Rightarrow> string \<Rightarrow> ('z, local_model list) io" where
  "list_local ctx mtime names storage_dir =
     bindE
       (tryE (os_lstat storage_dir)
          (\<lambda>err. collect_local_model ctx mtime storage_dir storage_dir (Inl err))
          (\<lambda>n. walk_dir ctx mtime names storage_dir storage_dir n))
       (\<lambda>models. retE (sort_key lm_path models))"

text \<open>\<^verbatim>\<open>pruneEmptyParents\<close>: each turn removes the last element of \<open>dir\<close>; \<open>Suc (length dir)\<close> turns are enough.\<close>

fun prune_empty_parents :: "nat \<Rightarrow> string list \<Rightarrow> string \<Rightarrow> string \<Rightarrow> ('z, unit) io" where
  "prune_empty_parents 0 names root dir = retE ()"
| "prune_empty_parents (Suc k) names root dir =
     (if path_contains root dir \<and> dir \<noteq> root
      then tryE (os_remove_empty names dir) (\<lambda>_. retE ())
             (\<lambda>_. prune_empty_parents k names root (dir_of dir))
      else retE ())"

definition delete_local :: "gerror option \<Rightarrow> string list \<Rightarrow> string \<Rightarrow> string \<Rightarrow> ('z, unit) io" where
  "delete_local ctx names storage_dir path0 =
     (case ctx of
        Some err \<Rightarrow> failE err
      | None \<Rightarrow>
          if storage_dir = [] then failE (catalog_invalid ''model storage directory is not configured'')
          else
            bindE (canonical_path path0) (\<lambda>path.
            bindE (canonical_path storage_dir) (\<lambda>root.
              if \<not> path_contains root path then failE (catalog_invalid ''model path escapes storage dir'')
              else if \<not> is_gguf path then failE (catalog_invalid ''local model must be a .gguf file'')
              else
                tryE (os_lstat path)
                  (\<lambda>err. if errors_is err OsNotExist
                    then failE (Wrap [TextOf (Sentinel CatalogNotFound), Lit '': local model not found''] [Sentinel CatalogNotFound])
                    else failE err)
                  (\<lambda>info. case info of
                     DirNode m \<Rightarrow> failE (catalog_invalid ''local model path is a directory'')
                   | _ \<Rightarrow>
                       bindE (os_remove_empty names path) (\<lambda>_.
                         prune_empty_parents (Suc (length (dir_of path))) names root (dir_of path))))))"

text \<open>The watch of the inventory: a change is reported when two scans in a row agree on it.\<close>

record watch_state =
  ws_current :: string
  ws_candidate :: string
  ws_initialized :: bool

definition watch_init :: watch_state where
  "watch_init = \<lparr>ws_current = [], ws_candidate = [], ws_initialized = False\<rparr>"

definition watch_observe :: "string \<Rightarrow> watch_state \<Rightarrow> bool \<times> watch_state" where
  "watch_observe next s =
     (if \<not> ws_initialized s then (False, s\<lparr>ws_current := next, ws_initialized := True\<rparr>)
      else if next = ws_current s then (False, s\<lparr>ws_candidate := []\<rparr>)
      else if next \<noteq> ws_candidate s then (False, s\<lparr>ws_candidate := next\<rparr>)
      else (True, s\<lparr>ws_current := next, ws_candidate := []\<rparr>))"

fun watch_run :: "watch_state \<Rightarrow> string list \<Rightarrow> bool list" where
  "watch_run s [] = []"
| "watch_run s (x # xs) = (case watch_observe x s of (b, s') \<Rightarrow> b # watch_run s' xs)"

subsection \<open>Containment\<close>

lemma drop_common_prefix: "fst (drop_common bs ts) = [] \<longleftrightarrow> prefix bs ts"
  by (induction bs ts rule: drop_common.induct) auto

lemma drop_common_append: "drop_common bs ts = ([], us) \<Longrightarrow> ts = bs @ us"
  by (induction bs ts rule: drop_common.induct) (auto split: if_splits)

text \<open>An element that \<^verbatim>\<open>filepath.Clean\<close> leaves in a rooted path.\<close>

definition plain_elem :: "string \<Rightarrow> bool" where
  "plain_elem e \<longleftrightarrow> e \<noteq> ''..'' \<and> e \<noteq> ''.'' \<and> e \<noteq> [] \<and> slash \<notin> set e"

lemma clean_step_plain:
  assumes "\<forall>x \<in> set kept. plain_elem x" "slash \<notin> set e"
  shows "\<forall>x \<in> set (clean_step True kept e). plain_elem x"
proof (cases "e = [] \<or> e = ''.'' \<or> e = ''..''")
  case True
  then show ?thesis using assms(1) by (cases kept) (auto simp: clean_step_def plain_elem_def)
next
  case False
  then have "clean_step True kept e = e # kept" by (simp only: clean_step_def if_False de_Morgan_disj simp_thms)
  moreover have "plain_elem e" using False assms(2) by (simp only: plain_elem_def de_Morgan_disj simp_thms)
  ultimately show ?thesis using assms(1) by simp
qed

lemma foldl_clean_plain:
  "\<forall>e \<in> set es. slash \<notin> set e \<Longrightarrow> \<forall>x \<in> set kept. plain_elem x \<Longrightarrow>
   \<forall>x \<in> set (foldl (clean_step True) kept es). plain_elem x"
proof (induction es arbitrary: kept)
  case (Cons e es)
  then have "\<forall>x \<in> set (clean_step True kept e). plain_elem x" by (intro clean_step_plain) auto
  with Cons.IH Cons.prems(1) show ?case by simp
qed simp

lemma path_elems_plain:
  assumes "is_abs p"
  shows "\<forall>e \<in> set (path_elems p). plain_elem e"
proof -
  have "\<forall>e \<in> set (split_on slash p). slash \<notin> set e" using split_on_parts by auto
  then have "\<forall>x \<in> set (foldl (clean_step True) [] (split_on slash p)). plain_elem x"
    by (rule foldl_clean_plain) simp
  with assms show ?thesis by (simp add: path_elems_def clean_elems_def)
qed

lemma join_prefix_parent:
  assumes "slash \<notin> set t"
  shows "has_prefix (join_with slash (t # ts)) (''..'' @ [slash]) \<longleftrightarrow> t = ''..'' \<and> ts \<noteq> []"
proof (cases "ts = []")
  case True
  then show ?thesis using assms by (auto simp: has_prefix_def prefix_def)
next
  case False
  have "prefix (''..'' @ [slash]) (t @ slash # u) \<longleftrightarrow> t = ''..''" for u
  proof
    assume "prefix (''..'' @ [slash]) (t @ slash # u)"
    then obtain v where "t @ slash # u = ''..'' @ slash # v" by (auto simp: prefix_def)
    then have "takeWhile (\<lambda>c. c \<noteq> slash) (t @ slash # u) = takeWhile (\<lambda>c. c \<noteq> slash) (''..'' @ slash # v)" by simp
    moreover have "takeWhile (\<lambda>c. c \<noteq> slash) (t @ slash # u) = t"
      using assms by (subst takeWhile_append2) auto
    ultimately show "t = ''..''" by simp
  qed (auto simp: prefix_def)
  with False show ?thesis by (simp add: has_prefix_def join_Cons)
qed

lemma foldl_clean_id:
  "\<forall>e \<in> set es. plain_elem e \<Longrightarrow> foldl (clean_step True) kept es = rev es @ kept"
proof (induction es arbitrary: kept)
  case (Cons e es)
  then have "clean_step True kept e = e # kept" by (simp add: clean_step_def plain_elem_def)
  with Cons show ?case by simp
qed simp

lemma split_rooted_join:
  assumes "\<forall>e \<in> set es. plain_elem e" "es \<noteq> []"
  shows "split_on slash (slash # join_with slash es) = [] # es"
    and "split_on slash (slash # join_with slash es @ [slash]) = [] # es @ [[]]"
proof -
  have j: "split_on slash (join_with slash es) = es"
    by (rule split_join) (use assms in \<open>auto simp: plain_elem_def\<close>)
  show "split_on slash (slash # join_with slash es) = [] # es" using j by simp
  have "split_on slash ((slash # join_with slash es) @ [slash]) = split_on slash (slash # join_with slash es) @ [[]]"
    by (rule split_on_snoc_sep)
  with j show "split_on slash (slash # join_with slash es @ [slash]) = [] # es @ [[]]" by simp
qed

lemma split_join_plain: "\<forall>e \<in> set es. plain_elem e \<Longrightarrow> es \<noteq> [] \<Longrightarrow> split_on slash (join_with slash es) = es"
  by (rule split_join) (auto simp: plain_elem_def)

lemma path_elems_rooted:
  assumes "\<forall>e \<in> set es. plain_elem e"
  shows "path_elems (unparse_path True es) = es"
    and "es \<noteq> [] \<Longrightarrow> path_elems (unparse_path True es @ [slash]) = es"
proof -
  have a: "is_abs (slash # s)" for s by (simp add: is_abs_def has_prefix_def)
  have nil: "clean_step True kept [] = kept" for kept by (simp add: clean_step_def)
  show "path_elems (unparse_path True es) = es"
  proof (cases "es = []")
    case True
    then show ?thesis by (simp add: path_elems_def unparse_path_def a clean_elems_def nil)
  next
    case False
    then show ?thesis
      by (simp add: path_elems_def unparse_path_def a clean_elems_def split_join_plain [OF assms] nil
          foldl_clean_id [OF assms])
  qed
  assume "es \<noteq> []"
  then show "path_elems (unparse_path True es @ [slash]) = es"
    using split_rooted_join(2) [OF assms]
    by (simp add: path_elems_def unparse_path_def a clean_elems_def nil foldl_clean_id [OF assms] del: split_on.simps)
qed

lemma join_snoc: "es \<noteq> [] \<Longrightarrow> join_with slash (es @ [e]) = join_with slash es @ slash # e"
proof (induction es)
  case (Cons x xs)
  then show ?case by (cases "xs = []") (simp_all add: join_Cons)
qed simp

lemma clean_rooted: "is_abs p \<Longrightarrow> clean p = unparse_path True (path_elems p)"
  by (simp add: clean_def)

lemma dir_of_rooted:
  assumes "\<forall>e \<in> set (es @ [e]). plain_elem e"
  shows "dir_of (unparse_path True (es @ [e])) = unparse_path True es"
proof -
  have e: "slash \<notin> set e" using assms by (simp add: plain_elem_def)
  have d: "rev (dropWhile (\<lambda>c. c \<noteq> slash) (rev (u @ slash # e))) = u @ [slash]" for u
  proof -
    have "dropWhile (\<lambda>c. c \<noteq> slash) (rev e @ slash # rev u) = slash # rev u"
      using e by (subst dropWhile_append2) auto
    then show ?thesis by simp
  qed
  have abs: "is_abs (slash # s)" for s by (simp add: is_abs_def has_prefix_def)
  show ?thesis
  proof (cases "es = []")
    case True
    with d [of "[]"] show ?thesis
      by (simp add: dir_of_def unparse_path_def clean_rooted [OF abs] path_elems_def abs clean_elems_def clean_step_def)
  next
    case False
    have "join_with slash (es @ [e]) = join_with slash es @ slash # e"
      using False by (rule join_snoc)
    with d [of "slash # join_with slash es"]
    have "dir_of (unparse_path True (es @ [e])) = clean (unparse_path True es @ [slash])"
      by (simp add: dir_of_def unparse_path_def)
    also have "\<dots> = unparse_path True es"
      using path_elems_rooted(2) [of es] assms False by (simp add: clean_def unparse_path_def abs)
    finally show ?thesis .
  qed
qed

lemma parent_shorter: "e \<noteq> [] \<Longrightarrow> length (unparse_path True es) < length (unparse_path True (es @ [e]))"
  by (cases "es = []") (simp_all add: unparse_path_def join_snoc)

lemma path_contains_iff:
  assumes "is_abs dir" "is_abs path"
  shows "path_contains dir path \<longleftrightarrow> prefix (path_elems dir) (path_elems path)"
proof -
  obtain bs ts where d: "drop_common (path_elems dir) (path_elems path) = (bs, ts)" by force
  have sub: "set bs \<subseteq> set (path_elems dir) \<and> set ts \<subseteq> set (path_elems path)"
  proof -
    have "drop_common xs ys = (us, vs) \<Longrightarrow> set us \<subseteq> set xs \<and> set vs \<subseteq> set ys" for xs ys us vs
      by (induction xs ys arbitrary: us vs rule: drop_common.induct) (auto split: if_splits)
    from this [OF d] show ?thesis .
  qed
  have nb: "''..'' \<notin> set bs" using sub path_elems_plain [OF assms(1)] by (auto simp: plain_elem_def)
  have t: "\<forall>e \<in> set ts. plain_elem e" using sub path_elems_plain [OF assms(2)] by auto
  have rel: "rel_path dir path = Some (unparse_path False (map (\<lambda>_. ''..'') bs @ ts))"
    using assms d nb by (simp add: rel_path_def)
  have "path_contains dir path \<longleftrightarrow> bs = []"
  proof (cases bs)
    case Nil
    show ?thesis
    proof (cases ts)
      case Nil
      with \<open>bs = []\<close> rel show ?thesis by (simp add: path_contains_def unparse_path_def has_prefix_def prefix_def)
    next
      case (Cons e es)
      then have e: "slash \<notin> set e" "e \<noteq> ''..''" using t by (auto simp: plain_elem_def)
      have "join_with slash (e # es) \<noteq> ''..''"
      proof
        assume eq: "join_with slash (e # es) = ''..''"
        show False
        proof (cases es)
          case Nil
          with eq e(2) show False by simp
        next
          case (Cons a as)
          with eq have "slash \<in> set ''..''" by (metis in_set_conv_decomp join_Cons list.distinct(1))
          then show False by code_simp
        qed
      qed
      with join_prefix_parent [OF e(1), of es] e(2) \<open>bs = []\<close> \<open>ts = e # es\<close> rel show ?thesis
        by (simp add: path_contains_def unparse_path_def)
    qed
  next
    case (Cons b bs')
    show ?thesis
    proof (cases "map (\<lambda>_. ''..'') bs' @ ts")
      case Nil
      with Cons rel show ?thesis by (simp add: path_contains_def unparse_path_def)
    next
      case (Cons e es)
      with \<open>bs = b # bs'\<close> rel join_prefix_parent [of "''..''" "map (\<lambda>_. ''..'') bs' @ ts"] show ?thesis
        by (simp add: path_contains_def unparse_path_def)
    qed
  qed
  also have "bs = [] \<longleftrightarrow> prefix (path_elems dir) (path_elems path)"
    using drop_common_prefix [of "path_elems dir" "path_elems path"] d by simp
  finally show ?thesis .
qed

text \<open>On absolute paths \<^verbatim>\<open>PathContains\<close> is containment of path elements: it holds exactly when the elements of
  the directory begin those of the path; a shared name prefix (\<^verbatim>\<open>/models\<close> and \<^verbatim>\<open>/models-old\<close>) is no containment.\<close>

theorem path_contains_elements:
  assumes "is_abs dir" "is_abs path"
  shows "path_contains dir path \<longleftrightarrow> prefix (path_elems dir) (path_elems path)"
  using assms by (rule path_contains_iff)

theorem path_contains_elements_witness:
  "path_contains ''/models'' ''/models-old/a.gguf'' \<longleftrightarrow> prefix (path_elems ''/models'') (path_elems ''/models-old/a.gguf'')"
  by (rule path_contains_elements) code_simp+

subsection \<open>Pruning and deletion\<close>

lemma prune_stable:
  assumes "is_abs root" "clean root = root" "\<forall>e \<in> set es. plain_elem e"
    and "length (unparse_path True es) < k" "length (unparse_path True es) < l"
  shows "(prune_empty_parents k names root (unparse_path True es) :: ('z, unit) io) =
    prune_empty_parents l names root (unparse_path True es)"
  using assms(3-5)
proof (induction es arbitrary: k l rule: rev_induct)
  case Nil
  then obtain k' l' where "k = Suc k'" "l = Suc l'" by (metis less_imp_Suc_add)
  moreover have "path_contains root [slash] \<Longrightarrow> root = [slash]"
  proof -
    assume "path_contains root [slash]"
    then have "prefix (path_elems root) (path_elems [slash])"
      using path_contains_elements [OF assms(1), of "[slash]"] by (simp add: is_abs_def has_prefix_def)
    moreover have "path_elems [slash] = []" using path_elems_rooted(1) [of "[]"] by (simp add: unparse_path_def)
    ultimately show "root = [slash]" using clean_rooted [OF assms(1)] assms(2) by (simp add: unparse_path_def)
  qed
  ultimately show ?case by (auto simp: unparse_path_def)
next
  case (snoc e us)
  from snoc.prems obtain k' l' where kl: "k = Suc k'" "l = Suc l'" by (metis less_imp_Suc_add)
  have "e \<noteq> []" using snoc.prems(1) by (simp add: plain_elem_def)
  from parent_shorter [OF this, of us] snoc.prems kl
  have "length (unparse_path True us) < k'" "length (unparse_path True us) < l'" by auto
  with snoc.IH [of k' l'] snoc.prems(1)
  have "(prune_empty_parents k' names root (unparse_path True us) :: ('z, unit) io) =
    prune_empty_parents l' names root (unparse_path True us)"
    by simp
  then show ?case using dir_of_rooted [OF snoc.prems(1)] kl by simp
qed

text \<open>The pruning of empty directories ends by its own test: from a clean absolute directory, no number of turns
  beyond the length of its path changes the result, so the loop of the source stops within that many removals.\<close>

theorem prune_terminates:
  assumes "is_abs root" "clean root = root" "is_abs dir" "clean dir = dir" "length dir < k"
  shows "(prune_empty_parents k names root dir :: ('z, unit) io) = prune_empty_parents (Suc (length dir)) names root dir"
proof -
  have d: "unparse_path True (path_elems dir) = dir" using clean_rooted [OF assms(3)] assms(4) by simp
  show ?thesis
    by (rule prune_stable [OF assms(1,2) path_elems_plain [OF assms(3)], unfolded d]) (use assms(5) in simp_all)
qed

theorem prune_terminates_witness:
  "(prune_empty_parents 50 [] ''/m'' ''/m/a'' :: (unit, unit) io) = prune_empty_parents (Suc (length ''/m/a'')) [] ''/m'' ''/m/a''"
  by (rule prune_terminates) (code_simp, code_simp, code_simp, code_simp, simp)

definition only_removed :: "(string \<Rightarrow> node option) \<Rightarrow> (string \<Rightarrow> node option) \<Rightarrow> bool" where
  "only_removed fs fs' \<longleftrightarrow> (\<forall>q. fs' q = fs q \<or> fs' q = None)"

lemma only_removed_refl [simp]: "only_removed fs fs"
  by (simp add: only_removed_def)

lemma only_removed_trans: "only_removed f g \<Longrightarrow> only_removed g h \<Longrightarrow> only_removed f h"
  by (metis only_removed_def)

lemma children_only_removed:
  assumes "only_removed fs fs'" "dir_children names fs p = []"
  shows "dir_children names fs' p = []"
proof -
  have e: "dir_children names gs p = [] \<longleftrightarrow> (\<forall>q \<in> set names. gs q \<noteq> None \<longrightarrow> q = p \<or> dir_of q \<noteq> p)" for gs
    by (auto simp: dir_children_def filter_empty_conv simp flip: set_empty)
  show ?thesis using assms unfolding e only_removed_def by (metis (no_types))
qed

text \<open>What a removal leaves: the node is gone, and a removed directory was and stays empty.\<close>

definition removed_within :: "(string \<Rightarrow> bool) \<Rightarrow> string list \<Rightarrow> (string \<Rightarrow> node option) \<Rightarrow> (string \<Rightarrow> node option) \<Rightarrow> bool" where
  "removed_within P names fs fs' \<longleftrightarrow> only_removed fs fs' \<and>
     (\<forall>q. fs' q \<noteq> fs q \<longrightarrow> P q \<and> (is_dir_at fs q \<longrightarrow> dir_children names fs' q = []))"

lemma removed_within_refl [simp]: "removed_within P names fs fs"
  by (simp add: removed_within_def)

lemma removed_within_trans:
  assumes "removed_within P names f g" "removed_within P names g h"
  shows "removed_within P names f h"
  unfolding removed_within_def
proof (intro conjI allI impI)
  show "only_removed f h" using assms by (auto simp: removed_within_def intro: only_removed_trans)
  fix q assume ne: "h q \<noteq> f q"
  show "P q" using assms ne by (cases "g q = f q") (auto simp: removed_within_def)
  assume d: "is_dir_at f q"
  show "dir_children names h q = []"
  proof (cases "g q = f q")
    case True
    with d have "is_dir_at g q" by (simp add: is_dir_at_def)
    with True ne assms(2) show ?thesis by (auto simp: removed_within_def)
  next
    case False
    with d assms(1) have "dir_children names g q = []" by (auto simp: removed_within_def)
    with assms(2) show ?thesis by (auto simp: removed_within_def intro: children_only_removed)
  qed
qed

lemma remove_empty_within:
  assumes "os_remove_empty names p w = (r, w')" "P p"
  shows "removed_within P names (os_files w) (os_files w') \<and> (r = Inr () \<longrightarrow> os_files w' p = None)"
proof -
  consider "os_files w' = os_files w" "r \<noteq> Inr ()"
    | "r = Inr ()" "os_files w' = (os_files w)(p := None)" "is_dir_at (os_files w) p \<longrightarrow> dir_children names (os_files w) p = []"
    using assms(1) unfolding os_remove_empty_def os_call_def Let_def
    by (auto simp: set_node_def Let_def split: option.splits if_splits)
  then show ?thesis
  proof cases
    case 1
    then show ?thesis by simp
  next
    case 2
    moreover have o: "only_removed (os_files w) ((os_files w)(p := None))" by (simp add: only_removed_def)
    ultimately show ?thesis using assms(2)
      by (auto simp: removed_within_def intro: children_only_removed [OF o])
  qed
qed

lemma prune_within:
  "prune_empty_parents k names root dir w = (r, w') \<Longrightarrow>
   removed_within (\<lambda>q. path_contains root q \<and> q \<noteq> root) names (os_files w) (os_files w')"
proof (induction k arbitrary: dir w)
  case (Suc k)
  show ?case
  proof (cases "path_contains root dir \<and> dir \<noteq> root")
    case True
    let ?P = "\<lambda>q. path_contains root q \<and> q \<noteq> root"
    obtain r1 w1 where r1: "os_remove_empty names dir w = (r1, w1)" by force
    have st: "removed_within ?P names (os_files w) (os_files w1)"
      using remove_empty_within [OF r1, of ?P] True by simp
    show ?thesis
    proof (cases r1)
      case (Inl e)
      with Suc.prems True r1 st show ?thesis by (simp add: tryE_def)
    next
      case (Inr u)
      with Suc.prems True r1 have "prune_empty_parents k names root (dir_of dir) w1 = (r, w')" by (simp add: tryE_def)
      from removed_within_trans [OF st Suc.IH [OF this]] show ?thesis .
    qed
  qed (use Suc.prems in auto)
qed simp

lemma os_lstat_files: "os_lstat p w = (r, w') \<Longrightarrow> os_files w' = os_files w"
  unfolding os_lstat_def os_call_def by (auto simp: Let_def split: option.splits)

lemma canonical_path_files: "canonical_path p w = (r, w') \<Longrightarrow> os_files w' = os_files w"
  unfolding canonical_path_def os_abs_def os_eval_symlinks_def
  by (auto simp: bindE_def tryE_def os_call_def Let_def retE_def split: option.splits sum.splits prod.splits if_splits)


definition local_world :: "unit os_scheme" where
  "local_world =
     \<lparr>os_files = [''/m'' \<mapsto> DirNode 493, ''/m/a'' \<mapsto> DirNode 493, ''/m/a/x.gguf'' \<mapsto> RegFile ''data'' 420],
      os_tick = 0, os_fault = (\<lambda>_. None), os_trace = [], os_rand = (\<lambda>_. 0), os_stamp = (\<lambda>_. []), os_sha = (\<lambda>s. s),
      os_cwd = ''/''\<rparr>"


end
