(* ===== verification/GoNumbers.thy ===== *)
theory GoNumbers
  imports GoPath GoErrors
begin

section \<open>Numbers as text (\<^verbatim>\<open>strconv\<close>)\<close>

text \<open>
  \<open>int_text\<close> is \<^verbatim>\<open>strconv.Itoa\<close> and \<^verbatim>\<open>FormatInt\<close> in base ten; \<open>parse_int\<close> is \<^verbatim>\<open>Atoi\<close> and \<^verbatim>\<open>ParseInt(s, 10, 64)\<close>: an
  optional sign and at least one digit, \<open>None\<close> for a syntax error or a value outside 64 bits.
\<close>

definition int_text :: "int \<Rightarrow> string" where
  "int_text i = (if i < 0 then CHR ''-'' # itoa (nat (- i)) else itoa (nat i))"

definition is_digit :: "char \<Rightarrow> bool" where
  "is_digit c \<longleftrightarrow> 48 \<le> (of_char c :: nat) \<and> (of_char c :: nat) \<le> 57"

definition digit_value :: "char \<Rightarrow> nat" where
  "digit_value c = of_char c - 48"

definition digits_value :: "string \<Rightarrow> nat" where
  "digits_value s = foldl (\<lambda>n c. 10 * n + digit_value c) 0 s"

definition parse_digits :: "string \<Rightarrow> nat option" where
  "parse_digits s = (if s \<noteq> [] \<and> list_all is_digit s then Some (digits_value s) else None)"

definition parse_int :: "string \<Rightarrow> int option" where
  "parse_int s =
     (case s of
        [] \<Rightarrow> None
      | c # cs \<Rightarrow>
          (if c = CHR ''-'' then
             (case parse_digits cs of Some n \<Rightarrow> (if n \<le> 2 ^ 63 then Some (- int n) else None) | None \<Rightarrow> None)
           else
             (case parse_digits (if c = CHR ''+'' then cs else s) of
                Some n \<Rightarrow> (if n < 2 ^ 63 then Some (int n) else None) | None \<Rightarrow> None)))"

lemma digit_char:
  assumes "n < 10"
  shows "is_digit (char_of (48 + n))" "digit_value (char_of (48 + n)) = n"
  using assms by (simp_all add: is_digit_def digit_value_def)

lemma itoa_digits: "itoa n \<noteq> [] \<and> list_all is_digit (itoa n) \<and> digits_value (itoa n) = n"
proof (induction n rule: itoa.induct)
  case (1 n)
  show ?case
  proof (cases "n < 10")
    case True
    then show ?thesis using digit_char [OF True] by (simp add: itoa.simps [of n] digits_value_def)
  next
    case False
    have d: "n mod 10 < 10" by simp
    from False 1 digit_char [OF d] show ?thesis by (simp add: itoa.simps [of n] digits_value_def)
  qed
qed

lemma parse_digits_itoa [simp]: "parse_digits (itoa n) = Some n"
  using itoa_digits [of n] by (simp add: parse_digits_def)

lemma itoa_head: "itoa n = c # cs \<Longrightarrow> is_digit c"
  using itoa_digits [of n] by auto

lemma parse_int_text:
  assumes "- (2 ^ 63) \<le> i" "i < 2 ^ 63"
  shows "parse_int (int_text i) = Some i"
proof (cases "i < 0")
  case True
  then show ?thesis using assms by (auto simp: parse_int_def int_text_def nat_le_iff)
next
  case False
  obtain c cs where c: "itoa (nat i) = c # cs" using itoa_digits [of "nat i"] by (cases "itoa (nat i)") auto
  then have "is_digit c" by (rule itoa_head)
  then have "c \<noteq> CHR ''-''" "c \<noteq> CHR ''+''" by (auto simp: is_digit_def)
  moreover have "nat i < 2 ^ 63" using assms False by (simp add: nat_less_iff)
  ultimately show ?thesis using False parse_digits_itoa [of "nat i"]
    by (simp add: parse_int_def int_text_def c del: parse_digits_itoa)
qed

text \<open>Digits and a sign are ASCII and not white space.\<close>

lemma digit_plain: "is_digit c \<Longrightarrow> plain c"
  unfolding plain_def is_digit_def by auto

end
