(* ===== verification/RuntimeTypes.thy ===== *)
theory RuntimeTypes
  imports GoErrors
begin

section \<open>The data of the runtime (\<^verbatim>\<open>core/runtime/types.go\<close>)\<close>

text \<open>
  Status, process status and command result of a supervised process, shared by the runtime and the control core. A
  text that quotes an error is a \<open>msg\<close>; times are nanoseconds, 0 being the zero time.
\<close>

datatype rt_state = RtRunning | RtStopped | RtStarting | RtStopping | RtFailed

fun rt_state_text :: "rt_state \<Rightarrow> string" where
  "rt_state_text RtRunning = ''running''"
| "rt_state_text RtStopped = ''stopped''"
| "rt_state_text RtStarting = ''starting''"
| "rt_state_text RtStopping = ''stopping''"
| "rt_state_text RtFailed = ''failed''"

record process_status =
  ps_name :: string
  ps_state :: rt_state
  ps_pid :: int
  ps_host :: string
  ps_port :: int
  ps_ready :: bool
  ps_last_error :: msg

record runtime_status =
  st_state :: rt_state
  st_detail :: msg
  st_checked_at :: int
  st_processes :: "process_status list"

record command_result =
  cr_action :: string
  cr_exit_code :: int
  cr_stdout :: msg
  cr_stderr :: msg
  cr_duration_ms :: int

text \<open>A message is the empty string.\<close>

definition msg_empty :: "msg \<Rightarrow> bool" where
  "msg_empty m \<longleftrightarrow> list_all frag_empty m"

end
