(* ===== verification/Machine.thy ===== *)
theory Machine
  imports Os GoNumbers RuntimeTypes Config
begin

section \<open>The machine: clock, processes and the network\<close>

text \<open>
  The state of the system is extended by what the router client and the process supervisor talk to. Every interaction has a
  number (\<open>mc_step\<close>) and lets time pass (\<open>mc_elapse\<close>); what the machine answers at an interaction is given by functions of that
  number, so that a statement for all of them covers every behaviour of processes and peers: \<open>mc_alive\<close> is \<^verbatim>\<open>kill(pid, 0)\<close>,
  \<open>mc_exit\<close> the result of \<^verbatim>\<open>cmd.Wait\<close> once the child is gone, \<open>mc_spawn\<close> \<^verbatim>\<open>cmd.Start\<close>, \<open>mc_kill\<close> a signal, \<open>mc_http\<close> an HTTP
  exchange, \<open>mc_dial\<close> a TCP connection, \<open>mc_ctx\<close> the caller's \<^verbatim>\<open>ctx.Err()\<close>.
\<close>

record http_request =
  hq_method :: string
  hq_url :: string
  hq_model :: "string option"

record http_reply =
  hp_status :: int
  hp_status_text :: string
  hp_body :: string
  hp_read_err :: "gerror option"

record command =
  cmd_executable :: string
  cmd_argv :: "string list"
  cmd_display :: string

datatype signal = SIGINT | SIGKILL | SIGTERM

record machine = os +
  mc_time :: int
  mc_step :: nat
  mc_elapse :: "nat \<Rightarrow> int"
  mc_alive :: "nat \<Rightarrow> int \<Rightarrow> bool"
  mc_exit :: "nat \<Rightarrow> int \<Rightarrow> gerror option option"
  mc_spawn :: "nat \<Rightarrow> command \<Rightarrow> (string \<times> string) list \<Rightarrow> gerror + int"
  mc_getpgid :: "int \<Rightarrow> int"
  mc_kill :: "nat \<Rightarrow> int \<Rightarrow> signal \<Rightarrow> gerror option"
  mc_signals :: "(int \<times> signal) list"
  mc_http :: "nat \<Rightarrow> http_request \<Rightarrow> gerror + http_reply"
  mc_requests :: "http_request list"
  mc_dial :: "nat \<Rightarrow> string \<Rightarrow> gerror option"
  mc_ctx :: "nat \<Rightarrow> gerror option"
  mc_exe :: "int \<Rightarrow> gerror + string"
  mc_look_path :: "string \<Rightarrow> string"
  mc_bad_url :: "string \<Rightarrow> gerror option"

type_synonym ('z, 'a) mio = "('z machine_ext, 'a) io"

text \<open>One interaction: the answer may depend on its number, then time passes.\<close>

definition interact :: "(nat \<Rightarrow> 'z machine_scheme \<Rightarrow> gerror + 'a) \<Rightarrow> ('z, 'a) mio" where
  "interact f w =
     (f (mc_step w) w, w\<lparr>mc_step := Suc (mc_step w), mc_time := mc_time w + mc_elapse w (mc_step w)\<rparr>)"

definition query :: "(nat \<Rightarrow> 'z machine_scheme \<Rightarrow> 'a) \<Rightarrow> ('z, 'a) mio" where
  "query f = interact (\<lambda>n w. Inr (f n w))"

definition get_time :: "('z, int) mio" where
  "get_time w = (Inr (mc_time w), w)"

definition exchange :: "http_request \<Rightarrow> ('z, http_reply) mio" where
  "exchange q = bindE (\<lambda>w. (Inr (), w\<lparr>mc_requests := mc_requests w @ [q]\<rparr>)) (\<lambda>_. interact (\<lambda>n w. mc_http w n q))"

definition send_signal :: "int \<Rightarrow> signal \<Rightarrow> ('z, unit) mio" where
  "send_signal target sig =
     bindE (\<lambda>w. (Inr (), w\<lparr>mc_signals := mc_signals w @ [(target, sig)]\<rparr>))
       (\<lambda>_. interact (\<lambda>n w. case mc_kill w n target sig of Some e \<Rightarrow> Inl e | None \<Rightarrow> Inr ()))"

text \<open>The error of a context with a deadline.\<close>

definition ctx_done :: "int \<Rightarrow> nat \<Rightarrow> 'z machine_scheme \<Rightarrow> gerror option" where
  "ctx_done deadline n w =
     (case mc_ctx w n of
        Some e \<Rightarrow> Some e
      | None \<Rightarrow> (if deadline \<le> mc_time w then Some (Sentinel CtxDeadline) else None))"

text \<open>What an interaction leaves alone.\<close>

definition same_files :: "('z os_scheme, 'e, 'a) eff \<Rightarrow> bool" where
  "same_files f \<longleftrightarrow> (\<forall>w. os_files (snd (f w)) = os_files w \<and> os_fault (snd (f w)) = os_fault w)"

named_theorems same_files_intros "interactions that change no file"

lemma same_files_ret [same_files_intros]: "same_files (retE x)"
  by (simp add: same_files_def)

lemma same_files_fail [same_files_intros]: "same_files (failE x)"
  by (simp add: same_files_def)

lemma same_files_try [same_files_intros]:
  "same_files f \<Longrightarrow> (\<And>e. same_files (h e)) \<Longrightarrow> (\<And>x. same_files (k x)) \<Longrightarrow> same_files (tryE f h k)"
  unfolding same_files_def tryE_def by (auto split: prod.splits sum.splits) (metis snd_conv)+

lemma same_files_bind [same_files_intros]:
  "same_files f \<Longrightarrow> (\<And>x. same_files (k x)) \<Longrightarrow> same_files (bindE f k)"
  unfolding bindE_as_try by (intro same_files_intros)

lemma same_files_interact [same_files_intros]: "same_files (interact f)"
  by (simp add: same_files_def interact_def)

lemma same_files_exchange [same_files_intros]: "same_files (exchange q)"
  by (simp add: same_files_def exchange_def bindE_def interact_def)

lemma same_files_signal [same_files_intros]: "same_files (send_signal t s)"
  by (simp add: same_files_def send_signal_def bindE_def interact_def)

end
