(* ===== verification/PresetSource.thy ===== *)
theory PresetSource
  imports PresetStore LocalModels
begin

section \<open>Where presets take their models from (\<^verbatim>\<open>core/modelpresets/source.go\<close>)\<close>

text \<open>
  \<^verbatim>\<open>InspectSource\<close> looks at the file system; \<^verbatim>\<open>FindReferences\<close> compares canonical paths. The state of a source is a
  datatype of the two constants of the source; the error of an unavailable one is its message.
\<close>

datatype source_state = SourceReady | SourceUnavailable

record source_status =
  ss_state :: source_state
  ss_error :: msg

record references =
  rf_model_paths :: "string list"
  rf_model_dirs :: "string list"

record canonical_section =
  cs_name :: string
  cs_model :: string
  cs_models_dir :: string

text \<open>\<^verbatim>\<open>section.Values[key]\<close>: the empty string for an absent key.\<close>

definition value_or_empty :: "(string \<times> string) list \<Rightarrow> string \<Rightarrow> string" where
  "value_or_empty vals k = (case map_of vals k of Some v \<Rightarrow> v | None \<Rightarrow> [])"

definition require_path :: "host_env \<Rightarrow> string \<Rightarrow> bool \<Rightarrow> ('z, unit) io" where
  "require_path env raw want_dir =
     bindE (canonical_path (expand_home env (trim_space raw))) (\<lambda>path.
       tryE (os_stat path)
         (\<lambda>err. if err = Sentinel OsNotExist
            then failE (Plain [Lit ''source '', Quoted path, Lit '' does not exist''])
            else failE (Wrap [Lit ''inspect source '', Quoted path, Lit '': '', TextOf err] [err]))
         (\<lambda>info.
            if want_dir \<and> \<not> (case info of DirNode m \<Rightarrow> True | _ \<Rightarrow> False)
            then failE (Plain [Lit ''source '', Quoted path, Lit '' is not a directory''])
            else if \<not> want_dir \<and> \<not> (case info of RegFile d m \<Rightarrow> True | _ \<Rightarrow> False)
            then failE (Plain [Lit ''source '', Quoted path, Lit '' is not a regular file''])
            else retE ()))"

fun inspect_sources :: "host_env \<Rightarrow> bool \<Rightarrow> (string \<times> bool) list \<Rightarrow> ('z, source_status) io" where
  "inspect_sources env configured [] =
     retE (if \<not> configured then \<lparr>ss_state = SourceUnavailable, ss_error = [Lit ''preset has no model or models-dir source'']\<rparr>
           else \<lparr>ss_state = SourceReady, ss_error = []\<rparr>)"
| "inspect_sources env configured ((path, dir) # rest) =
     (if trim_space path = [] then inspect_sources env configured rest
      else tryE (require_path env path dir)
             (\<lambda>err. retE \<lparr>ss_state = SourceUnavailable, ss_error = [TextOf err]\<rparr>)
             (\<lambda>_. inspect_sources env True rest))"

text \<open>\<open>None\<close> for the values is a nil map.\<close>

definition inspect_source :: "host_env \<Rightarrow> (string \<times> string) list option \<Rightarrow> ('z, source_status) io" where
  "inspect_source env values_opt =
     (case values_opt of
        None \<Rightarrow> retE \<lparr>ss_state = SourceUnavailable, ss_error = [Lit ''preset has no configured values'']\<rparr>
      | Some vals \<Rightarrow>
          inspect_sources env False [(value_or_empty vals ''model'', False), (value_or_empty vals ''models-dir'', True)])"

definition source_path :: "host_env \<Rightarrow> preset_section \<Rightarrow> string \<Rightarrow> ('z, string) io" where
  "source_path env sec key =
     (let path = trim_space (value_or_empty (sec_values sec) key) in
      if path \<noteq> [] then canonical_path (expand_home env path) else retE [])"

fun canonicalize_sections :: "host_env \<Rightarrow> preset_section list \<Rightarrow> ('z, canonical_section list) io" where
  "canonicalize_sections env [] = retE []"
| "canonicalize_sections env (sec # secs) =
     bindE (source_path env sec ''model'') (\<lambda>m.
     bindE (source_path env sec ''models-dir'') (\<lambda>d.
     bindE (canonicalize_sections env secs) (\<lambda>rest.
       retE (\<lparr>cs_name = sec_name sec, cs_model = m, cs_models_dir = d\<rparr> # rest))))"

text \<open>The names of the sections that satisfy \<open>P\<close>, sorted: the two accumulators of the loop.\<close>

definition referencing :: "(canonical_section \<Rightarrow> bool) \<Rightarrow> canonical_section list \<Rightarrow> string list" where
  "referencing P secs = sort (map cs_name (filter P secs))"

definition find_references_canonical ::
  "host_env \<Rightarrow> canonical_section list \<Rightarrow> string \<Rightarrow> ('z, references) io" where
  "find_references_canonical env secs model_path0 =
     bindE (canonical_path (expand_home env model_path0)) (\<lambda>model_path.
       retE \<lparr>rf_model_paths = referencing (\<lambda>s. cs_model s \<noteq> [] \<and> cs_model s = model_path) secs,
             rf_model_dirs = referencing (\<lambda>s. cs_models_dir s \<noteq> [] \<and> path_contains (cs_models_dir s) model_path) secs\<rparr>)"

definition find_references :: "host_env \<Rightarrow> preset_section list \<Rightarrow> string \<Rightarrow> ('z, references) io" where
  "find_references env secs model_path =
     bindE (canonicalize_sections env secs) (\<lambda>cs. find_references_canonical env cs model_path)"

subsection \<open>Reading only\<close>

text \<open>The operations of this component never fail and change no file; the laws the control core relies on.\<close>

definition reads_only :: "('z, 'a) io \<Rightarrow> bool" where
  "reads_only m \<longleftrightarrow> (\<forall>w. os_files (snd (m w)) = os_files w \<and> os_env (snd (m w)) = os_env w)"

named_theorems reads_only_intros "operations that change no file"

lemma reads_only_ret [reads_only_intros]: "reads_only (retE x)"
  by (simp add: reads_only_def)

lemma reads_only_fail [reads_only_intros]: "reads_only (failE x)"
  by (simp add: reads_only_def)

lemma reads_only_try [reads_only_intros]:
  "reads_only m \<Longrightarrow> (\<And>e. reads_only (h e)) \<Longrightarrow> (\<And>x. reads_only (k x)) \<Longrightarrow> reads_only (tryE m h k)"
  unfolding reads_only_def tryE_def by (auto split: prod.splits sum.splits) (metis snd_conv)+

lemma reads_only_bind [reads_only_intros]:
  "reads_only m \<Longrightarrow> (\<And>x. reads_only (k x)) \<Longrightarrow> reads_only (bindE m k)"
  unfolding bindE_as_try by (intro reads_only_intros)

lemma reads_only_if [reads_only_intros]: "reads_only m \<Longrightarrow> reads_only n \<Longrightarrow> reads_only (if b then m else n)"
  by simp

lemma reads_only_call: "(\<And>w. snd (f w) = w) \<Longrightarrow> reads_only (os_call f)"
  by (simp add: reads_only_def os_call_def Let_def split: option.splits)

lemma reads_only_os [reads_only_intros]:
  "reads_only (os_stat p)" "reads_only (os_lstat p)" "reads_only (os_abs p)" "reads_only (os_eval_symlinks p)"
  unfolding os_stat_def os_lstat_def os_abs_def os_eval_symlinks_def
  by (intro reads_only_intros reads_only_call; simp)+

lemma reads_only_canonical [reads_only_intros]: "reads_only (canonical_path p)"
  unfolding canonical_path_def by (intro reads_only_intros)

lemma reads_only_require [reads_only_intros]: "reads_only (require_path env raw d)"
  unfolding require_path_def by (intro reads_only_intros)

lemma reads_only_inspect_sources [reads_only_intros]: "reads_only (inspect_sources env c ps)"
proof (induction env c ps rule: inspect_sources.induct)
  case (1 env c)
  show ?case unfolding inspect_sources.simps by (intro reads_only_intros)
next
  case (2 env c path dir rest)
  then show ?case unfolding inspect_sources.simps by (cases "trim_space path = []") (auto intro!: reads_only_intros)
qed

lemma reads_only_inspect [reads_only_intros]: "reads_only (inspect_source env v)"
  by (auto simp: inspect_source_def intro!: reads_only_intros split: option.splits)

lemma canonical_never_fails: "\<exists>p' w'. canonical_path p w = (Inr p', w')"
  unfolding canonical_path_def os_abs_def os_eval_symlinks_def
  by (auto simp: bindE_def tryE_def os_call_def Let_def retE_def split: option.splits sum.splits prod.splits if_splits)

lemma find_references_canonical_result:
  assumes "find_references_canonical env secs path w = (r, w')"
  obtains model w1 where "canonical_path (expand_home env path) w = (Inr model, w1)"
    "r = Inr \<lparr>rf_model_paths = referencing (\<lambda>s. cs_model s \<noteq> [] \<and> cs_model s = model) secs,
       rf_model_dirs = referencing (\<lambda>s. cs_models_dir s \<noteq> [] \<and> path_contains (cs_models_dir s) model) secs\<rparr>" "w' = w1"
proof -
  obtain model w1 where m: "canonical_path (expand_home env path) w = (Inr model, w1)"
    using canonical_never_fails by blast
  with assms show ?thesis by (intro that) (auto simp: find_references_canonical_def bindE_def)
qed

text \<open>\<^verbatim>\<open>InspectSource\<close> answers ready exactly when something is configured and every configured path passes.\<close>

lemma inspect_sources_no_fail: "\<exists>s w'. inspect_sources env c ps w = (Inr s, w')"
proof (induction env c ps arbitrary: w rule: inspect_sources.induct)
  case (2 env c path dir rest)
  show ?case
  proof (cases "trim_space path = []")
    case False
    obtain r w1 where r: "require_path env path dir w = (r, w1)" by force
    show ?thesis
    proof (cases r)
      case (Inr u)
      with r False 2(2) [of w1] show ?thesis by (auto simp: tryE_def)
    qed (use r False in \<open>auto simp: tryE_def\<close>)
  qed (use 2 in auto)
qed auto

lemma inspect_source_no_fail: "\<exists>s w'. inspect_source env v w = (Inr s, w')"
proof (cases v)
  case (Some vals)
  show ?thesis unfolding inspect_source_def Some option.case by (rule inspect_sources_no_fail)
qed (simp add: inspect_source_def)

end
