(* ===== verification/PidFile.thy ===== *)
theory PidFile
  imports Machine PresetSource
begin

section \<open>PID files (\<^verbatim>\<open>platform/pidfile/pidfile.go\<close>)\<close>

text \<open>\<^verbatim>\<open>File\<close> is its path. A PID is an integer; \<^verbatim>\<open>os.IsNotExist\<close> looks at the system error itself.\<close>

definition pid_write :: "string \<Rightarrow> int \<Rightarrow> ('z, unit) io" where
  "pid_write path pid =
     bindE (os_mkdir_all (dir_of path) 448) (\<lambda>_. os_write_file path (int_text pid @ [CHR 0x0A]) 384)"

text \<open>\<^verbatim>\<open>Alive\<close>: signal 0 is only sent for a positive PID.\<close>

definition pid_alive :: "int \<Rightarrow> ('z, bool) mio" where
  "pid_alive pid = (if pid > 0 then query (\<lambda>n w. mc_alive w n pid) else retE False)"

definition pid_running :: "string \<Rightarrow> ('z, int option) mio" where
  "pid_running path =
     tryE (os_read_file path)
       (\<lambda>err. if err = Sentinel OsNotExist then retE None else failE err)
       (\<lambda>data.
          bindE (case parse_int (trim_space data) of None \<Rightarrow> retE None
                 | Some pid \<Rightarrow> bindE (pid_alive pid) (\<lambda>b. retE (if b then Some pid else None))) (\<lambda>found.
            case found of
              None \<Rightarrow> bindE (ignoreE (os_remove path)) (\<lambda>_. retE None)
            | Some pid \<Rightarrow> retE (Some pid)))"

definition remove_existing :: "string \<Rightarrow> ('z, unit) io" where
  "remove_existing path = tryE (os_remove path) (\<lambda>err. if err = Sentinel OsNotExist then retE () else failE err) retE"

definition pid_remove :: "string \<Rightarrow> int \<Rightarrow> ('z, unit) io" where
  "pid_remove path expected =
     (if expected > 0 then
        tryE (os_read_file path)
          (\<lambda>err. if err = Sentinel OsNotExist then retE () else failE err)
          (\<lambda>data. case parse_int (trim_space data) of
               Some pid \<Rightarrow> (if pid \<noteq> expected then retE () else remove_existing path)
             | None \<Rightarrow> remove_existing path)
      else remove_existing path)"

definition executable_matches :: "int \<Rightarrow> string \<Rightarrow> ('z, bool) mio" where
  "executable_matches pid expected w =
     (Inr (case mc_exe w pid of
             Inl err \<Rightarrow> False
           | Inr actual \<Rightarrow> actual = expected \<or> actual = mc_look_path w expected \<or> base_of actual = base_of expected), w)"

subsection \<open>Writing and reading back\<close>

lemma int_text_ends: "int_text i \<noteq> [] \<and> plain (hd (int_text i)) \<and> plain (last (int_text i))"
proof -
  have d: "itoa n \<noteq> []" "\<forall>c \<in> set (itoa n). plain c" for n
    using itoa_digits [of n] by (auto simp: list_all_iff digit_plain)
  then have e: "plain (hd (itoa n))" "plain (last (itoa n))" for n by (metis hd_in_set, metis last_in_set)
  have "plain (CHR ''-'')" by (simp add: plain_def)
  with d(1) e show ?thesis by (simp add: int_text_def)
qed

lemma trim_int_text: "trim_space (int_text i @ [CHR 0x0A]) = int_text i"
  using trim_space_snoc_single [OF go_spaces_ascii(4)] trim_space_plain_ends int_text_ends by metis

lemma os_read_regular_file:
  assumes "os_files w path = Some (RegFile d m)" "os_fault w (os_tick w) = None"
  shows "os_read_file path w = (Inr d, w\<lparr>os_tick := Suc (os_tick w)\<rparr>)"
  using assms by (simp add: os_read_file_def os_call_def stat_node_def eval_nat_numeral)

lemma more_machine:
  fixes w w' :: "'z machine_scheme"
  assumes "os_env w' = os_env w"
  shows "mc_alive w' = mc_alive w" "mc_step w' = mc_step w" "os_fault w' = os_fault w"
  using assms by (cases w; cases w'; simp add: os_env_def)+

lemma pid_write_effect:
  fixes w :: "'z machine_scheme"
  assumes "os_fault w = (\<lambda>_. None)" "is_dir_at (os_files w) (dir_of path)" "dir_of path \<noteq> path"
    and "os_files w path = None \<or> (\<exists>d m. os_files w path = Some (RegFile d m))"
  shows "\<exists>w1 m. pid_write path pid w = (Inr (), w1) \<and> os_files w1 path = Some (RegFile (int_text pid @ [CHR 0x0A]) m) \<and>
    os_env w1 = os_env w"
proof -
  obtain dm where dm: "os_files w (dir_of path) = Some (DirNode dm)"
    using assms(2) by (auto simp: is_dir_at_def split: option.splits node.splits)
  have f: "follow 40 (os_files w) path = Some path"
    by (rule follow_not_link) (use assms(4) in \<open>auto simp: not_link_def\<close>)
  have "\<exists>w1 m. pid_write path pid w = (Inr (), w1) \<and> os_files w1 path = Some (RegFile (int_text pid @ [CHR 0x0A]) m)"
    using assms(1,4) dm f
    by (auto simp: pid_write_def os_mkdir_all_def os_write_file_def os_create_trunc_def os_write_def bindE_def
        os_call_def Let_def stat_node_def follow_not_link eval_nat_numeral append_data_def set_node_def)
  moreover have "keeps os_env (pid_write path pid)"
    unfolding pid_write_def by (intro keeps_intros keeps_env_write_file keeps_env_ops)
  ultimately show ?thesis by (blast dest: keepsD)
qed

text \<open>A PID file reads back: where no system call fails, \<^verbatim>\<open>Write\<close> of a positive 64-bit PID succeeds, and \<^verbatim>\<open>Running\<close> on
  the file then reports that PID exactly when its process is alive; otherwise it reports nothing and the stale file is gone.\<close>

theorem pid_file_roundtrip:
  fixes w :: "'z machine_scheme"
  assumes "os_fault w = (\<lambda>_. None)" "is_dir_at (os_files w) (dir_of path)" "dir_of path \<noteq> path"
    and "os_files w path = None \<or> (\<exists>d m. os_files w path = Some (RegFile d m))"
    and "0 < pid" "pid < 2 ^ 63"
  shows "\<exists>w1 r w2. pid_write path pid w = (Inr (), w1) \<and> pid_running path w1 = (r, w2) \<and>
    (if mc_alive w (mc_step w) pid then r = Inr (Some pid) \<and> os_files w2 path = os_files w1 path
     else r = Inr None \<and> os_files w2 path = None)"
proof -
  from pid_write_effect [OF assms(1-4), of pid] obtain w1 m where
    wr: "pid_write path pid w = (Inr (), w1)" "os_files w1 path = Some (RegFile (int_text pid @ [CHR 0x0A]) m)"
    and env: "os_env w1 = os_env w" by blast
  have p: "parse_int (trim_space (int_text pid @ [CHR 0x0A])) = Some pid"
    unfolding trim_int_text by (rule parse_int_text) (use assms(5,6) in simp_all)
  have "os_files (w1\<lparr>os_tick := n, mc_step := k, mc_time := t\<rparr>) path = os_files w1 path" for n k t by simp
  with wr(2) more_machine [OF env] assms(1,5) p
  have "\<exists>r w2. pid_running path w1 = (r, w2) \<and>
    (if mc_alive w (mc_step w) pid then r = Inr (Some pid) \<and> os_files w2 path = os_files w1 path
     else r = Inr None \<and> os_files w2 path = None)"
    by (auto simp: pid_running_def tryE_def bindE_def os_read_file_def os_call_def Let_def stat_node_def
        eval_nat_numeral pid_alive_def query_def interact_def os_remove_def set_node_def split: option.splits)
  with wr(1) show ?thesis by blast
qed

definition demo_machine :: "(string \<Rightarrow> node option) \<Rightarrow> machine" where
  "demo_machine fs =
     \<lparr>os_files = fs, os_tick = 0, os_fault = (\<lambda>_. None), os_trace = [], os_rand = (\<lambda>_. 0), os_stamp = (\<lambda>_. []),
      os_sha = (\<lambda>s. s), os_cwd = ''/'', mc_time = 0, mc_step = 0, mc_elapse = (\<lambda>_. 1), mc_alive = (\<lambda>n p. p = 42),
      mc_exit = (\<lambda>_ _. None), mc_spawn = (\<lambda>_ _ _. Inr 42), mc_getpgid = (\<lambda>p. p), mc_kill = (\<lambda>_ _ _. None), mc_signals = [],
      mc_http = (\<lambda>_ _. Inr \<lparr>hp_status = 200, hp_status_text = ''200 OK'', hp_body = [], hp_read_err = None\<rparr>), mc_requests = [],
      mc_dial = (\<lambda>_ _. None), mc_ctx = (\<lambda>_. None), mc_exe = (\<lambda>_. Inr ''llama-server''), mc_look_path = (\<lambda>s. s),
      mc_bad_url = (\<lambda>_. None)\<rparr>"

theorem pid_file_roundtrip_witness:
  "let w = demo_machine [''/r'' \<mapsto> DirNode 448] in
   \<exists>w1 r w2. pid_write ''/r/x.pid'' 42 w = (Inr (), w1) \<and> pid_running ''/r/x.pid'' w1 = (r, w2) \<and>
    (if mc_alive w (mc_step w) 42 then r = Inr (Some 42) \<and> os_files w2 ''/r/x.pid'' = os_files w1 ''/r/x.pid''
     else r = Inr None \<and> os_files w2 ''/r/x.pid'' = None)"
proof -
  have "dir_of ''/r/x.pid'' = ''/r''" by code_simp
  then show ?thesis unfolding Let_def
    by (intro pid_file_roundtrip) (simp_all add: demo_machine_def is_dir_at_def)
qed

end
