(* ===== verification/ControlErrors.thy ===== *)
theory ControlErrors
  imports GoErrors
begin

section \<open>Errors of the control core (\<^verbatim>\<open>core/control/errors.go\<close>)\<close>

text \<open>
  A structured error is \<open>CoreErr\<close> of \<^theory_text>\<open>GoErrors\<close>: its kind, its message and the error it unwraps to. The empty kind of
  the source is \<open>None\<close>. The tables pair a sentinel with the kind it is reported as; a mapped error keeps the
  original text and stays wrapped, so \<^verbatim>\<open>errors.Is\<close> sees the same sentinels before and after.
\<close>

definition core_error :: "error_kind \<Rightarrow> msg \<Rightarrow> gerror option \<Rightarrow> gerror" where
  "core_error kind message err = CoreErr kind message err"

definition core_errorf :: "error_kind \<Rightarrow> msg \<Rightarrow> gerror" where
  "core_errorf kind message = CoreErr kind message None"

definition core_kind :: "gerror option \<Rightarrow> error_kind option" where
  "core_kind err =
     (case err of
        None \<Rightarrow> None
      | Some e \<Rightarrow> (case as_core e of Some (k, m) \<Rightarrow> Some k | None \<Rightarrow> Some ErrorInternal))"

definition core_message :: "gerror option \<Rightarrow> msg" where
  "core_message err =
     (case err of
        None \<Rightarrow> []
      | Some e \<Rightarrow> (case as_core e of Some (k, m) \<Rightarrow> m | None \<Rightarrow> [TextOf e]))"

definition message_or :: "msg \<Rightarrow> gerror option \<Rightarrow> msg" where
  "message_or fallback err =
     (case err of None \<Rightarrow> fallback | Some e \<Rightarrow> (if text_empty e then fallback else [TextOf e]))"

definition map_runtime_error :: "gerror \<Rightarrow> msg \<Rightarrow> gerror" where
  "map_runtime_error err fallback =
     (case runtime_Kind (Some err) of
        Some RtInvalidInput \<Rightarrow> core_error ErrorInvalidInput (message_or fallback (Some err)) (Some err)
      | Some RtTimeout \<Rightarrow> core_error ErrorTimeout (message_or fallback (Some err)) (Some err)
      | Some RtRuntime \<Rightarrow> core_error ErrorRuntime (message_or fallback (Some err)) (Some err)
      | None \<Rightarrow> err)"

type_synonym sentinel_kinds = "(sentinel \<times> error_kind) list"

fun map_sentinel :: "gerror \<Rightarrow> sentinel_kinds \<Rightarrow> gerror" where
  "map_sentinel err [] = err"
| "map_sentinel err ((target, kind) # table) =
     (if errors_is err target then core_error kind [TextOf err] (Some err) else map_sentinel err table)"

definition server_config_error_table :: sentinel_kinds where
  "server_config_error_table =
     [(PresetInvalid, ErrorInvalidInput), (PresetNotFound, ErrorNotFound), (PresetExists, ErrorConflict),
      (OsNotExist, ErrorNotFound), (ErrUnsupported, ErrorInvalidInput)]"

definition map_server_config_error :: "gerror \<Rightarrow> gerror" where
  "map_server_config_error err = map_sentinel err server_config_error_table"

definition config_store_error_table :: sentinel_kinds where
  "config_store_error_table =
     [(AutostartCapExceeded, ErrorConflict), (ConfigEmpty, ErrorInvalidInput), (ConfigTooLarge, ErrorInvalidInput),
      (ConfigMalformed, ErrorInvalidInput), (ErrUnsupported, ErrorInvalidInput)]"

definition map_config_store_error :: "gerror \<Rightarrow> gerror" where
  "map_config_store_error err =
     (if errors_is err AutostartCapExceeded then core_error ErrorConflict [TextOf err] (Some err)
      else if errors_is err ConfigEmpty \<or> errors_is err ConfigTooLarge \<or> errors_is err ConfigMalformed
      then core_error ErrorInvalidInput [TextOf err] (Some err)
      else if errors_is err OsNotExist then core_error ErrorNotFound [Lit ''config.yaml entry not found''] (Some err)
      else map_sentinel err config_store_error_table)"

subsection \<open>Mapping keeps the cause\<close>

named_theorems error_map_simps "what the mapped errors are"

lemma core_error_is [simp, error_map_simps]: "errors_is (core_error k m (Some e)) t = errors_is e t"
  by (simp add: core_error_def)

lemma core_errorf_is [simp, error_map_simps]: "\<not> errors_is (core_errorf k m) t"
  by (simp add: core_errorf_def)

lemma core_kind_core [simp, error_map_simps]:
  "core_kind (Some (core_error k m c)) = Some k" "core_kind (Some (core_errorf k m)) = Some k"
  by (simp_all add: core_kind_def core_error_def core_errorf_def)

lemma map_sentinel_is [simp, error_map_simps]: "errors_is (map_sentinel e tbl) t = errors_is e t"
  by (induction e tbl rule: map_sentinel.induct) simp_all

lemma map_sentinel_no_match:
  "(\<And>s k. (s, k) \<in> set tbl \<Longrightarrow> \<not> errors_is e s) \<Longrightarrow> map_sentinel e tbl = e"
  by (induction e tbl rule: map_sentinel.induct) auto

lemma map_server_config_is [simp, error_map_simps]: "errors_is (map_server_config_error e) t = errors_is e t"
  by (simp add: map_server_config_error_def)

lemma map_runtime_is [simp, error_map_simps]: "errors_is (map_runtime_error e m) t = errors_is e t"
  by (simp add: map_runtime_error_def split: option.splits rt_kind.splits)

lemma core_error_not_self [simp]: "core_error k m (Some e) \<noteq> e"
proof
  assume "core_error k m (Some e) = e"
  then have "size (core_error k m (Some e)) = size e" by simp
  then show False by (simp add: core_error_def)
qed

text \<open>\<^verbatim>\<open>mapConfigStoreError\<close> is the table mapping with one more row for a missing file, placed between the
  sentinels of the store and \<^verbatim>\<open>ErrUnsupported\<close>: it agrees with \<^verbatim>\<open>MapSentinel\<close> on that table except for the text
  of the not-found error, and no mapping hides a sentinel of the mapped error.\<close>

theorem config_store_error_is_table:
  "map_config_store_error err =
     (let tbl = [(AutostartCapExceeded, ErrorConflict), (ConfigEmpty, ErrorInvalidInput),
          (ConfigTooLarge, ErrorInvalidInput), (ConfigMalformed, ErrorInvalidInput),
          (OsNotExist, ErrorNotFound), (ErrUnsupported, ErrorInvalidInput)];
        mapped = map_sentinel err tbl
      in if core_kind (Some mapped) = Some ErrorNotFound \<and> mapped \<noteq> err
         then core_error ErrorNotFound [Lit ''config.yaml entry not found''] (Some err) else mapped) \<and>
   errors_is (map_config_store_error err) t = errors_is err t \<and>
   errors_is (map_server_config_error err) t = errors_is err t"
  by (auto simp: map_config_store_error_def config_store_error_table_def Let_def)

end
