(* ===== verification/ControlEvents.thy ===== *)
theory ControlEvents
  imports ControlErrors GoPath "HOL-Library.Word"
begin

section \<open>The event log of the control core (\<^verbatim>\<open>core/control/events.go\<close>)\<close>

text \<open>
  \<open>event_store\<close> is \<^verbatim>\<open>EventStore\<close>: the recorded events, oldest first, the limit, the subscribed channels and the
  64-bit counter of identifiers. A channel is a number; its buffer (at most 100 events) is \<open>es_buffer\<close>. The lock makes
  every operation one function on the store. The time stamp of a record is an argument.
\<close>

subsection \<open>The text of a duration (\<^verbatim>\<open>time.Duration.String\<close>)\<close>

fun pad_zeros :: "nat \<Rightarrow> string \<Rightarrow> string" where
  "pad_zeros n s = replicate (n - length s) CHR ''0'' @ s"

definition fraction_text :: "nat \<Rightarrow> nat \<Rightarrow> string" where
  "fraction_text v prec =
     (let ds = trim_right_set (pad_zeros prec (itoa (v mod 10 ^ prec))) ''0''
      in if ds = [] then [] else CHR ''.'' # ds)"

definition unit_text :: "nat \<Rightarrow> nat \<Rightarrow> string \<Rightarrow> string" where
  "unit_text v prec u = itoa (v div 10 ^ prec) @ fraction_text v prec @ u"

definition duration_text :: "int \<Rightarrow> string" where
  "duration_text d =
     (let u = nat \<bar>d\<bar>; s = u div 10 ^ 9;
          body =
            (if u = 0 then ''0s''
             else if u < 10 ^ 3 then itoa u @ ''ns''
             else if u < 10 ^ 6 then unit_text u 3 [CHR 0xC2, CHR 0xB5, CHR ''s'']
             else if u < 10 ^ 9 then unit_text u 6 ''ms''
             else
               (if s div 3600 > 0 then itoa (s div 3600) @ ''h'' else []) @
               (if s div 60 > 0 then itoa (s div 60 mod 60) @ ''m'' else []) @
               itoa (s mod 60) @ fraction_text u 9 @ ''s'')
      in if d < 0 then CHR ''-'' # body else body)"

subsection \<open>The store\<close>

record audit_event =
  ae_protocol :: string
  ae_action :: string
  ae_success :: bool
  ae_error_kind :: "error_kind option"
  ae_duration :: int

record ev =
  ev_id :: string
  ev_time :: string
  ev_action :: string
  ev_success :: bool
  ev_error_kind :: "error_kind option"
  ev_duration :: string

record event_store =
  es_events :: "ev list"
  es_limit :: int
  es_subs :: "nat list"
  es_next_id :: "64 word"
  es_buffer :: "nat \<Rightarrow> ev list"
  es_closed :: "nat set"
  es_made :: nat

definition default_event_limit :: int where "default_event_limit = 200"

definition channel_size :: nat where "channel_size = 100"

definition new_event_store :: "int \<Rightarrow> event_store" where
  "new_event_store limit =
     \<lparr>es_events = [], es_limit = (if limit \<le> 0 then default_event_limit else limit), es_subs = [], es_next_id = 0,
      es_buffer = (\<lambda>_. []), es_closed = {}, es_made = 0\<rparr>"

definition recorded_event :: "64 word \<Rightarrow> string \<Rightarrow> audit_event \<Rightarrow> ev" where
  "recorded_event next_id now event =
     \<lparr>ev_id = itoa (unat next_id), ev_time = now, ev_action = ae_action event, ev_success = ae_success event,
      ev_error_kind = ae_error_kind event, ev_duration = duration_text (ae_duration event)\<rparr>"

text \<open>A send that does not block: a full buffer drops the event.\<close>

definition offer :: "ev \<Rightarrow> ev list \<Rightarrow> ev list" where
  "offer e buf = (if length buf < channel_size then buf @ [e] else buf)"

definition es_record :: "string \<Rightarrow> audit_event \<Rightarrow> event_store \<Rightarrow> event_store" where
  "es_record now event s =
     (let nid = es_next_id s + 1;
          recorded = recorded_event nid now event;
          appended = es_events s @ [recorded];
          kept = (if int (length appended) > es_limit s then tl appended else appended)
      in s\<lparr>es_next_id := nid, es_events := kept,
           es_buffer := (\<lambda>ch. if ch \<in> set (es_subs s) then offer recorded (es_buffer s ch) else es_buffer s ch)\<rparr>)"

definition es_list :: "event_store \<Rightarrow> ev list" where
  "es_list s = rev (es_events s)"

definition subscribe_and_list :: "event_store \<Rightarrow> (nat \<times> ev list) \<times> event_store" where
  "subscribe_and_list s =
     (let ch = es_made s
      in ((ch, es_events s),
          s\<lparr>es_made := Suc ch, es_subs := es_subs s @ [ch], es_buffer := (es_buffer s)(ch := [])\<rparr>))"

definition es_unsubscribe :: "nat \<Rightarrow> event_store \<Rightarrow> event_store" where
  "es_unsubscribe ch s =
     (if ch \<in> set (es_subs s)
      then s\<lparr>es_subs := filter (\<lambda>c. c \<noteq> ch) (es_subs s), es_closed := insert ch (es_closed s)\<rparr> else s)"

text \<open>\<^verbatim>\<open>MultiAuditSink.Record\<close>: every sink that is not nil, in order.\<close>

fun multi_record :: "(audit_event \<Rightarrow> 'w \<Rightarrow> 'w) option list \<Rightarrow> audit_event \<Rightarrow> 'w \<Rightarrow> 'w" where
  "multi_record [] event w = w"
| "multi_record (None # sinks) event w = multi_record sinks event w"
| "multi_record (Some sink # sinks) event w = multi_record sinks event (sink event w)"

subsection \<open>The log behind the store\<close>

text \<open>
  The specification: the list of all events ever recorded. The identifiers are those of the counter;
  the store keeps its last \<open>limit\<close> entries.
\<close>

fun numbered :: "64 word \<Rightarrow> (string \<times> audit_event) list \<Rightarrow> ev list" where
  "numbered n [] = []"
| "numbered n ((now, event) # rest) = recorded_event (n + 1) now event # numbered (n + 1) rest"

definition run_records :: "(string \<times> audit_event) list \<Rightarrow> event_store \<Rightarrow> event_store" where
  "run_records xs s = fold (\<lambda>(now, event). es_record now event) xs s"

definition last_n :: "nat \<Rightarrow> 'a list \<Rightarrow> 'a list" where
  "last_n n xs = drop (length xs - n) xs"

lemma last_n_snoc:
  assumes "n > 0"
  shows "last_n n (xs @ [x]) = (if length (last_n n xs) = n then tl (last_n n xs) @ [x] else last_n n xs @ [x])"
proof (cases "length xs < n")
  case True
  then show ?thesis by (simp add: last_n_def)
next
  case False
  with assms show ?thesis by (simp add: last_n_def Suc_diff_le drop_Suc tl_drop)
qed

lemma length_last_n [simp]: "length (last_n n xs) = min n (length xs)"
  by (auto simp: last_n_def)

lemma last_n_last_n: "last_n n (last_n n xs @ ys) = last_n n (xs @ ys)"
proof -
  have "xs = take (length xs - n) xs @ last_n n xs" by (simp add: last_n_def)
  then have "xs @ ys = take (length xs - n) xs @ (last_n n xs @ ys)" by (metis append_assoc)
  moreover have "last_n n (us @ vs) = last_n n vs" if "us = [] \<or> n \<le> length vs" for us vs :: "'a list"
    using that by (auto simp: last_n_def)
  moreover have "take (length xs - n) xs = [] \<or> n \<le> length (last_n n xs @ ys)" by auto
  ultimately show ?thesis by metis
qed

definition es_ok :: "event_store \<Rightarrow> bool" where
  "es_ok s \<longleftrightarrow> es_limit s > 0 \<and> int (length (es_events s)) \<le> es_limit s \<and> distinct (es_subs s) \<and>
     (\<forall>ch \<in> set (es_subs s). ch < es_made s \<and> ch \<notin> es_closed s) \<and> (\<forall>ch. length (es_buffer s ch) \<le> channel_size)"

definition es_bounded :: "event_store \<Rightarrow> bool" where
  "es_bounded s \<longleftrightarrow> es_limit s > 0 \<and> int (length (es_events s)) \<le> es_limit s"

lemma es_ok_bounded: "es_ok s \<Longrightarrow> es_bounded s"
  by (simp add: es_ok_def es_bounded_def)

lemma es_bounded_record: "es_bounded s \<Longrightarrow> es_bounded (es_record now e s)"
  by (auto simp: es_bounded_def es_record_def Let_def)

lemma es_ok_new: "es_ok (new_event_store limit)"
  by (simp add: es_ok_def new_event_store_def default_event_limit_def)

lemma es_ok_record: "es_ok s \<Longrightarrow> es_ok (es_record now e s)"
  by (auto simp: es_ok_def es_record_def offer_def Let_def)

lemma es_ok_subscribe: "es_ok s \<Longrightarrow> subscribe_and_list s = (r, s') \<Longrightarrow>
  (\<forall>ch \<in> es_closed s. ch < es_made s) \<Longrightarrow> es_ok s'"
  by (auto simp: es_ok_def subscribe_and_list_def Let_def less_Suc_eq)

lemma record_events:
  assumes "es_bounded s"
  shows "es_events (es_record now e s) =
    last_n (nat (es_limit s)) (es_events s @ [recorded_event (es_next_id s + 1) now e])"
proof -
  have n: "nat (es_limit s) > 0" "length (es_events s) \<le> nat (es_limit s)" using assms by (auto simp: es_bounded_def)
  then have "last_n (nat (es_limit s)) (es_events s) = es_events s" by (simp add: last_n_def)
  with last_n_snoc [OF n(1), of "es_events s"] n
  have "last_n (nat (es_limit s)) (es_events s @ [x]) =
    (if length (es_events s) = nat (es_limit s) then tl (es_events s) @ [x] else es_events s @ [x])" for x by simp
  moreover have "int (length (es_events s @ [x])) > es_limit s \<longleftrightarrow> length (es_events s) = nat (es_limit s)" for x
    using n by auto
  moreover have "length (es_events s) = nat (es_limit s) \<Longrightarrow> tl (es_events s @ [x]) = tl (es_events s) @ [x]" for x
    using n(1) by (cases "es_events s") auto
  ultimately show ?thesis by (simp add: es_record_def Let_def)
qed

lemma record_frame [simp]:
  "es_limit (es_record now e s) = es_limit s" "es_subs (es_record now e s) = es_subs s"
  "es_next_id (es_record now e s) = es_next_id s + 1" "es_made (es_record now e s) = es_made s"
  by (simp_all add: es_record_def Let_def)

lemma run_records_events:
  "es_bounded s \<Longrightarrow> es_events (run_records xs s) = last_n (nat (es_limit s)) (es_events s @ numbered (es_next_id s) xs)"
proof (induction xs arbitrary: s)
  case Nil
  then show ?case by (auto simp: run_records_def last_n_def es_bounded_def)
next
  case (Cons x xs)
  obtain now e where x: "x = (now, e)" by force
  let ?s = "es_record now e s"
  have "es_events (run_records (x # xs) s) = es_events (run_records xs ?s)" by (simp add: run_records_def x)
  also have "\<dots> = last_n (nat (es_limit s)) (es_events ?s @ numbered (es_next_id s + 1) xs)"
    using Cons.IH [OF es_bounded_record [OF Cons.prems]] by simp
  finally show ?case using Cons.prems by (simp add: record_events last_n_last_n x)
qed

lemma run_records_buffer:
  assumes "ch \<in> set (es_subs s)" "length (es_buffer s ch) + length xs \<le> channel_size"
  shows "es_buffer (run_records xs s) ch = es_buffer s ch @ numbered (es_next_id s) xs"
  using assms
proof (induction xs arbitrary: s)
  case Nil
  then show ?case by (simp add: run_records_def)
next
  case (Cons x xs)
  obtain now e where x: "x = (now, e)" by force
  let ?s = "es_record now e s"
  have b: "es_buffer ?s ch = es_buffer s ch @ [recorded_event (es_next_id s + 1) now e]"
    using Cons.prems by (simp add: es_record_def Let_def offer_def)
  have "es_buffer (run_records (x # xs) s) ch = es_buffer (run_records xs ?s) ch" by (simp add: run_records_def x)
  also have "\<dots> = es_buffer ?s ch @ numbered (es_next_id s + 1) xs"
    using Cons.IH [of ?s] Cons.prems b by simp
  finally show ?case by (simp add: b x)
qed

lemma numbered_nth: "i < length xs \<Longrightarrow> ev_id (numbered n xs ! i) = itoa (unat (n + 1 + of_nat i))"
proof (induction xs arbitrary: n i)
  case (Cons x xs)
  obtain now e where "x = (now, e)" by force
  with Cons show ?case by (cases i) (simp_all add: recorded_event_def algebra_simps)
qed simp

lemma length_numbered [simp]: "length (numbered n xs) = length xs"
  by (induction n xs rule: numbered.induct) simp_all

text \<open>The event store is the bounded view of the log of everything recorded: after any sequence of \<^verbatim>\<open>Record\<close>
  calls on a new store, \<^verbatim>\<open>List\<close> returns the last \<open>limit\<close> records, newest first (200 for a limit that is not positive).\<close>

theorem event_store_refines_log:
  "es_list (run_records xs (new_event_store limit)) =
     rev (last_n (nat (if limit \<le> 0 then 200 else limit)) (numbered 0 xs))"
proof -
  have "es_limit (new_event_store limit) = (if limit \<le> 0 then 200 else limit)"
    "es_next_id (new_event_store limit) = 0" "es_events (new_event_store limit) = []"
    by (simp_all add: new_event_store_def default_event_limit_def)
  then show ?thesis using run_records_events [OF es_ok_bounded [OF es_ok_new [of limit]], of xs] by (simp add: es_list_def)
qed

text \<open>A subscriber misses nothing: with at most 100 records after \<^verbatim>\<open>SubscribeAndList\<close>, its backlog followed by its
  channel is the store's log with the new records appended, without a gap or a repetition, whatever other
  subscribers do; the buffer never exceeds its 100 slots.\<close>

theorem subscriber_sees_log:
  assumes "es_ok s" "subscribe_and_list s = ((ch, backlog), s1)" "length xs \<le> 100"
  shows "backlog @ es_buffer (run_records xs s1) ch = es_events s @ numbered (es_next_id s) xs \<and>
    length (es_buffer (run_records xs s1) ch) = length xs \<and>
    es_events (run_records xs s1) = last_n (nat (es_limit s)) (backlog @ es_buffer (run_records xs s1) ch)"
proof -
  have s1: "ch = es_made s" "backlog = es_events s" "s1 = s\<lparr>es_made := Suc ch, es_subs := es_subs s @ [ch], es_buffer := (es_buffer s)(ch := [])\<rparr>"
    using assms(2) by (auto simp: subscribe_and_list_def Let_def)
  have "es_buffer (run_records xs s1) ch = es_buffer s1 ch @ numbered (es_next_id s1) xs"
    by (rule run_records_buffer) (use assms(3) in \<open>auto simp: s1 channel_size_def\<close>)
  then have b: "es_buffer (run_records xs s1) ch = numbered (es_next_id s) xs" by (simp add: s1)
  have "es_bounded s1" using assms(1) by (simp add: es_ok_def es_bounded_def s1)
  then have "es_events (run_records xs s1) = last_n (nat (es_limit s)) (es_events s @ numbered (es_next_id s) xs)"
    using run_records_events [of s1 xs] by (simp add: s1)
  with b s1 show ?thesis by simp
qed

definition demo_audit :: audit_event where
  "demo_audit = \<lparr>ae_protocol = [], ae_action = ''start'', ae_success = True, ae_error_kind = None, ae_duration = 1500000000\<rparr>"

theorem subscriber_sees_log_witness:
  "let s = es_record ''t0'' demo_audit (new_event_store 5); r = subscribe_and_list s;
       s1 = snd r; ch = fst (fst r) in
   snd (fst r) @ es_buffer (run_records [(''t1'', demo_audit)] s1) ch = es_events s @ numbered (es_next_id s) [(''t1'', demo_audit)] \<and>
   length (es_buffer (run_records [(''t1'', demo_audit)] s1) ch) = length [(''t1'', demo_audit)] \<and>
   es_events (run_records [(''t1'', demo_audit)] s1) =
     last_n (nat (es_limit s)) (snd (fst r) @ es_buffer (run_records [(''t1'', demo_audit)] s1) ch)"
  unfolding Let_def
  by (rule subscriber_sees_log) (simp_all add: es_ok_record es_ok_new subscribe_and_list_def Let_def)

end
