(* ===== verification/ControlManager.thy ===== *)
theory ControlManager
  imports ControlErrors ControlEvents RuntimeTypes PresetSource ConfigStore
begin

section \<open>The control core (\<^verbatim>\<open>core/control\<close>: manager, runtime control, presets, models, refresh, configuration)\<close>

text \<open>
  The interfaces of \<^verbatim>\<open>manager.go\<close> are records of operations on the world; an absent dependency (\<^verbatim>\<open>nil\<close>) is \<open>None\<close>.
  The configuration is the concrete file store. Every operation is written over the world alone; \<open>with_mutation\<close> puts the
  busy flag, the audit record and the release around it, on the state \<open>control\<close> of flag and world. The value that Go
  returns beside an error is dropped: the RPC layer answers with the error alone. \<open>mg_now\<close> reads the clock from
  the world, \<open>mg_ctx\<close> is what \<^verbatim>\<open>ctx.Err()\<close> returns when the configuration store asks.
\<close>

record router_model =
  md_id :: string
  md_status :: string

record 'z router_iface =
  ri_list :: "('z, router_model list) io"
  ri_reload :: "('z, router_model list) io"
  ri_load :: "string \<Rightarrow> ('z, unit) io"
  ri_unload :: "string \<Rightarrow> ('z, unit) io"

record 'z runtime_iface =
  rt_status :: "('z, runtime_status) io"
  rt_start :: "('z, command_result) io"
  rt_stop :: "('z, command_result) io"
  rt_recover :: "('z, bool) io"

record 'z preset_iface =
  pr_root :: string
  pr_list :: "('z, preset_section list) io"
  pr_get :: "string \<Rightarrow> ('z, preset_section) io"
  pr_global :: "('z, preset_section) io"
  pr_put :: "preset_section \<Rightarrow> bool \<Rightarrow> ('z, unit) io"
  pr_delete :: "string \<Rightarrow> ('z, unit) io"

text \<open>The store of \<^verbatim>\<open>models.ini\<close> as the preset interface.\<close>

definition ini_presets :: "string \<Rightarrow> string \<Rightarrow> 'z preset_iface" where
  "ini_presets root path =
     \<lparr>pr_root = root, pr_list = store_list path, pr_get = store_get path, pr_global = store_global path,
      pr_put = store_put path, pr_delete = store_delete path\<rparr>"

record 'z manager =
  mg_config :: "(yaml_lib \<times> config_file) option"
  mg_presets :: "'z preset_iface option"
  mg_router :: "'z router_iface option"
  mg_runtime :: "'z runtime_iface option"
  mg_router_config :: router_config
  mg_local :: "(string \<Rightarrow> ('z, unit) io) option"
  mg_audit :: "(audit_event \<Rightarrow> 'z os_scheme \<Rightarrow> 'z os_scheme) option"
  mg_env :: host_env
  mg_now :: "'z os_scheme \<Rightarrow> int"
  mg_ctx :: "gerror option"

record 'w control =
  ct_busy :: bool
  ct_world :: 'w

record operation_result =
  or_action :: string
  or_target :: string
  or_status :: string
  or_message :: msg
  or_duration_ms :: int

record runtime_info =
  in_status :: string
  in_detail :: msg
  in_checked_at :: int
  in_presets_count :: nat
  in_default_preset :: string
  in_autostart_presets :: "string list"

record runtime_preset =
  rp_name :: string
  rp_state :: rt_state
  rp_ready :: bool

record control_status =
  cts_state :: rt_state
  cts_detail :: msg
  cts_checked_at :: int
  cts_presets :: "runtime_preset list"

subsection \<open>Mutations (\<open>manager.go\<close>)\<close>

definition audit_record :: "'z manager \<Rightarrow> string \<Rightarrow> int \<Rightarrow> gerror option \<Rightarrow> 'z os_scheme \<Rightarrow> 'z os_scheme" where
  "audit_record m action start err w =
     (case mg_audit m of
        None \<Rightarrow> w
      | Some sink \<Rightarrow> sink \<lparr>ae_protocol = [], ae_action = action, ae_success = (err = None),
          ae_error_kind = core_kind err, ae_duration = mg_now m w - start\<rparr> w)"

definition sum_err :: "'e + 'a \<Rightarrow> 'e option" where
  "sum_err r = (case r of Inl e \<Rightarrow> Some e | Inr _ \<Rightarrow> None)"

text \<open>\<^verbatim>\<open>m.busy.CompareAndSwap(false, true)\<close>, and what runs after the function: the audit record, then the deferred release.\<close>

definition mutation_enter :: "'w control \<Rightarrow> bool \<times> 'w control" where
  "mutation_enter c = (if ct_busy c then (False, c) else (True, c\<lparr>ct_busy := True\<rparr>))"

definition mutation_leave ::
  "'z manager \<Rightarrow> string \<Rightarrow> int \<Rightarrow> gerror option \<Rightarrow> 'z os_scheme control \<Rightarrow> 'z os_scheme control" where
  "mutation_leave m action start err c =
     c\<lparr>ct_busy := False, ct_world := audit_record m action start err (ct_world c)\<rparr>"

definition with_mutation ::
  "'z manager \<Rightarrow> string \<Rightarrow> ('z, 'a) io \<Rightarrow> ('z os_scheme control, gerror, 'a) eff" where
  "with_mutation m action fn c0 =
     (case mutation_enter c0 of
        (False, c) \<Rightarrow> (Inl (core_errorf ErrorConflict [Lit ''another mutating operation is running'']), c)
      | (True, c) \<Rightarrow>
          (case fn (ct_world c) of
             (r, w) \<Rightarrow> (r, mutation_leave m action (mg_now m (ct_world c)) (sum_err r) (c\<lparr>ct_world := w\<rparr>))))"

definition require_some :: "'a option \<Rightarrow> string \<Rightarrow> ('a \<Rightarrow> ('z, 'b) io) \<Rightarrow> ('z, 'b) io" where
  "require_some dep text k =
     (case dep of None \<Rightarrow> failE (core_errorf ErrorInvalidInput [Lit text]) | Some d \<Rightarrow> k d)"

definition router_config_snapshot :: "'z manager \<Rightarrow> ('z, router_config) io" where
  "router_config_snapshot m =
     (case mg_config m of
        None \<Rightarrow> retE (mg_router_config m)
      | Some (yl, cf) \<Rightarrow> tryE (config_read yl cf) (\<lambda>_. retE (mg_router_config m)) (\<lambda>cfg. retE (cfg_router cfg)))"

definition router_autostart_info :: "'z manager \<Rightarrow> ('z, string list \<times> int) io" where
  "router_autostart_info m =
     bindE (router_config_snapshot m) (\<lambda>cfg. retE (rc_autostart_presets cfg, rc_models_max cfg))"

definition get_info :: "'z manager \<Rightarrow> ('z, runtime_info) io" where
  "get_info m =
     require_some (mg_runtime m) ''router runtime is not configured'' (\<lambda>rt.
     bindE (rt_status rt) (\<lambda>status.
     bindE (case mg_presets m of
              None \<Rightarrow> retE 0
            | Some ps \<Rightarrow> bindE (mapErrE map_server_config_error (pr_list ps)) (\<lambda>l. retE (length l))) (\<lambda>n.
     bindE (router_config_snapshot m) (\<lambda>cfg.
       retE \<lparr>in_status = rt_state_text (st_state status), in_detail = st_detail status,
             in_checked_at = st_checked_at status, in_presets_count = n,
             in_default_preset = rc_default_preset cfg, in_autostart_presets = rc_autostart_presets cfg\<rparr>))))"

subsection \<open>Reading presets (\<open>presets.go\<close>)\<close>

definition require_presets :: "'z manager \<Rightarrow> ('z preset_iface \<Rightarrow> ('z, 'a) io) \<Rightarrow> ('z, 'a) io" where
  "require_presets m k = require_some (mg_presets m) ''preset store is not configured'' k"

definition presets_root :: "'z manager \<Rightarrow> string" where
  "presets_root m = (case mg_presets m of None \<Rightarrow> [] | Some ps \<Rightarrow> pr_root ps)"

definition preset_read :: "'z manager \<Rightarrow> ('z preset_iface \<Rightarrow> ('z, 'a) io) \<Rightarrow> ('z, 'a) io" where
  "preset_read m rd = require_presets m (\<lambda>ps. mapErrE map_server_config_error (rd ps))"

definition list_presets :: "'z manager \<Rightarrow> ('z, preset_section list) io" where
  "list_presets m = preset_read m pr_list"

definition global_preset :: "'z manager \<Rightarrow> ('z, preset_section) io" where
  "global_preset m = preset_read m pr_global"

definition get_preset :: "'z manager \<Rightarrow> string \<Rightarrow> ('z, preset_section) io" where
  "get_preset m name = preset_read m (\<lambda>ps. pr_get ps name)"

subsection \<open>Router refresh (\<open>router_refresh.go\<close>)\<close>

definition model_state_active :: "string \<Rightarrow> bool" where
  "model_state_active state \<longleftrightarrow>
     state = ''loaded'' \<or> state = ''loading'' \<or> state = ''sleeping'' \<or> state = ''downloading''"

definition active_model_names :: "router_model list \<Rightarrow> string list" where
  "active_model_names models = sort (map md_id (filter (\<lambda>x. model_state_active (md_status x)) models))"

text \<open>The map \<open>states\<close> of the loop: a later model with the same identifier wins.\<close>

definition model_states :: "router_model list \<Rightarrow> string \<Rightarrow> string option" where
  "model_states models = map_of (rev (map (\<lambda>x. (md_id x, md_status x)) models))"

fun restore_each ::
  "'z router_iface \<Rightarrow> (string \<Rightarrow> string option) \<Rightarrow> string list \<Rightarrow> ('z, gerror list) io" where
  "restore_each rt states [] = retE []"
| "restore_each rt states (name # names) =
     (case states name of
        None \<Rightarrow> bindE (restore_each rt states names) (\<lambda>errs.
                  retE (Plain [Lit ''preset '', Quoted name, Lit '' is no longer available''] # errs))
      | Some state \<Rightarrow>
          (if model_state_active state then restore_each rt states names
           else tryE (ri_load rt name)
             (\<lambda>err. bindE (restore_each rt states names) (\<lambda>errs.
                retE (Wrap [Lit ''reload Preset '', Quoted name, Lit '': '', TextOf err] [err] # errs)))
             (\<lambda>_. restore_each rt states names)))"

definition restore_active_models ::
  "'z router_iface \<Rightarrow> string list \<Rightarrow> router_model list \<Rightarrow> ('z, unit) io" where
  "restore_active_models rt active models =
     bindE (restore_each rt (model_states models) active) (\<lambda>errs.
       case errors_join errs of Some err \<Rightarrow> failE err | None \<Rightarrow> retE ())"

definition op_result :: "string \<Rightarrow> string \<Rightarrow> string \<Rightarrow> msg \<Rightarrow> operation_result" where
  "op_result action target status message =
     \<lparr>or_action = action, or_target = target, or_status = status, or_message = message, or_duration_ms = 0\<rparr>"

definition restart_router_sources ::
  "'z router_iface \<Rightarrow> 'z runtime_iface \<Rightarrow> string list \<Rightarrow> msg \<Rightarrow> ('z, operation_result) io" where
  "restart_router_sources rt rr active reason =
     bindE (mapErrE (\<lambda>e. map_runtime_error e [Lit ''stop router for source refresh failed'']) (rt_stop rr)) (\<lambda>_.
     bindE (mapErrE (\<lambda>e. map_runtime_error e [Lit ''start router after source refresh failed'']) (rt_start rr)) (\<lambda>_.
     bindE (mapErrE (\<lambda>e. core_error ErrorRuntime [Lit ''list router sources after restart failed''] (Some e)) (ri_list rt)) (\<lambda>models.
     bindE (mapErrE (\<lambda>e. core_error ErrorRuntime [Lit ''router restarted; active Preset restore failed''] (Some e))
              (restore_active_models rt active models)) (\<lambda>_.
       retE (op_result ''restart_router_sources'' ''router'' ''succeeded''
               (Lit ''router restarted after source change: '' # reason))))))"

definition refresh_router_sources :: "'z manager \<Rightarrow> msg \<Rightarrow> ('z, operation_result) io" where
  "refresh_router_sources m reason =
     (case (mg_runtime m, mg_router m) of
        (Some rr, Some rt) \<Rightarrow>
          bindE (mapErrE (\<lambda>e. map_runtime_error e [Lit ''router runtime status failed'']) (rt_status rr)) (\<lambda>status.
            if st_state status = RtStopped
            then retE (op_result ''refresh_router_sources'' ''router'' ''skipped''
                   [Lit ''router stopped; fresh sources will be read on next start''])
            else tryE (ri_list rt) (\<lambda>_. restart_router_sources rt rr [] reason) (\<lambda>models.
              let active = active_model_names models in
              tryE (ri_reload rt) (\<lambda>_. restart_router_sources rt rr active reason) (\<lambda>refreshed.
              bindE (mapErrE (\<lambda>e. core_error ErrorRuntime
                        [Lit ''router sources refreshed; active Preset restore failed''] (Some e))
                       (restore_active_models rt active refreshed)) (\<lambda>_.
                retE (op_result ''refresh_router_sources'' ''router'' ''succeeded''
                        (Lit ''router sources refreshed: '' # reason))))))
      | _ \<Rightarrow> retE (op_result ''refresh_router_sources'' ''router'' ''skipped''
                 [Lit ''router refresh skipped: runtime is not configured'']))"

definition refresh_router_sources_op ::
  "'z manager \<Rightarrow> msg \<Rightarrow> ('z os_scheme control, gerror, operation_result) eff" where
  "refresh_router_sources_op m reason = with_mutation m ''refresh_router_sources'' (refresh_router_sources m reason)"

record router_snapshot =
  rs_running :: bool
  rs_active :: "string list"

definition capture_router_state :: "'z manager \<Rightarrow> ('z, router_snapshot) io" where
  "capture_router_state m =
     (case (mg_runtime m, mg_router m) of
        (Some rr, Some rt) \<Rightarrow>
          tryE (rt_status rr) (\<lambda>_. retE \<lparr>rs_running = False, rs_active = []\<rparr>) (\<lambda>status.
            if st_state status = RtStopped then retE \<lparr>rs_running = False, rs_active = []\<rparr>
            else tryE (ri_list rt) (\<lambda>_. retE \<lparr>rs_running = True, rs_active = []\<rparr>)
                   (\<lambda>models. retE \<lparr>rs_running = True, rs_active = active_model_names models\<rparr>))
      | _ \<Rightarrow> retE \<lparr>rs_running = False, rs_active = []\<rparr>)"

end
