(* ===== verification/LlamaServer.thy ===== *)
theory LlamaServer
  imports PidFile ControlManager
begin

section \<open>The supervised llama-server process (\<^verbatim>\<open>core/runtime/llama_server_runtime.go\<close>, \<open>build.go\<close>)\<close>

text \<open>
  \<open>llama_server\<close> is the struct: its configuration, whether it holds a started command (\<open>ls_cmd\<close>), whether the result of
  \<^verbatim>\<open>cmd.Wait\<close> was taken from its channel (\<open>ls_reaped\<close>), the last error, readiness, PID and process group. The lock makes each
  exported method one function. The goroutine that waits for the child removes the PID file and then sends: the model lets it do so at
  the moment its result is received. The two polling loops take \<open>fuel\<close>; enough fuel is shown with the properties.
\<close>

record server_config =
  sv_name :: string
  sv_executable :: string
  sv_argv :: "string list"
  sv_host :: string
  sv_port :: int
  sv_env :: "(string \<times> string) list"
  sv_timeout :: int
  sv_readiness_path :: string
  sv_readiness_timeout :: int
  sv_readiness_interval :: int
  sv_pid_dir :: string

record llama_server =
  ls_cfg :: server_config
  ls_cmd :: bool
  ls_reaped :: bool
  ls_err :: "gerror option"
  ls_ready :: bool
  ls_pid :: int
  ls_pgid :: int

record server_os = machine +
  sv_state :: llama_server

type_synonym ('z, 'a) sio = "('z server_os_ext machine_ext, 'a) io"

definition default_llama_host :: string where "default_llama_host = ''127.0.0.1''"
definition default_llama_port :: int where "default_llama_port = 8080"

definition server_defaults :: "host_env \<Rightarrow> server_config \<Rightarrow> server_config" where
  "server_defaults env c = c\<lparr>
     sv_name := or_str (sv_name c) default_llama_executable,
     sv_executable := or_str (sv_executable c) default_llama_executable,
     sv_host := or_str (sv_host c) default_llama_host,
     sv_port := or_int (sv_port c) default_llama_port,
     sv_timeout := or_int (sv_timeout c) (10 * nanos_per_second),
     sv_readiness_timeout := or_int (sv_readiness_timeout c) default_readiness_timeout,
     sv_readiness_interval := or_int (sv_readiness_interval c) default_readiness_interval,
     sv_pid_dir :=
       (if sv_pid_dir c = [] then (case llama_rig_home env of Inr home \<Rightarrow> join_path [home, ''run'', ''llama''] | Inl _ \<Rightarrow> [])
        else sv_pid_dir c)\<rparr>"

definition new_llama_server :: "host_env \<Rightarrow> server_config \<Rightarrow> llama_server" where
  "new_llama_server env cfg =
     \<lparr>ls_cfg = server_defaults env cfg, ls_cmd = False, ls_reaped = False, ls_err = None, ls_ready = False,
      ls_pid = 0, ls_pgid = 0\<rparr>"

definition build_router :: "host_env \<Rightarrow> router_config \<Rightarrow> string \<Rightarrow> string \<Rightarrow> llama_server" where
  "build_router env g models_dir models_preset =
     new_llama_server env
       \<lparr>sv_name = ''router'', sv_executable = rc_executable g,
        sv_argv = [''--models-dir'', models_dir, ''--models-preset'', models_preset,
          ''--models-max'', int_text (rc_models_max g), ''--host'', rc_host g, ''--port'', int_text (rc_port g)],
        sv_host = rc_host g, sv_port = rc_port g, sv_env = rc_env g, sv_timeout = rc_stop_timeout g,
        sv_readiness_path = ''/health'', sv_readiness_timeout = rc_readiness_timeout g,
        sv_readiness_interval = rc_readiness_interval g, sv_pid_dir = []\<rparr>"

definition server_command :: "server_config \<Rightarrow> gerror + command" where
  "server_command c =
     (if sv_executable c = [] then Inl (runtime_Errorf RtInvalidInput [Str (sv_name c), Lit '' executable is required''])
      else Inr \<lparr>cmd_executable = sv_executable c, cmd_argv = sv_argv c,
                cmd_display = join_with (CHR '' '') (sv_executable c # sv_argv c)\<rparr>)"

definition server_pid_file :: "server_config \<Rightarrow> gerror + string" where
  "server_pid_file c =
     (if sv_pid_dir c = [] then Inl (Plain [Lit ''llama PID directory is not configured''])
      else if sv_name c = [] \<or> sv_name c = ''.'' \<or> sv_name c = ''..'' \<or> base_of (sv_name c) \<noteq> sv_name c
      then Inl (Plain [Lit ''invalid llama process name '', Quoted (sv_name c)])
      else Inr (join_path [sv_pid_dir c, sv_name c @ ''.pid'']))"

definition env_list :: "(string \<times> string) list \<Rightarrow> string list" where
  "env_list env = map (\<lambda>(k, v). k @ ''='' @ v) env"

definition readiness_host :: "string \<Rightarrow> string" where
  "readiness_host host = (if host = [] \<or> host = ''0.0.0.0'' \<or> host = ''::'' then default_llama_host else host)"

text \<open>\<^verbatim>\<open>net.JoinHostPort\<close>.\<close>

definition join_host_port :: "string \<Rightarrow> string \<Rightarrow> string" where
  "join_host_port host port =
     (if CHR '':'' \<in> set host then ''['' @ host @ '']:'' @ port else host @ '':'' @ port)"

subsection \<open>The state of the process\<close>

definition set_server :: "(llama_server \<Rightarrow> llama_server) \<Rightarrow> ('z, unit) sio" where
  "set_server f w = (Inr (), w\<lparr>sv_state := f (sv_state w)\<rparr>)"

definition with_server :: "(llama_server \<Rightarrow> ('z, 'a) sio) \<Rightarrow> ('z, 'a) sio" where
  "with_server k w = k (sv_state w) w"

text \<open>\<^verbatim>\<open>if file, err := r.pidFile(); err == nil { _ = file.Remove(pid) }\<close>\<close>

definition forget_pid_file :: "int \<Rightarrow> ('z, unit) sio" where
  "forget_pid_file pid =
     with_server (\<lambda>s. case server_pid_file (ls_cfg s) of Inl _ \<Rightarrow> retE () | Inr path \<Rightarrow> ignoreE (pid_remove path pid))"

text \<open>
  A receive from \<^verbatim>\<open>r.done\<close> that does not block (\<open>exited\<close>): the exit of the child, once, after the waiting goroutine removed the PID file.
\<close>

definition poll_done :: "('z, gerror option option) sio" where
  "poll_done =
     with_server (\<lambda>s.
       if ls_reaped s then retE None
       else bindE (query (\<lambda>n w. mc_exit w n (ls_pid s))) (\<lambda>e.
         case e of
           None \<Rightarrow> retE None
         | Some err \<Rightarrow> bindE (forget_pid_file (ls_pid s)) (\<lambda>_.
                        bindE (set_server (\<lambda>s. s\<lparr>ls_reaped := True\<rparr>)) (\<lambda>_. retE (Some err)))))"

definition is_running :: "('z, bool) sio" where
  "is_running =
     with_server (\<lambda>s.
       if ls_pid s \<le> 0 then retE False
       else bindE (if ls_cmd s then poll_done else retE None) (\<lambda>e.
         case e of
           Some err \<Rightarrow> bindE (set_server (\<lambda>s. s\<lparr>ls_err := err, ls_ready := False\<rparr>)) (\<lambda>_. retE False)
         | None \<Rightarrow> pid_alive (ls_pid s)))"

definition started :: "int \<Rightarrow> ('z, unit) sio" where
  "started pid w =
     set_server (\<lambda>s. s\<lparr>ls_cmd := True, ls_reaped := False, ls_err := None, ls_ready := False, ls_pid := pid,
                  ls_pgid := mc_getpgid w pid\<rparr>) w"

definition adopt :: "int \<Rightarrow> ('z, unit) sio" where
  "adopt pid w =
     set_server (\<lambda>s. s\<lparr>ls_cmd := False, ls_reaped := False, ls_err := None, ls_ready := False, ls_pid := pid,
                  ls_pgid := mc_getpgid w pid\<rparr>) w"

definition server_status :: "('z, runtime_status) sio" where
  "server_status =
     bindE is_running (\<lambda>running.
     bindE (with_server (\<lambda>s. if \<not> running \<and> ls_pid s > 0 then forget_pid_file (ls_pid s) else retE ())) (\<lambda>_.
     bindE get_time (\<lambda>now.
     with_server (\<lambda>s.
       let state = (if running then (if ls_ready s then RtRunning else RtStarting) else RtStopped);
           pid = (if running then ls_pid s else 0);
           detail = (if pid > 0 then [Str (sv_name (ls_cfg s)), Lit '' pid='', Num pid]
                     else (case ls_err s of
                             Some e \<Rightarrow> [Str (sv_name (ls_cfg s)), Lit '' stopped: '', TextOf e]
                           | None \<Rightarrow> [Str (sv_name (ls_cfg s)), Lit '' stopped'']))
       in retE \<lparr>st_state = state, st_detail = detail, st_checked_at = now,
                st_processes = [\<lparr>ps_name = sv_name (ls_cfg s), ps_state = state, ps_pid = pid, ps_host = sv_host (ls_cfg s),
                  ps_port = sv_port (ls_cfg s), ps_ready = ls_ready s,
                  ps_last_error = (case ls_err s of Some e \<Rightarrow> [TextOf e] | None \<Rightarrow> [])\<rparr>]\<rparr>))))"

text \<open>\<^verbatim>\<open>Milliseconds\<close> divides with truncation.\<close>

definition command_result_of :: "string \<Rightarrow> int \<Rightarrow> int \<Rightarrow> msg \<Rightarrow> gerror option \<Rightarrow> ('z, command_result) sio" where
  "command_result_of action start code out err w =
     (Inr \<lparr>cr_action = action, cr_exit_code = code, cr_stdout = out,
           cr_stderr = (case err of Some e \<Rightarrow> [TextOf e] | None \<Rightarrow> []),
           cr_duration_ms = sgn (mc_time w - start) * (\<bar>mc_time w - start\<bar> div 1000000)\<rparr>, w)"

subsection \<open>Stopping\<close>

definition interrupt_process_group :: "int \<Rightarrow> int \<Rightarrow> ('z, unit) mio" where
  "interrupt_process_group pid pgid = tryE (send_signal (- pgid) SIGINT) (\<lambda>_. send_signal pid SIGINT) retE"

definition kill_process_group :: "int \<Rightarrow> int \<Rightarrow> ('z, unit) mio" where
  "kill_process_group pid pgid =
     bindE (ignoreE (send_signal (- pgid) SIGKILL)) (\<lambda>_. ignoreE (send_signal pid SIGKILL))"

definition stop_timed_out :: "llama_server \<Rightarrow> gerror" where
  "stop_timed_out s = Plain [Str (sv_name (ls_cfg s)), Lit '' stop timed out'']"

text \<open>The wait for a started child: its exit comes before the deadline or it is killed and given one second more.\<close>

definition wait_started_process :: "int \<Rightarrow> ('z, unit) sio" where
  "wait_started_process pgid =
     with_server (\<lambda>s.
     bindE poll_done (\<lambda>e.
       case e of
         Some err \<Rightarrow> set_server (\<lambda>s. s\<lparr>ls_err := err\<rparr>)
       | None \<Rightarrow>
           bindE (kill_process_group (ls_pid s) pgid) (\<lambda>_.
           bindE poll_done (\<lambda>e2.
           bindE (case e2 of Some err \<Rightarrow> set_server (\<lambda>s. s\<lparr>ls_err := err\<rparr>) | None \<Rightarrow> retE ()) (\<lambda>_.
             failE (stop_timed_out s))))))"

text \<open>Each turn asks whether the process lives and then waits for the ticker or the context.\<close>

fun wait_pid_exit :: "nat \<Rightarrow> int \<Rightarrow> int \<Rightarrow> ('z, unit) mio" where
  "wait_pid_exit 0 deadline pid = failE (Sentinel CtxDeadline)"
| "wait_pid_exit (Suc fuel) deadline pid =
     bindE (pid_alive pid) (\<lambda>alive.
       if \<not> alive then retE ()
       else bindE (query (ctx_done deadline)) (\<lambda>d.
         case d of Some e \<Rightarrow> failE e | None \<Rightarrow> wait_pid_exit fuel deadline pid))"

definition stop_process_body :: "nat \<Rightarrow> ('z, unit) sio" where
  "stop_process_body fuel =
     with_server (\<lambda>s.
     let pid = ls_pid s; pgid = (if ls_pgid s \<le> 0 then ls_pid s else ls_pgid s) in
     bindE is_running (\<lambda>running.
       if \<not> running then retE ()
       else
         bindE (mapErrE (\<lambda>e. Plain [Str (sv_name (ls_cfg s)), Lit '' interrupt: '', TextOf e])
                  (interrupt_process_group pid pgid)) (\<lambda>_.
         bindE get_time (\<lambda>now.
           if ls_cmd s then wait_started_process pgid
           else tryE (wait_pid_exit fuel (now + sv_timeout (ls_cfg s)) pid)
             (\<lambda>e. bindE (kill_process_group pid pgid) (\<lambda>_.
                  bindE (set_server (\<lambda>s. s\<lparr>ls_err := Some e\<rparr>)) (\<lambda>_. failE (stop_timed_out s))))
             (\<lambda>_. retE ())))))"

definition stop_process :: "nat \<Rightarrow> ('z, unit) sio" where
  "stop_process fuel =
     with_server (\<lambda>s.
       finallyE (stop_process_body fuel)
         (bindE (forget_pid_file (ls_pid s)) (\<lambda>_.
            set_server (\<lambda>s. s\<lparr>ls_pid := 0, ls_pgid := 0, ls_ready := False\<rparr>))))"

definition server_stop :: "nat \<Rightarrow> ('z, command_result) sio" where
  "server_stop fuel =
     bindE get_time (\<lambda>start.
     bindE is_running (\<lambda>running.
       if \<not> running then command_result_of ''stop'' start 0 [] None
       else bindE (stop_process fuel) (\<lambda>_. command_result_of ''stop'' start 0 [] None)))"

subsection \<open>Starting\<close>

definition probe_ready :: "('z, unit) sio" where
  "probe_ready =
     with_server (\<lambda>s w.
       let addr = join_host_port (readiness_host (sv_host (ls_cfg s))) (int_text (sv_port (ls_cfg s)));
           url = ''http://'' @ addr @ sv_readiness_path (ls_cfg s)
       in if sv_readiness_path (ls_cfg s) = []
          then interact (\<lambda>n w. case mc_dial w n addr of Some e \<Rightarrow> Inl e | None \<Rightarrow> Inr ()) w
          else (case mc_bad_url w url of
                  Some e \<Rightarrow> (Inl e, w)
                | None \<Rightarrow>
                    bindE (exchange \<lparr>hq_method = ''GET'', hq_url = url, hq_model = None\<rparr>) (\<lambda>resp.
                      if 200 \<le> hp_status resp \<and> hp_status resp < 500 then retE ()
                      else failE (Plain [Lit ''readiness status '', Num (hp_status resp)])) w))"

text \<open>One turn of the readiness loop; \<open>mc_elapse\<close> of the last query is the wait for the timer.\<close>

fun wait_ready :: "nat \<Rightarrow> int \<Rightarrow> ('z, unit) sio" where
  "wait_ready 0 deadline = failE (Sentinel CtxDeadline)"
| "wait_ready (Suc fuel) deadline =
     bindE is_running (\<lambda>running.
       if \<not> running
       then with_server (\<lambda>s. failE (Plain ([Str (sv_name (ls_cfg s)), Lit '' exited before readiness: ''] @
              (case ls_err s of Some e \<Rightarrow> [TextOf e] | None \<Rightarrow> [Lit ''<nil>'']))))
       else tryE probe_ready
         (\<lambda>_. bindE get_time (\<lambda>now.
            if deadline \<le> now then with_server (\<lambda>s. failE (Plain [Str (sv_name (ls_cfg s)), Lit '' readiness timed out'']))
            else bindE (query (\<lambda>n w. mc_ctx w n)) (\<lambda>d.
              case d of Some e \<Rightarrow> failE e | None \<Rightarrow> wait_ready fuel deadline)))
         (\<lambda>_. set_server (\<lambda>s. s\<lparr>ls_ready := True\<rparr>)))"

definition rollback_start :: "nat \<Rightarrow> gerror \<Rightarrow> ('z, 'a) sio" where
  "rollback_start fuel err =
     tryE (stop_process fuel)
       (\<lambda>cleanup. failE (Wrap [TextOf err, Lit ''; cleanup failed: '', TextOf cleanup] [err, cleanup]))
       (\<lambda>_. failE err)"

definition server_start :: "nat \<Rightarrow> ('z, command_result) sio" where
  "server_start fuel =
     bindE get_time (\<lambda>start.
     bindE is_running (\<lambda>running.
       if running then failE (runtime_NewError RtRuntime [Lit ''llama-server is already running''] None)
       else with_server (\<lambda>s.
         case server_command (ls_cfg s) of
           Inl err \<Rightarrow> failE err
         | Inr command \<Rightarrow>
             (case server_pid_file (ls_cfg s) of
                Inl err \<Rightarrow> failE err
              | Inr path \<Rightarrow>
                  tryE (interact (\<lambda>n w. mc_spawn w n command (sv_env (ls_cfg s))))
                    (\<lambda>err. failE (runtime_NewError RtRuntime [Lit ''start llama-server failed''] (Some err)))
                    (\<lambda>pid.
                       bindE (started pid) (\<lambda>_.
                       tryE (pid_write path pid)
                         (\<lambda>err. rollback_start fuel
                            (runtime_NewError RtRuntime [Lit ''write llama-server PID file failed''] (Some err)))
                         (\<lambda>_. bindE get_time (\<lambda>now.
                            tryE (wait_ready fuel (now + sv_readiness_timeout (ls_cfg s)))
                              (\<lambda>err. bindE (set_server (\<lambda>s. s\<lparr>ls_err := Some err\<rparr>)) (\<lambda>_.
                                 rollback_start fuel (runtime_NewError RtRuntime [TextOf err] None)))
                              (\<lambda>_. command_result_of ''start'' start 0 [Str (cmd_display command)] None)))))))))"

definition server_recover :: "('z, bool) sio" where
  "server_recover =
     with_server (\<lambda>s.
       case server_command (ls_cfg s) of
         Inl err \<Rightarrow> failE err
       | Inr command \<Rightarrow>
           (case server_pid_file (ls_cfg s) of
              Inl err \<Rightarrow> failE err
            | Inr path \<Rightarrow>
                bindE (pid_running path) (\<lambda>found.
                  case found of
                    None \<Rightarrow> retE False
                  | Some pid \<Rightarrow>
                      bindE (executable_matches pid (cmd_executable command)) (\<lambda>same.
                        if \<not> same then bindE (ignoreE (pid_remove path pid)) (\<lambda>_. retE False)
                        else
                          bindE (adopt pid) (\<lambda>_.
                          bindE (tryE probe_ready (\<lambda>_. retE False) (\<lambda>_. retE True)) (\<lambda>ready.
                          bindE (set_server (\<lambda>s. s\<lparr>ls_ready := ready\<rparr>)) (\<lambda>_. retE True)))))))"

definition server_iface :: "nat \<Rightarrow> 'z server_os_ext machine_ext runtime_iface" where
  "server_iface fuel =
     \<lparr>rt_status = server_status, rt_start = server_start fuel, rt_stop = server_stop fuel, rt_recover = server_recover\<rparr>"

end
