(* ===== verification/LlamaFacts.thy ===== *)
theory LlamaFacts
  imports LlamaServer StateMachine
begin

section \<open>Facts about the supervisor\<close>

text \<open>
  What its operations do to the clock, the configuration and the process they supervise. \<open>evolves R f\<close> says that the world
  after \<open>f\<close> is in relation \<open>R\<close> to the one before; the locale carries its rules for every preorder, and is interpreted on the
  clock and on the constants of the supervisor.
\<close>

definition evolves :: "('w \<Rightarrow> 'w \<Rightarrow> bool) \<Rightarrow> ('w, 'e, 'a) eff \<Rightarrow> bool" where
  "evolves R f \<longleftrightarrow> (\<forall>w. R w (snd (f w)))"

lemma evolvesD: "evolves R f \<Longrightarrow> f w = (r, w') \<Longrightarrow> R w w'"
  by (metis evolves_def snd_conv)

locale preorder_effects =
  fixes R :: "'w \<Rightarrow> 'w \<Rightarrow> bool"
  assumes step_refl: "R w w" and step_trans: "R w w1 \<Longrightarrow> R w1 w2 \<Longrightarrow> R w w2"
begin

lemma evolves_ret: "evolves R (retE x)"
  by (simp add: evolves_def step_refl)

lemma evolves_fail: "evolves R (failE x)"
  by (simp add: evolves_def step_refl)

lemma evolves_try:
  assumes "evolves R f" "\<And>e. evolves R (h e)" "\<And>x. evolves R (k x)"
  shows "evolves R (tryE f h k)"
  unfolding evolves_def
proof
  fix w
  obtain r w1 where f: "f w = (r, w1)" by force
  have "R w w1" by (rule evolvesD [OF assms(1) f])
  moreover have "R w1 (snd (tryE f h k w))"
    using f assms(2,3) by (cases r) (auto simp: tryE_def evolves_def)
  ultimately show "R w (snd (tryE f h k w))" by (rule step_trans)
qed

lemma evolves_bind: "evolves R f \<Longrightarrow> (\<And>x. evolves R (k x)) \<Longrightarrow> evolves R (bindE f k)"
  unfolding bindE_as_try by (intro evolves_try evolves_fail)

lemma evolves_mapErr: "evolves R f \<Longrightarrow> evolves R (mapErrE g f)"
  by (simp add: evolves_def)

lemma evolves_ignore: "evolves R f \<Longrightarrow> evolves R (ignoreE f)"
  by (simp add: evolves_def)

lemma evolves_finally:
  assumes "evolves R f" "evolves R d"
  shows "evolves R (finallyE f d)"
  unfolding evolves_def
proof
  fix w
  obtain r w1 where f: "f w = (r, w1)" by force
  have "R w w1" by (rule evolvesD [OF assms(1) f])
  moreover have "R w1 (snd (d w1))" using assms(2) by (simp add: evolves_def)
  ultimately show "R w (snd (finallyE f d w))" using f by (auto simp: finallyE_def intro: step_trans)
qed

lemma evolves_if: "evolves R f \<Longrightarrow> evolves R g \<Longrightarrow> evolves R (if b then f else g)"
  by simp

lemma evolves_option: "evolves R f \<Longrightarrow> (\<And>y. evolves R (g y)) \<Longrightarrow> evolves R (case x of None \<Rightarrow> f | Some y \<Rightarrow> g y)"
  by (cases x) auto

lemma evolves_sum: "(\<And>e. evolves R (f e)) \<Longrightarrow> (\<And>y. evolves R (g y)) \<Longrightarrow> evolves R (case x of Inl e \<Rightarrow> f e | Inr y \<Rightarrow> g y)"
  by (cases x) auto

lemmas evolves_rules = evolves_ret evolves_fail evolves_try evolves_bind evolves_mapErr evolves_ignore evolves_finally
  evolves_if evolves_option evolves_sum

end

subsection \<open>The clock and the constants\<close>

text \<open>Time never runs back when every interaction takes some, and neither the machine nor the configuration of the supervisor changes.\<close>

definition goes_on :: "'z server_os_scheme \<Rightarrow> 'z server_os_scheme \<Rightarrow> bool" where
  "goes_on w w' \<longleftrightarrow> mc_elapse w' = mc_elapse w \<and> mc_spawn w' = mc_spawn w \<and> mc_getpgid w' = mc_getpgid w \<and>
     ls_cfg (sv_state w') = ls_cfg (sv_state w) \<and> set (mc_signals w) \<subseteq> set (mc_signals w') \<and>
     ((\<forall>n. 0 < mc_elapse w n) \<longrightarrow> mc_time w \<le> mc_time w')"

interpretation on: preorder_effects "goes_on :: 'z server_os_scheme \<Rightarrow> _"
  by unfold_locales (auto simp: goes_on_def)

lemma goes_on_env:
  fixes w w' :: "'z server_os_scheme"
  assumes "os_env w' = os_env w"
  shows "goes_on w w'"
proof -
  have "machine.more w' = machine.more w \<and> mc_elapse w' = mc_elapse w \<and> mc_spawn w' = mc_spawn w \<and> mc_getpgid w' = mc_getpgid w \<and>
      mc_signals w' = mc_signals w \<and> mc_time w' = mc_time w \<and> sv_state w' = sv_state w"
    using assms by (cases w; cases w') (simp add: os_env_def)
  then show ?thesis by (simp add: goes_on_def)
qed

lemma on_os: "keeps os_env f \<Longrightarrow> evolves goes_on (f :: ('z, 'a) sio)"
  unfolding evolves_def keeps_def using goes_on_env by blast

lemma on_basic:
  "evolves goes_on (interact f)" "evolves goes_on (query g)" "evolves goes_on get_time"
  "evolves goes_on (exchange q)" "evolves goes_on (send_signal t sig)"
  "evolves goes_on (executable_matches p e)" "evolves goes_on (command_result_of a st c out err)"
  by (auto simp: evolves_def goes_on_def interact_def query_def get_time_def exchange_def send_signal_def bindE_def
      executable_matches_def command_result_of_def less_imp_le)

lemma on_set: "(\<And>s. ls_cfg (f s) = ls_cfg s) \<Longrightarrow> evolves goes_on (set_server f)"
  by (auto simp: evolves_def goes_on_def set_server_def)

lemma on_with: "(\<And>s. evolves goes_on (k s)) \<Longrightarrow> evolves goes_on (with_server k)"
  by (simp add: evolves_def with_server_def)

lemma on_started: "evolves goes_on (started pid)" "evolves goes_on (adopt pid)"
  by (simp_all add: evolves_def goes_on_def started_def adopt_def set_server_def)

lemmas on_rules = on.evolves_rules on_basic on_set on_with on_started

lemma on_pid: "evolves goes_on (pid_write p pid)" "evolves goes_on (pid_remove p pid)" "evolves goes_on (pid_running p)"
  "evolves goes_on (pid_alive pid)"
proof -
  show a: "evolves goes_on (pid_alive pid)" unfolding pid_alive_def by (intro on_rules)
  show "evolves goes_on (pid_write p pid)"
    unfolding pid_write_def by (intro on_os keeps_intros keeps_env_write_file keeps_env_ops)
  have r: "evolves goes_on (remove_existing p)"
    unfolding remove_existing_def by (intro on_rules on_os keeps_env_ops)
  show "evolves goes_on (pid_remove p pid)"
    unfolding pid_remove_def by (intro on_rules r on_os keeps_env_ops)
  have a': "evolves goes_on (pid_alive q)" for q unfolding pid_alive_def by (intro on_rules)
  show "evolves goes_on (pid_running p)"
    unfolding pid_running_def by (intro on_rules a' on_os keeps_env_ops)
qed

lemma on_forget: "evolves goes_on (forget_pid_file pid)"
  unfolding forget_pid_file_def by (intro on_rules on_pid)

lemma on_poll: "evolves goes_on poll_done"
  unfolding poll_done_def by (intro on_rules on_forget; simp)

lemma on_is_running: "evolves goes_on is_running"
  unfolding is_running_def by (intro on_rules on_poll on_pid; simp)

lemma on_bad_url: "evolves goes_on (f :: ('z, 'a) sio) \<Longrightarrow> evolves goes_on (\<lambda>w. case mc_bad_url w url of Some e \<Rightarrow> (Inl e, w) | None \<Rightarrow> f w)"
  by (auto simp: evolves_def on.step_refl split: option.splits)

lemma on_if_world: "evolves R f \<Longrightarrow> evolves R g \<Longrightarrow> evolves R (\<lambda>w. if b then f w else g w)"
  by (cases b) simp_all

lemma on_probe: "evolves goes_on probe_ready"
  unfolding probe_ready_def Let_def
  by (intro on_with on_if_world on_bad_url on_rules)

lemma on_signals: "evolves goes_on (interrupt_process_group p g)" "evolves goes_on (kill_process_group p g)"
  unfolding interrupt_process_group_def kill_process_group_def by (intro on_rules)+

lemma on_wait_pid: "evolves goes_on (wait_pid_exit fuel d p)"
proof (induction fuel)
  case (Suc fuel)
  show ?case unfolding wait_pid_exit.simps by (intro on_rules on_pid Suc)
next
  case 0
  show ?case unfolding wait_pid_exit.simps by (intro on_rules)
qed

lemma on_wait_started: "evolves goes_on (wait_started_process g)"
  unfolding wait_started_process_def by (intro on_rules on_poll on_signals; simp)

lemma on_stop_process: "evolves goes_on (stop_process fuel)"
  unfolding stop_process_def stop_process_body_def Let_def
  by (intro on_rules on_is_running on_signals on_wait_started on_wait_pid on_forget; simp)

lemma on_wait_ready: "evolves goes_on (wait_ready fuel d)"
proof (induction fuel)
  case (Suc fuel)
  show ?case unfolding wait_ready.simps by (intro on_rules on_is_running on_probe Suc; simp)
next
  case 0
  show ?case unfolding wait_ready.simps by (intro on_rules)
qed

end
