(* ===== verification/LlamaRuns.thy ===== *)
theory LlamaRuns
  imports LlamaFacts
begin

section \<open>The runs of the supervisor\<close>

text \<open>
  What its parts do to the state, the end of the polling loops, and the outcomes of stopping and starting, case by case.
\<close>

subsection \<open>What the parts do to the state\<close>

lemma more_server:
  fixes w w' :: "'z server_os_scheme"
  shows "os_env w' = os_env w \<Longrightarrow> sv_state w' = sv_state w"
  by (cases w; cases w') (simp add: os_env_def)

lemma keeps_env_case [keeps_intros]:
  "keeps g f \<Longrightarrow> (\<And>y. keeps g (h y)) \<Longrightarrow> keeps g (case x of None \<Rightarrow> f | Some y \<Rightarrow> h y)"
  "(\<And>e. keeps g (p e)) \<Longrightarrow> (\<And>y. keeps g (h y)) \<Longrightarrow> keeps g (case z of Inl e \<Rightarrow> p e | Inr y \<Rightarrow> h y)"
  by (cases x, auto) (cases z, auto)

lemma pid_remove_env: "keeps os_env (pid_remove p pid)"
  unfolding pid_remove_def remove_existing_def by (intro keeps_intros keeps_env_ops)

lemma keeps_with [keeps_intros]: "(\<And>s. keeps g (k s)) \<Longrightarrow> keeps g (with_server k)"
  by (simp add: keeps_def with_server_def)

lemma forget_env: "keeps os_env (forget_pid_file pid)"
  unfolding forget_pid_file_def by (intro keeps_intros pid_remove_env)

lemma forget_state: "forget_pid_file pid w = (r, w') \<Longrightarrow> sv_state w' = sv_state w"
  using keepsD [OF forget_env] more_server by blast

lemma forget_ok: "\<exists>w'. forget_pid_file pid w = (Inr (), w')"
  by (simp add: forget_pid_file_def with_server_def split: sum.splits)

lemma pid_alive_run:
  "pid_alive pid w = (if pid > 0
     then (Inr (mc_alive w (mc_step w) pid), w\<lparr>mc_step := Suc (mc_step w), mc_time := mc_time w + mc_elapse w (mc_step w)\<rparr>)
     else (Inr False, w))"
  by (simp add: pid_alive_def query_def interact_def)

lemma poll_done_cases:
  assumes "poll_done w = (r, w')"
  obtains (none) "r = Inr None" "sv_state w' = sv_state w" "os_files w' = os_files w"
  | (exited) err where "r = Inr (Some err)" "sv_state w' = (sv_state w)\<lparr>ls_reaped := True\<rparr>"
proof (cases "ls_reaped (sv_state w)")
  case True
  with assms show ?thesis by (intro none) (auto simp: poll_done_def with_server_def)
next
  case False
  define w1 where "w1 = w\<lparr>mc_step := Suc (mc_step w), mc_time := mc_time w + mc_elapse w (mc_step w)\<rparr>"
  have w1: "sv_state w1 = sv_state w" "os_files w1 = os_files w" by (simp_all add: w1_def)
  show ?thesis
  proof (cases "mc_exit w (mc_step w) (ls_pid (sv_state w))")
    case None
    with assms False w1 show ?thesis
      by (intro none) (auto simp: poll_done_def with_server_def bindE_def query_def interact_def w1_def)
  next
    case (Some err)
    obtain w2 where f: "forget_pid_file (ls_pid (sv_state w)) w1 = (Inr (), w2)" using forget_ok by blast
    with forget_state [OF f] assms False Some w1 show ?thesis
      by (intro exited) (auto simp: poll_done_def with_server_def bindE_def query_def interact_def w1_def set_server_def)
  qed
qed

lemma is_running_cases:
  assumes "is_running w = (r, w')"
  obtains (running) "r = Inr True" "0 < ls_pid (sv_state w)" "sv_state w' = sv_state w" "os_files w' = os_files w"
      "(\<forall>n. 0 < mc_elapse w n) \<longrightarrow> mc_time w < mc_time w'"
  | (gone) "r = Inr False" "sv_state w' = sv_state w \<or>
      (\<exists>err. sv_state w' = (sv_state w)\<lparr>ls_reaped := True, ls_err := err, ls_ready := False\<rparr>)"
proof (cases "0 < ls_pid (sv_state w)")
  case False
  with assms show ?thesis by (intro gone) (auto simp: is_running_def with_server_def)
next
  case pid: True
  have alive: thesis if "pid_alive (ls_pid (sv_state w)) w1 = (r, w')" "sv_state w1 = sv_state w" "os_files w1 = os_files w"
    "goes_on w w1" for w1
  proof (cases "mc_alive w1 (mc_step w1) (ls_pid (sv_state w))")
    case True
    have t: "(\<forall>n. 0 < mc_elapse w n) \<longrightarrow> mc_time w < mc_time w'"
      using that pid by (auto simp: pid_alive_run goes_on_def) (smt (verit))
    show ?thesis by (rule running [OF _ pid _ _ t]) (use that pid True in \<open>auto simp: pid_alive_run\<close>)
  next
    case False
    with that pid show ?thesis by (intro gone) (auto simp: pid_alive_run)
  qed
  show ?thesis
  proof (cases "ls_cmd (sv_state w)")
    case False
    with assms pid have "pid_alive (ls_pid (sv_state w)) w = (r, w')"
      by (simp add: is_running_def with_server_def bindE_def)
    then show ?thesis by (rule alive) (simp_all add: on.step_refl)
  next
    case True
    obtain e w1 where p: "poll_done w = (e, w1)" by force
    from p show ?thesis
    proof (cases rule: poll_done_cases)
      case none
      with assms pid True p have "pid_alive (ls_pid (sv_state w)) w1 = (r, w')"
        by (simp add: is_running_def with_server_def bindE_def)
      then show ?thesis by (rule alive) (use none evolvesD [OF on_poll p] in simp_all)
    next
      case (exited err)
      with assms pid True p show ?thesis
        by (intro gone) (auto simp: is_running_def with_server_def bindE_def set_server_def)
    qed
  qed
qed

lemma probe_state: "probe_ready w = (r, w') \<Longrightarrow> sv_state w' = sv_state w \<and> os_files w' = os_files w"
  by (auto simp: probe_ready_def with_server_def Let_def interact_def bindE_def exchange_def
      split: if_splits option.splits sum.splits)

subsection \<open>The loops end\<close>

lemma wait_pid_exit_enough:
  fixes w :: "'z server_os_scheme"
  assumes "\<forall>n. 0 < mc_elapse w n" "nat (deadline - mc_time w) < fuel"
  shows "wait_pid_exit (fuel + k) deadline pid w = wait_pid_exit fuel deadline pid w"
  using assms
proof (induction fuel arbitrary: w)
  case (Suc fuel)
  obtain a w1 where a: "pid_alive pid w = (a, w1)" by force
  show ?case
  proof (cases "a = Inr True")
    case False
    with a show ?thesis by (auto simp: bindE_def pid_alive_run split: if_splits)
  next
    case True
    then have w1: "w1 = w\<lparr>mc_step := Suc (mc_step w), mc_time := mc_time w + mc_elapse w (mc_step w)\<rparr>"
      using a by (auto simp: pid_alive_run split: if_splits)
    define w2 where "w2 = w1\<lparr>mc_step := Suc (mc_step w1), mc_time := mc_time w1 + mc_elapse w1 (mc_step w1)\<rparr>"
    have q: "query (ctx_done deadline) w1 = (Inr (ctx_done deadline (mc_step w1) w1), w2)"
      by (simp add: query_def interact_def w2_def)
    show ?thesis
    proof (cases "ctx_done deadline (mc_step w1) w1")
      case (Some e)
      with a True q show ?thesis by (simp add: bindE_def)
    next
      case None
      then have d: "mc_time w1 < deadline" by (auto simp: ctx_done_def split: option.splits if_splits)
      have pos: "0 < mc_elapse w n" for n using Suc.prems(1) by blast
      have "mc_time w2 \<ge> mc_time w1 + 1" "mc_time w1 \<ge> mc_time w + 1"
        using pos [of "mc_step w"] pos [of "Suc (mc_step w)"] by (simp_all add: w2_def w1)
      with d Suc.prems(2) have "nat (deadline - mc_time w2) < fuel" by linarith
      moreover have "\<forall>n. 0 < mc_elapse w2 n" using pos by (simp add: w2_def w1)
      ultimately have "wait_pid_exit (fuel + k) deadline pid w2 = wait_pid_exit fuel deadline pid w2" by (intro Suc.IH)
      with a True q None show ?thesis by (simp add: bindE_def)
    qed
  qed
qed simp

lemma wait_ready_enough:
  assumes "\<forall>n. 0 < mc_elapse w n" "nat (deadline - mc_time w) < fuel"
  shows "wait_ready (fuel + k) deadline w = wait_ready fuel deadline w"
  using assms
proof (induction fuel arbitrary: w)
  case (Suc fuel)
  obtain a w1 where a: "is_running w = (a, w1)" by force
  from a show ?case
  proof (cases rule: is_running_cases)
    case gone
    with a show ?thesis by (simp add: bindE_def)
  next
    case running
    obtain p w2 where p: "probe_ready w1 = (p, w2)" by force
    have g: "goes_on w w2" using evolvesD [OF on_is_running a] evolvesD [OF on_probe p] by (rule on.step_trans)
    have t: "mc_time w + 1 \<le> mc_time w2" "\<forall>n. 0 < mc_elapse w2 n"
      using running(5) Suc.prems(1) evolvesD [OF on_probe p] evolvesD [OF on_is_running a] by (auto simp: goes_on_def)
    show ?thesis
    proof (cases p)
      case (Inr u)
      with a running(1) p show ?thesis by (simp add: bindE_def tryE_def)
    next
      case (Inl e)
      define w3 where "w3 = w2\<lparr>mc_step := Suc (mc_step w2), mc_time := mc_time w2 + mc_elapse w2 (mc_step w2)\<rparr>"
      have t3: "mc_time w2 \<le> mc_time w3" "\<forall>n. 0 < mc_elapse w3 n"
        using t(2) by (simp_all add: w3_def less_imp_le)
      show ?thesis
      proof (cases "deadline \<le> mc_time w2 \<or> mc_ctx w2 (mc_step w2) \<noteq> None")
        case True
        with a running(1) p Inl show ?thesis
          by (auto simp: bindE_def tryE_def get_time_def query_def interact_def)
      next
        case False
        then have "nat (deadline - mc_time w3) < fuel" using t t3 Suc.prems(2) by linarith
        then have "wait_ready (fuel + k) deadline w3 = wait_ready fuel deadline w3" by (intro Suc.IH t3)
        with a running(1) p Inl False show ?thesis
          by (auto simp: bindE_def tryE_def get_time_def query_def interact_def w3_def)
      qed
    qed
  qed
qed simp

subsection \<open>Stopping and starting\<close>

lemma stop_process_state:
  assumes "stop_process fuel w = (r, w')"
  shows "ls_pid (sv_state w') = 0 \<and> ls_pgid (sv_state w') = 0 \<and> \<not> ls_ready (sv_state w')"
proof -
  obtain r1 w1 where b: "stop_process_body fuel w = (r1, w1)" by force
  obtain w2 where f: "forget_pid_file (ls_pid (sv_state w)) w1 = (Inr (), w2)" using forget_ok by blast
  from assms b f show ?thesis
    by (auto simp: stop_process_def with_server_def finallyE_def bindE_def set_server_def)
qed

definition signal_group :: "llama_server \<Rightarrow> int" where
  "signal_group s = (if ls_pgid s \<le> 0 then ls_pid s else ls_pgid s)"

lemma interrupt_signals: "(- g, SIGINT) \<in> set (mc_signals (snd (interrupt_process_group p g w)))"
  by (auto simp: interrupt_process_group_def tryE_def send_signal_def bindE_def interact_def split: option.splits)

text \<open>A process that is stopped was interrupted, unless it was gone.\<close>

lemma stop_process_signals:
  fixes w :: "'z server_os_scheme"
  assumes "stop_process fuel w = (r, w')"
  shows "(\<exists>w1. is_running w = (Inr False, w1) \<and> goes_on w1 w') \<or> (- signal_group (sv_state w), SIGINT) \<in> set (mc_signals w')"
proof -
  let ?s = "sv_state w" let ?g = "signal_group ?s"
  obtain a w1 where a: "is_running w = (a, w1)" by force
  have fin: "evolves goes_on (bindE (forget_pid_file p) (\<lambda>_. set_server (\<lambda>s. s\<lparr>ls_pid := 0, ls_pgid := 0, ls_ready := False\<rparr>)))" for p
    by (intro on_rules on_forget) simp
  have body: "goes_on w2 w'" if "stop_process_body fuel w = (r', w2)" for r' w2
    using assms that fin [of "ls_pid ?s"] by (auto simp: stop_process_def with_server_def finallyE_def evolves_def)
  from a show ?thesis
  proof (cases rule: is_running_cases)
    case gone
    then have "stop_process_body fuel w = (Inr (), w1)"
      using a by (simp add: stop_process_body_def with_server_def bindE_def Let_def)
    from body [OF this] a gone show ?thesis by blast
  next
    case running
    obtain i w2 where i: "interrupt_process_group (ls_pid ?s) ?g w1 = (i, w2)" by force
    then have sig: "(- ?g, SIGINT) \<in> set (mc_signals w2)" using interrupt_signals [of ?g "ls_pid ?s" w1] by simp
    define rest :: "('z, unit) sio" where "rest = bindE get_time (\<lambda>now.
           if ls_cmd ?s then wait_started_process ?g
           else tryE (wait_pid_exit fuel (now + sv_timeout (ls_cfg ?s)) (ls_pid ?s))
             (\<lambda>e. bindE (kill_process_group (ls_pid ?s) ?g) (\<lambda>_.
                  bindE (set_server (\<lambda>s. s\<lparr>ls_err := Some e\<rparr>)) (\<lambda>_. failE (stop_timed_out ?s))))
             (\<lambda>_. retE ()))"
    have ev: "evolves goes_on rest"
      unfolding rest_def by (intro on_rules on_wait_started on_wait_pid on_signals) simp
    have b: "stop_process_body fuel w =
        bindE (mapErrE (\<lambda>e. Plain [Str (sv_name (ls_cfg ?s)), Lit '' interrupt: '', TextOf e])
          (interrupt_process_group (ls_pid ?s) ?g)) (\<lambda>_. rest) w1"
      unfolding stop_process_body_def with_server_def Let_def rest_def signal_group_def
      by (subst bindE_Inr [where m = is_running and w = w and x = True and w' = w1])
        (use a running(1) in \<open>simp_all only: not_True_eq_False if_False\<close>)
    obtain r2 w3 where run: "stop_process_body fuel w = (r2, w3)" by force
    have "goes_on w2 w3"
    proof (cases i)
      case (Inl e)
      with run b i show ?thesis by (simp add: bindE_def mapErrE_def on.step_refl)
    next
      case (Inr u)
      with run b i have "rest w2 = (r2, w3)" by (simp add: bindE_def mapErrE_def)
      then show ?thesis by (rule evolvesD [OF ev])
    qed
    then have "goes_on w2 w'" using body [OF run] by (rule on.step_trans)
    with sig show ?thesis by (auto simp: goes_on_def)
  qed
qed

lemma wait_ready_outcome:
  assumes "wait_ready fuel deadline w = (r, w')"
  shows "ls_pid (sv_state w') = ls_pid (sv_state w) \<and> ls_pgid (sv_state w') = ls_pgid (sv_state w) \<and>
    (r = Inr () \<longrightarrow> sv_state w' = (sv_state w)\<lparr>ls_ready := True\<rparr> \<and> os_files w' = os_files w \<and> 0 < ls_pid (sv_state w))"
  using assms
proof (induction fuel arbitrary: w)
  case (Suc fuel)
  obtain a w1 where a: "is_running w = (a, w1)" by force
  from a show ?case
  proof (cases rule: is_running_cases)
    case gone
    with a Suc.prems show ?thesis by (auto simp: bindE_def with_server_def)
  next
    case running
    obtain p w2 where p: "probe_ready w1 = (p, w2)" by force
    have st: "sv_state w2 = sv_state w" "os_files w2 = os_files w" using running probe_state [OF p] by simp_all
    show ?thesis
    proof (cases p)
      case (Inr u)
      with a running p Suc.prems st show ?thesis by (auto simp: bindE_def tryE_def set_server_def)
    next
      case (Inl e)
      define w3 where "w3 = w2\<lparr>mc_step := Suc (mc_step w2), mc_time := mc_time w2 + mc_elapse w2 (mc_step w2)\<rparr>"
      have st3: "sv_state w3 = sv_state w" "os_files w3 = os_files w" using st by (simp_all add: w3_def)
      have unfold: "wait_ready (Suc fuel) deadline w =
          (if deadline \<le> mc_time w2 then (Inl (Plain [Str (sv_name (ls_cfg (sv_state w2))), Lit '' readiness timed out'']), w2)
           else case mc_ctx w2 (mc_step w2) of Some e \<Rightarrow> (Inl e, w3) | None \<Rightarrow> wait_ready fuel deadline w3)"
        using a running(1) p Inl
        by (simp add: bindE_def tryE_def get_time_def query_def interact_def w3_def with_server_def split: option.split)
      show ?thesis
      proof (cases "deadline \<le> mc_time w2 \<or> mc_ctx w2 (mc_step w2) \<noteq> None")
        case True
        with Suc.prems unfold have "(\<exists>e. r = Inl e) \<and> (w' = w2 \<or> w' = w3)" by (auto split: if_splits)
        with st st3 show ?thesis by auto
      next
        case False
        with Suc.prems unfold have "wait_ready fuel deadline w3 = (r, w')" by auto
        from Suc.IH [OF this] st3 show ?thesis by auto
      qed
    qed
  qed
qed (auto simp: failE_def)

lemma rollback_start_outcome:
  assumes "rollback_start fuel err w = (r, w')"
  shows "isl r \<and> ls_pid (sv_state w') = 0 \<and> ls_pgid (sv_state w') = 0 \<and> \<not> ls_ready (sv_state w') \<and>
    ((\<exists>w1. is_running w = (Inr False, w1) \<and> goes_on w1 w') \<or> (- signal_group (sv_state w), SIGINT) \<in> set (mc_signals w'))"
proof -
  obtain s w1 where "stop_process fuel w = (s, w1)" by force
  with assms stop_process_state [OF this] stop_process_signals [OF this] show ?thesis
    by (auto simp: rollback_start_def tryE_def split: sum.splits)
qed

lemma pid_write_env: "keeps os_env (pid_write p pid)"
  unfolding pid_write_def by (intro keeps_intros keeps_env_write_file keeps_env_ops)

text \<open>A write of the PID file that returns leaves its text in the file.\<close>

lemma pid_write_stored:
  assumes "pid_write p pid w = (Inr (), w')" "not_link p (os_files w)" "dir_of p \<noteq> p"
  shows "\<exists>m. os_files w' p = Some (RegFile (int_text pid @ [CHR 0x0A]) m)"
proof -
  obtain w1 where d: "os_mkdir_all (dir_of p) 448 w = (Inr (), w1)"
    and f: "os_write_file p (int_text pid @ [CHR 0x0A]) 384 w1 = (Inr (), w')"
    using assms(1) by (auto simp: pid_write_def elim!: bindE_InrE)
  have "os_files w1 p = os_files w p"
    using d assms(3) by (auto simp: os_mkdir_all_def os_call_def Let_def set_node_def split: option.splits sum.splits node.splits if_splits)
  with assms(2) have nl: "not_link p (os_files w1)" by (simp add: not_link_def)
  obtain q w2 where c: "os_create_trunc p 384 w1 = (Inr q, w2)" and wr: "os_write q (int_text pid @ [CHR 0x0A]) w2 = (Inr (), w')"
    using f by (auto simp: os_write_file_def elim!: bindE_InrE)
  have "q = p" "\<exists>m. os_files w2 p = Some (RegFile [] m)"
    using c follow_not_link [OF nl, of 40]
    by (auto simp: os_create_trunc_def os_call_def Let_def set_node_def split: option.splits node.splits)
  with wr show ?thesis
    by (auto simp: os_write_def Let_def append_data_def set_node_def split: option.splits)
qed

text \<open>The state right after \<^verbatim>\<open>r.started(cmd)\<close>.\<close>

definition started_state :: "int \<Rightarrow> int \<Rightarrow> llama_server \<Rightarrow> llama_server" where
  "started_state pid pgid s =
     s\<lparr>ls_cmd := True, ls_reaped := False, ls_err := None, ls_ready := False, ls_pid := pid, ls_pgid := pgid\<rparr>"

lemma server_start_spawned:
  fixes w :: "'z server_os_scheme"
  assumes "is_running w = (Inr False, w1)" "server_command (ls_cfg (sv_state w)) = Inr command"
    "server_pid_file (ls_cfg (sv_state w)) = Inr path" "mc_spawn w (mc_step w1) command (sv_env (ls_cfg (sv_state w))) = Inr pid"
    and "w3 = w1\<lparr>mc_step := Suc (mc_step w1), mc_time := mc_time w1 + mc_elapse w1 (mc_step w1),
           sv_state := started_state pid (mc_getpgid w pid) (sv_state w1)\<rparr>"
  shows "server_start fuel w =
      tryE (pid_write path pid)
        (\<lambda>err. rollback_start fuel (runtime_NewError RtRuntime [Lit ''write llama-server PID file failed''] (Some err)))
        (\<lambda>_. bindE get_time (\<lambda>now.
           tryE (wait_ready fuel (now + sv_readiness_timeout (ls_cfg (sv_state w1))))
             (\<lambda>err. bindE (set_server (\<lambda>s. s\<lparr>ls_err := Some err\<rparr>)) (\<lambda>_.
                rollback_start fuel (runtime_NewError RtRuntime [TextOf err] None)))
             (\<lambda>_. command_result_of ''start'' (mc_time w) 0 [Str (cmd_display command)] None))) w3"
proof -
  have g1: "goes_on w w1" by (rule evolvesD [OF on_is_running assms(1)])
  then have cfg: "ls_cfg (sv_state w1) = ls_cfg (sv_state w)" by (simp add: goes_on_def)
  define w2 where "w2 = w1\<lparr>mc_step := Suc (mc_step w1), mc_time := mc_time w1 + mc_elapse w1 (mc_step w1)\<rparr>"
  have sp: "interact (\<lambda>n w. mc_spawn w n command (sv_env (ls_cfg (sv_state w1)))) w1 =
      (mc_spawn w (mc_step w1) command (sv_env (ls_cfg (sv_state w))), w2)"
    using g1 by (simp add: interact_def w2_def goes_on_def cfg)
  have st: "started pid w2 = (Inr (), w3)"
    using g1 by (simp add: started_def set_server_def assms(5) started_state_def w2_def goes_on_def)
  show ?thesis
    using assms(1-4) sp st by (simp add: server_start_def bindE_def get_time_def with_server_def cfg tryE_def)
qed

lemma server_start_cases:
  fixes w :: "'z server_os_scheme"
  assumes "server_start fuel w = (r, w')"
  obtains (refused) e b w1 where "r = Inl e" "is_running w = (Inr b, w1)" "sv_state w' = sv_state w1"
  | (rolled_back) e w1 command pid n where "r = Inl e" "is_running w = (Inr False, w1)"
      "server_command (ls_cfg (sv_state w)) = Inr command" "mc_spawn w n command (sv_env (ls_cfg (sv_state w))) = Inr pid"
      "ls_pid (sv_state w') = 0" "ls_pgid (sv_state w') = 0" "\<not> ls_ready (sv_state w')"
      "(\<exists>w2 w3. goes_on w w2 \<and> ls_pid (sv_state w2) = pid \<and> is_running w2 = (Inr False, w3) \<and> goes_on w3 w') \<or>
       (- (if mc_getpgid w pid \<le> 0 then pid else mc_getpgid w pid), SIGINT) \<in> set (mc_signals w')"
  | (success) res w1 w2 w3 command path pid n where "r = Inr res" "is_running w = (Inr False, w1)"
      "server_command (ls_cfg (sv_state w)) = Inr command" "mc_spawn w n command (sv_env (ls_cfg (sv_state w))) = Inr pid"
      "server_pid_file (ls_cfg (sv_state w)) = Inr path" "0 < pid"
      "pid_write path pid (w2 :: 'z server_os_scheme) = (Inr (), w3)" "os_files w2 = os_files w1" "os_files w' = os_files w3"
      "sv_state w' = (started_state pid (mc_getpgid w pid) (sv_state w1))\<lparr>ls_ready := True\<rparr>"
proof -
  obtain a w1 where a: "is_running w = (a, w1)" by force
  have g1: "goes_on w w1" by (rule evolvesD [OF on_is_running a])
  then have cfg: "ls_cfg (sv_state w1) = ls_cfg (sv_state w)" by (simp add: goes_on_def)
  show ?thesis
  proof (cases "a = Inr False \<and> (\<exists>command path. server_command (ls_cfg (sv_state w)) = Inr command \<and> server_pid_file (ls_cfg (sv_state w)) = Inr path)")
    case False
    obtain b where b: "a = Inr b" using a by (cases rule: is_running_cases) auto
    with assms a False have "(\<exists>e. r = Inl e) \<and> w' = w1"
      by (cases b; cases "server_command (ls_cfg (sv_state w))"; cases "server_pid_file (ls_cfg (sv_state w))")
        (auto simp: server_start_def bindE_def get_time_def with_server_def cfg)
    then show ?thesis using refused a b by blast
  next
    case True
    then obtain command path where cp: "server_command (ls_cfg (sv_state w)) = Inr command" "server_pid_file (ls_cfg (sv_state w)) = Inr path"
      by blast
    define w2 where "w2 = w1\<lparr>mc_step := Suc (mc_step w1), mc_time := mc_time w1 + mc_elapse w1 (mc_step w1)\<rparr>"
    have st2: "sv_state w2 = sv_state w1" "os_files w2 = os_files w1" by (simp_all add: w2_def)
    have g2: "goes_on w1 w2" by (auto simp: goes_on_def w2_def less_imp_le)
    have sp: "interact (\<lambda>n w. mc_spawn w n command (sv_env (ls_cfg (sv_state w1)))) w1 =
        (mc_spawn w (mc_step w1) command (sv_env (ls_cfg (sv_state w))), w2)"
      using g1 by (simp add: interact_def w2_def goes_on_def cfg)
    show ?thesis
    proof (cases "mc_spawn w (mc_step w1) command (sv_env (ls_cfg (sv_state w)))")
      case (Inl e)
      with assms a True cp sp have "(\<exists>e. r = Inl e) \<and> w' = w2"
        by (auto simp: server_start_def bindE_def get_time_def with_server_def cfg tryE_def)
      with refused a True st2 show ?thesis by blast
    next
      case (Inr pid)
      define w3 where "w3 = w2\<lparr>sv_state := started_state pid (mc_getpgid w pid) (sv_state w1)\<rparr>"
      have st: "started pid w2 = (Inr (), w3)"
        using g1 g2 by (simp add: started_def set_server_def w3_def started_state_def st2 goes_on_def)
      have g3: "goes_on w2 w3" by (rule evolvesD [OF on_started(1) st])
      have g03: "goes_on w w3" by (rule on.step_trans [OF on.step_trans [OF g1 g2] g3])
      obtain p w4 where p: "pid_write path pid w3 = (p, w4)" by force
      have st4: "sv_state w4 = sv_state w3" by (rule more_server [OF keepsD [OF pid_write_env p]])
      have g04: "goes_on w w4" by (rule on.step_trans [OF g03 evolvesD [OF on_pid(1) p]])
      have st3: "sv_state w3 = started_state pid (mc_getpgid w pid) (sv_state w1)" by (simp add: w3_def)
      have grp: "signal_group (sv_state v) = (if mc_getpgid w pid \<le> 0 then pid else mc_getpgid w pid)"
        if "ls_pid (sv_state v) = pid" "ls_pgid (sv_state v) = mc_getpgid w pid" for v :: "'z server_os_scheme"
        using that by (simp add: signal_group_def)
      have roll: thesis if "rollback_start fuel err v = (r, w')" "goes_on w v" "ls_pid (sv_state v) = pid" "ls_pgid (sv_state v) = mc_getpgid w pid"
        for err v
      proof -
        from rollback_start_outcome [OF that(1)] obtain e where e: "r = Inl e"
          and s: "ls_pid (sv_state w') = 0" "ls_pgid (sv_state w') = 0" "\<not> ls_ready (sv_state w')"
          and c: "(\<exists>w1. is_running v = (Inr False, w1) \<and> goes_on w1 w') \<or> (- signal_group (sv_state v), SIGINT) \<in> set (mc_signals w')"
          by (cases r) auto
        show ?thesis
          by (rule rolled_back [OF e _ cp(1) Inr s]) (use a True c that grp [OF that(3,4)] in auto)
      qed
      have "w3 = w1\<lparr>mc_step := Suc (mc_step w1), mc_time := mc_time w1 + mc_elapse w1 (mc_step w1),
           sv_state := started_state pid (mc_getpgid w pid) (sv_state w1)\<rparr>" by (simp add: w3_def w2_def)
      note unfold = server_start_spawned [OF a [unfolded conjunct1 [OF True]] cp Inr this]
      show ?thesis
      proof (cases p)
        case (Inl err)
        with assms unfold p have "rollback_start fuel (runtime_NewError RtRuntime [Lit ''write llama-server PID file failed''] (Some err)) w4 = (r, w')"
          by (simp add: tryE_def)
        then show ?thesis by (rule roll) (use g04 st3 st4 in \<open>simp_all add: started_state_def\<close>)
      next
        case pu: (Inr u)
        obtain q w5 where q: "wait_ready fuel (mc_time w4 + sv_readiness_timeout (ls_cfg (sv_state w1))) w4 = (q, w5)" by force
        note wo = wait_ready_outcome [OF q]
        show ?thesis
        proof (cases q)
          case (Inl err)
          define w6 where "w6 = w5\<lparr>sv_state := (sv_state w5)\<lparr>ls_err := Some err\<rparr>\<rparr>"
          have "set_server (\<lambda>s. s\<lparr>ls_err := Some err\<rparr>) w5 = (Inr (), w6)" by (simp add: set_server_def w6_def)
          with assms unfold p pu q Inl have "rollback_start fuel (runtime_NewError RtRuntime [TextOf err] None) w6 = (r, w')"
            by (simp add: tryE_def bindE_def get_time_def)
          moreover have "goes_on w w6"
            using on.step_trans [OF g04 evolvesD [OF on_wait_ready q]] by (simp add: goes_on_def w6_def)
          ultimately show ?thesis by (rule roll) (use wo st3 st4 in \<open>simp_all add: w6_def started_state_def\<close>)
        next
          case qu: (Inr u')
          with assms unfold p pu q obtain res where "r = Inr res" "w' = w5"
            by (auto simp: tryE_def bindE_def get_time_def command_result_of_def)
          moreover from wo qu have "sv_state w5 = (sv_state w4)\<lparr>ls_ready := True\<rparr>" "os_files w5 = os_files w4" "0 < ls_pid (sv_state w4)"
            by simp_all
          ultimately show ?thesis
            using a True cp Inr p pu st2 st3 st4
            by (intro success [of res w1 command "mc_step w1" pid path w3 w4]) (simp_all add: w3_def started_state_def)
        qed
      qed
    qed
  qed
qed

lemma probe_answers:
  assumes "\<And>n q. \<exists>resp. mc_http w n q = Inr resp \<and> 200 \<le> hp_status resp \<and> hp_status resp < 500"
    "\<And>u. mc_bad_url w u = None" "sv_readiness_path (ls_cfg (sv_state w)) \<noteq> []"
  shows "\<exists>w'. probe_ready w = (Inr (), w')"
proof -
  let ?c = "ls_cfg (sv_state w)"
  define q where "q = \<lparr>hq_method = ''GET'',
      hq_url = ''http://'' @ join_host_port (readiness_host (sv_host ?c)) (int_text (sv_port ?c)) @ sv_readiness_path ?c, hq_model = None\<rparr>"
  obtain resp where resp: "mc_http w (mc_step w) q = Inr resp" "200 \<le> hp_status resp" "hp_status resp < 500" using assms(1) by blast
  then have "\<exists>w'. exchange q w = (Inr resp, w')" by (simp add: exchange_def bindE_def interact_def)
  then obtain w' where x: "exchange q w = (Inr resp, w')" ..
  have "probe_ready w = bindE (exchange q) (\<lambda>resp.
      if 200 \<le> hp_status resp \<and> hp_status resp < 500 then retE ()
      else failE (Plain [Lit ''readiness status '', Num (hp_status resp)])) w"
    unfolding probe_ready_def with_server_def Let_def q_def using assms(2,3) by (simp only: if_False option.case)
  with x resp show ?thesis by (simp add: bindE_def)
qed

text \<open>When no call fails and the process lives and answers, the start succeeds.\<close>

lemma healthy_start:
  fixes w :: "'z server_os_scheme"
  assumes "ls_pid (sv_state w) = 0" "server_command (ls_cfg (sv_state w)) = Inr command"
    "server_pid_file (ls_cfg (sv_state w)) = Inr path" "\<And>n. mc_spawn w n command (sv_env (ls_cfg (sv_state w))) = Inr pid" "0 < pid"
    and files: "os_fault w = (\<lambda>_. None)" "is_dir_at (os_files w) (dir_of path)" "dir_of path \<noteq> path"
      "os_files w path = None \<or> (\<exists>d m. os_files w path = Some (RegFile d m))"
    and lives: "\<And>n. mc_exit w n pid = None" "\<And>n. mc_alive w n pid"
    and answers: "\<And>n q. \<exists>resp. mc_http w n q = Inr resp \<and> 200 \<le> hp_status resp \<and> hp_status resp < 500"
      "\<And>u. mc_bad_url w u = None" "sv_readiness_path (ls_cfg (sv_state w)) \<noteq> []"
  shows "\<not> isl (fst (server_start (Suc fuel) w))"
proof -
  have r: "is_running w = (Inr False, w)" using assms(1) by (simp add: is_running_def with_server_def)
  define w3 where "w3 = w\<lparr>mc_step := Suc (mc_step w), mc_time := mc_time w + mc_elapse w (mc_step w),
      sv_state := started_state pid (mc_getpgid w pid) (sv_state w)\<rparr>"
  note start = server_start_spawned [OF r assms(2,3,4) w3_def]
  have "\<exists>w4 m. pid_write path pid w3 = (Inr (), w4) \<and> os_files w4 path = Some (RegFile (int_text pid @ [CHR 0x0A]) m) \<and> os_env w4 = os_env w3"
    by (rule pid_write_effect) (use files in \<open>simp_all add: w3_def\<close>)
  then obtain w4 where pw: "pid_write path pid w3 = (Inr (), w4)" and env: "os_env w4 = os_env w3" by blast
  then have m4: "os.more w4 = os.more w3" by (simp add: os_env_def)
  then have s4: "sv_state w4 = started_state pid (mc_getpgid w pid) (sv_state w)"
    and f4: "mc_exit w4 = mc_exit w" "mc_alive w4 = mc_alive w" "mc_http w4 = mc_http w" "mc_bad_url w4 = mc_bad_url w"
    by (cases w4; cases w; simp add: w3_def)+
  obtain w5 where run: "is_running w4 = (Inr True, w5)" "sv_state w5 = sv_state w4" "mc_http w5 = mc_http w" "mc_bad_url w5 = mc_bad_url w"
    using lives assms(5)
    by (simp add: is_running_def with_server_def bindE_def poll_done_def query_def interact_def pid_alive_run s4 started_state_def f4)
  have "\<exists>w6. probe_ready w5 = (Inr (), w6)"
    by (rule probe_answers) (use answers in \<open>simp_all add: run s4 started_state_def\<close>)
  then obtain w6 where "probe_ready w5 = (Inr (), w6)" ..
  then have "\<exists>w7. wait_ready (Suc fuel) d w4 = (Inr (), w7)" for d
    using run(1) by (simp add: bindE_def tryE_def set_server_def)
  then obtain w7 where "wait_ready (Suc fuel) (mc_time w4 + sv_readiness_timeout (ls_cfg (sv_state w))) w4 = (Inr (), w7)" by blast
  with start pw show ?thesis
    by (simp add: tryE_def bindE_def get_time_def command_result_of_def del: wait_ready.simps)
qed

end
