(* ===== verification/RouterClient.thy ===== *)
theory RouterClient
  imports Machine ControlManager
begin

section \<open>The client of the llama-server router (\<^verbatim>\<open>core/router/client.go\<close>)\<close>

text \<open>
  The four calls over HTTP. \<open>decode\<close> is what \<^verbatim>\<open>json.Decoder.Decode\<close> makes of a body that ends with the given read error; the body of
  a request is kept as the model name it carries.
\<close>

record router_client =
  rcl_base :: string
  rcl_decode :: "string \<Rightarrow> gerror option \<Rightarrow> gerror + router_model list"

definition new_client ::
  "(string \<Rightarrow> gerror option \<Rightarrow> gerror + router_model list) \<Rightarrow> string \<Rightarrow> router_client" where
  "new_client decode base = \<lparr>rcl_base = trim_right_set base [slash], rcl_decode = decode\<rparr>"

text \<open>The first 512 bytes of the body of a refused request, when they can be read.\<close>

definition error_detail :: "http_reply \<Rightarrow> msg" where
  "error_detail resp =
     (let data = take 512 (hp_body resp) in
      if (length (hp_body resp) < 512 \<and> hp_read_err resp \<noteq> None) \<or> data = [] then []
      else [Lit '': '', Str (trim_space data)])"

definition client_do ::
  "router_client \<Rightarrow> string \<Rightarrow> string \<Rightarrow> string option \<Rightarrow> (string \<Rightarrow> gerror option \<Rightarrow> gerror + 'a) \<Rightarrow> ('z, 'a) mio" where
  "client_do c meth path body dst w =
     (case mc_bad_url w (rcl_base c @ path) of
        Some err \<Rightarrow> (Inl err, w)
      | None \<Rightarrow>
          tryE (exchange \<lparr>hq_method = meth, hq_url = rcl_base c @ path, hq_model = body\<rparr>)
            (\<lambda>err. failE (Wrap [Lit ''router '', Str meth, Lit '' '', Str path, Lit '': '', TextOf err] [err]))
            (\<lambda>resp.
               if hp_status resp < 200 \<or> 300 \<le> hp_status resp
               then failE (Plain ([Lit ''router '', Str meth, Lit '' '', Str path, Lit '' returned '', Str (hp_status_text resp)]
                      @ error_detail resp))
               else (case dst (hp_body resp) (hp_read_err resp) of
                       Inl err \<Rightarrow> failE (Wrap [Lit ''decode router '', Str path, Lit '': '', TextOf err] [err])
                     | Inr x \<Rightarrow> retE x)) w)"

definition client_list_path :: "router_client \<Rightarrow> string \<Rightarrow> ('z, router_model list) mio" where
  "client_list_path c path = client_do c ''GET'' path None (rcl_decode c)"

definition client_list :: "router_client \<Rightarrow> ('z, router_model list) mio" where
  "client_list c = client_list_path c ''/models''"

definition client_reload :: "router_client \<Rightarrow> ('z, router_model list) mio" where
  "client_reload c = client_list_path c ''/models?reload=1''"

definition client_load :: "router_client \<Rightarrow> string \<Rightarrow> ('z, unit) mio" where
  "client_load c model = client_do c ''POST'' ''/models/load'' (Some model) (\<lambda>_ _. Inr ())"

definition client_unload :: "router_client \<Rightarrow> string \<Rightarrow> ('z, unit) mio" where
  "client_unload c model = client_do c ''POST'' ''/models/unload'' (Some model) (\<lambda>_ _. Inr ())"

definition client_iface :: "router_client \<Rightarrow> 'z machine_ext router_iface" where
  "client_iface c =
     \<lparr>ri_list = client_list c, ri_reload = client_reload c, ri_load = client_load c, ri_unload = client_unload c\<rparr>"

lemma same_files_do [same_files_intros]: "same_files (client_do c meth path body dst)"
proof -
  let ?f = "tryE (exchange \<lparr>hq_method = meth, hq_url = rcl_base c @ path, hq_model = body\<rparr>)
            (\<lambda>err. failE (Wrap [Lit ''router '', Str meth, Lit '' '', Str path, Lit '': '', TextOf err] [err]))
            (\<lambda>resp.
               if hp_status resp < 200 \<or> 300 \<le> hp_status resp
               then failE (Plain ([Lit ''router '', Str meth, Lit '' '', Str path, Lit '' returned '', Str (hp_status_text resp)]
                      @ error_detail resp))
               else (case dst (hp_body resp) (hp_read_err resp) of
                       Inl err \<Rightarrow> failE (Wrap [Lit ''decode router '', Str path, Lit '': '', TextOf err] [err])
                     | Inr x \<Rightarrow> retE x))"
  have "same_files ?f"
    by (intro same_files_try same_files_exchange) (auto intro: same_files_intros split: sum.splits)
  then show ?thesis by (auto simp: same_files_def client_do_def split: option.splits)
qed

lemma client_calls_same_files:
  "same_files (client_list c)" "same_files (client_reload c)" "same_files (client_load c n)" "same_files (client_unload c n)"
  unfolding client_list_def client_reload_def client_list_path_def client_load_def client_unload_def
  by (rule same_files_do)+

text \<open>The request each call makes, and when a call succeeds.\<close>

definition first_request :: "router_client \<Rightarrow> string \<Rightarrow> string \<Rightarrow> string option \<Rightarrow> http_request" where
  "first_request c meth path body = \<lparr>hq_method = meth, hq_url = rcl_base c @ path, hq_model = body\<rparr>"

lemma client_do_requests:
  assumes "client_do c meth path body dst w = (r, w')" "mc_bad_url w (rcl_base c @ path) = None"
  shows "mc_requests w' = mc_requests w @ [first_request c meth path body]"
  using assms
  by (auto simp: client_do_def tryE_def exchange_def bindE_def interact_def first_request_def
      split: sum.splits prod.splits if_splits)

end
