(* ===== verification/ControlOps.thy ===== *)
theory ControlOps
  imports ControlManager
begin

section \<open>The operations of the control core (\<open>presets.go\<close>, \<open>model_cleanup.go\<close>, \<open>runtime_controller.go\<close>, \<open>config_controller.go\<close>)\<close>

text \<open>
  Each operation on the presets, the local models, the runtime and the configuration: first what runs inside the mutation,
  over the world, then (\<open>_op\<close>) the operation with its busy flag.
\<close>

subsection \<open>Presets\<close>

definition rollback_preset_creation ::
  "'z manager \<Rightarrow> 'z preset_iface \<Rightarrow> string \<Rightarrow> router_snapshot \<Rightarrow> gerror \<Rightarrow> ('z, 'a) io" where
  "rollback_preset_creation m ps name previous refresh_err =
     tryE (pr_delete ps name)
       (\<lambda>err. failE (core_error ErrorRuntime
          [Lit ''Preset creation failed and could not be rolled back: '', TextOf err] (Some (Joined [refresh_err, err]))))
       (\<lambda>_. case (rs_running previous, mg_runtime m, mg_router m) of
          (True, Some rr, Some rt) \<Rightarrow>
            tryE (restart_router_sources rt rr (rs_active previous)
                    [Lit ''Preset '', Str name, Lit '' creation reverted''])
              (\<lambda>err. failE (core_error ErrorRuntime
                 [Lit ''Preset creation reverted; Router recovery failed: '', TextOf err] (Some (Joined [refresh_err, err]))))
              (\<lambda>_. failE (core_error ErrorRuntime
                 [Lit ''Router refresh failed with the new preset; creation reverted''] (Some refresh_err)))
        | _ \<Rightarrow> failE (core_error ErrorRuntime
                 [Lit ''Router refresh failed with the new preset; creation reverted''] (Some refresh_err)))"

definition put_preset :: "'z manager \<Rightarrow> preset_section \<Rightarrow> bool \<Rightarrow> ('z, preset_section) io" where
  "put_preset m sec create_only =
     require_presets m (\<lambda>ps.
     bindE (if create_only then capture_router_state m else retE \<lparr>rs_running = False, rs_active = []\<rparr>) (\<lambda>previous.
     bindE (mapErrE map_server_config_error (pr_put ps sec create_only)) (\<lambda>_.
     bindE (mapErrE map_server_config_error (pr_get ps (sec_name sec))) (\<lambda>saved.
     tryE (refresh_router_sources m [Lit ''Preset '', Str (sec_name sec), Lit '' changed''])
       (\<lambda>err. if create_only then rollback_preset_creation m ps (sec_name sec) previous err
              else failE (core_error ErrorRuntime [Lit ''Preset saved; Router refresh failed''] (Some err)))
       (\<lambda>_. retE saved)))))"

definition put_preset_op ::
  "'z manager \<Rightarrow> preset_section \<Rightarrow> bool \<Rightarrow> ('z os_scheme control, gerror, preset_section) eff" where
  "put_preset_op m sec create_only = with_mutation m ''put_preset'' (put_preset m sec create_only)"

definition preset_exists :: "'z preset_iface \<Rightarrow> string \<Rightarrow> ('z, bool) io" where
  "preset_exists ps name =
     tryE (pr_get ps name)
       (\<lambda>err. if errors_is err PresetNotFound then retE False else failE (map_server_config_error err))
       (\<lambda>_. retE True)"

definition config_reference :: "router_config \<Rightarrow> string \<Rightarrow> string" where
  "config_reference cfg name =
     (if name = rc_default_preset cfg then ''router.default_preset''
      else if name \<in> set (rc_autostart_presets cfg) then ''router.autostart_presets'' else [])"

definition preset_config_reference :: "'z manager \<Rightarrow> string \<Rightarrow> ('z, string) io" where
  "preset_config_reference m name =
     bindE (router_config_snapshot m) (\<lambda>cfg. retE (config_reference cfg name))"

definition running_in :: "router_model list \<Rightarrow> string \<Rightarrow> bool" where
  "running_in models name \<longleftrightarrow>
     (\<exists>x \<in> set models. md_id x = name \<and>
        (md_status x = ''loaded'' \<or> md_status x = ''sleeping'' \<or> md_status x = ''loading'' \<or> md_status x = ''downloading''))"

definition model_running :: "'z manager \<Rightarrow> string \<Rightarrow> ('z, bool) io" where
  "model_running m name =
     (case (mg_runtime m, mg_router m) of
        (Some rr, Some rt) \<Rightarrow>
          bindE (mapErrE (\<lambda>e. map_runtime_error e [Lit ''router runtime status failed'']) (rt_status rr)) (\<lambda>status.
            if st_state status = RtStopped then retE False
            else bindE (mapErrE (\<lambda>e. map_runtime_error e [Lit ''router status failed'']) (ri_list rt)) (\<lambda>models.
                   retE (running_in models name)))
      | _ \<Rightarrow> retE False)"

definition preset_deletable :: "'z manager \<Rightarrow> 'z preset_iface \<Rightarrow> string \<Rightarrow> ('z, bool) io" where
  "preset_deletable m ps name =
     bindE (preset_exists ps name) (\<lambda>exists.
       if \<not> exists then retE False
       else bindE (preset_config_reference m name) (\<lambda>reference.
         if reference \<noteq> []
         then failE (core_errorf ErrorConflict [Lit ''Preset '', Quoted name, Lit '' is configured in '', Str reference])
         else bindE (model_running m name) (\<lambda>running.
           if running then failE (core_errorf ErrorConflict [Lit ''preset '', Quoted name, Lit '' is loaded''])
           else retE True)))"

definition delete_preset :: "'z manager \<Rightarrow> string \<Rightarrow> ('z, unit) io" where
  "delete_preset m name =
     require_presets m (\<lambda>ps.
     bindE (preset_deletable m ps name) (\<lambda>deletable.
       if \<not> deletable then retE ()
       else
         bindE (mapErrE map_server_config_error (pr_delete ps name)) (\<lambda>_.
         bindE (mapErrE (\<lambda>e. core_error ErrorRuntime [Lit ''Preset deleted; Router refresh failed''] (Some e))
                  (refresh_router_sources m [Lit ''Preset '', Str name, Lit '' deleted''])) (\<lambda>_. retE ()))))"

definition delete_preset_op :: "'z manager \<Rightarrow> string \<Rightarrow> ('z os_scheme control, gerror, unit) eff" where
  "delete_preset_op m name = with_mutation m ''delete_preset'' (delete_preset m name)"

definition require_unavailable_preset :: "'z manager \<Rightarrow> string \<Rightarrow> ('z, unit) io" where
  "require_unavailable_preset m name =
     bindE (get_preset m name) (\<lambda>preset.
     bindE (inspect_source (mg_env m) (Some (sec_values preset))) (\<lambda>status.
       if ss_state status = SourceReady
       then failE (core_errorf ErrorConflict
              [Lit ''Preset '', Quoted name, Lit '' is available and cannot be cleaned up''])
       else bindE (model_running m name) (\<lambda>running.
         if running then failE (core_errorf ErrorConflict [Lit ''preset '', Quoted name, Lit '' is loaded'']) else retE ())))"

text \<open>Without a configuration store the names must not be referenced by the static configuration.\<close>

fun require_unreferenced :: "'z manager \<Rightarrow> string list \<Rightarrow> ('z, unit) io" where
  "require_unreferenced m [] = retE ()"
| "require_unreferenced m (name # names) =
     bindE (preset_config_reference m name) (\<lambda>reference.
       if reference \<noteq> [] then failE (core_errorf ErrorInvalidInput [Lit ''config store is not configured''])
       else require_unreferenced m names)"

definition remove_preset_references :: "'z manager \<Rightarrow> string list \<Rightarrow> ('z, unit) io" where
  "remove_preset_references m names =
     (case mg_config m of
        None \<Rightarrow> require_unreferenced m names
      | Some (yl, cf) \<Rightarrow>
          mapErrE map_config_store_error (remove_router_preset_references yl cf (mg_ctx m) names))"

definition cleanup_result :: "string \<Rightarrow> operation_result" where
  "cleanup_result name = op_result ''cleanup'' name ''succeeded'' [Lit ''unavailable Preset removed'']"

definition cleanup_preset :: "'z manager \<Rightarrow> string \<Rightarrow> ('z, operation_result) io" where
  "cleanup_preset m name =
     require_presets m (\<lambda>ps.
       if name = [] then failE (core_errorf ErrorInvalidInput [Lit ''Preset name is required''])
       else
         bindE (preset_exists ps name) (\<lambda>exists.
         bindE (if exists then require_unavailable_preset m name else retE ()) (\<lambda>_.
         bindE (remove_preset_references m [name]) (\<lambda>_.
           if \<not> exists then retE (cleanup_result name)
           else
             bindE (mapErrE map_server_config_error (pr_delete ps name)) (\<lambda>_.
             bindE (mapErrE (\<lambda>e. core_error ErrorRuntime [Lit ''Preset removed; Router refresh failed''] (Some e))
                      (refresh_router_sources m [Lit ''Unavailable Preset '', Str name, Lit '' cleaned up''])) (\<lambda>_.
               retE (cleanup_result name)))))))"

definition cleanup_preset_op :: "'z manager \<Rightarrow> string \<Rightarrow> ('z os_scheme control, gerror, operation_result) eff" where
  "cleanup_preset_op m name = with_mutation m ''cleanup_preset'' (cleanup_preset m name)"

subsection \<open>Local models\<close>

text \<open>The map \<open>active\<close>: a later model with the same identifier wins, an unknown name is not active.\<close>

definition active_map :: "router_model list \<Rightarrow> string \<Rightarrow> bool" where
  "active_map models name =
     (case model_states models name of Some s \<Rightarrow> model_state_active s | None \<Rightarrow> False)"

fun reject_active_preset :: "(string \<Rightarrow> bool) \<Rightarrow> string list \<Rightarrow> gerror option" where
  "reject_active_preset active [] = None"
| "reject_active_preset active (name # names) =
     (if active name
      then Some (core_errorf ErrorConflict
             [Lit ''model cannot be deleted while Preset '', Quoted name, Lit '' is loaded''])
      else reject_active_preset active names)"

definition fail_some :: "gerror option \<Rightarrow> ('z, unit) io" where
  "fail_some e = (case e of Some err \<Rightarrow> failE err | None \<Rightarrow> retE ())"

definition validate_model_cascade ::
  "'z manager \<Rightarrow> string list \<Rightarrow> string list \<Rightarrow> bool \<Rightarrow> ('z, unit) io" where
  "validate_model_cascade m model_paths model_dirs cascade =
     (if model_paths \<noteq> [] \<and> \<not> cascade
      then failE (core_errorf ErrorConflict
             [Lit ''model is referenced by Presets '', Names model_paths, Lit ''; confirm cascading cleanup''])
      else if length model_paths + length model_dirs = 0 then retE ()
      else (case (mg_runtime m, mg_router m) of
          (Some rr, Some rt) \<Rightarrow>
            bindE (mapErrE (\<lambda>e. map_runtime_error e [Lit ''router runtime status failed'']) (rt_status rr)) (\<lambda>status.
              if st_state status = RtStopped then retE ()
              else bindE (mapErrE (\<lambda>e. map_runtime_error e [Lit ''router status failed'']) (ri_list rt)) (\<lambda>models.
                bindE (fail_some (reject_active_preset (active_map models) model_paths)) (\<lambda>_.
                  fail_some (reject_active_preset (active_map models) model_dirs))))
        | _ \<Rightarrow> retE ()))"

fun delete_presets :: "'z preset_iface \<Rightarrow> string list \<Rightarrow> ('z, unit) io" where
  "delete_presets ps [] = retE ()"
| "delete_presets ps (name # names) =
     bindE (mapErrE map_server_config_error (pr_delete ps name)) (\<lambda>_. delete_presets ps names)"

definition remove_referenced_presets :: "'z manager \<Rightarrow> 'z preset_iface \<Rightarrow> string list \<Rightarrow> ('z, unit) io" where
  "remove_referenced_presets m ps names =
     (if names = [] then retE ()
      else
        bindE (remove_preset_references m names) (\<lambda>_.
        bindE (delete_presets ps names) (\<lambda>_.
        bindE (refresh_router_sources m [Lit ''Preset references removed before model deletion'']) (\<lambda>_. retE ()))))"

definition delete_local_model :: "'z manager \<Rightarrow> string \<Rightarrow> bool \<Rightarrow> ('z, operation_result) io" where
  "delete_local_model m path cascade =
     require_some (mg_local m) ''local model inventory is not configured'' (\<lambda>delete_file.
     require_presets m (\<lambda>ps.
     bindE (mapErrE map_server_config_error (pr_list ps)) (\<lambda>presets.
     bindE (find_references (mg_env m) presets path) (\<lambda>refs.
     bindE (validate_model_cascade m (rf_model_paths refs) (rf_model_dirs refs) cascade) (\<lambda>_.
     bindE (delete_file path) (\<lambda>_.
     bindE (remove_referenced_presets m ps (rf_model_paths refs)) (\<lambda>_.
       retE (op_result ''delete'' path ''succeeded''
         (if rf_model_paths refs \<noteq> []
          then [Lit ''local model and '', Num (int (length (rf_model_paths refs))), Lit '' referencing Preset(s) deleted'']
          else [Lit ''local model deleted'']))))))))) "

definition delete_local_model_op ::
  "'z manager \<Rightarrow> string \<Rightarrow> bool \<Rightarrow> ('z os_scheme control, gerror, operation_result) eff" where
  "delete_local_model_op m path cascade = with_mutation m ''delete_local_model'' (delete_local_model m path cascade)"

subsection \<open>Runtime\<close>

definition operation_from_runtime_result ::
  "string \<Rightarrow> string \<Rightarrow> command_result \<Rightarrow> gerror option \<Rightarrow> operation_result" where
  "operation_from_runtime_result action0 target result err =
     (let action = (if cr_action result \<noteq> [] then cr_action result else action0);
          mk = (\<lambda>status message. \<lparr>or_action = action, or_target = target, or_status = status, or_message = message,
                  or_duration_ms = cr_duration_ms result\<rparr>)
      in case err of
           Some e \<Rightarrow> mk ''failed'' [TextOf e]
         | None \<Rightarrow>
             (if cr_exit_code result \<noteq> 0
              then mk ''failed'' (if \<not> msg_empty (cr_stderr result) then cr_stderr result
                                  else if \<not> msg_empty (cr_stdout result) then cr_stdout result
                                  else [Lit ''command failed''])
              else if \<not> msg_empty (cr_stdout result) then mk ''succeeded'' (cr_stdout result)
              else mk ''succeeded'' [Lit (action @ '' completed'')]))"

definition require_preset_source :: "'z manager \<Rightarrow> string \<Rightarrow> ('z, unit) io" where
  "require_preset_source m name =
     bindE (get_preset m name) (\<lambda>preset.
     bindE (inspect_source (mg_env m) (Some (sec_values preset))) (\<lambda>status.
       if ss_state status \<noteq> SourceReady
       then failE (core_errorf ErrorConflict
              ([Lit ''Preset '', Quoted name, Lit '' is unavailable: ''] @ ss_error status))
       else retE ()))"

definition resolve_start_preset :: "'z manager \<Rightarrow> string \<Rightarrow> ('z, string) io" where
  "resolve_start_preset m requested =
     bindE (router_config_snapshot m) (\<lambda>cfg.
       let name = (if requested = [] \<and> rc_default_preset cfg \<noteq> [] then rc_default_preset cfg else requested) in
       if name \<noteq> [] then bindE (get_preset m name) (\<lambda>_. retE name)
       else bindE (list_presets m) (\<lambda>presets.
         case presets of
           [p] \<Rightarrow> retE (sec_name p)
         | _ \<Rightarrow> failE (core_errorf ErrorInvalidInput
                  [Lit ''server is required; available servers: '', Names (map sec_name presets)])))"

definition ensure_router :: "'z manager \<Rightarrow> ('z, unit) io" where
  "ensure_router m =
     require_some (mg_runtime m) ''router runtime is not configured'' (\<lambda>rr.
     bindE (mapErrE (\<lambda>e. map_runtime_error e [Lit ''router runtime status failed'']) (rt_status rr)) (\<lambda>status.
       if st_state status \<noteq> RtStopped then retE ()
       else bindE (mapErrE (\<lambda>e. map_runtime_error e [Lit ''router runtime start failed'']) (rt_start rr)) (\<lambda>_. retE ())))"

definition apply_router_action :: "'z manager \<Rightarrow> string \<Rightarrow> string \<Rightarrow> ('z, unit) io" where
  "apply_router_action m action name =
     require_some (mg_router m) ''router client is not configured'' (\<lambda>rt.
       if action = ''start'' then ri_load rt name
       else if action = ''stop'' then ri_unload rt name
       else if action = ''restart'' then bindE (ignoreE (ri_unload rt name)) (\<lambda>_. ri_load rt name)
       else failE (core_errorf ErrorInvalidInput [Lit ''unknown router action '', Quoted action]))"

definition router_operation :: "'z manager \<Rightarrow> string \<Rightarrow> string \<Rightarrow> ('z, operation_result) io" where
  "router_operation m action requested =
     bindE (resolve_start_preset m requested) (\<lambda>name.
     bindE (if action = ''start'' \<or> action = ''restart'' then require_preset_source m name else retE ()) (\<lambda>_.
     bindE (ensure_router m) (\<lambda>_.
     bindE (mapErrE (\<lambda>e. map_runtime_error e [Lit ''router '', Str action, Lit '' failed''])
              (apply_router_action m action name)) (\<lambda>_.
       retE (op_result action name ''succeeded'' [Lit (action @ '' completed'')])))))"

definition router_operation_op ::
  "'z manager \<Rightarrow> string \<Rightarrow> string \<Rightarrow> ('z os_scheme control, gerror, operation_result) eff" where
  "router_operation_op m action requested = with_mutation m action (router_operation m action requested)"

definition start_operation :: "'z manager \<Rightarrow> string \<Rightarrow> ('z os_scheme control, gerror, operation_result) eff" where
  "start_operation m server = router_operation_op m ''start'' server"

definition stop_router :: "'z manager \<Rightarrow> ('z, operation_result) io" where
  "stop_router m =
     require_some (mg_runtime m) ''router runtime is not configured'' (\<lambda>rr.
     bindE (rt_stop rr) (\<lambda>result. retE (operation_from_runtime_result ''stop'' ''all'' result None)))"

definition stop_operation :: "'z manager \<Rightarrow> string \<Rightarrow> ('z os_scheme control, gerror, operation_result) eff" where
  "stop_operation m server =
     (if server = [] then with_mutation m ''stop_router'' (stop_router m)
      else router_operation_op m ''stop'' server)"

definition restart_operation :: "'z manager \<Rightarrow> string \<Rightarrow> ('z os_scheme control, gerror, operation_result) eff" where
  "restart_operation m server = router_operation_op m ''restart'' server"

fun start_each :: "'z manager \<Rightarrow> string list \<Rightarrow> ('z os_scheme control, gerror, gerror list) eff" where
  "start_each m [] = retE []"
| "start_each m (name # names) =
     tryE (start_operation m name)
       (\<lambda>err. bindE (start_each m names) (\<lambda>errs.
          retE (Wrap [Lit ''autostart Preset '', Quoted name, Lit '': '', TextOf err] [err] # errs)))
       (\<lambda>_. start_each m names)"

definition on_world :: "('z, 'a) io \<Rightarrow> ('z os_scheme control, gerror, 'a) eff" where
  "on_world f c = (case f (ct_world c) of (r, w) \<Rightarrow> (r, c\<lparr>ct_world := w\<rparr>))"

definition start_autostart_presets :: "'z manager \<Rightarrow> ('z os_scheme control, gerror, gerror list) eff" where
  "start_autostart_presets m =
     bindE (on_world (router_config_snapshot m)) (\<lambda>cfg. start_each m (rc_autostart_presets cfg))"

definition recover_router_runtime :: "'z manager \<Rightarrow> ('z, unit) io" where
  "recover_router_runtime m =
     require_some (mg_runtime m) ''router runtime is not configured'' (\<lambda>rr. bindE (rt_recover rr) (\<lambda>_. retE ()))"

definition router_unavailable_status :: "'z manager \<Rightarrow> ('z, control_status) io" where
  "router_unavailable_status m =
     (case mg_runtime m of
        None \<Rightarrow> (\<lambda>w. (Inr \<lparr>cts_state = RtStopped, cts_detail = [Lit ''router runtime is not configured''],
                   cts_checked_at = mg_now m w, cts_presets = []\<rparr>, w))
      | Some rr \<Rightarrow>
          bindE (mapErrE (\<lambda>e. map_runtime_error e [Lit ''router runtime status failed'']) (rt_status rr)) (\<lambda>process w.
            (Inr \<lparr>cts_state = st_state process,
                  cts_detail = (if st_state process = RtStopped then [Lit ''router stopped'']
                    else [Lit (''router process '' @ rt_state_text (st_state process) @ ''; model list unavailable'')]),
                  cts_checked_at = (if st_checked_at process = 0 then mg_now m w else st_checked_at process),
                  cts_presets = []\<rparr>, w)))"

definition model_rt_state :: "string \<Rightarrow> rt_state" where
  "model_rt_state v =
     (if v = ''loaded'' \<or> v = ''sleeping'' then RtRunning
      else if v = ''loading'' \<or> v = ''downloading'' then RtStarting else RtStopped)"

text \<open>One turn of the loop of \<^verbatim>\<open>routerStatus\<close>: the state and the presets collected so far.\<close>

definition status_step :: "router_model \<Rightarrow> rt_state \<times> runtime_preset list \<Rightarrow> rt_state \<times> runtime_preset list" where
  "status_step model acc =
     (let state = model_rt_state (md_status model) in
      if state = RtStopped then acc
      else (if state = RtStarting \<or> fst acc = RtStopped then state else fst acc,
            snd acc @ [\<lparr>rp_name = md_id model, rp_state = state, rp_ready = (state = RtRunning)\<rparr>]))"

definition status_of_models :: "int \<Rightarrow> router_model list \<Rightarrow> control_status" where
  "status_of_models now models =
     (case fold status_step models (RtStopped, []) of
        (state, presets) \<Rightarrow>
          \<lparr>cts_state = state,
           cts_detail = (if presets \<noteq> [] then [Num (int (length presets)), Lit '' preset(s) active'']
                         else [Lit ''no presets loaded'']),
           cts_checked_at = now, cts_presets = presets\<rparr>)"

definition router_status :: "'z manager \<Rightarrow> ('z, control_status) io" where
  "router_status m =
     (case mg_router m of
        None \<Rightarrow> router_unavailable_status m
      | Some rt \<Rightarrow>
          tryE (ri_list rt) (\<lambda>_. router_unavailable_status m)
            (\<lambda>models w. (Inr (status_of_models (mg_now m w) models), w)))"

subsection \<open>Configuration\<close>

definition set_startup_services_ctl ::
  "'z manager \<Rightarrow> string list \<Rightarrow> ('z, write_result) io" where
  "set_startup_services_ctl m services =
     require_some (mg_config m) ''config.yaml store is not configured'' (\<lambda>(yl, cf).
       mapErrE map_config_store_error (set_startup_services yl cf (mg_ctx m) services))"

definition set_startup_services_op ::
  "'z manager \<Rightarrow> string list \<Rightarrow> ('z os_scheme control, gerror, write_result) eff" where
  "set_startup_services_op m services = with_mutation m ''set_startup_services'' (set_startup_services_ctl m services)"

definition set_preset_autostart :: "'z manager \<Rightarrow> string \<Rightarrow> bool \<Rightarrow> ('z, write_result) io" where
  "set_preset_autostart m name enabled =
     require_some (mg_config m) ''config.yaml store is not configured'' (\<lambda>(yl, cf).
     bindE (if enabled then bindE (get_preset m name) (\<lambda>_. retE ()) else retE ()) (\<lambda>_.
       mapErrE map_config_store_error (set_router_autostart_preset yl cf (mg_ctx m) name enabled)))"

definition set_preset_autostart_op ::
  "'z manager \<Rightarrow> string \<Rightarrow> bool \<Rightarrow> ('z os_scheme control, gerror, write_result) eff" where
  "set_preset_autostart_op m name enabled = with_mutation m ''set_preset_autostart'' (set_preset_autostart m name enabled)"

end
