(* ===== verification/ControlContract.thy ===== *)
theory ControlContract
  imports ControlOps PresetContract
begin

section \<open>What the control core promises over the contracts of its parts\<close>

text \<open>
  \<open>control_core\<close> extends the contract of the preset store by the frame of the other parts: the calls to the router and
  its runtime, and reading the configuration, leave the presets alone. The lemmas say what the operations do to the presets,
  whatever those calls answer.
\<close>

definition inert :: "('w \<Rightarrow> 'v) \<Rightarrow> ('w \<Rightarrow> bool) \<Rightarrow> ('w, 'e, 'a) eff \<Rightarrow> bool" where
  "inert view ok f \<longleftrightarrow> (\<forall>w r w'. ok w \<longrightarrow> f w = (r, w') \<longrightarrow> ok w' \<and> view w' = view w)"

named_theorems inert_intros "operations that leave the presets alone"

lemma inertD: "inert view ok f \<Longrightarrow> ok w \<Longrightarrow> f w = (r, w') \<Longrightarrow> ok w' \<and> view w' = view w"
  by (simp add: inert_def)

lemma inert_ret [inert_intros]: "inert view ok (retE x)"
  by (simp add: inert_def)

lemma inert_fail [inert_intros]: "inert view ok (failE x)"
  by (simp add: inert_def)

lemma inert_try [inert_intros]:
  assumes "inert view ok f" "\<And>e. inert view ok (h e)" "\<And>x. inert view ok (k x)"
  shows "inert view ok (tryE f h k)"
  unfolding inert_def
proof (intro allI impI)
  fix w r w' assume ok: "ok w" and run: "tryE f h k w = (r, w')"
  from run show "ok w' \<and> view w' = view w"
  proof (cases rule: tryE_cases)
    case (err e w1)
    then show ?thesis using inertD [OF assms(1) ok err(1)] inertD [OF assms(2) _ err(2)] by auto
  next
    case (ok x w1)
    then show ?thesis using inertD [OF assms(1) \<open>ok w\<close> ok(1)] inertD [OF assms(3) _ ok(2)] by auto
  qed
qed

lemma inert_bind [inert_intros]:
  "inert view ok f \<Longrightarrow> (\<And>x. inert view ok (k x)) \<Longrightarrow> inert view ok (bindE f k)"
  unfolding bindE_as_try by (intro inert_intros)

lemma inert_mapErr [inert_intros]: "inert view ok f \<Longrightarrow> inert view ok (mapErrE g f)"
  by (auto simp: inert_def mapErrE_def split: prod.splits sum.splits)

lemma inert_ignore [inert_intros]: "inert view ok f \<Longrightarrow> inert view ok (ignoreE f)"
  by (auto simp: inert_def) (metis surj_pair snd_conv)+

lemma inert_if [inert_intros]: "inert view ok f \<Longrightarrow> inert view ok g \<Longrightarrow> inert view ok (if b then f else g)"
  by simp

lemma inert_require_some [inert_intros]:
  "(\<And>d. x = Some d \<Longrightarrow> inert view ok (k d)) \<Longrightarrow> inert view ok (require_some x t k)"
  by (cases x) (auto simp: require_some_def intro: inert_fail)

lemma inert_const: "(\<And>w. snd (f w) = w) \<Longrightarrow> inert view ok f"
  by (auto simp: inert_def) (metis snd_conv)+

locale control_core = preset_store "pr_list ps" "pr_get ps" "pr_put ps" "pr_delete ps" view ok
  for ps :: "'z preset_iface" and view :: "'z os_scheme \<Rightarrow> preset_map option" and ok :: "'z os_scheme \<Rightarrow> bool" +
  fixes m :: "'z manager"
  assumes has_presets: "mg_presets m = Some ps"
    and router_frame: "\<And>rt. mg_router m = Some rt \<Longrightarrow>
      inert view ok (ri_list rt) \<and> inert view ok (ri_reload rt) \<and>
      (\<forall>name. inert view ok (ri_load rt name) \<and> inert view ok (ri_unload rt name))"
    and runtime_frame: "\<And>rr. mg_runtime m = Some rr \<Longrightarrow>
      inert view ok (rt_status rr) \<and> inert view ok (rt_start rr) \<and> inert view ok (rt_stop rr)"
    and config_frame: "inert view ok (router_config_snapshot m)"
begin

lemma get_inert: "inert view ok (pr_get ps name)"
  unfolding inert_def using get_law by blast

lemma list_inert: "inert view ok (pr_list ps)"
  unfolding inert_def using list_law by blast

lemma get_preset_inert: "inert view ok (get_preset m name)"
  unfolding get_preset_def preset_read_def require_presets_def
  by (intro inert_intros) (use has_presets get_inert in auto)

lemma list_presets_inert: "inert view ok (list_presets m)"
  unfolding list_presets_def preset_read_def require_presets_def
  by (intro inert_intros) (use has_presets list_inert in auto)

lemma restore_each_inert:
  assumes "mg_router m = Some rt"
  shows "inert view ok (restore_each rt states names)"
proof (induction names)
  case (Cons name names)
  then show ?case using router_frame [OF assms] by (auto intro!: inert_intros split: option.splits)
next
  case Nil
  show ?case unfolding restore_each.simps by (rule inert_ret)
qed

lemma restore_inert: "mg_router m = Some rt \<Longrightarrow> inert view ok (restore_active_models rt active models)"
  unfolding restore_active_models_def
  by (auto intro!: inert_intros restore_each_inert split: option.splits)

lemma restart_inert:
  "mg_router m = Some rt \<Longrightarrow> mg_runtime m = Some rr \<Longrightarrow> inert view ok (restart_router_sources rt rr active reason)"
  unfolding restart_router_sources_def
  by (intro inert_intros restore_inert) (auto dest: router_frame runtime_frame)

lemma refresh_inert: "inert view ok (refresh_router_sources m reason)"
proof (cases "mg_runtime m = None \<or> mg_router m = None")
  case True
  then show ?thesis unfolding refresh_router_sources_def
    by (auto intro!: inert_intros split: option.splits)
next
  case False
  then obtain rr rt where r: "mg_runtime m = Some rr" "mg_router m = Some rt" by auto
  show ?thesis unfolding refresh_router_sources_def r prod.case option.case Let_def
    by (intro inert_intros restart_inert restore_inert r)
      (use router_frame [OF r(2)] runtime_frame [OF r(1)] in auto)
qed

lemma capture_inert: "inert view ok (capture_router_state m)"
proof (cases "mg_runtime m = None \<or> mg_router m = None")
  case True
  then show ?thesis unfolding capture_router_state_def
    by (auto intro!: inert_intros split: option.splits)
next
  case False
  then obtain rr rt where r: "mg_runtime m = Some rr" "mg_router m = Some rt" by auto
  show ?thesis unfolding capture_router_state_def r prod.case option.case
    by (intro inert_intros) (use router_frame [OF r(2)] runtime_frame [OF r(1)] in auto)
qed

lemma model_running_inert: "inert view ok (model_running m name)"
proof (cases "mg_runtime m = None \<or> mg_router m = None")
  case True
  then show ?thesis unfolding model_running_def
    by (auto intro!: inert_intros split: option.splits)
next
  case False
  then obtain rr rt where r: "mg_runtime m = Some rr" "mg_router m = Some rt" by auto
  show ?thesis unfolding model_running_def r prod.case option.case
    by (intro inert_intros) (use router_frame [OF r(2)] runtime_frame [OF r(1)] in auto)
qed

lemma exists_inert: "inert view ok (preset_exists ps name)"
  unfolding preset_exists_def by (intro inert_intros get_inert)

lemmas all_inert = get_inert list_inert get_preset_inert list_presets_inert refresh_inert
  capture_inert model_running_inert exists_inert config_frame

text \<open>Rolling back a creation restores the presets, or reports that it could not.\<close>

lemma rollback_outcome:
  assumes "ok w1" "rollback_preset_creation m ps name prev err w1 = (r, w')"
  shows "ok w' \<and> (\<exists>e. r = Inl e \<and>
      ((\<exists>w2. pr_delete ps name w1 = (Inr (), w2) \<and> view w' = view w2) \<or>
       (\<exists>derr. e = core_error ErrorRuntime
          [Lit ''Preset creation failed and could not be rolled back: '', TextOf derr] (Some (Joined [err, derr])))))"
proof -
  obtain d w2 where d: "pr_delete ps name w1 = (d, w2)" by force
  from delete_law [OF assms(1) d] have o2: "ok w2" by blast
  show ?thesis
  proof (cases d)
    case (Inl derr)
    with delete_law [OF assms(1) d] assms(2) d show ?thesis
      by (auto simp: rollback_preset_creation_def tryE_def)
  next
    case (Inr u)
    let ?k = "\<lambda>rt rr. restart_router_sources rt rr (rs_active prev) [Lit ''Preset '', Str name, Lit '' creation reverted'']"
    have "(case (rs_running prev, mg_runtime m, mg_router m) of
          (True, Some rr, Some rt) \<Rightarrow> tryE (?k rt rr)
              (\<lambda>e. failE (core_error ErrorRuntime
                 [Lit ''Preset creation reverted; Router recovery failed: '', TextOf e] (Some (Joined [err, e]))))
              (\<lambda>_. failE (core_error ErrorRuntime
                 [Lit ''Router refresh failed with the new preset; creation reverted''] (Some err)))
        | _ \<Rightarrow> failE (core_error ErrorRuntime
                 [Lit ''Router refresh failed with the new preset; creation reverted''] (Some err))) w2 = (r, w')" (is "?body w2 = _")
      using assms(2) d Inr by (simp add: rollback_preset_creation_def tryE_def)
    then consider "\<exists>e. r = Inl e" "w' = w2"
      | rt rr rx where "mg_router m = Some rt" "mg_runtime m = Some rr" "?k rt rr w2 = (rx, w')" "\<exists>e. r = Inl e"
      by (auto simp: tryE_def split: bool.splits option.splits prod.splits sum.splits)
    then show ?thesis
    proof cases
      case 1
      with o2 d Inr show ?thesis by auto
    next
      case 2
      with inertD [OF restart_inert [OF 2(1,2)] o2 2(3)] d Inr show ?thesis by auto
    qed
  qed
qed

lemma put_preset_create_outcome:
  assumes "ok w" "trim_space (sec_name sec) = sec_name sec" "put_preset m sec True w = (Inl e, w')"
  shows "ok w' \<and> (view w' = view w \<or>
     (\<exists>derr err. e = core_error ErrorRuntime
        [Lit ''Preset creation failed and could not be rolled back: '', TextOf derr] (Some (Joined [err, derr]))) \<or>
     (\<exists>serr st w1. capture_router_state m w = (Inr st, w1) \<and> e = map_server_config_error serr \<and>
        (pr_put ps sec True w1 = (Inl serr, w') \<or>
         (\<exists>w2. pr_put ps sec True w1 = (Inr (), w2) \<and> pr_get ps (sec_name sec) w2 = (Inl serr, w')))))"
proof -
  obtain prev w1 where c: "capture_router_state m w = (prev, w1)" by force
  from inertD [OF capture_inert assms(1) c] have w1: "ok w1" "view w1 = view w" by auto
  show ?thesis
  proof (cases prev)
    case (Inl e1)
    with assms(3) c w1 has_presets show ?thesis
      by (simp add: put_preset_def require_presets_def require_some_def bindE_def)
  next
    case (Inr st)
    obtain p w2 where p: "pr_put ps sec True w1 = (p, w2)" by force
    from put_law [OF w1(1) assms(2) p] have o2: "ok w2" by blast
    show ?thesis
    proof (cases p)
      case (Inl perr)
      with assms(3) c Inr p has_presets have "e = map_server_config_error perr" "w' = w2"
        by (simp_all add: put_preset_def require_presets_def require_some_def bindE_def mapErrE_def)
      with o2 p Inl Inr c show ?thesis by blast
    next
      case pu: (Inr u)
      obtain g w3 where g: "pr_get ps (sec_name sec) w2 = (g, w3)" by force
      from inertD [OF get_inert o2 g] have w3: "ok w3" "view w3 = view w2" by auto
      show ?thesis
      proof (cases g)
        case (Inl gerr)
        with assms(3) c Inr p pu g has_presets have "e = map_server_config_error gerr" "w' = w3"
          by (simp_all add: put_preset_def require_presets_def require_some_def bindE_def mapErrE_def)
        moreover have "pr_put ps sec True w1 = (Inr (), w2)" using p pu by simp
        ultimately show ?thesis using w3(1) c Inr g Inl by blast
      next
        case gu: (Inr saved)
        obtain f w4 where f: "refresh_router_sources m [Lit ''Preset '', Str (sec_name sec), Lit '' changed''] w3 = (f, w4)"
          by force
        from inertD [OF refresh_inert w3(1) f] w3 have w4: "ok w4" "view w4 = view w2" by auto
        obtain ferr where "f = Inl ferr"
          and rb: "(rollback_preset_creation m ps (sec_name sec) st ferr :: ('z, preset_section) io) w4 = (Inl e, w')"
          using assms(3) c Inr p pu g gu f has_presets
          by (cases f) (auto simp: put_preset_def require_presets_def require_some_def bindE_def mapErrE_def tryE_def)
        from rollback_outcome [OF w4(1) rb] show ?thesis
        proof (elim conjE exE disjE)
          fix e' w5
          assume "ok w'" "pr_delete ps (sec_name sec) w4 = (Inr (), w5)" "view w' = view w5"
          moreover from delete_law [OF w4(1) this(2)] obtain mm where "view w4 = Some mm" "view w5 = Some (mm(sec_name sec := None))"
            by auto
          moreover from put_law [OF w1(1) assms(2) p] pu obtain m0 vals where
            "view w1 = Some m0" "m0 (sec_name sec) = None" "view w2 = Some (m0(sec_name sec \<mapsto> stored_map vals))" by auto
          ultimately have "view w' = view w" using w4 w1 by (auto simp: fun_upd_idem)
          with \<open>ok w'\<close> show ?thesis by blast
        next
          fix e' derr
          assume "ok w'" and "Inl e = (Inl e' :: gerror + preset_section)" and "e' = core_error ErrorRuntime
            [Lit ''Preset creation failed and could not be rolled back: '', TextOf derr] (Some (Joined [ferr, derr]))"
          then show ?thesis by blast
        qed
      qed
    qed
  qed
qed

text \<open>A preset is deleted only when it is neither configured nor loaded.\<close>

lemma delete_preset_outcome:
  assumes "ok w" "delete_preset m name w = (r, w')"
  shows "ok w' \<and> (view w' = view w \<or>
     (\<exists>v w1 cfg w2 w3. view w = Some v \<and> view w' = Some (v(name := None)) \<and>
        router_config_snapshot m w1 = (Inr cfg, w2) \<and> config_reference cfg name = [] \<and>
        model_running m name w2 = (Inr False, w3)))"
proof -
  obtain d w1 where d: "preset_deletable m ps name w = (d, w1)" by force
  have pd: "inert view ok (preset_deletable m ps name)"
    unfolding preset_deletable_def preset_config_reference_def by (intro inert_intros all_inert)
  from inertD [OF pd assms(1) d] have w1: "ok w1" "view w1 = view w" by auto
  show ?thesis
  proof (cases "d = Inr True")
    case False
    then have "w' = w1" using assms(2) d has_presets
      by (auto simp: delete_preset_def require_presets_def require_some_def bindE_def split: sum.splits)
    with w1 show ?thesis by auto
  next
    case True
    then obtain w0 cfg w2 w3 where guards: "router_config_snapshot m w0 = (Inr cfg, w2)" "config_reference cfg name = []"
      "model_running m name w2 = (Inr False, w3)"
      using d by (auto simp: preset_deletable_def preset_config_reference_def elim!: bindE_InrE split: if_splits)
    obtain x w4 where x: "pr_delete ps name w1 = (x, w4)" by force
    from delete_law [OF w1(1) x] have o4: "ok w4" by blast
    show ?thesis
    proof (cases x)
      case (Inl err)
      then have "w' = w4" using assms(2) d True x has_presets
        by (auto simp: delete_preset_def require_presets_def require_some_def bindE_def mapErrE_def)
      with delete_law [OF w1(1) x] w1 guards show ?thesis by auto
    next
      case (Inr u)
      obtain f w5 where f: "refresh_router_sources m [Lit ''Preset '', Str name, Lit '' deleted''] w4 = (f, w5)" by force
      have "w' = w5" using assms(2) d True x Inr f has_presets
        by (auto simp: delete_preset_def require_presets_def require_some_def bindE_def mapErrE_def split: sum.splits)
      with inertD [OF refresh_inert o4 f] have "ok w'" "view w' = view w4" by auto
      moreover from delete_law [OF w1(1) x] Inr obtain v where "view w1 = Some v" "view w4 = Some (v(name := None))" by auto
      ultimately have "ok w'" "view w = Some v" "view w' = Some (v(name := None))" using w1 by simp_all
      with guards show ?thesis by blast
    qed
  qed
qed

text \<open>The presets change only after the model file was deleted, and only when the cascade was confirmed.\<close>

lemma delete_local_model_outcome:
  assumes "ok w" "\<And>f. mg_local m = Some f \<Longrightarrow> inert view ok (f model)"
    and "\<And>secs. inert view ok (find_references (mg_env m) secs model)"
    and "delete_local_model m model cascade w = (r, w')"
  shows "view w' = view w \<or>
    (\<exists>f w1 w2. mg_local m = Some f \<and> f model w1 = (Inr (), w2) \<and> view w2 = view w \<and> cascade)"
proof (cases "mg_local m")
  case None
  with assms(4) show ?thesis by (simp add: delete_local_model_def require_some_def)
next
  case (Some f)
  let ?vm = "\<lambda>refs. validate_model_cascade m (rf_model_paths refs) (rf_model_dirs refs) cascade"
  have vm: "inert view ok (?vm refs)" for refs
  proof (cases "mg_runtime m = None \<or> mg_router m = None")
    case True
    then show ?thesis unfolding validate_model_cascade_def by (auto intro!: inert_intros split: option.splits)
  next
    case False
    then obtain rr rt where r: "mg_runtime m = Some rr" "mg_router m = Some rt" by auto
    have fs: "inert view ok (fail_some e)" for e by (cases e) (simp_all add: fail_some_def inert_intros)
    show ?thesis unfolding validate_model_cascade_def r prod.case option.case
      by (intro inert_intros fs) (use router_frame [OF r(2)] runtime_frame [OF r(1)] in auto)
  qed
  have run: "bindE (mapErrE map_server_config_error (pr_list ps)) (\<lambda>presets.
     bindE (find_references (mg_env m) presets model) (\<lambda>refs.
     bindE (?vm refs) (\<lambda>_. bindE (f model) (\<lambda>_.
     bindE (remove_referenced_presets m ps (rf_model_paths refs)) (\<lambda>_.
       retE (op_result ''delete'' model ''succeeded''
         (if rf_model_paths refs \<noteq> []
          then [Lit ''local model and '', Num (int (length (rf_model_paths refs))), Lit '' referencing Preset(s) deleted'']
          else [Lit ''local model deleted'']))))))) w = (r, w')"
    using assms(4) Some has_presets by (simp add: delete_local_model_def require_presets_def require_some_def)
  obtain l w1 where l: "mapErrE map_server_config_error (pr_list ps) w = (l, w1)" by force
  have w1: "ok w1 \<and> view w1 = view w" by (rule inertD [OF inert_mapErr [OF list_inert] assms(1) l])
  show ?thesis
  proof (cases l)
    case (Inl e)
    with run l w1 show ?thesis by (simp add: bindE_def)
  next
    case (Inr secs)
    obtain f1 w2 where f1: "find_references (mg_env m) secs model w1 = (f1, w2)" by force
    have w2: "ok w2 \<and> view w2 = view w" using inertD [OF assms(3) _ f1] w1 by auto
    show ?thesis
    proof (cases f1)
      case (Inl e)
      with run l Inr f1 w2 show ?thesis by (simp add: bindE_def)
    next
      case refs: (Inr refs)
      obtain v w3 where v: "?vm refs w2 = (v, w3)" by force
      have w3: "ok w3 \<and> view w3 = view w" using inertD [OF vm _ v] w2 by auto
      show ?thesis
      proof (cases v)
        case (Inl e)
        with run l Inr f1 refs v w3 show ?thesis by (simp add: bindE_def)
      next
        case vu: (Inr u)
        obtain d w4 where d: "f model w3 = (d, w4)" by force
        have w4: "view w4 = view w" using inertD [OF assms(2) [OF Some] _ d] w3 by auto
        show ?thesis
        proof (cases "d = Inr () \<and> rf_model_paths refs \<noteq> []")
          case True
          then have "cascade" using v vu by (auto simp: validate_model_cascade_def split: if_splits)
          with True d w4 Some show ?thesis by blast
        next
          case False
          with run l Inr f1 refs v vu d w4 show ?thesis
            by (cases d) (simp_all add: bindE_def remove_referenced_presets_def)
        qed
      qed
    qed
  qed
qed

end

end
