(* ===== verification/OsFrame.thy ===== *)
theory OsFrame
  imports PresetContract
begin

section \<open>Which files a replacement touches\<close>

text \<open>
  The frame of each call of the operating system, as introduction rules for \<open>touches\<close>, and of the replacement of a file: only the
  target and names of temporary files beside it. The preset store inherits the frame.
\<close>

lemma touches_one:
  assumes "p \<in> P" "\<And>w. snd (f w) = w \<or> (\<exists>n. snd (f w) = set_node p n w)"
  shows "touches P (os_call f)"
  using touches_mono [OF touches_call [OF touches_set_node [OF assms(2)]], of P] assms(1) by simp

lemma touches_os_writes [touches_intros]:
  "p \<in> P \<Longrightarrow> touches P (os_remove p)" "p \<in> P \<Longrightarrow> touches P (os_chmod p m)"
  unfolding os_remove_def os_chmod_def
  by (rule touches_one, assumption, auto split: option.splits node.splits)+

lemma touches_os_reads [touches_intros]:
  "touches P (os_sync p)" "touches P (os_close p)" "touches P (os_open p)" "touches P (os_stat p)" "touches P (os_read_file p)"
  unfolding os_sync_def os_close_def os_open_def os_stat_def os_read_file_def
  by (rule touches_pure; simp)+

lemma append_data_cases: "append_data p d w = w \<or> (\<exists>n. append_data p d w = set_node p n w)"
  by (auto simp: append_data_def split: option.splits node.splits)

lemma touches_write [touches_intros]:
  assumes "p \<in> P"
  shows "touches P (os_write p d)"
proof (rule touchesI)
  fix w
  have "\<exists>n. snd (os_write p d w) = append_data p n (w\<lparr>os_tick := Suc (os_tick w)\<rparr>)"
    by (cases "os_fault w (os_tick w)") (auto simp: os_write_def Let_def intro: exI [of _ d])
  then obtain n where n: "snd (os_write p d w) = append_data p n (w\<lparr>os_tick := Suc (os_tick w)\<rparr>)" by blast
  show "agree_off P (os_files (snd (os_write p d w))) (os_files w)"
    using append_data_cases [of p n "w\<lparr>os_tick := Suc (os_tick w)\<rparr>"] assms
    by (auto simp: n set_node_def Let_def agree_off_def)
  show "\<exists>ts. os_trace (snd (os_write p d w)) = os_trace w @ ts \<and> (\<forall>t\<in>set ts. agree_off P t (os_files w))"
    using append_data_cases [of p n "w\<lparr>os_tick := Suc (os_tick w)\<rparr>"] assms
    by (auto simp: n set_node_def Let_def agree_off_def)
qed

lemma touches_rename [touches_intros]:
  assumes "p \<in> P" "q \<in> P"
  shows "touches P (os_rename p q)"
  unfolding os_rename_def
proof (rule touches_call, rule touchesI)
  fix w :: "'a os_scheme"
  let ?f = "\<lambda>w :: 'a os_scheme. case os_files w p of
       None \<Rightarrow> (Inl (Sentinel OsNotExist), w)
     | Some n \<Rightarrow>
         if is_dir_at (os_files w) q \<and> \<not> is_dir_at (os_files w) p
         then (Inl (Sentinel OsExist) :: gerror + unit, w)
         else
           (let fs = (os_files w)(p := None, q := Some n)
            in (Inr (), w\<lparr>os_files := fs, os_trace := os_trace w @ [fs]\<rparr>))"
  show "agree_off P (os_files (snd (?f w))) (os_files w)"
    using assms by (auto simp: agree_off_def Let_def split: option.splits)
  show "\<exists>ts. os_trace (snd (?f w)) = os_trace w @ ts \<and> (\<forall>t\<in>set ts. agree_off P t (os_files w))"
    using assms by (auto simp: agree_off_def Let_def split: option.splits)
qed

lemma touches_sync_dir [touches_intros]: "touches P (sync_dir d)"
  unfolding sync_dir_def by (intro touches_intros)

lemma touches_unchanged: "(\<And>w. snd (f w) = w) \<Longrightarrow> touches P f"
  by (simp add: touches_def)

text \<open>The names \<^verbatim>\<open>CreateTemp\<close> can choose beside \<open>path\<close>.\<close>

definition temp_names :: "string \<Rightarrow> string set" where
  "temp_names path = range (temp_name (dir_of path) (CHR ''.'' # base_of path @ ''-''))"

lemma create_temp_try_files:
  "create_temp_try k d pfx w = (r, w') \<Longrightarrow>
   agree_off (range (temp_name d pfx)) (os_files w') (os_files w) \<and> (\<forall>p. r = Inr p \<longrightarrow> p \<in> range (temp_name d pfx))"
proof (induction k arbitrary: w)
  case (Suc k)
  let ?p = "temp_name d pfx (os_rand w (os_tick w))"
  show ?case
  proof (cases "os_files w ?p")
    case None
    with Suc.prems have "r = Inr ?p" "os_files w' = (os_files w)(?p := Some (RegFile [] 384))"
      by (auto simp: Let_def set_node_def)
    then show ?thesis by (auto simp: agree_off_def)
  next
    case (Some n)
    with Suc.prems Suc.IH [of "w\<lparr>os_tick := Suc (os_tick w)\<rparr>"] show ?thesis by (simp add: Let_def)
  qed
qed auto

lemma touches_run: "touches P (f :: ('z, 'a) io) \<Longrightarrow> f w = (r, w') \<Longrightarrow> agree_off P (os_files w') (os_files w)"
  unfolding touches_def by (metis snd_conv)

lemma replacement_files:
  fixes w :: "'z os_scheme"
  assumes "write_replacement path data perm bk w = (r, w')" "q \<noteq> path" "q \<notin> temp_names path"
  shows "os_files w' q = os_files w q"
proof -
  let ?pfx = "CHR ''.'' # base_of path @ ''-''"
  obtain c w1 where c: "os_create_temp (dir_of path) ?pfx w = (c, w1)" by force
  have c1: "agree_off (temp_names path) (os_files w1) (os_files w) \<and> (\<forall>p. c = Inr p \<longrightarrow> p \<in> temp_names path)"
    using c create_temp_try_files [of 10000 "dir_of path" ?pfx "w\<lparr>os_tick := Suc (os_tick w)\<rparr>" c w1]
    by (auto simp: os_create_temp_def os_call_def Let_def temp_names_def split: option.splits)
  show ?thesis
  proof (cases c)
    case (Inl e)
    with assms c c1 show ?thesis by (auto simp: write_replacement_def bindE_def mapErrE_def agree_off_def)
  next
    case (Inr tmp)
    define body :: "('z, write_result) io" where "body = finallyE
       (tryE (os_write tmp data)
         (\<lambda>e. bindE (ignoreE (os_close tmp)) (\<lambda>_. failE (wrap_err ''write temp file'' e))) (\<lambda>_.
        tryE (os_chmod tmp perm)
         (\<lambda>e. bindE (ignoreE (os_close tmp)) (\<lambda>_. failE (wrap_err ''chmod temp file'' e))) (\<lambda>_.
        tryE (os_sync tmp)
         (\<lambda>e. bindE (ignoreE (os_close tmp)) (\<lambda>_. failE (wrap_err ''sync temp file'' e))) (\<lambda>_.
        bindE (mapErrE (wrap_err ''close temp file'') (os_close tmp)) (\<lambda>_.
        bindE (mapErrE (wrap_err ''replace file'') (os_rename tmp path)) (\<lambda>_.
        bindE (mapErrE (wrap_err ''sync directory'') (sync_dir (dir_of path))) (\<lambda>_ w.
          (Inr \<lparr>wr_path = path, wr_backup_path = bk, wr_size_bytes = length data,
                wr_sha256 = os_sha w data\<rparr>, w))))))))
       (os_remove tmp)"
    have t: "touches {tmp, path} body"
      unfolding body_def by (intro touches_intros touches_unchanged) simp_all
    have mc: "mapErrE (wrap_err ''create temp file'') (os_create_temp (dir_of path) ?pfx) w = (Inr tmp, w1)"
      by (simp add: mapErrE_def c Inr)
    have b: "body w1 = (r, w')"
      using assms(1) unfolding body_def write_replacement_def bindE_Inr [where m = "mapErrE (wrap_err ''create temp file'') (os_create_temp (dir_of path) ?pfx)", OF mc] .
    have "agree_off {tmp, path} (os_files w') (os_files w1)" by (rule touches_run [OF t b])
    with c1 Inr assms(2,3) show ?thesis by (auto simp: agree_off_def)
  qed
qed

lemma store_write_files:
  assumes "store_write path content w = (r, w')" "q \<noteq> path" "q \<notin> temp_names path"
  shows "os_files w' q = os_files w q"
proof -
  obtain r0 w0 where "write_replacement path (trim_right_set content [cr, nl] @ [nl]) 384 [] w = (r0, w0)" by force
  with replacement_files [OF this assms(2,3)] assms(1) show ?thesis
    by (auto simp: store_write_as bindE_def split: sum.splits)
qed

lemma store_changes_files:
  assumes "honest_faults w" "q \<noteq> path" "q \<notin> temp_names path"
  shows "store_put path sec co w = (r, w') \<Longrightarrow> os_files w' q = os_files w q"
    and "store_delete path name w = (r, w') \<Longrightarrow> os_files w' q = os_files w q"
proof -
  assume "store_put path sec co w = (r, w')"
  then show "os_files w' q = os_files w q" using assms(1)
    by (cases rule: store_put_shape) (use store_write_files assms in force)+
next
  assume "store_delete path name w = (r, w')"
  then show "os_files w' q = os_files w q" using assms(1)
    by (cases rule: store_delete_shape) (use store_write_files assms in force)+
qed

end
