(* ===== verification/LlamaFrame.thy ===== *)
theory LlamaFrame
  imports LlamaServer RouterClient ControlContract OsFrame
begin

section \<open>The router client and the runtime leave the presets alone\<close>

text \<open>
  The frame that \<open>control_core\<close> asks of its parts, proved for the HTTP client and the supervisor: they touch the PID file
  and its directory, and nothing else. With it the locale is interpreted on the manager that the program assembles.
\<close>

definition pid_path_ok :: "string \<Rightarrow> server_config \<Rightarrow> (string \<Rightarrow> node option) \<Rightarrow> bool" where
  "pid_path_ok path cfg fs \<longleftrightarrow>
     (\<forall>pp. server_pid_file cfg = Inr pp \<longrightarrow> pp \<noteq> path \<and> dir_of pp \<noteq> path \<and> pp \<notin> temp_names path \<and> not_link pp fs)"

definition plain_ok :: "string \<Rightarrow> server_config \<Rightarrow> 'z server_os_scheme \<Rightarrow> bool" where
  "plain_ok path cfg w \<longleftrightarrow> store_ok path w \<and> ls_cfg (sv_state w) = cfg \<and> pid_path_ok path cfg (os_files w)"

lemma plain_okI:
  assumes "plain_ok path cfg w" "os_files w' path = os_files w path" "os_fault w' = os_fault w"
    "ls_cfg (sv_state w') = ls_cfg (sv_state w)" "pid_path_ok path cfg (os_files w')"
  shows "plain_ok path cfg w' \<and> preset_view path w' = preset_view path w"
proof -
  have nl: "not_link path (os_files w)" using assms(1) by (simp add: plain_ok_def store_ok_def)
  then have nl': "not_link path (os_files w')" using assms(2) by (simp add: not_link_def)
  have "ini_sections path (os_files w') = ini_sections path (os_files w)"
    by (rule ini_sections_local [where fs = "os_files w" and fs' = "os_files w'", OF nl assms(2)])
  with assms nl' show ?thesis
    by (simp add: plain_ok_def store_ok_def preset_view_def honest_faults_def)
qed

definition keeps_presets :: "string \<Rightarrow> server_config \<Rightarrow> ('z, 'a) sio \<Rightarrow> bool" where
  "keeps_presets path cfg f \<longleftrightarrow> inert (preset_view path) (plain_ok path cfg) f"

named_theorems keeps_presets_intros "calls of the runtime that leave the presets alone"

lemma keeps_presets_state:
  assumes "\<And>w. plain_ok path cfg w \<Longrightarrow> os_files (snd (f w)) = os_files w \<and>
    os_fault (snd (f w)) = os_fault w \<and> ls_cfg (sv_state (snd (f w))) = ls_cfg (sv_state w)"
  shows "keeps_presets path cfg f"
  unfolding keeps_presets_def inert_def
proof (intro allI impI)
  fix w r w' assume ok: "plain_ok path cfg w" and run: "f w = (r, w')"
  from assms [OF ok] run have "os_files w' = os_files w" "os_fault w' = os_fault w" "ls_cfg (sv_state w') = ls_cfg (sv_state w)"
    by simp_all
  with ok show "plain_ok path cfg w' \<and> preset_view path w' = preset_view path w"
    by (intro plain_okI) (auto simp: plain_ok_def)
qed

lemma keeps_presets_basic [keeps_presets_intros]:
  "keeps_presets path cfg (retE x)" "keeps_presets path cfg (failE e)"
  by (simp_all add: keeps_presets_def inert_intros)

lemma keeps_presets_seq [keeps_presets_intros]:
  "keeps_presets path cfg f \<Longrightarrow> (\<And>e. keeps_presets path cfg (h e)) \<Longrightarrow> (\<And>x. keeps_presets path cfg (k x)) \<Longrightarrow>
     keeps_presets path cfg (tryE f h k)"
  "keeps_presets path cfg f \<Longrightarrow> (\<And>x. keeps_presets path cfg (k' x)) \<Longrightarrow> keeps_presets path cfg (bindE f k')"
  "keeps_presets path cfg f \<Longrightarrow> keeps_presets path cfg (mapErrE g f)"
  "keeps_presets path cfg f \<Longrightarrow> keeps_presets path cfg (ignoreE f)"
  unfolding keeps_presets_def by (rule inert_try inert_bind inert_mapErr inert_ignore; assumption)+

lemma keeps_presets_if [keeps_presets_intros]:
  "(b \<Longrightarrow> keeps_presets path cfg f) \<Longrightarrow> (\<not> b \<Longrightarrow> keeps_presets path cfg g) \<Longrightarrow> keeps_presets path cfg (if b then f else g)"
  by simp

lemma keeps_presets_finally [keeps_presets_intros]:
  assumes "keeps_presets path cfg f" "keeps_presets path cfg d"
  shows "keeps_presets path cfg (finallyE f d)"
proof -
  have "snd (finallyE f d w) = snd (tryE f (\<lambda>_. ignoreE d) (\<lambda>_. ignoreE d) w)" for w
    by (auto simp: finallyE_def tryE_def split: prod.splits sum.splits)
  moreover have "keeps_presets path cfg (tryE f (\<lambda>_. ignoreE d) (\<lambda>_. ignoreE d))"
    using assms by (intro keeps_presets_intros)
  ultimately show ?thesis unfolding keeps_presets_def inert_def by (metis surj_pair snd_conv)
qed

lemma keeps_presets_with [keeps_presets_intros]:
  "(\<And>s. ls_cfg s = cfg \<Longrightarrow> keeps_presets path cfg (k s)) \<Longrightarrow> keeps_presets path cfg (with_server k)"
  by (auto simp: keeps_presets_def inert_def with_server_def plain_ok_def)

lemma keeps_presets_set [keeps_presets_intros]:
  "(\<And>s. ls_cfg (f s) = ls_cfg s) \<Longrightarrow> keeps_presets path cfg (set_server f)"
  by (rule keeps_presets_state) (simp add: set_server_def)

lemma keeps_presets_started [keeps_presets_intros]: "keeps_presets path cfg (started pid)" "keeps_presets path cfg (adopt pid)"
  by (rule keeps_presets_state; simp add: started_def adopt_def set_server_def)+

lemma keeps_presets_interact [keeps_presets_intros]: "keeps_presets path cfg (interact f)"
  by (rule keeps_presets_state) (simp add: interact_def)

lemma keeps_presets_query [keeps_presets_intros]: "keeps_presets path cfg (query f)"
  unfolding query_def by (rule keeps_presets_interact)

lemma keeps_presets_reads [keeps_presets_intros]:
  "keeps_presets path cfg get_time" "keeps_presets path cfg (exchange q)" "keeps_presets path cfg (send_signal t sig)"
  "keeps_presets path cfg (executable_matches p e)" "keeps_presets path cfg (command_result_of a st c out err)"
  by (rule keeps_presets_state; simp add: get_time_def exchange_def send_signal_def bindE_def interact_def
      executable_matches_def command_result_of_def)+

lemma cfg_of_more:
  fixes w w' :: "'z server_os_scheme"
  shows "os_env w' = os_env w \<Longrightarrow> sv_state w' = sv_state w \<and> os_fault w' = os_fault w"
  by (cases w; cases w') (simp add: os_env_def)

subsection \<open>The PID file\<close>

text \<open>What the operations on a PID file leave alone: everything but the file and its directory.\<close>

definition pid_view :: "string \<Rightarrow> 'z server_os_scheme \<Rightarrow> (string \<Rightarrow> node option) \<times> (nat \<Rightarrow> (gerror \<times> nat) option) \<times> llama_server" where
  "pid_view pp w = ((os_files w)(pp := None, dir_of pp := None), os_fault w, sv_state w)"

abbreviation pid_inert :: "string \<Rightarrow> ('z, 'a) sio \<Rightarrow> bool" where
  "pid_inert pp \<equiv> inert (pid_view pp) (\<lambda>w. not_link pp (os_files w))"

lemma pid_inert_os:
  assumes "keeps os_env f"
    and "\<And>w r w'. not_link pp (os_files w) \<Longrightarrow> f w = (r, w') \<Longrightarrow>
      os_files w' = os_files w \<or> (\<exists>q n. os_files w' = (os_files w)(q := n) \<and> (q = pp \<or> q = dir_of pp) \<and> (\<forall>t. n \<noteq> Some (LinkNode t)))"
  shows "pid_inert pp f"
  unfolding inert_def
proof (intro allI impI)
  fix w :: "'a server_os_scheme" and r w'
  assume nl: "not_link pp (os_files w)" and run: "f w = (r, w')"
  have "sv_state w' = sv_state w \<and> os_fault w' = os_fault w" using cfg_of_more keepsD [OF assms(1) run] by blast
  with assms(2) [OF nl run] nl show "not_link pp (os_files w') \<and> pid_view pp w' = pid_view pp w"
    by (auto simp: pid_view_def not_link_def fun_upd_twist split: if_splits)
qed

lemma os_call_files:
  assumes "os_call f w = (r, w')"
  obtains "os_files w' = os_files w" | w0 where "f w0 = (r, w')" "os_files w0 = os_files w"
  using assms by (auto simp: os_call_def Let_def split: option.splits)

lemma pid_inert_remove [inert_intros]: "pid_inert pp (os_remove pp)"
proof (rule pid_inert_os)
  fix w :: "'a server_os_scheme" and r w' assume "os_remove pp w = (r, w')"
  then show "os_files w' = os_files w \<or> (\<exists>q n. os_files w' = (os_files w)(q := n) \<and> (q = pp \<or> q = dir_of pp) \<and> (\<forall>t. n \<noteq> Some (LinkNode t)))"
    unfolding os_remove_def by (rule os_call_files) (force simp: set_node_def Let_def split: option.splits)+
qed (rule keeps_env_ops)

lemma pid_inert_read [inert_intros]: "pid_inert pp (os_read_file q)"
proof (rule pid_inert_os)
  fix w :: "'a server_os_scheme" and r w' assume "os_read_file q w = (r, w')"
  then show "os_files w' = os_files w \<or> (\<exists>q n. os_files w' = (os_files w)(q := n) \<and> (q = pp \<or> q = dir_of pp) \<and> (\<forall>t. n \<noteq> Some (LinkNode t)))"
    unfolding os_read_file_def by (rule os_call_files) auto
qed (rule keeps_env_ops)

lemma pid_inert_mkdir [inert_intros]: "pid_inert pp (os_mkdir_all (dir_of pp) m)"
proof (rule pid_inert_os)
  fix w :: "'a server_os_scheme" and r w' assume "os_mkdir_all (dir_of pp) m w = (r, w')"
  then show "os_files w' = os_files w \<or> (\<exists>q n. os_files w' = (os_files w)(q := n) \<and> (q = pp \<or> q = dir_of pp) \<and> (\<forall>t. n \<noteq> Some (LinkNode t)))"
    unfolding os_mkdir_all_def
    by (rule os_call_files) (force simp: set_node_def Let_def split: sum.splits node.splits if_splits)+
qed (rule keeps_env_ops)

lemma pid_inert_write_file [inert_intros]: "pid_inert pp (os_write_file pp d m)"
proof (rule pid_inert_os)
  fix w :: "'a server_os_scheme" and r w'
  assume nl: "not_link pp (os_files w)" and run: "os_write_file pp d m w = (r, w')"
  obtain c w1 where c: "os_create_trunc pp m w = (c, w1)" by force
  have c1: "os_files w1 = os_files w \<or> (\<exists>x y. os_files w1 = (os_files w)(pp := Some (RegFile x y)))" and cq: "\<forall>q. c = Inr q \<longrightarrow> q = pp"
    using c follow_not_link [OF nl, of 40]
    by (auto simp: os_create_trunc_def os_call_def Let_def set_node_def split: option.splits node.splits) blast+
  have wr: "os_files w' = os_files w1 \<or> (\<exists>x y. os_files w' = (os_files w1)(pp := Some (RegFile x y)))"
    using run c cq by (cases c) (auto simp: os_write_file_def bindE_def os_write_def append_data_def set_node_def Let_def
        split: option.splits node.splits, blast+)
  show "os_files w' = os_files w \<or> (\<exists>q n. os_files w' = (os_files w)(q := n) \<and> (q = pp \<or> q = dir_of pp) \<and> (\<forall>t. n \<noteq> Some (LinkNode t)))"
  proof (cases "os_files w' = os_files w")
    case False
    then obtain x y where "os_files w' = (os_files w)(pp := Some (RegFile x y))" using c1 wr by fastforce
    then show ?thesis by blast
  qed simp
qed (rule keeps_env_write_file)

lemma pid_inert_interact [inert_intros]: "pid_inert pp (interact f)"
  by (auto simp: inert_def interact_def pid_view_def)

lemma pid_inert_ops:
  "pid_inert pp (pid_write pp pid)" "pid_inert pp (pid_remove pp pid)" "pid_inert pp (pid_running pp)"
proof -
  show "pid_inert pp (pid_write pp pid)" unfolding pid_write_def by (intro inert_intros)
  have r: "pid_inert pp (remove_existing pp)" unfolding remove_existing_def by (intro inert_intros)
  have o: "pid_inert pp (case x of None \<Rightarrow> f | Some y \<Rightarrow> g y)"
    if "pid_inert pp f" "\<And>y. pid_inert pp (g y)" for x :: "'q option" and f :: "('z, 'r) sio" and g
    using that by (cases x) auto
  show "pid_inert pp (pid_remove pp pid)" unfolding pid_remove_def by (intro inert_intros r o)
  show "pid_inert pp (pid_running pp)" unfolding pid_running_def pid_alive_def query_def
    by (intro inert_intros o)
qed

lemma keeps_presets_pid:
  assumes "server_pid_file cfg = Inr pp" "pid_inert pp f"
  shows "keeps_presets path cfg f"
  unfolding keeps_presets_def inert_def
proof (intro allI impI)
  fix w r w' assume ok: "plain_ok path cfg w" and run: "f w = (r, w')"
  have pp: "pp \<noteq> path" "dir_of pp \<noteq> path" "pp \<notin> temp_names path" "not_link pp (os_files w)"
    using ok assms(1) by (simp_all add: plain_ok_def pid_path_ok_def)
  from inertD [OF assms(2) pp(4) run] have nl: "not_link pp (os_files w')" and v: "pid_view pp w' = pid_view pp w" by auto
  from v have fu: "((os_files w')(pp := None, dir_of pp := None)) path = ((os_files w)(pp := None, dir_of pp := None)) path"
    and "os_fault w' = os_fault w" "ls_cfg (sv_state w') = ls_cfg (sv_state w)" by (simp_all add: pid_view_def)
  moreover have "os_files w' path = os_files w path" using fu pp by (simp split: if_splits)
  moreover have "pid_path_ok path cfg (os_files w')" using assms(1) pp nl by (simp add: pid_path_ok_def)
  ultimately show "plain_ok path cfg w' \<and> preset_view path w' = preset_view path w"
    using ok by (intro plain_okI) auto
qed

lemma keeps_presets_forget [keeps_presets_intros]: "keeps_presets path cfg (forget_pid_file pid)"
proof -
  have "keeps_presets path cfg (case server_pid_file cfg of Inl _ \<Rightarrow> retE () | Inr p \<Rightarrow> ignoreE (pid_remove p pid))"
    by (cases "server_pid_file cfg") (auto intro: keeps_presets_intros keeps_presets_pid pid_inert_ops simp del: ignoreE_apply retE_apply)
  then show ?thesis unfolding forget_pid_file_def by (intro keeps_presets_with) simp
qed

subsection \<open>The methods of the supervisor\<close>

lemma keeps_presets_option [keeps_presets_intros]:
  "keeps_presets path cfg f \<Longrightarrow> (\<And>y. x = Some y \<Longrightarrow> keeps_presets path cfg (g y)) \<Longrightarrow>
   keeps_presets path cfg (case x of None \<Rightarrow> f | Some y \<Rightarrow> g y)"
  by (cases x) auto

lemma keeps_presets_sum [keeps_presets_intros]:
  "(\<And>e. x = Inl e \<Longrightarrow> keeps_presets path cfg (f e)) \<Longrightarrow> (\<And>y. x = Inr y \<Longrightarrow> keeps_presets path cfg (g y)) \<Longrightarrow>
   keeps_presets path cfg (case x of Inl e \<Rightarrow> f e | Inr y \<Rightarrow> g y)"
  by (cases x) auto

lemma keeps_presets_alive [keeps_presets_intros]: "keeps_presets path cfg (pid_alive pid)"
  unfolding pid_alive_def by (intro keeps_presets_intros)

lemma keeps_presets_poll [keeps_presets_intros]: "keeps_presets path cfg poll_done"
  unfolding poll_done_def by (intro keeps_presets_intros; simp)

lemma keeps_presets_is_running [keeps_presets_intros]: "keeps_presets path cfg is_running"
  unfolding is_running_def by (intro keeps_presets_intros; simp)

lemma keeps_presets_status: "keeps_presets path cfg server_status"
  unfolding server_status_def Let_def by (intro keeps_presets_intros)

lemma keeps_presets_signals [keeps_presets_intros]:
  "keeps_presets path cfg (interrupt_process_group pid pgid)" "keeps_presets path cfg (kill_process_group pid pgid)"
  unfolding interrupt_process_group_def kill_process_group_def by (intro keeps_presets_intros)+

lemma keeps_presets_wait_pid [keeps_presets_intros]: "keeps_presets path cfg (wait_pid_exit fuel deadline pid)"
proof (induction fuel)
  case 0
  show ?case unfolding wait_pid_exit.simps by (rule keeps_presets_intros)
next
  case (Suc fuel)
  show ?case unfolding wait_pid_exit.simps by (intro keeps_presets_intros Suc.IH)
qed

lemma keeps_presets_wait_started [keeps_presets_intros]: "keeps_presets path cfg (wait_started_process pgid)"
  unfolding wait_started_process_def by (intro keeps_presets_intros; simp)

lemma keeps_presets_stop_process [keeps_presets_intros]: "keeps_presets path cfg (stop_process fuel)"
  unfolding stop_process_def stop_process_body_def Let_def by (intro keeps_presets_intros; simp)

lemma keeps_presets_stop: "keeps_presets path cfg (server_stop fuel)"
  unfolding server_stop_def by (intro keeps_presets_intros)

lemma keeps_presets_probe [keeps_presets_intros]: "keeps_presets path cfg probe_ready"
proof (rule keeps_presets_state)
  fix w :: "'a server_os_scheme"
  show "os_files (snd (probe_ready w)) = os_files w \<and> os_fault (snd (probe_ready w)) = os_fault w \<and>
      ls_cfg (sv_state (snd (probe_ready w))) = ls_cfg (sv_state w)"
    by (auto simp: probe_ready_def with_server_def Let_def interact_def exchange_def bindE_def
        split: option.splits sum.splits prod.splits)
qed

lemma keeps_presets_wait_ready [keeps_presets_intros]: "keeps_presets path cfg (wait_ready fuel deadline)"
proof (induction fuel)
  case 0
  show ?case unfolding wait_ready.simps by (rule keeps_presets_intros)
next
  case (Suc fuel)
  show ?case unfolding wait_ready.simps by (intro keeps_presets_intros Suc.IH; simp)
qed

lemma keeps_presets_rollback [keeps_presets_intros]: "keeps_presets path cfg (rollback_start fuel err)"
  unfolding rollback_start_def by (intro keeps_presets_intros)

lemma keeps_presets_start: "keeps_presets path cfg (server_start fuel :: ('z, command_result) sio)"
proof -
  have "keeps_presets path cfg (pid_write p pid :: ('z, unit) sio)" if "server_pid_file cfg = Inr p" for p pid
    by (rule keeps_presets_pid [OF that pid_inert_ops(1)])
  then show ?thesis unfolding server_start_def by (intro keeps_presets_intros; simp)
qed

lemma inert_snapshot:
  fixes m :: "'z server_os_ext machine_ext manager"
  shows "inert (preset_view path) (plain_ok path cfg) (router_config_snapshot m)"
proof -
  have rf: "reads_only (os_read_file p :: ('z, string) sio)" for p
    unfolding os_read_file_def by (rule reads_only_call) simp
  have rm: "reads_only f \<Longrightarrow> reads_only (mapErrE g f)" for g and f :: "('z, 'q) sio"
    by (simp add: reads_only_def)
  have rs: "reads_only (case x of Inl e \<Rightarrow> f e | Inr y \<Rightarrow> g y)"
    if "\<And>e. reads_only (f e)" "\<And>y. reads_only (g y)" for x :: "gerror + config" and f g :: "_ \<Rightarrow> ('z, string \<times> config) sio"
    using that by (cases x) auto
  have "reads_only (config_read yl cf :: ('z, config) sio)" for yl cf
    unfolding config_read_def read_parsed_def case_prod_beta by (intro reads_only_intros rm rf rs)
  then have rd: "os_files (snd (config_read yl cf w)) = os_files w \<and> os_env (snd (config_read yl cf w)) = os_env w"
    for yl cf and w :: "'z server_os_scheme"
    by (simp add: reads_only_def)
  have "keeps_presets path cfg (config_read yl cf :: ('z, config) sio)" for yl cf
  proof (rule keeps_presets_state)
    fix w :: "'z server_os_scheme"
    from rd [of yl cf w] cfg_of_more [of "snd (config_read yl cf w)" w]
    show "os_files (snd (config_read yl cf w)) = os_files w \<and> os_fault (snd (config_read yl cf w)) = os_fault w \<and>
        ls_cfg (sv_state (snd (config_read yl cf w))) = ls_cfg (sv_state w)" by simp
  qed
  then show ?thesis unfolding keeps_presets_def [symmetric] router_config_snapshot_def
    by (cases "mg_config m") (auto intro: keeps_presets_intros split: prod.splits simp del: retE_apply)
qed

text \<open>The manager that the program assembles: the store on \<open>models.ini\<close>, the HTTP client, the supervised router.\<close>

definition assembled ::
  "nat \<Rightarrow> router_client \<Rightarrow> string \<Rightarrow> string \<Rightarrow> 'z server_os_ext machine_ext manager \<Rightarrow> 'z server_os_ext machine_ext manager" where
  "assembled fuel c root path m =
     m\<lparr>mg_presets := Some (ini_presets root path), mg_router := Some (client_iface c), mg_runtime := Some (server_iface fuel)\<rparr>"

lemma client_keeps_presets:
  "keeps_presets path cfg (client_list c)" "keeps_presets path cfg (client_reload c)"
  "keeps_presets path cfg (client_load c n)" "keeps_presets path cfg (client_unload c n)"
proof -
  have "keeps_presets path cfg (client_do c meth p body dst :: ('z, 'q) sio)"
    for meth p body and dst :: "string \<Rightarrow> gerror option \<Rightarrow> gerror + 'q"
  proof (rule keeps_presets_state)
    fix w :: "'z server_os_scheme"
    have "same_files (client_do c meth p body dst :: ('z, 'q) sio)" by (rule same_files_do)
    then have "os_files (snd (client_do c meth p body dst w)) = os_files w \<and> os_fault (snd (client_do c meth p body dst w)) = os_fault w"
      by (simp add: same_files_def)
    moreover have "sv_state (snd (client_do c meth p body dst w)) = sv_state w"
      by (auto simp: client_do_def tryE_def exchange_def bindE_def interact_def split: option.splits sum.splits prod.splits)
    ultimately show "os_files (snd (client_do c meth p body dst w)) = os_files w \<and>
        os_fault (snd (client_do c meth p body dst w)) = os_fault w \<and>
        ls_cfg (sv_state (snd (client_do c meth p body dst w))) = ls_cfg (sv_state w)" by simp
  qed
  then show "keeps_presets path cfg (client_list c)" "keeps_presets path cfg (client_reload c)"
    "keeps_presets path cfg (client_load c n)" "keeps_presets path cfg (client_unload c n)"
    unfolding client_list_def client_reload_def client_list_path_def client_load_def client_unload_def by blast+
qed

text \<open>The locale holds for the manager that the program assembles.\<close>

lemma keeps_presets_inert: "keeps_presets path cfg f = inert (preset_view path) (plain_ok path cfg) f"
  by (simp add: keeps_presets_def)


lemma plain_ok_step:
  fixes w w' :: "'z server_os_scheme"
  assumes "plain_ok path cfg w" "keeps os_env f" "f w = (r, w')" "store_ok path w'"
    and "\<And>q. q \<noteq> path \<Longrightarrow> q \<notin> temp_names path \<Longrightarrow> os_files w' q = os_files w q"
  shows "plain_ok path cfg w'"
proof -
  have "sv_state w' = sv_state w" using cfg_of_more [OF keepsD [OF assms(2,3)]] by simp
  moreover have "pid_path_ok path cfg (os_files w')"
    using assms(1,5) by (auto simp: plain_ok_def pid_path_ok_def not_link_def)
  ultimately show ?thesis using assms(1,4) by (simp add: plain_ok_def)
qed

lemma plain_store: "plain_ok path cfg w \<Longrightarrow> store_ok path w" "plain_ok path cfg w \<Longrightarrow> honest_faults w"
  by (simp_all add: plain_ok_def store_ok_def)

interpretation assembled: control_core "ini_presets root path" "preset_view path" "plain_ok path cfg" "assembled fuel c root path m"
  for root path cfg fuel c and m :: "'z server_os_ext machine_ext manager"
proof
  fix w :: "'z server_os_scheme" and name r w'
  assume ok: "plain_ok path cfg w" and m: "pr_get (ini_presets root path) name w = (r, w')"
  then have g: "store_get path name w = (r, w')" by (simp add: ini_presets_def)
  note law = ini.get_law [OF plain_store(1) [OF ok] g]
  have "plain_ok path cfg w'"
    using store_get_cases [OF g plain_store(2) [OF ok]] law
    by (intro plain_ok_step [OF ok store_ops_env(3) g]) auto
  with law show "plain_ok path cfg w' \<and> preset_view path w' = preset_view path w \<and>
      (\<forall>sec. r = Inr sec \<longrightarrow> sec_name sec = name \<and> (\<exists>m. preset_view path w = Some m \<and> m name = Some (sec_map sec)))"
    by blast
next
  fix w :: "'z server_os_scheme" and r w'
  assume ok: "plain_ok path cfg w" and m: "pr_list (ini_presets root path) w = (r, w')"
  then have g: "store_list path w = (r, w')" by (simp add: ini_presets_def)
  note law = ini.list_law [OF plain_store(1) [OF ok] g]
  have "plain_ok path cfg w'"
    using store_list_cases [OF g plain_store(2) [OF ok]] law
    by (intro plain_ok_step [OF ok store_ops_env(1) g]) auto
  with law show "plain_ok path cfg w' \<and> preset_view path w' = preset_view path w \<and>
      (\<forall>secs. r = Inr secs \<longrightarrow> sorted (map sec_name secs) \<and> distinct (map sec_name secs) \<and>
         (\<exists>m. preset_view path w = Some m \<and> map_of (map (\<lambda>s. (sec_name s, sec_map s)) secs) = m(''*'' := None)))"
    by blast
next
  fix w :: "'z server_os_scheme" and sec co r w'
  assume ok: "plain_ok path cfg w" and t: "trim_space (sec_name sec) = sec_name sec"
    and m: "pr_put (ini_presets root path) sec co w = (r, w')"
  then have g: "store_put path sec co w = (r, w')" by (simp add: ini_presets_def)
  note law = ini.put_law [OF plain_store(1) [OF ok] t g]
  have "plain_ok path cfg w'"
    using store_changes_files(1) [OF plain_store(2) [OF ok] _ _ g] law
    by (intro plain_ok_step [OF ok store_ops_env(4) g]) auto
  with law show "plain_ok path cfg w' \<and>
      ((\<exists>e. r = Inl e) \<and> preset_view path w' = preset_view path w \<or>
       (\<exists>m vals. preset_view path w = Some m \<and> canonical_values [] (sec_values sec) = Inr vals \<and>
          (co \<longrightarrow> m (sec_name sec) = None) \<and> preset_view path w' = Some (m(sec_name sec \<mapsto> stored_map vals))))"
    by blast
next
  fix w :: "'z server_os_scheme" and name r w'
  assume ok: "plain_ok path cfg w" and m: "pr_delete (ini_presets root path) name w = (r, w')"
  then have g: "store_delete path name w = (r, w')" by (simp add: ini_presets_def)
  note law = ini.delete_law [OF plain_store(1) [OF ok] g]
  have "plain_ok path cfg w'"
    using store_changes_files(2) [OF plain_store(2) [OF ok] _ _ g] law
    by (intro plain_ok_step [OF ok store_ops_env(5) g]) auto
  with law show "plain_ok path cfg w' \<and>
      ((\<exists>e. r = Inl e) \<and> preset_view path w' = preset_view path w \<or>
       (\<exists>m. name \<noteq> ''*'' \<and> preset_view path w = Some m \<and> preset_view path w' = Some (m(name := None))))"
    by blast
next
  fix rt assume "mg_router (assembled fuel c root path m) = Some rt"
  then show "inert (preset_view path) (plain_ok path cfg) (ri_list rt) \<and>
      inert (preset_view path) (plain_ok path cfg) (ri_reload rt) \<and>
      (\<forall>name. inert (preset_view path) (plain_ok path cfg) (ri_load rt name) \<and>
         inert (preset_view path) (plain_ok path cfg) (ri_unload rt name))"
    using client_keeps_presets unfolding keeps_presets_def by (auto simp: assembled_def client_iface_def)
next
  fix rr assume "mg_runtime (assembled fuel c root path m) = Some rr"
  then show "inert (preset_view path) (plain_ok path cfg) (rt_status rr) \<and>
      inert (preset_view path) (plain_ok path cfg) (rt_start rr) \<and> inert (preset_view path) (plain_ok path cfg) (rt_stop rr)"
    using keeps_presets_status keeps_presets_start keeps_presets_stop unfolding keeps_presets_def
    by (auto simp: assembled_def server_iface_def)
qed (auto simp: assembled_def intro: inert_snapshot)

end
