(* ===== verification/ControlMutex.thy ===== *)
theory ControlMutex
  imports ControlManager StateMachine
begin

section \<open>Mutations exclude each other (\<^verbatim>\<open>withMutationResult\<close> under concurrency)\<close>

text \<open>
  \<open>with_mutation\<close> is sequential. Here callers interleave: each enters through \<open>mutation_enter\<close>, is refused or works in single
  steps on the world, and leaves through \<open>mutation_leave\<close>. The properties say that at most one of them works, and that every
  interleaving is a sequence of whole \<open>with_mutation\<close> calls.
\<close>

text \<open>What a caller does inside: its steps on the world and the error it ends with, read off the world it leaves behind.\<close>

record 'w mutation_job =
  jb_action :: string
  jb_steps :: "('w \<Rightarrow> 'w) list"
  jb_err :: "'w \<Rightarrow> gerror option"

definition job_fn :: "'z os_scheme mutation_job \<Rightarrow> ('z, unit) io" where
  "job_fn job w =
     (let w' = fold id (jb_steps job) w in (case jb_err job w' of Some e \<Rightarrow> Inl e | None \<Rightarrow> Inr (), w'))"

text \<open>A caller inside: the job it entered with, the time it entered and the steps it has yet to take.\<close>

record 'w inside =
  is_job :: "'w mutation_job"
  is_start :: int
  is_rest :: "('w \<Rightarrow> 'w) list"

record 'w mutex =
  mx_control :: "'w control"
  mx_inside :: "nat \<Rightarrow> 'w inside option"
  mx_entered :: "'w mutation_job list"

definition mutex_init :: "'z os_scheme \<Rightarrow> 'z os_scheme mutex \<Rightarrow> bool" where
  "mutex_init w0 s \<longleftrightarrow> s = \<lparr>mx_control = \<lparr>ct_busy = False, ct_world = w0\<rparr>, mx_inside = Map.empty, mx_entered = []\<rparr>"

inductive mutex_step :: "'z manager \<Rightarrow> 'z os_scheme mutex \<Rightarrow> 'z os_scheme mutex \<Rightarrow> bool" for m where
  mutex_enter: "mx_inside s i = None \<Longrightarrow> mutation_enter (mx_control s) = (True, c) \<Longrightarrow>
     mutex_step m s (s\<lparr>mx_control := c, mx_entered := mx_entered s @ [job],
       mx_inside := (mx_inside s)(i \<mapsto>
         \<lparr>is_job = job, is_start = mg_now m (ct_world (mx_control s)), is_rest = jb_steps job\<rparr>)\<rparr>)"
| mutex_refused: "mx_inside s i = None \<Longrightarrow> mutation_enter (mx_control s) = (False, c) \<Longrightarrow>
     mutex_step m s (s\<lparr>mx_control := c\<rparr>)"
| mutex_work: "mx_inside s i = Some x \<Longrightarrow> is_rest x = f # fs \<Longrightarrow>
     mutex_step m s (s\<lparr>mx_control := (mx_control s)\<lparr>ct_world := f (ct_world (mx_control s))\<rparr>,
       mx_inside := (mx_inside s)(i \<mapsto> x\<lparr>is_rest := fs\<rparr>)\<rparr>)"
| mutex_leave: "mx_inside s i = Some x \<Longrightarrow> is_rest x = [] \<Longrightarrow>
     mutex_step m s (s\<lparr>mx_control := mutation_leave m (jb_action (is_job x)) (is_start x)
         (jb_err (is_job x) (ct_world (mx_control s))) (mx_control s),
       mx_inside := (mx_inside s)(i := None)\<rparr>)"

inductive_cases mutex_stepE: "mutex_step m s s'"

text \<open>The specification: whole calls of \<open>with_mutation\<close>, one after the other.\<close>

definition run_job :: "'z manager \<Rightarrow> 'z os_scheme mutation_job \<Rightarrow> 'z os_scheme control \<Rightarrow> 'z os_scheme control" where
  "run_job m job c = snd (with_mutation m (jb_action job) (job_fn job) c)"

definition run_jobs :: "'z manager \<Rightarrow> 'z os_scheme mutation_job list \<Rightarrow> 'z os_scheme \<Rightarrow> 'z os_scheme control" where
  "run_jobs m jobs w0 = fold (run_job m) jobs \<lparr>ct_busy = False, ct_world = w0\<rparr>"

lemma run_job_idle:
  assumes "\<not> ct_busy c"
  shows "run_job m job c = mutation_leave m (jb_action job) (mg_now m (ct_world c))
    (jb_err job (fold id (jb_steps job) (ct_world c))) (c\<lparr>ct_busy := True, ct_world := fold id (jb_steps job) (ct_world c)\<rparr>)"
  using assms
  by (simp add: run_job_def with_mutation_def mutation_enter_def job_fn_def Let_def sum_err_def split: option.splits)

lemma run_jobs_idle: "\<not> ct_busy (run_jobs m jobs w0)"
proof (induction jobs rule: rev_induct)
  case (snoc job jobs)
  have "run_jobs m (jobs @ [job]) w0 = run_job m job (run_jobs m jobs w0)" by (simp add: run_jobs_def)
  then show ?case using run_job_idle [OF snoc] by (simp add: mutation_leave_def)
qed (simp add: run_jobs_def)

definition mutex_inv :: "'z manager \<Rightarrow> 'z os_scheme \<Rightarrow> 'z os_scheme mutex \<Rightarrow> bool" where
  "mutex_inv m w0 s \<longleftrightarrow>
     (mx_inside s = Map.empty \<and> mx_control s = run_jobs m (mx_entered s) w0) \<or>
     (\<exists>i x jobs past. mx_inside s = [i \<mapsto> x] \<and> mx_entered s = jobs @ [is_job x] \<and> jb_steps (is_job x) = past @ is_rest x \<and>
        is_start x = mg_now m (ct_world (run_jobs m jobs w0)) \<and>
        mx_control s = (run_jobs m jobs w0)\<lparr>ct_busy := True, ct_world := fold id past (ct_world (run_jobs m jobs w0))\<rparr>)"

lemma mutex_inv_cases [consumes 1, case_names idle working]:
  assumes "mutex_inv m w0 s"
  obtains "mx_inside s = Map.empty" "mx_control s = run_jobs m (mx_entered s) w0" "\<not> ct_busy (mx_control s)"
  | i x jobs past where "mx_inside s = [i \<mapsto> x]" "mx_entered s = jobs @ [is_job x]" "jb_steps (is_job x) = past @ is_rest x"
      "is_start x = mg_now m (ct_world (run_jobs m jobs w0))" "ct_busy (mx_control s)"
      "mx_control s = (run_jobs m jobs w0)\<lparr>ct_busy := True, ct_world := fold id past (ct_world (run_jobs m jobs w0))\<rparr>"
  using assms unfolding mutex_inv_def
proof (elim disjE exE conjE)
  assume i: "mx_inside s = Map.empty" "mx_control s = run_jobs m (mx_entered s) w0"
  show ?thesis by (rule that(1) [OF i]) (simp add: i run_jobs_idle)
next
  fix i x jobs past
  assume w: "mx_inside s = [i \<mapsto> x]" "mx_entered s = jobs @ [is_job x]" "jb_steps (is_job x) = past @ is_rest x"
      "is_start x = mg_now m (ct_world (run_jobs m jobs w0))"
      "mx_control s = (run_jobs m jobs w0)\<lparr>ct_busy := True, ct_world := fold id past (ct_world (run_jobs m jobs w0))\<rparr>"
  show ?thesis by (rule that(2) [OF w(1-4) _ w(5)]) (simp add: w(5))
qed

lemma mutex_inv_step:
  assumes "mutex_inv m w0 s" "mutex_step m s s'"
  shows "mutex_inv m w0 s'"
  using assms(2,1)
proof (cases rule: mutex_step.cases)
  case (mutex_enter i c job)
  from assms(1) show ?thesis
  proof (cases rule: mutex_inv_cases)
    case idle
    with mutex_enter have "mx_control s' = (run_jobs m (mx_entered s) w0)\<lparr>ct_busy := True\<rparr>"
      "mx_inside s' = [i \<mapsto> \<lparr>is_job = job, is_start = mg_now m (ct_world (run_jobs m (mx_entered s) w0)), is_rest = jb_steps job\<rparr>]"
      "mx_entered s' = mx_entered s @ [job]"
      by (auto simp: mutation_enter_def split: if_splits)
    then show ?thesis unfolding mutex_inv_def
      by (intro disjI2 exI [of _ i] exI [of _ "\<lparr>is_job = job, is_start = mg_now m (ct_world (run_jobs m (mx_entered s) w0)), is_rest = jb_steps job\<rparr>"]
          exI [of _ "mx_entered s"] exI [of _ "[]"]) simp
  next
    case working
    with mutex_enter show ?thesis by (simp add: mutation_enter_def)
  qed
next
  case (mutex_refused i c)
  then have "s' = s" by (auto simp: mutation_enter_def split: if_splits)
  with assms(1) show ?thesis by simp
next
  case (mutex_work i x f fs)
  from assms(1) show ?thesis
  proof (cases rule: mutex_inv_cases)
    case idle
    with mutex_work show ?thesis by simp
  next
    case (working j y jobs past)
    with mutex_work have "j = i" "y = x" by (auto split: if_splits)
    with working mutex_work have "mx_inside s' = [i \<mapsto> x\<lparr>is_rest := fs\<rparr>]" "mx_entered s' = jobs @ [is_job x]"
      "jb_steps (is_job x) = (past @ [f]) @ fs"
      "mx_control s' = (run_jobs m jobs w0)\<lparr>ct_busy := True, ct_world := fold id (past @ [f]) (ct_world (run_jobs m jobs w0))\<rparr>"
      by simp_all
    with working(4) \<open>y = x\<close> show ?thesis unfolding mutex_inv_def
      by (intro disjI2 exI [of _ i] exI [of _ "x\<lparr>is_rest := fs\<rparr>"] exI [of _ jobs] exI [of _ "past @ [f]"]) simp
  qed
next
  case (mutex_leave i x)
  from assms(1) show ?thesis
  proof (cases rule: mutex_inv_cases)
    case idle
    with mutex_leave show ?thesis by simp
  next
    case (working j y jobs past)
    with mutex_leave have "j = i" "y = x" by (auto split: if_splits)
    with working mutex_leave have past: "past = jb_steps (is_job x)" and ins: "mx_inside s' = Map.empty"
      and en: "mx_entered s' = jobs @ [is_job x]" by auto
    have "run_jobs m (jobs @ [is_job x]) w0 = run_job m (is_job x) (run_jobs m jobs w0)" by (simp add: run_jobs_def)
    also have "\<dots> = mx_control s'"
      using working mutex_leave \<open>y = x\<close> by (simp add: run_job_idle [OF run_jobs_idle] past)
    finally show ?thesis using ins en by (simp add: mutex_inv_def)
  qed
qed

interpretation mutations: inductive_invariant "mutex_init w0" "mutex_step m" "mutex_inv m w0" for w0 :: "'z os_scheme" and m
proof
  show "mutex_inv m w0 s" if "mutex_init w0 s" for s
    using that by (simp add: mutex_init_def mutex_inv_def run_jobs_def)
  show "mutex_inv m w0 s'" if "mutex_inv m w0 s" "mutex_step m s s'" for s s'
    using that by (rule mutex_inv_step)
qed

subsection \<open>Two callers\<close>

definition bare_manager :: "unit manager" where
  "bare_manager =
     \<lparr>mg_config = None, mg_presets = None, mg_router = None, mg_runtime = None, mg_router_config = cfg_router default_config,
      mg_local = None, mg_audit = Some (\<lambda>e w. w\<lparr>os_cwd := ae_action e @ os_cwd w\<rparr>),
      mg_env = \<lparr>he_getenv = (\<lambda>_. []), he_user_home = Inr ''/h''\<rparr>, mg_now = (\<lambda>_. 0), mg_ctx = None\<rparr>"

definition demo_job :: "os mutation_job" where
  "demo_job = \<lparr>jb_action = ''cleanup'', jb_steps = [\<lambda>w. w\<lparr>os_cwd := ''/x''\<rparr>], jb_err = (\<lambda>_. None)\<rparr>"

definition demo_inside :: "(os \<Rightarrow> os) list \<Rightarrow> os inside" where
  "demo_inside fs = \<lparr>is_job = demo_job, is_start = 0, is_rest = fs\<rparr>"

definition demo_mutex :: "bool \<Rightarrow> string \<Rightarrow> (nat \<Rightarrow> os inside option) \<Rightarrow> os mutation_job list \<Rightarrow> os mutex" where
  "demo_mutex b cwd ins jobs =
     \<lparr>mx_control = \<lparr>ct_busy = b, ct_world = local_world\<lparr>os_cwd := cwd\<rparr>\<rparr>, mx_inside = ins, mx_entered = jobs\<rparr>"

text \<open>Caller 0 enters, caller 1 is refused, caller 0 works and leaves.\<close>

lemma demo_mutex_run:
  defines "R \<equiv> reach (mutex_init (local_world\<lparr>os_cwd := ''/''\<rparr>)) (mutex_step bare_manager)"
  shows "R (demo_mutex True ''/'' [0 \<mapsto> demo_inside (jb_steps demo_job)] [demo_job])"
    "R (demo_mutex False ''cleanup/x'' Map.empty [demo_job])"
proof -
  let ?s0 = "demo_mutex False ''/'' Map.empty []"
  let ?s1 = "demo_mutex True ''/'' [0 \<mapsto> demo_inside (jb_steps demo_job)] [demo_job]"
  let ?s2 = "demo_mutex True ''/x'' [0 \<mapsto> demo_inside []] [demo_job]"
  let ?s3 = "demo_mutex False ''cleanup/x'' Map.empty [demo_job]"
  have "R ?s0" unfolding R_def by (rule reach_init) (simp add: mutex_init_def demo_mutex_def)
  moreover have "mutex_step bare_manager ?s0 ?s1"
    using mutex_enter [of ?s0 0 "\<lparr>ct_busy = True, ct_world = local_world\<lparr>os_cwd := ''/''\<rparr>\<rparr>" bare_manager demo_job]
    by (simp add: demo_mutex_def mutation_enter_def demo_inside_def bare_manager_def)
  ultimately show 1: "R ?s1" unfolding R_def by (rule reach_step)
  have "mutex_step bare_manager ?s1 ?s1"
    using mutex_refused [of ?s1 1 "mx_control ?s1" bare_manager] by (simp add: demo_mutex_def mutation_enter_def)
  with 1 have "R ?s1" unfolding R_def by (rule reach_step)
  moreover have "mutex_step bare_manager ?s1 ?s2"
    using mutex_work [of ?s1 0 "demo_inside (jb_steps demo_job)" "\<lambda>w. w\<lparr>os_cwd := ''/x''\<rparr>" "[]" bare_manager]
    by (simp add: demo_mutex_def demo_inside_def demo_job_def)
  ultimately have "R ?s2" unfolding R_def by (rule reach_step)
  moreover have "mutex_step bare_manager ?s2 ?s3"
    using mutex_leave [of ?s2 0 "demo_inside []" bare_manager]
    by (simp add: demo_mutex_def demo_inside_def demo_job_def mutation_leave_def audit_record_def bare_manager_def)
  ultimately show "R ?s3" unfolding R_def by (rule reach_step)
qed

text \<open>C16: At most one mutating operation is at work in any interleaving, the busy flag is set exactly then, and a caller is
  refused exactly then.\<close>

theorem one_mutation_at_a_time:
  assumes "reach (mutex_init w0) (mutex_step m) s"
  shows "(mx_inside s = Map.empty \<or> (\<exists>i x. mx_inside s = [i \<mapsto> x])) \<and>
    (fst (mutation_enter (mx_control s)) \<longleftrightarrow> mx_inside s = Map.empty)"
  using mutations.inv_reach [OF assms]
  by (cases rule: mutex_inv_cases) (auto simp: mutation_enter_def)

theorem one_mutation_at_a_time_witness:
  "\<not> fst (mutation_enter (mx_control (demo_mutex True ''/'' [0 \<mapsto> demo_inside (jb_steps demo_job)] [demo_job])))"
  using one_mutation_at_a_time [OF demo_mutex_run(1)] by (auto simp: demo_mutex_def)

text \<open>C17: Every interleaving is serial: whenever no mutation is at work, the world is what whole \<^verbatim>\<open>withMutationResult\<close> calls make of
  the initial one, one after the other in the order in which they got the flag, audit records included.\<close>

theorem mutations_serializable:
  assumes "reach (mutex_init w0) (mutex_step m) s" "mx_inside s = Map.empty"
  shows "mx_control s = fold (\<lambda>job c. snd (with_mutation m (jb_action job) (job_fn job) c)) (mx_entered s)
    \<lparr>ct_busy = False, ct_world = w0\<rparr>"
proof -
  have r: "run_job m = (\<lambda>job c. snd (with_mutation m (jb_action job) (job_fn job) c))" by (intro ext) (simp add: run_job_def)
  from mutations.inv_reach [OF assms(1)] assms(2) show ?thesis
    by (cases rule: mutex_inv_cases) (simp_all add: run_jobs_def r)
qed

theorem mutations_serializable_witness:
  "\<lparr>ct_busy = False, ct_world = local_world\<lparr>os_cwd := ''cleanup/x''\<rparr>\<rparr> =
     snd (with_mutation bare_manager ''cleanup'' (job_fn demo_job) \<lparr>ct_busy = False, ct_world = local_world\<lparr>os_cwd := ''/''\<rparr>\<rparr>)"
  using mutations_serializable [OF demo_mutex_run(2)] by (simp add: demo_mutex_def demo_job_def)

end
