(* ===== verification/ControlProps.thy ===== *)
theory ControlProps
  imports LlamaFrame ControlMutex PresetProps
begin

section \<open>Properties of the control core\<close>

text \<open>
  What the operations of the assembled manager guarantee: creation is taken back, deletion is guarded, the status reflects the
  router's models, and mutations exclude each other.
\<close>

subsection \<open>A machine to run on\<close>

definition demo_server_config :: server_config where
  "demo_server_config =
     \<lparr>sv_name = ''router'', sv_executable = ''llama-server'', sv_argv = [], sv_host = ''127.0.0.1'', sv_port = 8080, sv_env = [],
      sv_timeout = 10, sv_readiness_path = ''/health'', sv_readiness_timeout = 10, sv_readiness_interval = 1, sv_pid_dir = ''/r''\<rparr>"

definition demo_server :: llama_server where
  "demo_server =
     \<lparr>ls_cfg = demo_server_config, ls_cmd = False, ls_reaped = False, ls_err = None, ls_ready = True, ls_pid = 42, ls_pgid = 42\<rparr>"

text \<open>A router that runs as process 42, answers every HTTP request with status 500, and stops when interrupted.\<close>

definition demo_server_os :: server_os where
  "demo_server_os =
     \<lparr>os_files = [''/c'' \<mapsto> DirNode 493, ''/c/models.ini'' \<mapsto> RegFile demo_ini 384, ''/r'' \<mapsto> DirNode 448],
      os_tick = 0, os_fault = (\<lambda>_. None), os_trace = [], os_rand = (\<lambda>_. 7), os_stamp = (\<lambda>_. ''t''),
      os_sha = (\<lambda>s. s), os_cwd = ''/'', mc_time = 0, mc_step = 0, mc_elapse = (\<lambda>_. 1), mc_alive = (\<lambda>n p. n < 7),
      mc_exit = (\<lambda>_ _. None), mc_spawn = (\<lambda>_ _ _. Inl (Plain [Lit ''no such file''])), mc_getpgid = (\<lambda>p. p),
      mc_kill = (\<lambda>_ _ _. None), mc_signals = [],
      mc_http = (\<lambda>_ _. Inr \<lparr>hp_status = 500, hp_status_text = ''500'', hp_body = [], hp_read_err = None\<rparr>), mc_requests = [],
      mc_dial = (\<lambda>_ _. None), mc_ctx = (\<lambda>_. None), mc_exe = (\<lambda>_. Inr ''llama-server''), mc_look_path = (\<lambda>s. s),
      mc_bad_url = (\<lambda>_. None), sv_state = demo_server\<rparr>"

definition demo_client :: router_client where
  "demo_client = \<lparr>rcl_base = ''http://127.0.0.1:8080'', rcl_decode = (\<lambda>_ _. Inr [])\<rparr>"

definition demo_manager :: "unit server_os_ext machine_ext manager" where
  "demo_manager =
     assembled 5 demo_client ''/c'' demo_path
       \<lparr>mg_config = None, mg_presets = None, mg_router = None, mg_runtime = None, mg_router_config = cfg_router default_config,
        mg_local = None, mg_audit = None, mg_env = \<lparr>he_getenv = (\<lambda>_. []), he_user_home = Inr ''/h''\<rparr>, mg_now = mc_time,
        mg_ctx = None\<rparr>"

lemma demo_assembled: "demo_manager = assembled 5 demo_client ''/c'' demo_path demo_manager"
  by (simp add: demo_manager_def assembled_def)

lemma demo_pid_file: "server_pid_file demo_server_config = Inr ''/r/router.pid''"
  by code_simp

lemma demo_plain: "plain_ok demo_path demo_server_config demo_server_os"
proof -
  have t: "''/r/router.pid'' \<notin> temp_names demo_path"
  proof
    assume "''/r/router.pid'' \<in> temp_names demo_path"
    moreover have "dir_of demo_path = ''/c''" by code_simp
    ultimately obtain n where "''/r/router.pid'' = ''/c'' @ slash # (CHR ''.'' # base_of demo_path @ ''-'') @ itoa n"
      by (auto simp: temp_names_def temp_name_def)
    then show False by simp
  qed
  have d: "dir_of ''/r/router.pid'' = ''/r''" by code_simp
  show ?thesis unfolding plain_ok_def pid_path_ok_def demo_pid_file sum.inject using t
    by (auto simp: d store_ok_def honest_faults_def not_link_def demo_server_os_def demo_server_def demo_path_def)
qed

subsection \<open>Presets\<close>

text \<open>C9: A preset whose creation is reported as failed is not there: whatever the router, its process and the system calls do, after
  \<^verbatim>\<open>PutPreset\<close> with \<^verbatim>\<open>createOnly\<close> returns an error the presets are those of before, unless the error says that the creation
  could not be rolled back or is the store's own error from writing the preset or reading it back.\<close>

theorem create_rolled_back:
  assumes "plain_ok path cfg w" "trim_space (sec_name sec) = sec_name sec"
    and "put_preset (assembled fuel c root path m) sec True w = (Inl e, w')"
  shows "preset_view path w' = preset_view path w \<or>
     (\<exists>derr err. e = core_error ErrorRuntime
        [Lit ''Preset creation failed and could not be rolled back: '', TextOf derr] (Some (Joined [err, derr]))) \<or>
     (\<exists>serr st w1. capture_router_state (assembled fuel c root path m) w = (Inr st, w1) \<and> e = map_server_config_error serr \<and>
        (store_put path sec True w1 = (Inl serr, w') \<or>
         (\<exists>w2. store_put path sec True w1 = (Inr (), w2) \<and> store_get path (sec_name sec) w2 = (Inl serr, w'))))"
  using assembled.put_preset_create_outcome [OF assms] unfolding ini_presets_def preset_iface.simps by blast

definition demo_create :: "(gerror + preset_section) \<times> server_os" where
  "demo_create = put_preset demo_manager demo_section True demo_server_os"

lemma demo_create_fails: "isl (fst demo_create)"
  by code_simp

theorem create_rolled_back_witness:
  "preset_view demo_path (snd demo_create) = preset_view demo_path demo_server_os \<or>
     (\<exists>derr err. projl (fst demo_create) = core_error ErrorRuntime
        [Lit ''Preset creation failed and could not be rolled back: '', TextOf derr] (Some (Joined [err, derr]))) \<or>
     (\<exists>serr st w1. capture_router_state demo_manager demo_server_os = (Inr st, w1) \<and>
        projl (fst demo_create) = map_server_config_error serr \<and>
        (store_put demo_path demo_section True w1 = (Inl serr, snd demo_create) \<or>
         (\<exists>w2. store_put demo_path demo_section True w1 = (Inr (), w2) \<and>
            store_get demo_path (sec_name demo_section) w2 = (Inl serr, snd demo_create))))"
proof -
  have "put_preset (assembled 5 demo_client ''/c'' demo_path demo_manager) demo_section True demo_server_os =
      (Inl (projl (fst demo_create)), snd demo_create)"
    using demo_create_fails unfolding demo_assembled [symmetric]
    by (cases demo_create) (auto simp: demo_create_def)
  from create_rolled_back [OF demo_plain demo_section_valid(2) this] show ?thesis unfolding demo_assembled [symmetric] .
qed



subsection \<open>Local models\<close>

lemma keeps_presets_reads_only: "reads_only f \<Longrightarrow> keeps_presets path cfg f"
proof (rule keeps_presets_state)
  fix w :: "'a server_os_scheme"
  assume "reads_only f"
  then have "os_files (snd (f w)) = os_files w" "os_env (snd (f w)) = os_env w" by (simp_all add: reads_only_def)
  with cfg_of_more [of "snd (f w)" w] show "os_files (snd (f w)) = os_files w \<and> os_fault (snd (f w)) = os_fault w \<and>
      ls_cfg (sv_state (snd (f w))) = ls_cfg (sv_state w)" by simp
qed

lemma reads_only_find_references: "reads_only (find_references env secs path)"
proof -
  have sp: "reads_only (source_path env sec key)" for sec key
    unfolding source_path_def Let_def by (intro reads_only_intros)
  have cs: "reads_only (canonicalize_sections env xs)" for xs
  proof (induction xs)
    case Nil
    show ?case unfolding canonicalize_sections.simps by (rule reads_only_ret)
  next
    case (Cons x xs)
    show ?case unfolding canonicalize_sections.simps by (intro reads_only_intros sp Cons.IH)
  qed
  show ?thesis unfolding find_references_def find_references_canonical_def by (intro reads_only_intros cs)
qed

text \<open>C11: \<^verbatim>\<open>DeleteLocalModel\<close> deletes the file first: when the presets changed, the file of the model had been deleted successfully while they were
  still those of before, and the caller had confirmed the cascade. (The deletion of the file itself leaves \<^verbatim>\<open>models.ini\<close> alone.)\<close>

theorem model_deleted_before_presets:
  assumes "plain_ok path cfg w" "mg_local m = Some f" "keeps_presets path cfg (f model)"
    and "delete_local_model (assembled fuel c root path m) model cascade w = (r, w')"
    and "preset_view path w' \<noteq> preset_view path w"
  shows "\<exists>w1 w2. f model w1 = (Inr (), w2) \<and> preset_view path w2 = preset_view path w \<and> cascade"
proof -
  have l: "inert (preset_view path) (plain_ok path cfg) (g model)" if "mg_local (assembled fuel c root path m) = Some g" for g
    using that assms(2,3) by (simp add: assembled_def keeps_presets_def)
  have fr: "inert (preset_view path) (plain_ok path cfg) (find_references (mg_env (assembled fuel c root path m)) secs model)" for secs
    using keeps_presets_reads_only [OF reads_only_find_references] by (simp add: keeps_presets_def)
  have loc: "mg_local (assembled fuel c root path m) = mg_local m" by (simp add: assembled_def)
  have "preset_view path w' = preset_view path w \<or>
      (\<exists>f w1 w2. mg_local (assembled fuel c root path m) = Some f \<and> f model w1 = (Inr (), w2) \<and>
         preset_view path w2 = preset_view path w \<and> cascade)"
    by (rule assembled.delete_local_model_outcome [where path = path and cfg = cfg and w = w and w' = w' and r = r and model = model])
      (use assms(1,4) l fr in blast)+
  with assms(2,5) show ?thesis unfolding loc by auto
qed

definition cascade_manager :: "unit server_os_ext machine_ext manager" where
  "cascade_manager = demo_manager\<lparr>mg_local := Some (\<lambda>_. retE ())\<rparr>"

definition stopped_os :: server_os where
  "stopped_os = demo_server_os\<lparr>sv_state := demo_server\<lparr>ls_pid := 0, ls_ready := False\<rparr>\<rparr>"

theorem model_deleted_before_presets_witness:
  "\<exists>(w1 :: server_os) w2. retE () w1 = (Inr () :: gerror + unit, w2) \<and> preset_view demo_path w2 = preset_view demo_path stopped_os \<and> True"
proof -
  let ?run = "delete_local_model cascade_manager ''/m/a.gguf'' True stopped_os"
  have a: "cascade_manager = assembled 5 demo_client ''/c'' demo_path cascade_manager"
    by (simp add: cascade_manager_def demo_manager_def assembled_def)
  have p: "plain_ok demo_path demo_server_config stopped_os"
    using demo_plain by (auto simp: plain_ok_def stopped_os_def demo_server_os_def store_ok_def honest_faults_def demo_server_def)
  have v: "map_option (\<lambda>v. v ''foo'' = None) (preset_view demo_path (snd ?run)) = Some True"
    "map_option (\<lambda>v. v ''foo'' = None) (preset_view demo_path stopped_os) = Some False" by code_simp+
  have ne: "preset_view demo_path (snd ?run) \<noteq> preset_view demo_path stopped_os"
  proof
    assume "preset_view demo_path (snd ?run) = preset_view demo_path stopped_os"
    with v show False by simp
  qed
  have f: "mg_local cascade_manager = Some (\<lambda>_. retE ())" by (simp add: cascade_manager_def)
  have k: "keeps_presets demo_path demo_server_config (retE ())" by (rule keeps_presets_intros)
  have r: "delete_local_model (assembled 5 demo_client ''/c'' demo_path cascade_manager) ''/m/a.gguf'' True stopped_os = (fst ?run, snd ?run)"
    unfolding a [symmetric] by simp
  from model_deleted_before_presets [OF p f k r ne] show ?thesis .
qed

subsection \<open>Runtime\<close>

text \<open>The status the control core reports is that of the models: starting when some model is loading or downloading, otherwise
  running when some model is loaded or sleeping, otherwise stopped; it lists exactly the active models in the router's order,
  ready exactly when loaded or sleeping.\<close>

theorem status_reflects_models:
  "(let s = status_of_models now models in
    cts_state s = (if \<exists>x \<in> set models. md_status x = ''loading'' \<or> md_status x = ''downloading'' then RtStarting
                   else if \<exists>x \<in> set models. md_status x = ''loaded'' \<or> md_status x = ''sleeping'' then RtRunning
                   else RtStopped) \<and>
    map rp_name (cts_presets s) = map md_id (filter (\<lambda>x. model_state_active (md_status x)) models) \<and>
    map rp_ready (cts_presets s) = map (\<lambda>x. md_status x = ''loaded'' \<or> md_status x = ''sleeping'')
      (filter (\<lambda>x. model_state_active (md_status x)) models) \<and>
    (cts_state s = RtStopped \<longleftrightarrow> cts_presets s = []))"
proof -
  define st where "st ms acc = fold status_step ms acc" for ms and acc :: "rt_state \<times> runtime_preset list"
  have step: "model_rt_state v = RtStarting \<longleftrightarrow> v = ''loading'' \<or> v = ''downloading''"
    "model_rt_state v = RtRunning \<longleftrightarrow> v = ''loaded'' \<or> v = ''sleeping''"
    "model_rt_state v = RtStopped \<longleftrightarrow> \<not> model_state_active v"
    "model_rt_state v = RtStopped \<or> model_rt_state v = RtRunning \<or> model_rt_state v = RtStarting" for v
    by (auto simp: model_rt_state_def model_state_active_def)
  have main: "st ms (s0, ps0) =
      (if \<exists>x \<in> set ms. model_rt_state (md_status x) = RtStarting then RtStarting
       else if s0 = RtStopped \<and> (\<exists>x \<in> set ms. model_rt_state (md_status x) = RtRunning) then RtRunning else s0,
       ps0 @ map (\<lambda>x. \<lparr>rp_name = md_id x, rp_state = model_rt_state (md_status x), rp_ready = (model_rt_state (md_status x) = RtRunning)\<rparr>)
         (filter (\<lambda>x. model_rt_state (md_status x) \<noteq> RtStopped) ms))"
    if "s0 = RtStopped \<or> s0 = RtRunning \<or> s0 = RtStarting" for ms s0 ps0
    using that
  proof (induction ms arbitrary: s0 ps0)
    case (Cons x xs)
    consider "model_rt_state (md_status x) = RtStopped" | "model_rt_state (md_status x) = RtRunning"
      | "model_rt_state (md_status x) = RtStarting" using step(4) by blast
    then show ?case
    proof cases
      case 1
      then show ?thesis using Cons by (simp add: st_def status_step_def Let_def)
    next
      case 2
      then show ?thesis using Cons by (auto simp: st_def status_step_def Let_def)
    next
      case 3
      then show ?thesis using Cons by (auto simp: st_def status_step_def Let_def)
    qed
  qed (simp add: st_def)
  have act: "(\<lambda>x. model_rt_state (md_status x) \<noteq> RtStopped) = (\<lambda>x. model_state_active (md_status x))"
    by (simp add: step(3))
  have ne: "filter (\<lambda>x. model_state_active (md_status x)) models = [] \<longleftrightarrow>
      \<not> (\<exists>x \<in> set models. model_rt_state (md_status x) = RtStarting) \<and> \<not> (\<exists>x \<in> set models. model_rt_state (md_status x) = RtRunning)"
    using step(3,4) by (force simp: filter_empty_conv)
  obtain s0 ps where f: "st models (RtStopped, []) = (s0, ps)" by force
  have s0: "s0 = (if \<exists>x \<in> set models. model_rt_state (md_status x) = RtStarting then RtStarting
       else if \<exists>x \<in> set models. model_rt_state (md_status x) = RtRunning then RtRunning else RtStopped)"
    and ps: "ps = map (\<lambda>x. \<lparr>rp_name = md_id x, rp_state = model_rt_state (md_status x), rp_ready = (model_rt_state (md_status x) = RtRunning)\<rparr>)
         (filter (\<lambda>x. model_state_active (md_status x)) models)"
    using main [of RtStopped models "[]"] f unfolding act by auto
  have st: "cts_state (status_of_models now models) = s0" "cts_presets (status_of_models now models) = ps"
    using f by (simp_all add: status_of_models_def st_def Let_def)
  have c1: "s0 = (if \<exists>x \<in> set models. md_status x = ''loading'' \<or> md_status x = ''downloading'' then RtStarting
       else if \<exists>x \<in> set models. md_status x = ''loaded'' \<or> md_status x = ''sleeping'' then RtRunning else RtStopped)"
    unfolding s0 step(1,2) ..
  have c2: "map rp_name ps = map md_id (filter (\<lambda>x. model_state_active (md_status x)) models)"
    "map rp_ready ps = map (\<lambda>x. md_status x = ''loaded'' \<or> md_status x = ''sleeping'')
      (filter (\<lambda>x. model_state_active (md_status x)) models)"
    unfolding ps by (simp_all add: comp_def step(2))
  have c3: "s0 = RtStopped \<longleftrightarrow> ps = []"
    unfolding s0 ps map_is_Nil_conv ne by auto
  show ?thesis unfolding Let_def st using c1 c2 c3 by blast
qed


text \<open>Stopping a preset on a stopped router starts the router: after the preset was resolved, \<^verbatim>\<open>StopOperation\<close> calls the start of
  the runtime whenever its status is stopped, and only then asks the router, which has just started, to unload the preset.\<close>

theorem stop_starts_stopped_router:
  assumes "mg_runtime m = Some rr" "mg_router m = Some rt"
    and "resolve_start_preset m server w = (Inr name, w1)" "rt_status rr w1 = (Inr st, w2)" "st_state st = RtStopped"
  shows "router_operation m ''stop'' server w =
    (case rt_start rr w2 of
       (Inl e, w3) \<Rightarrow> (Inl (map_runtime_error e [Lit ''router runtime start failed'']), w3)
     | (Inr _, w3) \<Rightarrow>
         (case ri_unload rt name w3 of
            (Inl e, w4) \<Rightarrow> (Inl (map_runtime_error e [Lit ''router '', Str ''stop'', Lit '' failed'']), w4)
          | (Inr _, w4) \<Rightarrow> (Inr (op_result ''stop'' name ''succeeded'' [Lit ''stop completed'']), w4)))"
  using assms
  by (simp add: router_operation_def bindE_def ensure_router_def require_some_def mapErrE_def apply_router_action_def
      split: prod.split sum.split)

theorem stop_starts_stopped_router_witness:
  "isl (fst (router_operation demo_manager ''stop'' ''foo'' stopped_os))"
proof -
  define run where "run = resolve_start_preset demo_manager ''foo'' stopped_os"
  define stat where "stat = (server_status (snd run) :: (gerror + runtime_status) \<times> server_os)"
  have r: "mg_runtime demo_manager = Some (server_iface 5)" "mg_router demo_manager = Some (client_iface demo_client)"
    by (simp_all add: demo_manager_def assembled_def)
  have "fst run = Inr ''foo''" unfolding run_def by code_simp
  then have n: "resolve_start_preset demo_manager ''foo'' stopped_os = (Inr ''foo'', snd run)"
    by (cases run) (simp add: run_def)
  have st: "map_sum id st_state (fst stat) = Inr RtStopped" unfolding stat_def run_def by code_simp
  then obtain s where s: "fst stat = Inr s" "st_state s = RtStopped" by (cases "fst stat") auto
  then have q: "rt_status (server_iface 5) (snd run) = (Inr s, snd stat)"
    by (cases stat) (simp add: server_iface_def stat_def)
  have f: "isl (fst (rt_start (server_iface 5) (snd stat)))" unfolding stat_def run_def by code_simp
  from stop_starts_stopped_router [OF r n q s(2)] f show ?thesis
    by (auto split: prod.splits sum.splits)
qed

end
