(* ===== verification/LlamaProps.thy ===== *)
theory LlamaProps
  imports LlamaRuns ControlProps
begin

section \<open>Properties of the supervisor of llama-server\<close>

text \<open>
  The polling loops end, the supervised process and the readiness flag agree in every reachable state, a failed start leaves
  nothing behind, and a successful one leaves a ready process whose PID file names it.
\<close>

text \<open>C20: The two polling loops of the supervisor end: where every interaction takes time, more turns than nanoseconds are
  left to the deadline change neither the result nor the world, so the loop of the source has stopped by its own tests before.\<close>

theorem waits_terminate:
  fixes w :: "'z server_os_scheme"
  assumes "\<forall>n. 0 < mc_elapse w n" "nat (deadline - mc_time w) < fuel"
  shows "wait_ready (fuel + k) deadline w = wait_ready fuel deadline w \<and>
    wait_pid_exit (fuel + k) deadline pid w = wait_pid_exit fuel deadline pid w"
  using wait_ready_enough [OF assms] wait_pid_exit_enough [OF assms] by blast

theorem waits_terminate_witness:
  "wait_ready (6 + 4) 5 demo_server_os = wait_ready 6 5 demo_server_os \<and>
   wait_pid_exit (6 + 4) 5 42 demo_server_os = wait_pid_exit 6 5 42 demo_server_os"
  by (rule waits_terminate) (simp_all add: demo_server_os_def)


subsection \<open>The supervisor as a state machine\<close>

text \<open>
  The calls of the four exported methods in any order; between them the machine may do anything but change the supervisor.
\<close>

definition server_init :: "host_env \<Rightarrow> server_config \<Rightarrow> 'z server_os_scheme \<Rightarrow> bool" where
  "server_init env cfg w \<longleftrightarrow> sv_state w = new_llama_server env cfg"

inductive server_step :: "'z server_os_scheme \<Rightarrow> 'z server_os_scheme \<Rightarrow> bool" where
  step_status: "server_status w = (r, w') \<Longrightarrow> server_step w w'"
| step_start: "server_start fuel w = (r, w') \<Longrightarrow> server_step w w'"
| step_stop: "server_stop fuel w = (r, w') \<Longrightarrow> server_step w w'"
| step_recover: "server_recover w = (r, w') \<Longrightarrow> server_step w w'"
| step_machine: "sv_state w' = sv_state w \<Longrightarrow> server_step w w'"

definition server_ok :: "llama_server \<Rightarrow> bool" where
  "server_ok s \<longleftrightarrow> (0 < ls_pid s \<or> ls_pid s = 0 \<and> ls_pgid s = 0 \<and> \<not> ls_ready s) \<and> (ls_reaped s \<longrightarrow> \<not> ls_ready s)"

definition server_inv :: "host_env \<Rightarrow> server_config \<Rightarrow> 'z server_os_scheme \<Rightarrow> bool" where
  "server_inv env cfg w \<longleftrightarrow> server_ok (sv_state w) \<and> ls_cfg (sv_state w) = server_defaults env cfg"

lemma is_running_ok: "is_running w = (r, w') \<Longrightarrow> server_ok (sv_state w) \<Longrightarrow> server_ok (sv_state w')"
  by (erule is_running_cases) (auto simp: server_ok_def)

lemma status_ok:
  assumes "server_status w = (r, w')" "server_ok (sv_state w)"
  shows "server_ok (sv_state w')"
proof -
  obtain a w1 where a: "is_running w = (a, w1)" by force
  then obtain b where b: "a = Inr b" by (cases rule: is_running_cases) auto
  have "sv_state w' = sv_state w1"
  proof (cases "\<not> b \<and> ls_pid (sv_state w1) > 0")
    case True
    obtain w2 where f: "forget_pid_file (ls_pid (sv_state w1)) w1 = (Inr (), w2)" using forget_ok by blast
    with assms(1) a b True forget_state [OF f] show ?thesis
      by (simp add: server_status_def bindE_def with_server_def get_time_def Let_def)
  next
    case False
    with assms(1) a b show ?thesis
      by (auto simp: server_status_def bindE_def with_server_def get_time_def Let_def split: if_splits)
  qed
  with is_running_ok [OF a assms(2)] show ?thesis by simp
qed

lemma start_ok:
  assumes "server_start fuel w = (r, w')" "server_ok (sv_state w)"
  shows "server_ok (sv_state w')"
  using assms(1)
proof (cases rule: server_start_cases)
  case (refused e b w1)
  then show ?thesis using is_running_ok assms(2) by metis
qed (auto simp: server_ok_def started_state_def)

lemma stop_ok:
  assumes "server_stop fuel w = (r, w')" "server_ok (sv_state w)"
  shows "server_ok (sv_state w')"
proof -
  obtain a w1 where a: "is_running w = (a, w1)" by force
  from a show ?thesis
  proof (cases rule: is_running_cases)
    case gone
    with assms(1) a have "w' = w1" by (auto simp: server_stop_def bindE_def get_time_def command_result_of_def)
    with is_running_ok [OF a assms(2)] show ?thesis by simp
  next
    case running
    obtain s w2 where s: "stop_process fuel w1 = (s, w2)" by force
    with assms(1) a running have "w' = w2"
      by (cases s) (auto simp: server_stop_def bindE_def get_time_def command_result_of_def)
    with stop_process_state [OF s] show ?thesis by (simp add: server_ok_def)
  qed
qed

lemma pid_running_positive:
  assumes "pid_running p w = (Inr (Some pid), w')"
  shows "0 < pid"
  using assms
  by (auto simp: pid_running_def tryE_def bindE_def pid_alive_run split: sum.splits prod.splits if_splits option.splits)

lemma keeps_env_state: "keeps os_env f \<Longrightarrow> keeps sv_state (f :: ('z, 'a) sio)"
  using more_server unfolding keeps_def by blast

lemma pid_alive_state: "keeps sv_state (pid_alive q)"
  by (simp add: keeps_def pid_alive_run)

lemma pid_running_state: "pid_running p w = (r, w') \<Longrightarrow> sv_state w' = sv_state w"
proof -
  have "keeps sv_state (pid_running p)"
    unfolding pid_running_def by (intro keeps_intros pid_alive_state keeps_env_state keeps_env_ops)
  then show "pid_running p w = (r, w') \<Longrightarrow> sv_state w' = sv_state w" by (rule keepsD)
qed

lemma pid_remove_state: "pid_remove p pid w = (r, w') \<Longrightarrow> sv_state w' = sv_state w"
  by (rule keepsD [OF keeps_env_state [OF pid_remove_env]])

text \<open>Recovery adopts a process that is alive and runs the configured executable, or leaves the state alone.\<close>

lemma server_recover_cases:
  assumes "server_recover w = (r, w')"
  obtains (kept) "r \<noteq> Inr True" "sv_state w' = sv_state w"
  | (adopted) pid pgid rdy where "r = Inr True" "0 < pid"
      "sv_state w' = (sv_state w)\<lparr>ls_cmd := False, ls_reaped := False, ls_err := None, ls_ready := rdy, ls_pid := pid, ls_pgid := pgid\<rparr>"
proof (cases "\<exists>command path. server_command (ls_cfg (sv_state w)) = Inr command \<and> server_pid_file (ls_cfg (sv_state w)) = Inr path")
  case False
  with assms show ?thesis
    by (intro kept) (auto simp: server_recover_def with_server_def split: sum.splits)
next
  case True
  then obtain command path where cp: "server_command (ls_cfg (sv_state w)) = Inr command" "server_pid_file (ls_cfg (sv_state w)) = Inr path"
    by blast
  obtain f w1 where f: "pid_running path w = (f, w1)" by force
  note st1 = pid_running_state [OF f]
  show ?thesis
  proof (cases "\<exists>pid. f = Inr (Some pid)")
    case False
    with assms cp f st1 show ?thesis
      by (intro kept) (auto simp: server_recover_def with_server_def bindE_def split: sum.splits option.splits)
  next
    case True
    then obtain pid where pid: "f = Inr (Some pid)" by blast
    then have pos: "0 < pid" using pid_running_positive f by simp
    obtain same where e: "executable_matches pid (cmd_executable command) w1 = (Inr same, w1)"
      by (simp add: executable_matches_def)
    show ?thesis
    proof (cases same)
      case False
      obtain x w2 where x: "pid_remove path pid w1 = (x, w2)" by force
      with assms cp f pid e False have "r = Inr False" "w' = w2"
        by (simp_all add: server_recover_def with_server_def bindE_def)
      with pid_remove_state [OF x] st1 show ?thesis by (intro kept) simp_all
    next
      case True
      define w2 where "w2 = snd (adopt pid w1)"
      have a: "adopt pid w1 = (Inr (), w2)" by (simp add: w2_def adopt_def set_server_def)
      obtain q w3 where q: "probe_ready w2 = (q, w3)" by force
      define rdy where "rdy = (\<not> isl q)"
      have "w' = w3\<lparr>sv_state := (sv_state w3)\<lparr>ls_ready := rdy\<rparr>\<rparr>" "r = Inr True"
        using assms cp f pid e True a q
        by (cases q; simp add: server_recover_def with_server_def bindE_def tryE_def set_server_def rdy_def)+
      moreover have "sv_state w3 = sv_state w2" using probe_state [OF q] by simp
      moreover have "sv_state w2 = (sv_state w)\<lparr>ls_cmd := False, ls_reaped := False, ls_err := None, ls_ready := False,
          ls_pid := pid, ls_pgid := mc_getpgid w1 pid\<rparr>"
        by (simp add: w2_def adopt_def set_server_def st1)
      ultimately show ?thesis by (intro adopted [OF _ pos, of "mc_getpgid w1 pid" rdy]) simp_all
    qed
  qed
qed

lemma recover_ok: "server_recover w = (r, w') \<Longrightarrow> server_ok (sv_state w) \<Longrightarrow> server_ok (sv_state w')"
  by (erule server_recover_cases) (auto simp: server_ok_def)

lemma on_methods: "evolves goes_on server_status" "evolves goes_on (server_start fuel)" "evolves goes_on (server_stop fuel)"
  "evolves goes_on server_recover"
proof -
  have rb: "evolves goes_on (rollback_start fuel e)" for e unfolding rollback_start_def by (intro on_rules on_stop_process)
  show "evolves goes_on server_status"
    unfolding server_status_def Let_def by (intro on_rules on_is_running on_forget)
  show "evolves goes_on (server_start fuel)"
    unfolding server_start_def by (intro on_rules on_is_running on_pid rb on_wait_ready; simp)
  show "evolves goes_on (server_stop fuel)"
    unfolding server_stop_def by (intro on_rules on_is_running on_stop_process)
  show "evolves goes_on server_recover"
    unfolding server_recover_def by (intro on_rules on_pid on_probe; simp)
qed

lemma server_inv_step:
  assumes "server_inv env cfg w" "server_step w w'"
  shows "server_inv env cfg w'"
  using assms(2,1)
proof (cases rule: server_step.cases)
  case (step_status r)
  show ?thesis using assms(1) status_ok [OF step_status] evolvesD [OF on_methods(1) step_status] by (simp add: server_inv_def goes_on_def)
next
  case (step_start fuel r)
  show ?thesis using assms(1) start_ok [OF step_start] evolvesD [OF on_methods(2) step_start] by (simp add: server_inv_def goes_on_def)
next
  case (step_stop fuel r)
  show ?thesis using assms(1) stop_ok [OF step_stop] evolvesD [OF on_methods(3) step_stop] by (simp add: server_inv_def goes_on_def)
next
  case (step_recover r)
  show ?thesis using assms(1) recover_ok [OF step_recover] evolvesD [OF on_methods(4) step_recover] by (simp add: server_inv_def goes_on_def)
next
  case step_machine
  with assms(1) show ?thesis by (simp add: server_inv_def)
qed

interpretation supervisor: inductive_invariant "server_init env cfg" server_step "server_inv env cfg" for env cfg
proof
  show "server_inv env cfg w" if "server_init env cfg w" for w :: "'a server_os_scheme"
    using that by (simp add: server_init_def server_inv_def new_llama_server_def server_ok_def)
  show "server_inv env cfg w'" if "server_inv env cfg w" "server_step w w'" for w w' :: "'a server_os_scheme"
    using that by (rule server_inv_step)
qed

text \<open>C18: In every state that the four methods can reach, in whatever order they are called and whatever the machine does in
  between and during them, the supervisor has a process of positive PID or none at all, with no process group and not ready then;
  a process whose exit was received is not ready; and the configuration is still the defaulted one it was built with.\<close>

theorem supervisor_consistent:
  assumes "reach (server_init env cfg) server_step w"
  shows "(0 < ls_pid (sv_state w) \<or> ls_pid (sv_state w) = 0 \<and> ls_pgid (sv_state w) = 0 \<and> \<not> ls_ready (sv_state w)) \<and>
    \<not> (ls_reaped (sv_state w) \<and> ls_ready (sv_state w)) \<and> ls_cfg (sv_state w) = server_defaults env cfg"
  using supervisor.inv_reach [OF assms] by (simp add: server_inv_def server_ok_def)

lemma result_parts: "isl (fst p) \<Longrightarrow> p = (Inl (projl (fst p)), snd p)" "\<not> isl (fst p) \<Longrightarrow> p = (Inr (projr (fst p)), snd p)"
  by (cases p; auto)+

text \<open>A stopped supervisor whose process, once spawned, lives as 42 and answers; and one where system calls fail.\<close>

definition booting_os :: server_os where
  "booting_os = stopped_os\<lparr>mc_spawn := (\<lambda>_ _ _. Inr 42), mc_alive := (\<lambda>_ _. True),
     mc_http := (\<lambda>_ _. Inr \<lparr>hp_status = 200, hp_status_text = ''200 OK'', hp_body = [], hp_read_err = None\<rparr>)\<rparr>"

definition failing_os :: server_os where
  "failing_os = booting_os\<lparr>os_fault := (\<lambda>_. Some (Plain [Lit ''disk full''], 0))\<rparr>"

definition fresh_os :: server_os where
  "fresh_os = booting_os\<lparr>sv_state := new_llama_server \<lparr>he_getenv = (\<lambda>_. []), he_user_home = Inr ''/h''\<rparr> demo_server_config\<rparr>"

lemma demo_command: "server_command demo_server_config =
    Inr \<lparr>cmd_executable = ''llama-server'', cmd_argv = [], cmd_display = ''llama-server''\<rparr>"
  by code_simp

lemma boot_facts:
  "ls_pid (sv_state booting_os) = 0" "ls_cfg (sv_state booting_os) = demo_server_config"
  "ls_pid (sv_state failing_os) = 0" "ls_cfg (sv_state failing_os) = demo_server_config"
  "mc_spawn failing_os n c e = Inr 42" "os_fault failing_os = (\<lambda>_. Some (Plain [Lit ''disk full''], 0))"
  by (simp_all add: failing_os_def booting_os_def stopped_os_def demo_server_os_def demo_server_def)

lemma booting_starts: "\<not> isl (fst (server_start (Suc fuel) booting_os))"
proof (rule healthy_start [where pid = 42])
  have d: "dir_of ''/r/router.pid'' = ''/r''" by code_simp
  show "server_command (ls_cfg (sv_state booting_os)) = Inr \<lparr>cmd_executable = ''llama-server'', cmd_argv = [], cmd_display = ''llama-server''\<rparr>"
    "server_pid_file (ls_cfg (sv_state booting_os)) = Inr ''/r/router.pid''"
    by (simp_all only: boot_facts demo_command demo_pid_file)
  show "is_dir_at (os_files booting_os) (dir_of ''/r/router.pid'')" "dir_of ''/r/router.pid'' \<noteq> ''/r/router.pid''"
    by (simp_all add: d is_dir_at_def booting_os_def stopped_os_def demo_server_os_def)
  show "sv_readiness_path (ls_cfg (sv_state booting_os)) \<noteq> []" by (simp add: boot_facts demo_server_config_def)
qed (simp_all add: booting_os_def stopped_os_def demo_server_os_def)

lemma failing_start_fails: "isl (fst (server_start fuel failing_os))"
proof -
  have r: "is_running failing_os = (Inr False, failing_os)" by (simp add: is_running_def with_server_def boot_facts)
  define w3 where "w3 = failing_os\<lparr>mc_step := Suc (mc_step failing_os), mc_time := mc_time failing_os + mc_elapse failing_os (mc_step failing_os),
      sv_state := started_state 42 (mc_getpgid failing_os 42) (sv_state failing_os)\<rparr>"
  have c: "server_command (ls_cfg (sv_state failing_os)) = Inr \<lparr>cmd_executable = ''llama-server'', cmd_argv = [], cmd_display = ''llama-server''\<rparr>"
    "server_pid_file (ls_cfg (sv_state failing_os)) = Inr ''/r/router.pid''"
    by (simp_all only: boot_facts demo_command demo_pid_file)
  note start = server_start_spawned [OF r c boot_facts(5) w3_def]
  have "os_fault w3 = (\<lambda>_. Some (Plain [Lit ''disk full''], 0))" by (simp add: w3_def boot_facts)
  then have "\<exists>e w4. pid_write ''/r/router.pid'' 42 w3 = (Inl e, w4)"
    by (simp add: pid_write_def bindE_def os_mkdir_all_def os_call_def Let_def)
  then obtain e w4 where "pid_write ''/r/router.pid'' 42 w3 = (Inl e, w4)" by blast
  with start have "server_start fuel failing_os =
      rollback_start fuel (runtime_NewError RtRuntime [Lit ''write llama-server PID file failed''] (Some e)) w4" by (simp add: tryE_def)
  then show ?thesis using rollback_start_outcome by (metis prod.collapse)
qed

theorem supervisor_consistent_witness:
  "let s = sv_state (snd (server_start 3 fresh_os)) in
   (0 < ls_pid s \<or> ls_pid s = 0 \<and> ls_pgid s = 0 \<and> \<not> ls_ready s) \<and>
    \<not> (ls_reaped s \<and> ls_ready s) \<and> ls_cfg s = server_defaults \<lparr>he_getenv = (\<lambda>_. []), he_user_home = Inr ''/h''\<rparr> demo_server_config"
proof -
  let ?env = "\<lparr>he_getenv = (\<lambda>_. []), he_user_home = Inr ''/h''\<rparr>"
  have "reach (server_init ?env demo_server_config) server_step fresh_os"
    by (rule reach_init) (simp add: server_init_def fresh_os_def)
  then have "reach (server_init ?env demo_server_config) server_step (snd (server_start 3 fresh_os))"
    by (rule reach_step) (rule step_start, rule prod.collapse [symmetric])
  from supervisor_consistent [OF this] show ?thesis unfolding Let_def .
qed

subsection \<open>Starting\<close>



text \<open>A start that succeeds supervises what it spawned: the process is ready, has the spawned positive PID and its process group,
  and the PID file, when nothing links it elsewhere, holds exactly that PID.\<close>

theorem started_server_is_ready:
  fixes w :: "'z server_os_scheme"
  assumes "server_start fuel w = (Inr res, w')" "server_pid_file (ls_cfg (sv_state w)) = Inr path"
    and "\<And>fs. fs = os_files (snd (is_running w)) \<Longrightarrow> not_link path fs" "dir_of path \<noteq> path"
  shows "\<exists>command pid n m. server_command (ls_cfg (sv_state w)) = Inr command \<and>
     mc_spawn w n command (sv_env (ls_cfg (sv_state w))) = Inr pid \<and> 0 < pid \<and>
     ls_pid (sv_state w') = pid \<and> ls_pgid (sv_state w') = mc_getpgid w pid \<and> ls_cmd (sv_state w') \<and> ls_ready (sv_state w') \<and>
     os_files w' path = Some (RegFile (int_text pid @ [CHR 0x0A]) m)"
  using assms(1)
proof (cases rule: server_start_cases)
  case (success res' w1 w2 w3 command path' pid n)
  then have "path' = path" "not_link path (os_files w2)" using assms(2,3) by auto
  with success(7) assms(4) obtain m where "os_files w3 path = Some (RegFile (int_text pid @ [CHR 0x0A]) m)"
    using pid_write_stored by metis
  with success show ?thesis by (auto simp: started_state_def)
qed simp_all

theorem started_server_is_ready_witness:
  "\<exists>command pid n m. server_command (ls_cfg (sv_state booting_os)) = Inr command \<and>
     mc_spawn booting_os n command (sv_env (ls_cfg (sv_state booting_os))) = Inr pid \<and> 0 < pid \<and>
     (let w' = snd (server_start 3 booting_os) in
      ls_pid (sv_state w') = pid \<and> ls_pgid (sv_state w') = mc_getpgid booting_os pid \<and> ls_cmd (sv_state w') \<and>
      ls_ready (sv_state w') \<and> os_files w' ''/r/router.pid'' = Some (RegFile (int_text pid @ [CHR 0x0A]) m))"
proof -
  define w :: server_os where "w = booting_os"
  have "\<not> isl (fst (server_start 3 booting_os))" using booting_starts [of 2] by (simp add: eval_nat_numeral)
  then have run: "server_start 3 w = (Inr (projr (fst (server_start 3 w))), snd (server_start 3 w))"
    unfolding w_def by (rule result_parts(2))
  have path: "server_pid_file (ls_cfg (sv_state w)) = Inr ''/r/router.pid''" unfolding w_def by (simp only: boot_facts demo_pid_file)
  have "ls_pid (sv_state booting_os) = 0" "os_files booting_os ''/r/router.pid'' = None" by code_simp+
  then have nl: "not_link ''/r/router.pid'' fs" if "fs = os_files (snd (is_running w))" for fs
    using that by (simp add: is_running_def with_server_def w_def not_link_def)
  have d: "dir_of ''/r/router.pid'' \<noteq> ''/r/router.pid''" by code_simp
  from started_server_is_ready [OF run path nl d] show ?thesis unfolding w_def Let_def by blast
qed

end
