(* ===== verification/GoRegex.thy ===== *)
theory GoRegex
  imports GoStrings
begin

section \<open>Regular expressions (\<^verbatim>\<open>regexp\<close>)\<close>

text \<open>
  The constructs that the patterns of the source use, with Go's leftmost-first semantics: \<open>rx_match\<close> lists the ways in which an
  expression matches at the front of a text, the preferred one first, as the consumed and the remaining text. The flag says whether the
  text starts at the beginning of the input. A pattern with one capturing group is given as what comes before, in and after it.
  Texts are bytes; the characters outside ASCII that fold to ASCII letters are not modelled.
\<close>

datatype rx = REps | RBegin | RSet "char \<Rightarrow> bool" | RSeq rx rx | RAlt rx rx | RStar rx

text \<open>Greedy repetition; a turn that consumes nothing ends it, so \<open>length s\<close> turns are enough.\<close>

fun star_match ::
  "(bool \<Rightarrow> string \<Rightarrow> (string \<times> string) list) \<Rightarrow> nat \<Rightarrow> bool \<Rightarrow> string \<Rightarrow> (string \<times> string) list" where
  "star_match m 0 b s = [([], s)]"
| "star_match m (Suc n) b s =
     concat (map (\<lambda>(x, r). if x = [] then [] else map (\<lambda>(y, t). (x @ y, t)) (star_match m n False r)) (m b s)) @ [([], s)]"

primrec rx_match :: "rx \<Rightarrow> bool \<Rightarrow> string \<Rightarrow> (string \<times> string) list" where
  "rx_match REps b s = [([], s)]"
| "rx_match RBegin b s = (if b then [([], s)] else [])"
| "rx_match (RSet P) b s = (case s of [] \<Rightarrow> [] | c # cs \<Rightarrow> (if P c then [([c], cs)] else []))"
| "rx_match (RSeq r1 r2) b s =
     concat (map (\<lambda>(x, t). map (\<lambda>(y, u). (x @ y, u)) (rx_match r2 (b \<and> x = []) t)) (rx_match r1 b s))"
| "rx_match (RAlt r1 r2) b s = rx_match r1 b s @ rx_match r2 b s"
| "rx_match (RStar r) b s = star_match (rx_match r) (length s) b s"

definition rx_plus :: "rx \<Rightarrow> rx" where "rx_plus r = RSeq r (RStar r)"
definition rx_opt :: "rx \<Rightarrow> rx" where "rx_opt r = RAlt r REps"

fun rx_text :: "string \<Rightarrow> rx" where
  "rx_text [] = REps"
| "rx_text (c # cs) = RSeq (RSet (\<lambda>x. x = c)) (rx_text cs)"

fun rx_alts :: "rx list \<Rightarrow> rx" where
  "rx_alts [] = RSet (\<lambda>_. False)"
| "rx_alts [r] = r"
| "rx_alts (r # rs) = RAlt r (rx_alts rs)"

text \<open>The same text in any case.\<close>

definition rx_text_fold :: "string \<Rightarrow> rx" where
  "rx_text_fold s = foldr (\<lambda>c r. RSeq (RSet (\<lambda>x. ascii_lower x = ascii_lower c)) r) s REps"

definition ascii_digit :: "char \<Rightarrow> bool" where
  "ascii_digit c \<longleftrightarrow> CHR ''0'' \<le> c \<and> c \<le> CHR ''9''"

definition ascii_letter :: "char \<Rightarrow> bool" where
  "ascii_letter c \<longleftrightarrow> (CHR ''A'' \<le> c \<and> c \<le> CHR ''Z'') \<or> (CHR ''a'' \<le> c \<and> c \<le> CHR ''z'')"

text \<open>\<^verbatim>\<open>FindStringSubmatch\<close> for a pattern with one group: the group of the leftmost match.\<close>

definition rx_group :: "rx \<Rightarrow> rx \<Rightarrow> rx \<Rightarrow> bool \<Rightarrow> string \<Rightarrow> string list" where
  "rx_group pre grp post b s =
     concat (map (\<lambda>(x, t). concat (map (\<lambda>(g, u). map (\<lambda>_. g) (rx_match post (b \<and> x = [] \<and> g = []) u))
       (rx_match grp (b \<and> x = []) t))) (rx_match pre b s))"

fun find_group_from :: "rx \<Rightarrow> rx \<Rightarrow> rx \<Rightarrow> bool \<Rightarrow> string \<Rightarrow> string option" where
  "find_group_from pre grp post b s =
     (case rx_group pre grp post b s of
        g # _ \<Rightarrow> Some g
      | [] \<Rightarrow> (case s of [] \<Rightarrow> None | _ # cs \<Rightarrow> find_group_from pre grp post False cs))"

declare find_group_from.simps [simp del]

definition find_group :: "rx \<Rightarrow> rx \<Rightarrow> rx \<Rightarrow> string \<Rightarrow> string option" where
  "find_group pre grp post s = find_group_from pre grp post True s"

text \<open>
  \<^verbatim>\<open>FindAllStringIndex\<close> for a pattern that does not match the empty text: start and end of the leftmost matches that do not overlap.
  \<open>n\<close> is the position of the text; \<open>k\<close> characters are inside the last match.
\<close>

fun find_all_from :: "rx \<Rightarrow> nat \<Rightarrow> nat \<Rightarrow> bool \<Rightarrow> string \<Rightarrow> (nat \<times> nat) list" where
  "find_all_from r k n b [] = []"
| "find_all_from r k n b (c # cs) =
     (if k > 0 then find_all_from r (k - 1) (Suc n) False cs
      else (case rx_match r b (c # cs) of
              (x, t) # _ \<Rightarrow> (n, n + length x) # find_all_from r (length x - 1) (Suc n) False cs
            | [] \<Rightarrow> find_all_from r 0 (Suc n) False cs))"

definition find_all :: "rx \<Rightarrow> string \<Rightarrow> (nat \<times> nat) list" where
  "find_all r s = find_all_from r 0 0 True s"

definition rx_matches :: "rx \<Rightarrow> string \<Rightarrow> bool" where
  "rx_matches r s \<longleftrightarrow> find_group r REps REps s \<noteq> None"

subsection \<open>What a match is\<close>

lemma star_match_split:
  assumes "\<And>b s x t. (x, t) \<in> set (m b s) \<Longrightarrow> s = x @ t" "(x, t) \<in> set (star_match m n b s)"
  shows "s = x @ t"
  using assms(2)
proof (induction n arbitrary: b s x t)
  case (Suc n)
  show ?case
  proof (cases "x = [] \<and> t = s")
    case False
    with Suc.prems obtain y u z where "(y, u) \<in> set (m b s)" "(z, t) \<in> set (star_match m n False u)" "x = y @ z"
      by (auto split: if_splits)
    with assms(1) Suc.IH show ?thesis by (metis append.assoc)
  qed simp
qed simp

lemma rx_match_split: "(x, t) \<in> set (rx_match r b s) \<Longrightarrow> s = x @ t"
proof (induction r arbitrary: b s x t)
  case (RSeq r1 r2)
  then obtain y u z where "(y, u) \<in> set (rx_match r1 b s)" "(z, t) \<in> set (rx_match r2 (b \<and> y = []) u)" "x = y @ z"
    by auto
  with RSeq.IH(1) [of y u b s] RSeq.IH(2) [of z t "b \<and> y = []" u] show ?case by simp
next
  case (RStar r)
  from RStar.prems have "(x, t) \<in> set (star_match (rx_match r) (length s) b s)" by simp
  then show ?case by (rule star_match_split [rotated]) (rule RStar.IH)
qed (auto split: if_splits list.splits)

lemma rx_group_sublist:
  assumes "g \<in> set (rx_group pre grp post b s)"
  shows "sublist g s"
proof -
  obtain x t u where x: "(x, t) \<in> set (rx_match pre b s)" and g: "(g, u) \<in> set (rx_match grp (b \<and> x = []) t)"
    using assms by (auto simp: rx_group_def)
  show ?thesis using rx_match_split [OF x] rx_match_split [OF g] by auto
qed

lemma find_group_from_sublist: "find_group_from pre grp post b s = Some g \<Longrightarrow> sublist g s"
proof (induction s arbitrary: b)
  case Nil
  then show ?case using rx_group_sublist [of g pre grp post b "[]"]
    by (subst (asm) find_group_from.simps) (auto split: list.splits)
next
  case (Cons c cs)
  show ?case
  proof (cases "rx_group pre grp post b (c # cs)")
    case Nil
    with Cons have "sublist g cs" by (subst (asm) (2) find_group_from.simps) auto
    then show ?thesis by (meson sublist_order.order_trans sublist_Cons_right)
  next
    case (Cons g' gs)
    with \<open>find_group_from pre grp post b (c # cs) = Some g\<close> have "g \<in> set (rx_group pre grp post b (c # cs))"
      by (subst (asm) find_group_from.simps) auto
    then show ?thesis by (rule rx_group_sublist)
  qed
qed

end
