(* ===== verification/LlamaHelp.thy ===== *)
theory LlamaHelp
  imports GoRegex ControlManager
begin

section \<open>The flags that llama-server documents (\<^verbatim>\<open>core/control/llama_help.go\<close>)\<close>

text \<open>
  \<open>parse_llama_server_help\<close> reads the text of \<^verbatim>\<open>llama-server --help\<close>. The last parameter, to which continuation lines are added
  (\<^verbatim>\<open>current\<close>), is the head of the reversed list of parameters. The command that prints the text is an argument of
  \<open>get_llama_server_params\<close>, which keeps the cache as explicit state.
\<close>

definition help_params_ttl :: int where "help_params_ttl = 10 * 60 * nanos_per_second"

record llama_server_param =
  lp_key :: string
  lp_aliases :: "string list"
  lp_value_hint :: string
  lp_default :: string
  lp_description :: string

record help_params_cache =
  hc_executable :: string
  hc_params :: "llama_server_param list"
  hc_expires :: int

subsection \<open>Patterns\<close>

definition flag_token_pattern :: rx where
  "flag_token_pattern =
     RSeq (rx_text ''-'') (RSeq (rx_opt (rx_text ''-'')) (RSeq (RSet ascii_letter)
       (RStar (RSet (\<lambda>c. ascii_letter c \<or> ascii_digit c \<or> c = CHR ''_'' \<or> c = CHR ''-'')))))"

text \<open>The white space of \<^verbatim>\<open>\s\<close>; the group of \<^verbatim>\<open>defaultAnnotation\<close> is what its parenthesis holds.\<close>

definition regex_space :: "char \<Rightarrow> bool" where
  "regex_space c \<longleftrightarrow> c \<in> {CHR 0x09, CHR 0x0A, CHR 0x0C, CHR 0x0D, CHR '' ''}"

definition default_annotation :: "string \<Rightarrow> string option" where
  "default_annotation s =
     find_group (RSeq (rx_text ''(default:'') (RStar (RSet regex_space))) (RStar (RSet (\<lambda>c. c \<noteq> CHR '')''))) (rx_text '')'') s"

subsection \<open>One line\<close>

definition bounded_flag_matches :: "string \<Rightarrow> (nat \<times> nat) list" where
  "bounded_flag_matches line =
     filter (\<lambda>(a, e). a = 0 \<or> line ! (a - 1) = CHR '' '' \<or> line ! (a - 1) = CHR '','') (find_all flag_token_pattern line)"

definition next_token :: "string \<Rightarrow> nat \<Rightarrow> string \<times> nat" where
  "next_token line offset = (let tok = takeWhile (\<lambda>c. c \<noteq> CHR '' '') (drop offset line) in (tok, offset + length tok))"

definition consume_placeholder :: "string \<Rightarrow> nat \<Rightarrow> nat \<times> string" where
  "consume_placeholder line boundary =
     (if length line \<le> boundary \<or> line ! boundary \<noteq> CHR '' '' then (boundary, [])
      else if boundary + 1 < length line \<and> line ! (boundary + 1) = CHR '' '' then (boundary, [])
      else (case next_token line (boundary + 1) of
              (placeholder, fin) \<Rightarrow> (if placeholder = [] then (boundary, []) else (fin, placeholder))))"

definition flag_field_key :: "string \<Rightarrow> string option" where
  "flag_field_key flag =
     (if \<not> rx_matches flag_token_pattern flag then None
      else let key = trim_left_set flag ''-'' in if key = [] then None else Some key)"

text \<open>The fields of the column: the keys of long flags, then those of short ones.\<close>

definition parse_flag_column :: "string \<Rightarrow> string list" where
  "parse_flag_column column =
     (let flags = map trim_space (split_on CHR '','' column);
          long = filter (\<lambda>f. has_prefix f ''--'') flags; short = filter (\<lambda>f. \<not> has_prefix f ''--'') flags
      in List.map_filter flag_field_key long @ List.map_filter flag_field_key short)"

definition try_parse_flag_line :: "string \<Rightarrow> llama_server_param option" where
  "try_parse_flag_line line =
     (let trimmed = trim_left_set line '' ''; indent = length line - length trimmed in
      if \<not> has_prefix trimmed ''-'' then None
      else if indent > 20 then None
      else
        (let matches = bounded_flag_matches line in
         if matches = [] \<or> fst (hd matches) \<noteq> indent then None
         else
           (let flag_column_end = snd (last matches); (boundary, hint) = consume_placeholder line flag_column_end;
                keys = parse_flag_column (take flag_column_end line) in
            case keys of
              [] \<Rightarrow> None
            | key # aliases \<Rightarrow>
                (let desc = trim_space (drop boundary line) in
                 Some \<lparr>lp_key = key, lp_aliases = aliases, lp_value_hint = hint,
                       lp_default = (case default_annotation desc of Some d \<Rightarrow> trim_space d | None \<Rightarrow> []),
                       lp_description = desc\<rparr>))))"

definition append_description :: "string \<Rightarrow> llama_server_param \<Rightarrow> llama_server_param" where
  "append_description line p =
     (let text0 = trim_space line in
      if text0 = [] then p
      else
        p\<lparr>lp_description := (if lp_description p \<noteq> [] then lp_description p @ '' '' @ text0 else text0),
          lp_default := (if lp_default p = []
                         then (case default_annotation text0 of Some d \<Rightarrow> trim_space d | None \<Rightarrow> []) else lp_default p)\<rparr>)"

subsection \<open>The whole text\<close>

text \<open>\<open>open\<close> says whether \<^verbatim>\<open>current\<close> is the last parameter (the head of the list) or nil.\<close>

fun parse_help_lines :: "bool \<Rightarrow> llama_server_param list \<Rightarrow> string list \<Rightarrow> llama_server_param list" where
  "parse_help_lines opened params [] = rev params"
| "parse_help_lines opened params (line0 # rest) =
     (let line = trim_right_set line0 [CHR 0x0D]; t = trim_space line in
      if t = [] \<or> has_prefix t ''-----'' then parse_help_lines False params rest
      else (case try_parse_flag_line line of
              None \<Rightarrow>
                (case (opened, params) of
                   (True, p # ps) \<Rightarrow> parse_help_lines True (append_description line p # ps) rest
                 | _ \<Rightarrow> parse_help_lines opened params rest)
            | Some p \<Rightarrow> parse_help_lines True (p # params) rest))"

definition parse_llama_server_help :: "string \<Rightarrow> llama_server_param list" where
  "parse_llama_server_help txt = parse_help_lines False [] (split_on CHR 0x0A txt)"

text \<open>
  \<open>run\<close> is the command runner: its output or its error, with whether that is \<^verbatim>\<open>exec.ErrNotFound\<close>; \<open>now\<close> and \<open>later\<close> are the times of the
  two clock readings. The snapshot of the configuration is read before.
\<close>

definition help_executable :: "router_config \<Rightarrow> string" where
  "help_executable cfg = (if rc_executable cfg = [] then ''llama-server'' else rc_executable cfg)"

definition cached_params :: "help_params_cache \<Rightarrow> string \<Rightarrow> int \<Rightarrow> llama_server_param list option" where
  "cached_params c exe now = (if hc_executable c = exe \<and> now < hc_expires c then Some (hc_params c) else None)"

definition get_llama_server_params ::
  "(string \<Rightarrow> (gerror \<times> bool) + string) \<Rightarrow> int \<Rightarrow> int \<Rightarrow> router_config \<Rightarrow> help_params_cache \<Rightarrow>
   (gerror + llama_server_param list) \<times> help_params_cache" where
  "get_llama_server_params run now later cfg c =
     (let exe = help_executable cfg in
      case cached_params c exe now of
        Some ps \<Rightarrow> (Inr ps, c)
      | None \<Rightarrow>
          (case run exe of
             Inl (err, missing) \<Rightarrow>
               (Inl (core_errorf ErrorInvalidInput
                  (if missing then [Str exe, Lit '' not found; cannot read flag help'']
                   else [Str exe, Lit '' --help failed: '', TextOf err])), c)
           | Inr out \<Rightarrow>
               (let ps = parse_llama_server_help out in
                if ps = [] then (Inl (core_errorf ErrorInvalidInput
                     [Lit ''no flags parsed from '', Str exe, Lit '' --help output'']), c)
                else (Inr ps, \<lparr>hc_executable = exe, hc_params = ps, hc_expires = later + help_params_ttl\<rparr>))))"

subsection \<open>Lines of a help text\<close>

text \<open>A line as llama-server prints it, with its aliases, placeholder and default.\<close>

lemma flag_line_example:
  "parse_llama_server_help ''-t,    --threads N        number of threads (default: -1)'' =
     [\<lparr>lp_key = ''threads'', lp_aliases = [''t''], lp_value_hint = ''N'', lp_default = ''-1'',
       lp_description = ''number of threads (default: -1)''\<rparr>]"
  by code_simp

text \<open>A flag that the description mentions is taken for the end of the flag column.\<close>

lemma mentioned_flag_is_taken:
  "map (\<lambda>p. (lp_key p, lp_aliases p, lp_description p)) (parse_llama_server_help ''--mmproj FILE  path, see --no-mmproj'') =
     [(''mmproj FILE  path'', [''see --no-mmproj''], [])]"
  by code_simp

end
