(* ===== verification/CatalogFit.thy ===== *)
theory CatalogFit
  imports CatalogTypes GoRegex GoPath
begin

section \<open>Memory fit and quantization of a model file (\<^verbatim>\<open>core/modelcatalog/fit.go\<close>, \<open>quant.go\<close>)\<close>

text \<open>
  Sizes are \<^verbatim>\<open>int64\<close>: \<open>wrap64\<close> is the value that the sum leaves in 64 bits. \<^verbatim>\<open>int64(float64(capacity)*0.90)\<close> is written
  \<open>capacity * 9 div 10\<close>, which it equals for every capacity below \<open>2 ^ 50\<close> bytes; \<^verbatim>\<open>%.1f\<close> rounds the exact quotient half to even.
\<close>

definition wrap64 :: "int \<Rightarrow> int" where
  "wrap64 x = (x + 2 ^ 63) mod 2 ^ 64 - 2 ^ 63"

definition fit_overhead_bytes :: int where "fit_overhead_bytes = 512 * 1024 * 1024"

text \<open>\<^verbatim>\<open>fmt.Sprintf("%.1f", gib(value))\<close> of a positive value.\<close>

definition gib_tenths :: "int \<Rightarrow> int" where
  "gib_tenths v =
     (let q = v * 10 div 2 ^ 30; r = v * 10 mod 2 ^ 30
      in if r < 2 ^ 29 \<or> r = 2 ^ 29 \<and> even q then q else q + 1)"

definition gib_text :: "int \<Rightarrow> string" where
  "gib_text v = itoa (nat (gib_tenths v div 10)) @ ''.'' @ itoa (nat (gib_tenths v mod 10))"

definition estimate_fit :: "int \<Rightarrow> machine_profile \<Rightarrow> machine_fit" where
  "estimate_fit required m =
     (let capacity = (if mp_has_gpu m then mp_vram m else mp_available_ram m);
          resource = (if mp_has_gpu m then ''VRAM'' else ''RAM'');
          fit = (\<lambda>level reason. \<lparr>mf_level = level, mf_reason = reason, mf_required_ram = required, mf_available_ram = mp_available_ram m,
             mf_required_vram = (if mp_has_gpu m then required else 0), mf_available_vram = (if mp_has_gpu m then capacity else 0)\<rparr>);
          text_of = (\<lambda>rest. ''estimated '' @ resource @ '' '' @ gib_text required @ '' GiB '' @ rest)
      in if required \<le> 0 \<or> capacity \<le> 0 then fit ''unknown'' ''memory capacity is unknown''
         else if required \<le> capacity * 9 div 10 then fit ''fits'' (text_of ''is within 90% of capacity'')
         else if required \<le> capacity then fit ''marginal'' (text_of ''is close to capacity'')
         else fit ''too_large'' (text_of ''exceeds capacity''))"

definition estimate_file_fit :: "catalog_file \<Rightarrow> machine_profile \<Rightarrow> catalog_file" where
  "estimate_file_fit f m =
     (let required = wrap64 (fl_size_bytes f + fit_overhead_bytes); fit = estimate_fit required m
      in f\<lparr>fl_est_ram_bytes := required,
           fl_est_vram_bytes := (if mp_has_gpu m then required else fl_est_vram_bytes f),
           fl_fit_level := mf_level fit, fl_fit_reason := mf_reason fit\<rparr>)"

definition fit_rank :: "string \<Rightarrow> int" where
  "fit_rank level =
     (if level = ''fits'' then 4 else if level = ''marginal'' then 3 else if level = ''unknown'' then 2
      else if level = ''too_large'' then 1 else 0)"

definition passes_min_fit :: "string \<Rightarrow> string \<Rightarrow> bool" where
  "passes_min_fit level min_fit =
     (if min_fit = ''fits'' then level = ''fits''
      else if min_fit = ''marginal'' then level = ''fits'' \<or> level = ''marginal''
      else True)"

subsection \<open>Quantization\<close>

text \<open>
  \<^verbatim>\<open>(?i)(?:^|[-_/])((?:UD-)?(?:Q[0-9]_K(?:_[A-Z]+)?|IQ[0-9]_[A-Z0-9]+|Q[0-9]_[0-9]|Q[0-9]|BF16|F16|F32))(?:\.gguf|[-_/])\<close>
\<close>

definition quant_separator :: rx where
  "quant_separator = RSet (\<lambda>c. c = CHR ''-'' \<or> c = CHR ''_'' \<or> c = slash)"

definition quant_group :: rx where
  "quant_group =
     (let digit = RSet ascii_digit; letters = rx_plus (RSet ascii_letter) in
      RSeq (rx_opt (rx_text_fold ''UD-''))
       (rx_alts
         [RSeq (rx_text_fold ''Q'') (RSeq digit (RSeq (rx_text_fold ''_K'') (rx_opt (RSeq (rx_text ''_'') letters)))),
          RSeq (rx_text_fold ''IQ'') (RSeq digit (RSeq (rx_text ''_'') (rx_plus (RSet (\<lambda>c. ascii_letter c \<or> ascii_digit c))))),
          RSeq (rx_text_fold ''Q'') (RSeq digit (RSeq (rx_text ''_'') digit)),
          RSeq (rx_text_fold ''Q'') digit,
          rx_text_fold ''BF16'', rx_text_fold ''F16'', rx_text_fold ''F32'']))"

definition quant_pattern :: "string \<Rightarrow> string option" where
  "quant_pattern s = find_group (RAlt RBegin quant_separator) quant_group (RAlt (rx_text_fold ''.gguf'') quant_separator) s"

text \<open>\<^verbatim>\<open>path.Base\<close> is \<open>base_of\<close> here, as paths are separated by slashes.\<close>

definition infer_quant :: "string \<Rightarrow> string" where
  "infer_quant filename = (case quant_pattern (base_of filename) of None \<Rightarrow> [] | Some g \<Rightarrow> to_upper g)"

lemma infer_quant_examples:
  "infer_quant ''model-Q2_K.gguf'' = ''Q2_K''" "infer_quant ''model-q3_k_s.gguf'' = ''Q3_K_S''"
  "infer_quant ''BF16/model-BF16-00001-of-00002.gguf'' = ''BF16''" "infer_quant ''model-UD-Q4_K_XL.gguf'' = ''UD-Q4_K_XL''"
  "infer_quant ''model-Q8_0.gguf'' = ''Q8_0''" "infer_quant ''model.gguf'' = []"
  by code_simp+

subsection \<open>The levels\<close>

text \<open>Sizes that are not negative and whose sum with the overhead does not overflow are estimated as they are.\<close>

lemma wrap64_id: "- (2 ^ 63) \<le> x \<Longrightarrow> x < 2 ^ 63 \<Longrightarrow> wrap64 x = x"
  by (simp add: wrap64_def)

lemma wrap64_overflow: "2 ^ 63 \<le> x \<Longrightarrow> x < 2 ^ 64 \<Longrightarrow> wrap64 x = x - 2 ^ 64"
proof -
  assume a: "2 ^ 63 \<le> x" "x < 2 ^ 64"
  have "(x + 2 ^ 63) mod 2 ^ 64 = (x + 2 ^ 63 - 2 ^ 64) mod (2 ^ 64 :: int)" by (rule minus_mod_self2 [symmetric])
  also have "\<dots> = x + 2 ^ 63 - 2 ^ 64" by (rule mod_pos_pos_trivial) (use a in simp_all)
  finally show ?thesis by (simp add: wrap64_def)
qed

lemma fit_levels:
  "mf_level (estimate_fit required m) =
    (let capacity = (if mp_has_gpu m then mp_vram m else mp_available_ram m) in
     if required \<le> 0 \<or> capacity \<le> 0 then ''unknown''
     else if required \<le> capacity * 9 div 10 then ''fits'' else if required \<le> capacity then ''marginal'' else ''too_large'')"
  by (simp add: estimate_fit_def Let_def)

text \<open>A bigger file never fits better, as long as its size with the overhead stays in 64 bits.\<close>

lemma fit_rank_antitone:
  assumes "0 < a" "a \<le> b"
  shows "fit_rank (mf_level (estimate_fit b m)) \<le> fit_rank (mf_level (estimate_fit a m))"
  using assms by (auto simp: fit_levels Let_def fit_rank_def)

end
