(* ===== verification/CatalogModels.thy ===== *)
theory CatalogModels
  imports Complex_Main CatalogFit
begin

section \<open>Ranking of the models of the catalog (\<^verbatim>\<open>types.go\<close> and \<^verbatim>\<open>huggingface.go\<close> of \<^verbatim>\<open>core/modelcatalog\<close>)\<close>

text \<open>
  The records of a catalog listing and the pure functions over them: the best file of a model, its score, the order of a
  listing, its metadata. A score is a rational number: the sums of \<^verbatim>\<open>scoreModel\<close> without their rounding. Two things that the
  score reads are given by a \<open>score_env\<close>: \<open>sv_log n\<close> is \<^verbatim>\<open>math.Log10(float64(n)+1)\<close>, \<open>sv_age_days s\<close> the age in days of the
  time stamp \<open>s\<close>, \<open>None\<close> when \<open>s\<close> is not an RFC 3339 time.
\<close>

record list_request =
  lr_limit :: int
  lr_sort :: string
  lr_search :: string
  lr_min_fit :: string
  lr_task :: string
  lr_local_only :: bool

record normalized_params =
  np_limit :: int
  np_sort :: string
  np_search :: string
  np_min_fit :: string
  np_task :: string
  np_local_only :: bool

record catalog_model =
  cm_id :: string
  cm_owner :: string
  cm_repo :: string
  cm_url :: string
  cm_downloads :: int
  cm_likes :: int
  cm_last_modified :: string
  cm_tags :: "string list"
  cm_license :: string
  cm_params :: int
  cm_architecture :: string
  cm_context_length :: int
  cm_is_moe :: bool
  cm_files :: "catalog_file list"
  cm_best_file :: "catalog_file option"
  cm_fit :: machine_fit
  cm_score :: rat

record cache_state =
  cs_hit :: bool
  cs_stale :: bool
  cs_refreshing :: bool
  cs_updated_at :: string
  cs_ttl_seconds :: int

text \<open>The failures of single models are kept as messages.\<close>

record list_result =
  ls_ok :: bool
  ls_machine :: machine_profile
  ls_models :: "catalog_model list"
  ls_cache :: cache_state
  ls_errors :: "msg list"
  ls_params :: normalized_params

text \<open>What Hugging Face answers: a model of a listing, and the metadata of one.\<close>

record listed_model =
  lm_id :: string
  lm_model_id :: string
  lm_downloads :: int
  lm_likes :: int
  lm_last_modified :: string
  lm_tags :: "string list"

record sibling =
  sb_rfilename :: string
  sb_size :: int
  sb_lfs :: "int option"

record model_gguf =
  gg_total :: int
  gg_architecture :: string
  gg_context_length :: int

record model_info =
  mi_id :: string
  mi_model_id :: string
  mi_last_modified :: string
  mi_downloads :: int
  mi_likes :: int
  mi_tags :: "string list"
  mi_architectures :: "string list"
  mi_model_type :: string
  mi_experts_per_tok :: int
  mi_safetensors_total :: int
  mi_gguf :: model_gguf
  mi_siblings :: "sibling list"

record score_env =
  sv_log :: "int \<Rightarrow> rat"
  sv_age_days :: "string \<Rightarrow> rat option"

subsection \<open>Requests\<close>

definition normalize_list_request :: "list_request \<Rightarrow> normalized_params" where
  "normalize_list_request req =
     \<lparr>np_limit = min (if lr_limit req \<le> 0 then 50 else lr_limit req) 100,
      np_sort = (if lr_sort req \<noteq> ''trending'' \<and> lr_sort req \<noteq> ''modified'' then ''downloads'' else lr_sort req),
      np_search = trim_space (lr_search req),
      np_min_fit = (if lr_min_fit req \<noteq> ''marginal'' \<and> lr_min_fit req \<noteq> ''all'' then ''fits'' else lr_min_fit req),
      np_task = trim_space (lr_task req), np_local_only = lr_local_only req\<rparr>"

definition hf_sort :: "string \<Rightarrow> string" where
  "hf_sort v = (if v = ''trending'' then ''trendingScore'' else if v = ''modified'' then ''lastModified'' else ''downloads'')"

subsection \<open>The best file of a model\<close>

definition quant_rank :: "string \<Rightarrow> int" where
  "quant_rank q =
     (if has_prefix q ''Q4_K_M'' then 8 else if has_prefix q ''Q5_K_M'' then 7 else if has_prefix q ''Q6_K'' then 6
      else if has_prefix q ''Q4'' then 5 else if has_prefix q ''Q5'' then 4 else if has_prefix q ''Q8'' then 3
      else if has_prefix q ''F16'' \<or> has_prefix q ''BF16'' then 2 else 1)"

definition str_compare :: "string \<Rightarrow> string \<Rightarrow> int" where
  "str_compare a b = (if a = b then 0 else if a < b then -1 else 1)"

definition compare_file :: "catalog_file \<Rightarrow> catalog_file \<Rightarrow> int" where
  "compare_file a b =
     (if fl_exists a \<noteq> fl_exists b then (if fl_exists a then 1 else -1)
      else if fit_rank (fl_fit_level a) \<noteq> fit_rank (fl_fit_level b) then fit_rank (fl_fit_level a) - fit_rank (fl_fit_level b)
      else if quant_rank (fl_quant a) \<noteq> quant_rank (fl_quant b) then quant_rank (fl_quant a) - quant_rank (fl_quant b)
      else if fl_size_bytes a \<noteq> fl_size_bytes b then (if fl_size_bytes a < fl_size_bytes b then 1 else -1)
      else str_compare (fl_filename b) (fl_filename a))"

text \<open>\<^verbatim>\<open>files[0]\<close> of an empty slice panics: \<open>None\<close>.\<close>

primrec best_from :: "catalog_file \<Rightarrow> catalog_file list \<Rightarrow> catalog_file" where
  "best_from best [] = best"
| "best_from best (f # fs) = best_from (if compare_file f best > 0 then f else best) fs"

fun best_file :: "catalog_file list \<Rightarrow> catalog_file option" where
  "best_file [] = None"
| "best_file (f # fs) = Some (best_from f fs)"

subsection \<open>The score\<close>

text \<open>A model without a best file has no score: the code dereferences nil there.\<close>

definition age_bonus :: "score_env \<Rightarrow> string \<Rightarrow> rat" where
  "age_bonus sv modified =
     (case sv_age_days sv modified of
        None \<Rightarrow> 0
      | Some days \<Rightarrow> (if days < 365 then (365 - days) / 365 else 0))"

definition score_model :: "score_env \<Rightarrow> catalog_model \<Rightarrow> rat option" where
  "score_model sv m =
     (case cm_best_file m of
        None \<Rightarrow> None
      | Some best \<Rightarrow>
          Some (of_int (fit_rank (mf_level (cm_fit m))) * 1000 + (if fl_exists best then 500 else 0)
             + of_int (quant_rank (fl_quant best)) * 20 + sv_log sv (max (cm_downloads m) 0) + sv_log sv (max (cm_likes m) 0)
             + age_bonus sv (cm_last_modified m)))"

definition set_score :: "score_env \<Rightarrow> catalog_model \<Rightarrow> catalog_model" where
  "set_score sv m = (case score_model sv m of None \<Rightarrow> m | Some s \<Rightarrow> m\<lparr>cm_score := s\<rparr>)"

subsection \<open>The order of a listing\<close>

text \<open>By descending score, then by name: a linear order of the pairs, and a stable sort by it.\<close>

datatype listing_key = ListingKey rat string

instantiation listing_key :: linorder
begin

fun less_eq_listing_key :: "listing_key \<Rightarrow> listing_key \<Rightarrow> bool" where
  "less_eq_listing_key (ListingKey s i) (ListingKey t j) \<longleftrightarrow> t < s \<or> (s = t \<and> i \<le> j)"

fun less_listing_key :: "listing_key \<Rightarrow> listing_key \<Rightarrow> bool" where
  "less_listing_key (ListingKey s i) (ListingKey t j) \<longleftrightarrow> t < s \<or> (s = t \<and> i < j)"

instance
proof
  fix x y z :: listing_key
  show "x < y \<longleftrightarrow> x \<le> y \<and> \<not> y \<le> x" by (cases x; cases y) auto
  show "x \<le> x" by (cases x) auto
  show "x \<le> y \<Longrightarrow> y \<le> z \<Longrightarrow> x \<le> z" by (cases x; cases y; cases z) auto
  show "x \<le> y \<Longrightarrow> y \<le> x \<Longrightarrow> x = y" by (cases x; cases y) auto
  show "x \<le> y \<or> y \<le> x" by (cases x; cases y) auto
qed

end

definition listing_rank :: "catalog_model \<Rightarrow> listing_key" where
  "listing_rank m = ListingKey (cm_score m) (cm_id m)"

definition sort_catalog_models :: "catalog_model list \<Rightarrow> catalog_model list" where
  "sort_catalog_models = sort_key listing_rank"

definition refit_model :: "score_env \<Rightarrow> machine_profile \<Rightarrow> catalog_model \<Rightarrow> catalog_model" where
  "refit_model sv machine m =
     (let files = map (\<lambda>f. estimate_file_fit f machine) (cm_files m) in
      case best_file files of
        None \<Rightarrow> m\<lparr>cm_files := files, cm_best_file := None, cm_fit := estimate_fit 0 machine\<rparr>
      | Some best \<Rightarrow>
          set_score sv (m\<lparr>cm_files := files, cm_best_file := Some best, cm_fit := estimate_fit (fl_est_ram_bytes best) machine\<rparr>))"

definition refit_result :: "score_env \<Rightarrow> list_result \<Rightarrow> machine_profile \<Rightarrow> list_result" where
  "refit_result sv r machine =
     r\<lparr>ls_machine := machine, ls_models := sort_catalog_models (map (refit_model sv machine) (ls_models r))\<rparr>"

subsection \<open>Metadata\<close>

definition merge_tags :: "string list \<Rightarrow> string list \<Rightarrow> string list" where
  "merge_tags left right =
     foldl (\<lambda>out tag. if tag = [] \<or> tag \<in> set out then out else out @ [tag]) [] (left @ right)"

fun license_from_tags :: "string list \<Rightarrow> string" where
  "license_from_tags [] = []"
| "license_from_tags (tag # tags) =
     (if has_prefix tag ''license:'' then drop (length ''license:'') tag else license_from_tags tags)"

definition is_moe :: "string \<Rightarrow> int \<Rightarrow> bool" where
  "is_moe arch experts =
     (if experts > 1 then True
      else let v = to_lower (trim_space arch) in
           if v \<in> {''deepseek2'', ''mixtral'', ''dbrx'', ''jamba'', ''arctic'', ''grok''} then True
           else str_contains v ''moe'')"

text \<open>\<^verbatim>\<open>cmp.Or\<close> of strings and of numbers: the first that is not zero.\<close>

fun or_text :: "string list \<Rightarrow> string" where
  "or_text [] = []"
| "or_text (s # ss) = (if s \<noteq> [] then s else or_text ss)"

definition or_num :: "int \<Rightarrow> int \<Rightarrow> int" where "or_num a b = (if a \<noteq> 0 then a else b)"

definition model_metadata :: "model_info \<Rightarrow> int \<times> string \<times> int \<times> bool" where
  "model_metadata info =
     (let g = mi_gguf info in
      if gg_total g > 0 \<or> gg_architecture g \<noteq> [] \<or> gg_context_length g > 0 then
        (let arch = trim_space (gg_architecture g) in
         (gg_total g, arch, gg_context_length g, is_moe arch (mi_experts_per_tok info)))
      else
        (let arch = or_text (map trim_space (mi_architectures info) @ [trim_space (mi_model_type info)]) in
         (mi_safetensors_total info, arch, 0, is_moe arch (mi_experts_per_tok info))))"

definition build_catalog_model ::
  "score_env \<Rightarrow> model_source \<Rightarrow> listed_model \<Rightarrow> model_info \<Rightarrow> catalog_file list \<Rightarrow> catalog_file \<Rightarrow> machine_profile \<Rightarrow> catalog_model" where
  "build_catalog_model sv source item info files best machine =
     (let tags = merge_tags (lm_tags item) (mi_tags info); (params, arch, ctx_len, moe) = model_metadata info in
      set_score sv
        \<lparr>cm_id = src_owner source @ [slash] @ src_repo source, cm_owner = src_owner source, cm_repo = src_repo source,
         cm_url = src_url source, cm_downloads = or_num (mi_downloads info) (lm_downloads item),
         cm_likes = or_num (mi_likes info) (lm_likes item),
         cm_last_modified = or_text [mi_last_modified info, lm_last_modified item],
         cm_tags = tags, cm_license = license_from_tags tags, cm_params = params, cm_architecture = arch,
         cm_context_length = ctx_len, cm_is_moe = moe, cm_files = files, cm_best_file = Some best,
         cm_fit = estimate_fit (fl_est_ram_bytes best) machine, cm_score = 0\<rparr>)"

end
