(* ===== verification/CatalogRanking.thy ===== *)
theory CatalogRanking
  imports CatalogModels "HOL-Library.Multiset"
begin

section \<open>What the ranking of the catalog promises\<close>

text \<open>
  \<open>compare_file\<close> is a total preorder, so that \<open>best_file\<close> finds a greatest file; the score puts every model that fits better in front of
  every model that fits worse, whatever the downloads, the likes and the age of the two are.
\<close>

subsection \<open>Comparing files\<close>

lemma str_compare_flip: "str_compare b a = - str_compare a b"
  by (auto simp: str_compare_def)

lemma str_compare_trans: "str_compare a b \<le> 0 \<Longrightarrow> str_compare b c \<le> 0 \<Longrightarrow> str_compare a c \<le> 0"
  by (auto simp: str_compare_def split: if_splits)

lemma compare_file_flip: "compare_file b a = - compare_file a b"
  by (auto simp: compare_file_def str_compare_flip [of "fl_filename b"])

lemma compare_file_refl [simp]: "compare_file a a = 0"
  by (simp add: compare_file_def str_compare_def)

lemma compare_file_trans: "compare_file a b \<le> 0 \<Longrightarrow> compare_file b c \<le> 0 \<Longrightarrow> compare_file a c \<le> 0"
  using str_compare_trans [of "fl_filename c" "fl_filename b" "fl_filename a"]
    str_compare_flip [of "fl_filename a" "fl_filename b"] str_compare_flip [of "fl_filename b" "fl_filename c"]
    str_compare_flip [of "fl_filename a" "fl_filename c"]
    str_compare_trans [of "fl_filename c" "fl_filename b" "fl_filename a"]
  by (simp add: compare_file_def split: if_splits)

lemma best_from_greatest:
  "best_from b fs \<in> set (b # fs) \<and> (\<forall>f \<in> set (b # fs). compare_file f (best_from b fs) \<le> 0)"
proof (induction fs arbitrary: b)
  case (Cons f fs)
  let ?b = "if compare_file f b > 0 then f else b"
  have le: "compare_file b ?b \<le> 0" "compare_file f ?b \<le> 0" using compare_file_flip [of b f] by auto
  have IH: "best_from ?b fs \<in> set (?b # fs)" "\<forall>x \<in> set (?b # fs). compare_file x (best_from ?b fs) \<le> 0"
    using Cons.IH [of ?b] by blast+
  then have top: "compare_file ?b (best_from ?b fs) \<le> 0" by simp
  have "compare_file b (best_from ?b fs) \<le> 0" "compare_file f (best_from ?b fs) \<le> 0"
    using compare_file_trans [OF le(1) top] compare_file_trans [OF le(2) top] by blast+
  moreover have "best_from b (f # fs) = best_from ?b fs" by simp
  moreover have "best_from ?b fs \<in> set (b # f # fs)" using IH(1) by (auto split: if_splits)
  ultimately show ?case using IH(2) by (auto simp del: best_from.simps)
qed simp

lemma best_file_greatest:
  "best_file fs = Some b \<Longrightarrow> b \<in> set fs \<and> (\<forall>f \<in> set fs. compare_file f b \<le> 0)"
  using best_from_greatest by (cases fs) auto

lemma best_file_None [simp]: "best_file fs = None \<longleftrightarrow> fs = []"
  by (cases fs) auto

subsection \<open>The level of the fit decides\<close>

text \<open>
  \<^verbatim>\<open>math.Log10\<close> of a number from 1 to \<open>2 ^ 63\<close>, and \<^verbatim>\<open>time.Since\<close>, which is at least the smallest \<^verbatim>\<open>Duration\<close>: \<open>2 ^ 63\<close> nanoseconds
  are 106751.99 days.
\<close>

definition int64 :: "int \<Rightarrow> bool" where "int64 n \<longleftrightarrow> - (2 ^ 63) \<le> n \<and> n < 2 ^ 63"

definition honest_scores :: "score_env \<Rightarrow> bool" where
  "honest_scores sv \<longleftrightarrow>
     (\<forall>n. 0 \<le> n \<longrightarrow> int64 n \<longrightarrow> 0 \<le> sv_log sv n \<and> sv_log sv n \<le> 19) \<and>
     (\<forall>s d. sv_age_days sv s = Some d \<longrightarrow> -106752 \<le> d)"

lemma quant_rank_bounds: "1 \<le> quant_rank q" "quant_rank q \<le> 8"
  by (simp_all add: quant_rank_def)

lemma log_bounds:
  assumes "honest_scores sv" "int64 n"
  shows "0 \<le> sv_log sv (max n 0)" "sv_log sv (max n 0) \<le> 19"
proof -
  have "int64 (max n 0)" "0 \<le> max n 0" using assms(2) by (auto simp: int64_def)
  with assms(1) show "0 \<le> sv_log sv (max n 0)" "sv_log sv (max n 0) \<le> 19" unfolding honest_scores_def by blast+
qed

lemma age_bounds:
  assumes "honest_scores sv"
  shows "0 \<le> age_bonus sv s" "age_bonus sv s \<le> 294"
proof -
  have "-106752 \<le> d" if "sv_age_days sv s = Some d" for d using assms that by (auto simp: honest_scores_def)
  then show "0 \<le> age_bonus sv s" "age_bonus sv s \<le> 294"
    by (fastforce simp: age_bonus_def field_simps split: option.split)+
qed

lemma score_window:
  assumes "honest_scores sv" "int64 (cm_downloads m)" "int64 (cm_likes m)" "score_model sv m = Some s"
  shows "of_int (fit_rank (mf_level (cm_fit m))) * 1000 + 20 \<le> s \<and> s < of_int (fit_rank (mf_level (cm_fit m))) * 1000 + 1000"
proof -
  obtain best where best: "cm_best_file m = Some best" using assms(4) by (auto simp: score_model_def split: option.splits)
  define q where "q = (of_int (quant_rank (fl_quant best)) :: rat)"
  have q: "1 \<le> q" "q \<le> 8" using quant_rank_bounds [of "fl_quant best"] by (simp_all add: q_def)
  have "s = of_int (fit_rank (mf_level (cm_fit m))) * 1000 + (if fl_exists best then 500 else 0) + q * 20
             + sv_log sv (max (cm_downloads m) 0) + sv_log sv (max (cm_likes m) 0) + age_bonus sv (cm_last_modified m)"
    using assms(4) best by (simp add: score_model_def q_def)
  then show ?thesis
    using q log_bounds [OF assms(1,2)] log_bounds [OF assms(1,3)] age_bounds [OF assms(1), of "cm_last_modified m"] by auto
qed

lemma better_fit_scores_higher:
  assumes "honest_scores sv" "int64 (cm_downloads a)" "int64 (cm_likes a)" "int64 (cm_downloads b)" "int64 (cm_likes b)"
    "score_model sv a = Some s" "score_model sv b = Some t"
    "fit_rank (mf_level (cm_fit b)) < fit_rank (mf_level (cm_fit a))"
  shows "t < s"
proof -
  have "of_int (fit_rank (mf_level (cm_fit b))) + 1 \<le> (of_int (fit_rank (mf_level (cm_fit a))) :: rat)"
    using assms(8) by (metis add1_zle_eq of_int_add of_int_le_iff of_int_1)
  with score_window [OF assms(1-3,6)] score_window [OF assms(1,4,5,7)] show ?thesis by linarith
qed

subsection \<open>Listings\<close>

lemma score_ignores_score [simp]: "score_model sv (m\<lparr>cm_score := s\<rparr>) = score_model sv m"
  by (simp add: score_model_def split: option.split)

lemma set_score_keeps [simp]:
  "cm_fit (set_score sv m) = cm_fit m" "cm_downloads (set_score sv m) = cm_downloads m" "cm_likes (set_score sv m) = cm_likes m"
  "cm_id (set_score sv m) = cm_id m" "cm_files (set_score sv m) = cm_files m" "cm_best_file (set_score sv m) = cm_best_file m"
  by (simp_all add: set_score_def split: option.split)

lemma refit_model_keeps [simp]:
  "cm_downloads (refit_model sv machine m) = cm_downloads m" "cm_likes (refit_model sv machine m) = cm_likes m"
  "cm_id (refit_model sv machine m) = cm_id m"
  by (simp_all add: refit_model_def Let_def split: option.split)

definition scored :: "score_env \<Rightarrow> catalog_model \<Rightarrow> bool" where
  "scored sv m \<longleftrightarrow> score_model sv m = Some (cm_score m) \<and> int64 (cm_downloads m) \<and> int64 (cm_likes m)"

lemma scored_set_score:
  assumes "cm_best_file m \<noteq> None" "int64 (cm_downloads m)" "int64 (cm_likes m)"
  shows "scored sv (set_score sv m)"
proof -
  obtain s where "score_model sv m = Some s" using assms(1) by (auto simp: score_model_def)
  then have "score_model sv (set_score sv m) = Some (cm_score (set_score sv m))" by (simp add: set_score_def)
  with assms show ?thesis by (simp add: scored_def)
qed

lemma scored_refit:
  assumes "cm_files m \<noteq> []" "int64 (cm_downloads m)" "int64 (cm_likes m)"
  shows "scored sv (refit_model sv machine m)"
proof -
  obtain b where "best_file (map (\<lambda>f. estimate_file_fit f machine) (cm_files m)) = Some b"
    using assms(1) by (cases "cm_files m") auto
  with assms show ?thesis by (simp add: refit_model_def Let_def scored_set_score)
qed

lemma set_sort_models [simp]: "set (sort_catalog_models ms) = set ms"
  by (simp add: sort_catalog_models_def)

text \<open>Sorting scored models sorts them by their fit.\<close>

lemma sorted_by_fit:
  assumes "honest_scores sv" "\<forall>m \<in> set ms. scored sv m"
  shows "sorted_wrt (\<lambda>a b. fit_rank (mf_level (cm_fit b)) \<le> fit_rank (mf_level (cm_fit a))) (sort_catalog_models ms)"
proof -
  have "sorted_wrt (\<lambda>a b. listing_rank a \<le> listing_rank b) (sort_catalog_models ms)"
    using sorted_sort_key [of listing_rank ms] by (simp add: sort_catalog_models_def sorted_wrt_map)
  moreover have "fit_rank (mf_level (cm_fit b)) \<le> fit_rank (mf_level (cm_fit a))"
    if "a \<in> set ms" "b \<in> set ms" "listing_rank a \<le> listing_rank b" for a b
  proof (rule ccontr)
    assume "\<not> ?thesis"
    moreover have "scored sv a" "scored sv b" using assms(2) that by blast+
    ultimately have "cm_score a < cm_score b"
      using better_fit_scores_higher [OF assms(1), of b a] by (simp add: scored_def)
    with that(3) show False by (auto simp: listing_rank_def)
  qed
  ultimately show ?thesis by (auto elim!: sorted_wrt_mono_rel [rotated])
qed

text \<open>A listing that was refitted to a machine shows the models in the order of how well they fit it: no model stands behind one that fits worse,
  whatever their downloads, likes, dates and quantizations are, and it shows the same models as before.
\<close>

theorem refit_orders_by_fit:
  assumes "honest_scores sv" "\<forall>m \<in> set (ls_models r). cm_files m \<noteq> [] \<and> int64 (cm_downloads m) \<and> int64 (cm_likes m)"
  shows "sorted_wrt (\<lambda>a b. fit_rank (mf_level (cm_fit b)) \<le> fit_rank (mf_level (cm_fit a))) (ls_models (refit_result sv r machine))
    \<and> mset (map cm_id (ls_models (refit_result sv r machine))) = mset (map cm_id (ls_models r))"
proof
  show "sorted_wrt (\<lambda>a b. fit_rank (mf_level (cm_fit b)) \<le> fit_rank (mf_level (cm_fit a))) (ls_models (refit_result sv r machine))"
    using sorted_by_fit [OF assms(1), of "map (refit_model sv machine) (ls_models r)"] assms(2) scored_refit
    by (auto simp: refit_result_def)
  show "mset (map cm_id (ls_models (refit_result sv r machine))) = mset (map cm_id (ls_models r))"
    by (simp add: refit_result_def sort_catalog_models_def multiset.map_comp o_def)
qed

text \<open>The best file of a model is one of its files, and no file of it compares greater: files on the disk first, then by their fit, by the
  rank of their quantization, the smaller and then the one whose name comes first.
\<close>

theorem best_file_maximal:
  assumes "best_file fs = Some b" "f \<in> set fs"
  shows "b \<in> set fs \<and> compare_file f b \<le> 0 \<and> (fl_exists f \<longrightarrow> fl_exists b)
    \<and> (fl_exists f = fl_exists b \<longrightarrow> fit_rank (fl_fit_level f) \<le> fit_rank (fl_fit_level b))"
proof -
  from best_file_greatest [OF assms(1)] assms(2) have "b \<in> set fs" "compare_file f b \<le> 0" by auto
  then show ?thesis by (auto simp: compare_file_def split: if_splits)
qed

subsection \<open>A listing\<close>

definition sample_file :: "string \<Rightarrow> int \<Rightarrow> bool \<Rightarrow> catalog_file" where
  "sample_file name sz present =
     \<lparr>fl_filename = name, fl_quant = infer_quant name, fl_size_bytes = sz, fl_downloadable = True, fl_local_path = [],
      fl_exists = present, fl_est_ram_bytes = 0, fl_est_vram_bytes = 0, fl_fit_level = [], fl_fit_reason = []\<rparr>"

definition sample_machine :: "int \<Rightarrow> machine_profile" where
  "sample_machine gib = \<lparr>mp_total_ram = gib * 2 ^ 30, mp_available_ram = gib * 2 ^ 30, mp_gpu_name = [], mp_vram = 0, mp_has_gpu = False\<rparr>"

definition sample_model :: "string \<Rightarrow> catalog_file list \<Rightarrow> catalog_model" where
  "sample_model repo files =
     \<lparr>cm_id = ''o/'' @ repo, cm_owner = ''o'', cm_repo = repo, cm_url = [], cm_downloads = 7, cm_likes = 2, cm_last_modified = [], cm_tags = [],
      cm_license = [], cm_params = 0, cm_architecture = [], cm_context_length = 0, cm_is_moe = False, cm_files = files,
      cm_best_file = None, cm_fit = estimate_fit 0 (sample_machine 8), cm_score = 0\<rparr>"

definition sample_params :: normalized_params where
  "sample_params = normalize_list_request \<lparr>lr_limit = 0, lr_sort = [], lr_search = [], lr_min_fit = [], lr_task = [], lr_local_only = False\<rparr>"

definition sample_listing :: "catalog_model list \<Rightarrow> list_result" where
  "sample_listing ms =
     \<lparr>ls_ok = True, ls_machine = sample_machine 64, ls_models = ms,
      ls_cache = \<lparr>cs_hit = False, cs_stale = False, cs_refreshing = False, cs_updated_at = [], cs_ttl_seconds = 60\<rparr>,
      ls_errors = [], ls_params = sample_params\<rparr>"

definition sample_scores :: score_env where
  "sample_scores = \<lparr>sv_log = (\<lambda>_. 1), sv_age_days = (\<lambda>_. None)\<rparr>"

lemma sample_scores_honest: "honest_scores sample_scores"
  by (simp add: honest_scores_def sample_scores_def)

theorem refit_orders_by_fit_witness:
  "sorted_wrt (\<lambda>a b. fit_rank (mf_level (cm_fit b)) \<le> fit_rank (mf_level (cm_fit a)))
     (ls_models (refit_result sample_scores
       (sample_listing [sample_model ''a'' [sample_file ''a-Q4_K_M.gguf'' (2 ^ 35) True], sample_model ''b'' [sample_file ''b-F16.gguf'' (2 ^ 30) False]])
       (sample_machine 8)))"
  by (rule conjunct1 [OF refit_orders_by_fit])
    (simp_all add: sample_scores_honest sample_listing_def sample_model_def int64_def)

theorem best_file_maximal_witness:
  "compare_file (sample_file ''a-Q8_0.gguf'' 5 False) (sample_file ''a-Q4_K_M.gguf'' 3 False) \<le> 0"
proof -
  have "best_file [sample_file ''a-Q8_0.gguf'' 5 False, sample_file ''a-Q4_K_M.gguf'' 3 False] = Some (sample_file ''a-Q4_K_M.gguf'' 3 False)"
    by code_simp
  from best_file_maximal [OF this, of "sample_file ''a-Q8_0.gguf'' 5 False"] show ?thesis by simp
qed

text \<open>
  A cached listing is shown with models that no longer pass the level it was asked for: the entry of the request for models that fit, made on
  a machine with 64 GiB, still lists its 32 GiB model on a machine with 8 GiB, as too large.
\<close>

lemma refit_ignores_min_fit:
  "map (\<lambda>m. (cm_id m, mf_level (cm_fit m), passes_min_fit (mf_level (cm_fit m)) (np_min_fit sample_params)))
     (ls_models (refit_result sample_scores (sample_listing [sample_model ''a'' [sample_file ''a-Q4_K_M.gguf'' (2 ^ 35) False]]) (sample_machine 8)))
   = [(''o/a'', ''too_large'', False)]"
  by code_simp

end
