(* ===== verification/GoUrl.thy ===== *)
theory GoUrl
  imports GoStrings GoErrors
begin

section \<open>URL escaping (\<^verbatim>\<open>net/url\<close>)\<close>

text \<open>\<^verbatim>\<open>url.PathEscape\<close>, \<^verbatim>\<open>url.PathUnescape\<close> and \<^verbatim>\<open>url.QueryEscape\<close> on byte strings.\<close>

definition unreserved :: "char \<Rightarrow> bool" where
  "unreserved c \<longleftrightarrow> (CHR ''A'' \<le> c \<and> c \<le> CHR ''Z'') \<or> (CHR ''a'' \<le> c \<and> c \<le> CHR ''z'') \<or> (CHR ''0'' \<le> c \<and> c \<le> CHR ''9'') \<or>
     c \<in> set ''-_.~''"

definition segment_char :: "char \<Rightarrow> bool" where
  "segment_char c \<longleftrightarrow> unreserved c \<or> c \<in> set ''$&+:=@''"

definition hex_digit :: "nat \<Rightarrow> char" where
  "hex_digit n = (if n < 10 then char_of (48 + n) else char_of (55 + n))"

definition hex_value :: "char \<Rightarrow> nat option" where
  "hex_value c =
     (let n = (of_char c :: nat) in
      if 48 \<le> n \<and> n \<le> 57 then Some (n - 48)
      else if 65 \<le> n \<and> n \<le> 70 then Some (n - 55)
      else if 97 \<le> n \<and> n \<le> 102 then Some (n - 87) else None)"

definition percent_byte :: "char \<Rightarrow> string" where
  "percent_byte c = [CHR ''%'', hex_digit (of_char c div 16), hex_digit (of_char c mod 16)]"

definition path_escape :: "string \<Rightarrow> string" where
  "path_escape s = concat (map (\<lambda>c. if segment_char c then [c] else percent_byte c) s)"

definition query_escape :: "string \<Rightarrow> string" where
  "query_escape s = concat (map (\<lambda>c. if c = CHR '' '' then ''+'' else if unreserved c then [c] else percent_byte c) s)"

fun path_unescape :: "string \<Rightarrow> gerror + string" where
  "path_unescape [] = Inr []"
| "path_unescape (c # cs) =
     (if c = CHR ''%'' then
        (case cs of
           x # y # rest \<Rightarrow>
             (case (hex_value x, hex_value y) of
                (Some a, Some b) \<Rightarrow>
                  (case path_unescape rest of Inl e \<Rightarrow> Inl e | Inr t \<Rightarrow> Inr (char_of (16 * a + b) # t))
              | _ \<Rightarrow> Inl (Plain [Lit ''invalid URL escape '', Quoted [c, x, y]]))
         | _ \<Rightarrow> Inl (Plain [Lit ''invalid URL escape '', Quoted (c # cs)]))
      else (case path_unescape cs of Inl e \<Rightarrow> Inl e | Inr t \<Rightarrow> Inr (c # t)))"

text \<open>\<^verbatim>\<open>url.Values.Encode\<close> of keys that are already sorted.\<close>

definition encode_query :: "(string \<times> string) list \<Rightarrow> string" where
  "encode_query kvs = join_with CHR ''&'' (map (\<lambda>(k, v). query_escape k @ ''='' @ query_escape v) kvs)"

subsection \<open>Parsing\<close>

text \<open>
  \<^verbatim>\<open>url.Parse\<close> as far as the scheme, the host and \<^verbatim>\<open>EscapedPath\<close> of the result depend on it. A host in brackets and the user
  information before a host are accepted unchecked.
\<close>

record url =
  url_scheme :: string
  url_host :: string
  url_path :: string
  url_raw_path :: string

definition url_letter :: "char \<Rightarrow> bool" where
  "url_letter c \<longleftrightarrow> (CHR ''A'' \<le> c \<and> c \<le> CHR ''Z'') \<or> (CHR ''a'' \<le> c \<and> c \<le> CHR ''z'')"

definition url_digit :: "char \<Rightarrow> bool" where "url_digit c \<longleftrightarrow> CHR ''0'' \<le> c \<and> c \<le> CHR ''9''"

definition url_error :: "string \<Rightarrow> gerror" where "url_error m = Plain [Lit ''parse: '', Lit m]"

definition get_scheme :: "string \<Rightarrow> gerror + string \<times> string" where
  "get_scheme raw =
     (let pre = takeWhile (\<lambda>c. url_letter c \<or> url_digit c \<or> c \<in> set ''+-.'') raw in
      case pre of
        [] \<Rightarrow> (case raw of c # _ \<Rightarrow> (if c = CHR '':'' then Inl (url_error ''missing protocol scheme'') else Inr ([], raw)) | [] \<Rightarrow> Inr ([], raw))
      | c # _ \<Rightarrow>
          (case (url_letter c, drop (length pre) raw) of
             (True, d # rest) \<Rightarrow> (if d = CHR '':'' then Inr (pre, rest) else Inr ([], raw))
           | _ \<Rightarrow> Inr ([], raw)))"

definition escaped_char_ok :: "char \<Rightarrow> bool" where
  "escaped_char_ok c \<longleftrightarrow> unreserved c \<or> c \<in> set ''!$&()*+,;=:@[]%/'' \<or> c = CHR 0x27"

definition path_char :: "char \<Rightarrow> bool" where
  "path_char c \<longleftrightarrow> unreserved c \<or> c \<in> set ''$&+,/:;=@''"

definition escape_path :: "string \<Rightarrow> string" where
  "escape_path s = concat (map (\<lambda>c. if path_char c then [c] else percent_byte c) s)"

definition escaped_path :: "url \<Rightarrow> string" where
  "escaped_path u =
     (if url_raw_path u \<noteq> [] \<and> list_all escaped_char_ok (url_raw_path u) \<and> path_unescape (url_raw_path u) = Inr (url_path u)
      then url_raw_path u
      else if url_path u = ''*'' then ''*'' else escape_path (url_path u))"

definition host_char :: "char \<Rightarrow> bool" where
  "host_char c \<longleftrightarrow> unreserved c \<or> 128 \<le> (of_char c :: nat) \<or> c \<in> set ''!$&()*+,;=:[]<>'' \<or> c = CHR 0x27 \<or> c = CHR 0x22"

fun unescape_host :: "string \<Rightarrow> gerror + string" where
  "unescape_host [] = Inr []"
| "unescape_host (c # cs) =
     (if c = CHR ''%'' then
        (case cs of
           x # y # rest \<Rightarrow>
             (case (hex_value x, hex_value y) of
                (Some a, Some b) \<Rightarrow>
                  (if a < 8 \<and> \<not> (x = CHR ''2'' \<and> y = CHR ''5'') then Inl (url_error ''invalid URL escape'')
                   else (case unescape_host rest of Inl e \<Rightarrow> Inl e | Inr t \<Rightarrow> Inr (char_of (16 * a + b) # t)))
              | _ \<Rightarrow> Inl (url_error ''invalid URL escape''))
         | _ \<Rightarrow> Inl (url_error ''invalid URL escape''))
      else if \<not> host_char c then Inl (url_error ''invalid character in host name'')
      else (case unescape_host cs of Inl e \<Rightarrow> Inl e | Inr t \<Rightarrow> Inr (c # t)))"

text \<open>What stands after the last occurrence of a character.\<close>

definition after_last :: "char \<Rightarrow> string \<Rightarrow> string option" where
  "after_last c s = (if c \<in> set s then Some (rev (takeWhile (\<lambda>x. x \<noteq> c) (rev s))) else None)"

definition parse_host :: "string \<Rightarrow> gerror + string" where
  "parse_host host =
     (if has_prefix host ''['' then Inr host
      else (case after_last CHR '':'' host of
              Some port \<Rightarrow> (if list_all url_digit port then unescape_host host else Inl (url_error ''invalid port after host''))
            | None \<Rightarrow> unescape_host host))"

definition parse_authority :: "string \<Rightarrow> gerror + string" where
  "parse_authority authority = parse_host (case after_last CHR ''@'' authority of None \<Rightarrow> authority | Some host \<Rightarrow> host)"

definition set_path :: "string \<Rightarrow> string \<Rightarrow> string \<Rightarrow> gerror + url" where
  "set_path scheme host p =
     (case path_unescape p of
        Inl e \<Rightarrow> Inl e
      | Inr path \<Rightarrow> Inr \<lparr>url_scheme = scheme, url_host = host, url_path = path, url_raw_path = (if p = escape_path path then [] else p)\<rparr>)"

definition parse_rest :: "string \<Rightarrow> string \<Rightarrow> gerror + url" where
  "parse_rest scheme rest0 =
     (let rest = takeWhile (\<lambda>c. c \<noteq> CHR ''?'') rest0; opaque = \<lparr>url_scheme = scheme, url_host = [], url_path = [], url_raw_path = []\<rparr> in
      if \<not> has_prefix rest ''/'' \<and> scheme \<noteq> [] then Inr opaque
      else if \<not> has_prefix rest ''/'' \<and> CHR '':'' \<in> set (takeWhile (\<lambda>c. c \<noteq> CHR ''/'') rest)
      then Inl (url_error ''first path segment in URL cannot contain colon'')
      else if (scheme \<noteq> [] \<or> \<not> has_prefix rest ''///'') \<and> has_prefix rest ''//'' then
        (let a = drop 2 rest; authority = takeWhile (\<lambda>c. c \<noteq> CHR ''/'') a in
         case parse_authority authority of Inl e \<Rightarrow> Inl e | Inr host \<Rightarrow> set_path scheme host (drop (length authority) a))
      else set_path scheme [] rest)"

definition url_parse :: "string \<Rightarrow> gerror + url" where
  "url_parse raw =
     (let body = takeWhile (\<lambda>c. c \<noteq> CHR ''#'') raw; frag = drop (length body + 1) raw;
          parsed =
            (if list_ex (\<lambda>c. (of_char c :: nat) < 32 \<or> (of_char c :: nat) = 127) body then Inl (url_error ''invalid control character in URL'')
             else if body = ''*'' then Inr \<lparr>url_scheme = [], url_host = [], url_path = ''*'', url_raw_path = []\<rparr>
             else (case get_scheme body of Inl e \<Rightarrow> Inl e | Inr (scheme, rest) \<Rightarrow> parse_rest (map ascii_lower scheme) rest))
      in case (parsed, path_unescape frag) of
           (Inl e, _) \<Rightarrow> Inl e
         | (Inr u, Inl e) \<Rightarrow> Inl e
         | (Inr u, Inr _) \<Rightarrow> Inr u)"

subsection \<open>Escaping and back\<close>

lemma hex_value_digit: "n < 16 \<Longrightarrow> hex_value (hex_digit n) = Some n"
  by (auto simp: hex_value_def hex_digit_def Let_def)

lemma hex_digits_plain: "list_all (\<lambda>n. unreserved (hex_digit n)) [0..<16]"
  by code_simp

lemma hex_digit_plain: "n < 16 \<Longrightarrow> unreserved (hex_digit n)"
  using hex_digits_plain by (auto simp only: list_all_iff set_upt atLeastLessThan_iff)

lemma unescape_percent_byte:
  "path_unescape (percent_byte c @ s) = (case path_unescape s of Inl e \<Rightarrow> Inl e | Inr t \<Rightarrow> Inr (c # t))"
proof -
  have b: "of_char c div 16 < (16 :: nat)" "of_char c mod 16 < (16 :: nat)"
    using nat_of_char_less_256 [of c] by (simp_all add: less_mult_imp_div_less)
  have "char_of (16 * (of_char c div 16) + of_char c mod 16 :: nat) = c"
    by (metis char_of_char mult_div_mod_eq)
  then show ?thesis
    by (simp add: percent_byte_def hex_value_digit [OF b(1)] hex_value_digit [OF b(2)] del: mult_div_mod_eq split: sum.split)
qed

lemma percent_not_segment: "\<not> segment_char CHR ''%''"
  by code_simp

lemma unescape_escape: "path_unescape (path_escape s) = Inr s"
proof (induction s)
  case (Cons c s)
  have e: "path_escape (c # s) = (if segment_char c then [c] else percent_byte c) @ path_escape s" by (simp add: path_escape_def)
  show ?case
  proof (cases "segment_char c")
    case True
    with percent_not_segment have "c \<noteq> CHR ''%''" by blast
    with True Cons show ?thesis by (simp add: e)
  next
    case False
    with Cons show ?thesis by (simp add: e unescape_percent_byte)
  qed
qed (simp add: path_escape_def)

lemma path_escape_chars: "set (path_escape s) \<subseteq> {c. segment_char c \<or> c = CHR ''%''}"
proof -
  have "set (percent_byte c) \<subseteq> {c. segment_char c \<or> c = CHR ''%''}" for c
    using nat_of_char_less_256 [of c] hex_digit_plain [of "of_char c div 16"] hex_digit_plain [of "of_char c mod 16"]
    by (auto simp: percent_byte_def segment_char_def less_mult_imp_div_less)
  then show ?thesis by (auto simp: path_escape_def split: if_splits)
qed

end
