(* ===== verification/CatalogPaths.thy ===== *)
theory CatalogPaths
  imports CatalogTypes GoUrl LocalModels
begin

section \<open>Names and places of models (\<^verbatim>\<open>url.go\<close> and \<^verbatim>\<open>huggingface.go\<close> of \<^verbatim>\<open>core/modelcatalog\<close>)\<close>

text \<open>
  The URL of a model, the path a file of it is stored at and the URL it is downloaded from. The lemmas show that a stored path stays
  inside the storage directory, whatever the names are, and that two files never share one.
\<close>

definition safe_segment :: "string \<Rightarrow> bool" where
  "safe_segment v = (if v = [] \<or> v = ''.'' \<or> v = ''..'' then False else \<not> contains_any v [slash, CHR 0x5C])"

definition hugging_face :: string where "hugging_face = ''https://huggingface.co/''"

definition parse_huggingface_url :: "string \<Rightarrow> gerror + model_source" where
  "parse_huggingface_url raw =
     (case url_parse (trim_space raw) of
        Inl err \<Rightarrow> Inl (Wrap [TextOf (Sentinel CatalogInvalidInput), Lit '': parse url: '', TextOf err] [Sentinel CatalogInvalidInput])
      | Inr parsed \<Rightarrow>
          if url_scheme parsed \<noteq> ''https'' \<or> url_host parsed \<noteq> ''huggingface.co''
          then Inl (catalog_invalid ''expected https://huggingface.co/{owner}/{repo}'')
          else
            (case split_on slash (trim_set (escaped_path parsed) [slash]) of
               [a, b] \<Rightarrow>
                 (case path_unescape a of
                    Inl _ \<Rightarrow> Inl (catalog_invalid ''invalid owner'')
                  | Inr owner \<Rightarrow>
                      (case path_unescape b of
                         Inl _ \<Rightarrow> Inl (catalog_invalid ''invalid repo'')
                       | Inr repo \<Rightarrow>
                           if \<not> safe_segment owner \<or> \<not> safe_segment repo
                           then Inl (catalog_invalid ''invalid Hugging Face owner or repo'')
                           else Inr \<lparr>src_kind = ''huggingface'', src_owner = owner, src_repo = repo,
                                     src_url = hugging_face @ owner @ [slash] @ repo\<rparr>))
             | _ \<Rightarrow> Inl (catalog_invalid ''expected Hugging Face model URL with owner and repo'')))"

definition source_from_model_id :: "string \<Rightarrow> model_source option" where
  "source_from_model_id i =
     (case split_on slash (trim_set i [slash]) of
        [a, b] \<Rightarrow> (if \<not> safe_segment a \<or> \<not> safe_segment b then None
                   else Some \<lparr>src_kind = ''huggingface'', src_owner = a, src_repo = b, src_url = hugging_face @ a @ [slash] @ b\<rparr>)
      | _ \<Rightarrow> None)"

definition repo_escaped :: "model_source \<Rightarrow> string" where
  "repo_escaped source = path_escape (src_owner source) @ [slash] @ path_escape (src_repo source)"

definition validate_relative_file_path :: "string \<Rightarrow> gerror option" where
  "validate_relative_file_path filename =
     (if filename = [] \<or> is_abs filename \<or> CHR 0x5C \<in> set filename then Some (catalog_invalid ''invalid model filename'')
      else if list_ex (\<lambda>part. part = [] \<or> part = ''.'' \<or> part = ''..'') (split_on slash filename)
      then Some (catalog_invalid ''invalid model filename'')
      else None)"

text \<open>\<^verbatim>\<open>filepath.FromSlash\<close> is the identity where paths are separated by slashes.\<close>

definition local_path :: "string \<Rightarrow> model_source \<Rightarrow> string \<Rightarrow> gerror + string" where
  "local_path storage source filename =
     (case validate_relative_file_path filename of
        Some err \<Rightarrow> Inl err
      | None \<Rightarrow>
          (let clean_target = clean (join_path [storage, src_owner source, src_repo source, filename]) in
           case rel_path (clean storage) clean_target of
             None \<Rightarrow> Inl (catalog_invalid ''model path escapes storage dir'')
           | Some rel \<Rightarrow>
               if rel = ''.'' \<or> has_prefix rel (''..'' @ [slash]) \<or> rel = ''..''
               then Inl (catalog_invalid ''model path escapes storage dir'')
               else Inr clean_target))"

definition download_url :: "string \<Rightarrow> model_source \<Rightarrow> string \<Rightarrow> gerror + string" where
  "download_url base source filename =
     (case validate_relative_file_path filename of
        Some err \<Rightarrow> Inl err
      | None \<Rightarrow> Inr (base @ [slash] @ repo_escaped source @ ''/resolve/main/'' @
                  join_with slash (map path_escape (split_on slash filename))))"

subsection \<open>Where a file is stored\<close>

lemma clean_rooted_abs [simp]: "is_abs p \<Longrightarrow> is_abs (clean p)"
  by (simp add: clean_rooted unparse_path_def is_abs_def has_prefix_def)

lemma path_elems_clean [simp]: "is_abs p \<Longrightarrow> path_elems (clean p) = path_elems p"
  using path_elems_rooted(1) [OF path_elems_plain [of p]] by (simp add: clean_rooted)

lemma valid_file_parts:
  assumes "validate_relative_file_path f = None"
  shows "\<forall>e \<in> set (split_on slash f). plain_elem e"
  using assms split_on_parts [of _ slash f]
  by (auto simp: validate_relative_file_path_def plain_elem_def list_ex_iff split: if_splits)

lemma safe_segment_plain: "safe_segment v \<Longrightarrow> plain_elem v"
  by (auto simp: safe_segment_def plain_elem_def contains_any_def list_ex_iff split: if_splits)

lemma join_abs: "is_abs d \<Longrightarrow> is_abs (join_with slash (d # es))"
  by (cases es) (auto simp: is_abs_def has_prefix_def prefix_def)

lemma join_path_rooted: "is_abs d \<Longrightarrow> join_path (d # es) = clean (join_with slash (d # es))"
  by (auto simp: join_path_def is_abs_def has_prefix_def)

lemma split_join_parts:
  "split_on slash (join_with slash (d # es)) = split_on slash d @ concat (map (split_on slash) es)"
proof (induction es arbitrary: d)
  case (Cons e es)
  have "join_with slash (d # e # es) = d @ slash # join_with slash (e # es)" by simp
  with Cons.IH [of e] show ?case by (simp add: split_on_append del: join_with.simps)
qed simp

lemma path_elems_join:
  assumes "is_abs d" "\<forall>x \<in> set (concat (map (split_on slash) es)). plain_elem x"
  shows "path_elems (join_path (d # es)) = path_elems d @ concat (map (split_on slash) es)"
proof -
  have abs: "is_abs (join_with slash (d # es))" using assms(1) by (rule join_abs)
  have "path_elems (join_with slash (d # es)) = clean_elems True (split_on slash d @ concat (map (split_on slash) es))"
    by (simp only: path_elems_def abs split_join_parts)
  also have "\<dots> = clean_elems True (split_on slash d) @ concat (map (split_on slash) es)"
    unfolding clean_elems_def foldl_append foldl_clean_id [OF assms(2)] by (simp only: rev_append rev_rev_ident)
  also have "clean_elems True (split_on slash d) = path_elems d"
    using assms(1) by (simp only: path_elems_def)
  finally show ?thesis by (simp only: join_path_rooted [OF assms(1)] path_elems_clean [OF abs])
qed

lemma local_path_cases:
  assumes "is_abs storage" "local_path storage source f = Inr p"
  shows "validate_relative_file_path f = None" "p = clean (join_path [storage, src_owner source, src_repo source, f])"
    "path_contains (clean storage) p" "rel_path (clean storage) p \<noteq> Some ''.''" "is_abs p"
proof -
  from assms show "validate_relative_file_path f = None" and p: "p = clean (join_path [storage, src_owner source, src_repo source, f])"
    and "path_contains (clean storage) p" "rel_path (clean storage) p \<noteq> Some ''.''"
    by (auto simp: local_path_def path_contains_def Let_def split: option.splits if_splits)
  show "is_abs p" using assms(1) by (simp add: p join_path_rooted join_abs del: join_with.simps)
qed

lemma local_path_elems:
  assumes "is_abs storage" "local_path storage source f = Inr p" "safe_segment (src_owner source)" "safe_segment (src_repo source)"
  shows "path_elems p = path_elems storage @ [src_owner source, src_repo source] @ split_on slash f"
proof -
  note l = local_path_cases [OF assms(1,2)]
  have o: "split_on slash (src_owner source) = [src_owner source]" "split_on slash (src_repo source) = [src_repo source]"
    using safe_segment_plain [OF assms(3)] safe_segment_plain [OF assms(4)] by (simp_all add: plain_elem_def)
  have "\<forall>x \<in> set (concat (map (split_on slash) [src_owner source, src_repo source, f])). plain_elem x"
    using safe_segment_plain [OF assms(3)] safe_segment_plain [OF assms(4)] valid_file_parts [OF l(1)] by (auto simp: o)
  from path_elems_join [OF assms(1) this]
  have "path_elems (join_path [storage, src_owner source, src_repo source, f]) = path_elems storage @ [src_owner source, src_repo source] @ split_on slash f"
    by (simp add: o)
  moreover have "is_abs (join_path [storage, src_owner source, src_repo source, f])"
    by (simp only: join_path_rooted [OF assms(1)] clean_rooted_abs [OF join_abs [OF assms(1)]])
  ultimately show ?thesis by (simp add: l(2))
qed

text \<open>C21: Whatever its owner, repository and file name are, a file of a model is stored strictly inside the storage directory, or the call
  fails: with an absolute storage directory no name reaches a path outside, not by \<^verbatim>\<open>..\<close>, slashes or an absolute name.
\<close>

theorem local_path_inside:
  assumes "is_abs storage" "local_path storage source f = Inr p"
  shows "is_abs p \<and> prefix (path_elems storage) (path_elems p) \<and> path_elems p \<noteq> path_elems storage"
proof -
  note l = local_path_cases [OF assms]
  have "prefix (path_elems storage) (path_elems p)"
    using path_contains_iff [of "clean storage" p] l(3,5) assms(1) by simp
  moreover have "path_elems p \<noteq> path_elems storage"
  proof
    assume eq: "path_elems p = path_elems storage"
    have "drop_common es es = ([], [])" for es :: "string list" by (induction es) auto
    then have "rel_path (clean storage) p = Some ''.''"
      using l(5) assms(1) eq by (simp add: rel_path_def unparse_path_def)
    with l(4) show False by blast
  qed
  ultimately show ?thesis using l(5) by blast
qed

theorem local_path_inside_witness:
  "prefix (path_elems ''/m'') (path_elems ''/m/o/r/q/f.gguf'')"
proof -
  have "is_abs ''/m''" "local_path ''/m'' \<lparr>src_kind = [], src_owner = ''o'', src_repo = ''r'', src_url = []\<rparr> ''q/f.gguf'' = Inr ''/m/o/r/q/f.gguf''"
    by code_simp+
  from local_path_inside [OF this] show ?thesis by blast
qed

text \<open>Two different files of models, of the same repository or of different ones, are never stored at the same path: the path determines
  the owner, the repository and the name of the file.
\<close>

theorem local_path_injective:
  assumes "is_abs storage" "local_path storage a f = Inr p" "local_path storage b g = Inr p"
    "safe_segment (src_owner a)" "safe_segment (src_repo a)" "safe_segment (src_owner b)" "safe_segment (src_repo b)"
  shows "src_owner a = src_owner b \<and> src_repo a = src_repo b \<and> f = g"
proof -
  have "[src_owner a, src_repo a] @ split_on slash f = [src_owner b, src_repo b] @ split_on slash g"
    using local_path_elems [OF assms(1,2,4,5)] local_path_elems [OF assms(1,3,6,7)] by simp
  then have eq: "src_owner a = src_owner b" "src_repo a = src_repo b" "split_on slash f = split_on slash g" by simp_all
  have "f = g" using arg_cong [OF eq(3), of "join_with slash"] by (simp only: join_split)
  with eq show ?thesis by simp
qed

theorem local_path_injective_witness:
  "src_owner \<lparr>src_kind = [], src_owner = ''o'', src_repo = ''r'', src_url = []\<rparr> = ''o''"
proof -
  let ?a = "\<lparr>src_kind = [], src_owner = ''o'', src_repo = ''r'', src_url = []\<rparr>"
  let ?b = "\<lparr>src_kind = ''huggingface'', src_owner = ''o'', src_repo = ''r'', src_url = ''u''\<rparr>"
  have "is_abs ''/m''" "local_path ''/m'' ?a ''f.gguf'' = Inr ''/m/o/r/f.gguf''" "local_path ''/m'' ?b ''f.gguf'' = Inr ''/m/o/r/f.gguf''"
    "safe_segment (src_owner ?a)" "safe_segment (src_repo ?a)" "safe_segment (src_owner ?b)" "safe_segment (src_repo ?b)"
    by code_simp+
  from local_path_injective [OF this] show ?thesis by simp
qed

subsection \<open>URLs of models\<close>

lemma unreserved_plain:
  assumes "unreserved c"
  shows "plain c" "c \<noteq> slash" "c \<noteq> CHR ''%''" "c \<noteq> CHR ''?''" "c \<noteq> CHR ''#''" "\<not> of_char c < (32 :: nat)" "of_char c \<noteq> (127 :: nat)"
    "path_char c"
  using assms by (auto simp: unreserved_def plain_def path_char_def less_eq_char_def)

lemma unescape_without_percent: "CHR ''%'' \<notin> set s \<Longrightarrow> path_unescape s = Inr s"
  by (induction s) auto

lemma escape_path_chars: "\<forall>c \<in> set s. path_char c \<Longrightarrow> escape_path s = s"
  by (induction s) (auto simp: escape_path_def)

definition url_char :: "char \<Rightarrow> bool" where
  "url_char c \<longleftrightarrow> c \<noteq> CHR ''#'' \<and> c \<noteq> CHR ''?'' \<and> c \<noteq> CHR ''%'' \<and> path_char c \<and> \<not> of_char c < (32 :: nat) \<and> of_char c \<noteq> (127 :: nat)"

lemma url_charD:
  assumes "url_char c"
  shows "c \<noteq> CHR ''#''" "c \<noteq> CHR ''?''" "c \<noteq> CHR ''%''" "path_char c" "\<not> of_char c < (32 :: nat)" "of_char c \<noteq> (127 :: nat)"
  using assms unfolding url_char_def by simp_all

lemma slash_url_char: "url_char slash"
  by code_simp

lemma unreserved_url_char: "unreserved c \<Longrightarrow> url_char c"
  unfolding url_char_def by (intro conjI unreserved_plain)

lemma url_authority: "parse_authority ''huggingface.co'' = Inr ''huggingface.co''"
  by code_simp

text \<open>The address of a path without escapes.\<close>

lemma url_parse_plain:
  assumes "\<forall>c \<in> set t. unreserved c \<or> c = slash"
  shows "url_parse (hugging_face @ t) =
    Inr \<lparr>url_scheme = ''https'', url_host = ''huggingface.co'', url_path = slash # t, url_raw_path = []\<rparr>"
proof -
  have url: "url_char c" if "c \<in> set t" for c using assms that unreserved_url_char slash_url_char by blast
  note chars = url_charD [OF url]
  have noq: "takeWhile (\<lambda>c. c \<noteq> CHR ''#'') t = t" "takeWhile (\<lambda>c. c \<noteq> CHR ''?'') t = t" using chars(1,2) by (auto simp: takeWhile_eq_all_conv)
  have body: "takeWhile (\<lambda>c. c \<noteq> CHR ''#'') (hugging_face @ t) = hugging_face @ t" by (simp add: hugging_face_def noq)
  have ctl: "\<not> list_ex (\<lambda>c. (of_char c :: nat) < 32 \<or> (of_char c :: nat) = 127) (hugging_face @ t)"
    using chars(5,6) by (auto simp: list_ex_iff hugging_face_def)
  have star: "hugging_face @ t \<noteq> ''*''" by (simp add: hugging_face_def)
  have scheme: "get_scheme (hugging_face @ t) = Inr (''https'', ''//huggingface.co/'' @ t)"
    by (simp add: get_scheme_def hugging_face_def url_letter_def url_digit_def less_eq_char_def)
  have path: "set_path ''https'' ''huggingface.co'' (slash # t) =
      Inr \<lparr>url_scheme = ''https'', url_host = ''huggingface.co'', url_path = slash # t, url_raw_path = []\<rparr>"
  proof -
    have "path_unescape (slash # t) = Inr (slash # t)" by (rule unescape_without_percent) (use chars(3) in auto)
    moreover have "escape_path (slash # t) = slash # t"
      by (rule escape_path_chars) (use chars(4) url_charD(4) [OF slash_url_char] in auto)
    ultimately show ?thesis by (simp add: set_path_def del: path_unescape.simps)
  qed
  have rest: "parse_rest ''https'' (''//huggingface.co/'' @ t) = set_path ''https'' ''huggingface.co'' (slash # t)"
    by (simp add: parse_rest_def noq has_prefix_def url_authority)
  have low: "map ascii_lower ''https'' = ''https''" by code_simp
  have frag: "path_unescape (drop (length (hugging_face @ t) + 1) (hugging_face @ t)) = Inr []" by simp
  show ?thesis
    unfolding url_parse_def Let_def body frag scheme if_not_P [OF ctl] if_not_P [OF star] sum.case prod.case low rest path ..
qed

text \<open>The name of a model in the listing and its URL denote the same model: for owners and repositories of unreserved characters the URL that
  the listing shows for a name is accepted by \<^verbatim>\<open>ParseHuggingFaceURL\<close>, which returns the same source.
\<close>

theorem listed_url_resolves:
  assumes "safe_segment a" "safe_segment b" "\<forall>c \<in> set (a @ b). unreserved c"
  shows "\<exists>s. source_from_model_id (a @ [slash] @ b) = Some s \<and> parse_huggingface_url (src_url s) = Inr s
    \<and> src_owner s = a \<and> src_repo s = b"
proof -
  have ne: "a \<noteq> []" "b \<noteq> []" using assms(1,2) by (auto simp: safe_segment_def)
  have ns: "slash \<notin> set a" "slash \<notin> set b" "CHR ''%'' \<notin> set a" "CHR ''%'' \<notin> set b" using assms(3) unreserved_plain by auto
  let ?t = "a @ [slash] @ b"
  have tl: "trim_left_set ?t [slash] = ?t" "trim_left_set (slash # ?t) [slash] = ?t"
    using ne ns by (cases a; auto simp: trim_left_set_def)+
  have tr: "trim_right_set ?t [slash] = ?t" "trim_right_set (slash # ?t) [slash] = slash # ?t"
  proof -
    obtain d c where b: "b = d @ [c]" using ne(2) by (cases b rule: rev_cases) auto
    with ns(2) show "trim_right_set ?t [slash] = ?t" "trim_right_set (slash # ?t) [slash] = slash # ?t"
      using trim_right_set_last [of c "[slash]" "a @ [slash] @ d"] trim_right_set_last [of c "[slash]" "slash # a @ [slash] @ d"]
      by auto
  qed
  have trims: "trim_set ?t [slash] = ?t" "trim_set (slash # ?t) [slash] = ?t" by (simp_all only: trim_set_def tl tr)
  have split: "split_on slash ?t = [a, b]" using ns by (simp add: split_on_append)
  let ?s = "\<lparr>src_kind = ''huggingface'', src_owner = a, src_repo = b, src_url = hugging_face @ ?t\<rparr>"
  have id: "source_from_model_id ?t = Some ?s" using assms(1,2) by (simp add: source_from_model_id_def trims [simplified] split [simplified])
  have space: "trim_space (hugging_face @ ?t) = hugging_face @ ?t"
    using ne assms(3) unreserved_plain(1) [of "last b"]
    by (intro trim_space_plain_ends) (auto simp: hugging_face_def plain_def)
  have "\<forall>c \<in> set ?t. unreserved c \<or> c = slash" using assms(3) by auto
  note url = url_parse_plain [OF this]
  have esc: "escaped_path \<lparr>url_scheme = ''https'', url_host = ''huggingface.co'', url_path = slash # ?t, url_raw_path = []\<rparr> = slash # ?t"
  proof -
    have "\<forall>c \<in> set (slash # ?t). path_char c"
      using assms(3) unreserved_plain(8) url_charD(4) [OF slash_url_char] by auto
    from escape_path_chars [OF this] show ?thesis by (simp add: escaped_path_def)
  qed
  have "parse_huggingface_url (src_url ?s) = Inr ?s"
    using assms(1,2) ns(3,4)
    by (simp add: parse_huggingface_url_def space [simplified] url [simplified] esc [simplified] trims [simplified] split [simplified] unescape_without_percent)
  with id show ?thesis by auto
qed

theorem listed_url_resolves_witness:
  "\<exists>s. source_from_model_id ''o/r-1.0'' = Some s \<and> parse_huggingface_url (src_url s) = Inr s"
  using listed_url_resolves [of "''o''" "''r-1.0''"] by (auto simp: safe_segment_def contains_any_def unreserved_def less_eq_char_def)

text \<open>The URL of a source is not escaped: a source whose owner has a reserved character has a URL that is refused.\<close>

lemma canonical_url_refused:
  "case parse_huggingface_url ''https://huggingface.co/a%3Fb/c'' of
     Inl _ \<Rightarrow> False
   | Inr s \<Rightarrow> src_owner s = ''a?b'' \<and> src_url s = ''https://huggingface.co/a?b/c''
       \<and> (case parse_huggingface_url (src_url s) of Inl _ \<Rightarrow> True | Inr _ \<Rightarrow> False)"
  by code_simp

end
