(* ===== verification/CatalogClient.thy ===== *)
theory CatalogClient
  imports CatalogRanking CatalogPaths Machine FileDocProps
begin

section \<open>The Hugging Face catalog (\<^verbatim>\<open>huggingface.go\<close>, \<^verbatim>\<open>cache.go\<close> and \<^verbatim>\<open>events.go\<close> of \<^verbatim>\<open>core/modelcatalog\<close>)\<close>

text \<open>
  The calls of the catalog over the machine's files, clock and network. JSON and the layout of time stamps are given by a codec; a listing is
  scored at one reading of the clock (the code reads it once for each model). \<open>rr_start\<close> of a listing says that it started
  \<^verbatim>\<open>refreshAsync\<close>; the goroutine and the table of running refreshes are \<open>refresh_work\<close> and \<open>refresh_begin\<close>, \<open>refresh_end\<close>.
\<close>

record catalog_cache =
  cc_dir :: string
  cc_ttl :: int

text \<open>Raw JSON is kept as the text it was; \<open>ce_raw_models\<close> is a map, its last entry for a key counts.\<close>

record cache_entry =
  ce_updated_at :: string
  ce_params :: normalized_params
  ce_machine :: machine_profile
  ce_result :: list_result
  ce_raw_list :: string
  ce_raw_models :: "(string \<times> string) list"

record catalog_codec =
  jc_params :: "normalized_params \<Rightarrow> string"
  jc_entry :: "cache_entry \<Rightarrow> gerror + string"
  jc_read_entry :: "string \<Rightarrow> gerror + cache_entry"
  jc_listed :: "string \<Rightarrow> gerror + listed_model list"
  jc_info :: "string \<Rightarrow> gerror + model_info"
  jc_format :: "int \<Rightarrow> string"
  jc_parse :: "string \<Rightarrow> int option"
  jc_log :: "int \<Rightarrow> rat"

record hf_catalog =
  hf_storage :: string
  hf_base :: string
  hf_cache :: "catalog_cache option"
  hf_codec :: catalog_codec

record hf_options =
  ho_storage :: string
  ho_base :: string
  ho_cache_dir :: string
  ho_cache_ttl :: int

definition new_catalog_cache :: "string \<Rightarrow> int \<Rightarrow> catalog_cache option" where
  "new_catalog_cache dir ttl = (if dir = [] \<or> ttl \<le> 0 then None else Some \<lparr>cc_dir = clean dir, cc_ttl = ttl\<rparr>)"

definition new_hugging_face_catalog :: "catalog_codec \<Rightarrow> hf_options \<Rightarrow> hf_catalog" where
  "new_hugging_face_catalog codec opts =
     \<lparr>hf_storage = clean (ho_storage opts),
      hf_base = trim_right_set (or_text [ho_base opts, ''https://huggingface.co'']) [slash],
      hf_cache = new_catalog_cache (ho_cache_dir opts) (ho_cache_ttl opts), hf_codec = codec\<rparr>"

text \<open>\<^verbatim>\<open>time.Since\<close> saturates at the bounds of a 64-bit duration; a day is 86400 seconds of \<open>10 ^ 9\<close> nanoseconds.\<close>

definition saturate64 :: "int \<Rightarrow> int" where
  "saturate64 d = max (- (2 ^ 63)) (min (2 ^ 63 - 1) d)"

definition scores_at :: "catalog_codec \<Rightarrow> int \<Rightarrow> score_env" where
  "scores_at codec now =
     \<lparr>sv_log = jc_log codec,
      sv_age_days = (\<lambda>s. map_option (\<lambda>t. of_int (saturate64 (now - t)) / 86400000000000) (jc_parse codec s))\<rparr>"

subsection \<open>Requests\<close>

definition fetch_bytes :: "string \<Rightarrow> ('z, string \<times> int) mio" where
  "fetch_bytes endpoint w =
     (case mc_bad_url w endpoint of
        Some err \<Rightarrow> (Inl err, w)
      | None \<Rightarrow>
          bindE (exchange \<lparr>hq_method = ''GET'', hq_url = endpoint, hq_model = None\<rparr>) (\<lambda>resp.
            if hp_status resp < 200 \<or> 300 \<le> hp_status resp then retE ([], hp_status resp)
            else
              (case (length (hp_body resp) < 10 * 2 ^ 20, hp_read_err resp) of
                 (True, Some err) \<Rightarrow> failE err
               | _ \<Rightarrow> retE (take (10 * 2 ^ 20) (hp_body resp), hp_status resp))) w)"

definition fetch_json :: "string \<Rightarrow> string \<Rightarrow> gerror option \<Rightarrow> (string \<Rightarrow> gerror + 'a) \<Rightarrow> ('z, 'a \<times> string) mio" where
  "fetch_json endpoint label not_found decode =
     tryE (fetch_bytes endpoint)
       (\<lambda>err. failE (Wrap [Lit ''fetch '', Str label, Lit '': '', TextOf err] [err]))
       (\<lambda>(raw, status).
          case (status = 404, not_found) of
            (True, Some err) \<Rightarrow> failE err
          | _ \<Rightarrow>
              if status < 200 \<or> 300 \<le> status then failE (Plain [Lit ''fetch '', Str label, Lit '': status '', Num status])
              else (case decode raw of
                      Inl err \<Rightarrow> failE (Wrap [Lit ''decode '', Str label, Lit '': '', TextOf err] [err])
                    | Inr x \<Rightarrow> retE (x, raw)))"

text \<open>The base URL has no query of its own; \<^verbatim>\<open>Encode\<close> sorts the keys.\<close>

definition top_models_query :: "normalized_params \<Rightarrow> string" where
  "top_models_query p =
     encode_query
       ([(''direction'', ''-1''), (''limit'', int_text (np_limit p)), (''pipeline_tag'', ''text-generation'')] @
        (if np_search p \<noteq> [] then [(''search'', np_search p)] else []) @ [(''sort'', hf_sort (np_sort p))])"

definition fetch_top_models :: "hf_catalog \<Rightarrow> normalized_params \<Rightarrow> ('z, listed_model list \<times> string) mio" where
  "fetch_top_models c p =
     (case url_parse (hf_base c @ ''/api/models'') of
        Inl err \<Rightarrow> failE err
      | Inr _ \<Rightarrow> fetch_json (hf_base c @ ''/api/models?'' @ top_models_query p) ''Hugging Face model list'' None (jc_listed (hf_codec c)))"

definition repo_not_found :: gerror where
  "repo_not_found = Wrap [TextOf (Sentinel CatalogNotFound), Lit '': Hugging Face repo not found''] [Sentinel CatalogNotFound]"

definition fetch_model_info_raw :: "hf_catalog \<Rightarrow> model_source \<Rightarrow> ('z, model_info \<times> string) mio" where
  "fetch_model_info_raw c source =
     fetch_json (hf_base c @ ''/api/models/'' @ repo_escaped source @ ''?blobs=true'') ''Hugging Face metadata''
       (Some repo_not_found) (jc_info (hf_codec c))"

subsection \<open>The description in a README\<close>

text \<open>\<^verbatim>\<open>"\ufeff\r\n\t "\<close> as byte strings, and the lines after the fence that closes the front matter.\<close>

definition frontmatter_space :: "string list" where
  "frontmatter_space = [[CHR 0xEF, CHR 0xBB, CHR 0xBF], [CHR 0x0D], [CHR 0x0A], [CHR 0x09], [CHR '' '']]"

fun after_fence :: "string list \<Rightarrow> string list option" where
  "after_fence [] = None"
| "after_fence (l # ls) = (if trim_space l = ''---'' then Some ls else after_fence ls)"

definition strip_frontmatter :: "string \<Rightarrow> string" where
  "strip_frontmatter readme =
     (let txt = strip_words frontmatter_space readme in
      if \<not> has_prefix txt ''---'' then readme
      else (case after_fence (tl (split_on CHR 0x0A txt)) of None \<Rightarrow> readme | Some ls \<Rightarrow> join_with CHR 0x0A ls))"

definition skip_description_line :: "string \<Rightarrow> bool" where
  "skip_description_line line \<longleftrightarrow>
     line = [] \<or> has_prefix line ''#'' \<or> has_prefix line ''|'' \<or> str_contains line ''[!['' \<or> has_prefix line ''!['' "

text \<open>Position of the last blank, tab or line end (\<^verbatim>\<open>LastIndexAny\<close>), \<open>None\<close> for -1.\<close>

definition last_index_any :: "string \<Rightarrow> string \<Rightarrow> nat option" where
  "last_index_any s chars =
     (let after = takeWhile (\<lambda>c. c \<notin> set chars) (rev s) in
      if length after = length s then None else Some (length s - length after - 1))"

definition truncate_words :: "string \<Rightarrow> nat \<Rightarrow> string" where
  "truncate_words txt max_len =
     (if length txt \<le> max_len then trim_space txt
      else
        (let cut = (case last_index_any (take max_len txt) [CHR '' '', CHR 0x09, CHR 0x0A] of
                      None \<Rightarrow> max_len | Some i \<Rightarrow> (if i = 0 then max_len else i))
         in trim_space (take cut txt) @ [CHR 0xE2, CHR 0x80, CHR 0xA6]))"

fun summarize_lines :: "bool \<Rightarrow> string list \<Rightarrow> string" where
  "summarize_lines in_fence [] = []"
| "summarize_lines in_fence (line # lines) =
     (let txt = trim_space line in
      if has_prefix txt ''```'' then summarize_lines (\<not> in_fence) lines
      else if in_fence then summarize_lines in_fence lines
      else if skip_description_line txt then summarize_lines in_fence lines
      else truncate_words txt 280)"

definition summarize_readme :: "string \<Rightarrow> string" where
  "summarize_readme readme = summarize_lines False (split_on CHR 0x0A (strip_frontmatter readme))"

definition fetch_description :: "hf_catalog \<Rightarrow> model_source \<Rightarrow> ('z, string) mio" where
  "fetch_description c source =
     tryE (fetch_bytes (hf_base c @ [slash] @ repo_escaped source @ ''/raw/main/README.md'')) (\<lambda>_. retE [])
       (\<lambda>(raw, status). if status < 200 \<or> 300 \<le> status then retE [] else retE (summarize_readme raw))"

subsection \<open>Files\<close>

fun files_of :: "string \<Rightarrow> model_source \<Rightarrow> sibling list \<Rightarrow> ('z, catalog_file list) io" where
  "files_of storage source [] = retE []"
| "files_of storage source (item # items) =
     (if \<not> has_suffix (to_lower (sb_rfilename item)) ''.gguf'' then files_of storage source items
      else
        (case local_path storage source (sb_rfilename item) of
           Inl err \<Rightarrow> failE err
         | Inr path \<Rightarrow>
             bindE (tryE (os_stat path) (\<lambda>_. retE False) (\<lambda>_. retE True)) (\<lambda>present.
             bindE (files_of storage source items) (\<lambda>files.
               retE (\<lparr>fl_filename = sb_rfilename item, fl_quant = infer_quant (sb_rfilename item),
                      fl_size_bytes = (case sb_lfs item of Some n \<Rightarrow> (if n > 0 then n else sb_size item) | None \<Rightarrow> sb_size item),
                      fl_downloadable = True, fl_local_path = path, fl_exists = present, fl_est_ram_bytes = 0, fl_est_vram_bytes = 0,
                      fl_fit_level = [], fl_fit_reason = []\<rparr> # files)))))"

definition files_for :: "hf_catalog \<Rightarrow> model_source \<Rightarrow> sibling list \<Rightarrow> ('z, catalog_file list) io" where
  "files_for c source siblings = bindE (files_of (hf_storage c) source siblings) (\<lambda>out. retE (sort_key fl_filename out))"

text \<open>An empty list of files is also what a model that does not pass has.\<close>

definition catalog_files ::
  "hf_catalog \<Rightarrow> model_source \<Rightarrow> sibling list \<Rightarrow> normalized_params \<Rightarrow> machine_profile \<Rightarrow> ('z, catalog_file list) io" where
  "catalog_files c source siblings p machine =
     bindE (files_for c source siblings) (\<lambda>found.
       let files = map (\<lambda>f. estimate_file_fit f machine) found in
       case best_file files of
         None \<Rightarrow> retE []
       | Some best \<Rightarrow>
           if \<not> passes_min_fit (fl_fit_level best) (np_min_fit p) \<or> (np_local_only p \<and> \<not> fl_exists best) then retE []
           else retE files)"

subsection \<open>Resolving a URL\<close>

definition resolve :: "hf_catalog \<Rightarrow> string \<Rightarrow> ('z, resolution) mio" where
  "resolve c raw_url =
     (case parse_huggingface_url raw_url of
        Inl err \<Rightarrow> failE err
      | Inr source \<Rightarrow>
          bindE (fetch_model_info_raw c source) (\<lambda>(info, _).
          bindE (files_for c source (mi_siblings info)) (\<lambda>files.
            if files = [] then failE (catalog_invalid ''expected a Hugging Face model URL containing downloadable .gguf files'')
            else
              (case model_metadata info of
                 (params, arch, ctx_len, moe) \<Rightarrow>
                   bindE (fetch_description c source) (\<lambda>description.
                     retE \<lparr>rs_ok = True, rs_source = source,
                           rs_llama_cpp = \<lparr>lc_compatible = True, lc_hf_ref = src_owner source @ [slash] @ src_repo source, lc_reason = []\<rparr>,
                           rs_description = description, rs_params = params, rs_architecture = arch, rs_context_length = ctx_len,
                           rs_is_moe = moe, rs_files = files\<rparr>)))))"

end
