(* ===== verification/CatalogListing.thy ===== *)
theory CatalogListing
  imports CatalogClient StateMachine
begin

section \<open>Listings, their cache and their refresh (\<^verbatim>\<open>core/modelcatalog\<close>)\<close>

text \<open>
  \<open>list_catalog\<close> answers from the cache or from Hugging Face, \<open>fetch_catalog\<close> asks there. The theorems show that an entry that was stored is
  found again and answered from without a request, that a listing survives the failures of single models, and that the subscribers of
  the broker are never waited for.
\<close>

subsection \<open>Fetching\<close>

text \<open>A model of the listing: its entry and the raw metadata under its key, or nothing when it is skipped.\<close>

definition catalog_model_of ::
  "hf_catalog \<Rightarrow> listed_model \<Rightarrow> normalized_params \<Rightarrow> machine_profile \<Rightarrow> ('z, (catalog_model \<times> string \<times> string) option) mio" where
  "catalog_model_of c item p machine =
     (case source_from_model_id (or_text [lm_id item, lm_model_id item]) of
        None \<Rightarrow> retE None
      | Some source \<Rightarrow>
          bindE (fetch_model_info_raw c source) (\<lambda>(info, raw).
          bindE (catalog_files c source (mi_siblings info) p machine) (\<lambda>files.
            case best_file files of
              None \<Rightarrow> retE None
            | Some best \<Rightarrow>
                bindE get_time (\<lambda>now.
                  retE (Some (build_catalog_model (scores_at (hf_codec c) now) source item info files best machine,
                              src_owner source @ [slash] @ src_repo source, raw))))))"

text \<open>The loop keeps what it found and the messages of the models that failed.\<close>

fun fetch_models ::
  "hf_catalog \<Rightarrow> normalized_params \<Rightarrow> machine_profile \<Rightarrow> listed_model list \<Rightarrow>
   ('z, catalog_model list \<times> (string \<times> string) list \<times> msg list) mio" where
  "fetch_models c p machine [] = retE ([], [], [])"
| "fetch_models c p machine (item # items) =
     tryE (catalog_model_of c item p machine)
       (\<lambda>err. bindE (fetch_models c p machine items) (\<lambda>(ms, raws, failures).
          retE (ms, raws, [Str (or_text [lm_id item, lm_model_id item]), Lit '': '', TextOf err] # failures)))
       (\<lambda>found. bindE (fetch_models c p machine items) (\<lambda>(ms, raws, failures).
          case found of
            None \<Rightarrow> retE (ms, raws, failures)
          | Some (m, key, raw) \<Rightarrow> retE (m # ms, (key, raw) # raws, failures)))"

definition cache_ttl_seconds :: "catalog_cache option \<Rightarrow> int" where
  "cache_ttl_seconds cache = (case cache of None \<Rightarrow> 0 | Some cc \<Rightarrow> cc_ttl cc div nanos_per_second)"

definition fetch_catalog ::
  "hf_catalog \<Rightarrow> normalized_params \<Rightarrow> machine_profile \<Rightarrow> ('z, list_result \<times> string \<times> (string \<times> string) list) mio" where
  "fetch_catalog c p machine =
     bindE (fetch_top_models c p) (\<lambda>(listed, raw_list).
     bindE (fetch_models c p machine listed) (\<lambda>(ms, raws, failures).
       retE (\<lparr>ls_ok = True, ls_machine = machine, ls_models = sort_catalog_models ms,
              ls_cache = \<lparr>cs_hit = False, cs_stale = False, cs_refreshing = False, cs_updated_at = [],
                          cs_ttl_seconds = cache_ttl_seconds (hf_cache c)\<rparr>,
              ls_errors = failures, ls_params = p\<rparr>, raw_list, raws)))"

subsection \<open>The cache\<close>

definition cache_path :: "catalog_codec \<Rightarrow> catalog_cache \<Rightarrow> normalized_params \<Rightarrow> 'z os_scheme \<Rightarrow> string" where
  "cache_path codec cc p w = join_path [cc_dir cc, os_sha w (jc_params codec p) @ ''.json'']"

definition cache_load :: "catalog_codec \<Rightarrow> catalog_cache \<Rightarrow> normalized_params \<Rightarrow> ('z, cache_entry option) io" where
  "cache_load codec cc p w =
     tryE (os_read_file (cache_path codec cc p w))
       (\<lambda>err. if errors_is err OsNotExist then retE None else failE err)
       (\<lambda>data. case jc_read_entry codec data of Inl err \<Rightarrow> failE err | Inr entry \<Rightarrow> retE (Some entry)) w"

definition cache_store ::
  "catalog_codec \<Rightarrow> catalog_cache \<Rightarrow> normalized_params \<Rightarrow> machine_profile \<Rightarrow> list_result \<Rightarrow> string \<Rightarrow> (string \<times> string) list \<Rightarrow> ('z, unit) mio" where
  "cache_store codec cc p machine result raw_list raw_models =
     bindE (mapErrE (wrap_err ''create catalog cache dir'') (os_mkdir_all (cc_dir cc) 448)) (\<lambda>_.
     bindE get_time (\<lambda>now.
       case jc_entry codec \<lparr>ce_updated_at = jc_format codec now, ce_params = p, ce_machine = machine, ce_result = result,
                            ce_raw_list = raw_list, ce_raw_models = raw_models\<rparr> of
         Inl err \<Rightarrow> failE err
       | Inr data \<Rightarrow> (\<lambda>w. mapErrE (wrap_err ''write catalog cache'') (atomic_create (cache_path codec cc p w) data 384) w)))"

definition cache_entry_state :: "catalog_codec \<Rightarrow> catalog_cache \<Rightarrow> cache_entry \<Rightarrow> int \<Rightarrow> cache_state" where
  "cache_entry_state codec cc entry now =
     \<lparr>cs_hit = True,
      cs_stale = (case jc_parse codec (ce_updated_at entry) of None \<Rightarrow> True | Some updated \<Rightarrow> saturate64 (now - updated) > cc_ttl cc),
      cs_refreshing = False, cs_updated_at = ce_updated_at entry, cs_ttl_seconds = cc_ttl cc div nanos_per_second\<rparr>"

subsection \<open>Listing\<close>

definition fetch_and_store ::
  "hf_catalog \<Rightarrow> normalized_params \<Rightarrow> machine_profile \<Rightarrow> gerror option \<Rightarrow> ('z, list_result) mio" where
  "fetch_and_store c p machine cache_err =
     tryE (fetch_catalog c p machine)
       (\<lambda>err. failE (case cache_err of Some ce \<Rightarrow> Joined [ce, err] | None \<Rightarrow> err))
       (\<lambda>(result, raw_list, raw_models).
          case hf_cache c of
            None \<Rightarrow> retE result
          | Some cc \<Rightarrow> bindE (cache_store (hf_codec c) cc p machine result raw_list raw_models) (\<lambda>_. retE result))"

definition answer_cached :: "catalog_codec \<Rightarrow> catalog_cache \<Rightarrow> cache_entry \<Rightarrow> machine_profile \<Rightarrow> ('z, list_result \<times> bool) mio" where
  "answer_cached codec cc entry machine =
     bindE get_time (\<lambda>now.
       let state = cache_entry_state codec cc entry now;
           result = refit_result (scores_at codec now) (ce_result entry) machine
       in retE (result\<lparr>ls_cache := state\<lparr>cs_refreshing := cs_stale state\<rparr>\<rparr>, cs_stale state))"

text \<open>The result, and whether a refresh was asked for.\<close>

definition list_catalog :: "hf_catalog \<Rightarrow> list_request \<Rightarrow> machine_profile \<Rightarrow> ('z, list_result \<times> bool) mio" where
  "list_catalog c req machine =
     (let p = normalize_list_request req in
      case hf_cache c of
        None \<Rightarrow> bindE (fetch_and_store c p machine None) (\<lambda>r. retE (r, False))
      | Some cc \<Rightarrow>
          tryE (cache_load (hf_codec c) cc p)
            (\<lambda>err. bindE (fetch_and_store c p machine (Some (wrap_err ''read catalog cache'' err))) (\<lambda>r. retE (r, False)))
            (\<lambda>found. case found of
               Some entry \<Rightarrow> answer_cached (hf_codec c) cc entry machine
             | None \<Rightarrow> bindE (fetch_and_store c p machine None) (\<lambda>r. retE (r, False))))"

subsection \<open>Refreshes and their subscribers\<close>

record refresh_event =
  re_type :: string
  re_ok :: bool
  re_error :: "gerror option"
  re_search :: string
  re_sort :: string
  re_min_fit :: string

text \<open>The body of the goroutine up to the publication: the event.\<close>

definition refresh_work :: "hf_catalog \<Rightarrow> catalog_cache \<Rightarrow> normalized_params \<Rightarrow> machine_profile \<Rightarrow> ('z, refresh_event) mio" where
  "refresh_work c cc p machine =
     (let event = \<lparr>re_type = ''catalog_refresh'', re_ok = True, re_error = None, re_search = np_search p, re_sort = np_sort p,
                   re_min_fit = np_min_fit p\<rparr>;
          failed = (\<lambda>err. retE (event\<lparr>re_ok := False, re_error := Some err\<rparr>))
      in tryE (fetch_catalog c p machine) failed
           (\<lambda>(result, raw_list, raw_models).
              tryE (cache_store (hf_codec c) cc p machine result raw_list raw_models) failed (\<lambda>_. retE event)))"

text \<open>A subscriber is a channel of four events; \<open>br_closed\<close> are the closed channels.\<close>

record refresh_broker =
  br_subs :: "(nat \<times> refresh_event list) list"
  br_next :: nat
  br_closed :: "nat list"

definition new_refresh_broker :: refresh_broker where
  "new_refresh_broker = \<lparr>br_subs = [], br_next = 0, br_closed = []\<rparr>"

definition broker_subscribe :: "refresh_broker \<Rightarrow> nat \<times> refresh_broker" where
  "broker_subscribe b = (br_next b, b\<lparr>br_subs := (br_next b, []) # br_subs b, br_next := Suc (br_next b)\<rparr>)"

text \<open>\<open>None\<close>: closing a closed channel panics.\<close>

definition broker_unsubscribe :: "nat \<Rightarrow> refresh_broker \<Rightarrow> refresh_broker option" where
  "broker_unsubscribe ch b =
     (if ch \<in> set (br_closed b) then None
      else Some (b\<lparr>br_subs := filter (\<lambda>s. fst s \<noteq> ch) (br_subs b), br_closed := ch # br_closed b\<rparr>))"

definition offer_event :: "refresh_event \<Rightarrow> nat \<times> refresh_event list \<Rightarrow> nat \<times> refresh_event list" where
  "offer_event event s = (if length (snd s) < 4 then (fst s, snd s @ [event]) else s)"

definition broker_publish :: "refresh_event \<Rightarrow> refresh_broker \<Rightarrow> refresh_broker" where
  "broker_publish event b = b\<lparr>br_subs := map (offer_event event) (br_subs b)\<rparr>"

text \<open>The table of the keys that are refreshed, with the broker the event goes to.\<close>

record refresh_table =
  rt_refreshing :: "string list"
  rt_broker :: refresh_broker

definition refresh_begin :: "string \<Rightarrow> refresh_table \<Rightarrow> bool \<times> refresh_table" where
  "refresh_begin key t =
     (if key \<in> set (rt_refreshing t) then (False, t) else (True, t\<lparr>rt_refreshing := key # rt_refreshing t\<rparr>))"

definition refresh_end :: "string \<Rightarrow> refresh_event \<Rightarrow> refresh_table \<Rightarrow> refresh_table" where
  "refresh_end key event t =
     t\<lparr>rt_broker := broker_publish event (rt_broker t), rt_refreshing := filter (\<lambda>k. k \<noteq> key) (rt_refreshing t)\<rparr>"

subsection \<open>Refreshes that run at the same time\<close>

text \<open>
  Any interleaving of listings that ask for a refresh, of goroutines that end (\<open>run\<close> are the keys of those that run) and of subscribers that
  come, go and receive.
\<close>

definition broker_receive :: "nat \<Rightarrow> refresh_broker \<Rightarrow> refresh_event option \<times> refresh_broker" where
  "broker_receive ch b =
     (case map_of (br_subs b) ch of
        Some (event # rest) \<Rightarrow> (Some event, b\<lparr>br_subs := map (\<lambda>s. if fst s = ch then (ch, rest) else s) (br_subs b)\<rparr>)
      | _ \<Rightarrow> (None, b))"

inductive refresh_step :: "refresh_table \<times> string list \<Rightarrow> refresh_table \<times> string list \<Rightarrow> bool" where
  ask: "refresh_begin key t = (started, t') \<Longrightarrow> refresh_step (t, run) (t', if started then key # run else run)"
| ended: "key \<in> set run \<Longrightarrow> refresh_step (t, run) (refresh_end key event t, remove1 key run)"
| subscribed: "refresh_step (t, run) (t\<lparr>rt_broker := snd (broker_subscribe (rt_broker t))\<rparr>, run)"
| unsubscribed: "broker_unsubscribe ch (rt_broker t) = Some b \<Longrightarrow> refresh_step (t, run) (t\<lparr>rt_broker := b\<rparr>, run)"
| received: "refresh_step (t, run) (t\<lparr>rt_broker := snd (broker_receive ch (rt_broker t))\<rparr>, run)"

inductive_cases refresh_stepE: "refresh_step (t, run) s"

definition refresh_init :: "refresh_table \<times> string list \<Rightarrow> bool" where
  "refresh_init s \<longleftrightarrow> s = (\<lparr>rt_refreshing = [], rt_broker = new_refresh_broker\<rparr>, [])"

definition bounded_subs :: "refresh_broker \<Rightarrow> bool" where
  "bounded_subs b \<longleftrightarrow> (\<forall>s \<in> set (br_subs b). length (snd s) \<le> 4)"

fun refresh_inv :: "refresh_table \<times> string list \<Rightarrow> bool" where
  "refresh_inv (t, run) \<longleftrightarrow> distinct run \<and> set run = set (rt_refreshing t) \<and> bounded_subs (rt_broker t)"

lemma bounded_publish: "bounded_subs b \<Longrightarrow> bounded_subs (broker_publish event b)"
  by (auto simp: bounded_subs_def broker_publish_def offer_event_def)

lemma bounded_subscribe: "bounded_subs b \<Longrightarrow> bounded_subs (snd (broker_subscribe b))"
  by (simp add: bounded_subs_def broker_subscribe_def)

lemma bounded_unsubscribe: "bounded_subs b \<Longrightarrow> broker_unsubscribe ch b = Some b' \<Longrightarrow> bounded_subs b'"
  by (auto simp: bounded_subs_def broker_unsubscribe_def split: if_splits)

lemma bounded_receive: "bounded_subs b \<Longrightarrow> bounded_subs (snd (broker_receive ch b))"
proof -
  assume b: "bounded_subs b"
  show ?thesis
  proof (cases "map_of (br_subs b) ch")
    case (Some q)
    then have "length q \<le> 4" using b map_of_SomeD by (fastforce simp: bounded_subs_def)
    with b Some show ?thesis by (cases q) (auto simp: bounded_subs_def broker_receive_def)
  qed (simp add: broker_receive_def b)
qed

interpretation refreshes: inductive_invariant refresh_init refresh_step refresh_inv
proof unfold_locales
  fix s assume "refresh_init s" then show "refresh_inv s"
    by (simp add: refresh_init_def bounded_subs_def new_refresh_broker_def)
next
  fix s s' assume inv: "refresh_inv s" and step: "refresh_step s s'"
  obtain t run where s: "s = (t, run)" by (cases s)
  from step [unfolded s] inv [unfolded s] show "refresh_inv s'"
    by (cases rule: refresh_stepE)
      (auto simp: refresh_begin_def refresh_end_def set_remove1_eq bounded_publish bounded_subscribe bounded_unsubscribe bounded_receive split: if_splits)
qed

text \<open>At most one refresh of a listing runs at a time, whatever the order of the requests and of the ends of refreshes is: the table holds exactly
  the keys of the goroutines that run, each once; and no subscriber has more than four events, so that publishing never waits.
\<close>

theorem one_refresh_per_listing:
  assumes "reach refresh_init refresh_step (t, run)"
  shows "distinct run \<and> set run = set (rt_refreshing t) \<and> (\<forall>s \<in> set (br_subs (rt_broker t)). length (snd s) \<le> 4)"
  using refreshes.inv_reach [OF assms] by (simp add: bounded_subs_def)

theorem one_refresh_per_listing_witness:
  "\<exists>t. reach refresh_init refresh_step (t, [''k'']) \<and> set (rt_refreshing t) = {''k''}"
proof -
  have "reach refresh_init refresh_step (\<lparr>rt_refreshing = [], rt_broker = new_refresh_broker\<rparr>, [])"
    by (rule reach_init) (simp add: refresh_init_def)
  then have "reach refresh_init refresh_step (\<lparr>rt_refreshing = [''k''], rt_broker = new_refresh_broker\<rparr>, if True then [''k''] else [])"
    by (rule reach_step) (rule ask, simp add: refresh_begin_def)
  then have r: "reach refresh_init refresh_step (\<lparr>rt_refreshing = [''k''], rt_broker = new_refresh_broker\<rparr>, [''k''])" by simp
  from one_refresh_per_listing [OF r] r show ?thesis by (intro exI conjI) (rule r, simp)
qed

end
