(* ===== verification/CatalogProps.thy ===== *)
theory CatalogProps
  imports CatalogListing
begin

section \<open>Properties of the catalog\<close>

text \<open>What a fetched listing holds, that single failures do not lose it, and how a stored listing is answered again.\<close>

subsection \<open>What is listed\<close>

lemma estimate_best_level:
  "fl_fit_level (estimate_file_fit f machine) = mf_level (estimate_fit (fl_est_ram_bytes (estimate_file_fit f machine)) machine)"
  by (simp add: estimate_file_fit_def Let_def)

definition passing :: "normalized_params \<Rightarrow> machine_profile \<Rightarrow> catalog_file list \<Rightarrow> bool" where
  "passing p machine files \<longleftrightarrow>
     (\<forall>best. best_file files = Some best \<longrightarrow>
        passes_min_fit (mf_level (estimate_fit (fl_est_ram_bytes best) machine)) (np_min_fit p) \<and> (np_local_only p \<longrightarrow> fl_exists best))"

lemma catalog_files_passing: "valid (\<lambda>_. True) (catalog_files c source sibs p machine) (\<lambda>files _. passing p machine files) (\<lambda>_ _. True)"
  unfolding catalog_files_def
proof (rule valid_bind [where R = "\<lambda>_ _. True"])
  show "valid (\<lambda>_. True) (files_for c source sibs) (\<lambda>_ _. True) (\<lambda>_ _. True)" by (rule validI) simp_all
  fix found
  let ?files = "map (\<lambda>f. estimate_file_fit f machine) found"
  have "fl_fit_level best = mf_level (estimate_fit (fl_est_ram_bytes best) machine)" if "best_file ?files = Some best" for best
    using best_file_greatest [OF that] estimate_best_level by auto
  then show "valid (\<lambda>_. True)
      (let files = ?files in case best_file files of None \<Rightarrow> retE []
        | Some best \<Rightarrow> if \<not> passes_min_fit (fl_fit_level best) (np_min_fit p) \<or> (np_local_only p \<and> \<not> fl_exists best) then retE []
            else retE files)
      (\<lambda>files _. passing p machine files) (\<lambda>_ _. True)"
    by (auto simp: Let_def passing_def intro!: valid_ret split: option.split)
qed

definition shown :: "normalized_params \<Rightarrow> catalog_model \<Rightarrow> bool" where
  "shown p m \<longleftrightarrow>
     (\<exists>best. cm_best_file m = Some best \<and> best \<in> set (cm_files m) \<and> passes_min_fit (mf_level (cm_fit m)) (np_min_fit p)
        \<and> (np_local_only p \<longrightarrow> fl_exists best))"

lemma build_shown:
  assumes "passing p machine files" "best_file files = Some best"
  shows "shown p (build_catalog_model sv source item info files best machine)"
  using assms best_file_greatest [OF assms(2)]
  by (auto simp: shown_def passing_def build_catalog_model_def Let_def split: prod.split)

lemma build_id: "cm_id (build_catalog_model sv source item info files best machine) = src_owner source @ [slash] @ src_repo source"
  by (simp add: build_catalog_model_def Let_def split: prod.split)

lemma catalog_model_shown:
  assumes "catalog_model_of c item p machine w = (Inr (Some (m, k, raw)), w')"
  shows "shown p m \<and> k = cm_id m"
  using assms
  by (auto simp: catalog_model_of_def get_time_def build_id split: option.splits prod.splits elim!: bindE_InrE
      dest!: validD_Inr [OF catalog_files_passing, OF TrueI] intro!: build_shown)

lemma fetch_models_outcome:
  "\<exists>ms raws failures w'. fetch_models c p machine items w = (Inr (ms, raws, failures), w') \<and> map fst raws = map cm_id ms \<and>
     length ms + length failures \<le> length items \<and> (\<forall>m \<in> set ms. shown p m)"
proof (induction items arbitrary: w)
  case (Cons item items)
  obtain r w1 where r: "catalog_model_of c item p machine w = (r, w1)" by force
  from Cons.IH [of w1] obtain ms raws failures w' where
    rest: "fetch_models c p machine items w1 = (Inr (ms, raws, failures), w')" "map fst raws = map cm_id ms"
      "length ms + length failures \<le> length items" "\<forall>m \<in> set ms. shown p m" by blast
  show ?case
  proof (cases r)
    case (Inl e)
    with r rest show ?thesis by (auto simp: tryE_def bindE_def)
  next
    case (Inr found)
    show ?thesis
    proof (cases found)
      case None
      with Inr r rest show ?thesis by (auto simp: tryE_def bindE_def)
    next
      case (Some t)
      obtain m k raw where t: "t = (m, k, raw)" by (cases t)
      have "shown p m" "k = cm_id m" using catalog_model_shown r Inr Some t by blast+
      with Inr r rest Some t show ?thesis by (auto simp: tryE_def bindE_def)
    qed
  qed
qed simp

text \<open>A listing fails only when the list of models cannot be had: a model whose metadata or files cannot be had is left out with a message.
  Every model that is listed has a best file among its files that passes the level that was asked for and, when only local models were asked for,
  is on the disk; the models and the messages together are no more than the models of the list.
\<close>

theorem fetch_catalog_outcome:
  "case fetch_catalog c p machine w of
     (Inl err, w') \<Rightarrow> fetch_top_models c p w = (Inl err, w')
   | (Inr (r, raw_list, raws), w') \<Rightarrow>
       (\<exists>listed w1. fetch_top_models c p w = (Inr (listed, raw_list), w1) \<and> length (ls_models r) + length (ls_errors r) \<le> length listed) \<and>
       list_all (shown p) (ls_models r) \<and> set (map fst raws) = set (map cm_id (ls_models r))"
proof (cases "fetch_top_models c p w")
  case (Pair t w1)
  show ?thesis
  proof (cases t)
    case (Inl e)
    with Pair show ?thesis by (simp add: fetch_catalog_def bindE_def)
  next
    case (Inr x)
    obtain listed raw where x: "x = (listed, raw)" by (cases x)
    obtain ms raws failures w' where f: "fetch_models c p machine listed w1 = (Inr (ms, raws, failures), w')"
      "map fst raws = map cm_id ms" "length ms + length failures \<le> length listed" "\<forall>m \<in> set ms. shown p m"
      using fetch_models_outcome [of c p machine listed w1] by blast
    have "fst ` set raws = cm_id ` set ms" using f(2) by (metis set_map)
    with Pair Inr x f show ?thesis
      by (simp add: fetch_catalog_def bindE_def list_all_iff sort_catalog_models_def)
  qed
qed

subsection \<open>A stored listing\<close>

text \<open>What JSON makes of an entry: the parameters of a result are not written.\<close>

definition no_params :: normalized_params where
  "no_params = \<lparr>np_limit = 0, np_sort = [], np_search = [], np_min_fit = [], np_task = [], np_local_only = False\<rparr>"

definition read_back :: "cache_entry \<Rightarrow> cache_entry" where
  "read_back e = e\<lparr>ce_result := (ce_result e)\<lparr>ls_params := no_params\<rparr>\<rparr>"

definition json_entries :: "catalog_codec \<Rightarrow> bool" where
  "json_entries codec \<longleftrightarrow> (\<forall>e data. jc_entry codec e = Inr data \<longrightarrow> jc_read_entry codec data = Inr (read_back e))"

lemma mkdir_env: "os_env (snd (os_mkdir_all p m w)) = os_env w"
  using keepsD [of os_env "os_mkdir_all p m" w] keeps_env_ops by (metis prod.collapse)

lemma cache_store_written:
  assumes "cache_store codec cc p machine result raw_list raws w = (Inr u, w')"
  shows "\<exists>e data perm. ce_result e = result \<and> jc_entry codec e = Inr data \<and> os_sha w' = os_sha w
    \<and> os_files w' (cache_path codec cc p w) = Some (RegFile data perm)"
proof -
  obtain u1 w1 where m: "os_mkdir_all (cc_dir cc) 448 w = (Inr u1, w1)"
    and r: "bindE get_time (\<lambda>now.
       case jc_entry codec \<lparr>ce_updated_at = jc_format codec now, ce_params = p, ce_machine = machine, ce_result = result,
                            ce_raw_list = raw_list, ce_raw_models = raws\<rparr> of
         Inl err \<Rightarrow> failE err
       | Inr data \<Rightarrow> (\<lambda>w. mapErrE (wrap_err ''write catalog cache'') (atomic_create (cache_path codec cc p w) data 384) w)) w1 = (Inr u, w')"
    by (rule bindE_InrE [OF assms [unfolded cache_store_def]]) (simp add: mapErrE_Inr)
  let ?e = "\<lparr>ce_updated_at = jc_format codec (mc_time w1), ce_params = p, ce_machine = machine, ce_result = result,
                            ce_raw_list = raw_list, ce_raw_models = raws\<rparr>"
  from r obtain data where d: "jc_entry codec ?e = Inr data"
    and a: "atomic_create (cache_path codec cc p w1) data 384 w1 = (Inr u, w')"
    by (auto simp: bindE_def get_time_def mapErrE_Inr split: sum.splits)
  have env: "os_env w1 = os_env w" using mkdir_env [of "cc_dir cc" 448 w] m by simp
  have sha: "os_sha w1 = os_sha w" using env by (simp add: os_env_def)
  have path: "cache_path codec cc p w1 = cache_path codec cc p w" by (simp add: cache_path_def sha)
  from a obtain y where wr: "write_file_data (cache_path codec cc p w1) data \<lparr>wo_perm = 384, wo_backup = False, wo_normalize = None\<rparr> w1 = (Inr y, w')"
    by (auto simp: atomic_create_def elim!: bindE_InrE)
  then have wr': "write_replacement (cache_path codec cc p w1) data 384 [] w1 = (Inr y, w')" by (simp add: write_file_data_def)
  from write_replacement_outcome [OF this] have f: "os_files w' (cache_path codec cc p w) = Some (RegFile data 384)" by (simp add: path)
  have "os_env w' = os_env w1" using keepsD [OF keeps_env_write_file_data wr] .
  with sha have "os_sha w' = os_sha w" by (simp add: os_env_def)
  with d f show ?thesis by (intro exI [of _ ?e] exI [of _ data] exI [of _ 384]) simp
qed

lemma cache_load_stored:
  assumes "json_entries codec" "cache_store codec cc p machine result raw_list raws w = (Inr u, w1)"
    "os_files w2 = os_files w1" "os_sha w2 = os_sha w1" "os_fault w2 (os_tick w2) = None"
  shows "\<exists>entry. cache_load codec cc p w2 = (Inr (Some entry), w2\<lparr>os_tick := Suc (os_tick w2)\<rparr>) \<and>
    ce_result entry = result\<lparr>ls_params := no_params\<rparr>"
proof -
  from cache_store_written [OF assms(2)] obtain e data perm where e: "ce_result e = result" "jc_entry codec e = Inr data"
    and sha: "os_sha w1 = os_sha w" and f: "os_files w1 (cache_path codec cc p w) = Some (RegFile data perm)" by blast
  have path: "cache_path codec cc p w2 = cache_path codec cc p w" using sha assms(4) by (simp add: cache_path_def)
  have "os_read_file (cache_path codec cc p w2) w2 = (Inr data, w2\<lparr>os_tick := Suc (os_tick w2)\<rparr>)"
    using f assms(3,5) by (simp add: path os_read_file_def os_call_def stat_node_def eval_nat_numeral Let_def)
  moreover have "jc_read_entry codec data = Inr (read_back e)" using assms(1) e(2) by (simp add: json_entries_def)
  ultimately have "cache_load codec cc p w2 = (Inr (Some (read_back e)), w2\<lparr>os_tick := Suc (os_tick w2)\<rparr>)"
    by (simp add: cache_load_def tryE_def)
  then show ?thesis using e(1) by (simp add: read_back_def)
qed

text \<open>A listing that was fetched and stored is answered from the cache afterwards, without a request to Hugging Face: the same models, refitted to
  the machine that asks. This holds for any number of other steps in between that leave the files alone; the parameters of the first result are lost.
\<close>

theorem stored_listing_answers:
  assumes "hf_cache c = Some cc" "json_entries (hf_codec c)"
    "fetch_and_store c (normalize_list_request req) machine ce w = (Inr result, w1)"
    "os_files w2 = os_files w1" "os_sha w2 = os_sha w1" "os_fault w2 (os_tick w2) = None"
  shows "\<exists>(state :: cache_state) w3. list_catalog c req machine' w2 =
      (Inr ((refit_result (scores_at (hf_codec c) (mc_time w2)) result machine')\<lparr>ls_params := no_params, ls_cache := state\<rparr>, cs_stale state), w3)
    \<and> cs_hit state \<and> cs_refreshing state = cs_stale state \<and> mc_requests w3 = mc_requests w2"
proof -
  obtain raw_list raws wf where "cache_store (hf_codec c) cc (normalize_list_request req) machine result raw_list raws wf = (Inr (), w1)"
    using assms(1,3) by (auto simp: fetch_and_store_def tryE_def bindE_def split: prod.splits sum.splits)
  from cache_load_stored [OF assms(2) this assms(4-6)] obtain entry where
    l: "cache_load (hf_codec c) cc (normalize_list_request req) w2 = (Inr (Some entry), w2\<lparr>os_tick := Suc (os_tick w2)\<rparr>)"
    and r: "ce_result entry = result\<lparr>ls_params := no_params\<rparr>" by blast
  have refit: "refit_result sv (result\<lparr>ls_params := no_params\<rparr>) machine' = (refit_result sv result machine')\<lparr>ls_params := no_params\<rparr>" for sv
    by (simp add: refit_result_def)
  let ?s = "cache_entry_state (hf_codec c) cc entry (mc_time w2)"
  have hit: "cs_hit ?s" by (simp add: cache_entry_state_def)
  have "list_catalog c req machine' w2 =
      (Inr ((refit_result (scores_at (hf_codec c) (mc_time w2)) result machine')
          \<lparr>ls_params := no_params, ls_cache := ?s\<lparr>cs_refreshing := cs_stale ?s\<rparr>\<rparr>, cs_stale ?s), w2\<lparr>os_tick := Suc (os_tick w2)\<rparr>)"
    by (simp add: list_catalog_def assms(1) l tryE_def answer_cached_def bindE_def get_time_def Let_def r refit)
  with hit show ?thesis by (intro exI [of _ "?s\<lparr>cs_refreshing := cs_stale ?s\<rparr>"] exI [of _ "w2\<lparr>os_tick := Suc (os_tick w2)\<rparr>"]) simp
qed

definition demo_entry :: cache_entry where
  "demo_entry =
     \<lparr>ce_updated_at = ''0'', ce_params = sample_params, ce_machine = sample_machine 8,
      ce_result = \<lparr>ls_ok = True, ls_machine = sample_machine 8, ls_models = [],
        ls_cache = \<lparr>cs_hit = False, cs_stale = False, cs_refreshing = False, cs_updated_at = [], cs_ttl_seconds = 60\<rparr>,
        ls_errors = [], ls_params = sample_params\<rparr>,
      ce_raw_list = [], ce_raw_models = []\<rparr>"

text \<open>A codec that writes this entry alone.\<close>

definition demo_codec :: catalog_codec where
  "demo_codec =
     \<lparr>jc_params = (\<lambda>_. ''p''), jc_entry = (\<lambda>e. if e = demo_entry then Inr ''E'' else Inl (Plain [])),
      jc_read_entry = (\<lambda>_. Inr (read_back demo_entry)), jc_listed = (\<lambda>_. Inr []), jc_info = (\<lambda>_. Inl (Plain [])),
      jc_format = (\<lambda>_. ''0''), jc_parse = (\<lambda>_. Some 0), jc_log = (\<lambda>_. 0)\<rparr>"

definition demo_catalog :: hf_catalog where
  "demo_catalog = \<lparr>hf_storage = ''/m'', hf_base = ''http://h'', hf_cache = Some \<lparr>cc_dir = ''/c'', cc_ttl = 60 * nanos_per_second\<rparr>, hf_codec = demo_codec\<rparr>"

definition demo_request :: list_request where
  "demo_request = \<lparr>lr_limit = 0, lr_sort = [], lr_search = [], lr_min_fit = [], lr_task = [], lr_local_only = False\<rparr>"

definition online_machine :: machine where
  "online_machine =
     \<lparr>os_files = [''/c'' \<mapsto> DirNode 448], os_tick = 0, os_fault = (\<lambda>_. None), os_trace = [], os_rand = (\<lambda>_. 0), os_stamp = (\<lambda>_. []),
      os_sha = (\<lambda>s. s), os_cwd = ''/'', mc_time = 0, mc_step = 0, mc_elapse = (\<lambda>_. 1), mc_alive = (\<lambda>_ _. False),
      mc_exit = (\<lambda>_ _. None), mc_spawn = (\<lambda>_ _ _. Inr 42), mc_getpgid = (\<lambda>p. p), mc_kill = (\<lambda>_ _ _. None), mc_signals = [],
      mc_http = (\<lambda>_ _. Inr \<lparr>hp_status = 200, hp_status_text = ''200 OK'', hp_body = [], hp_read_err = None\<rparr>), mc_requests = [],
      mc_dial = (\<lambda>_ _. None), mc_ctx = (\<lambda>_. None), mc_exe = (\<lambda>_. Inr []), mc_look_path = (\<lambda>s. s),
      mc_bad_url = (\<lambda>_. None)\<rparr>"

lemma online_url: "\<exists>u. url_parse ''http://h/api/models'' = Inr u"
proof -
  have "case url_parse ''http://h/api/models'' of Inl _ \<Rightarrow> False | Inr _ \<Rightarrow> True" by code_simp
  then show ?thesis by (simp split: sum.splits)
qed

lemma online_fetch:
  "\<exists>q. fetch_catalog demo_catalog sample_params (sample_machine 8) online_machine =
     (Inr (ce_result demo_entry, [], []), online_machine\<lparr>mc_requests := [q], mc_step := 1, mc_time := 1\<rparr>)"
proof -
  obtain u where u: "url_parse ''http://h/api/models'' = Inr u" using online_url by blast
  have "nanos_per_second > 0" by (simp add: nanos_per_second_def)
  with u show ?thesis
    by (simp add: fetch_catalog_def fetch_top_models_def fetch_json_def fetch_bytes_def exchange_def interact_def bindE_def tryE_def
        online_machine_def demo_catalog_def demo_codec_def demo_entry_def sort_catalog_models_def cache_ttl_seconds_def)
qed

lemma atomic_create_total:
  assumes "can_replace path w"
  shows "\<exists>w'. atomic_create path data 384 w = (Inr (), w') \<and> os_fault w' = os_fault w"
proof -
  obtain r w' where r: "write_file_data path data \<lparr>wo_perm = 384, wo_backup = False, wo_normalize = None\<rparr> w = (Inr r, w')"
    using write_replacement_total [OF assms, of data 384 "[]"] by (auto simp: write_file_data_def)
  moreover have "os_fault w' = os_fault w" using keepsD [OF keeps_env_write_file_data r] by (simp add: os_env_def)
  ultimately show ?thesis by (simp add: atomic_create_def bindE_def)
qed

lemma online_listing:
  "\<exists>w. fetch_and_store demo_catalog sample_params (sample_machine 8) None online_machine = (Inr (ce_result demo_entry), w) \<and> (\<forall>t. os_fault w t = None)"
proof -
  obtain q where f: "fetch_catalog demo_catalog sample_params (sample_machine 8) online_machine =
     (Inr (ce_result demo_entry, [], []), online_machine\<lparr>mc_requests := [q], mc_step := 1, mc_time := 1\<rparr>)" using online_fetch by blast
  define w1 where "w1 = online_machine\<lparr>mc_requests := [q], mc_step := 1, mc_time := 1, os_tick := 1\<rparr>"
  have path: "cache_path demo_codec \<lparr>cc_dir = ''/c'', cc_ttl = 60 * nanos_per_second\<rparr> sample_params w1 = ''/c/p.json''"
  proof -
    have "join_path [''/c'', ''p.json''] = ''/c/p.json''" by code_simp
    then show ?thesis by (simp add: cache_path_def demo_codec_def w1_def online_machine_def)
  qed
  have dir: "dir_of ''/c/p.json'' = ''/c''" by code_simp
  have "can_replace ''/c/p.json'' w1"
    by (simp add: can_replace_def dir w1_def online_machine_def is_dir_at_def temp_name_def)
  from atomic_create_total [OF this, of "''E''"] obtain w2 where
    a: "atomic_create ''/c/p.json'' ''E'' 384 w1 = (Inr (), w2)" "os_fault w2 = os_fault w1" by blast
  have "cache_store demo_codec \<lparr>cc_dir = ''/c'', cc_ttl = 60 * nanos_per_second\<rparr> sample_params (sample_machine 8) (ce_result demo_entry) [] []
      (online_machine\<lparr>mc_requests := [q], mc_step := 1, mc_time := 1\<rparr>) = (Inr (), w2)"
  proof -
    have "os_mkdir_all ''/c'' 448 (online_machine\<lparr>mc_requests := [q], mc_step := 1, mc_time := 1\<rparr>) = (Inr (), w1)"
      by (simp add: os_mkdir_all_def os_call_def online_machine_def w1_def stat_node_def eval_nat_numeral)
    moreover have "jc_entry demo_codec \<lparr>ce_updated_at = jc_format demo_codec n, ce_params = sample_params, ce_machine = sample_machine 8,
        ce_result = ce_result demo_entry, ce_raw_list = [], ce_raw_models = []\<rparr> = Inr ''E''" for n
      by (simp add: demo_codec_def demo_entry_def)
    ultimately show ?thesis by (simp add: cache_store_def bindE_def get_time_def mapErrE_def path a(1))
  qed
  moreover have "os_fault w2 t = None" for t using a(2) by (simp add: w1_def online_machine_def)
  ultimately show ?thesis
    using f by (simp add: fetch_and_store_def tryE_def bindE_def demo_catalog_def)
qed

theorem stored_listing_answers_witness:
  "\<exists>w (state :: cache_state) r w3. fetch_and_store demo_catalog sample_params (sample_machine 8) None online_machine = (Inr (ce_result demo_entry), w)
    \<and> list_catalog demo_catalog demo_request (sample_machine 64) w = (Inr (r, cs_stale state), w3) \<and> cs_hit state \<and> mc_requests w3 = mc_requests w"
proof -
  have codec: "json_entries (hf_codec demo_catalog)"
    by (simp add: json_entries_def demo_catalog_def demo_codec_def)
  have cache: "hf_cache demo_catalog = Some \<lparr>cc_dir = ''/c'', cc_ttl = 60 * nanos_per_second\<rparr>" by (simp add: demo_catalog_def)
  have req: "normalize_list_request demo_request = sample_params" by (simp add: sample_params_def demo_request_def)
  obtain w where w: "fetch_and_store demo_catalog sample_params (sample_machine 8) None online_machine = (Inr (ce_result demo_entry), w)"
    "os_fault w (os_tick w) = None" using online_listing by blast
  from stored_listing_answers [OF cache codec w(1) [folded req] refl refl w(2), of "sample_machine 64"] obtain state w3 where
    l: "list_catalog demo_catalog demo_request (sample_machine 64) w =
      (Inr ((refit_result (scores_at (hf_codec demo_catalog) (mc_time w)) (ce_result demo_entry) (sample_machine 64))
         \<lparr>ls_params := no_params, ls_cache := state\<rparr>, cs_stale state), w3)"
    "cs_hit state" "mc_requests w3 = mc_requests w" by blast
  show ?thesis by (intro exI conjI) (rule w(1), rule l(1), rule l(2), rule l(3))
qed

end
