(* ===== verification/LogTail.thy ===== *)
theory LogTail
  imports GoStrings
begin

section \<open>The end of a log file (\<^verbatim>\<open>platform/audit/logs.go\<close>)\<close>

text \<open>
  Reading the last lines of a log and following it. \<open>tail_chunks\<close> reads the contents \<open>d\<close> of a file backwards in chunks; \<open>follow_update\<close> is one
  turn of \<^verbatim>\<open>FollowLog\<close> on what it finds at the path: the identity of the file (\<^verbatim>\<open>os.SameFile\<close>) and its contents. Between the
  \<^verbatim>\<open>Stat\<close> and the reads of one turn the file does not change.
\<close>

definition newline :: char where "newline = CHR 0x0A"

definition max_tail_lines :: nat where "max_tail_lines = 5000"
definition max_tail_read_bytes :: nat where "max_tail_read_bytes = 10 * 1024 * 1024"
definition chunk_size :: nat where "chunk_size = 64 * 1024"

definition newlines_in :: "string \<Rightarrow> nat" where
  "newlines_in s = length (filter (\<lambda>c. c = newline) s)"

lemma chunk_positive [simp]: "0 < chunk_size"
  by (simp add: chunk_size_def)

text \<open>The chunks from the position \<open>fin\<close> backwards, already in the order of the file.\<close>

function tail_chunks :: "string \<Rightarrow> nat \<Rightarrow> nat \<Rightarrow> nat \<Rightarrow> nat \<Rightarrow> string list" where
  "tail_chunks d lines fin got nl =
     (if fin > 0 \<and> got < max_tail_read_bytes \<and> nl < lines then
        (let start = fin - min chunk_size (max_tail_read_bytes - got); chunk = take (fin - start) (drop start d)
         in tail_chunks d lines start (got + length chunk) (nl + newlines_in chunk) @ [chunk])
      else [])"
  by pat_completeness auto
termination by (relation "measure (\<lambda>(d, lines, fin, got, nl). fin)") auto

declare tail_chunks.simps [simp del]

definition read_tail_chunks :: "string \<Rightarrow> nat \<Rightarrow> string" where
  "read_tail_chunks d lines = concat (tail_chunks d lines (length d) 0 0)"

definition format_tail :: "string \<Rightarrow> nat \<Rightarrow> string" where
  "format_tail data lines =
     (let trailing = data \<noteq> [] \<and> last data = newline;
          parts = (if trailing then butlast (split_on newline data) else split_on newline data);
          shown = (if length parts > lines then drop (length parts - lines) parts else parts);
          result = join_with newline shown
      in if trailing \<and> result \<noteq> [] then result @ [newline] else result)"

definition tail_lines :: "string \<Rightarrow> nat \<Rightarrow> string" where
  "tail_lines d lines = format_tail (read_tail_chunks d lines) lines"

subsection \<open>Following\<close>

record log_file =
  lf_ident :: nat
  lf_data :: string

text \<open>The file seen last with the offset that was reached: \<^verbatim>\<open>previous\<close> and \<^verbatim>\<open>offset\<close>.\<close>

type_synonym follow_state = "nat option \<times> nat"

definition write_initial_tail :: "log_file option \<Rightarrow> nat \<Rightarrow> string \<times> follow_state" where
  "write_initial_tail found lines =
     (case found of None \<Rightarrow> ([], None, 0) | Some f \<Rightarrow> (tail_lines (lf_data f) lines, Some (lf_ident f), length (lf_data f)))"

definition copy_from :: "string \<Rightarrow> nat \<Rightarrow> string" where
  "copy_from d offset = (if length d \<le> offset then [] else drop offset d)"

definition follow_update :: "log_file option \<Rightarrow> follow_state \<Rightarrow> string \<times> follow_state" where
  "follow_update found st =
     (case (found, st) of
        (None, _) \<Rightarrow> ([], None, 0)
      | (Some f, previous, offset) \<Rightarrow>
          (let from_pos = (if previous \<noteq> Some (lf_ident f) \<or> length (lf_data f) < offset then 0 else offset)
           in (copy_from (lf_data f) from_pos, Some (lf_ident f), length (lf_data f))))"

fun follow_turns :: "log_file option list \<Rightarrow> follow_state \<Rightarrow> string \<times> follow_state" where
  "follow_turns [] st = ([], st)"
| "follow_turns (found # later) st =
     (case follow_update found st of (out, st') \<Rightarrow> (case follow_turns later st' of (out', st'') \<Rightarrow> (out @ out', st'')))"

definition follow_log :: "log_file option \<Rightarrow> nat \<Rightarrow> log_file option list \<Rightarrow> string" where
  "follow_log found lines turns =
     (case write_initial_tail found lines of (out, st) \<Rightarrow> out @ fst (follow_turns turns st))"

subsection \<open>The lines of a text\<close>

lemma split_nonempty: "split_on c s \<noteq> []"
  by (rule split_on_nonempty)

lemma split_cat: "split_on c (a @ b) = butlast (split_on c a) @ [last (split_on c a) @ hd (split_on c b)] @ tl (split_on c b)"
proof (induction a)
  case Nil
  show ?case by (simp add: split_nonempty)
next
  case (Cons x xs)
  obtain l ls where l: "split_on c xs = l # ls" by (cases "split_on c xs") (auto simp: split_nonempty)
  obtain m ms where m: "split_on c (xs @ b) = m # ms" by (cases "split_on c (xs @ b)") (auto simp: split_nonempty)
  show ?case
  proof (cases "x = c")
    case True
    then show ?thesis using Cons.IH by (simp add: split_nonempty)
  next
    case False
    with Cons.IH l m show ?thesis by (cases ls) (auto split: if_splits)
  qed
qed

lemma length_split: "length (split_on newline s) = Suc (newlines_in s)"
proof (induction s)
  case (Cons x xs)
  obtain l ls where l: "split_on newline xs = l # ls" by (cases "split_on newline xs") (auto simp: split_nonempty)
  with Cons show ?case by (auto simp: newlines_in_def)
qed (simp add: newlines_in_def)

text \<open>The parts that \<^verbatim>\<open>formatTail\<close> counts, without the empty one behind a trailing line end.\<close>

definition parts_of :: "string \<Rightarrow> string list" where
  "parts_of s = (if s \<noteq> [] \<and> last s = newline then butlast (split_on newline s) else split_on newline s)"

lemma drop_tail: "n \<le> length ys \<Longrightarrow> drop (length (xs @ ys) - n) (xs @ ys) = drop (length ys - n) ys"
  by simp

lemma parts_of_cat:
  assumes "b \<noteq> []" "n < length (parts_of b)"
  shows "n < length (parts_of (a @ b)) \<and> drop (length (parts_of (a @ b)) - n) (parts_of (a @ b)) = drop (length (parts_of b) - n) (parts_of b)"
proof -
  define h t A where "h = hd (split_on newline b)" and "t = tl (split_on newline b)"
    and "A = butlast (split_on newline a) @ [last (split_on newline a) @ h]"
  have b: "split_on newline b = h # t" by (simp add: h_def t_def split_nonempty)
  have ab: "split_on newline (a @ b) = A @ t" by (simp add: split_cat A_def h_def t_def)
  define strip where "strip = (\<lambda>xs :: string list. if last b = newline then butlast xs else xs)"
  have pb: "parts_of b = strip (h # t)" and pab: "parts_of (a @ b) = strip (A @ t)"
    using assms(1) by (simp_all add: parts_of_def strip_def b ab)
  show ?thesis
  proof (cases t)
    case Nil
    with assms(2) pb have n: "n = 0" "\<not> last b = newline" by (auto simp: strip_def split: if_splits)
    then show ?thesis using Nil pb pab by (simp add: strip_def A_def length_split)
  next
    case (Cons x xs)
    then have s: "strip (h # t) = [h] @ strip t" "strip (A @ t) = A @ strip t" by (simp_all add: strip_def butlast_append)
    have "n \<le> length (strip t)" using assms(2) pb s(1) by simp
    moreover have "0 < length A" by (simp add: A_def)
    ultimately have "n < length A + length (strip t)" by linarith
    then show ?thesis
      unfolding pb pab s drop_tail [OF \<open>n \<le> length (strip t)\<close>] by simp
  qed
qed

lemma format_tail_parts:
  "format_tail s n =
     (let result = join_with newline (drop (length (parts_of s) - n) (parts_of s))
      in if (s \<noteq> [] \<and> last s = newline) \<and> result \<noteq> [] then result @ [newline] else result)"
proof -
  have "(if length xs > n then drop (length xs - n) xs else xs) = drop (length xs - n) xs" for xs :: "string list" by simp
  then show ?thesis unfolding format_tail_def parts_of_def Let_def by (simp only:)
qed

lemma format_tail_cat:
  assumes "b \<noteq> []" "n < length (parts_of b)"
  shows "format_tail (a @ b) n = format_tail b n"
  using parts_of_cat [OF assms, of a] assms by (simp add: format_tail_parts Let_def)

subsection \<open>What is read\<close>

lemma newlines_append [simp]: "newlines_in (a @ b) = newlines_in a + newlines_in b"
  by (simp add: newlines_in_def)

lemma newlines_Nil [simp]: "newlines_in [] = 0"
  by (simp add: newlines_in_def)

lemma tail_chunks_read:
  "fin \<le> length d \<Longrightarrow>
   (\<exists>k. concat (tail_chunks d lines fin got nl) = drop k (take fin d)) \<and>
   (concat (tail_chunks d lines fin got nl) = take fin d \<or> max_tail_read_bytes \<le> got + length (concat (tail_chunks d lines fin got nl))
      \<or> lines \<le> nl + newlines_in (concat (tail_chunks d lines fin got nl)))"
proof (induction d lines fin got nl rule: tail_chunks.induct)
  case (1 d lines fin got nl)
  show ?case
  proof (cases "fin > 0 \<and> got < max_tail_read_bytes \<and> nl < lines")
    case False
    then have "tail_chunks d lines fin got nl = []" by (subst tail_chunks.simps) auto
    with False show ?thesis by (auto intro: exI [of _ fin])
  next
    case True
    define start where "start = fin - min chunk_size (max_tail_read_bytes - got)"
    define chunk where "chunk = take (fin - start) (drop start d)"
    define before_it where "before_it = concat (tail_chunks d lines start (got + length chunk) (nl + newlines_in chunk))"
    have le: "start \<le> fin" by (simp add: start_def)
    have cs: "concat (tail_chunks d lines fin got nl) = before_it @ chunk"
      using True by (subst tail_chunks.simps) (simp add: start_def chunk_def before_it_def Let_def)
    have whole: "take fin d = take start d @ chunk" using take_add [of start "fin - start" d] le by (simp add: chunk_def)
    have IH: "(\<exists>k. before_it = drop k (take start d)) \<and>
      (before_it = take start d \<or> max_tail_read_bytes \<le> (got + length chunk) + length before_it \<or> lines \<le> (nl + newlines_in chunk) + newlines_in before_it)"
      using "1.IH" [OF True start_def chunk_def] "1.prems" le by (simp add: before_it_def)
    then obtain k where k: "before_it = drop k (take start d)" by blast
    have "before_it @ chunk = drop (min k (length (take start d))) (take fin d)"
      unfolding whole k by (cases "k \<le> length (take start d)") (simp_all add: min_def del: length_take)
    then have "\<exists>k. before_it @ chunk = drop k (take fin d)" by blast
    moreover have "before_it @ chunk = take fin d \<or> max_tail_read_bytes \<le> got + length (before_it @ chunk)
        \<or> lines \<le> nl + newlines_in (before_it @ chunk)"
      using IH by (auto simp: whole)
    ultimately show ?thesis unfolding cs by blast
  qed
qed

lemma read_tail_suffix: "\<exists>a. d = a @ read_tail_chunks d n"
proof -
  obtain k where "read_tail_chunks d n = drop k d" using tail_chunks_read [of "length d" d n 0 0] by (auto simp: read_tail_chunks_def)
  then show ?thesis by (metis append_take_drop_id)
qed

lemma read_tail_enough:
  assumes "length d \<le> max_tail_read_bytes"
  shows "read_tail_chunks d n = d \<or> n \<le> newlines_in (read_tail_chunks d n)"
proof -
  obtain a where a: "d = a @ read_tail_chunks d n" using read_tail_suffix by blast
  have "read_tail_chunks d n = d \<or> max_tail_read_bytes \<le> length (read_tail_chunks d n) \<or> n \<le> newlines_in (read_tail_chunks d n)"
    using tail_chunks_read [of "length d" d n 0 0] by (simp add: read_tail_chunks_def)
  moreover have "a = []" if "max_tail_read_bytes \<le> length (read_tail_chunks d n)"
  proof -
    have "length a + length (read_tail_chunks d n) = length d" using arg_cong [OF a, of length] by simp
    then have "length a = 0" using that assms by linarith
    then show ?thesis by simp
  qed
  ultimately show ?thesis using a by auto
qed

text \<open>One chunk is enough when it holds the lines.\<close>

lemma read_one_chunk:
  assumes "chunk_size < length d" "1 \<le> n" "n \<le> newlines_in (drop (length d - chunk_size) d)"
  shows "read_tail_chunks d n = drop (length d - chunk_size) d"
proof -
  have m: "min chunk_size (max_tail_read_bytes - 0) = chunk_size" "0 < max_tail_read_bytes" by (simp_all add: chunk_size_def max_tail_read_bytes_def)
  have stop: "tail_chunks d n s t l = []" if "n \<le> l" for s t l using that by (subst tail_chunks.simps) simp
  show ?thesis unfolding read_tail_chunks_def
    using assms m by (subst tail_chunks.simps) (simp add: Let_def stop)
qed

lemma parts_count: "length (parts_of s) = (if s \<noteq> [] \<and> last s = newline then newlines_in s else Suc (newlines_in s))"
  by (simp add: parts_of_def length_split)

text \<open>The lines that \<^verbatim>\<open>TailLogLines\<close> shows of a log of at most 10 MiB are its last lines, unless the part that was read holds exactly
  the number of lines asked for, ends with a line end and is not the whole file: only then a line end before the first line is missing.\<close>

theorem tail_is_last_lines:
  assumes "length d \<le> max_tail_read_bytes"
    "read_tail_chunks d n = d \<or> newlines_in (read_tail_chunks d n) \<noteq> n \<or> last d \<noteq> newline"
  shows "tail_lines d n = format_tail d n"
proof (cases "read_tail_chunks d n = d")
  case False
  obtain a where a: "d = a @ read_tail_chunks d n" using read_tail_suffix by blast
  have n: "n \<le> newlines_in (read_tail_chunks d n)" using read_tail_enough [OF assms(1), of n] False by blast
  show ?thesis
  proof (cases "read_tail_chunks d n = []")
    case True
    with n have "n = 0" by (simp add: newlines_in_def)
    moreover have "format_tail x 0 = []" for x
      by (cases "x \<noteq> [] \<and> last x = newline") (auto simp: format_tail_def Let_def)
    ultimately show ?thesis using True by (simp add: tail_lines_def)
  next
    case ne: False
    have "last d = last (read_tail_chunks d n)" using ne a by (metis last_appendR)
    with assms(2) n False ne have "n < length (parts_of (read_tail_chunks d n))" by (auto simp: parts_count)
    from format_tail_cat [OF ne this, of a] show ?thesis unfolding tail_lines_def using a by simp
  qed
qed (simp add: tail_lines_def)

theorem tail_is_last_lines_witness:
  "tail_lines (''a'' @ [newline] @ ''b'' @ [newline]) 1 = ''b'' @ [newline]"
proof -
  let ?d = "''a'' @ [newline] @ ''b'' @ [newline]"
  have "length ?d \<le> max_tail_read_bytes" by (simp add: max_tail_read_bytes_def)
  moreover have "read_tail_chunks ?d 1 = ?d"
    unfolding read_tail_chunks_def
    by (subst tail_chunks.simps, subst tail_chunks.simps) (simp add: Let_def chunk_size_def max_tail_read_bytes_def)
  ultimately have "tail_lines ?d 1 = format_tail ?d 1" using tail_is_last_lines by blast
  also have "\<dots> = ''b'' @ [newline]" by (simp add: format_tail_def newline_def Let_def)
  finally show ?thesis .
qed

text \<open>
  A tail of n lines loses the beginning of its first line when the last 64 KiB of the log hold exactly n line ends, the last at
  the end: the loop counts the line end of the last line as one of the n and stops before the first line is complete.
\<close>

lemma join_parts:
  assumes "b \<noteq> []" "last b = newline"
  shows "b = join_with newline (parts_of b) @ [newline]" "parts_of b \<noteq> []"
proof -
  obtain c where c: "b = c @ [newline]" using assms by (metis append_butlast_last_id)
  then have p: "parts_of b = split_on newline c" by (simp add: parts_of_def split_on_snoc_sep)
  show "b = join_with newline (parts_of b) @ [newline]" by (simp add: p) (simp add: c)
  show "parts_of b \<noteq> []" by (simp add: p)
qed

lemma last_split_ne: "a \<noteq> [] \<Longrightarrow> last a \<noteq> c \<Longrightarrow> last (split_on c a) \<noteq> []"
  by (cases a rule: rev_cases) (simp_all add: split_cat)

lemma join_first: "join_with c ((x @ h) # ts) = x @ join_with c (h # ts)"
  by (cases ts) simp_all

text \<open>The first of the n lines that are shown is cut when the last 64 KiB of the log hold exactly n line ends, the last of them at its end, and begin
  within a line: the n last lines of the log are what is shown with the missing part in front.\<close>

theorem tail_cuts_first_line:
  assumes "chunk_size < length d" "1 \<le> n" "newlines_in (drop (length d - chunk_size) d) = n" "last d = newline"
    "d ! (length d - chunk_size - 1) \<noteq> newline"
  shows "\<exists>x. x \<noteq> [] \<and> newline \<notin> set x \<and> format_tail d n = x @ tail_lines d n"
proof -
  define a b where "a = take (length d - chunk_size) d" and "b = drop (length d - chunk_size) d"
  have d: "d = a @ b" by (simp add: a_def b_def)
  have lb: "length b = chunk_size" using assms(1) by (simp add: b_def)
  then have "b \<noteq> []" by (auto simp: chunk_size_def)
  with assms(4) d have b: "b \<noteq> []" "last b = newline" by auto
  have a: "a \<noteq> []" "last a \<noteq> newline"
  proof -
    show ne: "a \<noteq> []" using assms(1) by (auto simp: a_def)
    have "last a = d ! (length d - chunk_size - 1)" using assms(1) last_conv_nth [OF ne] by (simp add: a_def)
    with assms(5) show "last a \<noteq> newline" by simp
  qed
  have read: "read_tail_chunks d n = b" using read_one_chunk [OF assms(1,2)] assms(3) by (simp add: b_def)
  have len: "length (parts_of b) = n" using assms(3) b by (simp add: parts_count flip: b_def)
  have jb: "b = join_with newline (parts_of b) @ [newline]" "parts_of b \<noteq> []" using join_parts [OF b] by blast+
  have jne: "join_with newline (parts_of b) \<noteq> []"
  proof
    assume "join_with newline (parts_of b) = []"
    with jb(1) have "length b = 1" by (metis append_Nil length_Cons list.size(3) One_nat_def)
    with lb show False by (simp add: chunk_size_def)
  qed
  have shown: "tail_lines d n = b"
    unfolding tail_lines_def read using jb(1) jne b len by (simp add: format_tail_parts)
  define x h t where "x = last (split_on newline a)" and "h = hd (split_on newline b)" and "t = tl (split_on newline b)"
  have sb: "split_on newline b = h # t" by (simp add: h_def t_def)
  have t: "t \<noteq> []" using length_split [of b] assms(2,3) sb by (auto simp flip: b_def)
  have pb: "parts_of b = h # butlast t" using b t by (simp add: parts_of_def sb)
  have pd: "parts_of d = butlast (split_on newline a) @ (x @ h) # butlast t"
    using b t by (simp add: d parts_of_def split_cat sb x_def butlast_append)
  have "length (parts_of d) - n = length (butlast (split_on newline a))" using len by (simp add: pb pd)
  then have "drop (length (parts_of d) - n) (parts_of d) = (x @ h) # butlast t" by (simp add: pd)
  then have "format_tail d n = x @ join_with newline (h # butlast t) @ [newline]"
    using assms(4) d b x_def jne by (simp add: format_tail_parts join_first pb)
  also have "\<dots> = x @ b" using jb(1) by (simp add: pb)
  finally have "format_tail d n = x @ tail_lines d n" by (simp add: shown)
  moreover have "x \<noteq> []" unfolding x_def by (rule last_split_ne [OF a])
  moreover have "newline \<notin> set x" unfolding x_def by (rule split_on_parts [of _ newline a]) simp
  ultimately show ?thesis by blast
qed

theorem tail_cuts_first_line_witness:
  "\<exists>x. x \<noteq> [] \<and> newline \<notin> set x \<and>
     format_tail (replicate chunk_size CHR ''a'' @ [newline]) 1 = x @ tail_lines (replicate chunk_size CHR ''a'' @ [newline]) 1"
proof (rule tail_cuts_first_line)
  have a: "CHR ''a'' \<noteq> newline" by (simp add: newline_def)
  have "drop (Suc 0) (replicate chunk_size CHR ''a'' @ [newline]) = replicate (chunk_size - 1) CHR ''a'' @ [newline]"
    by (simp add: Suc_le_eq)
  with a show "newlines_in (drop (length (replicate chunk_size CHR ''a'' @ [newline]) - chunk_size) (replicate chunk_size CHR ''a'' @ [newline])) = 1"
    by (simp add: newlines_in_def)
  show "(replicate chunk_size CHR ''a'' @ [newline]) ! (length (replicate chunk_size CHR ''a'' @ [newline]) - chunk_size - 1) \<noteq> newline"
    using a by (simp add: nth_append)
qed simp_all

subsection \<open>What a follower sees\<close>

text \<open>
  A generation of a log is one file that only grows: \<open>ds\<close> are its contents at the turns at which it is found. Archiving a log begins a new
  generation under the same path.
\<close>

definition grows :: "string list \<Rightarrow> bool" where "grows ds \<longleftrightarrow> sorted_wrt prefix ds"

definition found_as :: "nat \<Rightarrow> string \<Rightarrow> log_file option" where "found_as i d = Some \<lparr>lf_ident = i, lf_data = d\<rparr>"

lemma follow_append:
  "fst (follow_turns (xs @ ys) st) = fst (follow_turns xs st) @ fst (follow_turns ys (snd (follow_turns xs st)))"
  by (induction xs arbitrary: st) (simp_all add: case_prod_unfold)

lemma follow_same_file:
  "grows (d # ds) \<Longrightarrow>
   follow_turns (map (found_as i) ds) (Some i, length d) = (drop (length d) (last (d # ds)), (Some i, length (last (d # ds))))"
proof (induction ds arbitrary: d)
  case (Cons e ds)
  then have p: "prefix d e" and g: "grows (e # ds)" by (simp_all add: grows_def)
  have pl: "prefix e (last (e # ds))"
    using g by (cases ds) (auto simp: grows_def)
  obtain u v where u: "e = d @ u" and v: "last (e # ds) = e @ v" using p pl by (auto simp: prefix_def)
  have one: "follow_update (found_as i e) (Some i, length d) = (u, Some i, length e)"
    by (simp add: follow_update_def found_as_def copy_from_def Let_def u)
  have rest: "follow_turns (map (found_as i) ds) (Some i, length e) = (v, (Some i, length (last (e # ds))))"
    using Cons.IH [OF g] unfolding v by simp
  have l: "last (d # e # ds) = e @ v" using v by simp
  have "follow_turns (map (found_as i) (e # ds)) (Some i, length d) = (u @ v, (Some i, length (e @ v)))"
    using rest unfolding v by (simp add: one)
  then show ?case unfolding l by (simp add: u)
qed simp

lemma follow_new_file:
  assumes "grows ds" "ds \<noteq> []" "fst st \<noteq> Some i"
  shows "follow_turns (map (found_as i) ds) st = (last ds, (Some i, length (last ds)))"
proof -
  obtain e es where ds: "ds = e # es" using assms(2) by (cases ds) auto
  obtain p off where st: "st = (p, off)" by (cases st)
  have one: "follow_update (found_as i e) st = (e, Some i, length e)"
    using assms(3) by (simp add: follow_update_def found_as_def copy_from_def Let_def st)
  have "prefix e (last (e # es))" using assms(1) by (cases es) (auto simp: grows_def ds)
  then obtain v where v: "last (e # es) = e @ v" by (auto simp: prefix_def)
  show ?thesis using follow_same_file [of e es i] assms(1) unfolding ds v by (simp add: one del: last.simps)
qed

text \<open>Generations after one another, each under an identity that differs from the one before.\<close>

fun later_files :: "nat \<Rightarrow> (nat \<times> string list) list \<Rightarrow> bool" where
  "later_files i [] \<longleftrightarrow> True"
| "later_files i ((j, ds) # gs) \<longleftrightarrow> j \<noteq> i \<and> ds \<noteq> [] \<and> grows ds \<and> later_files j gs"

definition turns_of :: "(nat \<times> string list) list \<Rightarrow> log_file option list" where
  "turns_of gs = concat (map (\<lambda>(i, ds). map (found_as i) ds) gs)"

lemma follow_generations:
  "later_files i gs \<Longrightarrow> fst st = Some i \<Longrightarrow> fst (follow_turns (turns_of gs) st) = concat (map (\<lambda>(j, ds). last ds) gs)"
proof (induction gs arbitrary: i st)
  case (Cons g gs)
  obtain j ds where g: "g = (j, ds)" by (cases g)
  from Cons.prems g have p: "j \<noteq> i" "ds \<noteq> []" "grows ds" "later_files j gs" by auto
  have "follow_turns (map (found_as j) ds) st = (last ds, (Some j, length (last ds)))"
    using follow_new_file [OF p(3,2), of st j] p(1) Cons.prems(2) by simp
  with Cons.IH [OF p(4), of "(Some j, length (last ds))"] show ?case
    by (simp add: turns_of_def g follow_append)
qed (simp add: turns_of_def)



end
