(* ===== verification/LogArchive.thy ===== *)
theory LogArchive
  imports LogTail LocalModels OsFrame FileDocProps
begin

section \<open>Log files and their archive (\<^verbatim>\<open>platform/audit/logs.go\<close>)\<close>

text \<open>
  The files of the logs: the current log of a service is moved into the archive under a name that holds the time, archives are listed,
  read, deleted and cleaned up. \<open>log_clock\<close> is the layout of the time stamps (\<^verbatim>\<open>time.Format\<close> and \<^verbatim>\<open>time.Parse\<close>, in nanoseconds). A rename
  across devices is a planned failure with the error \<open>cross_device\<close>. A file is read in one piece between being opened and closed.
\<close>

record log_clock =
  lk_format :: "int \<Rightarrow> string"
  lk_parse :: "string \<Rightarrow> int option"

record archive =
  ar_id :: string
  ar_service :: string
  ar_size_bytes :: nat
  ar_archived_at :: int

definition log_name_char :: "char \<Rightarrow> bool" where
  "log_name_char c \<longleftrightarrow> (CHR ''A'' \<le> c \<and> c \<le> CHR ''Z'') \<or> (CHR ''a'' \<le> c \<and> c \<le> CHR ''z'') \<or> (CHR ''0'' \<le> c \<and> c \<le> CHR ''9'')
     \<or> c = CHR ''_'' \<or> c = CHR ''-''"

text \<open>\<^verbatim>\<open>^[A-Za-z0-9_-]+$\<close>\<close>

definition log_name_pattern :: "string \<Rightarrow> bool" where
  "log_name_pattern s \<longleftrightarrow> s \<noteq> [] \<and> list_all log_name_char s"

text \<open>
  \<^verbatim>\<open>^([A-Za-z0-9_-]+)-(\d{8}T\d{6}\.\d{9}Z)\.log$\<close>: everything behind the first group has a fixed length, so the groups are found by position.
\<close>

definition stamp_shape :: "string \<Rightarrow> bool" where
  "stamp_shape s \<longleftrightarrow>
     length s = 26 \<and> list_all (\<lambda>c. CHR ''0'' \<le> c \<and> c \<le> CHR ''9'') (take 8 s) \<and> s ! 8 = CHR ''T''
       \<and> list_all (\<lambda>c. CHR ''0'' \<le> c \<and> c \<le> CHR ''9'') (take 6 (drop 9 s)) \<and> s ! 15 = CHR ''.''
       \<and> list_all (\<lambda>c. CHR ''0'' \<le> c \<and> c \<le> CHR ''9'') (take 9 (drop 16 s)) \<and> s ! 25 = CHR ''Z''"

definition archive_name_pattern :: "string \<Rightarrow> (string \<times> string) option" where
  "archive_name_pattern s =
     (let k = length s - 31; service = take k s; stamp = take 26 (drop (k + 1) s) in
      if 32 \<le> length s \<and> list_all log_name_char service \<and> s ! k = CHR ''-'' \<and> stamp_shape stamp \<and> drop (k + 27) s = ''.log''
      then Some (service, stamp) else None)"

definition get_log_path :: "host_env \<Rightarrow> string \<Rightarrow> gerror + string" where
  "get_log_path env name =
     (case llama_rig_home env of Inl err \<Rightarrow> Inl err | Inr home \<Rightarrow> Inr (join_path [join_path [home, ''run''], name @ ''.log'']))"

definition get_archive_dir :: "host_env \<Rightarrow> gerror + string" where
  "get_archive_dir env =
     (case llama_rig_home env of Inl err \<Rightarrow> Inl err | Inr home \<Rightarrow> Inr (join_path [home, ''logs'', ''archive'']))"

definition lift_err :: "gerror + 'a \<Rightarrow> ('z, 'a) io" where
  "lift_err r = (case r of Inl e \<Rightarrow> failE e | Inr x \<Rightarrow> retE x)"

subsection \<open>Archiving a log\<close>

definition cross_device :: gerror where "cross_device = Plain [Lit ''invalid cross-device link'']"

text \<open>\<^verbatim>\<open>os.OpenFile\<close> with \<^verbatim>\<open>O_CREATE|O_EXCL\<close>.\<close>

definition os_create_excl :: "string \<Rightarrow> nat \<Rightarrow> ('z, unit) io" where
  "os_create_excl p m =
     os_call (\<lambda>w. case os_files w p of Some _ \<Rightarrow> (Inl (Sentinel OsExist), w) | None \<Rightarrow> (Inr (), set_node p (Some (RegFile [] m)) w))"

text \<open>\<^verbatim>\<open>io.Copy\<close> reads the source and appends to the target. The source is closed on every path.\<close>

definition io_copy :: "string \<Rightarrow> string \<Rightarrow> ('z, unit) io" where
  "io_copy target source = bindE (os_read_file source) (\<lambda>data. os_write target data)"

definition copy_and_delete :: "string \<Rightarrow> string \<Rightarrow> ('z, unit) io" where
  "copy_and_delete source target =
     bindE (os_open source) (\<lambda>_.
       tryE (os_create_excl target 384)
         (\<lambda>err. bindE (ignoreE (os_close source)) (\<lambda>_. failE err))
         (\<lambda>_. tryE (io_copy target source)
            (\<lambda>err. bindE (ignoreE (os_close target)) (\<lambda>_. bindE (ignoreE (os_remove target)) (\<lambda>_.
                   bindE (ignoreE (os_close source)) (\<lambda>_. failE err))))
            (\<lambda>_. tryE (os_close target)
               (\<lambda>err. bindE (ignoreE (os_remove target)) (\<lambda>_. bindE (ignoreE (os_close source)) (\<lambda>_. failE err)))
               (\<lambda>_. tryE (os_close source)
                  (\<lambda>err. tryE (os_remove source) (\<lambda>err2. failE (Joined [err, err2])) (\<lambda>_. failE (Joined [err])))
                  (\<lambda>_. tryE (os_remove source) (\<lambda>err. failE (Joined [err])) (\<lambda>_. retE ()))))))"

definition move_log :: "string \<Rightarrow> string \<Rightarrow> ('z, unit) io" where
  "move_log source target =
     tryE (os_rename source target) (\<lambda>err. if err = cross_device then copy_and_delete source target else failE err) retE"

definition archive_id :: "log_clock \<Rightarrow> string \<Rightarrow> int \<Rightarrow> string" where
  "archive_id lk name now = name @ ''-'' @ lk_format lk now @ ''.log''"

text \<open>The part of \<^verbatim>\<open>ArchiveLog\<close> from the directory on, for a log that is not empty.\<close>

definition archive_into :: "string \<Rightarrow> string \<Rightarrow> string \<Rightarrow> ('z, string) io" where
  "archive_into dir path i =
     bindE (os_mkdir_all dir 448) (\<lambda>_.
       (let target = join_path [dir, i] in
        tryE (os_lstat target)
          (\<lambda>err. if \<not> errors_is err OsNotExist then failE err else bindE (move_log path target) (\<lambda>_. retE i))
          (\<lambda>_. failE (Plain [Lit ''log archive '', Quoted i, Lit '' already exists'']))))"

definition archive_log :: "host_env \<Rightarrow> log_clock \<Rightarrow> string \<Rightarrow> int \<Rightarrow> ('z, string) io" where
  "archive_log env lk name now =
     (if \<not> log_name_pattern name then failE (Plain [Lit ''invalid log name '', Quoted name])
      else
        bindE (lift_err (get_log_path env name)) (\<lambda>path.
          tryE (os_lstat path)
            (\<lambda>err. if errors_is err OsNotExist then retE [] else failE err)
            (\<lambda>info. case info of
               RegFile data m \<Rightarrow>
                 (if data = [] then bindE (ignoreE (os_remove path)) (\<lambda>_. retE [])
                  else bindE (lift_err (get_archive_dir env)) (\<lambda>dir. archive_into dir path (archive_id lk name now)))
             | _ \<Rightarrow> failE (Plain [Lit ''log path '', Quoted path, Lit '' is not a regular file'']))))"

definition init_log_file :: "string \<Rightarrow> ('z, unit) io" where
  "init_log_file path =
     bindE (os_mkdir_all (dir_of path) 448) (\<lambda>_.
       os_call (\<lambda>w. case follow 40 (os_files w) path of
           None \<Rightarrow> (Inl link_loop, w)
         | Some q \<Rightarrow> (case os_files w q of
               None \<Rightarrow> (Inr (), set_node q (Some (RegFile [] 384)) w)
             | Some (DirNode _) \<Rightarrow> (Inl (Plain [Lit ''is a directory'']), w)
             | _ \<Rightarrow> (Inr (), w))))"

text \<open>The file that takes the output of the command; the failure to archive the previous one is ignored.\<close>

definition attach_logs :: "host_env \<Rightarrow> log_clock \<Rightarrow> string \<Rightarrow> int \<Rightarrow> ('z, string) io" where
  "attach_logs env lk name now =
     bindE (lift_err (get_log_path env name)) (\<lambda>path.
     bindE (ignoreE (archive_log env lk name now)) (\<lambda>_.
     bindE (init_log_file path) (\<lambda>_. retE path)))"

subsection \<open>Reading\<close>

definition lines_out_of_range :: gerror where
  "lines_out_of_range = Plain [Lit ''log lines must be between 1 and '', Num (int max_tail_lines)]"

definition tail_file_lines :: "string \<Rightarrow> int \<Rightarrow> ('z, string) io" where
  "tail_file_lines path lines =
     (if lines < 1 \<or> int max_tail_lines < lines then failE lines_out_of_range
      else tryE (os_open path)
        (\<lambda>err. if errors_is err OsNotExist then retE [] else failE err)
        (\<lambda>_. bindE (os_read_file path) (\<lambda>data. retE (tail_lines data (nat lines)))))"

definition tail_log_lines :: "host_env \<Rightarrow> string \<Rightarrow> int \<Rightarrow> ('z, string) io" where
  "tail_log_lines env name lines =
     (if \<not> log_name_pattern name then failE (Plain [Lit ''invalid log name '', Quoted name])
      else bindE (lift_err (get_log_path env name)) (\<lambda>path. tail_file_lines path lines))"

subsection \<open>The archive\<close>

definition archive_entry :: "log_clock \<Rightarrow> string \<Rightarrow> node \<Rightarrow> archive option" where
  "archive_entry lk name n =
     (case n of
        RegFile data m \<Rightarrow>
          (case archive_name_pattern name of
             None \<Rightarrow> None
           | Some (service, stamp) \<Rightarrow>
               (case lk_parse lk stamp of
                  None \<Rightarrow> None
                | Some archived_at \<Rightarrow>
                    Some \<lparr>ar_id = name, ar_service = service, ar_size_bytes = length data, ar_archived_at = archived_at\<rparr>))
      | _ \<Rightarrow> None)"

definition list_archives :: "host_env \<Rightarrow> log_clock \<Rightarrow> string list \<Rightarrow> ('z, archive list) io" where
  "list_archives env lk names =
     bindE (lift_err (get_archive_dir env)) (\<lambda>dir.
       tryE (os_read_dir names dir)
         (\<lambda>err. if errors_is err OsNotExist then retE [] else failE err)
         (\<lambda>entries. retE (sort_key (\<lambda>a. - ar_archived_at a) (List.map_filter (\<lambda>(p, n). archive_entry lk (base_of p) n) entries))))"

definition archive_path :: "host_env \<Rightarrow> string \<Rightarrow> ('z, string) io" where
  "archive_path env i =
     (if base_of i \<noteq> i \<or> archive_name_pattern i = None then failE (Plain [Lit ''invalid log archive '', Quoted i])
      else
        bindE (lift_err (get_archive_dir env)) (\<lambda>dir.
          (let path = join_path [dir, i] in
           bindE (os_lstat path) (\<lambda>info.
             case info of RegFile _ _ \<Rightarrow> retE path | _ \<Rightarrow> failE (Plain [Lit ''log archive '', Quoted i, Lit '' is not a regular file''])))))"

definition tail_archive :: "host_env \<Rightarrow> string \<Rightarrow> int \<Rightarrow> ('z, string) io" where
  "tail_archive env i lines = bindE (archive_path env i) (\<lambda>path. tail_file_lines path lines)"

definition delete_archive :: "host_env \<Rightarrow> string \<Rightarrow> ('z, unit) io" where
  "delete_archive env i =
     tryE (archive_path env i)
       (\<lambda>err. if errors_is err OsNotExist then retE () else failE err)
       (\<lambda>path. tryE (os_remove path) (\<lambda>err. if errors_is err OsNotExist then retE () else failE err) retE)"

text \<open>How many were deleted, with the joined errors.\<close>

fun delete_archives_loop :: "host_env \<Rightarrow> archive list \<Rightarrow> nat \<Rightarrow> gerror option \<Rightarrow> ('z, nat \<times> gerror option) io" where
  "delete_archives_loop env [] deleted errs = retE (deleted, errs)"
| "delete_archives_loop env (a # arcs) deleted errs =
     tryE (delete_archive env (ar_id a))
       (\<lambda>err. delete_archives_loop env arcs deleted (Some (Joined (case errs of None \<Rightarrow> [err] | Some e \<Rightarrow> [e, err]))))
       (\<lambda>_. delete_archives_loop env arcs (Suc deleted) errs)"

definition delete_archives :: "host_env \<Rightarrow> archive list \<Rightarrow> ('z, nat \<times> gerror option) io" where
  "delete_archives env archives = delete_archives_loop env archives 0 None"

definition clear_archives :: "host_env \<Rightarrow> log_clock \<Rightarrow> string list \<Rightarrow> ('z, nat \<times> gerror option) io" where
  "clear_archives env lk names = bindE (list_archives env lk names) (delete_archives env)"

text \<open>\<^verbatim>\<open>now.Add(-retention)\<close> on instants in nanoseconds.\<close>

definition cleanup_archives :: "host_env \<Rightarrow> log_clock \<Rightarrow> string list \<Rightarrow> int \<Rightarrow> int \<Rightarrow> ('z, nat \<times> gerror option) io" where
  "cleanup_archives env lk names retention now =
     (if retention = 0 then retE (0, None)
      else bindE (list_archives env lk names) (\<lambda>archives.
        delete_archives env (filter (\<lambda>a. ar_archived_at a < now - retention) archives)))"

subsection \<open>No log is lost\<close>

definition holds_data :: "string \<Rightarrow> string \<Rightarrow> string \<Rightarrow> (string \<Rightarrow> node option) \<Rightarrow> bool" where
  "holds_data data path target fs \<longleftrightarrow> (\<exists>m. fs path = Some (RegFile data m)) \<or> (\<exists>m. fs target = Some (RegFile data m))"

text \<open>In every state since the trace \<open>T\<close> the log or its archive holds the contents.\<close>

definition survives :: "string \<Rightarrow> string \<Rightarrow> string \<Rightarrow> (string \<Rightarrow> node option) list \<Rightarrow> 'z os_scheme \<Rightarrow> bool" where
  "survives data path target T w \<longleftrightarrow>
     holds_data data path target (os_files w) \<and> (\<exists>ts. os_trace w = T @ ts \<and> (\<forall>t \<in> set ts. holds_data data path target t))"

definition archived :: "string \<Rightarrow> string \<Rightarrow> string \<Rightarrow> (string \<Rightarrow> node option) list \<Rightarrow> 'z os_scheme \<Rightarrow> bool" where
  "archived data path target T w \<longleftrightarrow> survives data path target T w \<and> (\<exists>m. os_files w target = Some (RegFile data m))"

text \<open>The log is untouched, and there is a copy of \<open>c\<close>.\<close>

definition copied :: "string \<Rightarrow> string \<Rightarrow> node option \<Rightarrow> (string \<Rightarrow> node option) list \<Rightarrow> string \<Rightarrow> 'z os_scheme \<Rightarrow> bool" where
  "copied path target N T c w \<longleftrightarrow> stays path N T w \<and> os_files w target = Some (RegFile c 384)"

lemma stays_survives: "stays path (Some (RegFile data m)) T w \<Longrightarrow> survives data path target T w"
  by (auto simp: stays_def survives_def holds_data_def)

lemma copied_archived: "copied path target (Some (RegFile data m)) T data w \<Longrightarrow> archived data path target T w"
  by (auto simp: archived_def copied_def intro: stays_survives)

lemma copied_tick [simp]: "copied path target N T c (w\<lparr>os_tick := n\<rparr>) = copied path target N T c w"
  by (simp add: copied_def)

lemma valid_remove_copy:
  assumes "target \<noteq> path"
  shows "valid (stays path N T) (os_remove target) (\<lambda>_. stays path N T) (\<lambda>_. stays path N T)"
  unfolding os_remove_def
  by (rule valid_os_call [OF validI]) (use assms in \<open>auto split: option.splits intro: stays_set_node\<close>)

lemma valid_create_copy:
  "valid (stays path (Some n) T) (os_create_excl target 384)
     (\<lambda>_ w. target \<noteq> path \<and> copied path target (Some n) T [] w) (\<lambda>_. stays path (Some n) T)"
  unfolding os_create_excl_def
proof (rule valid_os_call [OF validI])
  fix w x and w' :: "'a os_scheme"
  assume s: "stays path (Some n) T w"
    and "(case os_files w target of Some _ \<Rightarrow> (Inl (Sentinel OsExist), w) | None \<Rightarrow> (Inr (), set_node target (Some (RegFile [] 384)) w)) = (Inr x, w')"
  then have t: "os_files w target = None" "w' = set_node target (Some (RegFile [] 384)) w" by (auto split: option.splits)
  then have "target \<noteq> path" using s by (auto simp: stays_def)
  with s t show "target \<noteq> path \<and> copied path target (Some n) T [] w'" by (simp add: copied_def stays_set_node)
qed (auto split: option.splits)

lemma valid_copy_write:
  assumes "target \<noteq> path"
  shows "valid (copied path target N T []) (os_write target data) (\<lambda>_. copied path target N T data) (\<lambda>_. stays path N T)"
proof (rule validI)
  fix w e and w' :: "'a os_scheme" assume "copied path target N T [] w" "os_write target data w = (Inl e, w')"
  then show "stays path N T w'"
    using validD_Inl [OF valid_stays_write [OF assms, of N T data]] by (auto simp: copied_def)
next
  fix w x and w' :: "'a os_scheme" assume c: "copied path target N T [] w" "os_write target data w = (Inr x, w')"
  then have "stays path N T w'" using validD_Inr [OF valid_stays_write [OF assms, of N T data]] by (auto simp: copied_def)
  moreover have "os_files w' target = Some (RegFile data 384)"
    using c by (auto simp: copied_def os_write_def Let_def append_data_def split: option.splits)
  ultimately show "copied path target N T data w'" by (simp add: copied_def)
qed

lemma valid_copy_read:
  "valid (copied path target (Some (RegFile data m)) T c) (os_read_file path)
     (\<lambda>d w. d = data \<and> copied path target (Some (RegFile data m)) T c w) (\<lambda>_. copied path target (Some (RegFile data m)) T c)"
proof (rule validI)
  fix w d and w' :: "'a os_scheme"
  assume c: "copied path target (Some (RegFile data m)) T c w" and r: "os_read_file path w = (Inr d, w')"
  have "os_files w path = Some (RegFile data m)" using c by (simp add: copied_def stays_def)
  moreover from this r have "w' = w\<lparr>os_tick := Suc (os_tick w)\<rparr>"
    by (auto simp: os_read_file_def os_call_def stat_node_def eval_nat_numeral Let_def split: option.splits)
  ultimately show "d = data \<and> copied path target (Some (RegFile data m)) T c w'"
    using c os_read_regular [OF r] by simp
next
  fix w e and w' :: "'a os_scheme"
  assume c: "copied path target (Some (RegFile data m)) T c w" and r: "os_read_file path w = (Inl e, w')"
  have "w' = w\<lparr>os_tick := Suc (os_tick w)\<rparr>" using r by (auto simp: os_read_file_def os_call_def Let_def split: option.splits)
  with c show "copied path target (Some (RegFile data m)) T c w'" by simp
qed

lemma valid_io_copy:
  assumes "target \<noteq> path"
  shows "valid (copied path target (Some (RegFile data m)) T []) (io_copy target path)
     (\<lambda>_. copied path target (Some (RegFile data m)) T data) (\<lambda>_. stays path (Some (RegFile data m)) T)"
  unfolding io_copy_def
proof (rule valid_bind)
  show "valid (copied path target (Some (RegFile data m)) T []) (os_read_file path)
     (\<lambda>d w. d = data \<and> copied path target (Some (RegFile data m)) T [] w) (\<lambda>_. stays path (Some (RegFile data m)) T)"
    by (rule valid_weaken [OF valid_copy_read]) (auto simp: copied_def)
  show "valid (\<lambda>w. d = data \<and> copied path target (Some (RegFile data m)) T [] w) (os_write target d)
     (\<lambda>_. copied path target (Some (RegFile data m)) T data) (\<lambda>_. stays path (Some (RegFile data m)) T)" for d
  proof (cases "d = data")
    case True
    then show ?thesis using valid_copy_write [OF assms] by simp
  qed (simp add: valid_def)
qed

text \<open>Removing the log when its copy is complete.\<close>

lemma valid_remove_log:
  assumes "target \<noteq> path"
  shows "valid (copied path target (Some (RegFile data m)) T data) (os_remove path)
     (\<lambda>_. archived data path target T) (\<lambda>_. archived data path target T)"
  unfolding os_remove_def
proof (rule valid_os_call [OF validI])
  fix w x and w' :: "'a os_scheme"
  assume c: "copied path target (Some (RegFile data m)) T data w"
    and "(case os_files w path of None \<Rightarrow> (Inl (Sentinel OsNotExist), w) | Some n \<Rightarrow> (Inr (), set_node path None w)) = (Inr x, w')"
  then have "w' = set_node path None w" by (auto split: option.splits)
  then have w': "os_files w' = (os_files w)(path := None)" "os_trace w' = os_trace w @ [(os_files w)(path := None)]"
    by (simp_all add: set_node_def Let_def)
  from c obtain ts where t: "os_trace w = T @ ts" "\<forall>t \<in> set ts. t path = Some (RegFile data m)" "os_files w target = Some (RegFile data 384)"
    by (auto simp: copied_def stays_def)
  have new: "((os_files w)(path := None)) target = Some (RegFile data 384)" using t(3) assms by simp
  then have "holds_data data path target ((os_files w)(path := None))" by (auto simp: holds_data_def)
  moreover have "\<forall>t \<in> set ts. holds_data data path target t" using t(2) by (auto simp: holds_data_def)
  ultimately have "survives data path target T w'"
    unfolding survives_def w' t(1) by (intro conjI exI [of _ "ts @ [(os_files w)(path := None)]"]) auto
  with new show "archived data path target T w'" unfolding archived_def w' by blast
qed (auto simp: copied_archived split: option.splits)

lemma valid_ignore_keep: "valid P f (\<lambda>_. P) (\<lambda>_. P) \<Longrightarrow> valid P (ignoreE f) (\<lambda>_. P) E"
  by (rule valid_ignore)

lemma valid_copy_and_delete:
  "valid (stays path (Some (RegFile data m)) T) (copy_and_delete path target)
     (\<lambda>_. archived data path target T) (\<lambda>_. survives data path target T)"
proof -
  let ?S = "stays path (Some (RegFile data m)) T" and ?C = "copied path target (Some (RegFile data m)) T data"
  have close: "valid P (ignoreE (os_close p)) (\<lambda>_. P) E" if "\<And>w n. P w \<Longrightarrow> P (w\<lparr>os_tick := n\<rparr>)" for P :: "'a os_scheme \<Rightarrow> bool" and p E
    using that by (intro valid_ignore valid_close) auto
  have fail: "valid ?S (failE e) Q (\<lambda>_. survives data path target T)" for e :: gerror and Q :: "unit \<Rightarrow> 'a os_scheme \<Rightarrow> bool"
    by (rule valid_fail) (rule stays_survives)
  have undo: "valid ?S (bindE (ignoreE (os_remove target)) (\<lambda>_. bindE (ignoreE (os_close path)) (\<lambda>_. failE e)) :: ('a, unit) io)
      (\<lambda>_. archived data path target T) (\<lambda>_. survives data path target T)" if "target \<noteq> path" for e
    by (rule valid_bind [OF valid_ignore_keep [OF valid_remove_copy [OF that]]], rule valid_bind [OF close fail]) simp
  have remove: "valid ?C (tryE (os_remove path) (\<lambda>e. failE (f e)) k :: ('a, unit) io)
      (\<lambda>_. archived data path target T) (\<lambda>_. survives data path target T)"
    if "target \<noteq> path" "\<And>x. valid (archived data path target T) (k x) (\<lambda>_. archived data path target T) (\<lambda>_. survives data path target T)"
    for f :: "gerror \<Rightarrow> gerror" and k
    by (rule valid_try [OF valid_remove_log [OF that(1)] _ that(2)]) (rule valid_fail, simp add: archived_def)
  have copied: "valid (\<lambda>w. target \<noteq> path \<and> copied path target (Some (RegFile data m)) T [] w) rest
      (\<lambda>_. archived data path target T) (\<lambda>_. survives data path target T)"
    if "target \<noteq> path \<Longrightarrow> valid (copied path target (Some (RegFile data m)) T []) rest
      (\<lambda>_. archived data path target T) (\<lambda>_. survives data path target T)" for rest :: "('a, unit) io"
    using that by (cases "target = path") (simp_all add: valid_def)
  show ?thesis
    unfolding copy_and_delete_def
    apply (rule valid_bind [where R = "\<lambda>_. ?S"])
     apply (rule valid_weaken [OF valid_open [where P = ?S]]; simp add: stays_survives)
    apply (rule valid_try [OF valid_create_copy])
     apply (rule valid_bind [OF close fail], simp)
    apply (rule copied)
    apply (rule valid_try [OF valid_io_copy], assumption)
     apply (rule valid_bind [OF close undo]; simp)
    apply (rule valid_try [where R = "\<lambda>_. ?C" and F = "\<lambda>_. ?C"], rule valid_close, simp)
     apply (rule valid_weaken [OF undo]; simp add: copied_def)
    apply (rule valid_try [where R = "\<lambda>_. ?C" and F = "\<lambda>_. ?C"], rule valid_close, simp)
     apply (rule remove; simp add: valid_def archived_def)
    apply (rule remove; simp add: valid_def)
    done
qed

lemma valid_rename_log:
  "valid (stays path (Some (RegFile data m)) T) (os_rename path target)
     (\<lambda>_. archived data path target T) (\<lambda>_. stays path (Some (RegFile data m)) T)"
  unfolding os_rename_def
proof (rule valid_os_call [OF validI])
  fix w x and w' :: "'a os_scheme"
  assume st: "stays path (Some (RegFile data m)) T w"
    and "(case os_files w path of None \<Rightarrow> (Inl (Sentinel OsNotExist), w)
     | Some n \<Rightarrow> if is_dir_at (os_files w) target \<and> \<not> is_dir_at (os_files w) path then (Inl (Sentinel OsExist), w)
         else (let fs = (os_files w)(path := None, target := Some n) in (Inr (), w\<lparr>os_files := fs, os_trace := os_trace w @ [fs]\<rparr>))) = (Inr x, w')"
  then have w': "os_files w' = (os_files w)(path := None, target := Some (RegFile data m))"
    "os_trace w' = os_trace w @ [(os_files w)(path := None, target := Some (RegFile data m))]"
    by (auto simp: stays_def Let_def split: if_splits)
  from st obtain ts where t: "os_trace w = T @ ts" "\<forall>t \<in> set ts. t path = Some (RegFile data m)" by (auto simp: stays_def)
  have "holds_data data path target ((os_files w)(path := None, target := Some (RegFile data m)))" by (auto simp: holds_data_def)
  moreover have "\<forall>t \<in> set ts. holds_data data path target t" using t(2) by (auto simp: holds_data_def)
  ultimately have "survives data path target T w'"
    unfolding survives_def w' t(1)
    by (intro conjI exI [of _ "ts @ [(os_files w)(path := None, target := Some (RegFile data m))]"]) auto
  then show "archived data path target T w'" by (simp add: archived_def w')
qed (auto simp: Let_def split: option.splits if_splits)

lemma valid_move_log:
  "valid (stays path (Some (RegFile data m)) T) (move_log path target)
     (\<lambda>_. archived data path target T) (\<lambda>_. survives data path target T)"
  unfolding move_log_def
  by (rule valid_try [OF valid_rename_log], rule valid_if [OF valid_copy_and_delete])
    (auto intro!: valid_fail valid_ret stays_survives)

lemma stays_stat: "stays path (Some (RegFile data m)) T w \<Longrightarrow> stat_node (os_files w) path = Inr (RegFile data m)"
  by (simp add: stays_def stat_node_def eval_nat_numeral)

lemma valid_mkdir_log:
  "valid (stays path (Some (RegFile data m)) T) (os_mkdir_all dir p)
     (\<lambda>_. stays path (Some (RegFile data m)) T) (\<lambda>_. stays path (Some (RegFile data m)) T)"
  unfolding os_mkdir_all_def
proof (rule valid_os_call)
  show "valid (stays path (Some (RegFile data m)) T)
     (\<lambda>w. case stat_node (os_files w) dir of
       Inr (DirNode _) \<Rightarrow> (Inr (), w)
     | Inr _ \<Rightarrow> (Inl (Plain [Lit ''not a directory'']), w)
     | Inl e \<Rightarrow> (if e = Sentinel OsNotExist then (Inr (), set_node dir (Some (DirNode p)) w) else (Inl e, w)))
     (\<lambda>_. stays path (Some (RegFile data m)) T) (\<lambda>_. stays path (Some (RegFile data m)) T)"
  proof (cases "dir = path")
    case True
    then show ?thesis by (auto simp: valid_def stays_stat)
  next
    case False
    then show ?thesis by (auto simp: valid_def intro: stays_set_node split: sum.splits node.splits)
  qed
qed auto

lemma valid_lstat_log:
  "valid (stays path N T) (os_lstat p) (\<lambda>n w. stays path N T w \<and> (p = path \<longrightarrow> Some n = N)) (\<lambda>_. stays path N T)"
  unfolding os_lstat_def by (rule valid_os_call) (auto simp: valid_def stays_def split: option.split)

lemma bindE_retE: "bindE (retE x) k = k x"
  by (rule ext) (simp add: bindE_def)

lemma valid_archive_into:
  "valid (stays path (Some (RegFile data m)) T) (archive_into dir path i)
     (\<lambda>j w. j = i \<and> archived data path (join_path [dir, i]) T w) (\<lambda>_. survives data path (join_path [dir, i]) T)"
  unfolding archive_into_def Let_def
proof (rule valid_bind [where R = "\<lambda>_. stays path (Some (RegFile data m)) T"])
  show "valid (stays path (Some (RegFile data m)) T) (os_mkdir_all dir 448) (\<lambda>_. stays path (Some (RegFile data m)) T)
      (\<lambda>_. survives data path (join_path [dir, i]) T)"
    by (rule valid_weaken [OF valid_mkdir_log]) (auto intro: stays_survives)
  show "valid (stays path (Some (RegFile data m)) T)
      (tryE (os_lstat (join_path [dir, i]))
        (\<lambda>err. if \<not> errors_is err OsNotExist then failE err else bindE (move_log path (join_path [dir, i])) (\<lambda>_. retE i))
        (\<lambda>_. failE (Plain [Lit ''log archive '', Quoted i, Lit '' already exists''])))
      (\<lambda>j w. j = i \<and> archived data path (join_path [dir, i]) T w) (\<lambda>_. survives data path (join_path [dir, i]) T)" for x
    by (rule valid_try [OF valid_lstat_log]; (rule valid_if)?)
      (auto intro!: valid_fail valid_ret stays_survives valid_bind [OF valid_move_log])
qed

text \<open>C22: Archiving a log never loses it, whatever system calls fail and wherever the process stops: at every moment the log or its archive holds the
  contents, and when the name of an archive is returned, this archive holds them.\<close>

theorem archive_never_loses:
  assumes "get_log_path env name = Inr path" "get_archive_dir env = Inr dir"
    "os_files w path = Some (RegFile data m)" "data \<noteq> []" "archive_log env lk name now w = (r, w')"
  shows "survives data path (join_path [dir, archive_id lk name now]) (os_trace w) w' \<and>
    (\<forall>i. r = Inr i \<longrightarrow> i \<noteq> [] \<longrightarrow> i = archive_id lk name now \<and> (\<exists>m. os_files w' (join_path [dir, i]) = Some (RegFile data m)))"
proof -
  let ?i = "archive_id lk name now" and ?N = "Some (RegFile data m)"
  let ?t = "join_path [dir, ?i]"
  have ok: "stays path ?N (os_trace w) w" using assms(3) by (simp add: stays_def)
  have v: "valid (stays path ?N (os_trace w)) (archive_log env lk name now)
     (\<lambda>i w'. survives data path ?t (os_trace w) w' \<and> (i \<noteq> [] \<longrightarrow> i = ?i \<and> archived data path ?t (os_trace w) w'))
     (\<lambda>_. survives data path ?t (os_trace w))"
  proof (cases "log_name_pattern name")
    case False
    then show ?thesis by (auto simp: archive_log_def intro!: valid_fail stays_survives)
  next
    case True
    have ne: "?i \<noteq> []" by (simp add: archive_id_def)
    have into: "valid (\<lambda>w'. stays path ?N (os_trace w) w' \<and> (path = path \<longrightarrow> Some n = ?N))
      (case n of RegFile d k \<Rightarrow> (if d = [] then bindE (ignoreE (os_remove path)) (\<lambda>_. retE []) else bindE (lift_err (get_archive_dir env)) (\<lambda>dir. archive_into dir path ?i))
       | _ \<Rightarrow> failE (Plain [Lit ''log path '', Quoted path, Lit '' is not a regular file'']))
      (\<lambda>i w'. survives data path ?t (os_trace w) w' \<and> (i \<noteq> [] \<longrightarrow> i = ?i \<and> archived data path ?t (os_trace w) w'))
      (\<lambda>_. survives data path ?t (os_trace w))" for n
    proof (cases "Some n = ?N")
      case True
      then have n: "n = RegFile data m" by simp
      show ?thesis
        using assms(4)
        by (simp add: n assms(2) lift_err_def bindE_retE) (auto intro!: valid_weaken [OF valid_archive_into] simp: archived_def)
    qed (simp add: valid_def)
    show ?thesis
      unfolding archive_log_def using True
      by (simp add: assms(1) lift_err_def bindE_retE)
        (rule valid_try [OF valid_lstat_log _ into], auto intro!: valid_if valid_ret valid_fail stays_survives)
  qed
  show ?thesis
  proof (cases r)
    case (Inl e)
    with validD_Inl [OF v ok] assms(5) show ?thesis by simp
  next
    case (Inr i)
    with validD_Inr [OF v ok] assms(5) show ?thesis by (auto simp: archived_def)
  qed
qed

definition demo_clock :: log_clock where
  "demo_clock = \<lparr>lk_format = (\<lambda>_. ''20240102T030405.000000006Z''), lk_parse = (\<lambda>_. Some 0)\<rparr>"

definition demo_home :: host_env where
  "demo_home = \<lparr>he_getenv = (\<lambda>k. if k = ''LLAMARIG_HOME'' then ''/h'' else []), he_user_home = Inr ''/u''\<rparr>"

definition demo_logs :: os where
  "demo_logs =
     \<lparr>os_files = [''/h/run'' \<mapsto> DirNode 448, ''/h/run/llama.log'' \<mapsto> RegFile ''x'' 384], os_tick = 0, os_fault = (\<lambda>_. None), os_trace = [],
      os_rand = (\<lambda>_. 0), os_stamp = (\<lambda>_. []), os_sha = (\<lambda>s. s), os_cwd = ''/''\<rparr>"

theorem archive_never_loses_witness:
  "survives ''x'' ''/h/run/llama.log'' (join_path [''/h/logs/archive'', archive_id demo_clock ''llama'' 0]) (os_trace demo_logs)
     (snd (archive_log demo_home demo_clock ''llama'' 0 demo_logs))"
proof -
  have "get_log_path demo_home ''llama'' = Inr ''/h/run/llama.log''" "get_archive_dir demo_home = Inr ''/h/logs/archive''" by code_simp+
  moreover have "os_files demo_logs ''/h/run/llama.log'' = Some (RegFile ''x'' 384)" by (simp add: demo_logs_def)
  ultimately show ?thesis
    using archive_never_loses [of demo_home "''llama''" _ _ demo_logs "''x''" 384 demo_clock 0, OF _ _ _ _ surjective_pairing] by simp
qed

subsection \<open>What a cleanup deletes\<close>

lemma lstat_quiet: "os_lstat p w = (r, w') \<Longrightarrow> os_files w' = os_files w \<and> os_trace w' = os_trace w"
  by (auto simp: os_lstat_def os_call_def Let_def split: option.splits)

lemma archive_path_outcome:
  assumes "get_archive_dir env = Inr dir" "archive_path env i w = (r, w')"
  shows "os_files w' = os_files w \<and> os_trace w' = os_trace w \<and> (\<forall>p. r = Inr p \<longrightarrow> p = join_path [dir, i])"
  using assms(2)
  by (auto simp: archive_path_def assms(1) lift_err_def bindE_def Let_def split: if_splits prod.splits sum.splits node.splits dest!: lstat_quiet)

lemma remove_files: "os_remove p w = (r, w') \<Longrightarrow> os_files w' = os_files w \<or> os_files w' = (os_files w)(p := None)"
  by (auto simp: os_remove_def os_call_def Let_def split: option.splits)

lemma delete_archive_files:
  assumes "get_archive_dir env = Inr dir" "delete_archive env i w = (r, w')"
  shows "os_files w' = os_files w \<or> os_files w' = (os_files w)(join_path [dir, i] := None)"
proof -
  obtain q w1 where q: "archive_path env i w = (q, w1)" by force
  note o = archive_path_outcome [OF assms(1) q]
  show ?thesis
  proof (cases q)
    case (Inl e)
    with assms(2) q o show ?thesis by (auto simp: delete_archive_def tryE_def split: if_splits)
  next
    case (Inr p)
    obtain x w2 where x: "os_remove p w1 = (x, w2)" by force
    have "w2 = w'" using assms(2) q Inr x by (auto simp: delete_archive_def tryE_def split: sum.splits if_splits)
    with remove_files [OF x] o Inr show ?thesis by auto
  qed
qed

lemma delete_loop_files:
  assumes "get_archive_dir env = Inr dir" "delete_archives_loop env arcs n errs w = (r, w')" "os_files w' p \<noteq> os_files w p"
  shows "os_files w' p = None \<and> (\<exists>a \<in> set arcs. p = join_path [dir, ar_id a])"
  using assms(2,3)
proof (induction arcs arbitrary: n errs w)
  case (Cons a arcs)
  obtain q w1 where q: "delete_archive env (ar_id a) w = (q, w1)" by force
  obtain n' errs' where rest: "delete_archives_loop env arcs n' errs' w1 = (r, w')"
    using Cons.prems(1) q by (cases q) (auto simp: tryE_def)
  show ?case
  proof (cases "os_files w' p = os_files w1 p")
    case True
    with Cons.prems(2) delete_archive_files [OF assms(1) q] show ?thesis by (auto split: if_splits)
  next
    case False
    from Cons.IH [OF rest False] show ?thesis by auto
  qed
qed simp

lemma list_archives_outcome:
  assumes "get_archive_dir env = Inr dir" "list_archives env lk names w = (r, w')"
  shows "os_files w' = os_files w \<and>
    (\<forall>arcs a. r = Inr arcs \<longrightarrow> a \<in> set arcs \<longrightarrow> (\<exists>service stamp. archive_name_pattern (ar_id a) = Some (service, stamp) \<and> lk_parse lk stamp = Some (ar_archived_at a)))"
proof -
  have entry: "\<exists>service stamp. archive_name_pattern (ar_id a) = Some (service, stamp) \<and> lk_parse lk stamp = Some (ar_archived_at a)"
    if "archive_entry lk name n = Some a" for name n a
    using that by (auto simp: archive_entry_def split: node.splits option.splits)
  have files: "os_files w1 = os_files w" if "os_read_dir names dir w = (q, w1)" for q w1
    using that by (auto simp: os_read_dir_def os_call_def Let_def split: option.splits)
  obtain q w1 where q: "os_read_dir names dir w = (q, w1)" by force
  show ?thesis
  proof (cases q)
    case (Inl e)
    with assms q files show ?thesis
      by (auto simp: list_archives_def lift_err_def bindE_retE tryE_def split: if_splits)
  next
    case (Inr entries)
    have "w' = w1" "r = Inr (sort_key (\<lambda>a. - ar_archived_at a) (List.map_filter (\<lambda>(p, n). archive_entry lk (base_of p) n) entries))"
      using assms q Inr by (auto simp: list_archives_def lift_err_def bindE_retE tryE_def)
    moreover have "\<exists>service stamp. archive_name_pattern (ar_id a) = Some (service, stamp) \<and> lk_parse lk stamp = Some (ar_archived_at a)"
      if "a \<in> set (List.map_filter (\<lambda>(p, n). archive_entry lk (base_of p) n) entries)" for a
      using that entry by (auto simp: map_filter_def split: option.splits)
    ultimately show ?thesis using files [OF q] by auto
  qed
qed

text \<open>A cleanup of the archive deletes nothing but expired archives, whatever calls fail: a file that it changes was in the archive directory under a name
  whose time is before the retention, and is gone.\<close>

theorem cleanup_deletes_only_expired:
  assumes "get_archive_dir env = Inr dir" "cleanup_archives env lk names retention now w = (r, w')" "os_files w' p \<noteq> os_files w p"
  shows "os_files w' p = None \<and> (\<exists>i service stamp t. p = join_path [dir, i] \<and> archive_name_pattern i = Some (service, stamp) \<and>
    lk_parse lk stamp = Some t \<and> t < now - retention)"
proof -
  obtain q w1 where q: "list_archives env lk names w = (q, w1)" by force
  note l = list_archives_outcome [OF assms(1) q]
  have ret: "retention \<noteq> 0" using assms(2,3) by (auto simp: cleanup_archives_def split: if_splits)
  show ?thesis
  proof (cases q)
    case (Inl e)
    with assms(2,3) q l ret show ?thesis by (auto simp: cleanup_archives_def bindE_def)
  next
    case (Inr arcs)
    have "delete_archives_loop env (filter (\<lambda>a. ar_archived_at a < now - retention) arcs) 0 None w1 = (r, w')"
      using assms(2) q Inr ret by (simp add: cleanup_archives_def bindE_def delete_archives_def)
    from delete_loop_files [OF assms(1) this] assms(3) l obtain a where
      "os_files w' p = None" "a \<in> set arcs" "ar_archived_at a < now - retention" "p = join_path [dir, ar_id a]" by auto
    with l Inr show ?thesis by blast
  qed
qed

theorem cleanup_deletes_only_expired_witness:
  "\<exists>i. ''/h/logs/archive/s-20240102T030405.000000006Z.log'' = join_path [''/h/logs/archive'', i]"
proof -
  let ?p = "''/h/logs/archive/s-20240102T030405.000000006Z.log''"
  define w :: os where "w = demo_logs\<lparr>os_files := [''/h/logs/archive'' \<mapsto> DirNode 448, ?p \<mapsto> RegFile ''x'' 384]\<rparr>"
  obtain r w' where run: "cleanup_archives demo_home demo_clock [?p] 1 5 w = (r, w')" by force
  have "os_files (snd (cleanup_archives demo_home demo_clock [?p] 1 5 w)) ?p = None" unfolding w_def by code_simp
  with run have "os_files w' ?p \<noteq> os_files w ?p" by (simp add: w_def)
  moreover have "get_archive_dir demo_home = Inr ''/h/logs/archive''" by code_simp
  ultimately show ?thesis using cleanup_deletes_only_expired [OF _ run] by blast
qed

end
