(* ===== verification/FileTree.thy ===== *)
theory FileTree
  imports LocalModels OsFrame
begin

section \<open>Calls on whole directory trees\<close>

text \<open>
  \<^verbatim>\<open>os.RemoveAll\<close>, \<^verbatim>\<open>os.Rename\<close> of a directory, \<^verbatim>\<open>os.MkdirTemp\<close>, \<^verbatim>\<open>filepath.WalkDir\<close> and \<^verbatim>\<open>os.CopyFS\<close> on the map of paths:
  a tree is a path with all paths below it. Each is one call that takes place whole or fails without an effect.
\<close>

definition below :: "string \<Rightarrow> string \<Rightarrow> bool" where
  "below root p \<longleftrightarrow> p = root \<or> has_prefix p (root @ [slash])"

definition os_remove_all :: "string \<Rightarrow> ('z, unit) io" where
  "os_remove_all p =
     os_call (\<lambda>w. (let fs = (\<lambda>q. if below p q then None else os_files w q)
       in (Inr (), w\<lparr>os_files := fs, os_trace := os_trace w @ [fs]\<rparr>)))"

text \<open>A directory is renamed to a path where nothing is.\<close>

definition os_rename_tree :: "string \<Rightarrow> string \<Rightarrow> ('z, unit) io" where
  "os_rename_tree p q =
     os_call (\<lambda>w. case os_files w p of
         None \<Rightarrow> (Inl (Sentinel OsNotExist), w)
       | Some _ \<Rightarrow>
           if os_files w q \<noteq> None then (Inl (Sentinel OsExist), w)
           else
             (let fs = (\<lambda>x. if below q x then os_files w (p @ drop (length q) x) else if below p x then None else os_files w x)
              in (Inr (), w\<lparr>os_files := fs, os_trace := os_trace w @ [fs]\<rparr>)))"

fun mkdir_temp_try :: "nat \<Rightarrow> string \<Rightarrow> string \<Rightarrow> ('z, string) io" where
  "mkdir_temp_try 0 dir pfx w = (Inl (Sentinel OsExist), w)"
| "mkdir_temp_try (Suc k) dir pfx w =
     (let p = temp_name dir pfx (os_rand w (os_tick w)); w' = w\<lparr>os_tick := Suc (os_tick w)\<rparr> in
      case os_files w p of
        Some _ \<Rightarrow> mkdir_temp_try k dir pfx w'
      | None \<Rightarrow> (Inr p, set_node p (Some (DirNode 448)) w'))"

definition os_mkdir_temp :: "string \<Rightarrow> string \<Rightarrow> ('z, string) io" where
  "os_mkdir_temp dir pfx = os_call (mkdir_temp_try 10000 dir pfx)"

text \<open>The entries below a root in lexical order; \<open>names\<close> enumerates the paths that may exist.\<close>

definition os_walk :: "string list \<Rightarrow> string \<Rightarrow> ('z, (string \<times> node) list) io" where
  "os_walk names root =
     os_call (\<lambda>w. (case os_files w root of
         None \<Rightarrow> Inl (Sentinel OsNotExist)
       | Some _ \<Rightarrow> Inr (map (\<lambda>q. (q, the (os_files w q))) (sort (filter (\<lambda>q. below root q \<and> os_files w q \<noteq> None) (remdups names)))), w))"

text \<open>Files keep their contents and their bits of execution (\<^verbatim>\<open>0666|mode\<close>).\<close>

fun copied_node :: "node \<Rightarrow> node" where
  "copied_node (RegFile d m) = RegFile d (438 + 64 * (m div 64 mod 2) + 8 * (m div 8 mod 2) + m mod 2)"
| "copied_node (DirNode m) = DirNode 511"
| "copied_node (LinkNode t) = LinkNode t"

definition os_copy_tree :: "string \<Rightarrow> string \<Rightarrow> ('z, unit) io" where
  "os_copy_tree target source =
     os_call (\<lambda>w. case os_files w source of
         None \<Rightarrow> (Inl (Sentinel OsNotExist), w)
       | Some _ \<Rightarrow>
           (let fs = (\<lambda>x. if below target x then (case os_files w (source @ drop (length target) x) of
                                                   Some n \<Rightarrow> Some (copied_node n) | None \<Rightarrow> os_files w x)
                          else os_files w x)
            in (Inr (), w\<lparr>os_files := fs, os_trace := os_trace w @ [fs]\<rparr>)))"

subsection \<open>What the calls touch\<close>

lemma below_self [simp]: "below p p"
  by (simp add: below_def)

lemma touches_remove_all [touches_intros]: "{q. below p q} \<subseteq> P \<Longrightarrow> touches P (os_remove_all p)"
  unfolding os_remove_all_def by (rule touches_call) (auto simp: touches_def agree_off_def Let_def)

lemma touches_rename_tree [touches_intros]: "{x. below p x \<or> below q x} \<subseteq> P \<Longrightarrow> touches P (os_rename_tree p q)"
  unfolding os_rename_tree_def by (rule touches_call) (auto simp: touches_def agree_off_def Let_def split: option.splits)

lemma touches_copy_tree [touches_intros]: "{x. below q x} \<subseteq> P \<Longrightarrow> touches P (os_copy_tree q p)"
  unfolding os_copy_tree_def by (rule touches_call) (auto simp: touches_def agree_off_def Let_def split: option.splits)

lemma touches_walk [touches_intros]: "touches P (os_walk names root)"
  unfolding os_walk_def by (rule touches_pure) simp

lemma mkdir_temp_try_name:
  "mkdir_temp_try k dir pfx w = (r, w') \<Longrightarrow>
   (case r of
      Inl e \<Rightarrow> os_files w' = os_files w \<and> os_trace w' = os_trace w
    | Inr p \<Rightarrow> (\<exists>n. p = temp_name dir pfx n) \<and> os_files w p = None \<and> os_files w' = (os_files w)(p \<mapsto> DirNode 448)
        \<and> os_trace w' = os_trace w @ [os_files w'])"
proof (induction k arbitrary: w)
  case (Suc k)
  show ?case
  proof (cases "os_files w (temp_name dir pfx (os_rand w (os_tick w)))")
    case None
    with Suc.prems show ?thesis by (auto simp: Let_def set_node_def)
  next
    case (Some n)
    with Suc.prems Suc.IH [of "w\<lparr>os_tick := Suc (os_tick w)\<rparr>"] show ?thesis by (auto simp: Let_def split: sum.splits)
  qed
qed auto

lemma mkdir_temp_name:
  assumes "os_mkdir_temp dir pfx w = (r, w')"
  shows "case r of
      Inl e \<Rightarrow> os_files w' = os_files w \<and> os_trace w' = os_trace w
    | Inr p \<Rightarrow> (\<exists>n. p = temp_name dir pfx n) \<and> os_files w p = None \<and> os_files w' = (os_files w)(p \<mapsto> DirNode 448)
        \<and> os_trace w' = os_trace w @ [os_files w']"
  using assms mkdir_temp_try_name [of 10000 dir pfx "w\<lparr>os_tick := Suc (os_tick w)\<rparr>" r w']
  by (auto simp: os_mkdir_temp_def os_call_def Let_def split: option.splits sum.splits)

end
