(* ===== verification/LlamaInstall.thy ===== *)
theory LlamaInstall
  imports FileTree Machine ConfigStore
begin

section \<open>Installing llama.cpp (\<^verbatim>\<open>core/llamainstall\<close>)\<close>

text \<open>
  The installer: the choice of a release asset or of a build from source, the staged payload, its activation, the recorded state and the
  configuration. The record \<open>install_tools\<close> holds what the installer runs: other programs (with \<^verbatim>\<open>CombinedOutput\<close> or in a directory), the lock
  on \<^verbatim>\<open>install.lock\<close>, JSON and the search for programs. Headers of requests and the progress output are left out.
\<close>

definition backend_auto :: string where "backend_auto = ''auto''"
definition backend_cpu :: string where "backend_cpu = ''cpu''"
definition backend_cuda :: string where "backend_cuda = ''cuda''"
definition backend_rocm :: string where "backend_rocm = ''rocm''"
definition backend_vulkan :: string where "backend_vulkan = ''vulkan''"
definition backend_metal :: string where "backend_metal = ''metal''"

lemmas backend_defs = backend_auto_def backend_cpu_def backend_cuda_def backend_rocm_def backend_vulkan_def backend_metal_def

record install_options =
  io_backend :: string
  io_backend_set :: bool
  io_source_set :: bool
  io_source :: bool
  io_jobs :: int

record install_record =
  ir_tag :: string
  ir_directory :: string
  ir_executable :: string
  ir_policy :: string
  ir_backend :: string
  ir_source :: bool

record install_state =
  is_active :: "install_record option"
  is_previous :: "install_record option"

record asset =
  as_name :: string
  as_url :: string
  as_digest :: string
  as_size :: int

record release =
  rl_tag_name :: string
  rl_tarball_url :: string
  rl_assets :: "asset list"

record installer =
  in_root :: string
  in_goos :: string
  in_goarch :: string

record 'z install_tools =
  it_output :: "string \<Rightarrow> string list \<Rightarrow> ('z, (gerror \<times> string) option) mio"
  it_run :: "string \<Rightarrow> string \<Rightarrow> string list \<Rightarrow> ('z, unit) mio"
  it_found :: "string \<Rightarrow> bool"
  it_lock :: "('z, unit) mio"
  it_release :: "string \<Rightarrow> gerror option \<Rightarrow> gerror + release"
  it_read_state :: "string \<Rightarrow> gerror + install_state"
  it_write_state :: "install_state \<Rightarrow> gerror + string"
  it_names :: "string list"

text \<open>\<open>it_output\<close> returns the error with the output when the program fails; \<^verbatim>\<open>errors.New\<close> values as plain errors.\<close>

definition no_managed_install :: gerror where "no_managed_install = Plain [Lit ''no managed llama.cpp install'']"
definition no_prebuilt :: gerror where "no_prebuilt = Plain [Lit ''no matching llama.cpp prebuilt'']"

definition latest_release_url :: string where
  "latest_release_url = ''https://api.github.com/repos/ggml-org/llama.cpp/releases/latest''"

definition new_installer :: "host_env \<Rightarrow> string \<Rightarrow> string \<Rightarrow> gerror + installer" where
  "new_installer env goos goarch =
     (case llama_rig_home env of
        Inl err \<Rightarrow> Inl err
      | Inr home \<Rightarrow> Inr \<lparr>in_root = join_path [home, ''llama.cpp''], in_goos = goos, in_goarch = goarch\<rparr>)"

subsection \<open>Backends\<close>

definition command_works :: "'z install_tools \<Rightarrow> string \<Rightarrow> string list \<Rightarrow> ('z, bool) mio" where
  "command_works t name args =
     (if \<not> it_found t name then retE False else tryE (it_output t name args) (\<lambda>_. retE False) (\<lambda>r. retE (r = None)))"

definition detect :: "'z install_tools \<Rightarrow> installer \<Rightarrow> ('z, string) mio" where
  "detect t i =
     (if in_goos i = ''darwin'' then retE backend_metal
      else bindE (command_works t ''nvidia-smi'' [''-L'']) (\<lambda>cuda. if cuda then retE backend_cuda
      else bindE (command_works t ''rocminfo'' []) (\<lambda>rocm. if rocm then retE backend_rocm
      else bindE (command_works t ''vulkaninfo'' [''--summary'']) (\<lambda>vulkan. if vulkan then retE backend_vulkan else retE backend_cpu))))"

definition validate_choice :: "installer \<Rightarrow> string \<Rightarrow> bool \<Rightarrow> gerror option" where
  "validate_choice i backend source =
     (if in_goos i = ''darwin'' then
        (if backend \<noteq> backend_cpu \<and> backend \<noteq> backend_metal then Some (Plain [Lit ''backend '', Str backend, Lit '' is unsupported on macOS''])
         else if \<not> source \<and> backend = backend_cpu
         then Some (Wrap [TextOf no_prebuilt, Lit '' for macOS/cpu; use --source or --backend metal''] [no_prebuilt])
         else None)
      else if backend = backend_metal then Some (Plain [Lit ''backend metal is unsupported on Linux''])
      else None)"

definition valid_backend :: "string \<Rightarrow> bool" where
  "valid_backend v \<longleftrightarrow> v \<in> {backend_auto, backend_cpu, backend_cuda, backend_rocm, backend_vulkan, backend_metal}"

text \<open>The policy and whether to build from source; an upgrade keeps what the options do not set.\<close>

definition resolve_policy :: "install_options \<Rightarrow> install_record option \<Rightarrow> bool \<Rightarrow> gerror + (string \<times> bool)" where
  "resolve_policy opts active upgrade =
     (if upgrade \<and> active = None then Inl no_managed_install
      else
        (let policy = (if upgrade \<and> \<not> io_backend_set opts then ir_policy (the active) else io_backend opts);
             source = (if upgrade \<and> \<not> io_source_set opts then ir_source (the active) else io_source opts);
             policy' = (if policy = [] then backend_auto else policy)
         in if \<not> valid_backend policy' then Inl (Plain [Lit ''unknown backend '', Quoted policy']) else Inr (policy', source)))"

definition normalize_options :: "installer \<Rightarrow> install_options \<Rightarrow> gerror + install_options" where
  "normalize_options i opts =
     (if (in_goarch i \<noteq> ''amd64'' \<and> in_goarch i \<noteq> ''arm64'') \<or> (in_goos i \<noteq> ''linux'' \<and> in_goos i \<noteq> ''darwin'')
      then Inl (Plain [Lit ''unsupported host '', Str (in_goos i), Lit ''/'', Str (in_goarch i)])
      else if io_jobs opts < 0 then Inl (Plain [Lit ''jobs must be positive''])
      else Inr (if io_jobs opts = 0 then opts\<lparr>io_jobs := 4\<rparr> else opts))"

subsection \<open>Releases\<close>

definition latest :: "'z install_tools \<Rightarrow> ('z, release) mio" where
  "latest t w =
     (case mc_bad_url w latest_release_url of
        Some err \<Rightarrow> (Inl err, w)
      | None \<Rightarrow>
          tryE (exchange \<lparr>hq_method = ''GET'', hq_url = latest_release_url, hq_model = None\<rparr>)
            (\<lambda>err. failE (wrap_err ''resolve llama.cpp release'' err))
            (\<lambda>resp.
               if hp_status resp \<noteq> 200 then failE (Plain [Lit ''resolve llama.cpp release: '', Str (hp_status_text resp)])
               else (case it_release t (hp_body resp) (hp_read_err resp) of
                       Inl err \<Rightarrow> failE err
                     | Inr rel \<Rightarrow>
                         if rl_tag_name rel = [] \<or> rl_tarball_url rel = []
                         then failE (Plain [Lit ''llama.cpp release metadata is incomplete'']) else retE rel)) w)"

text \<open>\<^verbatim>\<open>strings.TrimSuffix\<close> cuts the architecture and the extension, which end the name.\<close>

definition asset_arch :: "installer \<Rightarrow> string" where
  "asset_arch i = (if in_goarch i = ''amd64'' then ''x64'' else if in_goarch i = ''arm64'' then ''arm64'' else [])"

definition asset_prefix :: "installer \<Rightarrow> release \<Rightarrow> string \<Rightarrow> string" where
  "asset_prefix i rel backend =
     ''llama-'' @ rl_tag_name rel @ ''-bin-'' @ (if in_goos i = ''darwin'' then ''macos'' else ''ubuntu'')
       @ (if backend \<noteq> backend_cpu \<and> backend \<noteq> backend_metal then ''-'' @ backend else []) @ ''-''"

definition asset_matches :: "installer \<Rightarrow> release \<Rightarrow> string \<Rightarrow> string \<Rightarrow> bool" where
  "asset_matches i rel backend name \<longleftrightarrow>
     name = asset_prefix i rel backend @ asset_arch i @ ''.tar.gz'' \<or>
     (backend = backend_rocm \<and> has_prefix name (asset_prefix i rel backend) \<and> has_suffix name (''-'' @ asset_arch i @ ''.tar.gz''))"

definition release_asset :: "installer \<Rightarrow> release \<Rightarrow> string \<Rightarrow> gerror + asset" where
  "release_asset i rel backend =
     (case find (\<lambda>a. asset_matches i rel backend (as_name a)) (rl_assets rel) of
        Some a \<Rightarrow> Inr a
      | None \<Rightarrow> Inl (Wrap [TextOf no_prebuilt, Lit '' for '', Str (in_goos i), Lit ''/'', Str (in_goarch i), Lit ''/'', Str backend] [no_prebuilt]))"

subsection \<open>Archives\<close>

text \<open>The hash and the size of what was received; a body that ends early leaves the file behind.\<close>

definition create_exclusive :: "string \<Rightarrow> nat \<Rightarrow> ('z, unit) io" where
  "create_exclusive p m =
     os_call (\<lambda>w. case os_files w p of Some _ \<Rightarrow> (Inl (Sentinel OsExist), w) | None \<Rightarrow> (Inr (), set_node p (Some (RegFile [] m)) w))"

definition download_to :: "string \<Rightarrow> string \<Rightarrow> ('z, string \<times> int) mio" where
  "download_to url destination w =
     (case mc_bad_url w url of
        Some err \<Rightarrow> (Inl err, w)
      | None \<Rightarrow>
          bindE (exchange \<lparr>hq_method = ''GET'', hq_url = url, hq_model = None\<rparr>) (\<lambda>resp.
            if hp_status resp \<noteq> 200 then failE (Plain [Lit ''download '', Str url, Lit '': '', Str (hp_status_text resp)])
            else
              bindE (create_exclusive destination 384) (\<lambda>_.
              tryE (bindE (os_write destination (hp_body resp)) (\<lambda>_. case hp_read_err resp of Some err \<Rightarrow> failE err | None \<Rightarrow> retE ()))
                (\<lambda>err. bindE (ignoreE (os_close destination)) (\<lambda>_. failE err))
                (\<lambda>_. bindE (os_close destination) (\<lambda>_ w'. (Inr (os_sha w' (hp_body resp), int (length (hp_body resp))), w'))))) w)"

definition extract_tar_gz :: "'z install_tools \<Rightarrow> string \<Rightarrow> string \<Rightarrow> ('z, unit) mio" where
  "extract_tar_gz t archive destination =
     bindE (os_mkdir_all destination 448) (\<lambda>_.
     bindE (it_output t ''tar'' [''-xzf'', archive, ''-C'', destination]) (\<lambda>r.
       case r of
         Some (err, output) \<Rightarrow> failE (Wrap [Lit ''extract archive: '', TextOf err, Lit '': '', Str (trim_space output)] [err])
       | None \<Rightarrow> retE ()))"

text \<open>Exactly one file named llama-server; a link counts, a directory does not.\<close>

definition find_executable :: "'z install_tools \<Rightarrow> string \<Rightarrow> ('z, string) mio" where
  "find_executable t root =
     bindE (os_walk (it_names t) root) (\<lambda>entries.
       (let matches = map fst (filter (\<lambda>(p, n). (case n of DirNode _ \<Rightarrow> False | _ \<Rightarrow> True) \<and> base_of p = ''llama-server'') entries) in
        case matches of
          [p] \<Rightarrow> retE p
        | _ \<Rightarrow> failE (Plain [Lit ''expected one llama-server, found '', Num (int (length matches))])))"

definition strip_sha256 :: "string \<Rightarrow> string" where
  "strip_sha256 d = (if has_prefix d ''sha256:'' then drop 7 d else d)"

definition install_asset :: "'z install_tools \<Rightarrow> installer \<Rightarrow> release \<Rightarrow> string \<Rightarrow> string \<Rightarrow> string \<Rightarrow> ('z, unit) mio" where
  "install_asset t i rel backend payload work =
     (case release_asset i rel backend of
        Inl err \<Rightarrow> failE err
      | Inr selected \<Rightarrow>
          if as_size selected \<le> 0 \<or> \<not> has_prefix (as_digest selected) ''sha256:''
          then failE (Plain [Lit ''release asset '', Str (as_name selected), Lit '' lacks a GitHub SHA256 digest or size''])
          else
            (let archive = join_path [work, ''release.tar.gz''] in
             bindE (download_to (as_url selected) archive) (\<lambda>(hash, sz).
               if sz \<noteq> as_size selected \<or> map ascii_lower hash \<noteq> map ascii_lower (strip_sha256 (as_digest selected))
               then failE (Plain [Lit ''release asset integrity check failed''])
               else extract_tar_gz t archive payload)))"

subsection \<open>Building from source\<close>

definition cmake_args :: "string \<Rightarrow> string \<Rightarrow> string \<Rightarrow> string list" where
  "cmake_args root build backend =
     [''-S'', root, ''-B'', build, ''-DCMAKE_BUILD_TYPE=Release'', ''-DLLAMA_BUILD_TESTS=OFF'', ''-DLLAMA_BUILD_EXAMPLES=OFF'',
      ''-DLLAMA_BUILD_SERVER=ON'', ''-DLLAMA_CURL=OFF'', ''-DGGML_NATIVE=OFF''] @
     (if backend = backend_cuda then [''-DGGML_CUDA=ON''] else if backend = backend_rocm then [''-DGGML_HIP=ON'']
      else if backend = backend_vulkan then [''-DGGML_VULKAN=ON''] else if backend = backend_metal then [''-DGGML_METAL=ON'']
      else if backend = backend_cpu then [''-DGGML_METAL=OFF''] else [])"

definition find_source_root :: "'z install_tools \<Rightarrow> string \<Rightarrow> ('z, string) mio" where
  "find_source_root t root =
     tryE (os_read_dir (it_names t) root) (\<lambda>_. failE (Plain [Lit ''invalid source archive'']))
       (\<lambda>entries. case entries of
          (p, DirNode _) # _ \<Rightarrow> retE (join_path [root, base_of p])
        | _ \<Rightarrow> failE (Plain [Lit ''invalid source archive'']))"

definition build_source ::
  "'z install_tools \<Rightarrow> install_options \<Rightarrow> release \<Rightarrow> string \<Rightarrow> string \<Rightarrow> string \<Rightarrow> ('z, unit) mio" where
  "build_source t opts rel backend payload work =
     (let archive = join_path [work, ''source.tar.gz'']; source = join_path [work, ''source'']; build = join_path [work, ''build''] in
      bindE (download_to (rl_tarball_url rel) archive) (\<lambda>_.
      bindE (extract_tar_gz t archive source) (\<lambda>_.
      bindE (find_source_root t source) (\<lambda>root.
      bindE (mapErrE (wrap_err ''configure llama.cpp'') (it_run t root ''cmake'' (cmake_args root build backend))) (\<lambda>_.
      bindE (mapErrE (wrap_err ''build llama.cpp'') (it_run t root ''cmake''
        [''--build'', build, ''--config'', ''Release'', ''--target'', ''llama-server'', ''-j'', int_text (io_jobs opts)])) (\<lambda>_.
      (let bin = join_path [build, ''bin''] in
       bindE (tryE (os_stat (join_path [bin, ''llama-server''])) (\<lambda>_. retE (join_path [bin, ''Release''])) (\<lambda>_. retE bin)) (\<lambda>bin'.
         mapErrE (wrap_err ''stage llama.cpp build'') (os_copy_tree payload bin')))))))))"

subsection \<open>State\<close>

definition state_path :: "installer \<Rightarrow> string" where "state_path i = join_path [in_root i, ''state.json'']"

definition no_state :: install_state where "no_state = \<lparr>is_active = None, is_previous = None\<rparr>"

definition read_state :: "'z install_tools \<Rightarrow> installer \<Rightarrow> ('z, install_state) mio" where
  "read_state t i =
     tryE (os_read_file (state_path i))
       (\<lambda>err. if errors_is err OsNotExist then retE no_state else failE err)
       (\<lambda>data. case it_read_state t data of Inl err \<Rightarrow> failE (wrap_err ''read llama.cpp state'' err) | Inr v \<Rightarrow> retE v)"

definition write_state :: "'z install_tools \<Rightarrow> installer \<Rightarrow> install_state \<Rightarrow> ('z, unit) mio" where
  "write_state t i v =
     (case it_write_state t v of
        Inl err \<Rightarrow> failE err
      | Inr data \<Rightarrow> bindE (write_file (state_path i) (data @ [CHR 0x0A]) \<lparr>wo_perm = 384, wo_backup = False, wo_normalize = None\<rparr>) (\<lambda>_. retE ()))"

definition managed_path :: "string \<Rightarrow> string \<Rightarrow> bool" where
  "managed_path root candidate =
     (case rel_path root candidate of
        None \<Rightarrow> False
      | Some rel \<Rightarrow> rel \<noteq> ''.'' \<and> rel \<noteq> ''..'' \<and> \<not> has_prefix rel (''..'' @ [slash]))"

definition remove_managed :: "installer \<Rightarrow> string \<Rightarrow> ('z, unit) mio" where
  "remove_managed i path = (if managed_path (in_root i) path then ignoreE (os_remove_all path) else retE ())"

definition install_mode :: "bool \<Rightarrow> string" where "install_mode source = (if source then ''source'' else ''prebuilt'')"

definition validate_executable :: "'z install_tools \<Rightarrow> string \<Rightarrow> ('z, unit) mio" where
  "validate_executable t exe =
     tryE (os_stat exe) (\<lambda>_. failE (Plain [Lit ''llama-server is not executable: '', Str exe]))
       (\<lambda>info.
          if (case info of DirNode _ \<Rightarrow> True | _ \<Rightarrow> False) \<or> \<not> (odd (node_perm info) \<or> odd (node_perm info div 8) \<or> odd (node_perm info div 64))
          then failE (Plain [Lit ''llama-server is not executable: '', Str exe])
          else bindE (it_output t exe [''--version'']) (\<lambda>r.
            case r of
              Some (err, out) \<Rightarrow> failE (Wrap [Lit ''validate llama-server: '', TextOf err, Lit '': '', Str (trim_space out)] [err])
            | None \<Rightarrow> retE ()))"

text \<open>The executable that is returned, with the error that configuring it left: the code returns both.\<close>

definition configure ::
  "yaml_lib \<Rightarrow> host_env \<Rightarrow> gerror option \<Rightarrow> install_record option \<Rightarrow> install_record \<Rightarrow> ('z, string \<times> gerror option) mio" where
  "configure yl env ctx old new_rec =
     (let exe = ir_executable new_rec; with_err = (\<lambda>err. retE (exe, Some err)) in
      case config_path env of
        Inl err \<Rightarrow> with_err err
      | Inr path \<Rightarrow>
          tryE (os_stat path)
            (\<lambda>err. if errors_is err OsNotExist then retE (exe, None) else with_err err)
            (\<lambda>_. tryE (set_router_executable yl (new_file_store path default_limit_bytes) ctx exe
                     (case old of None \<Rightarrow> [] | Some r \<Rightarrow> ir_executable r))
               with_err (\<lambda>_. retE (exe, None))))"

subsection \<open>Activation\<close>

definition final_directory :: "installer \<Rightarrow> release \<Rightarrow> string \<Rightarrow> bool \<Rightarrow> string" where
  "final_directory i rel backend source =
     join_path [in_root i, rl_tag_name rel, in_goos i @ ''-'' @ in_goarch i @ ''-'' @ backend @ ''-'' @ install_mode source]"

definition next_record :: "release \<Rightarrow> string \<Rightarrow> string \<Rightarrow> bool \<Rightarrow> string \<Rightarrow> string \<Rightarrow> string \<Rightarrow> install_record" where
  "next_record rel policy backend source final payload staged =
     \<lparr>ir_tag = rl_tag_name rel, ir_directory = final,
      ir_executable = join_path [final, (case rel_path payload staged of None \<Rightarrow> [] | Some r \<Rightarrow> r)],
      ir_policy = policy, ir_backend = backend, ir_source = source\<rparr>"

text \<open>\<^verbatim>\<open>activate\<close> up to the removal of the install before the previous one; then the configuration.\<close>

definition remove_older :: "installer \<Rightarrow> install_record option \<Rightarrow> install_record option \<Rightarrow> ('z, unit) mio" where
  "remove_older i old_previous previous =
     (case old_previous of
        None \<Rightarrow> retE ()
      | Some old \<Rightarrow>
          (if previous = None \<or> ir_directory old \<noteq> ir_directory (the previous) then remove_managed i (ir_directory old) else retE ()))"

definition commit_install ::
  "'z install_tools \<Rightarrow> installer \<Rightarrow> install_state \<Rightarrow> release \<Rightarrow> string \<Rightarrow> string \<Rightarrow> bool \<Rightarrow> string \<Rightarrow> string \<Rightarrow> ('z, install_record) mio" where
  "commit_install t i current rel policy backend source payload staged =
     (let final = final_directory i rel backend source in
      if \<not> managed_path (in_root i) final then failE (Plain [Lit ''unsafe install path '', Quoted final])
      else
        bindE (os_mkdir_all (dir_of final) 448) (\<lambda>_.
        bindE (mapErrE (wrap_err ''replace llama.cpp install'') (os_remove_all final)) (\<lambda>_.
        bindE (mapErrE (wrap_err ''activate llama.cpp'') (os_rename_tree payload final)) (\<lambda>_.
          (let new_rec = next_record rel policy backend source final payload staged in
           bindE (write_state t i \<lparr>is_active = Some new_rec, is_previous = is_active current\<rparr>) (\<lambda>_.
           bindE (remove_older i (is_previous current) (is_active current)) (\<lambda>_. retE new_rec)))))))"

definition activate ::
  "'z install_tools \<Rightarrow> yaml_lib \<Rightarrow> host_env \<Rightarrow> gerror option \<Rightarrow> installer \<Rightarrow> install_state \<Rightarrow> release \<Rightarrow> string \<Rightarrow> string \<Rightarrow> bool \<Rightarrow>
   string \<Rightarrow> string \<Rightarrow> ('z, string \<times> gerror option) mio" where
  "activate t yl env ctx i current rel policy backend source payload staged =
     bindE (commit_install t i current rel policy backend source payload staged) (\<lambda>new_rec. configure yl env ctx (is_active current) new_rec)"

text \<open>The staged install: whatever happens, the working directory is removed.\<close>

definition stage ::
  "'z install_tools \<Rightarrow> yaml_lib \<Rightarrow> host_env \<Rightarrow> gerror option \<Rightarrow> installer \<Rightarrow> install_options \<Rightarrow> install_state \<Rightarrow> release \<Rightarrow> string \<Rightarrow> string \<Rightarrow>
   bool \<Rightarrow> ('z, string \<times> gerror option) mio" where
  "stage t yl env ctx i opts current rel policy backend source =
     bindE (os_mkdir_temp (in_root i) ''.staging-'') (\<lambda>work.
       finallyE
         (let payload = join_path [work, ''payload''] in
          bindE (if source then build_source t opts rel backend payload work else install_asset t i rel backend payload work) (\<lambda>_.
          bindE (find_executable t payload) (\<lambda>staged.
          bindE (validate_executable t staged) (\<lambda>_.
            activate t yl env ctx i current rel policy backend source payload staged))))
         (os_remove_all work))"

definition install_latest ::
  "'z install_tools \<Rightarrow> yaml_lib \<Rightarrow> host_env \<Rightarrow> gerror option \<Rightarrow> installer \<Rightarrow> install_options \<Rightarrow> install_state \<Rightarrow> string \<Rightarrow> string \<Rightarrow> bool \<Rightarrow>
   ('z, string \<times> gerror option) mio" where
  "install_latest t yl env ctx i opts current policy backend source =
     bindE (latest t) (\<lambda>rel.
       case is_active current of
         Some active \<Rightarrow>
           (if ir_tag active = rl_tag_name rel \<and> ir_backend active = backend \<and> ir_source active = source then
              (let active' = active\<lparr>ir_policy := policy\<rparr> in
               bindE (write_state t i (current\<lparr>is_active := Some active'\<rparr>)) (\<lambda>_. configure yl env ctx (Some active') active'))
            else stage t yl env ctx i opts current rel policy backend source)
       | None \<Rightarrow> stage t yl env ctx i opts current rel policy backend source)"

subsection \<open>Installing and upgrading\<close>

text \<open>The lock is released when the operation ends. Errors of the configuration step come with the executable.\<close>

definition execute_install ::
  "'z install_tools \<Rightarrow> yaml_lib \<Rightarrow> host_env \<Rightarrow> gerror option \<Rightarrow> installer \<Rightarrow> install_options \<Rightarrow> bool \<Rightarrow> ('z, string \<times> gerror option) mio" where
  "execute_install t yl env ctx i opts0 upgrade =
     (case normalize_options i opts0 of
        Inl err \<Rightarrow> failE err
      | Inr opts \<Rightarrow>
          bindE (mapErrE (wrap_err ''create llama.cpp home'') (os_mkdir_all (in_root i) 448)) (\<lambda>_.
          bindE (mapErrE (wrap_err ''lock llama.cpp installer'') (it_lock t)) (\<lambda>_.
          bindE (read_state t i) (\<lambda>current.
            case resolve_policy opts (is_active current) upgrade of
              Inl err \<Rightarrow> failE err
            | Inr (policy, source) \<Rightarrow>
                bindE (if policy = backend_auto then detect t i else retE policy) (\<lambda>backend.
                  case validate_choice i backend source of
                    Some err \<Rightarrow> failE err
                  | None \<Rightarrow>
                      if \<not> source \<and> in_goos i = ''linux'' \<and> backend = backend_cuda
                      then failE (Wrap [TextOf no_prebuilt, Lit '' for linux/cuda; use --source, --backend vulkan, or Docker''] [no_prebuilt])
                      else install_latest t yl env ctx i opts current policy backend source)))))"

definition install_llama ::
  "'z install_tools \<Rightarrow> yaml_lib \<Rightarrow> host_env \<Rightarrow> gerror option \<Rightarrow> string \<Rightarrow> string \<Rightarrow> install_options \<Rightarrow> bool \<Rightarrow> ('z, string \<times> gerror option) mio" where
  "install_llama t yl env ctx goos goarch opts upgrade =
     (case new_installer env goos goarch of Inl err \<Rightarrow> failE err | Inr i \<Rightarrow> execute_install t yl env ctx i opts upgrade)"

subsection \<open>What is installed\<close>

lemma download_to_received:
  assumes "download_to url destination w = (Inr (hash, sz), w')"
  shows "\<exists>resp w1. exchange \<lparr>hq_method = ''GET'', hq_url = url, hq_model = None\<rparr> w = (Inr resp, w1) \<and> hp_status resp = 200 \<and>
    hp_read_err resp = None \<and> hash = os_sha w' (hp_body resp) \<and> sz = int (length (hp_body resp))"
  using assms
  by (auto simp: download_to_def split: option.splits if_splits elim!: bindE_InrE) (auto simp: tryE_def bindE_def split: prod.splits sum.splits option.splits)


lemma commit_env:
  "keeps os_env (os_remove_all p)" "keeps os_env (os_rename_tree p q)" "keeps os_env (write_state t i v)"
proof -
  show "keeps os_env (os_remove_all p)" unfolding os_remove_all_def by (rule keeps_env_call) (simp add: Let_def)
  show "keeps os_env (os_rename_tree p q)" unfolding os_rename_tree_def by (rule keeps_env_call) (auto simp: Let_def split: option.split)
  show "keeps os_env (write_state t i v)"
    unfolding write_state_def by (cases "it_write_state t v") (auto intro!: keeps_intros)
qed

lemma remove_all_done: "os_fault w (os_tick w) = None \<Longrightarrow> below p q \<Longrightarrow> os_files (snd (os_remove_all p w)) q = None"
  by (simp add: os_remove_all_def os_call_def Let_def)

text \<open>C25: Installing again what was the previous install removes the new one: when the directory of the previous install is that of the new one and not
  that of the active one, which is the case when a release is installed with one backend, then with another and then with the first again, then
  after a successful activation without failing calls no file is left in the directory that the recorded active install points to.\<close>

theorem reinstall_removes_itself:
  assumes "\<forall>n. os_fault w n = None" "is_previous current = Some old" "ir_directory old = final_directory i rel backend source"
    "is_active current = Some act" "ir_directory act \<noteq> ir_directory old"
    "commit_install t i current rel policy backend source payload staged w = (Inr new_rec, w')"
  shows "ir_directory new_rec = ir_directory old \<and> (\<forall>p. below (ir_directory new_rec) p \<longrightarrow> os_files w' p = None)"
proof -
  let ?final = "final_directory i rel backend source" and ?new = "next_record rel policy backend source (final_directory i rel backend source) payload staged"
  have managed: "managed_path (in_root i) ?final" using assms(6) by (auto simp: commit_install_def Let_def split: if_splits)
  have c: "bindE (os_mkdir_all (dir_of ?final) 448) (\<lambda>_.
        bindE (mapErrE (wrap_err ''replace llama.cpp install'') (os_remove_all ?final)) (\<lambda>_.
        bindE (mapErrE (wrap_err ''activate llama.cpp'') (os_rename_tree payload ?final)) (\<lambda>_.
           bindE (write_state t i \<lparr>is_active = Some ?new, is_previous = is_active current\<rparr>) (\<lambda>_.
           bindE (remove_older i (is_previous current) (is_active current)) (\<lambda>_. retE ?new))))) w = (Inr new_rec, w')"
    using assms(6) managed by (simp add: commit_install_def Let_def)
  from c obtain x1 w1 where s1: "os_mkdir_all (dir_of ?final) 448 w = (Inr x1, w1)" and
    c1: "bindE (mapErrE (wrap_err ''replace llama.cpp install'') (os_remove_all ?final)) (\<lambda>_.
        bindE (mapErrE (wrap_err ''activate llama.cpp'') (os_rename_tree payload ?final)) (\<lambda>_.
           bindE (write_state t i \<lparr>is_active = Some ?new, is_previous = is_active current\<rparr>) (\<lambda>_.
           bindE (remove_older i (is_previous current) (is_active current)) (\<lambda>_. retE ?new)))) w1 = (Inr new_rec, w')"
    by (rule bindE_InrE)
  from c1 obtain x2 w2 where s2: "os_remove_all ?final w1 = (Inr x2, w2)" and
    c2: "bindE (mapErrE (wrap_err ''activate llama.cpp'') (os_rename_tree payload ?final)) (\<lambda>_.
           bindE (write_state t i \<lparr>is_active = Some ?new, is_previous = is_active current\<rparr>) (\<lambda>_.
           bindE (remove_older i (is_previous current) (is_active current)) (\<lambda>_. retE ?new))) w2 = (Inr new_rec, w')"
    by (rule bindE_InrE) (simp add: mapErrE_Inr)
  from c2 obtain x3 w3 where s3: "os_rename_tree payload ?final w2 = (Inr x3, w3)" and
    c3: "bindE (write_state t i \<lparr>is_active = Some ?new, is_previous = is_active current\<rparr>) (\<lambda>_.
           bindE (remove_older i (is_previous current) (is_active current)) (\<lambda>_. retE ?new)) w3 = (Inr new_rec, w')"
    by (rule bindE_InrE) (simp add: mapErrE_Inr)
  from c3 obtain x4 w4 where s4: "write_state t i \<lparr>is_active = Some ?new, is_previous = is_active current\<rparr> w3 = (Inr x4, w4)" and
    c4: "bindE (remove_older i (is_previous current) (is_active current)) (\<lambda>_. retE ?new) w4 = (Inr new_rec, w')"
    by (rule bindE_InrE)
  from c4 have s5: "remove_older i (is_previous current) (is_active current) w4 = (Inr (), w')" "new_rec = ?new"
    by (auto elim!: bindE_InrE)
  have "os_env w4 = os_env w"
    using keepsD [OF commit_env(3) s4] keepsD [OF commit_env(2) s3] keepsD [OF commit_env(1) s2] keepsD [OF keeps_env_ops(13) s1] by simp
  then have quiet: "os_fault w4 n = None" for n using assms(1) by (simp add: os_env_def)
  have rm: "remove_older i (is_previous current) (is_active current) = ignoreE (os_remove_all ?final)"
    using assms(2-5) managed by (simp add: remove_older_def remove_managed_def)
  have "w' = snd (os_remove_all ?final w4)" using s5(1) by (simp add: rm ignoreE_def)
  then show ?thesis using remove_all_done [OF quiet] assms(3) s5(2) by (simp add: next_record_def)
qed

subsection \<open>An installer\<close>

definition demo_installer :: installer where "demo_installer = \<lparr>in_root = ''/r'', in_goos = ''linux'', in_goarch = ''amd64''\<rparr>"

definition demo_release :: release where
  "demo_release =
     \<lparr>rl_tag_name = ''v1'', rl_tarball_url = ''http://h/s'',
      rl_assets = [\<lparr>as_name = ''llama-v1-bin-ubuntu-x64.tar.gz'', as_url = ''http://h/a'', as_digest = ''sha256:x'', as_size = 1\<rparr>]\<rparr>"

definition demo_tools :: "unit install_tools" where
  "demo_tools =
     \<lparr>it_output = (\<lambda>_ _. retE None), it_run = (\<lambda>_ _ _. retE ()), it_found = (\<lambda>_. False), it_lock = retE (),
      it_release = (\<lambda>_ _. Inr demo_release), it_read_state = (\<lambda>_. Inr no_state), it_write_state = (\<lambda>_. Inr ''{}''), it_names = []\<rparr>"

definition install_machine :: "(string \<Rightarrow> node option) \<Rightarrow> machine" where
  "install_machine fs =
     \<lparr>os_files = fs, os_tick = 0, os_fault = (\<lambda>_. None), os_trace = [], os_rand = (\<lambda>_. 0), os_stamp = (\<lambda>_. []),
      os_sha = (\<lambda>s. s), os_cwd = ''/'', mc_time = 0, mc_step = 0, mc_elapse = (\<lambda>_. 1), mc_alive = (\<lambda>_ _. False),
      mc_exit = (\<lambda>_ _. None), mc_spawn = (\<lambda>_ _ _. Inr 42), mc_getpgid = (\<lambda>p. p), mc_kill = (\<lambda>_ _ _. None), mc_signals = [],
      mc_http = (\<lambda>_ _. Inr \<lparr>hp_status = 200, hp_status_text = ''200 OK'', hp_body = ''x'', hp_read_err = None\<rparr>), mc_requests = [],
      mc_dial = (\<lambda>_ _. None), mc_ctx = (\<lambda>_. None), mc_exe = (\<lambda>_. Inr []), mc_look_path = (\<lambda>s. s), mc_bad_url = (\<lambda>_. None)\<rparr>"


definition demo_final :: string where "demo_final = ''/r/v1/linux-amd64-cpu-prebuilt''"

definition demo_record :: "string \<Rightarrow> install_record" where
  "demo_record dir = \<lparr>ir_tag = ''v1'', ir_directory = dir, ir_executable = dir @ ''/llama-server'', ir_policy = ''cpu'', ir_backend = ''cpu'', ir_source = False\<rparr>"

definition demo_files :: "string \<Rightarrow> node option" where
  "demo_files = [''/r'' \<mapsto> DirNode 448, ''/r/v1'' \<mapsto> DirNode 448, demo_final \<mapsto> DirNode 448, ''/r/s'' \<mapsto> DirNode 448,
     ''/r/s/payload'' \<mapsto> DirNode 448, ''/r/s/payload/llama-server'' \<mapsto> RegFile ''x'' 493]"

lemma demo_commit:
  "\<exists>new_rec w'. commit_install demo_tools demo_installer
     \<lparr>is_active = Some (demo_record ''/r/v1/linux-amd64-vulkan-prebuilt''), is_previous = Some (demo_record demo_final)\<rparr>
     demo_release ''cpu'' ''cpu'' False ''/r/s/payload'' ''/r/s/payload/llama-server'' (install_machine demo_files) = (Inr new_rec, w')"
proof -
  define w0 where "w0 = install_machine demo_files"
  have final: "final_directory demo_installer demo_release ''cpu'' False = demo_final" by code_simp
  have managed: "managed_path (in_root demo_installer) demo_final" by code_simp
  have dir: "dir_of demo_final = ''/r/v1''" by code_simp
  have path: "state_path demo_installer = ''/r/state.json''" "dir_of ''/r/state.json'' = ''/r''" by code_simp+
  have names: "temp_name ''/r'' (CHR ''.'' # base_of ''/r/state.json'' @ ''-'') 0 = ''/r/.state.json-0''" by code_simp
  define wa where "wa = w0\<lparr>os_tick := 1\<rparr>"
  have mk: "os_mkdir_all ''/r/v1'' 448 w0 = (Inr (), wa)"
    by (simp add: os_mkdir_all_def os_call_def wa_def w0_def install_machine_def demo_files_def demo_final_def stat_node_def eval_nat_numeral)
  define fs1 where "fs1 = (\<lambda>q. if below demo_final q then None else demo_files q)"
  define fs2 where "fs2 = (\<lambda>x. if below demo_final x then fs1 (''/r/s/payload'' @ drop (length demo_final) x) else if below ''/r/s/payload'' x then None else fs1 x)"
  define wb where "wb = w0\<lparr>os_tick := 2, os_files := fs1, os_trace := [fs1]\<rparr>"
  have rm: "os_remove_all demo_final wa = (Inr (), wb)"
    by (simp add: os_remove_all_def os_call_def wa_def wb_def w0_def install_machine_def fs1_def Let_def cong del: if_weak_cong)
  have at: "fs1 ''/r/s/payload'' = Some (DirNode 448)" "fs1 demo_final = None" by (simp_all add: fs1_def below_def demo_final_def demo_files_def has_prefix_def)
  define wc where "wc = w0\<lparr>os_tick := 3, os_files := fs2, os_trace := [fs1, fs2]\<rparr>"
  have rn: "os_rename_tree ''/r/s/payload'' demo_final wb
      = (Inr (), wc)"
    using at by (simp add: os_rename_tree_def os_call_def wb_def wc_def w0_def install_machine_def fs2_def Let_def cong del: if_weak_cong)
  have others: "fs2 ''/r'' = Some (DirNode 448)" "fs2 ''/r/state.json'' = None" "fs2 ''/r/.state.json-0'' = None"
    by (simp_all add: fs2_def fs1_def below_def demo_final_def demo_files_def has_prefix_def)
  have "can_replace ''/r/state.json'' wc"
    using others by (simp add: can_replace_def path names is_dir_at_def wc_def w0_def install_machine_def)
  from write_file_total [OF this, of "''{}'' @ [CHR 0x0A]" 384] obtain w3 where
    "write_file ''/r/state.json'' (''{}'' @ [CHR 0x0A]) \<lparr>wo_perm = 384, wo_backup = False, wo_normalize = None\<rparr>
       wc =
     (Inr \<lparr>wr_path = ''/r/state.json'', wr_backup_path = [], wr_size_bytes = length (''{}'' @ [CHR 0x0A]),
        wr_sha256 = os_sha wc (''{}'' @ [CHR 0x0A])\<rparr>, w3)" by blast
  then have ws: "write_state demo_tools demo_installer v wc = (Inr (), w3)" for v
    by (simp add: write_state_def demo_tools_def path bindE_def)
  have rest: "remove_older demo_installer (Some (demo_record demo_final)) (Some (demo_record ''/r/v1/linux-amd64-vulkan-prebuilt'')) w3
      = (Inr (), snd (os_remove_all demo_final w3))"
    using managed by (simp add: remove_older_def remove_managed_def demo_record_def demo_final_def)
  show ?thesis
    using managed by (simp add: commit_install_def Let_def final dir mk rm rn ws rest bindE_def mapErrE_def flip: w0_def)
qed

theorem reinstall_removes_itself_witness:
  "\<exists>new_rec w'. commit_install demo_tools demo_installer
     \<lparr>is_active = Some (demo_record ''/r/v1/linux-amd64-vulkan-prebuilt''), is_previous = Some (demo_record demo_final)\<rparr>
     demo_release ''cpu'' ''cpu'' False ''/r/s/payload'' ''/r/s/payload/llama-server'' (install_machine demo_files) = (Inr new_rec, w')
     \<and> ir_directory new_rec = demo_final \<and> os_files w' (demo_final @ ''/llama-server'') = None"
proof -
  obtain new_rec w' where c: "commit_install demo_tools demo_installer
     \<lparr>is_active = Some (demo_record ''/r/v1/linux-amd64-vulkan-prebuilt''), is_previous = Some (demo_record demo_final)\<rparr>
     demo_release ''cpu'' ''cpu'' False ''/r/s/payload'' ''/r/s/payload/llama-server'' (install_machine demo_files) = (Inr new_rec, w')"
    using demo_commit by blast
  have "\<forall>n. os_fault (install_machine demo_files) n = None" by (simp add: install_machine_def)
  moreover have "ir_directory (demo_record demo_final) = final_directory demo_installer demo_release ''cpu'' False" by code_simp
  moreover have "ir_directory (demo_record ''/r/v1/linux-amd64-vulkan-prebuilt'') \<noteq> ir_directory (demo_record demo_final)"
    by (simp add: demo_record_def demo_final_def)
  ultimately have r: "ir_directory new_rec = ir_directory (demo_record demo_final)" "\<forall>p. below (ir_directory new_rec) p \<longrightarrow> os_files w' p = None"
    using reinstall_removes_itself [OF _ _ _ _ _ c] by simp_all
  moreover have "below demo_final (demo_final @ ''/llama-server'')" by code_simp
  ultimately show ?thesis using c by (simp add: demo_record_def)
qed

end
