(* ===== verification/GoNet.thy ===== *)
theory GoNet
  imports GoUrl GoNumbers
begin

section \<open>Host and port, IP addresses (\<^verbatim>\<open>net\<close>)\<close>

text \<open>
  \<^verbatim>\<open>net.SplitHostPort\<close>, \<^verbatim>\<open>net.JoinHostPort\<close>, \<^verbatim>\<open>net.ParseIP\<close> and the classes of addresses that the source asks for. An address is
  its sixteen bytes; one in dotted form is mapped behind \<^verbatim>\<open>::ffff:\<close>, as the library does.
\<close>

definition addr_error :: "string \<Rightarrow> string \<Rightarrow> gerror" where
  "addr_error what addr = Plain [Lit ''address '', Str addr, Lit '': '', Lit what]"

text \<open>What stands in front of the last occurrence of a character.\<close>

definition before_last :: "char \<Rightarrow> string \<Rightarrow> string" where
  "before_last c s = rev (tl (dropWhile (\<lambda>x. x \<noteq> c) (rev s)))"

definition split_host_port :: "string \<Rightarrow> gerror + string \<times> string" where
  "split_host_port hp =
     (case after_last CHR '':'' hp of
        None \<Rightarrow> Inl (addr_error ''missing port in address'' hp)
      | Some port \<Rightarrow>
          if has_prefix hp ''['' then
            (if CHR '']'' \<notin> set hp then Inl (addr_error ''missing ']' in address'' hp)
             else
               let inside = takeWhile (\<lambda>c. c \<noteq> CHR '']'') hp; rest = drop (length inside + 1) hp; host = tl inside in
               if rest = [] then Inl (addr_error ''missing port in address'' hp)
               else if rest \<noteq> CHR '':'' # port
               then Inl (addr_error (if hd rest = CHR '':'' then ''too many colons in address'' else ''missing port in address'') hp)
               else if CHR ''['' \<in> set (tl hp) then Inl (addr_error ''unexpected '[' in address'' hp)
               else if CHR '']'' \<in> set rest then Inl (addr_error ''unexpected ']' in address'' hp)
               else Inr (host, port))
          else
            let host = before_last CHR '':'' hp in
            if CHR '':'' \<in> set host then Inl (addr_error ''too many colons in address'' hp)
            else if CHR ''['' \<in> set hp then Inl (addr_error ''unexpected '[' in address'' hp)
            else if CHR '']'' \<in> set hp then Inl (addr_error ''unexpected ']' in address'' hp)
            else Inr (host, port))"

definition join_host_port :: "string \<Rightarrow> string \<Rightarrow> string" where
  "join_host_port host port =
     (if CHR '':'' \<in> set host then ''['' @ host @ '']:'' @ port else host @ '':'' @ port)"

subsection \<open>Addresses\<close>

type_synonym ip = "nat list"

definition octet :: "string \<Rightarrow> nat option" where
  "octet s =
     (if s \<noteq> [] \<and> list_all is_digit s \<and> (hd s = CHR ''0'' \<longrightarrow> length s = 1) \<and> digits_value s \<le> 255
      then Some (digits_value s) else None)"

fun octets :: "string list \<Rightarrow> nat list option" where
  "octets [] = Some []"
| "octets (s # ss) = (case (octet s, octets ss) of (Some v, Some vs) \<Rightarrow> Some (v # vs) | _ \<Rightarrow> None)"

definition ipv4_fields :: "string \<Rightarrow> nat list option" where
  "ipv4_fields s = (let fs = split_on CHR ''.'' s in if length fs = 4 then octets fs else None)"

definition hex_number :: "string \<Rightarrow> nat" where
  "hex_number s = foldl (\<lambda>n c. 16 * n + the (hex_value c)) 0 s"

text \<open>The loop of \<^verbatim>\<open>parseIPv6\<close>: \<open>k\<close> groups may still be read; \<open>ell\<close> is the position of the \<^verbatim>\<open>::\<close>.\<close>

fun ipv6_groups :: "nat \<Rightarrow> ip \<Rightarrow> nat option \<Rightarrow> string \<Rightarrow> (ip \<times> nat option \<times> string) option" where
  "ipv6_groups 0 addr ell s = Some (addr, ell, s)"
| "ipv6_groups (Suc k) addr ell s =
     (let hs = takeWhile (\<lambda>c. hex_value c \<noteq> None) s; rest = drop (length hs) s; v = hex_number hs;
          addr' = addr @ [v div 256, v mod 256]
      in if hs = [] \<or> length hs > 4 then None
         else if has_prefix rest ''.'' then
           (if (ell = None \<and> length addr \<noteq> 12) \<or> length addr + 4 > 16 then None
            else map_option (\<lambda>f. (addr @ f, ell, [])) (ipv4_fields s))
         else (case rest of
                 [] \<Rightarrow> Some (addr', ell, [])
               | c # s' \<Rightarrow>
                   if c \<noteq> CHR '':'' \<or> s' = [] then None
                   else if hd s' \<noteq> CHR '':'' then ipv6_groups k addr' ell s'
                   else if ell \<noteq> None then None
                   else if tl s' = [] then Some (addr', Some (length addr'), [])
                   else ipv6_groups k addr' (Some (length addr')) (tl s')))"

definition expand_ellipsis :: "ip \<times> nat option \<times> string \<Rightarrow> ip option" where
  "expand_ellipsis r =
     (case r of
        (addr, ell, rest) \<Rightarrow>
          if rest \<noteq> [] then None
          else if length addr < 16
          then map_option (\<lambda>e. take e addr @ replicate (16 - length addr) 0 @ drop e addr) ell
          else if ell \<noteq> None then None else Some addr)"

definition parse_ipv6 :: "string \<Rightarrow> ip option" where
  "parse_ipv6 s =
     (if CHR ''%'' \<in> set s then None
      else if has_prefix s ''::'' then
        (if drop 2 s = [] then Some (replicate 16 0)
         else Option.bind (ipv6_groups 8 [] (Some 0) (drop 2 s)) expand_ellipsis)
      else Option.bind (ipv6_groups 8 [] None s) expand_ellipsis)"

definition mapped_prefix :: ip where "mapped_prefix = replicate 10 0 @ [255, 255]"

text \<open>\<^verbatim>\<open>net.ParseIP\<close>: the first dot, colon or percent sign decides; an address with a zone is none.\<close>

definition parse_ip :: "string \<Rightarrow> ip option" where
  "parse_ip s =
     (case find (\<lambda>c. c \<in> set ''.:%'') s of
        None \<Rightarrow> None
      | Some c \<Rightarrow>
          if c = CHR ''.'' then map_option (\<lambda>f. mapped_prefix @ f) (ipv4_fields s)
          else if c = CHR '':'' then parse_ipv6 s
          else None)"

definition to4 :: "ip \<Rightarrow> nat list option" where
  "to4 addr = (if take 12 addr = mapped_prefix then Some (drop 12 addr) else None)"

definition ip_loopback :: "ip \<Rightarrow> bool" where
  "ip_loopback addr \<longleftrightarrow>
     (case to4 addr of Some v4 \<Rightarrow> hd v4 = 127 | None \<Rightarrow> addr = replicate 15 0 @ [1])"

definition ip_private :: "ip \<Rightarrow> bool" where
  "ip_private addr \<longleftrightarrow>
     (case to4 addr of
        Some v4 \<Rightarrow> v4 ! 0 = 10 \<or> (v4 ! 0 = 172 \<and> 16 \<le> v4 ! 1 \<and> v4 ! 1 < 32) \<or> (v4 ! 0 = 192 \<and> v4 ! 1 = 168)
      | None \<Rightarrow> addr ! 0 = 252 \<or> addr ! 0 = 253)"

definition ip_link_local_unicast :: "ip \<Rightarrow> bool" where
  "ip_link_local_unicast addr \<longleftrightarrow>
     (case to4 addr of
        Some v4 \<Rightarrow> v4 ! 0 = 169 \<and> v4 ! 1 = 254
      | None \<Rightarrow> addr ! 0 = 254 \<and> 128 \<le> addr ! 1 \<and> addr ! 1 < 192)"

subsection \<open>Host and port of a URL\<close>

definition valid_optional_port :: "string \<Rightarrow> bool" where
  "valid_optional_port port \<longleftrightarrow>
     (case port of [] \<Rightarrow> True | c # ds \<Rightarrow> c = CHR '':'' \<and> list_all url_digit ds)"

text \<open>\<^verbatim>\<open>URL.Hostname\<close> and \<^verbatim>\<open>URL.Port\<close>.\<close>

definition url_split_host :: "string \<Rightarrow> string \<times> string" where
  "url_split_host hp =
     (let (host, port) =
            (case after_last CHR '':'' hp of
               Some p \<Rightarrow> if valid_optional_port (CHR '':'' # p) then (before_last CHR '':'' hp, p) else (hp, [])
             | None \<Rightarrow> (hp, []))
      in (if has_prefix host ''['' \<and> has_suffix host '']'' then butlast (tl host) else host, port))"

definition url_hostname :: "url \<Rightarrow> string" where "url_hostname u = fst (url_split_host (url_host u))"
definition url_port :: "url \<Rightarrow> string" where "url_port u = snd (url_split_host (url_host u))"

subsection \<open>Joining and splitting\<close>

lemma takeWhile_rev_append: "c \<notin> set b \<Longrightarrow> takeWhile (\<lambda>x. x \<noteq> c) (rev b @ c # a) = rev b"
  by (subst takeWhile_append2) auto

lemma dropWhile_rev_append: "c \<notin> set b \<Longrightarrow> dropWhile (\<lambda>x. x \<noteq> c) (rev b @ c # a) = c # a"
  by (subst dropWhile_append2) auto

lemma after_last_append: "c \<notin> set b \<Longrightarrow> after_last c (a @ c # b) = Some b"
  by (simp add: after_last_def takeWhile_rev_append)

lemma before_last_append: "c \<notin> set b \<Longrightarrow> before_last c (a @ c # b) = a"
  by (simp add: before_last_def dropWhile_rev_append)

lemma octet_bound: "octet s = Some v \<Longrightarrow> v \<le> 255"
  by (auto simp: octet_def split: if_splits)

lemma octets_spec: "octets ss = Some vs \<Longrightarrow> length vs = length ss \<and> (\<forall>v \<in> set vs. v \<le> 255)"
  by (induction ss arbitrary: vs) (auto split: option.splits dest: octet_bound)

lemma ipv4_fields_spec: "ipv4_fields s = Some vs \<Longrightarrow> length vs = 4 \<and> (\<forall>v \<in> set vs. v \<le> 255)"
  by (auto simp: ipv4_fields_def Let_def split: if_splits dest!: octets_spec)

lemma hex_value_bound: "hex_value c = Some v \<Longrightarrow> v < 16"
  by (auto simp: hex_value_def Let_def split: if_splits)

lemma hex_number_bound:
  "list_all (\<lambda>c. hex_value c \<noteq> None) s \<Longrightarrow> foldl (\<lambda>n c. 16 * n + the (hex_value c)) a s < 16 ^ length s * (a + 1)"
proof (induction s arbitrary: a)
  case (Cons c s)
  then obtain v where v: "hex_value c = Some v" "v < 16" by (auto dest: hex_value_bound)
  have "foldl (\<lambda>n c. 16 * n + the (hex_value c)) (16 * a + v) s < 16 ^ length s * (16 * a + v + 1)"
    using Cons by simp
  also have "\<dots> \<le> 16 ^ length s * (16 * (a + 1))" using v(2) by (intro mult_le_mono2) simp
  finally show ?case by (simp add: v(1) algebra_simps)
qed simp

text \<open>Every group keeps the address within sixteen bytes below 256.\<close>

definition partial_ip :: "ip \<times> nat option \<Rightarrow> bool" where
  "partial_ip r \<longleftrightarrow>
     length (fst r) \<le> 16 \<and> (\<forall>v \<in> set (fst r). v < 256) \<and> (\<forall>e. snd r = Some e \<longrightarrow> e \<le> length (fst r))"

lemma group_bound:
  assumes "length (takeWhile (\<lambda>c. hex_value c \<noteq> None) s) \<le> 4"
  shows "hex_number (takeWhile (\<lambda>c. hex_value c \<noteq> None) s) < 65536"
proof -
  let ?hs = "takeWhile (\<lambda>c. hex_value c \<noteq> None) s"
  have "list_all (\<lambda>c. hex_value c \<noteq> None) ?hs" by (auto simp: list_all_iff dest: set_takeWhileD)
  from hex_number_bound [OF this, of 0] have "hex_number ?hs < 16 ^ length ?hs" by (simp add: hex_number_def)
  also have "(16 :: nat) ^ length ?hs \<le> 16 ^ 4" using assms by (intro power_increasing) simp_all
  finally show ?thesis by simp
qed

lemma ipv6_groups_spec:
  assumes "ipv6_groups k addr ell s = Some (addr', ell', rest)" "length addr + 2 * k = 16" "partial_ip (addr, ell)"
  shows "partial_ip (addr', ell')"
  using assms
proof (induction k arbitrary: addr ell s)
  case 0
  then show ?case by simp
next
  case (Suc k)
  define hs where "hs = takeWhile (\<lambda>c. hex_value c \<noteq> None) s"
  define v where "v = hex_number hs"
  define a where "a = addr @ [v div 256, v mod 256]"
  define r where "r = drop (length hs) s"
  note step = Suc.prems(1) [unfolded ipv6_groups.simps Let_def, folded hs_def, folded v_def r_def, folded a_def]
  have hs: "hs \<noteq> []" "length hs \<le> 4" using step by (auto split: if_splits)
  have "v < 65536" unfolding v_def hs_def by (rule group_bound) (use hs(2) in \<open>simp add: hs_def\<close>)
  then have a: "length a + 2 * k = 16" "partial_ip (a, ell)" "partial_ip (a, Some (length a))"
    using Suc.prems(2,3) by (auto simp: a_def partial_ip_def)
  show ?case
  proof (cases "has_prefix r ''.''")
    case True
    with step hs obtain f where "ipv4_fields s = Some f" "addr' = addr @ f" "ell' = ell" "length addr + 4 \<le> 16"
      by (auto split: if_splits)
    with Suc.prems(3) ipv4_fields_spec [of s f] show ?thesis by (fastforce simp: partial_ip_def)
  next
    case False
    show ?thesis
    proof (cases r)
      case Nil
      with step hs a False show ?thesis by simp
    next
      case (Cons c s')
      with step hs False Suc.IH [OF _ a(1)] a show ?thesis by (auto split: if_splits)
    qed
  qed
qed

lemma parse_ipv6_bytes:
  assumes "parse_ipv6 s = Some a"
  shows "length a = 16 \<and> (\<forall>v \<in> set a. v < 256)"
proof -
  have e: "length a = 16 \<and> (\<forall>v \<in> set a. v < 256)"
    if "ipv6_groups 8 [] ell t = Some r" "expand_ellipsis r = Some a" "partial_ip ([], ell)" for ell t r
  proof -
    obtain addr' ell' rest where r: "r = (addr', ell', rest)" by (cases r)
    with that ipv6_groups_spec [of 8 "[]" ell t addr' ell' rest] have "partial_ip (addr', ell')" by simp
    then have "set (take z addr') \<subseteq> {v. v < 256}" "set (drop z addr') \<subseteq> {v. v < 256}" for z
      using set_take_subset [of z addr'] set_drop_subset [of z addr'] by (auto simp: partial_ip_def)
    with that(2) \<open>partial_ip (addr', ell')\<close> show ?thesis
      by (fastforce simp: r expand_ellipsis_def partial_ip_def split: if_splits)
  qed
  show ?thesis
  proof (cases "has_prefix s ''::''")
    case True
    have "partial_ip ([], Some 0)" by (simp add: partial_ip_def)
    with True assms e show ?thesis by (auto simp: parse_ipv6_def bind_eq_Some_conv split: if_splits)
  next
    case False
    have "partial_ip ([], None)" by (simp add: partial_ip_def)
    with False assms e show ?thesis by (auto simp: parse_ipv6_def bind_eq_Some_conv split: if_splits)
  qed
qed

lemma parse_ip_bytes: "parse_ip s = Some a \<Longrightarrow> length a = 16 \<and> (\<forall>v \<in> set a. v < 256)"
  using parse_ipv6_bytes [of s a]
  by (auto simp: parse_ip_def mapped_prefix_def split: option.splits if_splits dest!: ipv4_fields_spec) fastforce+

lemma split_join_host_port:
  assumes "CHR '':'' \<notin> set port" "CHR ''['' \<notin> set host" "CHR '']'' \<notin> set host" "CHR ''['' \<notin> set port" "CHR '']'' \<notin> set port"
  shows "split_host_port (join_host_port host port) = Inr (host, port)"
proof (cases "CHR '':'' \<in> set host")
  case False
  with assms have "\<not> has_prefix (host @ '':'' @ port) ''[''"
    by (cases host) (auto simp: has_prefix_def)
  with False assms show ?thesis
    using after_last_append [of "CHR '':''" port host] before_last_append [of "CHR '':''" port host]
    by (simp add: split_host_port_def join_host_port_def)
next
  case True
  let ?s = "''['' @ host @ '']:'' @ port"
  have t: "takeWhile (\<lambda>c. c \<noteq> CHR '']'') ?s = ''['' @ host" using assms by (subst append_assoc [symmetric], subst takeWhile_append2) auto
  have l: "after_last (CHR '':'') ?s = Some port" using after_last_append [OF assms(1), of "''['' @ host @ '']''"] by simp
  have "has_prefix ?s ''[''" by (simp add: has_prefix_def)
  with True t l assms show ?thesis
    by (simp add: split_host_port_def join_host_port_def Let_def)
qed

lemma parse_ip_examples:
  "parse_ip ''127.0.0.1'' = Some (mapped_prefix @ [127, 0, 0, 1])"
  "parse_ip ''::1'' = Some (replicate 15 0 @ [1])"
  "parse_ip ''2::1:2'' = Some ([0, 2] @ replicate 11 0 @ [1, 0, 2])"
  "parse_ip ''127.0.0.01'' = None" "parse_ip ''fe80::1%eth0'' = None" "parse_ip ''1:2:3:4:5:6:7::8:9'' = None"
  by code_simp+

end
