(* ===== verification/Signals.thy ===== *)
theory Signals
  imports Complex_Main GoNumbers Os RuntimeTypes CatalogTypes "HOL-Library.Word"
begin

section \<open>The signals of the machine (\<^verbatim>\<open>core/signals\<close>)\<close>

text \<open>
  The structs of \<^verbatim>\<open>types.go\<close>, the text of \<^verbatim>\<open>nvidia-smi\<close> (\<open>parse_nvidia_smi\<close>), and the collector that puts a snapshot together
  from probes which may fail. The probes of the library \<^verbatim>\<open>gopsutil\<close> and the run of a command are the record \<open>probes\<close>; a \<^verbatim>\<open>float64\<close>
  is a rational number and \<open>pb_parse_float\<close> is \<^verbatim>\<open>strconv.ParseFloat\<close>. Byte counts are \<^verbatim>\<open>uint64\<close> and wrap.
\<close>

record host_stats =
  hs_hostname :: string
  hs_os :: string
  hs_platform :: string

record memory_stats =
  ms_total :: "64 word"
  ms_available :: "64 word"
  ms_used :: "64 word"
  ms_used_percent :: rat

record disk_stats =
  ds_label :: string
  ds_path :: string
  ds_total :: "64 word"
  ds_free :: "64 word"
  ds_used :: "64 word"
  ds_used_percent :: rat

record disk_target =
  dt_label :: string
  dt_path :: string

record cpu_stats =
  cs_logical_cores :: int
  cs_used_percent :: rat

record gpu_stats =
  gs_name :: string
  gs_backend :: string
  gs_total_vram :: "64 word"
  gs_used_vram :: "64 word"
  gs_utilization :: rat
  gs_temperature :: "rat option"
  gs_source :: string

record process_stats =
  prs_name :: string
  prs_pid :: int
  prs_rss :: "64 word"
  prs_cpu_percent :: rat
  prs_command :: string

record snapshot =
  sn_captured_at :: string
  sn_host :: host_stats
  sn_memory :: memory_stats
  sn_disks :: "disk_stats list"
  sn_cpu :: cpu_stats
  sn_gpu :: "gpu_stats list"
  sn_runtime :: "process_stats list"
  sn_warnings :: "msg list"

record machine_snapshot =
  mn_memory :: memory_stats
  mn_gpu :: "gpu_stats list"
  mn_warnings :: "msg list"

definition zero_memory :: memory_stats where
  "zero_memory = \<lparr>ms_total = 0, ms_available = 0, ms_used = 0, ms_used_percent = 0\<rparr>"

subsection \<open>The output of \<^verbatim>\<open>nvidia-smi\<close> (\<^verbatim>\<open>gpu_subprocess.go\<close>)\<close>

text \<open>\<^verbatim>\<open>strconv.ParseUint(s, 10, 64)\<close>.\<close>

definition parse_uint :: "string \<Rightarrow> nat option" where
  "parse_uint s = (case parse_digits s of Some n \<Rightarrow> (if n < 2 ^ 64 then Some n else None) | None \<Rightarrow> None)"

definition parse_mib :: "string \<Rightarrow> 64 word option" where
  "parse_mib s = map_option (\<lambda>n. of_nat n * 1024 * 1024) (parse_uint (trim_space s))"

definition smi_error :: "string \<Rightarrow> string \<Rightarrow> gerror" where
  "smi_error what val =
     (let cause = Plain [Lit ''strconv: parsing '', Quoted val]
      in Wrap [Lit ''parse nvidia-smi '', Lit what, Lit '': '', TextOf cause] [cause])"

definition parse_smi_line :: "(string \<Rightarrow> rat option) \<Rightarrow> string \<Rightarrow> gerror + gpu_stats" where
  "parse_smi_line parse_float line =
     (case split_on CHR '','' line of
        [name, tot, used, util, temp] \<Rightarrow>
          (case parse_mib tot of
             None \<Rightarrow> Inl (smi_error ''total VRAM'' (trim_space tot))
           | Some t \<Rightarrow>
               (case parse_mib used of
                  None \<Rightarrow> Inl (smi_error ''used VRAM'' (trim_space used))
                | Some u \<Rightarrow>
                    (case parse_float (trim_space util) of
                       None \<Rightarrow> Inl (smi_error ''utilization'' (trim_space util))
                     | Some p \<Rightarrow>
                         Inr \<lparr>gs_name = trim_space name, gs_backend = ''nvidia'', gs_total_vram = t, gs_used_vram = u,
                              gs_utilization = p, gs_temperature = parse_float (trim_space temp), gs_source = ''nvidia-smi''\<rparr>)))
      | parts \<Rightarrow> Inl (Plain [Lit ''parse nvidia-smi: expected 5 columns, got '', Num (int (length parts))]))"

fun parse_smi_lines :: "(string \<Rightarrow> rat option) \<Rightarrow> string list \<Rightarrow> gerror + gpu_stats list" where
  "parse_smi_lines parse_float [] = Inr []"
| "parse_smi_lines parse_float (line # ls) =
     (if trim_space line = [] then parse_smi_lines parse_float ls
      else (case parse_smi_line parse_float (trim_space line) of
              Inl err \<Rightarrow> Inl err
            | Inr g \<Rightarrow> map_sum id (\<lambda>gs. g # gs) (parse_smi_lines parse_float ls)))"

definition parse_nvidia_smi :: "(string \<Rightarrow> rat option) \<Rightarrow> string \<Rightarrow> gerror + gpu_stats list" where
  "parse_nvidia_smi parse_float out = parse_smi_lines parse_float (split_on CHR 0x0A (trim_space out))"

subsection \<open>The collector (\<^verbatim>\<open>collector.go\<close>)\<close>

record 'z probes =
  pb_ctx :: "gerror option"
  pb_now :: "'z os_scheme \<Rightarrow> string"
  pb_goos :: string
  pb_parse_float :: "string \<Rightarrow> rat option"
  pb_run :: "string \<Rightarrow> string list \<Rightarrow> ('z, string) io"
  pb_memory :: "('z, memory_stats) io"
  pb_host :: "('z, host_stats) io"
  pb_disk :: "string \<Rightarrow> ('z, disk_stats) io"
  pb_cpu_counts :: "('z, int) io"
  pb_cpu_percent :: "('z, rat list) io"
  pb_process :: "int \<Rightarrow> ('z, unit) io"
  pb_process_rss :: "int \<Rightarrow> ('z, 64 word) io"
  pb_process_cpu :: "int \<Rightarrow> ('z, rat) io"
  pb_process_cmdline :: "int \<Rightarrow> ('z, string) io"

record 'z collector =
  co_probes :: "'z probes"
  co_runtime :: "('z, runtime_status) io option"
  co_disks :: "disk_target list"

definition collect_nvidia_gpu :: "'z probes \<Rightarrow> ('z, gpu_stats list \<times> msg list) io" where
  "collect_nvidia_gpu pb =
     tryE (pb_run pb ''nvidia-smi''
             [''--query-gpu=name,memory.total,memory.used,utilization.gpu,temperature.gpu'', ''--format=csv,noheader,nounits''])
       (\<lambda>err. if errors_is err ExecNotFound then retE ([], [[Lit ''nvidia-smi not found; GPU telemetry unavailable'']])
              else retE ([], [[Lit ''nvidia-smi failed: '', TextOf err]]))
       (\<lambda>out. case parse_nvidia_smi (pb_parse_float pb) out of
          Inl err \<Rightarrow> retE ([], [[TextOf err]])
        | Inr gpus \<Rightarrow> retE (gpus, []))"

definition collect_machine :: "'z probes \<Rightarrow> ('z, machine_snapshot) io" where
  "collect_machine pb =
     (case pb_ctx pb of
        Some err \<Rightarrow> failE err
      | None \<Rightarrow>
          bindE (tryE (pb_memory pb) (\<lambda>err. retE (zero_memory, [[Lit ''memory stats unavailable: '', TextOf err]])) (\<lambda>vm. retE (vm, [])))
            (\<lambda>(vm, w1).
          bindE (collect_nvidia_gpu pb) (\<lambda>(gpus, w2).
            retE \<lparr>mn_memory = vm, mn_gpu = gpus, mn_warnings = w1 @ w2\<rparr>)))"

fun disk_loop :: "'z probes \<Rightarrow> disk_target list \<Rightarrow> ('z, disk_stats list \<times> msg list) io" where
  "disk_loop pb [] = retE ([], [])"
| "disk_loop pb (t # ts) =
     (if dt_path t = [] then disk_loop pb ts
      else tryE (pb_disk pb (dt_path t))
        (\<lambda>err. bindE (disk_loop pb ts) (\<lambda>(ds, ws).
           retE (ds, [Str (dt_label t), Lit '' disk stats unavailable: '', TextOf err] # ws)))
        (\<lambda>d. bindE (disk_loop pb ts) (\<lambda>(ds, ws). retE (d\<lparr>ds_label := dt_label t\<rparr> # ds, ws))))"

definition collect_disks :: "'z collector \<Rightarrow> ('z, disk_stats list \<times> msg list) io" where
  "collect_disks c =
     disk_loop (co_probes c)
       (if co_disks c = [] then [\<lparr>dt_label = ''root'', dt_path = ''/''\<rparr>] else co_disks c)"

text \<open>\<^verbatim>\<open>int32(pid)\<close>\<close>

definition wrap32 :: "int \<Rightarrow> int" where
  "wrap32 x = (x + 2 ^ 31) mod 2 ^ 32 - 2 ^ 31"

definition unavailable :: "int \<Rightarrow> string \<Rightarrow> gerror \<Rightarrow> gerror" where
  "unavailable pid what err = Wrap [Lit ''process '', Num pid, Lit what, TextOf err] [err]"

definition collect_process :: "'z probes \<Rightarrow> process_status \<Rightarrow> ('z, process_stats) io" where
  "collect_process pb p =
     (let pid = wrap32 (ps_pid p) in
      bindE (mapErrE (unavailable (ps_pid p) '' stats unavailable: '') (pb_process pb pid)) (\<lambda>_.
      bindE (mapErrE (unavailable (ps_pid p) '' memory stats unavailable: '') (pb_process_rss pb pid)) (\<lambda>rss.
      bindE (mapErrE (unavailable (ps_pid p) '' CPU stats unavailable: '') (pb_process_cpu pb pid)) (\<lambda>cpu.
      bindE (tryE (pb_process_cmdline pb pid) (\<lambda>_. retE []) retE) (\<lambda>cmdline.
        retE \<lparr>prs_name = ps_name p, prs_pid = ps_pid p, prs_rss = rss, prs_cpu_percent = cpu, prs_command = trim_space cmdline\<rparr>)))))"

fun process_loop :: "'z probes \<Rightarrow> process_status list \<Rightarrow> ('z, process_stats list \<times> msg list) io" where
  "process_loop pb [] = retE ([], [])"
| "process_loop pb (p # ps) =
     (if ps_pid p \<le> 0 \<or> ps_state p = RtStopped then process_loop pb ps
      else tryE (collect_process pb p)
        (\<lambda>err. bindE (process_loop pb ps) (\<lambda>(ss, ws). retE (ss, [TextOf err] # ws)))
        (\<lambda>s. bindE (process_loop pb ps) (\<lambda>(ss, ws). retE (s # ss, ws))))"

definition collect_runtime :: "'z collector \<Rightarrow> ('z, process_stats list \<times> msg list) io" where
  "collect_runtime c =
     (case co_runtime c of
        None \<Rightarrow> retE ([], [[Lit ''runtime process provider unavailable'']])
      | Some status \<Rightarrow>
          tryE status
            (\<lambda>err. retE ([], [[Lit ''runtime process status unavailable: '', TextOf err]]))
            (\<lambda>st. process_loop (co_probes c) (st_processes st)))"

definition collect_host :: "'z probes \<Rightarrow> ('z, host_stats \<times> msg list) io" where
  "collect_host pb =
     tryE (pb_host pb)
       (\<lambda>err. retE (\<lparr>hs_hostname = [], hs_os = pb_goos pb, hs_platform = []\<rparr>, [[Lit ''host stats unavailable: '', TextOf err]]))
       (\<lambda>h. retE (h, []))"

definition collect_cpu :: "'z probes \<Rightarrow> ('z, cpu_stats \<times> msg list) io" where
  "collect_cpu pb =
     bindE (tryE (pb_cpu_counts pb) (\<lambda>err. retE (0, [[Lit ''CPU core count unavailable: '', TextOf err]])) (\<lambda>n. retE (n, [])))
       (\<lambda>(n, w1).
     bindE (tryE (pb_cpu_percent pb) (\<lambda>err. retE (0, [[Lit ''CPU usage unavailable: '', TextOf err]]))
              (\<lambda>ps. retE (case ps of [] \<Rightarrow> 0 | p # _ \<Rightarrow> p, [])))
       (\<lambda>(p, w2). retE (\<lparr>cs_logical_cores = n, cs_used_percent = p\<rparr>, w1 @ w2)))"

definition take_snapshot :: "'z collector \<Rightarrow> ('z, snapshot) io" where
  "take_snapshot c w =
     (let pb = co_probes c; now = pb_now pb w in
      bindE (collect_machine pb) (\<lambda>machine.
      bindE (collect_host pb) (\<lambda>(host, w1).
      bindE (collect_disks c) (\<lambda>(disks, w2).
      bindE (collect_cpu pb) (\<lambda>(cpu, w3).
      bindE (collect_runtime c) (\<lambda>(procs, w4).
        retE \<lparr>sn_captured_at = now, sn_host = host, sn_memory = mn_memory machine, sn_disks = disks, sn_cpu = cpu,
              sn_gpu = mn_gpu machine, sn_runtime = procs, sn_warnings = mn_warnings machine @ w1 @ w2 @ w3 @ w4\<rparr>))))) w)"

subsection \<open>The machine the catalog fits models to (\<^verbatim>\<open>machineProfile\<close> of \<^verbatim>\<open>core/rpc/misc_rpc.go\<close>)\<close>

definition profile_step :: "gpu_stats \<Rightarrow> machine_profile \<Rightarrow> machine_profile" where
  "profile_step gpu p =
     (if \<not> mp_has_gpu p \<or> gs_total_vram gpu > word_of_int (mp_vram p)
      then p\<lparr>mp_gpu_name := gs_name gpu, mp_vram := sint (gs_total_vram gpu), mp_has_gpu := True\<rparr> else p)"

definition machine_profile_of :: "machine_snapshot \<Rightarrow> machine_profile" where
  "machine_profile_of s =
     fold profile_step (mn_gpu s)
       \<lparr>mp_total_ram = sint (ms_total (mn_memory s)), mp_available_ram = sint (ms_available (mn_memory s)), mp_gpu_name = [],
        mp_vram = 0, mp_has_gpu = False\<rparr>"


subsection \<open>Facts\<close>

text \<open>A count that fits into 64 bits after the conversion is not changed by it.\<close>

lemma parse_mib_exact:
  assumes "parse_uint (trim_space s) = Some n" "n < 2 ^ 44"
  shows "parse_mib s = Some (of_nat (n * 2 ^ 20))" "uint (of_nat (n * 2 ^ 20) :: 64 word) = int n * 2 ^ 20"
proof -
  show "parse_mib s = Some (of_nat (n * 2 ^ 20))" using assms(1) by (simp add: parse_mib_def)
  have "n * 1048576 < 18446744073709551616" using assms(2) by simp
  then show "uint (of_nat (n * 2 ^ 20) :: 64 word) = int n * 2 ^ 20"
    by (simp add: uint_nat unat_of_nat take_bit_nat_eq_self_iff del: of_nat_mult)
qed

text \<open>\<^verbatim>\<open>uint64\<close> wraps: 2 to the power of 44 MiB count as none.\<close>

lemma parse_mib_wraps: "parse_uint (trim_space s) = Some (2 ^ 44) \<Longrightarrow> parse_mib s = Some 0"
  by (simp add: parse_mib_def)

lemma disk_loop_returns [returns_intros]: "returns (disk_loop pb ts)"
  by (induction ts) (auto intro!: returns_intros)

lemma process_loop_returns [returns_intros]: "returns (process_loop pb ps)"
  by (induction ps) (auto intro!: returns_intros)

lemma collect_returns [returns_intros]:
  "returns (collect_nvidia_gpu pb)" "returns (collect_host pb)" "returns (collect_cpu pb)" "returns (collect_disks c)"
  "returns (collect_runtime c)"
  unfolding collect_nvidia_gpu_def collect_host_def collect_cpu_def collect_disks_def collect_runtime_def
  by (auto intro!: returns_intros)

lemma collect_machine_returns: "pb_ctx pb = None \<Longrightarrow> returns (collect_machine pb)"
  unfolding collect_machine_def by (auto intro!: returns_intros)

text \<open>A snapshot is taken whatever probes fail; only the end of the caller's context stops it.\<close>

theorem snapshot_survives_probes:
  "(\<exists>s w'. take_snapshot c w = (Inr s, w')) \<longleftrightarrow> pb_ctx (co_probes c) = None"
proof (cases "pb_ctx (co_probes c)")
  case None
  note m = collect_machine_returns [OF None]
  have "\<exists>s w'. take_snapshot c w = (Inr s, w')"
    unfolding take_snapshot_def Let_def
    by (rule returns_def [THEN iffD1, THEN spec]) (intro returns_intros m)
  with None show ?thesis by simp
next
  case (Some e)
  then show ?thesis by (simp add: take_snapshot_def Let_def bindE_def collect_machine_def)
qed

text \<open>The profile holds the GPU with the most memory, as long as the sizes are below 2 to the power of 63.\<close>

definition profile_gpus :: "gpu_stats list \<Rightarrow> machine_profile \<Rightarrow> bool" where
  "profile_gpus gs p \<longleftrightarrow>
     (if gs = [] then \<not> mp_has_gpu p
      else mp_has_gpu p \<and> (\<exists>g \<in> set gs. mp_gpu_name p = gs_name g \<and> mp_vram p = uint (gs_total_vram g)) \<and>
           (\<forall>g \<in> set gs. uint (gs_total_vram g) \<le> mp_vram p))"

lemma profile_step_gpus:
  assumes "profile_gpus gs p" "\<forall>x \<in> set (gs @ [g]). uint (gs_total_vram x) < 2 ^ 63"
  shows "profile_gpus (gs @ [g]) (profile_step g p)"
proof -
  have s: "sint (gs_total_vram g) = uint (gs_total_vram g)"
    using assms(2) uint_ge_0 [of "gs_total_vram g"] by (simp add: sint_uint signed_take_bit_int_eq_self_iff order_trans [OF _ uint_ge_0])
  show ?thesis
  proof (cases "gs = []")
    case True
    with assms s show ?thesis by (simp add: profile_gpus_def profile_step_def)
  next
    case False
    with assms obtain x where p: "mp_has_gpu p" "x \<in> set gs" "mp_gpu_name p = gs_name x" "mp_vram p = uint (gs_total_vram x)"
      and m: "\<forall>y \<in> set gs. uint (gs_total_vram y) \<le> mp_vram p" by (auto simp: profile_gpus_def)
    have "(gs_total_vram g > word_of_int (mp_vram p)) \<longleftrightarrow> uint (gs_total_vram g) > mp_vram p"
      by (simp add: p(4) word_less_def)
    with p m s show ?thesis by (auto simp: profile_gpus_def profile_step_def)
  qed
qed

lemma machine_profile_largest_gpu:
  assumes "\<forall>g \<in> set (mn_gpu s). uint (gs_total_vram g) < 2 ^ 63"
  shows "profile_gpus (mn_gpu s) (machine_profile_of s)"
proof -
  have "profile_gpus gs (fold profile_step gs p)"
    if "\<not> mp_has_gpu p" "\<forall>g \<in> set gs. uint (gs_total_vram g) < 2 ^ 63" for gs p
    using that(2)
  proof (induction gs rule: rev_induct)
    case Nil
    then show ?case using that(1) by (simp add: profile_gpus_def)
  next
    case (snoc g gs)
    then show ?case by (simp add: profile_step_gpus)
  qed
  with assms show ?thesis by (simp add: machine_profile_of_def)
qed

text \<open>A line of the documented form is read back.\<close>

lemma itoa_plain: "list_all plain (itoa n)"
  using itoa_digits [of n] digit_plain by (auto simp: list_all_iff)

lemma trim_space_itoa: "trim_space (CHR '' '' # itoa n) = itoa n"
proof -
  have p: "itoa n \<noteq> []" "plain (hd (itoa n))" "plain (last (itoa n))"
    using itoa_digits [of n] itoa_plain [of n] by (auto simp: list_all_iff)
  have "trim_space (CHR '' '' # itoa n) = trim_space (itoa n)"
    by (rule trim_space_Cons_single [OF go_spaces_ascii(1)])
  also have "\<dots> = itoa n" by (rule trim_space_plain_ends [OF p])
  finally show ?thesis .
qed

lemma comma_notin_itoa: "CHR '','' \<notin> set (itoa n)"
  using itoa_digits [of n] by (auto simp: list_all_iff is_digit_def)

lemma parse_smi_line_text:
  assumes "CHR '','' \<notin> set name" "CHR '','' \<notin> set util" "CHR '','' \<notin> set temp" "t < 2 ^ 44" "u < 2 ^ 44"
    and "pf (trim_space util) = Some p"
  shows "parse_smi_line pf (name @ '', '' @ itoa t @ '', '' @ itoa u @ '','' @ util @ '','' @ temp) =
    Inr \<lparr>gs_name = trim_space name, gs_backend = ''nvidia'', gs_total_vram = of_nat (t * 2 ^ 20), gs_used_vram = of_nat (u * 2 ^ 20),
      gs_utilization = p, gs_temperature = pf (trim_space temp), gs_source = ''nvidia-smi''\<rparr>"
proof -
  let ?l = "name @ '', '' @ itoa t @ '', '' @ itoa u @ '','' @ util @ '','' @ temp"
  have "?l = join_with CHR '','' [name, CHR '' '' # itoa t, CHR '' '' # itoa u, util, temp]" by (simp add: join_Cons)
  then have "split_on CHR '','' ?l = [name, CHR '' '' # itoa t, CHR '' '' # itoa u, util, temp]"
    using assms(1-3) comma_notin_itoa by (simp only:) (rule split_join; auto)
  moreover have "parse_mib (CHR '' '' # itoa n) = Some (of_nat (n * 2 ^ 20))" if "n < 2 ^ 44" for n
    using that by (intro parse_mib_exact(1)) (simp_all add: trim_space_itoa parse_uint_def)
  ultimately show ?thesis using assms(4-6) by (simp add: parse_smi_line_def)
qed

end
