(* ===== verification/RpcTypes.thy ===== *)
theory RpcTypes
  imports Signals CatalogListing ControlOps Download LlamaHelp
begin

section \<open>Messages and errors of the control service (\<^verbatim>\<open>core/rpc\<close>)\<close>

text \<open>
  The messages of \<^verbatim>\<open>core/rpc/proto\<close> that the service builds, the functions that fill them from the values of the core, and the
  two directions of the error mapping. An error that crosses the wire is a \<open>connect_error\<close>: its code, the kind that the header carries
  and the error it was made of. Lists of pointers are lists, since \<^verbatim>\<open>mapProto\<close> allocates each element.
\<close>

subsection \<open>Errors\<close>

datatype connect_code =
    CodeCanceled | CodeUnknown | CodeInvalidArgument | CodeDeadlineExceeded | CodeNotFound | CodeAlreadyExists
  | CodePermissionDenied | CodeResourceExhausted | CodeFailedPrecondition | CodeAborted | CodeOutOfRange
  | CodeUnimplemented | CodeInternal | CodeUnavailable | CodeDataLoss | CodeUnauthenticated

record connect_error =
  ce_code :: connect_code
  ce_kind :: "error_kind option"
  ce_cause :: gerror

datatype call_error = Connect connect_error | Transport gerror

definition error_kind_codes :: "(error_kind \<times> connect_code) list" where
  "error_kind_codes =
     [(ErrorInvalidInput, CodeInvalidArgument), (ErrorPermission, CodePermissionDenied), (ErrorNotFound, CodeNotFound),
      (ErrorConflict, CodeFailedPrecondition), (ErrorTimeout, CodeDeadlineExceeded), (ErrorRuntime, CodeInternal)]"

definition code_of_kind :: "error_kind option \<Rightarrow> connect_code" where
  "code_of_kind kind =
     (case Option.bind kind (map_of error_kind_codes) of None \<Rightarrow> CodeUnknown | Some code \<Rightarrow> code)"

definition rpc_error :: "gerror \<Rightarrow> connect_error" where
  "rpc_error err =
     (let kind = core_kind (Some err) in \<lparr>ce_code = code_of_kind kind, ce_kind = kind, ce_cause = err\<rparr>)"

definition error_kind_from_rpc :: "call_error \<Rightarrow> error_kind option" where
  "error_kind_from_rpc err =
     (case err of
        Transport e \<Rightarrow> core_kind (Some e)
      | Connect ce \<Rightarrow>
          (case ce_kind ce of
             Some kind \<Rightarrow> Some kind
           | None \<Rightarrow>
               (case find (\<lambda>m. snd m = ce_code ce) error_kind_codes of
                  Some m \<Rightarrow> Some (fst m)
                | None \<Rightarrow> Some ErrorRuntime)))"

definition model_error_table :: sentinel_kinds where
  "model_error_table =
     [(CatalogInvalidInput, ErrorInvalidInput), (DownloadInvalidInput, ErrorInvalidInput), (CatalogNotFound, ErrorNotFound),
      (DownloadNotFound, ErrorNotFound), (DownloadConflict, ErrorConflict)]"

definition map_model_error :: "gerror \<Rightarrow> gerror" where
  "map_model_error err = map_sentinel err model_error_table"

subsection \<open>Messages\<close>

record command_result_pb =
  crp_target :: string
  crp_action :: string
  crp_status :: string
  crp_message :: msg
  crp_duration_ms :: int

record mutation_response =
  mrp_ok :: bool
  mrp_result :: "command_result_pb option"
  mrp_preview :: "(string \<times> string) option"

record build_info =
  bi_version :: string
  bi_commit :: string
  bi_commit_time :: string

record info_response =
  ir_service :: string
  ir_status :: string
  ir_detail :: msg
  ir_checked_at :: int
  ir_presets_count :: int
  ir_default_preset :: string
  ir_autostart_presets :: "string list"
  ir_build :: build_info

record runtime_preset_pb =
  rpp_name :: string
  rpp_state :: string
  rpp_ready :: bool

record runtime_status_pb =
  rsp_state :: string
  rsp_detail :: msg
  rsp_checked_at :: string
  rsp_presets :: "runtime_preset_pb list"

record event_pb =
  evp_id :: string
  evp_action :: string
  evp_time :: string
  evp_success :: bool
  evp_error_kind :: "error_kind option"
  evp_duration :: string

record catalog_event_pb =
  cep_type :: string
  cep_ok :: bool
  cep_error :: "gerror option"

record preset_pb =
  pp_name :: string
  pp_entries :: "(string \<times> string) list"
  pp_source_status :: string
  pp_source_error :: msg
  pp_autostart :: bool

record list_presets_response =
  lpr_path :: string
  lpr_global :: "(string \<times> string) list"
  lpr_presets :: "preset_pb list"
  lpr_models_max :: int

record local_model_pb =
  lmp_path :: string
  lmp_filename :: string
  lmp_size :: nat
  lmp_modified_at :: string
  lmp_used_by :: "string list"
  lmp_model_paths :: "string list"
  lmp_models_dirs :: "string list"

record download_pb =
  dlp_id :: string
  dlp_state :: string
  dlp_received :: "64 word"
  dlp_total :: "64 word"
  dlp_error :: "gerror option"
  dlp_url :: string
  dlp_filename :: string
  dlp_target :: string
  dlp_percent :: percent
  dlp_started :: string
  dlp_completed :: string

record model_file_pb =
  mfp_filename :: string
  mfp_quant :: string
  mfp_size :: int
  mfp_downloadable :: bool
  mfp_local_path :: string
  mfp_exists :: bool
  mfp_ram :: int
  mfp_vram :: int
  mfp_fit_level :: string
  mfp_fit_reason :: string

record model_resolution_pb =
  mdp_ok :: bool
  mdp_source :: model_source
  mdp_llama_cpp :: llama_compat
  mdp_files :: "model_file_pb list"
  mdp_description :: string
  mdp_params :: int
  mdp_architecture :: string
  mdp_context_length :: int
  mdp_is_moe :: bool

record catalog_model_pb =
  cmp_id :: string
  cmp_owner :: string
  cmp_repo :: string
  cmp_url :: string
  cmp_downloads :: int
  cmp_likes :: int
  cmp_last_modified :: string
  cmp_tags :: "string list"
  cmp_license :: string
  cmp_files :: "model_file_pb list"
  cmp_best_file :: "model_file_pb option"
  cmp_fit :: machine_fit
  cmp_score :: rat
  cmp_params :: int
  cmp_architecture :: string
  cmp_context_length :: int
  cmp_is_moe :: bool

record list_catalog_response =
  lcp_machine :: machine_profile
  lcp_models :: "catalog_model_pb list"
  lcp_cache :: cache_state
  lcp_errors :: "msg list"

record params_response =
  prp_ok :: bool
  prp_params :: "llama_server_param list"
  prp_source :: string
  prp_warning :: msg

subsection \<open>Filling them\<close>

definition operation_result_proto :: "operation_result \<Rightarrow> command_result_pb" where
  "operation_result_proto r =
     \<lparr>crp_target = or_target r, crp_action = or_action r, crp_status = or_status r, crp_message = or_message r,
      crp_duration_ms = or_duration_ms r\<rparr>"

definition runtime_preset_proto :: "runtime_preset \<Rightarrow> runtime_preset_pb" where
  "runtime_preset_proto p = \<lparr>rpp_name = rp_name p, rpp_state = rt_state_text (rp_state p), rpp_ready = rp_ready p\<rparr>"

definition runtime_status_proto :: "(int \<Rightarrow> string) \<Rightarrow> control_status \<Rightarrow> runtime_status_pb" where
  "runtime_status_proto rfc3339 s =
     \<lparr>rsp_state = rt_state_text (cts_state s), rsp_detail = cts_detail s, rsp_checked_at = rfc3339 (cts_checked_at s),
      rsp_presets = map runtime_preset_proto (cts_presets s)\<rparr>"

definition info_proto :: "string \<Rightarrow> build_info \<Rightarrow> runtime_info \<Rightarrow> info_response" where
  "info_proto service build i =
     \<lparr>ir_service = service, ir_status = in_status i, ir_detail = in_detail i, ir_checked_at = in_checked_at i,
      ir_presets_count = wrap32 (int (in_presets_count i)), ir_default_preset = in_default_preset i,
      ir_autostart_presets = in_autostart_presets i, ir_build = build\<rparr>"

definition event_proto :: "string \<Rightarrow> ev \<Rightarrow> event_pb" where
  "event_proto ident e =
     \<lparr>evp_id = (if ident \<noteq> [] then ident else ev_id e), evp_action = ev_action e, evp_time = ev_time e,
      evp_success = ev_success e, evp_error_kind = ev_error_kind e, evp_duration = ev_duration e\<rparr>"

fun events_behind :: "string \<Rightarrow> ev list \<Rightarrow> ev list option" where
  "events_behind after_id [] = None"
| "events_behind after_id (e # es) = (if ev_id e = after_id then Some es else events_behind after_id es)"

definition events_after :: "ev list \<Rightarrow> string \<Rightarrow> ev list" where
  "events_after events after_id =
     (if after_id = [] then events
      else case events_behind after_id events of Some es \<Rightarrow> es | None \<Rightarrow> events)"

definition model_file_proto :: "catalog_file \<Rightarrow> model_file_pb" where
  "model_file_proto f =
     \<lparr>mfp_filename = fl_filename f, mfp_quant = fl_quant f, mfp_size = fl_size_bytes f, mfp_downloadable = fl_downloadable f,
      mfp_local_path = fl_local_path f, mfp_exists = fl_exists f, mfp_ram = fl_est_ram_bytes f, mfp_vram = fl_est_vram_bytes f,
      mfp_fit_level = fl_fit_level f, mfp_fit_reason = fl_fit_reason f\<rparr>"

definition model_resolution_proto :: "resolution \<Rightarrow> model_resolution_pb" where
  "model_resolution_proto r =
     \<lparr>mdp_ok = rs_ok r, mdp_source = rs_source r, mdp_llama_cpp = rs_llama_cpp r, mdp_files = map model_file_proto (rs_files r),
      mdp_description = rs_description r, mdp_params = rs_params r, mdp_architecture = rs_architecture r,
      mdp_context_length = rs_context_length r, mdp_is_moe = rs_is_moe r\<rparr>"

definition catalog_model_proto :: "catalog_model \<Rightarrow> catalog_model_pb" where
  "catalog_model_proto m =
     \<lparr>cmp_id = cm_id m, cmp_owner = cm_owner m, cmp_repo = cm_repo m, cmp_url = cm_url m, cmp_downloads = cm_downloads m,
      cmp_likes = cm_likes m, cmp_last_modified = cm_last_modified m, cmp_tags = cm_tags m, cmp_license = cm_license m,
      cmp_files = map model_file_proto (cm_files m), cmp_best_file = map_option model_file_proto (cm_best_file m),
      cmp_fit = cm_fit m, cmp_score = cm_score m, cmp_params = cm_params m, cmp_architecture = cm_architecture m,
      cmp_context_length = cm_context_length m, cmp_is_moe = cm_is_moe m\<rparr>"

definition list_catalog_proto :: "list_result \<Rightarrow> list_catalog_response" where
  "list_catalog_proto r =
     \<lparr>lcp_machine = ls_machine r, lcp_models = map catalog_model_proto (ls_models r), lcp_cache = ls_cache r,
      lcp_errors = ls_errors r\<rparr>"

definition model_download_proto :: "dl_job \<Rightarrow> download_pb" where
  "model_download_proto j =
     \<lparr>dlp_id = job_id j, dlp_state = state_text (job_state j), dlp_received = word_of_int (job_received j),
      dlp_total = word_of_int (job_total j), dlp_error = job_error j, dlp_url = job_url j, dlp_filename = job_filename j,
      dlp_target = job_target j, dlp_percent = job_percent j, dlp_started = job_started j, dlp_completed = job_completed j\<rparr>"

text \<open>\<^verbatim>\<open>presetEntries\<close>: the sources first, then the keys in order.\<close>

definition entry_rank :: "string \<Rightarrow> string" where
  "entry_rank key = (if key = ''model'' \<or> key = ''models-dir'' then ''0'' @ key else ''1'' @ key)"

definition preset_entries :: "preset_section \<Rightarrow> (string \<times> string) list" where
  "preset_entries sec =
     map (\<lambda>k. (k, value_or_empty (sec_values sec) k)) (sort_key entry_rank (map fst (sec_values sec)))"

definition section_from_proto :: "preset_pb option \<Rightarrow> preset_section" where
  "section_from_proto p =
     (case p of
        None \<Rightarrow> \<lparr>sec_name = [], sec_values = []\<rparr>
      | Some q \<Rightarrow> \<lparr>sec_name = pp_name q, sec_values = fold (\<lambda>(k, v). AList.update k v) (pp_entries q) []\<rparr>)"

subsection \<open>Facts\<close>

lemma core_kind_some: "\<exists>k. core_kind (Some e) = Some k"
  by (auto simp: core_kind_def split: option.splits)

text \<open>The kind of an error survives the wire; without the header all but the internal kind do.\<close>

lemma kind_survives_wire: "error_kind_from_rpc (Connect (rpc_error e)) = core_kind (Some e)"
  using core_kind_some [of e] by (auto simp: error_kind_from_rpc_def rpc_error_def Let_def)

lemma kind_survives_code:
  "error_kind_from_rpc (Connect ((rpc_error e)\<lparr>ce_kind := None\<rparr>)) =
     (if core_kind (Some e) = Some ErrorInternal then Some ErrorRuntime else core_kind (Some e))"
proof -
  obtain k where "core_kind (Some e) = Some k" using core_kind_some by blast
  then show ?thesis
    by (cases k) (simp_all add: error_kind_from_rpc_def rpc_error_def Let_def code_of_kind_def error_kind_codes_def)
qed

lemma map_model_error_kind:
  assumes "errors_is e DownloadConflict" "\<not> errors_is e CatalogInvalidInput" "\<not> errors_is e DownloadInvalidInput"
    "\<not> errors_is e CatalogNotFound" "\<not> errors_is e DownloadNotFound"
  shows "core_kind (Some (map_model_error e)) = Some ErrorConflict"
  using assms by (simp add: map_model_error_def model_error_table_def)

text \<open>The entries of a section hold its values, each key once, and are read back.\<close>

lemma entry_rank_inj: "inj entry_rank"
  by (auto simp: inj_def entry_rank_def split: if_splits)

lemma preset_entries_keys: "mset (map fst (preset_entries sec)) = mset (map fst (sec_values sec))"
  by (simp add: preset_entries_def comp_def)

lemma preset_entries_sorted: "sorted (map (entry_rank \<circ> fst) (preset_entries sec))"
  unfolding preset_entries_def map_map by (simp add: comp_def)

lemma map_of_entries: "map_of (map (\<lambda>k. (k, f k)) ks) k = (if k \<in> set ks then Some (f k) else None)"
  by (simp add: map_of_map_restrict restrict_map_def)

lemma map_of_preset_entries: "map_of (preset_entries sec) = map_of (sec_values sec)"
proof
  fix k
  show "map_of (preset_entries sec) k = map_of (sec_values sec) k"
  proof (cases "map_of (sec_values sec) k")
    case None
    then have "k \<notin> fst ` set (sec_values sec)" by (simp add: map_of_eq_None_iff)
    with None show ?thesis by (simp add: preset_entries_def map_of_entries)
  next
    case (Some v)
    then have "k \<in> fst ` set (sec_values sec)" by (force dest: map_of_SomeD)
    with Some show ?thesis by (simp add: preset_entries_def map_of_entries value_or_empty_def)
  qed
qed

lemma map_of_fold_update: "map_of (fold (\<lambda>(k, v). AList.update k v) kvs al) = map_of al ++ map_of (rev kvs)"
proof (induction kvs arbitrary: al)
  case (Cons kv kvs)
  obtain k v where "kv = (k, v)" by (cases kv)
  then show ?case by (simp add: Cons update_conv' map_add_def fun_eq_iff split: option.splits)
qed simp

lemma section_proto_roundtrip:
  assumes "distinct (map fst (sec_values sec))"
  shows "map_of (sec_values (section_from_proto (Some \<lparr>pp_name = sec_name sec, pp_entries = preset_entries sec,
      pp_source_status = st, pp_source_error = er, pp_autostart = a\<rparr>))) = map_of (sec_values sec)"
proof -
  have d: "distinct (map fst (preset_entries sec))"
    using assms mset_eq_imp_distinct_iff [OF preset_entries_keys] by blast
  then have "map_of (rev (preset_entries sec)) = map_of (preset_entries sec)"
    by (intro map_of_perm) (simp_all add: rev_map [symmetric])
  with map_of_preset_entries show ?thesis
    by (simp add: section_from_proto_def map_of_fold_update)
qed

subsection \<open>Resuming a watch\<close>

lemma events_behind_append:
  "k \<notin> ev_id ` set es \<Longrightarrow> events_behind k (es @ e # fs) = (if ev_id e = k then Some fs else events_behind k fs)"
  by (induction es) auto

lemma events_behind_none: "k \<notin> ev_id ` set es \<Longrightarrow> events_behind k es = None"
  by (induction es) auto

end
