(* ===== verification/RpcService.thy ===== *)
theory RpcService
  imports RpcTypes ControlContract
begin

section \<open>The control service (\<^verbatim>\<open>core/rpc\<close>: \<open>misc_rpc.go\<close>, \<open>model_rpc.go\<close>, \<open>preset_rpc.go\<close>, \<open>runtime_rpc.go\<close>, \<open>events_rpc.go\<close>, \<open>config_rpc.go\<close>)\<close>

text \<open>
  One handler per procedure, over the state of the manager: the busy flag and the world. The dependencies of the service are a record;
  an absent one is \<open>None\<close>. A request message that the handler tests against \<^verbatim>\<open>nil\<close> is an option, the others are their fields.
  \<open>sv_rfc3339\<close> is \<^verbatim>\<open>Format(time.RFC3339)\<close>. The two streams send through \<open>send_all\<close>: \<open>send\<close> answers with the error of the n-th message.
\<close>

type_synonym ('z, 'a) rpc = "('z os_scheme control, connect_error, 'a) eff"

record 'z downloader =
  dn_start :: "dl_request \<Rightarrow> ('z os_scheme control, gerror, dl_job) eff"
  dn_get :: "string \<Rightarrow> ('z os_scheme control, gerror, dl_job) eff"
  dn_cancel :: "string \<Rightarrow> ('z os_scheme control, gerror, dl_job) eff"

record 'z service =
  sv_manager :: "'z manager"
  sv_resolve :: "(string \<Rightarrow> ('z, resolution) io) option"
  sv_discover :: "(list_request \<Rightarrow> machine_profile \<Rightarrow> ('z, list_result) io) option"
  sv_local :: "('z, local_model list) io option"
  sv_machine :: "('z, machine_snapshot) io"
  sv_signals :: "('z, snapshot) io option"
  sv_downloader :: "'z downloader option"
  sv_events :: "('z os_scheme \<Rightarrow> event_store) option"
  sv_help :: "('z, llama_server_param list) io"
  sv_name :: string
  sv_build :: build_info
  sv_rfc3339 :: "int \<Rightarrow> string"

definition service_name :: "string \<Rightarrow> string" where
  "service_name configured = (if configured \<noteq> [] then configured else ''llamarig-server'')"

text \<open>Return the mapped error, or the response made of the value.\<close>

definition answer :: "('z os_scheme control, gerror, 'a) eff \<Rightarrow> ('a \<Rightarrow> 'b) \<Rightarrow> ('z, 'b) rpc" where
  "answer op f = bindE (mapErrE rpc_error op) (\<lambda>x. retE (f x))"

definition invalid_rpc :: "string \<Rightarrow> ('z, 'a) rpc" where
  "invalid_rpc text = failE (rpc_error (core_errorf ErrorInvalidInput [Lit text]))"

definition with_dep :: "'d option \<Rightarrow> string \<Rightarrow> ('d \<Rightarrow> ('z, 'a) rpc) \<Rightarrow> ('z, 'a) rpc" where
  "with_dep dep text k = (case dep of None \<Rightarrow> invalid_rpc text | Some d \<Rightarrow> k d)"

definition with_request :: "'r option \<Rightarrow> ('r \<Rightarrow> ('z, 'a) rpc) \<Rightarrow> ('z, 'a) rpc" where
  "with_request req k = with_dep req ''request is required'' k"

definition ok_result :: "command_result_pb option \<Rightarrow> mutation_response" where
  "ok_result r = \<lparr>mrp_ok = True, mrp_result = r, mrp_preview = None\<rparr>"

subsection \<open>Health, information, signals\<close>

definition rpc_health :: "'z service \<Rightarrow> ('z, string) rpc" where
  "rpc_health s = retE (sv_name s)"

definition rpc_get_info :: "'z service \<Rightarrow> ('z, info_response) rpc" where
  "rpc_get_info s = answer (on_world (get_info (sv_manager s))) (info_proto (sv_name s) (sv_build s))"

definition rpc_get_signals :: "'z service \<Rightarrow> ('z, snapshot) rpc" where
  "rpc_get_signals s =
     with_dep (sv_signals s) ''signals collector is not configured'' (\<lambda>collect. answer (on_world collect) (\<lambda>x. x))"

subsection \<open>Runtime\<close>

definition rpc_runtime_status :: "'z service \<Rightarrow> ('z, runtime_status_pb) rpc" where
  "rpc_runtime_status s = answer (on_world (router_status (sv_manager s))) (runtime_status_proto (sv_rfc3339 s))"

definition rpc_llama_params :: "'z service \<Rightarrow> ('z, params_response) rpc" where
  "rpc_llama_params s =
     tryE (on_world (sv_help s))
       (\<lambda>err. retE \<lparr>prp_ok = False, prp_params = [], prp_source = [], prp_warning = [TextOf err]\<rparr>)
       (\<lambda>ps. retE \<lparr>prp_ok = True, prp_params = ps, prp_source = ''llama-server --help'', prp_warning = []\<rparr>)"

definition runtime_op ::
  "(string \<Rightarrow> ('z os_scheme control, gerror, operation_result) eff) \<Rightarrow> string \<Rightarrow> ('z, command_result_pb) rpc" where
  "runtime_op operation target = answer (operation target) operation_result_proto"

definition rpc_start_runtime :: "'z service \<Rightarrow> string \<Rightarrow> ('z, command_result_pb) rpc" where
  "rpc_start_runtime s = runtime_op (start_operation (sv_manager s))"

definition rpc_stop_runtime :: "'z service \<Rightarrow> string \<Rightarrow> ('z, command_result_pb) rpc" where
  "rpc_stop_runtime s = runtime_op (stop_operation (sv_manager s))"

definition rpc_restart_runtime :: "'z service \<Rightarrow> string \<Rightarrow> ('z, command_result_pb) rpc" where
  "rpc_restart_runtime s = runtime_op (restart_operation (sv_manager s))"

subsection \<open>Presets\<close>

definition preset_proto :: "'z service \<Rightarrow> preset_section \<Rightarrow> bool \<Rightarrow> ('z, preset_pb) io" where
  "preset_proto s sec autostart =
     bindE (inspect_source (mg_env (sv_manager s)) (Some (sec_values sec))) (\<lambda>status.
       retE \<lparr>pp_name = sec_name sec, pp_entries = preset_entries sec,
             pp_source_status = (case ss_state status of SourceReady \<Rightarrow> ''ready'' | SourceUnavailable \<Rightarrow> ''unavailable''),
             pp_source_error = ss_error status, pp_autostart = autostart\<rparr>)"

fun preset_protos :: "'z service \<Rightarrow> string list \<Rightarrow> preset_section list \<Rightarrow> ('z, preset_pb list) io" where
  "preset_protos s autostart [] = retE []"
| "preset_protos s autostart (sec # secs) =
     bindE (preset_proto s sec (sec_name sec \<in> set autostart)) (\<lambda>p.
     bindE (preset_protos s autostart secs) (\<lambda>ps. retE (p # ps)))"

definition rpc_list_presets :: "'z service \<Rightarrow> ('z, list_presets_response) rpc" where
  "rpc_list_presets s =
     answer (on_world (
       bindE (list_presets (sv_manager s)) (\<lambda>secs.
       bindE (global_preset (sv_manager s)) (\<lambda>global.
       bindE (router_autostart_info (sv_manager s)) (\<lambda>(autostart, models_max).
       bindE (preset_protos s autostart secs) (\<lambda>ps.
         retE \<lparr>lpr_path = presets_root (sv_manager s), lpr_global = preset_entries global, lpr_presets = ps,
               lpr_models_max = wrap32 models_max\<rparr>)))))) (\<lambda>x. x)"

definition rpc_get_preset :: "'z service \<Rightarrow> string \<Rightarrow> ('z, preset_pb) rpc" where
  "rpc_get_preset s name =
     answer (on_world (
       bindE (get_preset (sv_manager s) name) (\<lambda>sec.
       bindE (preset_proto s sec False) (\<lambda>p.
       bindE (router_autostart_info (sv_manager s)) (\<lambda>(autostart, _).
         retE (p\<lparr>pp_autostart := (sec_name sec \<in> set autostart)\<rparr>)))))) (\<lambda>x. x)"

definition rpc_put_preset :: "'z service \<Rightarrow> preset_pb option \<Rightarrow> bool \<Rightarrow> ('z, preset_pb) rpc" where
  "rpc_put_preset s preset create_only =
     answer (bindE (put_preset_op (sv_manager s) (section_from_proto preset) create_only)
               (\<lambda>sec. on_world (preset_proto s sec False))) (\<lambda>x. x)"

definition rpc_delete_preset :: "'z service \<Rightarrow> string \<Rightarrow> ('z, mutation_response) rpc" where
  "rpc_delete_preset s name = answer (delete_preset_op (sv_manager s) name) (\<lambda>_. ok_result None)"

definition rpc_cleanup_preset :: "'z service \<Rightarrow> string option \<Rightarrow> ('z, mutation_response) rpc" where
  "rpc_cleanup_preset s req =
     with_request req (\<lambda>name. answer (cleanup_preset_op (sv_manager s) name) (\<lambda>r. ok_result (Some (operation_result_proto r))))"

definition rpc_set_preset_autostart :: "'z service \<Rightarrow> (string \<times> bool) option \<Rightarrow> ('z, mutation_response) rpc" where
  "rpc_set_preset_autostart s req =
     with_request req (\<lambda>(name, enabled).
       if name = [] then invalid_rpc ''preset name is required''
       else answer (set_preset_autostart_op (sv_manager s) name enabled) (\<lambda>_. ok_result None))"

definition rpc_set_startup_services :: "'z service \<Rightarrow> string list \<Rightarrow> ('z, mutation_response) rpc" where
  "rpc_set_startup_services s services =
     answer (set_startup_services_op (sv_manager s) services) (\<lambda>_. ok_result None)"

subsection \<open>Models\<close>

fun local_model_protos ::
  "'z service \<Rightarrow> canonical_section list \<Rightarrow> local_model list \<Rightarrow> ('z, local_model_pb list) io" where
  "local_model_protos s canonical [] = retE []"
| "local_model_protos s canonical (m # ms) =
     bindE (find_references_canonical (mg_env (sv_manager s)) canonical (lm_path m)) (\<lambda>refs.
     bindE (local_model_protos s canonical ms) (\<lambda>rest.
       retE (\<lparr>lmp_path = lm_path m, lmp_filename = lm_filename m, lmp_size = lm_size m, lmp_modified_at = lm_modified m,
              lmp_used_by = sort (rf_model_paths refs @ rf_model_dirs refs), lmp_model_paths = rf_model_paths refs,
              lmp_models_dirs = rf_model_dirs refs\<rparr> # rest)))"

definition rpc_list_local_models :: "'z service \<Rightarrow> ('z, local_model_pb list) rpc" where
  "rpc_list_local_models s =
     with_dep (sv_local s) ''local model inventory is not configured'' (\<lambda>list_local.
       answer (on_world (
         bindE (mapErrE map_model_error list_local) (\<lambda>models.
         bindE (list_presets (sv_manager s)) (\<lambda>presets.
         bindE (canonicalize_sections (mg_env (sv_manager s)) presets) (\<lambda>canonical.
           local_model_protos s canonical models))))) (\<lambda>x. x))"

definition rpc_delete_local_model :: "'z service \<Rightarrow> (string \<times> bool) option \<Rightarrow> ('z, mutation_response) rpc" where
  "rpc_delete_local_model s req =
     with_request req (\<lambda>(path, cascade).
       if path = [] then invalid_rpc ''local model path is required''
       else answer (mapErrE map_model_error (delete_local_model_op (sv_manager s) path cascade))
              (\<lambda>r. ok_result (Some (operation_result_proto r))))"

definition rpc_resolve_model :: "'z service \<Rightarrow> string \<Rightarrow> string \<Rightarrow> ('z, model_resolution_pb) rpc" where
  "rpc_resolve_model s model u =
     with_dep (sv_resolve s) ''model catalog is not configured'' (\<lambda>resolve.
       let raw = (if u \<noteq> [] then u else model) in
       if raw = [] then invalid_rpc ''model URL or name is required''
       else answer (mapErrE map_model_error (on_world (resolve raw))) model_resolution_proto)"

definition rpc_list_model_catalog :: "'z service \<Rightarrow> list_request \<Rightarrow> ('z, list_catalog_response) rpc" where
  "rpc_list_model_catalog s req =
     with_dep (sv_discover s) ''model catalog discovery is not configured'' (\<lambda>discover.
       answer (on_world (
         bindE (mapErrE (\<lambda>err. core_error ErrorRuntime [Lit ''capture machine profile''] (Some err)) (sv_machine s)) (\<lambda>machine.
           mapErrE map_model_error (discover req (machine_profile_of machine))))) list_catalog_proto)"

definition with_downloader :: "'z service \<Rightarrow> ('z downloader \<Rightarrow> ('z, 'a) rpc) \<Rightarrow> ('z, 'a) rpc" where
  "with_downloader s k = with_dep (sv_downloader s) ''model downloader is not configured'' k"

definition rpc_start_download :: "'z service \<Rightarrow> dl_request \<Rightarrow> ('z, download_pb) rpc" where
  "rpc_start_download s req =
     with_downloader s (\<lambda>dl.
       if rq_url req = [] then invalid_rpc ''model URL is required''
       else answer (mapErrE map_model_error (dn_start dl req)) model_download_proto)"

definition downloader_action ::
  "'z service \<Rightarrow> string \<Rightarrow> ('z downloader \<Rightarrow> string \<Rightarrow> ('z os_scheme control, gerror, dl_job) eff) \<Rightarrow> ('z, download_pb) rpc" where
  "downloader_action s ident action =
     with_downloader s (\<lambda>dl.
       if ident = [] then invalid_rpc ''download ID is required''
       else answer (mapErrE map_model_error (action dl ident)) model_download_proto)"

definition rpc_get_download :: "'z service \<Rightarrow> string \<Rightarrow> ('z, download_pb) rpc" where
  "rpc_get_download s ident = downloader_action s ident dn_get"

definition rpc_cancel_download :: "'z service \<Rightarrow> string \<Rightarrow> ('z, download_pb) rpc" where
  "rpc_cancel_download s ident = downloader_action s ident dn_cancel"

definition completed_download :: "dl_job \<Rightarrow> gerror option" where
  "completed_download job =
     (if job_state job = DlCompleted \<or> job_state job = DlAlreadyDownloaded then None
      else Some (core_errorf ErrorConflict
        [Lit ''download '', Str (job_id job), Lit '' is '', Str (state_text (job_state job)), Lit '', not completed'']))"

text \<open>The section with the downloaded file as its model, and without a models directory.\<close>

definition apply_download :: "dl_job \<Rightarrow> preset_section \<Rightarrow> preset_section" where
  "apply_download job sec =
     sec\<lparr>sec_values := filter (\<lambda>kv. fst kv \<noteq> ''models-dir'') (AList.update ''model'' (job_target job) (sec_values sec))\<rparr>"

definition rpc_apply_download :: "'z service \<Rightarrow> string \<Rightarrow> string \<Rightarrow> bool \<Rightarrow> ('z, mutation_response) rpc" where
  "rpc_apply_download s ident preset preview =
     with_downloader s (\<lambda>dl.
       if preset = [] then invalid_rpc ''preset is required''
       else if ident = [] then invalid_rpc ''download ID is required''
       else bindE (mapErrE rpc_error (mapErrE map_model_error (dn_get dl ident))) (\<lambda>job.
         case completed_download job of
           Some err \<Rightarrow> failE (rpc_error err)
         | None \<Rightarrow>
             bindE (mapErrE rpc_error (on_world (get_preset (sv_manager s) preset))) (\<lambda>sec.
               if preview
               then retE \<lparr>mrp_ok = True, mrp_result = None,
                          mrp_preview = Some (value_or_empty (sec_values sec) ''model'', job_target job)\<rparr>
               else answer (put_preset_op (sv_manager s) (apply_download job sec) False) (\<lambda>_. ok_result None))))"

subsection \<open>Events\<close>

definition rpc_list_events :: "'z service \<Rightarrow> ('z, event_pb list) rpc" where
  "rpc_list_events s c =
     (case sv_events s of
        None \<Rightarrow> (Inr [], c)
      | Some store \<Rightarrow> (Inr (map (event_proto []) (es_list (store (ct_world c)))), c))"

text \<open>\<^verbatim>\<open>stream.Send\<close> of each message until one fails.\<close>

fun send_all :: "(nat \<Rightarrow> gerror option) \<Rightarrow> nat \<Rightarrow> 'p list \<Rightarrow> 'p list \<times> gerror option" where
  "send_all send n [] = ([], None)"
| "send_all send n (p # ps) =
     (case send n of
        Some err \<Rightarrow> ([], Some err)
      | None \<Rightarrow> (case send_all send (Suc n) ps of (sent, r) \<Rightarrow> (p # sent, r)))"

text \<open>What the select of a watch receives: an event of the channel, its closing, or the end of the context.\<close>

datatype 'e wake = Received 'e | ChannelClosed | ContextDone

fun received_events :: "'e wake list \<Rightarrow> 'e list" where
  "received_events (Received e # ws) = e # received_events ws"
| "received_events _ = []"

definition watch_events_stream :: "(nat \<Rightarrow> gerror option) \<Rightarrow> string \<Rightarrow> ev list \<Rightarrow> ev wake list \<Rightarrow> event_pb list \<times> gerror option" where
  "watch_events_stream send after_id backlog wakes =
     send_all send 0 (map (event_proto []) (events_after backlog after_id @ received_events wakes))"

definition catalog_event_proto :: "refresh_event \<Rightarrow> catalog_event_pb" where
  "catalog_event_proto e =
     \<lparr>cep_type = re_type e, cep_ok = (case re_error e of None \<Rightarrow> True | Some err \<Rightarrow> text_empty err), cep_error = re_error e\<rparr>"

definition watch_catalog_stream :: "(nat \<Rightarrow> gerror option) \<Rightarrow> refresh_event wake list \<Rightarrow> catalog_event_pb list \<times> gerror option" where
  "watch_catalog_stream send wakes = send_all send 0 (map catalog_event_proto (received_events wakes))"

text \<open>\<^verbatim>\<open>WatchEvents\<close>: subscribe and read the backlog in one step, stream, unsubscribe.\<close>

definition rpc_watch_events ::
  "(nat \<Rightarrow> gerror option) \<Rightarrow> string \<Rightarrow> ev wake list \<Rightarrow> event_store \<Rightarrow> (event_pb list \<times> gerror option) \<times> event_store" where
  "rpc_watch_events send after_id wakes store =
     (case subscribe_and_list store of
        ((ch, backlog), store') \<Rightarrow> (watch_events_stream send after_id backlog wakes, es_unsubscribe ch store'))"

text \<open>The two streams with the tests in front of them; a stream that fails in a send ends with that error, which is not one of the service.\<close>

definition watch_events_handler ::
  "(nat \<Rightarrow> gerror option) \<Rightarrow> string option \<Rightarrow> ev wake list \<Rightarrow> event_store option \<Rightarrow>
     connect_error + (event_pb list \<times> gerror option) \<times> event_store" where
  "watch_events_handler send req wakes store_opt =
     (case req of
        None \<Rightarrow> Inl (rpc_error (core_errorf ErrorInvalidInput [Lit ''request is required'']))
      | Some after_id \<Rightarrow>
          (case store_opt of
             None \<Rightarrow> Inl (rpc_error (core_errorf ErrorInvalidInput [Lit ''event store is not configured'']))
           | Some store \<Rightarrow> Inr (rpc_watch_events send after_id wakes store)))"

definition watch_catalog_handler ::
  "(nat \<Rightarrow> gerror option) \<Rightarrow> refresh_event wake list option \<Rightarrow> connect_error + (catalog_event_pb list \<times> gerror option)" where
  "watch_catalog_handler send subscription =
     (case subscription of
        None \<Rightarrow> Inl (rpc_error (core_errorf ErrorInvalidInput [Lit ''model catalog refresh events are not configured'']))
      | Some wakes \<Rightarrow> Inr (watch_catalog_stream send wakes))"

end
