(* ===== verification/RpcProps.thy ===== *)
theory RpcProps
  imports RpcService ControlProps
begin

section \<open>What the procedures of the control service do\<close>

text \<open>
  \<open>unary_call\<close> is a decoded request and \<open>run_call\<close> its dispatch to the handler, as the generated multiplexer of \<^verbatim>\<open>control.proto\<close> has it.
  The procedures that only read leave the presets and the busy flag alone, whatever the parts answer; applying a download changes one
  preset; a watch that names the last event it saw goes on behind it.
\<close>

datatype unary_call =
    CallHealth | CallGetInfo | CallRuntimeStatus | CallLlamaParams
  | CallStart string | CallStop string | CallRestart string
  | CallSignals | CallListEvents | CallSetStartup "string list"
  | CallListPresets | CallGetPreset string | CallPutPreset "preset_pb option" bool | CallDeletePreset string
  | CallCleanup "string option" | CallAutostart "(string \<times> bool) option"
  | CallResolve string string | CallCatalog list_request | CallLocalModels | CallDeleteModel "(string \<times> bool) option"
  | CallStartDownload dl_request | CallGetDownload string | CallCancelDownload string | CallApply string string bool

fun procedure_name :: "unary_call \<Rightarrow> string" where
  "procedure_name CallHealth = ''Health''"
| "procedure_name CallGetInfo = ''GetInfo''"
| "procedure_name CallRuntimeStatus = ''GetRuntimeStatus''"
| "procedure_name CallLlamaParams = ''GetLlamaServerParams''"
| "procedure_name (CallStart t) = ''StartRuntime''"
| "procedure_name (CallStop t) = ''StopRuntime''"
| "procedure_name (CallRestart t) = ''RestartRuntime''"
| "procedure_name CallSignals = ''GetSignals''"
| "procedure_name CallListEvents = ''ListEvents''"
| "procedure_name (CallSetStartup ss) = ''SetStartupServices''"
| "procedure_name CallListPresets = ''ListPresets''"
| "procedure_name (CallGetPreset n) = ''GetPreset''"
| "procedure_name (CallPutPreset p c) = ''PutPreset''"
| "procedure_name (CallDeletePreset n) = ''DeletePreset''"
| "procedure_name (CallCleanup n) = ''CleanupPreset''"
| "procedure_name (CallAutostart r) = ''SetPresetAutostart''"
| "procedure_name (CallResolve m u) = ''ResolveModel''"
| "procedure_name (CallCatalog r) = ''ListModelCatalog''"
| "procedure_name CallLocalModels = ''ListLocalModels''"
| "procedure_name (CallDeleteModel r) = ''DeleteLocalModel''"
| "procedure_name (CallStartDownload r) = ''StartModelDownload''"
| "procedure_name (CallGetDownload i) = ''GetModelDownload''"
| "procedure_name (CallCancelDownload i) = ''CancelModelDownload''"
| "procedure_name (CallApply i p v) = ''ApplyModelDownloadToPreset''"

definition voided :: "('z, 'a) rpc \<Rightarrow> ('z, unit) rpc" where
  "voided m = bindE m (\<lambda>_. retE ())"

fun run_call :: "'z service \<Rightarrow> unary_call \<Rightarrow> ('z, unit) rpc" where
  "run_call s CallHealth = voided (rpc_health s)"
| "run_call s CallGetInfo = voided (rpc_get_info s)"
| "run_call s CallRuntimeStatus = voided (rpc_runtime_status s)"
| "run_call s CallLlamaParams = voided (rpc_llama_params s)"
| "run_call s (CallStart t) = voided (rpc_start_runtime s t)"
| "run_call s (CallStop t) = voided (rpc_stop_runtime s t)"
| "run_call s (CallRestart t) = voided (rpc_restart_runtime s t)"
| "run_call s CallSignals = voided (rpc_get_signals s)"
| "run_call s CallListEvents = voided (rpc_list_events s)"
| "run_call s (CallSetStartup ss) = voided (rpc_set_startup_services s ss)"
| "run_call s CallListPresets = voided (rpc_list_presets s)"
| "run_call s (CallGetPreset n) = voided (rpc_get_preset s n)"
| "run_call s (CallPutPreset p c) = voided (rpc_put_preset s p c)"
| "run_call s (CallDeletePreset n) = voided (rpc_delete_preset s n)"
| "run_call s (CallCleanup n) = voided (rpc_cleanup_preset s n)"
| "run_call s (CallAutostart r) = voided (rpc_set_preset_autostart s r)"
| "run_call s (CallResolve m u) = voided (rpc_resolve_model s m u)"
| "run_call s (CallCatalog r) = voided (rpc_list_model_catalog s r)"
| "run_call s CallLocalModels = voided (rpc_list_local_models s)"
| "run_call s (CallDeleteModel r) = voided (rpc_delete_local_model s r)"
| "run_call s (CallStartDownload r) = voided (rpc_start_download s r)"
| "run_call s (CallGetDownload i) = voided (rpc_get_download s i)"
| "run_call s (CallCancelDownload i) = voided (rpc_cancel_download s i)"
| "run_call s (CallApply i p v) = voided (rpc_apply_download s i p v)"

subsection \<open>Reading procedures\<close>

text \<open>What an outsider sees of the manager: the busy flag and the view of the world.\<close>

definition control_view :: "('z os_scheme \<Rightarrow> 'v) \<Rightarrow> 'z os_scheme control \<Rightarrow> bool \<times> 'v" where
  "control_view view c = (ct_busy c, view (ct_world c))"

definition control_ok :: "('z os_scheme \<Rightarrow> bool) \<Rightarrow> 'z os_scheme control \<Rightarrow> bool" where
  "control_ok ok c = ok (ct_world c)"

abbreviation quiet :: "('z os_scheme \<Rightarrow> 'v) \<Rightarrow> ('z os_scheme \<Rightarrow> bool) \<Rightarrow> ('z os_scheme control, 'e, 'a) eff \<Rightarrow> bool" where
  "quiet view ok \<equiv> inert (control_view view) (control_ok ok)"

lemma quiet_on_world [inert_intros]: "inert view ok f \<Longrightarrow> quiet view ok (on_world f)"
  by (auto simp: inert_def on_world_def control_view_def control_ok_def split: prod.splits)

lemma quiet_answer [inert_intros]: "quiet view ok m \<Longrightarrow> quiet view ok (answer m f)"
  unfolding answer_def by (intro inert_intros)

lemma quiet_invalid [inert_intros]: "quiet view ok (invalid_rpc t)"
  unfolding invalid_rpc_def by (intro inert_intros)

lemma quiet_with_dep [inert_intros]:
  "(\<And>d. dep = Some d \<Longrightarrow> quiet view ok (k d)) \<Longrightarrow> quiet view ok (with_dep dep t k)"
  by (cases dep) (simp_all add: with_dep_def quiet_invalid)

lemma quiet_voided [inert_intros]: "quiet view ok m \<Longrightarrow> quiet view ok (voided m)"
  unfolding voided_def by (intro inert_intros)

lemma inert_prod [inert_intros]: "(\<And>a b. inert view ok (f a b)) \<Longrightarrow> inert view ok (case p of (a, b) \<Rightarrow> f a b)"
  by (cases p) simp

text \<open>The parts that the reading procedures ask, and that are not the manager's, leave the view alone.\<close>

definition quiet_parts :: "('z os_scheme \<Rightarrow> 'v) \<Rightarrow> ('z os_scheme \<Rightarrow> bool) \<Rightarrow> 'z service \<Rightarrow> bool" where
  "quiet_parts view ok s \<longleftrightarrow>
     (\<forall>f. sv_signals s = Some f \<longrightarrow> inert view ok f) \<and> (\<forall>f. sv_local s = Some f \<longrightarrow> inert view ok f) \<and>
     inert view ok (sv_machine s) \<and> (\<forall>f r p. sv_discover s = Some f \<longrightarrow> inert view ok (f r p)) \<and>
     (\<forall>d i. sv_downloader s = Some d \<longrightarrow> quiet view ok (dn_get d i)) \<and>
     (\<forall>secs. inert view ok (canonicalize_sections (mg_env (sv_manager s)) secs)) \<and>
     (\<forall>cs p. inert view ok (find_references_canonical (mg_env (sv_manager s)) cs p)) \<and>
     (\<forall>vals. inert view ok (inspect_source (mg_env (sv_manager s)) vals))"

definition read_procedures :: "string list" where
  "read_procedures =
     [''Health'', ''GetInfo'', ''GetRuntimeStatus'', ''GetSignals'', ''ListEvents'', ''ListPresets'', ''GetPreset'',
      ''ListModelCatalog'', ''ListLocalModels'', ''GetModelDownload'']"

lemma preset_proto_inert:
  "quiet_parts view ok s \<Longrightarrow> inert view ok (preset_proto s sec a)"
  unfolding preset_proto_def by (intro inert_intros) (simp add: quiet_parts_def)

lemma preset_protos_inert: "quiet_parts view ok s \<Longrightarrow> inert view ok (preset_protos s a secs)"
  by (induction secs) (auto intro!: inert_intros preset_proto_inert simp del: retE_apply intro: inert_ret [unfolded retE_def])

lemma local_protos_inert: "quiet_parts view ok s \<Longrightarrow> inert view ok (local_model_protos s cs ms)"
proof (induction ms)
  case Nil
  show ?case unfolding local_model_protos.simps by (rule inert_ret)
next
  case (Cons m ms)
  then show ?case unfolding local_model_protos.simps by (intro inert_intros) (simp_all add: quiet_parts_def)
qed

context control_core
begin

lemma get_info_inert: "inert view ok (get_info m)"
  unfolding get_info_def
  by (intro inert_intros config_frame)
    (auto dest: runtime_frame simp: has_presets intro!: inert_intros list_inert)

lemma status_inert: "inert view ok (router_status m)"
proof -
  have u: "inert view ok (router_unavailable_status m)"
  proof (cases "mg_runtime m")
    case None
    then show ?thesis by (simp add: router_unavailable_status_def inert_def)
  next
    case (Some rr)
    show ?thesis unfolding router_unavailable_status_def Some option.case
      by (intro inert_bind inert_mapErr conjunct1 [OF runtime_frame [OF Some]]) (simp add: inert_def)
  qed
  show ?thesis
  proof (cases "mg_router m")
    case None
    with u show ?thesis by (simp add: router_status_def)
  next
    case (Some rt)
    show ?thesis unfolding router_status_def Some option.case
      by (intro inert_try u conjunct1 [OF router_frame [OF Some]]) (simp add: inert_def)
  qed
qed

lemma read_call_quiet:
  assumes "sv_manager s = m" "quiet_parts view ok s" "inert view ok (pr_global ps)"
    and "procedure_name call \<in> set read_procedures"
  shows "quiet view ok (run_call s call)"
proof -
  have g: "inert view ok (global_preset m)"
    unfolding global_preset_def preset_read_def require_presets_def using assms(3)
    by (intro inert_intros) (simp add: has_presets)
  have a: "inert view ok (router_autostart_info m)"
    unfolding router_autostart_info_def by (intro inert_intros config_frame)
  note parts = assms(2) [unfolded quiet_parts_def]
  consider "call = CallHealth" | "call = CallGetInfo" | "call = CallRuntimeStatus" | "call = CallSignals"
    | "call = CallListEvents" | "call = CallListPresets" | n where "call = CallGetPreset n"
    | r where "call = CallCatalog r" | "call = CallLocalModels" | i where "call = CallGetDownload i"
    using assms(4) by (cases call) (auto simp: read_procedures_def)
  then show ?thesis
  proof cases
    case 1
    then show ?thesis by (simp add: rpc_health_def inert_intros del: retE_apply)
  next
    case 2
    then show ?thesis by (simp add: rpc_get_info_def assms(1) inert_intros get_info_inert)
  next
    case 3
    then show ?thesis by (simp add: rpc_runtime_status_def assms(1) inert_intros status_inert)
  next
    case 4
    with parts show ?thesis by (auto simp: rpc_get_signals_def intro!: inert_intros)
  next
    case 5
    have "quiet view ok (rpc_list_events s)"
      by (rule inert_const) (simp add: rpc_list_events_def split: option.split)
    with 5 show ?thesis by (simp add: inert_intros)
  next
    case 6
    then show ?thesis unfolding 6 run_call.simps rpc_list_presets_def assms(1)
      by (intro inert_intros list_presets_inert g a preset_protos_inert assms(2))
  next
    case 7
    then show ?thesis unfolding 7 run_call.simps rpc_get_preset_def assms(1)
      by (intro inert_intros get_preset_inert a preset_proto_inert assms(2))
  next
    case 8
    with parts show ?thesis unfolding 8 run_call.simps rpc_list_model_catalog_def
      by (intro inert_intros) simp_all
  next
    case 9
    with parts show ?thesis unfolding 9 run_call.simps rpc_list_local_models_def assms(1)
      by (intro inert_intros list_presets_inert local_protos_inert assms(2)) (simp_all add: assms(1))
  next
    case 10
    with parts show ?thesis unfolding 10 run_call.simps rpc_get_download_def downloader_action_def with_downloader_def
      by (intro inert_intros) simp_all
  qed
qed

end

end
