(* ===== verification/ServiceProps.thy ===== *)
theory ServiceProps
  imports RpcProps
begin

section \<open>Properties of the control service\<close>

text \<open>
  The contract of \<^verbatim>\<open>RpcProps\<close> on the manager that the program assembles, the resumption of the event stream, and the fate of a preset
  that a download is applied to.
\<close>

subsection \<open>Reading changes nothing\<close>

text \<open>The collectors, catalogs and the downloader of a service leave \<^verbatim>\<open>models.ini\<close> alone.\<close>

definition quiet_deps :: "string \<Rightarrow> server_config \<Rightarrow> 'z server_os_ext machine_ext service \<Rightarrow> bool" where
  "quiet_deps path cfg s \<longleftrightarrow>
     (\<forall>f. sv_signals s = Some f \<longrightarrow> keeps_presets path cfg f) \<and> (\<forall>f. sv_local s = Some f \<longrightarrow> keeps_presets path cfg f) \<and>
     keeps_presets path cfg (sv_machine s) \<and> (\<forall>f r p. sv_discover s = Some f \<longrightarrow> keeps_presets path cfg (f r p)) \<and>
     (\<forall>d i. sv_downloader s = Some d \<longrightarrow> quiet (preset_view path) (plain_ok path cfg) (dn_get d i))"

lemma reads_only_source: "reads_only (source_path env sec key)"
  unfolding source_path_def Let_def by (intro reads_only_intros)

lemma reads_only_canonicalize: "reads_only (canonicalize_sections env xs)"
proof (induction xs)
  case Nil
  show ?case unfolding canonicalize_sections.simps by (rule reads_only_ret)
next
  case (Cons x xs)
  show ?case unfolding canonicalize_sections.simps by (intro reads_only_intros reads_only_source Cons.IH)
qed

lemma reads_only_find_canonical: "reads_only (find_references_canonical env cs p)"
  unfolding find_references_canonical_def by (intro reads_only_intros)

lemma store_global_inert: "inert (preset_view path) (plain_ok path cfg) (store_global path)"
proof -
  have "snd (store_global path w) = snd (store_list path w)" for w :: "'z server_os_scheme"
    unfolding store_global_def store_list_def bindE_def by (auto split: prod.splits sum.splits option.splits)
  moreover have "inert (preset_view path) (plain_ok path cfg) (store_list path)"
    using assembled.list_inert [of path cfg] by (simp add: ini_presets_def)
  ultimately show ?thesis unfolding inert_def by (metis prod.collapse snd_conv)
qed

lemma quiet_deps_parts:
  fixes s :: "'z server_os_ext machine_ext service"
  assumes "quiet_deps path cfg s"
  shows "quiet_parts (preset_view path) (plain_ok path cfg) s"
proof -
  note r = keeps_presets_reads_only [unfolded keeps_presets_inert]
  have "inert (preset_view path) (plain_ok path cfg) (canonicalize_sections env secs :: ('z, canonical_section list) sio)"
    "inert (preset_view path) (plain_ok path cfg) (find_references_canonical env cs p :: ('z, references) sio)"
    "inert (preset_view path) (plain_ok path cfg) (inspect_source env vals :: ('z, source_status) sio)" for env secs cs p vals
    by (rule r reads_only_canonicalize reads_only_find_canonical reads_only_inspect)+
  with assms show ?thesis unfolding quiet_deps_def quiet_parts_def keeps_presets_inert by simp
qed

lemma assembled_read_quiet:
  fixes s :: "'z server_os_ext machine_ext service"
  assumes "sv_manager s = assembled fuel c dir path m" "quiet_deps path cfg s" "procedure_name call \<in> set read_procedures"
  shows "quiet (preset_view path) (plain_ok path cfg) (run_call s call)"
proof -
  have "inert (preset_view path) (plain_ok path cfg) (pr_global (ini_presets dir path))"
    using store_global_inert by (simp add: ini_presets_def)
  from assembled.read_call_quiet [OF assms(1) quiet_deps_parts [OF assms(2)] this assms(3)] show ?thesis .
qed

text \<open>A procedure that only reads (health, information, status, signals, events, presets, catalog, local models, downloads)
  changes no preset and neither takes nor releases the busy flag of the manager, whether it answers or fails, when the collectors,
  catalogs and the downloader it asks leave \<^verbatim>\<open>models.ini\<close> alone.\<close>

theorem reading_changes_nothing:
  assumes "sv_manager s = assembled fuel c dir path m" "quiet_deps path cfg s"
    and "procedure_name call \<in> set read_procedures" "plain_ok path cfg (ct_world st)" "run_call s call st = (r, st')"
  shows "preset_view path (ct_world st') = preset_view path (ct_world st) \<and> ct_busy st' = ct_busy st"
proof -
  have q: "quiet (preset_view path) (plain_ok path cfg) (run_call s call)" by (rule assembled_read_quiet [OF assms(1-3)])
  have "control_ok (plain_ok path cfg) st" using assms(4) by (simp add: control_ok_def)
  from inertD [OF q this assms(5)] show ?thesis by (simp add: control_view_def)
qed

definition demo_service :: "unit server_os_ext machine_ext service" where
  "demo_service =
     \<lparr>sv_manager = demo_manager, sv_resolve = None, sv_discover = None, sv_local = None, sv_machine = failE (Plain []),
      sv_signals = None, sv_downloader = None, sv_events = None, sv_help = retE [], sv_name = service_name [],
      sv_build = \<lparr>bi_version = [], bi_commit = [], bi_commit_time = []\<rparr>, sv_rfc3339 = itoa \<circ> nat\<rparr>"

lemma demo_quiet_deps: "quiet_deps demo_path demo_server_config demo_service"
  by (simp add: quiet_deps_def demo_service_def keeps_presets_inert inert_fail del: failE_apply)

theorem reading_changes_nothing_witness:
  "let st = \<lparr>ct_busy = True, ct_world = demo_server_os\<rparr>; st' = snd (run_call demo_service CallListPresets st) in
   preset_view demo_path (ct_world st') = preset_view demo_path (ct_world st) \<and> ct_busy st' = ct_busy st"
proof -
  have m: "sv_manager demo_service = assembled 5 demo_client ''/c'' demo_path demo_manager"
    by (subst demo_assembled [symmetric]) (simp add: demo_service_def)
  have p: "plain_ok demo_path demo_server_config (ct_world \<lparr>ct_busy = True, ct_world = demo_server_os\<rparr>)"
    using demo_plain by simp
  have r: "procedure_name CallListPresets \<in> set read_procedures" by (simp add: read_procedures_def)
  show ?thesis unfolding Let_def
    by (rule reading_changes_nothing [OF m demo_quiet_deps r p]) (rule prod.collapse [symmetric])
qed

subsection \<open>What goes over the wire\<close>

text \<open>The kind of an error survives the wire: what a client reads from the error that a handler answers with is the kind the control core
  gave it, and without the header of the kind it is still read from the code, except that an internal error is taken for one of the
  runtime.\<close>

theorem error_kind_survives:
  "error_kind_from_rpc (Connect (rpc_error e)) = core_kind (Some e) \<and>
   error_kind_from_rpc (Connect ((rpc_error e)\<lparr>ce_kind := None\<rparr>)) =
     (if core_kind (Some e) = Some ErrorInternal then Some ErrorRuntime else core_kind (Some e))"
  using kind_survives_wire kind_survives_code by blast

text \<open>A preset survives the wire: the entries that the service lists for it, in their display order and put into a request, are read back
  as the values of the preset, under its name.\<close>

theorem preset_survives_wire:
  assumes "distinct (map fst (sec_values sec))"
  shows "let msg = \<lparr>pp_name = sec_name sec, pp_entries = preset_entries sec, pp_source_status = st, pp_source_error = er, pp_autostart = a\<rparr>
    in sec_name (section_from_proto (Some msg)) = sec_name sec \<and>
       map_of (sec_values (section_from_proto (Some msg))) = map_of (sec_values sec)"
  using section_proto_roundtrip [OF assms] by (simp add: section_from_proto_def)

theorem preset_survives_wire_witness:
  "let sec = \<lparr>sec_name = ''a'', sec_values = [(''model'', ''m''), (''alias'', ''x'')]\<rparr>;
       msg = \<lparr>pp_name = sec_name sec, pp_entries = preset_entries sec, pp_source_status = [], pp_source_error = [], pp_autostart = True\<rparr>
   in sec_name (section_from_proto (Some msg)) = sec_name sec \<and>
      map_of (sec_values (section_from_proto (Some msg))) = map_of (sec_values sec)"
  using preset_survives_wire [of "\<lparr>sec_name = ''a'', sec_values = [(''model'', ''m''), (''alias'', ''x'')]\<rparr>" "[]" "[]" True]
  by (simp add: Let_def)

subsection \<open>Resuming the event stream\<close>

lemma events_behind_drop:
  "i < length es \<Longrightarrow> distinct (map ev_id es) \<Longrightarrow> events_behind (ev_id (es ! i)) es = Some (drop (Suc i) es)"
proof (induction es arbitrary: i)
  case (Cons e es)
  then show ?case by (cases i) auto
qed simp

lemma numbered_ids: "length xs < 2 ^ 64 \<Longrightarrow> map ev_id (numbered 0 xs) = map (\<lambda>i. itoa (Suc i)) [0..<length xs]"
proof (rule nth_equalityI)
  fix i assume a: "length xs < 2 ^ 64" "i < length (map ev_id (numbered 0 xs))"
  then have "unat (1 + of_nat i :: 64 word) = Suc i"
    by (simp add: unat_word_ariths unsigned_of_nat take_bit_nat_eq_self)
  with a show "map ev_id (numbered 0 xs) ! i = map (\<lambda>i. itoa (Suc i)) [0..<length xs] ! i"
    by (simp add: numbered_nth)
qed simp

lemma inj_itoa: "inj itoa"
  by (rule injI) (metis option.inject parse_digits_itoa)

lemma distinct_numbered: "length xs < 2 ^ 64 \<Longrightarrow> distinct (map ev_id (numbered 0 xs))"
  using inj_itoa by (auto simp: numbered_ids distinct_map inj_on_def)

lemma send_all_sent: "(\<And>n. send n = None) \<Longrightarrow> send_all send k ps = (ps, None)"
  by (induction ps arbitrary: k) simp_all

lemma events_after_last_n:
  assumes "length xs < 2 ^ 64" "0 < k" "k \<le> length xs"
  shows "events_after (last_n L (numbered 0 xs)) (itoa k) = last_n (min L (length xs - k)) (numbered 0 xs)"
proof -
  let ?log = "numbered 0 xs"
  have ids: "ev_id (?log ! i) = itoa (Suc i)" if "i < length xs" for i
    using arg_cong [OF numbered_ids [OF assms(1)], of "\<lambda>ys. ys ! i"] that by simp
  have ne: "itoa k \<noteq> []" using itoa_digits by blast
  show ?thesis
  proof (cases "length xs - k < L")
    case True
    let ?j = "k - 1 - (length xs - L)"
    have j: "?j < length (last_n L ?log)" "last_n L ?log ! ?j = ?log ! (k - 1)"
      using True assms(2,3) by (auto simp: last_n_def)
    have "distinct (map ev_id (last_n L ?log))"
      using distinct_numbered [OF assms(1)] by (simp add: last_n_def drop_map [symmetric])
    from events_behind_drop [OF j(1) this] j(2) ids [of "k - 1"] assms(2,3)
    have "events_behind (itoa k) (last_n L ?log) = Some (drop (Suc ?j) (last_n L ?log))" by simp
    moreover have "drop (Suc ?j) (last_n L ?log) = last_n (min L (length xs - k)) ?log"
      using True assms(2,3) by (auto simp: last_n_def intro!: arg_cong [where f = "\<lambda>n. drop n ?log"])
    ultimately show ?thesis using ne by (simp add: events_after_def)
  next
    case False
    have "itoa k \<notin> ev_id ` set (last_n L ?log)"
    proof
      assume "itoa k \<in> ev_id ` set (last_n L ?log)"
      then obtain i where "i < length (last_n L ?log)" "itoa k = ev_id (last_n L ?log ! i)" by (auto simp: in_set_conv_nth)
      then have "k = Suc (length xs - L + i)" "length xs - L + i < length xs"
        using ids [of "length xs - L + i"] injD [OF inj_itoa] by (auto simp: last_n_def)
      with False assms(2,3) show False by auto
    qed
    with False ne show ?thesis by (simp add: events_after_def events_behind_none min_def)
  qed
qed

text \<open>C29: A watch that names the last event it saw goes on right behind it: after the records \<open>xs\<close>, \<^verbatim>\<open>WatchEvents\<close> with the identifier
  of the k-th one sends the records behind the k-th, as far as the store still holds them, in order and each once, and then what the
  channel delivers. An identifier that the store no longer holds makes it send all it holds.\<close>

theorem watch_resumes_after_id:
  assumes "length xs < 2 ^ 64" "0 < k" "k \<le> length xs" "\<And>n. send n = None"
  shows "fst (rpc_watch_events send (itoa k) wakes (run_records xs (new_event_store limit))) =
    (map (event_proto [])
       (last_n (min (nat (if limit \<le> 0 then 200 else limit)) (length xs - k)) (numbered 0 xs) @ received_events wakes), None)"
proof -
  have "es_events (run_records xs (new_event_store limit)) = last_n (nat (if limit \<le> 0 then 200 else limit)) (numbered 0 xs)"
    using run_records_events [OF es_ok_bounded [OF es_ok_new [of limit]], of xs]
    by (simp add: new_event_store_def default_event_limit_def)
  then show ?thesis using assms(4) events_after_last_n [OF assms(1-3)]
    by (simp add: rpc_watch_events_def subscribe_and_list_def Let_def watch_events_stream_def send_all_sent)
qed

theorem watch_resumes_after_id_witness:
  "fst (rpc_watch_events (\<lambda>_. None) (itoa 1) [] (run_records [(''t1'', demo_audit), (''t2'', demo_audit)] (new_event_store 1))) =
    (map (event_proto []) (last_n (min (nat (if (1 :: int) \<le> 0 then 200 else 1)) (length [(''t1'', demo_audit), (''t2'', demo_audit)] - 1))
       (numbered 0 [(''t1'', demo_audit), (''t2'', demo_audit)]) @ received_events []), None)"
  by (rule watch_resumes_after_id) simp_all

subsection \<open>Applying a download\<close>

context control_core
begin

text \<open>Putting a preset that may exist: its values are there as they were given, or nothing changed.\<close>

lemma put_preset_outcome:
  assumes "ok w" "trim_space (sec_name sec) = sec_name sec" "put_preset m sec False w = (r, w')"
  shows "ok w' \<and> (view w' = view w \<and> isl r \<or>
     (\<exists>v vals. view w = Some v \<and> canonical_values [] (sec_values sec) = Inr vals \<and> view w' = Some (v(sec_name sec \<mapsto> stored_map vals))))"
proof -
  let ?rest = "bindE (mapErrE map_server_config_error (pr_get ps (sec_name sec))) (\<lambda>saved.
     tryE (refresh_router_sources m [Lit ''Preset '', Str (sec_name sec), Lit '' changed''])
       (\<lambda>err. failE (core_error ErrorRuntime [Lit ''Preset saved; Router refresh failed''] (Some err))) (\<lambda>_. retE saved))"
  have rest: "inert view ok ?rest" by (intro inert_intros get_inert refresh_inert)
  obtain p w1 where p: "pr_put ps sec False w = (p, w1)" by force
  from put_law [OF assms(1,2) p] have o1: "ok w1" by blast
  have run: "put_preset m sec False w = (case p of Inl e \<Rightarrow> (Inl (map_server_config_error e), w1) | Inr _ \<Rightarrow> ?rest w1)"
    using has_presets p
    by (simp add: put_preset_def require_presets_def require_some_def bindE_def [of "retE _"] bindE_def [of "mapErrE _ _"] mapErrE_def split: sum.split)
  show ?thesis
  proof (cases p)
    case (Inl e)
    with run assms(3) put_law [OF assms(1,2) p] show ?thesis by auto
  next
    case (Inr u)
    with run assms(3) have "?rest w1 = (r, w')" by simp
    from inertD [OF rest o1 this] Inr put_law [OF assms(1,2) p] show ?thesis by auto
  qed
qed

text \<open>The put with the busy flag around it.\<close>

lemma put_preset_op_outcome:
  assumes "ok (ct_world c)" "trim_space (sec_name sec) = sec_name sec"
    and "\<And>x f w. mg_audit m = Some f \<Longrightarrow> view (f x w) = view w"
    and "put_preset_op m sec False c = (r, c')"
  shows "view (ct_world c') = view (ct_world c) \<or>
     (\<exists>v vals. view (ct_world c) = Some v \<and> canonical_values [] (sec_values sec) = Inr vals \<and>
        view (ct_world c') = Some (v(sec_name sec \<mapsto> stored_map vals)) \<and> \<not> ct_busy c)"
proof -
  obtain x w where x: "put_preset m sec False (ct_world c) = (x, w)" by force
  have leave: "view (ct_world (mutation_leave m a t e d)) = view (ct_world d)" for a t e d
    using assms(3) by (auto simp: mutation_leave_def audit_record_def split: option.splits)
  show ?thesis
  proof (cases "ct_busy c")
    case True
    with assms(4) show ?thesis by (auto simp: put_preset_op_def with_mutation_def mutation_enter_def)
  next
    case False
    with assms(4) x have "view (ct_world c') = view w"
      by (auto simp: put_preset_op_def with_mutation_def mutation_enter_def leave)
    with put_preset_outcome [OF assms(1,2) x] False show ?thesis by auto
  qed
qed

text \<open>What applying a download to a preset does.\<close>

lemma apply_download_outcome:
  assumes "sv_manager s = m" "sv_downloader s = Some dl" "quiet view ok (dn_get dl ident)"
    and "\<And>x f w. mg_audit m = Some f \<Longrightarrow> view (f x w) = view w"
    and "trim_space preset = preset" "ok (ct_world c)" "rpc_apply_download s ident preset preview c = (r, c')"
  shows "view (ct_world c') = view (ct_world c) \<or>
     (\<exists>job c1 sec v vals. dn_get dl ident c = (Inr job, c1) \<and> completed_download job = None \<and> \<not> preview \<and> \<not> ct_busy c \<and>
        view (ct_world c) = Some v \<and> v preset = Some (sec_map sec) \<and>
        canonical_values [] (sec_values (apply_download job sec)) = Inr vals \<and>
        view (ct_world c') = Some (v(preset \<mapsto> stored_map vals)))"
proof (cases "preset = [] \<or> ident = []")
  case True
  with assms(2,7) show ?thesis by (auto simp: rpc_apply_download_def with_downloader_def with_dep_def invalid_rpc_def split: if_splits)
next
  case False
  obtain j c1 where j: "dn_get dl ident c = (j, c1)" by force
  have "control_ok ok c" using assms(6) by (simp add: control_ok_def)
  from inertD [OF assms(3) this j] have c1: "ok (ct_world c1)" "view (ct_world c1) = view (ct_world c)" "ct_busy c1 = ct_busy c"
    by (simp_all add: control_ok_def control_view_def)
  show ?thesis
  proof (cases "\<exists>job. j = Inr job \<and> completed_download job = None")
    case none: False
    with assms(2,7) False j c1 show ?thesis
      by (auto simp: rpc_apply_download_def with_downloader_def with_dep_def bindE_def mapErrE_def failE_def
          split: sum.splits option.splits)
  next
    case True
    then obtain job where job: "j = Inr job" "completed_download job = None" by blast
    obtain g w2 where g: "get_preset m preset (ct_world c1) = (g, w2)" by force
    from inertD [OF get_preset_inert c1(1) g] have w2: "ok w2" "view w2 = view (ct_world c1)" by auto
    show ?thesis
    proof (cases "\<exists>sec. g = Inr sec \<and> \<not> preview")
      case False
      with assms(1,2,7) \<open>\<not> (preset = [] \<or> ident = [])\<close> j job g c1 w2 show ?thesis
        by (auto simp: rpc_apply_download_def with_downloader_def with_dep_def bindE_def mapErrE_def on_world_def
            split: sum.splits option.splits)
    next
      case True
      then obtain sec where sec: "g = Inr sec" "\<not> preview" by blast
      from g sec have pg: "pr_get ps preset (ct_world c1) = (Inr sec, w2)" using has_presets
        by (auto simp: get_preset_def preset_read_def require_presets_def require_some_def mapErrE_def split: prod.splits sum.splits)
      from get_law [OF c1(1) pg] c1(2) obtain v where v: "sec_name sec = preset" "view (ct_world c) = Some v" "v preset = Some (sec_map sec)"
        by auto
      let ?c2 = "c1\<lparr>ct_world := w2\<rparr>" and ?sec = "apply_download job sec"
      obtain x c3 where x: "put_preset_op m ?sec False ?c2 = (x, c3)" by force
      have n: "sec_name ?sec = preset" by (simp add: apply_download_def v(1))
      have "c' = c3" using assms(1,2,7) \<open>\<not> (preset = [] \<or> ident = [])\<close> j job g sec x
        by (auto simp: rpc_apply_download_def with_downloader_def with_dep_def bindE_def mapErrE_def on_world_def answer_def
            split: sum.splits option.splits)
      moreover have "view (ct_world c3) = view (ct_world ?c2) \<or>
         (\<exists>v vals. view (ct_world ?c2) = Some v \<and> canonical_values [] (sec_values ?sec) = Inr vals \<and>
            view (ct_world c3) = Some (v(sec_name ?sec \<mapsto> stored_map vals)) \<and> \<not> ct_busy ?c2)"
        by (rule put_preset_op_outcome) (use w2(1) n assms(4,5) x in auto)
      ultimately show ?thesis using v w2(2) c1 j job sec(2) n by auto
    qed
  qed
qed

end

lemma canonical_values_model:
  assumes "canonical_values acc kvs = Inr vals" "distinct (map fst acc)"
    and "(''model'', x) \<in> set kvs \<or> map_of acc ''model'' = Some x"
  shows "map_of vals ''model'' = Some x"
  using assms
proof (induction acc kvs rule: canonical_values.induct)
  case (2 acc key v kvs)
  have k: "canonical_key ''model'' = Inr ''model''" by code_simp
  have "map_of acc ''model'' = None" if "''model'' \<notin> fst ` set acc" using that by (simp add: map_of_eq_None_iff)
  with 2 k show ?case by (auto split: sum.splits if_splits simp: map_add_def)
qed simp

lemma apply_download_model: "(''model'', job_target job) \<in> set (sec_values (apply_download job sec))"
proof -
  have "map_of (AList.update ''model'' (job_target job) (sec_values sec)) ''model'' = Some (job_target job)"
    by (simp add: update_conv')
  then show ?thesis by (auto simp: apply_download_def dest: map_of_SomeD)
qed

text \<open>C30: \<^verbatim>\<open>ApplyModelDownloadToPreset\<close> either leaves all presets as they are, or it replaces exactly the named, existing preset by its values
  with the target of the download as model and without a models directory; and that only when the download is completed, the call is no
  preview and no other mutation was at work. Whatever the router, the file system and the downloader do.\<close>

theorem apply_download_effect:
  assumes "sv_manager s = assembled fuel c dir path m" "sv_downloader s = Some dl"
    and "quiet (preset_view path) (plain_ok path cfg) (dn_get dl ident)"
    and "\<forall>f. mg_audit m = Some f \<longrightarrow> (\<forall>x w. preset_view path (f x w) = preset_view path w)"
    and "trim_space preset = preset" "plain_ok path cfg (ct_world st)" "rpc_apply_download s ident preset preview st = (r, st')"
  shows "preset_view path (ct_world st') = preset_view path (ct_world st) \<or>
     (\<exists>job st1 sec v vals. dn_get dl ident st = (Inr job, st1) \<and> (job_state job = DlCompleted \<or> job_state job = DlAlreadyDownloaded) \<and>
        \<not> preview \<and> \<not> ct_busy st \<and> preset_view path (ct_world st) = Some v \<and> v preset = Some (sec_map sec) \<and>
        canonical_values [] (sec_values (apply_download job sec)) = Inr vals \<and>
        preset_view path (ct_world st') = Some (v(preset \<mapsto> stored_map vals)) \<and>
        stored_map vals ''model'' = Some (stored_value (job_target job)))"
proof -
  have d: "completed_download job = None \<longleftrightarrow> job_state job = DlCompleted \<or> job_state job = DlAlreadyDownloaded" for job
    by (simp add: completed_download_def)
  have mo: "stored_map vals ''model'' = Some (stored_value (job_target job))"
    if "canonical_values [] (sec_values (apply_download job sec)) = Inr vals" for vals job sec
    using canonical_values_model [OF that, of "job_target job"] apply_download_model [of job sec] by (simp add: stored_map_def)
  have a: "mg_audit (assembled fuel c dir path m) = mg_audit m" by (simp add: assembled_def)
  have "preset_view path (ct_world st') = preset_view path (ct_world st) \<or>
     (\<exists>job st1 sec v vals. dn_get dl ident st = (Inr job, st1) \<and> completed_download job = None \<and> \<not> preview \<and> \<not> ct_busy st \<and>
        preset_view path (ct_world st) = Some v \<and> v preset = Some (sec_map sec) \<and>
        canonical_values [] (sec_values (apply_download job sec)) = Inr vals \<and>
        preset_view path (ct_world st') = Some (v(preset \<mapsto> stored_map vals)))"
    by (rule assembled.apply_download_outcome [OF assms(1,2,3) _ assms(5,6,7)]) (simp add: a assms(4))
  then show ?thesis
  proof (elim disjE exE conjE)
    fix job st1 sec v vals
    assume "dn_get dl ident st = (Inr job, st1)" "completed_download job = None" "\<not> preview" "\<not> ct_busy st"
      "preset_view path (ct_world st) = Some v" "v preset = Some (sec_map sec)"
      "preset_view path (ct_world st') = Some (v(preset \<mapsto> stored_map vals))"
      and c: "canonical_values [] (sec_values (apply_download job sec)) = Inr vals"
    with d [THEN iffD1] mo [OF c] show ?thesis by - (rule disjI2, intro exI conjI)
  qed (rule disjI1)
qed

definition demo_job :: dl_job where
  "demo_job =
     \<lparr>job_id = ''1'', job_state = DlCompleted, job_url = ''u'', job_filename = ''b.gguf'', job_target = ''/m/b.gguf'', job_received = 1,
      job_total = 1, job_percent = PercentFull, job_error = None, job_started = [], job_completed = []\<rparr>"

definition apply_service :: "unit server_os_ext machine_ext service" where
  "apply_service =
     demo_service\<lparr>sv_downloader := Some \<lparr>dn_start = (\<lambda>_. retE demo_job), dn_get = (\<lambda>_. retE demo_job), dn_cancel = (\<lambda>_. retE demo_job)\<rparr>\<rparr>"

definition demo_apply :: "(connect_error + mutation_response) \<times> server_os control" where
  "demo_apply = rpc_apply_download apply_service ''1'' ''foo'' False \<lparr>ct_busy = False, ct_world = demo_server_os\<rparr>"

theorem apply_download_effect_witness:
  "let st = \<lparr>ct_busy = False, ct_world = demo_server_os\<rparr>; st' = snd demo_apply in
   preset_view demo_path (ct_world st') = preset_view demo_path (ct_world st) \<or>
     (\<exists>job st1 sec v vals. retE demo_job st = (Inr job :: gerror + dl_job, st1) \<and>
        (job_state job = DlCompleted \<or> job_state job = DlAlreadyDownloaded) \<and>
        \<not> False \<and> \<not> ct_busy st \<and> preset_view demo_path (ct_world st) = Some v \<and> v ''foo'' = Some (sec_map sec) \<and>
        canonical_values [] (sec_values (apply_download job sec)) = Inr vals \<and>
        preset_view demo_path (ct_world st') = Some (v(''foo'' \<mapsto> stored_map vals)) \<and>
        stored_map vals ''model'' = Some (stored_value (job_target job)))"
proof -
  let ?dl = "\<lparr>dn_start = (\<lambda>_. retE demo_job), dn_get = (\<lambda>_. retE demo_job), dn_cancel = (\<lambda>_. retE demo_job)\<rparr>"
  have s: "sv_manager apply_service = assembled 5 demo_client ''/c'' demo_path demo_manager" "sv_downloader apply_service = Some ?dl"
    by (simp_all add: apply_service_def demo_service_def demo_assembled [symmetric])
  have q: "quiet (preset_view demo_path) (plain_ok demo_path demo_server_config) (dn_get ?dl ''1'')"
    unfolding downloader.simps by (rule inert_ret)
  have a: "\<forall>f. mg_audit demo_manager = Some f \<longrightarrow> (\<forall>x w. preset_view demo_path (f x w) = preset_view demo_path w)"
    by (simp add: demo_manager_def assembled_def)
  have t: "trim_space ''foo'' = ''foo''" by code_simp
  have p: "plain_ok demo_path demo_server_config (ct_world \<lparr>ct_busy = False, ct_world = demo_server_os\<rparr>)"
    using demo_plain by simp
  have r: "rpc_apply_download apply_service ''1'' ''foo'' False \<lparr>ct_busy = False, ct_world = demo_server_os\<rparr> =
      (fst demo_apply, snd demo_apply)" by (simp add: demo_apply_def)
  show ?thesis unfolding Let_def
    using apply_download_effect [where s = apply_service and fuel = 5 and c = demo_client and dir = "''/c''" and path = demo_path
        and m = demo_manager and dl = ?dl and cfg = demo_server_config and ident = "''1''" and preset = "''foo''" and preview = False
        and st = "\<lparr>ct_busy = False, ct_world = demo_server_os\<rparr>" and r = "fst demo_apply" and st' = "snd demo_apply",
        OF s q a t p r]
    unfolding downloader.simps .
qed

end
