(* ===== verification/Gateway.thy ===== *)
theory Gateway
  imports RpcProps GoNet LogArchive
begin

section \<open>The HTTP gateway (\<^verbatim>\<open>adapters/public_http\<close>)\<close>

text \<open>
  A request is its method, the path in its decoded and its escaped form, the host and the headers and query values the gateway reads.
  \<open>gateway_action\<close> is what the guards, the multiplexer and the authorization make of it; \<open>gateway_serve\<close> carries it out on the state
  that the gateway shares with the control daemon: the world and, behind the socket, the service. The files of the web application and
  the MCP handler are reached, not modelled. The multiplexer is \<^verbatim>\<open>net/http\<close>'s, for the patterns of \<^verbatim>\<open>routes.go\<close>.
\<close>

record gateway_request =
  gq_method :: string
  gq_path :: string
  gq_escaped :: string
  gq_host :: string
  gq_tls :: bool
  gq_header :: "string \<Rightarrow> string"
  gq_query :: "string \<Rightarrow> string"
  gq_body :: string

subsection \<open>Origin and token (\<^verbatim>\<open>auth.go\<close>)\<close>

definition is_trusted_request_host :: "string \<Rightarrow> bool" where
  "is_trusted_request_host host \<longleftrightarrow>
     host = ''localhost'' \<or>
     (case parse_ip host of None \<Rightarrow> False | Some a \<Rightarrow> ip_loopback a \<or> ip_private a \<or> ip_link_local_unicast a)"

definition default_origin_port :: "string \<Rightarrow> string" where
  "default_origin_port scheme = (if scheme = ''https'' then ''443'' else ''80'')"

definition default_request_port :: "gateway_request \<Rightarrow> string" where
  "default_request_port r = (if gq_tls r \<or> gq_header r ''X-Forwarded-Proto'' = ''https'' then ''443'' else ''80'')"

definition strip_brackets :: "string \<Rightarrow> string" where
  "strip_brackets h = (if length h \<ge> 2 \<and> hd h = CHR ''['' \<and> last h = CHR '']'' then butlast (tl h) else h)"

definition same_origin_host :: "string \<Rightarrow> string \<Rightarrow> gateway_request \<Rightarrow> bool" where
  "same_origin_host origin request_host r =
     (case url_parse origin of
        Inl _ \<Rightarrow> False
      | Inr parsed \<Rightarrow>
          let origin_port = (if url_port parsed = [] then default_origin_port (url_scheme parsed) else url_port parsed);
              (host, port) = (case split_host_port request_host of Inr hp \<Rightarrow> hp | Inl _ \<Rightarrow> (request_host, default_request_port r));
              only_host = strip_brackets host
          in url_hostname parsed = only_host \<and> origin_port = port \<and> is_trusted_request_host only_host)"

definition origin_allowed :: "gateway_request \<Rightarrow> bool" where
  "origin_allowed r \<longleftrightarrow> gq_header r ''Origin'' = [] \<or> same_origin_host (gq_header r ''Origin'') (gq_host r) r"

definition bearer_token_matches :: "(string \<Rightarrow> string) \<Rightarrow> string \<Rightarrow> string \<Rightarrow> bool" where
  "bearer_token_matches sha auth_header token \<longleftrightarrow> token = [] \<or> sha auth_header = sha (''Bearer '' @ token)"

subsection \<open>The multiplexer\<close>

text \<open>\<^verbatim>\<open>cleanPath\<close>: the canonical path, its trailing slash kept.\<close>

definition clean_url_path :: "string \<Rightarrow> string" where
  "clean_url_path p =
     (if p = [] then [slash]
      else let q = (if hd p = slash then p else slash # p); np = clean q
           in if last q = slash \<and> np \<noteq> [slash] then np @ [slash] else np)"

definition unescape_segment :: "string \<Rightarrow> string" where
  "unescape_segment s = (case path_unescape s of Inl _ \<Rightarrow> s | Inr t \<Rightarrow> t)"

text \<open>The segments that the pattern tree is walked with; a final slash is a segment of its own.\<close>

function path_segments :: "string \<Rightarrow> string list" where
  "path_segments [] = []"
| "path_segments (c # cs) =
     (if cs = [] then [[slash]]
      else unescape_segment (takeWhile (\<lambda>x. x \<noteq> slash) cs) # path_segments (dropWhile (\<lambda>x. x \<noteq> slash) cs))"
  by pat_completeness auto
termination
  by (relation "measure length") (auto simp: length_dropWhile_le le_imp_less_Suc)

datatype route =
    RouteHealth | RouteInfo | RouteLogs | RouteArchives | RouteClear | RouteArchive string | RouteDelete string | RouteControl | RouteMcp

definition control_service_name :: string where "control_service_name = ''llamarig.control.v1.ControlService''"

text \<open>The patterns of \<^verbatim>\<open>routes\<close>. A \<^verbatim>\<open>GET\<close> pattern also takes \<^verbatim>\<open>HEAD\<close>.\<close>

definition match_route :: "string \<Rightarrow> string list \<Rightarrow> route option" where
  "match_route method segs =
     (let get = (method = ''GET'' \<or> method = ''HEAD''); del = (method = ''DELETE'') in
      if segs = [''health''] then (if get then Some RouteHealth else None)
      else if segs = [''info''] then (if get then Some RouteInfo else None)
      else if segs = [''api'', ''logs''] then (if get then Some RouteLogs else None)
      else if segs = [''api'', ''logs'', ''archives''] then (if get then Some RouteArchives else if del then Some RouteClear else None)
      else if take 3 segs = [''api'', ''logs'', ''archives''] \<and> length segs = 4 \<and> segs ! 3 \<noteq> [slash]
      then (if get then Some (RouteArchive (segs ! 3)) else if del then Some (RouteDelete (segs ! 3)) else None)
      else if segs = [''mcp''] then Some RouteMcp
      else if segs \<noteq> [] \<and> hd segs = control_service_name \<and> tl segs \<noteq> [] then Some RouteControl
      else None)"

definition methods_allowed :: "string list \<Rightarrow> bool" where
  "methods_allowed segs = list_ex (\<lambda>m. match_route m segs \<noteq> None) [''GET'', ''DELETE'']"

datatype mux_answer = MuxRoute route | MuxRedirect string | MuxStatus nat

text \<open>
  \<^verbatim>\<open>ServeMux\<close>: a path without its final slash is redirected to the one pattern that ends in one; every other path that is not
  canonical is redirected too, unless the method is \<^verbatim>\<open>CONNECT\<close>.
\<close>

definition serve_mux :: "gateway_request \<Rightarrow> mux_answer" where
  "serve_mux r =
     (if gq_path r = ''*'' then MuxStatus 400
      else
        let connect = (gq_method r = ''CONNECT'');
            path = (if connect then gq_escaped r else clean_url_path (gq_escaped r));
            segs = path_segments path in
        case match_route (gq_method r) segs of
          Some rt \<Rightarrow> if path \<noteq> gq_escaped r then MuxRedirect path else MuxRoute rt
        | None \<Rightarrow>
            if segs = [control_service_name] then MuxRedirect (clean_url_path (gq_path r) @ [slash])
            else if path \<noteq> gq_escaped r then MuxRedirect path
            else MuxStatus (if methods_allowed segs then 405 else 404))"

subsection \<open>Routes and their authorization (\<^verbatim>\<open>routes.go\<close>, \<^verbatim>\<open>server.go\<close>)\<close>

definition procedure_path :: "string \<Rightarrow> string" where
  "procedure_path name = slash # control_service_name @ slash # name"

definition public_procedures :: "string list" where
  "public_procedures =
     [''Health'', ''GetInfo'', ''GetRuntimeStatus'', ''GetSignals'', ''ListEvents'', ''WatchEvents'', ''ListPresets'', ''GetPreset'',
      ''ListModelCatalog'', ''ListLocalModels'', ''WatchModelCatalog'', ''GetModelDownload'']"

definition public_control_procedure :: "string \<Rightarrow> bool" where
  "public_control_procedure path \<longleftrightarrow> path \<in> procedure_path ` set public_procedures"

record 'z gateway =
  gw_token :: string
  gw_app :: bool
  gw_disable_origin_check :: bool
  gw_service :: "'z service"
  gw_socket_error :: "gerror option"
  gw_link :: "'z os_scheme \<Rightarrow> gerror option"
  gw_decode :: "string \<Rightarrow> string \<Rightarrow> unary_call option"
  gw_env :: host_env
  gw_clock :: log_clock
  gw_names :: "'z os_scheme \<Rightarrow> string list"

datatype gw_action =
    RefuseOrigin | RefuseToken | ServeApp | Redirect string | HttpStatus nat
  | DoHealth | DoInfo | DoLogs | DoArchives | DoClear | DoArchive string | DoDelete string | DoControl | DoMcp

definition app_takes :: "gateway_request \<Rightarrow> bool" where
  "app_takes r \<longleftrightarrow> gq_method r = ''GET'' \<and> gq_path r \<noteq> ''/health'' \<and> gq_path r \<noteq> ''/info'' \<and> gq_path r \<noteq> ''/mcp'' \<and>
     gq_path r \<noteq> ''/api'' \<and> \<not> has_prefix (gq_path r) ''/api/''"

definition require_auth :: "(string \<Rightarrow> string) \<Rightarrow> string \<Rightarrow> gateway_request \<Rightarrow> gw_action \<Rightarrow> gw_action" where
  "require_auth sha token r next_action =
     (if bearer_token_matches sha (gq_header r ''Authorization'') token then next_action else RefuseToken)"

definition control_rpc_auth :: "(string \<Rightarrow> string) \<Rightarrow> string \<Rightarrow> gateway_request \<Rightarrow> gw_action" where
  "control_rpc_auth sha token r =
     (if public_control_procedure (gq_path r) \<or> bearer_token_matches sha (gq_header r ''Authorization'') token
      then DoControl else RefuseToken)"

definition route_action :: "(string \<Rightarrow> string) \<Rightarrow> string \<Rightarrow> gateway_request \<Rightarrow> route \<Rightarrow> gw_action" where
  "route_action sha token r rt =
     (case rt of
        RouteHealth \<Rightarrow> DoHealth
      | RouteInfo \<Rightarrow> DoInfo
      | RouteLogs \<Rightarrow> require_auth sha token r DoLogs
      | RouteArchives \<Rightarrow> require_auth sha token r DoArchives
      | RouteClear \<Rightarrow> require_auth sha token r DoClear
      | RouteArchive i \<Rightarrow> require_auth sha token r (DoArchive i)
      | RouteDelete i \<Rightarrow> require_auth sha token r (DoDelete i)
      | RouteControl \<Rightarrow> control_rpc_auth sha token r
      | RouteMcp \<Rightarrow> if token \<noteq> [] then require_auth sha token r DoMcp else DoMcp)"

definition gateway_action :: "(string \<Rightarrow> string) \<Rightarrow> 'z gateway \<Rightarrow> gateway_request \<Rightarrow> gw_action" where
  "gateway_action sha g r =
     (if \<not> gw_disable_origin_check g \<and> \<not> origin_allowed r then RefuseOrigin
      else if gw_app g \<and> app_takes r then ServeApp
      else case serve_mux r of
             MuxRoute rt \<Rightarrow> route_action sha (gw_token g) r rt
           | MuxRedirect p \<Rightarrow> Redirect p
           | MuxStatus n \<Rightarrow> HttpStatus n)"

subsection \<open>Answers (\<^verbatim>\<open>request_response.go\<close>, \<^verbatim>\<open>runtime_routes.go\<close>, \<^verbatim>\<open>logs_routes.go\<close>)\<close>

text \<open>
  \<open>gw_socket_error\<close> is why the socket path cannot be resolved (then the gateway has no client), \<open>gw_link\<close> why the daemon cannot be reached,
  \<open>gw_service\<close> the service behind the socket; \<open>gw_decode\<close> unmarshals the body of a request to a procedure.
\<close>

datatype gateway_reply =
    ErrorReply "error_kind option" msg
  | PlainReply nat string
  | HealthReply string
  | InfoReply info_response
  | LogsReply string string
  | ArchivesReply "(string \<times> string \<times> nat \<times> int) list"
  | TextReply string
  | DeletedReply nat
  | CallReply "connect_error + unit"
  | StreamReply string
  | UnknownProcedure
  | AppReply
  | McpReply
  | RedirectReply string

fun http_status_for_kind :: "error_kind option \<Rightarrow> nat" where
  "http_status_for_kind (Some ErrorInvalidInput) = 400"
| "http_status_for_kind (Some ErrorPermission) = 403"
| "http_status_for_kind (Some ErrorNotFound) = 404"
| "http_status_for_kind (Some ErrorConflict) = 409"
| "http_status_for_kind (Some ErrorTimeout) = 504"
| "http_status_for_kind (Some ErrorRuntime) = 502"
| "http_status_for_kind _ = 500"

definition write_core_error :: "gerror \<Rightarrow> gateway_reply" where
  "write_core_error err = ErrorReply (core_kind (Some err)) (core_message (Some err))"

definition write_rpc_error :: "call_error \<Rightarrow> gateway_reply" where
  "write_rpc_error err =
     ErrorReply (error_kind_from_rpc err) [case err of Connect e \<Rightarrow> TextOf (ce_cause e) | Transport e \<Rightarrow> TextOf e]"

definition log_source :: "string \<Rightarrow> (string \<times> string) option" where
  "log_source source =
     (if source = [] \<or> source = ''control'' \<or> source = ''llamarig'' then Some (''llamarig'', ''control'')
      else if source = ''gateway'' then Some (''gateway'', ''gateway'') else None)"

definition default_tail_lines :: int where "default_tail_lines = 500"

definition log_lines :: "string \<Rightarrow> int option" where
  "log_lines raw =
     (if raw = [] then Some default_tail_lines
      else case parse_int raw of
             None \<Rightarrow> None
           | Some n \<Rightarrow> if n \<ge> 1 \<and> n \<le> int max_tail_lines then Some n else None)"

definition bad_log_lines :: gateway_reply where
  "bad_log_lines = write_core_error (core_errorf ErrorInvalidInput [Lit ''log lines must be between 1 and '', Num (int max_tail_lines)])"

definition write_log_archive_error :: "string \<Rightarrow> gerror \<Rightarrow> gateway_reply" where
  "write_log_archive_error action err =
     write_core_error
       (if errors_is err OsNotExist then core_errorf ErrorNotFound [Lit action, Lit '': '', TextOf err]
        else core_error ErrorRuntime [Lit action] (Some err))"

text \<open>A handler that fails with its reply already written: both sides of the sum are replies.\<close>

definition reply_of :: "('z os_scheme, gateway_reply, gateway_reply) eff \<Rightarrow> 'z os_scheme control \<Rightarrow> gateway_reply \<times> 'z os_scheme control" where
  "reply_of m c = (case m (ct_world c) of (r, w) \<Rightarrow> (case_sum id id r, c\<lparr>ct_world := w\<rparr>))"

definition daemon_logs :: "'z gateway \<Rightarrow> gateway_request \<Rightarrow> ('z os_scheme, gateway_reply, gateway_reply) eff" where
  "daemon_logs g r =
     (case log_source (gq_query r ''source'') of
        None \<Rightarrow> failE (write_core_error (core_errorf ErrorInvalidInput [Lit ''log source must be control or gateway'']))
      | Some (name, source) \<Rightarrow>
          (case log_lines (gq_query r ''lines'') of
             None \<Rightarrow> failE bad_log_lines
           | Some n \<Rightarrow>
               tryE (tail_log_lines (gw_env g) name n)
                 (\<lambda>err. failE (write_core_error (core_error ErrorRuntime [Lit ''read daemon log''] (Some err))))
                 (\<lambda>txt. retE (LogsReply source txt))))"

definition log_archives :: "'z gateway \<Rightarrow> ('z os_scheme, gateway_reply, gateway_reply) eff" where
  "log_archives g w =
     tryE (list_archives (gw_env g) (gw_clock g) (gw_names g w))
       (\<lambda>err. failE (write_core_error (core_error ErrorRuntime [Lit ''list log archives''] (Some err))))
       (\<lambda>archives. retE (ArchivesReply (List.map_filter
          (\<lambda>a. map_option (\<lambda>(_, source). (ar_id a, source, ar_size_bytes a, ar_archived_at a)) (log_source (ar_service a))) archives))) w"

definition log_archive :: "'z gateway \<Rightarrow> gateway_request \<Rightarrow> string \<Rightarrow> ('z os_scheme, gateway_reply, gateway_reply) eff" where
  "log_archive g r ident =
     (case log_lines (gq_query r ''lines'') of
        None \<Rightarrow> failE bad_log_lines
      | Some n \<Rightarrow>
          tryE (tail_archive (gw_env g) ident n) (\<lambda>err. failE (write_log_archive_error ''read log archive'' err)) (\<lambda>txt. retE (TextReply txt)))"

definition log_archive_delete :: "'z gateway \<Rightarrow> string \<Rightarrow> ('z os_scheme, gateway_reply, gateway_reply) eff" where
  "log_archive_delete g ident =
     tryE (delete_archive (gw_env g) ident) (\<lambda>err. failE (write_log_archive_error ''delete log archive'' err)) (\<lambda>_. retE (DeletedReply 1))"

definition log_archives_clear :: "'z gateway \<Rightarrow> ('z os_scheme, gateway_reply, gateway_reply) eff" where
  "log_archives_clear g w =
     (let bad = (\<lambda>err. failE (write_core_error (core_error ErrorRuntime [Lit ''clear log archives''] (Some err)))) in
      tryE (clear_archives (gw_env g) (gw_clock g) (gw_names g w)) bad
        (\<lambda>(deleted, err). case err of Some e \<Rightarrow> bad e | None \<Rightarrow> retE (DeletedReply deleted))) w"

text \<open>A unary call of the gateway's own client.\<close>

definition client_call ::
  "'z gateway \<Rightarrow> ('z, 'a) rpc \<Rightarrow> ('a \<Rightarrow> gateway_reply) \<Rightarrow> 'z os_scheme control \<Rightarrow> gateway_reply \<times> 'z os_scheme control" where
  "client_call g procedure map_response c =
     (case gw_link g (ct_world c) of
        Some err \<Rightarrow> (write_rpc_error (Connect \<lparr>ce_code = CodeUnavailable, ce_kind = None, ce_cause = err\<rparr>), c)
      | None \<Rightarrow> (case procedure c of
                   (Inl err, c') \<Rightarrow> (write_rpc_error (Connect err), c')
                 | (Inr x, c') \<Rightarrow> (map_response x, c')))"

definition health :: "'z gateway \<Rightarrow> 'z os_scheme control \<Rightarrow> gateway_reply \<times> 'z os_scheme control" where
  "health g c =
     (if gw_socket_error g \<noteq> None then (HealthReply (service_name []), c)
      else client_call g (rpc_health (gw_service g)) HealthReply c)"

definition info :: "'z gateway \<Rightarrow> 'z os_scheme control \<Rightarrow> gateway_reply \<times> 'z os_scheme control" where
  "info g c =
     (if gw_socket_error g \<noteq> None then (PlainReply 503 ''internal control service not available'', c)
      else client_call g (rpc_get_info (gw_service g)) InfoReply c)"

text \<open>The proxy to the daemon, and the dispatch of its handler by the path.\<close>

definition stream_procedures :: "string list" where "stream_procedures = [''WatchEvents'', ''WatchModelCatalog'']"

definition control_dispatch ::
  "'z gateway \<Rightarrow> string \<Rightarrow> string \<Rightarrow> 'z os_scheme control \<Rightarrow> gateway_reply \<times> 'z os_scheme control" where
  "control_dispatch g path body c =
     (if path \<in> procedure_path ` set stream_procedures then (StreamReply path, c)
      else case gw_decode g path body of
             None \<Rightarrow> (UnknownProcedure, c)
           | Some call \<Rightarrow>
               if path \<noteq> procedure_path (procedure_name call) then (UnknownProcedure, c)
               else (case run_call (gw_service g) call c of (x, c') \<Rightarrow> (CallReply x, c')))"

definition internal_rpc :: "'z gateway \<Rightarrow> gateway_request \<Rightarrow> 'z os_scheme control \<Rightarrow> gateway_reply \<times> 'z os_scheme control" where
  "internal_rpc g r c =
     (case gw_socket_error g of
        Some err \<Rightarrow> (write_core_error (core_error ErrorRuntime [Lit ''configure control rpc proxy''] (Some err)), c)
      | None \<Rightarrow>
          (case gw_link g (ct_world c) of
             Some err \<Rightarrow> (write_core_error (core_error ErrorRuntime [Lit ''proxy control rpc''] (Some err)), c)
           | None \<Rightarrow> control_dispatch g (gq_path r) (gq_body r) c))"

definition perform :: "'z gateway \<Rightarrow> gateway_request \<Rightarrow> gw_action \<Rightarrow> 'z os_scheme control \<Rightarrow> gateway_reply \<times> 'z os_scheme control" where
  "perform g r a c =
     (case a of
        RefuseOrigin \<Rightarrow> (write_core_error (core_errorf ErrorPermission [Lit ''origin is not allowed'']), c)
      | RefuseToken \<Rightarrow> (write_core_error (core_errorf ErrorPermission [Lit ''authorization required'']), c)
      | ServeApp \<Rightarrow> (AppReply, c)
      | Redirect p \<Rightarrow> (RedirectReply p, c)
      | HttpStatus n \<Rightarrow> (PlainReply n [], c)
      | DoHealth \<Rightarrow> health g c
      | DoInfo \<Rightarrow> info g c
      | DoLogs \<Rightarrow> reply_of (daemon_logs g r) c
      | DoArchives \<Rightarrow> reply_of (log_archives g) c
      | DoClear \<Rightarrow> reply_of (log_archives_clear g) c
      | DoArchive i \<Rightarrow> reply_of (log_archive g r i) c
      | DoDelete i \<Rightarrow> reply_of (log_archive_delete g i) c
      | DoControl \<Rightarrow> internal_rpc g r c
      | DoMcp \<Rightarrow> (McpReply, c))"

definition gateway_serve :: "'z gateway \<Rightarrow> gateway_request \<Rightarrow> 'z os_scheme control \<Rightarrow> gateway_reply \<times> 'z os_scheme control" where
  "gateway_serve g r c = perform g r (gateway_action (os_sha (ct_world c)) g r) c"

end
