(* ===== verification/GatewayProps.thy ===== *)
theory GatewayProps
  imports Gateway ServiceProps
begin

section \<open>Properties of the gateway\<close>

text \<open>
  Who gets past the guards, and what a request without the token can reach and change.
\<close>

subsection \<open>The token\<close>

text \<open>No header but the expected one has its digest.\<close>

definition no_collision :: "(string \<Rightarrow> string) \<Rightarrow> string \<Rightarrow> bool" where
  "no_collision sha s \<longleftrightarrow> (\<forall>t. sha t = sha s \<longrightarrow> t = s)"

definition anonymous :: "gateway_request \<Rightarrow> 'z gateway \<Rightarrow> bool" where
  "anonymous r g \<longleftrightarrow> gw_token g \<noteq> [] \<and> gq_header r ''Authorization'' \<noteq> ''Bearer '' @ gw_token g"

definition open_action :: "gateway_request \<Rightarrow> gw_action \<Rightarrow> bool" where
  "open_action r a \<longleftrightarrow>
     (case a of
        RefuseOrigin \<Rightarrow> True | RefuseToken \<Rightarrow> True | ServeApp \<Rightarrow> True | Redirect p \<Rightarrow> True | HttpStatus n \<Rightarrow> True
      | DoHealth \<Rightarrow> True | DoInfo \<Rightarrow> True
      | DoControl \<Rightarrow> gq_path r \<in> procedure_path ` set public_procedures
      | _ \<Rightarrow> False)"

lemma anonymous_no_match:
  "anonymous r g \<Longrightarrow> no_collision sha (''Bearer '' @ gw_token g) \<Longrightarrow>
     \<not> bearer_token_matches sha (gq_header r ''Authorization'') (gw_token g)"
  by (auto simp: anonymous_def no_collision_def bearer_token_matches_def)

lemma anonymous_open_action:
  assumes "anonymous r g" "no_collision sha (''Bearer '' @ gw_token g)"
  shows "open_action r (gateway_action sha g r)"
proof -
  have "open_action r (route_action sha (gw_token g) r rt)" for rt
    using anonymous_no_match [OF assms] assms(1)
    by (cases rt) (auto simp: open_action_def route_action_def require_auth_def control_rpc_auth_def public_control_procedure_def anonymous_def)
  then show ?thesis by (auto simp: gateway_action_def open_action_def split: mux_answer.split)
qed

text \<open>What the open actions do to the state that the gateway shares with the daemon: they read.\<close>

lemma procedure_path_inj: "procedure_path a = procedure_path b \<longleftrightarrow> a = b"
  by (simp add: procedure_path_def)

lemma public_reads:
  "p \<in> set public_procedures \<Longrightarrow> p \<notin> set stream_procedures \<Longrightarrow> p \<in> set read_procedures"
  by (auto simp: public_procedures_def stream_procedures_def read_procedures_def)

lemma client_call_keeps:
  assumes "quiet view ok procedure" "control_ok ok c" "client_call g procedure f c = (x, c')"
  shows "control_view view c' = control_view view c"
proof (cases "gw_link g (ct_world c)")
  case None
  obtain y c1 where y: "procedure c = (y, c1)" by force
  with assms(3) None have "c' = c1" by (auto simp: client_call_def split: sum.splits)
  with inertD [OF assms(1,2) y] show ?thesis by simp
qed (use assms(3) in \<open>simp add: client_call_def\<close>)

lemma inert_voided_back:
  assumes "quiet view ok (voided m)"
  shows "quiet view ok m"
proof -
  have "snd (voided m c) = snd (m c)" for c
    by (auto simp: voided_def bindE_def split: prod.splits sum.splits)
  with assms show ?thesis unfolding inert_def by (metis prod.collapse snd_conv)
qed

lemma perform_open_keeps:
  assumes calls: "\<And>call. procedure_name call \<in> set read_procedures \<Longrightarrow> quiet view ok (run_call (gw_service g) call)"
    and "control_ok ok c" "open_action r a" "perform g r a c = (x, c')"
  shows "control_view view c' = control_view view c"
proof -
  have h: "quiet view ok (rpc_health (gw_service g))" "quiet view ok (rpc_get_info (gw_service g))"
    using calls [of CallHealth] calls [of CallGetInfo] by (auto simp: read_procedures_def intro: inert_voided_back)
  show ?thesis
  proof (cases a)
    case DoHealth
    with assms(4) client_call_keeps [OF h(1) assms(2)] show ?thesis by (auto simp: perform_def health_def split: if_splits)
  next
    case DoInfo
    with assms(4) client_call_keeps [OF h(2) assms(2)] show ?thesis by (auto simp: perform_def info_def split: if_splits)
  next
    case DoControl
    with assms(3) have p: "gq_path r \<in> procedure_path ` set public_procedures" by (simp add: open_action_def)
    have run: "internal_rpc g r c = (x, c')" using assms(4) DoControl by (simp add: perform_def)
    show ?thesis
    proof (cases "\<exists>call. gq_path r = procedure_path (procedure_name call) \<and> gq_path r \<notin> procedure_path ` set stream_procedures \<and>
        c' = snd (run_call (gw_service g) call c)")
      case True
      then obtain call where call: "gq_path r = procedure_path (procedure_name call)" "gq_path r \<notin> procedure_path ` set stream_procedures"
        "c' = snd (run_call (gw_service g) call c)" by auto
      with p have "procedure_name call \<in> set read_procedures"
        by (auto simp: procedure_path_inj image_iff intro!: public_reads)
      from inertD [OF calls [OF this] assms(2), of "fst (run_call (gw_service g) call c)" c'] call(3) show ?thesis by simp
    next
      case False
      with run have "c' = c"
        by (auto simp: internal_rpc_def control_dispatch_def split: option.splits if_splits prod.splits)
      then show ?thesis by simp
    qed
  qed (use assms(3,4) in \<open>auto simp: perform_def open_action_def\<close>)
qed

text \<open>C26: Without the token a request reaches the web application, health, information and the procedures of the allowlist, and nothing else:
  whatever the request, the gateway refuses it, redirects it, answers with an error of the multiplexer, or serves one of these.\<close>

theorem anonymous_reaches_allowlist:
  assumes "gw_token g \<noteq> []" "gq_header r ''Authorization'' \<noteq> ''Bearer '' @ gw_token g"
    and "no_collision sha (''Bearer '' @ gw_token g)"
  shows "gateway_action sha g r \<in> {RefuseOrigin, RefuseToken, ServeApp, DoHealth, DoInfo} \<union> range Redirect \<union> range HttpStatus \<or>
     gateway_action sha g r = DoControl \<and> gq_path r \<in> procedure_path ` set public_procedures"
proof -
  have "open_action r (gateway_action sha g r)"
    by (rule anonymous_open_action) (use assms in \<open>auto simp: anonymous_def\<close>)
  then show ?thesis by (cases "gateway_action sha g r") (auto simp: open_action_def)
qed


definition demo_gateway :: "unit server_os_ext machine_ext gateway" where
  "demo_gateway =
     \<lparr>gw_token = ''secret'', gw_app = True, gw_disable_origin_check = False, gw_service = demo_service, gw_socket_error = None,
      gw_link = (\<lambda>_. None), gw_decode = (\<lambda>_ _. Some CallListPresets), gw_env = demo_home, gw_clock = demo_clock, gw_names = (\<lambda>_. [])\<rparr>"

definition demo_request :: "string \<Rightarrow> string \<Rightarrow> (string \<Rightarrow> string) \<Rightarrow> gateway_request" where
  "demo_request method path header =
     \<lparr>gq_method = method, gq_path = path, gq_escaped = path, gq_host = ''127.0.0.1:7105'', gq_tls = False, gq_header = header,
      gq_query = (\<lambda>_. []), gq_body = []\<rparr>"

theorem anonymous_reaches_allowlist_witness:
  "let a = gateway_action (\<lambda>s. s) demo_gateway (demo_request ''POST'' (procedure_path ''PutPreset'') (\<lambda>_. [])) in
   a \<in> {RefuseOrigin, RefuseToken, ServeApp, DoHealth, DoInfo} \<union> range Redirect \<union> range HttpStatus \<or>
   a = DoControl \<and> gq_path (demo_request ''POST'' (procedure_path ''PutPreset'') (\<lambda>_. [])) \<in> procedure_path ` set public_procedures"
  unfolding Let_def
  by (rule anonymous_reaches_allowlist) (simp_all add: demo_gateway_def demo_request_def no_collision_def)


subsection \<open>The origin\<close>


definition browser_request :: gateway_request where
  "browser_request = demo_request ''POST'' ''/mcp'' ((\<lambda>_. [])(''Origin'' := ''http://127.0.0.1:7105''))"


subsection \<open>The log routes\<close>

lemma newlines_join:
  "(\<And>l. l \<in> set ls \<Longrightarrow> newline \<notin> set l) \<Longrightarrow> newlines_in (join_with newline ls) = length ls - 1"
proof (induction ls rule: induct_list012)
  case (3 l v va)
  have one: "newlines_in (newline # s) = Suc (newlines_in s)" for s by (simp add: newlines_in_def)
  have none: "newlines_in l = 0" if "newline \<notin> set l" for l using that by (auto simp: newlines_in_def filter_empty_conv)
  with 3 one show ?case by (simp add: none)
qed (auto simp: newlines_in_def filter_empty_conv)

lemma format_tail_bounded: "newlines_in (format_tail d n) \<le> n"
proof -
  let ?shown = "drop (length (parts_of d) - n) (parts_of d)"
  have "newline \<notin> set l" if "l \<in> set (parts_of d)" for l
    using that by (auto simp: parts_of_def split: if_splits dest!: in_set_butlastD split_on_parts)
  then have j: "newlines_in (join_with newline ?shown) = length ?shown - 1"
    by (intro newlines_join) (auto dest: in_set_dropD)
  have "length ?shown \<le> n" by simp
  moreover have "join_with newline ?shown = []" if "?shown = []" using that by simp
  ultimately show ?thesis using j
    by (cases "?shown = []") (auto simp: format_tail_parts Let_def newlines_in_def)
qed

lemma tail_file_bounded: "tail_file_lines path n w = (Inr txt, w') \<Longrightarrow> newlines_in txt \<le> max_tail_lines"
  by (auto simp: tail_file_lines_def tryE_def bindE_def tail_lines_def split: if_splits prod.splits sum.splits
      intro: order_trans [OF format_tail_bounded])

lemma log_lines_range: "log_lines raw = Some n \<Longrightarrow> 1 \<le> n \<and> n \<le> int max_tail_lines"
  by (auto simp: log_lines_def default_tail_lines_def max_tail_lines_def split: if_splits option.splits)

lemma write_core_error_no_text [simp]: "write_core_error e \<noteq> LogsReply a b" "write_core_error e \<noteq> TextReply b"
  by (simp_all add: write_core_error_def)

text \<open>The replies that carry the text of a log come from the two routes that read one, and their text is a bounded tail.\<close>

definition log_text :: "gateway_reply \<Rightarrow> string option" where
  "log_text x = (case x of LogsReply _ txt \<Rightarrow> Some txt | TextReply txt \<Rightarrow> Some txt | _ \<Rightarrow> None)"

lemma log_text_core [simp]: "log_text (write_core_error e) = None"
  by (simp add: log_text_def write_core_error_def)

lemma log_text_simps [simp]: "log_text (LogsReply a b) = Some b" "log_text (TextReply b) = Some b"
  by (simp_all add: log_text_def)

lemma daemon_logs_text: "reply_of (daemon_logs g r) c = (x, c') \<Longrightarrow> log_text x = Some txt \<Longrightarrow> newlines_in txt \<le> max_tail_lines"
  by (auto simp: reply_of_def daemon_logs_def tail_log_lines_def bad_log_lines_def tryE_def lift_err_def bindE_def
      split: option.splits prod.splits sum.splits if_splits dest: tail_file_bounded)

lemma log_archive_text: "reply_of (log_archive g r i) c = (x, c') \<Longrightarrow> log_text x = Some txt \<Longrightarrow> newlines_in txt \<le> max_tail_lines"
  by (auto simp: reply_of_def log_archive_def tail_archive_def bad_log_lines_def write_log_archive_error_def tryE_def bindE_def
      split: option.splits prod.splits sum.splits if_splits dest: tail_file_bounded)

lemma other_no_text:
  assumes "perform g r a c = (x, c')" "log_text x = Some txt"
  shows "(a = DoLogs \<or> (\<exists>i. a = DoArchive i)) \<and> newlines_in txt \<le> max_tail_lines"
proof (cases a)
  case DoHealth
  with assms show ?thesis
    by (auto simp: perform_def health_def client_call_def write_rpc_error_def log_text_def split: option.splits prod.splits sum.splits if_splits)
next
  case DoInfo
  with assms show ?thesis
    by (auto simp: perform_def info_def client_call_def write_rpc_error_def log_text_def split: option.splits prod.splits sum.splits if_splits)
next
  case DoControl
  with assms show ?thesis
    by (auto simp: perform_def internal_rpc_def control_dispatch_def write_core_error_def log_text_def split: option.splits prod.splits sum.splits if_splits)
next
  case DoArchives
  with assms show ?thesis
    by (auto simp: perform_def reply_of_def log_archives_def tryE_def write_core_error_def log_text_def split: option.splits prod.splits sum.splits if_splits)
next
  case DoClear
  with assms show ?thesis
    by (auto simp: perform_def reply_of_def log_archives_clear_def Let_def tryE_def write_core_error_def log_text_def split: option.splits prod.splits sum.splits if_splits)
next
  case (DoDelete i)
  with assms show ?thesis
    by (auto simp: perform_def reply_of_def log_archive_delete_def write_log_archive_error_def tryE_def write_core_error_def log_text_def split: option.splits prod.splits sum.splits if_splits)
next
  case DoLogs
  with assms daemon_logs_text show ?thesis by (auto simp: perform_def)
next
  case (DoArchive i)
  with assms log_archive_text show ?thesis by (auto simp: perform_def)
qed (use assms in \<open>auto simp: perform_def write_core_error_def log_text_def\<close>)

text \<open>The text of a log, running or archived, goes only to a request with the token (or to anyone when none is configured), and whatever the
  query asks for and however long the log is, it holds at most 5000 line ends.\<close>

theorem log_text_guarded:
  assumes "gateway_serve g r c = (x, c')" "log_text x = Some txt"
  shows "bearer_token_matches (os_sha (ct_world c)) (gq_header r ''Authorization'') (gw_token g) \<and> newlines_in txt \<le> 5000"
proof -
  let ?a = "gateway_action (os_sha (ct_world c)) g r"
  from other_no_text [OF assms(1) [unfolded gateway_serve_def] assms(2)]
  have a: "?a = DoLogs \<or> (\<exists>i. ?a = DoArchive i)" and n: "newlines_in txt \<le> 5000" by (auto simp: max_tail_lines_def)
  obtain rt where "?a = route_action (os_sha (ct_world c)) (gw_token g) r rt"
    using a by (auto simp: gateway_action_def split: if_splits mux_answer.splits)
  with a n show ?thesis
    by (cases rt) (auto simp: route_action_def require_auth_def control_rpc_auth_def split: if_splits)
qed

definition log_request :: "string \<Rightarrow> string \<Rightarrow> gateway_request" where
  "log_request method path = demo_request method path ((\<lambda>_. [])(''Authorization'' := ''Bearer secret''))"

definition demo_log_reply :: "gateway_reply \<times> server_os control" where
  "demo_log_reply = gateway_serve demo_gateway (log_request ''GET'' ''/api/logs'') \<lparr>ct_busy = False, ct_world = demo_server_os\<rparr>"

theorem log_text_guarded_witness:
  "bearer_token_matches (os_sha demo_server_os) (gq_header (log_request ''GET'' ''/api/logs'') ''Authorization'') (gw_token demo_gateway) \<and>
   newlines_in [] \<le> 5000"
proof -
  have t: "log_text (fst demo_log_reply) = Some []" by code_simp
  show ?thesis
    using log_text_guarded [OF _ t, of demo_gateway "log_request ''GET'' ''/api/logs''"
        "\<lparr>ct_busy = False, ct_world = demo_server_os\<rparr>" "snd demo_log_reply"]
    by (simp add: demo_log_reply_def)
qed

lemma stamp_no_slash:
  assumes "stamp_shape s" "j < 26"
  shows "s ! j \<noteq> slash"
proof -
  have d: "list_all (\<lambda>c. CHR ''0'' \<le> c \<and> c \<le> CHR ''9'') (take n (drop m s)) \<Longrightarrow> m \<le> j \<Longrightarrow> j < m + n \<Longrightarrow> m + n \<le> length s \<Longrightarrow> s ! j \<noteq> slash" for m n
    by (auto simp: list_all_length dest!: spec [of _ "j - m"])
  from assms show ?thesis using d [of 8 0] d [of 6 9] d [of 9 16]
    by (cases "j < 8"; cases "j = 8"; cases "j < 15"; cases "j = 15"; cases "j < 25"; cases "j = 25") (auto simp: stamp_shape_def)
qed

lemma archive_name_no_slash:
  assumes "archive_name_pattern i = Some (service, stamp)"
  shows "slash \<notin> set i"
proof
  assume "slash \<in> set i"
  then obtain j where j: "j < length i" "i ! j = slash" by (auto simp: in_set_conv_nth)
  define k where "k = length i - 31"
  have p: "32 \<le> length i" "list_all log_name_char (take k i)" "i ! k = CHR ''-''" "stamp_shape (take 26 (drop (k + 1) i))"
    "drop (k + 27) i = ''.log''"
    using assms by (auto simp: archive_name_pattern_def Let_def k_def split: if_splits)
  then have len: "length i = k + 31" by (simp add: k_def)
  consider "j < k" | "j = k" | "k < j" "j < k + 27" | "k + 27 \<le> j" by linarith
  then show False
  proof cases
    case 1
    then have "log_name_char (i ! j)" using p(2) len by (auto simp: list_all_length)
    with j show False by (simp add: log_name_char_def)
  next
    case 3
    then have "take 26 (drop (k + 1) i) ! (j - k - 1) = slash" using j len by simp
    with stamp_no_slash [OF p(4), of "j - k - 1"] 3 show False by simp
  next
    case 4
    then have "drop (k + 27) i ! (j - (k + 27)) = slash" using j len by simp
    moreover have "j - (k + 27) < 4" using 4 j(1) len by simp
    ultimately show False unfolding p(5) by (auto simp: less_Suc_eq numeral_eq_Suc)
  qed (use p(3) j in simp)
qed

definition log_action :: "gw_action \<Rightarrow> bool" where
  "log_action a \<longleftrightarrow> (case a of DoLogs \<Rightarrow> True | DoArchives \<Rightarrow> True | DoClear \<Rightarrow> True | DoArchive i \<Rightarrow> True | DoDelete i \<Rightarrow> True | _ \<Rightarrow> False)"

text \<open>What a log route may do to the files: nothing, or remove archives.\<close>

definition only_archives :: "string \<Rightarrow> (string \<Rightarrow> node option) \<Rightarrow> (string \<Rightarrow> node option) \<Rightarrow> bool" where
  "only_archives dir F F' \<longleftrightarrow>
     (\<forall>p. F' p \<noteq> F p \<longrightarrow> F' p = None \<and> (\<exists>i. archive_name_pattern i \<noteq> None \<and> p = join_path [dir, i]))"

lemma only_archives_refl [simp]: "only_archives dir F F"
  by (simp add: only_archives_def)

lemma delete_archive_only:
  assumes "get_archive_dir env = Inr dir" "delete_archive env i w = (r, w')"
  shows "only_archives dir (os_files w) (os_files w')"
proof (cases "archive_name_pattern i")
  case None
  then have "os_files w' = os_files w" using assms(2) by (auto simp: delete_archive_def archive_path_def tryE_def split: if_splits)
  then show ?thesis by simp
next
  case (Some x)
  then have "\<exists>j. archive_name_pattern j \<noteq> None \<and> join_path [dir, i] = join_path [dir, j]" by (intro exI [of _ i]) simp
  with delete_archive_files [OF assms] show ?thesis unfolding only_archives_def by (metis fun_upd_apply)
qed

lemma clear_archives_only:
  assumes "get_archive_dir env = Inr dir" "clear_archives env lk names w = (r, w')"
  shows "only_archives dir (os_files w) (os_files w')"
proof -
  obtain l w1 where l: "list_archives env lk names w = (l, w1)" by force
  note o = list_archives_outcome [OF assms(1) l]
  show ?thesis
  proof (cases l)
    case (Inl e)
    with assms(2) l o show ?thesis by (auto simp: clear_archives_def bindE_def)
  next
    case (Inr arcs)
    then have d: "delete_archives_loop env arcs 0 None w1 = (r, w')" using assms(2) l by (auto simp: clear_archives_def bindE_def delete_archives_def)
    have "\<exists>i. archive_name_pattern i \<noteq> None \<and> p = join_path [dir, i]" if "a \<in> set arcs" "p = join_path [dir, ar_id a]" for a p
      using o Inr that by fastforce
    then show ?thesis using delete_loop_files [OF assms(1) d] o by (fastforce simp: only_archives_def)
  qed
qed

lemma quiet_open: "os_open p w = (r, w') \<Longrightarrow> os_files w' = os_files w"
  by (auto simp: os_open_def os_call_def Let_def split: option.splits)

lemma quiet_read: "os_read_file p w = (r, w') \<Longrightarrow> os_files w' = os_files w"
  by (auto simp: os_read_file_def os_call_def Let_def split: option.splits)

lemma tail_file_files: "tail_file_lines p n w = (r, w') \<Longrightarrow> os_files w' = os_files w"
  by (auto simp: tail_file_lines_def tryE_def bindE_def split: if_splits prod.splits sum.splits dest!: quiet_open quiet_read)

lemma tail_archive_files:
  assumes "get_archive_dir env = Inr dir" "tail_archive env i n w = (r, w')"
  shows "os_files w' = os_files w"
  using assms(2) tail_file_files archive_path_outcome [OF assms(1)]
  by (fastforce simp: tail_archive_def bindE_def split: prod.splits sum.splits)

lemma log_action_files:
  assumes dir: "get_archive_dir (gw_env g) = Inr dir" and "log_action a" "perform g r a c = (x, c')"
  shows "only_archives dir (os_files (ct_world c)) (os_files (ct_world c')) \<and> ct_busy c' = ct_busy c"
proof (cases a)
  case DoLogs
  with assms(3) show ?thesis
    by (auto simp: perform_def reply_of_def daemon_logs_def tail_log_lines_def tryE_def lift_err_def bindE_def
        split: option.splits prod.splits sum.splits if_splits dest!: tail_file_files)
next
  case DoArchives
  with assms(3) show ?thesis
    by (auto simp: perform_def reply_of_def log_archives_def tryE_def split: prod.splits sum.splits dest!: list_archives_outcome [OF dir])
next
  case DoClear
  with assms(3) show ?thesis
    by (auto simp: perform_def reply_of_def log_archives_clear_def tryE_def Let_def split: prod.splits sum.splits option.splits
        dest!: clear_archives_only [OF dir])
next
  case (DoArchive i)
  with assms(3) show ?thesis
    by (auto simp: perform_def reply_of_def log_archive_def tryE_def split: option.splits prod.splits sum.splits
        dest!: tail_archive_files [OF dir])
next
  case (DoDelete i)
  with assms(3) show ?thesis
    by (auto simp: perform_def reply_of_def log_archive_delete_def tryE_def split: prod.splits sum.splits dest!: delete_archive_only [OF dir])
qed (use assms(2) in \<open>simp_all add: log_action_def\<close>)

text \<open>The log routes write nothing and delete only archives: when a request that one of them answers changes the node of a path, then that was a
  path directly in the archive directory whose name has the form of an archive and no separator, and it is gone. The busy flag of the
  manager is not touched.\<close>

theorem log_routes_delete_only_archives:
  assumes "get_archive_dir (gw_env g) = Inr dir" "log_action (gateway_action (os_sha (ct_world c)) g r)"
    and "gateway_serve g r c = (x, c')" "os_files (ct_world c') p \<noteq> os_files (ct_world c) p"
  shows "os_files (ct_world c') p = None \<and>
     (\<exists>i service stamp. p = join_path [dir, i] \<and> archive_name_pattern i = Some (service, stamp) \<and> slash \<notin> set i) \<and> ct_busy c' = ct_busy c"
proof -
  from log_action_files [OF assms(1,2) assms(3) [unfolded gateway_serve_def]]
  have "only_archives dir (os_files (ct_world c)) (os_files (ct_world c'))" "ct_busy c' = ct_busy c" by auto
  with assms(4) archive_name_no_slash show ?thesis by (force simp: only_archives_def)
qed

definition old_archive :: string where "old_archive = ''llamarig-20240102T030405.000000006Z.log''"

definition archive_os :: server_os where
  "archive_os = demo_server_os\<lparr>os_files := [''/h/logs/archive'' \<mapsto> DirNode 448, ''/h/logs/archive/'' @ old_archive \<mapsto> RegFile ''x'' 384]\<rparr>"

definition demo_delete :: "gateway_reply \<times> server_os control" where
  "demo_delete = gateway_serve demo_gateway (log_request ''DELETE'' (''/api/logs/archives/'' @ old_archive)) \<lparr>ct_busy = False, ct_world = archive_os\<rparr>"

theorem log_routes_delete_only_archives_witness:
  "\<exists>i service stamp. ''/h/logs/archive/'' @ old_archive = join_path [''/h/logs/archive'', i] \<and>
     archive_name_pattern i = Some (service, stamp) \<and> slash \<notin> set i"
proof -
  let ?r = "log_request ''DELETE'' (''/api/logs/archives/'' @ old_archive)" and ?c = "\<lparr>ct_busy = False, ct_world = archive_os\<rparr>"
  have d: "get_archive_dir (gw_env demo_gateway) = Inr ''/h/logs/archive''" by code_simp
  have a: "log_action (gateway_action (os_sha (ct_world ?c)) demo_gateway ?r)" by code_simp
  have s: "gateway_serve demo_gateway ?r ?c = (fst demo_delete, snd demo_delete)" by (simp add: demo_delete_def)
  have "os_files (ct_world (snd demo_delete)) (''/h/logs/archive/'' @ old_archive) = None" by code_simp
  then have p: "os_files (ct_world (snd demo_delete)) (''/h/logs/archive/'' @ old_archive) \<noteq> os_files (ct_world ?c) (''/h/logs/archive/'' @ old_archive)"
    by (simp add: archive_os_def)
  from log_routes_delete_only_archives [OF d a s p] show ?thesis by blast
qed

end
