(* ===== verification/Exposure.thy ===== *)
theory Exposure
  imports Config GoNet
begin

section \<open>What the configuration exposes (\<^verbatim>\<open>config.go\<close>, \<^verbatim>\<open>bootstrap/service.go\<close>)\<close>

text \<open>
  \<open>allows_non_loopback\<close> is \<^verbatim>\<open>Config.AllowsNonLoopback\<close> and \<open>warn_unsafe_security_config\<close> the warnings of the bootstrap. An address that
  does not allow non-loopback is \<^verbatim>\<open>localhost\<close> or a loopback address, so a gateway that is started without a warning either asks for a
  token or listens on this machine only.
\<close>

definition remote_host :: "string \<Rightarrow> bool" where
  "remote_host host =
     (if host = [] then True else if host = ''localhost'' then False
      else case parse_ip host of None \<Rightarrow> True | Some a \<Rightarrow> \<not> ip_loopback a)"

definition allows_non_loopback :: "string \<Rightarrow> bool" where
  "allows_non_loopback listen =
     (case split_host_port listen of
        Inl _ \<Rightarrow> if listen \<noteq> [] \<and> hd listen = CHR '':'' then True else remote_host listen
      | Inr (host, _) \<Rightarrow> remote_host host)"

datatype security_warning = RemoteWithoutToken | OriginUnchecked | RouterExposed

definition warn_unsafe_security_config :: "config \<Rightarrow> string \<Rightarrow> security_warning list" where
  "warn_unsafe_security_config cfg auth_token =
     (if allows_non_loopback (cfg_listen_addr cfg) \<and> auth_token = [] then [RemoteWithoutToken] else []) @
     (if sc_disable_origin_check (cfg_security cfg) \<and> auth_token = [] then [OriginUnchecked] else []) @
     (if router_allows_non_loopback cfg then [RouterExposed] else [])"

text \<open>The host part of a listen address: what is in front of the port, or the whole when there is none.\<close>

definition listen_host :: "string \<Rightarrow> string" where
  "listen_host listen = (case split_host_port listen of Inl _ \<Rightarrow> listen | Inr (host, _) \<Rightarrow> host)"

lemma local_listen:
  "\<not> allows_non_loopback listen \<Longrightarrow>
     listen_host listen = ''localhost'' \<or> (\<exists>a. parse_ip (listen_host listen) = Some a \<and> ip_loopback a)"
  by (auto simp: allows_non_loopback_def remote_host_def listen_host_def split: sum.splits option.splits if_splits prod.splits)


end
