(* ===== verification/Setup.thy ===== *)
theory Setup
  imports Exposure LlamaInstall PresetIniFacts FileDocProps
begin

section \<open>First-time setup (\<^verbatim>\<open>core/setup\<close>: \<open>setup.go\<close>, \<open>write.go\<close>, \<open>model.go\<close>)\<close>

text \<open>
  \<open>ensure_with_options\<close> is \<^verbatim>\<open>EnsureWithOptions\<close>, \<open>write_files\<close> is \<^verbatim>\<open>WriteFiles\<close> with the two templates, \<open>run_wizard\<close> the dialogue. What the
  forms return is \<open>setup_ui\<close>: the main form with its answers, a yes/no prompt, the choice for CUDA, and the calls to \<^verbatim>\<open>exec.LookPath\<close> and to the
  installer. The YAML library is the marshalling of a string and the decoding of a document. The environment variable that
  \<^verbatim>\<open>RenderConfig\<close> sets around the decoding is put back and read by nothing in between.
\<close>

record setup_paths =
  sp_home :: string
  sp_config :: string
  sp_models_ini :: string

record answers =
  an_listen_addr :: string
  an_auth_token_env :: string
  an_executable :: string
  an_models_dir :: string
  an_model_file :: string
  an_port :: string
  an_auto_start :: bool
  an_startup_services :: "string list"

definition resolve_paths :: "host_env \<Rightarrow> gerror + setup_paths" where
  "resolve_paths env =
     (case llama_rig_home env of
        Inl err \<Rightarrow> Inl err
      | Inr home \<Rightarrow>
          (case default_config_path env of
             Inl err \<Rightarrow> Inl err
           | Inr cfg \<Rightarrow> Inr \<lparr>sp_home = home, sp_config = cfg, sp_models_ini = join_path [home, ''models.ini'']\<rparr>))"

definition default_answers :: "setup_paths \<Rightarrow> answers" where
  "default_answers paths =
     \<lparr>an_listen_addr = ''127.0.0.1:7000'', an_auth_token_env = ''LLAMARIG_CONTROL_TOKEN'', an_executable = default_llama_executable,
      an_models_dir = join_path [sp_home paths, ''models''], an_model_file = [], an_port = ''8080'', an_auto_start = False,
      an_startup_services = default_startup_services\<rparr>"

subsection \<open>The files (\<^verbatim>\<open>write.go\<close>)\<close>

definition net_split_host_port :: "string \<Rightarrow> gerror + string" where
  "net_split_host_port addr =
     (case split_host_port addr of
        Inl err \<Rightarrow> Inl (Wrap [Lit ''listen address must be host:port: '', TextOf err] [err])
      | Inr _ \<Rightarrow> Inr addr)"

record setup_yaml =
  sy_marshal :: "string \<Rightarrow> gerror + string"
  sy_unmarshal :: "string \<Rightarrow> gerror + config"

definition yaml_string :: "setup_yaml \<Rightarrow> string \<Rightarrow> gerror + string" where
  "yaml_string y val =
     (case sy_marshal y val of
        Inl err \<Rightarrow> Inl err
      | Inr t \<Rightarrow> Inr (if has_suffix t [nl] then butlast t else t))"

fun yaml_strings :: "setup_yaml \<Rightarrow> string list \<Rightarrow> gerror + string list" where
  "yaml_strings y [] = Inr []"
| "yaml_strings y (v # vs) =
     (case yaml_string y v of
        Inl err \<Rightarrow> Inl err
      | Inr t \<Rightarrow> (case yaml_strings y vs of Inl err \<Rightarrow> Inl err | Inr ts \<Rightarrow> Inr (t # ts)))"

text \<open>\<^verbatim>\<open>configTemplate\<close>: the values in the order in which the template marshals them.\<close>

definition setup_config_text :: "string \<Rightarrow> string \<Rightarrow> string list \<Rightarrow> string \<Rightarrow> string \<Rightarrow> string \<Rightarrow> bool \<Rightarrow> string" where
  "setup_config_text listen models_dir services token_env executable port auto_start =
     ''listen_addr: '' @ listen @ [nl] @ ''model_storage_dir: '' @ models_dir @ [nl] @ ''startup_services:'' @
     concat (map (\<lambda>s. [nl] @ ''  - '' @ s) services) @ [nl, nl] @
     ''security:'' @ [nl] @ ''  auth_token_env: '' @ token_env @ [nl] @ ''  disable_origin_check: false'' @ [nl, nl] @
     ''router:'' @ [nl] @ ''  executable: '' @ executable @ [nl] @ ''  port: '' @ port @ [nl] @ ''  models_max: 1'' @ [nl] @
     ''  default_preset: \"default\"'' @ [nl] @ ''  autostart_presets:'' @
     (if auto_start then [nl] @ ''    - \"default\"'' else '' []'') @ [nl] @
     ''  stop_timeout: 10s'' @ [nl] @ ''  env: {}'' @ [nl] @ ''  readiness_timeout: 60s'' @ [nl] @ ''  readiness_interval: 500ms'' @ [nl]"

definition execute_config_template :: "setup_yaml \<Rightarrow> setup_paths \<Rightarrow> answers \<Rightarrow> gerror + string" where
  "execute_config_template y paths a =
     (case yaml_strings y ([an_listen_addr a, join_path [sp_home paths, ''models'']] @ an_startup_services a @ [an_auth_token_env a, an_executable a]) of
        Inl err \<Rightarrow> Inl (Wrap [Lit ''error calling yamlString: '', TextOf err] [err])
      | Inr ts \<Rightarrow>
          let n = length (an_startup_services a)
          in Inr (setup_config_text (ts ! 0) (ts ! 1) (take n (drop 2 ts)) (ts ! (n + 2)) (ts ! (n + 3)) (an_port a) (an_auto_start a)))"

definition answer_defaults :: "answers \<Rightarrow> answers" where
  "answer_defaults a =
     a\<lparr>an_listen_addr := or_str (an_listen_addr a) ''127.0.0.1:7000'',
       an_auth_token_env := or_str (an_auth_token_env a) ''LLAMARIG_CONTROL_TOKEN'',
       an_startup_services := (if an_startup_services a = [] then default_startup_services else an_startup_services a),
       an_port := or_str (an_port a) ''8080''\<rparr>"

definition render_config :: "setup_yaml \<Rightarrow> setup_paths \<Rightarrow> answers \<Rightarrow> gerror + string" where
  "render_config y paths a0 =
     (let a = answer_defaults a0 in
      case net_split_host_port (an_listen_addr a) of
        Inl err \<Rightarrow> Inl err
      | Inr _ \<Rightarrow>
          (case execute_config_template y paths a of
             Inl err \<Rightarrow> Inl err
           | Inr txt \<Rightarrow>
               (case sy_unmarshal y txt of
                  Inl err \<Rightarrow> Inl (Wrap [Lit ''parse generated config: '', TextOf err] [err])
                | Inr cfg \<Rightarrow>
                    (case router_validate (cfg_router cfg) of
                       Some err \<Rightarrow> Inl (Wrap [Lit ''validate generated config: '', TextOf err] [err])
                     | None \<Rightarrow> Inr txt))))"

text \<open>\<^verbatim>\<open>modelsINITemplate\<close>; the values are not quoted.\<close>

definition render_models_ini :: "answers \<Rightarrow> string" where
  "render_models_ini a =
     ''[default]'' @ [nl] @
     (if an_model_file a \<noteq> [] then [nl] @ ''model = '' @ an_model_file a @ [nl]
      else [nl] @ ''models-dir = '' @ an_models_dir a @ [nl]) @ [nl]"

definition ensure_missing :: "string \<Rightarrow> string \<Rightarrow> ('z, unit) io" where
  "ensure_missing path label =
     tryE (os_stat path)
       (\<lambda>err. if errors_is err OsNotExist then retE () else failE (Wrap [Lit ''stat '', Lit label, Lit '': '', TextOf err] [err]))
       (\<lambda>_. failE (Plain [Lit label, Lit '' already exists at '', Str path]))"

definition ensure_writable_setup :: "setup_paths \<Rightarrow> bool \<Rightarrow> ('z, unit) io" where
  "ensure_writable_setup paths force =
     bindE (if force then retE () else ensure_missing (sp_config paths) ''config'') (\<lambda>_.
     bindE (mapErrE (wrap_err ''create llamarig home'') (os_mkdir_all (sp_home paths) 448)) (\<lambda>_.
       mapErrE (wrap_err ''chmod llamarig home'') (os_chmod (sp_home paths) 448)))"

definition ensure_models_dir :: "string \<Rightarrow> ('z, unit) io" where
  "ensure_models_dir dir = (if dir = [] then retE () else mapErrE (wrap_err ''create models dir'') (os_mkdir_all dir 448))"

definition write_setup_file :: "string \<Rightarrow> string \<Rightarrow> bool \<Rightarrow> ('z, unit) io" where
  "write_setup_file path content force =
     tryE (if force then bindE (os_stat path) (\<lambda>_. retE ()) else failE (Plain []))
       (\<lambda>_. atomic_create path content 384)
       (\<lambda>_. bindE (write_file path content \<lparr>wo_perm = 384, wo_backup = True, wo_normalize = None\<rparr>) (\<lambda>_. retE ()))"

definition write_setup_files :: "setup_paths \<Rightarrow> string \<Rightarrow> string \<Rightarrow> bool \<Rightarrow> ('z, unit) io" where
  "write_setup_files paths cfg preset force =
     bindE (write_setup_file (sp_config paths) cfg force) (\<lambda>_. write_setup_file (sp_models_ini paths) preset force)"

definition write_files :: "setup_yaml \<Rightarrow> setup_paths \<Rightarrow> answers \<Rightarrow> bool \<Rightarrow> ('z, unit) io" where
  "write_files y paths a force =
     (case render_config y paths a of
        Inl err \<Rightarrow> failE err
      | Inr cfg \<Rightarrow>
          bindE (ensure_writable_setup paths force) (\<lambda>_.
          bindE (ensure_models_dir (an_models_dir a)) (\<lambda>_.
            write_setup_files paths cfg (render_models_ini a) force)))"

subsection \<open>The dialogue (\<^verbatim>\<open>model.go\<close>)\<close>

record 'z setup_ui =
  ui_form :: "answers \<Rightarrow> ('z, answers \<times> string \<times> bool) io"
  ui_confirm :: "msg \<Rightarrow> ('z, bool) io"
  ui_cuda_choice :: "('z, string) io"
  ui_aborted :: "gerror \<Rightarrow> bool"
  ui_look_path :: "string \<Rightarrow> ('z, string) io"
  ui_detect :: "('z, string) io"
  ui_install :: "string \<Rightarrow> bool \<Rightarrow> ('z, string) io"
  ui_linux :: bool
  ui_interactive :: bool
  ui_env :: host_env

definition run_form :: "'z setup_ui \<Rightarrow> ('z, 'a) io \<Rightarrow> ('z, 'a) io" where
  "run_form ui form = mapErrE (\<lambda>err. if ui_aborted ui err then Sentinel SetupCancelled else err) form"

definition validate_listen :: "string \<Rightarrow> gerror option" where
  "validate_listen addr = (case net_split_host_port (trim_space addr) of Inl err \<Rightarrow> Some err | Inr _ \<Rightarrow> None)"

definition validate_port :: "string \<Rightarrow> gerror option" where
  "validate_port port =
     (case parse_int (trim_space port) of
        None \<Rightarrow> Some (Plain [Lit ''port must be 1-65535''])
      | Some n \<Rightarrow> if n < 1 \<or> n > 65535 then Some (Plain [Lit ''port must be 1-65535'']) else None)"

definition startup_services :: "string \<Rightarrow> string list" where
  "startup_services sel =
     (if sel = ''control'' then [startup_service_control]
      else if sel = ''web'' then [startup_service_web]
      else [startup_service_control, startup_service_web])"

definition normalize_answers :: "answers \<Rightarrow> string \<Rightarrow> answers" where
  "normalize_answers a startup =
     a\<lparr>an_listen_addr := trim_space (an_listen_addr a), an_auth_token_env := trim_space (an_auth_token_env a),
       an_models_dir := trim_space (an_models_dir a), an_model_file := trim_space (an_model_file a), an_port := trim_space (an_port a),
       an_executable := or_str (trim_space (an_executable a)) default_llama_executable,
       an_startup_services := startup_services startup\<rparr>"

definition llama_executable_resolves :: "'z setup_ui \<Rightarrow> string \<Rightarrow> ('z, bool) io" where
  "llama_executable_resolves ui path =
     (if is_abs path \<or> slash \<in> set path
      then tryE (os_stat path) (\<lambda>_. retE False) (\<lambda>info. retE (case info of DirNode _ \<Rightarrow> False | _ \<Rightarrow> True))
      else tryE (ui_look_path ui path) (\<lambda>_. retE False) (\<lambda>_. retE True))"

definition remote_without_token :: "'z setup_ui \<Rightarrow> answers \<Rightarrow> bool" where
  "remote_without_token ui a \<longleftrightarrow> allows_non_loopback (an_listen_addr a) \<and> he_getenv (ui_env ui) (an_auth_token_env a) = []"

definition require_confirm :: "'z setup_ui \<Rightarrow> msg \<Rightarrow> ('z, unit) io" where
  "require_confirm ui title =
     bindE (run_form ui (ui_confirm ui title)) (\<lambda>proceed. if proceed then retE () else failE (Sentinel SetupCancelled))"

definition remote_title :: msg where
  "remote_title = [Lit ''Remote-capable bind without a token env configured'', Lit ''continue anyway?'']"

definition missing_title :: "string \<Rightarrow> msg" where
  "missing_title executable =
     [Quoted executable, Lit '' not found; install llama.cpp and ensure llama-server is on PATH (or set the full path)'', Lit ''continue anyway?'']"

definition confirm_safety :: "'z setup_ui \<Rightarrow> answers \<Rightarrow> ('z, unit) io" where
  "confirm_safety ui a =
     bindE (if remote_without_token ui a then require_confirm ui remote_title else retE ()) (\<lambda>_.
     bindE (llama_executable_resolves ui (an_executable a)) (\<lambda>ok.
       if ok then retE () else require_confirm ui (missing_title (an_executable a))))"

definition offer_managed_llama :: "'z setup_ui \<Rightarrow> ('z, string) io" where
  "offer_managed_llama ui =
     bindE (run_form ui (ui_confirm ui [Lit ''llama-server was not found. Install a managed llama.cpp now?''])) (\<lambda>install.
       if \<not> install then retE []
       else bindE (ui_detect ui) (\<lambda>backend.
         if ui_linux ui \<and> backend = backend_cuda
         then bindE (run_form ui (ui_cuda_choice ui)) (\<lambda>choice.
                if choice = ''skip'' then retE []
                else ui_install ui (if choice = ''vulkan'' then backend_vulkan else backend_auto) (choice = ''source''))
         else ui_install ui backend_auto False))"

text \<open>The executable of the answers, or the one that was installed because the answer does not resolve.\<close>

definition settle_executable :: "'z setup_ui \<Rightarrow> answers \<Rightarrow> ('z, answers) io" where
  "settle_executable ui a =
     bindE (llama_executable_resolves ui (an_executable a)) (\<lambda>found.
       if found then retE a
       else bindE (offer_managed_llama ui) (\<lambda>executable. retE (if executable \<noteq> [] then a\<lparr>an_executable := executable\<rparr> else a)))"

definition run_wizard :: "'z setup_ui \<Rightarrow> setup_paths \<Rightarrow> ('z, answers) io" where
  "run_wizard ui paths =
     bindE (run_form ui (ui_form ui (default_answers paths))) (\<lambda>(a, startup, proceed).
       if \<not> proceed then failE (Sentinel SetupCancelled)
       else bindE (settle_executable ui (normalize_answers a startup)) (\<lambda>b. bindE (confirm_safety ui b) (\<lambda>_. retE b)))"

subsection \<open>The whole (\<^verbatim>\<open>setup.go\<close>)\<close>

definition config_exists :: "string \<Rightarrow> ('z, bool) io" where
  "config_exists path =
     tryE (os_stat path)
       (\<lambda>err. if errors_is err OsNotExist then retE False
              else failE (Wrap [Lit ''stat config '', Quoted path, Lit '': '', TextOf err] [err]))
       (\<lambda>_. retE True)"

definition ensure_with_options ::
  "setup_yaml \<Rightarrow> 'z setup_ui \<Rightarrow> (setup_paths \<Rightarrow> ('z, answers) io) \<Rightarrow> bool \<Rightarrow> ('z, unit) io" where
  "ensure_with_options y ui wizard force =
     (if he_getenv (ui_env ui) ''LLAMARIG_CONFIG'' \<noteq> [] then retE ()
      else case resolve_paths (ui_env ui) of
             Inl err \<Rightarrow> failE err
           | Inr paths \<Rightarrow>
               bindE (config_exists (sp_config paths)) (\<lambda>exists.
                 if exists \<and> \<not> force then retE ()
                 else if \<not> ui_interactive ui
                 then failE (Plain [Lit ''no LlamaRig config found at '', Str (sp_config paths),
                                    Lit ''; run `llamarig setup` in an interactive terminal''])
                 else bindE (mapErrE (\<lambda>err. if errors_is err SetupCancelled then err else wrap_err ''run setup wizard'' err) (wizard paths)) (\<lambda>a.
                        write_files y paths a force)))"

definition ensure_setup :: "setup_yaml \<Rightarrow> 'z setup_ui \<Rightarrow> ('z, unit) io" where
  "ensure_setup y ui = ensure_with_options y ui (run_wizard ui) False"

definition rerun_setup :: "setup_yaml \<Rightarrow> 'z setup_ui \<Rightarrow> ('z, unit) io" where
  "rerun_setup y ui = ensure_with_options y ui (run_wizard ui) True"

end
