(* ===== verification/SetupProps.thy ===== *)
theory SetupProps
  imports Setup PresetProps
begin

section \<open>Properties of the first-time setup\<close>

text \<open>
  What setup writes is readable and stays off an existing configuration; a remote-capable address without a token is confirmed. The last
  property shows what setup does to presets that are there before it.
\<close>

subsection \<open>What is written\<close>

lemma default_header: "parse_line st ''[default]'' = parse_header ''[default]'' (snd st)"
proof -
  have "trim_space ''[default]'' = ''[default]''" by code_simp
  then show ?thesis by (simp add: parse_line_def Let_def is_comment_def has_prefix_def)
qed

lemma parse_default_entry:
  assumes "key_ok k" "no_newline v"
  shows "parse_ini (''[default]'' @ [nl, nl] @ render_line (k, v) @ [nl, nl]) =
    Inr [(''default'', \<lparr>sec_name = ''default'', sec_values = [(k, stored_value v)]\<rparr>)]"
proof -
  have ends: "nl \<notin> set ''[default]''" "nl \<notin> set (render_line (k, v))"
    using assms by (auto simp: render_line_def key_ok_def dest: pattern_chars key_char_special)
  have "split_on nl (join_with nl [''[default]'', [], render_line (k, v), [], []]) = [''[default]'', [], render_line (k, v), [], []]"
    by (rule split_join) (use ends in auto)
  then have lines: "split_on nl (''[default]'' @ [nl, nl] @ render_line (k, v) @ [nl, nl]) = [''[default]'', [], render_line (k, v), [], []]"
    by simp
  have "parse_header ''[default]'' [] = Inr (''default'', [(''default'', \<lparr>sec_name = ''default'', sec_values = []\<rparr>)])" by code_simp
  moreover have "trim_space [] = []" by code_simp
  then have "parse_line st [] = Inr st" for st by (simp add: parse_line_def Let_def)
  ultimately show ?thesis
    unfolding parse_ini_def lines by (simp add: default_header parse_line_entry [OF assms(1)] set_value_def)
qed

lemma rendered_entry:
  "render_models_ini a = ''[default]'' @ [nl, nl] @
     render_line (if an_model_file a \<noteq> [] then (''model'', an_model_file a) else (''models-dir'', an_models_dir a)) @ [nl, nl]"
  by (simp add: render_models_ini_def render_line_def)

lemma setup_keys_ok: "key_ok ''model''" "key_ok ''models-dir''"
  by code_simp+

text \<open>Round trip: the \<^verbatim>\<open>models.ini\<close> that setup writes reads as the one section \<^verbatim>\<open>default\<close> with the model file, or else the models directory, of the
  answers, when these are values that the file can represent (no white space at the ends, no line end, no inline comment).\<close>

theorem setup_presets_readable:
  assumes "clean_value (an_model_file a)" "clean_value (an_models_dir a)" "no_newline (an_model_file a)" "no_newline (an_models_dir a)"
  shows "parse_ini (render_models_ini a) = Inr [(''default'', \<lparr>sec_name = ''default'',
     sec_values = [if an_model_file a \<noteq> [] then (''model'', an_model_file a) else (''models-dir'', an_models_dir a)]\<rparr>)]"
proof (cases "an_model_file a = []")
  case True
  show ?thesis unfolding rendered_entry using parse_default_entry [OF setup_keys_ok(2) assms(4)]
    by (simp only: True stored_clean [OF assms(2)] if_False simp_thms)
next
  case False
  show ?thesis unfolding rendered_entry using parse_default_entry [OF setup_keys_ok(1) assms(3)]
    by (simp only: False stored_clean [OF assms(1)] if_True simp_thms)
qed

definition demo_setup_paths :: setup_paths where
  "demo_setup_paths = \<lparr>sp_home = ''/h'', sp_config = ''/h/config.yaml'', sp_models_ini = ''/h/models.ini''\<rparr>"

theorem setup_presets_readable_witness:
  "parse_ini (render_models_ini (default_answers demo_setup_paths)) = Inr [(''default'', \<lparr>sec_name = ''default'',
     sec_values = [if an_model_file (default_answers demo_setup_paths) \<noteq> [] then (''model'', an_model_file (default_answers demo_setup_paths))
                   else (''models-dir'', an_models_dir (default_answers demo_setup_paths))]\<rparr>)]"
proof (rule setup_presets_readable)
  have "join_path [''/h'', ''models''] = ''/h/models''" by code_simp
  then have d: "an_model_file (default_answers demo_setup_paths) = []" "an_models_dir (default_answers demo_setup_paths) = ''/h/models''"
    by (simp_all add: default_answers_def demo_setup_paths_def)
  show "clean_value (an_model_file (default_answers demo_setup_paths))" "clean_value (an_models_dir (default_answers demo_setup_paths))"
    unfolding d by code_simp+
  show "no_newline (an_model_file (default_answers demo_setup_paths))" "no_newline (an_models_dir (default_answers demo_setup_paths))"
    unfolding d by simp_all
qed

subsection \<open>What is not overwritten\<close>

lemma os_stat_honest:
  assumes "honest_faults w" "stat_node (os_files w) p = Inr n" "os_stat p w = (r, w')"
  shows "os_files w' = os_files w \<and> os_trace w' = os_trace w \<and> (r = Inr n \<or> (\<exists>e. r = Inl e \<and> \<not> errors_is e OsNotExist))"
  using assms by (auto simp: os_stat_def os_call_def Let_def honest_faults_def split: option.splits)

text \<open>Setup that is not forced leaves an existing configuration, and everything else, as it is, whatever the dialogue would do and whatever
  calls fail: no file changes, not even for a moment.\<close>

theorem existing_config_kept:
  assumes "resolve_paths (ui_env ui) = Inr paths" "stat_node (os_files w) (sp_config paths) = Inr n" "honest_faults w"
    and "ensure_with_options y ui wizard False w = (r, w')"
  shows "os_files w' = os_files w \<and> os_trace w' = os_trace w"
proof (cases "he_getenv (ui_env ui) ''LLAMARIG_CONFIG'' = []")
  case True
  obtain s w1 where s: "os_stat (sp_config paths) w = (s, w1)" by force
  note h = os_stat_honest [OF assms(3,2) s]
  have "w' = w1" using assms(1,4) True s h
    by (auto simp: ensure_with_options_def config_exists_def bindE_def tryE_def split: prod.splits sum.splits if_splits)
  with h show ?thesis by simp
qed (use assms(4) in \<open>simp add: ensure_with_options_def\<close>)

subsection \<open>What is overwritten\<close>

lemma atomic_create_outcome:
  assumes "atomic_create path data perm w = (Inr u, w')" "perm \<noteq> 0"
  shows "os_files w' path = Some (RegFile data perm) \<and>
    (\<forall>q. q \<noteq> path \<longrightarrow> os_files w' q \<noteq> os_files w q \<longrightarrow> os_files w q = None)"
proof -
  obtain x w1 where x: "write_replacement path data perm [] w = (Inr x, w1)" "w' = w1"
    using assms by (auto simp: atomic_create_def write_file_data_def bindE_def split: prod.splits sum.splits)
  from write_replacement_outcome [OF x(1)] x(2) show ?thesis
    by (auto simp: shows_old_or_new_def agree_off_def)
qed


definition demo_yaml :: setup_yaml where
  "demo_yaml =
     \<lparr>sy_marshal = Inr, sy_unmarshal = (\<lambda>_. Inr default_config)\<rparr>"

definition demo_answers :: answers where
  "demo_answers =
     \<lparr>an_listen_addr = ''127.0.0.1:7000'', an_auth_token_env = ''T'', an_executable = ''llama-server'', an_models_dir = ''/m'', an_model_file = [],
      an_port = ''8080'', an_auto_start = False, an_startup_services = [''control'']\<rparr>"

text \<open>A home with presets and without a configuration.\<close>

definition orphan_presets :: os where
  "orphan_presets =
     \<lparr>os_files = [''/h'' \<mapsto> DirNode 448, ''/h/models.ini'' \<mapsto> RegFile ''[mine]'' 384], os_tick = 0, os_fault = (\<lambda>_. None), os_trace = [],
      os_rand = (\<lambda>_. 7), os_stamp = (\<lambda>_. []), os_sha = (\<lambda>s. s), os_cwd = ''/''\<rparr>"


definition configured :: os where
  "configured = orphan_presets\<lparr>os_files := [''/h/config.yaml'' \<mapsto> RegFile ''x'' 384]\<rparr>"

definition demo_ui :: "unit setup_ui" where
  "demo_ui =
     \<lparr>ui_form = (\<lambda>a. retE (a\<lparr>an_listen_addr := ''0.0.0.0:7000''\<rparr>, ''both'', True)), ui_confirm = (\<lambda>_. retE True), ui_cuda_choice = retE ''skip'',
      ui_aborted = (\<lambda>_. False), ui_look_path = (\<lambda>s. retE s), ui_detect = retE ''cpu'', ui_install = (\<lambda>_ _. retE []), ui_linux = True,
      ui_interactive = True, ui_env = \<lparr>he_getenv = (\<lambda>k. if k = ''LLAMARIG_HOME'' then ''/h'' else []), he_user_home = Inr ''/u''\<rparr>\<rparr>"

theorem existing_config_kept_witness:
  "let w' = snd (ensure_with_options demo_yaml demo_ui (run_wizard demo_ui) False configured)
   in os_files w' = os_files configured \<and> os_trace w' = os_trace configured"
proof -
  have p: "resolve_paths (ui_env demo_ui) = Inr demo_setup_paths" by code_simp
  have s: "stat_node (os_files configured) (sp_config demo_setup_paths) = Inr (RegFile ''x'' 384)"
    by (simp add: stat_node_def configured_def demo_setup_paths_def numeral_eq_Suc)
  have h: "honest_faults configured" by (simp add: honest_faults_def configured_def orphan_presets_def)
  show ?thesis unfolding Let_def by (rule existing_config_kept [OF p s h]) (rule prod.collapse [symmetric])
qed

subsection \<open>What is confirmed\<close>

lemma run_form_Inr: "run_form ui f w = (Inr x, w') \<longleftrightarrow> f w = (Inr x, w')"
  by (simp add: run_form_def mapErrE_Inr)

lemma confirmed: "require_confirm ui title w = (Inr u, w') \<Longrightarrow> \<exists>w1. ui_confirm ui title w = (Inr True, w1)"
  by (auto simp: require_confirm_def run_form_Inr elim!: bindE_InrE split: if_splits)

text \<open>C32: The dialogue ends with answers that bind an address other machines can reach while the environment holds no token only after the user
  confirmed exactly that; the services it selects are ones that the configuration accepts.\<close>

theorem remote_bind_confirmed:
  assumes "run_wizard ui paths w = (Inr a, w')"
  shows "(allows_non_loopback (an_listen_addr a) \<and> he_getenv (ui_env ui) (an_auth_token_env a) = [] \<longrightarrow>
      (\<exists>w1 w2. ui_confirm ui remote_title w1 = (Inr True, w2))) \<and>
    validate_startup_services (an_startup_services a) = None"
proof -
  obtain r w1 where "run_form ui (ui_form ui (default_answers paths)) w = (Inr r, w1)"
    and rest: "(case r of (a, startup, proceed) \<Rightarrow>
       if \<not> proceed then failE (Sentinel SetupCancelled)
       else bindE (settle_executable ui (normalize_answers a startup)) (\<lambda>b. bindE (confirm_safety ui b) (\<lambda>_. retE b))) w1 = (Inr a, w')"
    using assms unfolding run_wizard_def by (rule bindE_InrE)
  obtain a0 startup proceed where r: "r = (a0, startup, proceed)" by (cases r)
  have "bindE (settle_executable ui (normalize_answers a0 startup)) (\<lambda>b. bindE (confirm_safety ui b) (\<lambda>_. retE b)) w1 = (Inr a, w')"
    using rest by (simp add: r split: if_splits)
  then obtain b w3 where b: "settle_executable ui (normalize_answers a0 startup) w1 = (Inr b, w3)"
    and c: "bindE (confirm_safety ui b) (\<lambda>_. retE b) w3 = (Inr a, w')" by (rule bindE_InrE)
  from c obtain u w4 where safe: "confirm_safety ui b w3 = (Inr u, w4)" and ab: "b = a" by (auto elim!: bindE_InrE)
  from b have "an_startup_services b = an_startup_services (normalize_answers a0 startup)"
    unfolding settle_executable_def by (auto split: if_splits elim!: bindE_InrE)
  then have "validate_startup_services (an_startup_services a) = None"
    by (simp add: ab normalize_answers_def startup_services_def)
  moreover have "\<exists>w1 w2. ui_confirm ui remote_title w1 = (Inr True, w2)" if "remote_without_token ui a"
    using safe that unfolding ab confirm_safety_def by (auto elim!: bindE_InrE dest!: confirmed)
  ultimately show ?thesis by (simp add: remote_without_token_def)
qed

theorem remote_bind_confirmed_witness:
  "let a = projr (fst (run_wizard demo_ui demo_setup_paths orphan_presets)) in
   (allows_non_loopback (an_listen_addr a) \<and> he_getenv (ui_env demo_ui) (an_auth_token_env a) = [] \<longrightarrow>
      (\<exists>w1 w2. ui_confirm demo_ui remote_title w1 = (Inr True, w2))) \<and>
    validate_startup_services (an_startup_services a) = None"
proof -
  let ?run = "run_wizard demo_ui demo_setup_paths orphan_presets"
  have "\<not> isl (fst ?run)" by code_simp
  then have "?run = (Inr (projr (fst ?run)), snd ?run)" by (cases ?run; cases "fst ?run") auto
  then show ?thesis unfolding Let_def by (rule remote_bind_confirmed)
qed

end
