(* ===== verification/Process.thy ===== *)
theory Process
  imports LogArchive PidFile Signals
begin

section \<open>Detached processes and the run loop (\<^verbatim>\<open>platform/process\<close>: \<open>detached.go\<close>, \<open>run.go\<close>)\<close>

text \<open>
  \<open>start_detached\<close>, \<open>status_detached\<close> and \<open>stop_detached\<close> act on the process whose number is in the PID file of a service; \<open>process_lib\<close> is
  the library that looks at foreign processes. A time between two looks is at least the sleep of the source, and longer by what
  \<open>mc_elapse\<close> says. \<open>run_service\<close> is the loop of \<^verbatim>\<open>Run\<close> over what its \<^verbatim>\<open>select\<close> receives, \<open>load_config\<close> the loading of the configuration.
\<close>

subsection \<open>Loading the configuration (\<^verbatim>\<open>config.go\<close>)\<close>

definition load_file :: "(config \<Rightarrow> string \<Rightarrow> gerror + config) \<Rightarrow> string \<Rightarrow> ('z, config) io" where
  "load_file decode path =
     bindE (mapErrE (\<lambda>err. Wrap [Lit ''read config '', Quoted path, Lit '': '', TextOf err] [err]) (os_read_file path)) (\<lambda>data.
       case parse_config decode data of
         Inl err \<Rightarrow> failE (Wrap [Lit ''parse config '', Quoted path, Lit '': '', TextOf err] [err])
       | Inr cfg \<Rightarrow> retE cfg)"

definition load_config :: "(config \<Rightarrow> string \<Rightarrow> gerror + config) \<Rightarrow> host_env \<Rightarrow> ('z, config) io" where
  "load_config decode env = bindE (lift_err (config_path env)) (load_file decode)"

subsection \<open>Detached processes\<close>

record detached_status =
  ds_running :: bool
  ds_pid :: int
  ds_uptime :: int

record ('z, 'p) process_lib =
  pl_new :: "int \<Rightarrow> nat \<Rightarrow> 'z machine_scheme \<Rightarrow> gerror + 'p"
  pl_running :: "'p \<Rightarrow> nat \<Rightarrow> 'z machine_scheme \<Rightarrow> bool"
  pl_terminate :: "'p \<Rightarrow> ('z, unit) mio"
  pl_kill :: "'p \<Rightarrow> ('z, unit) mio"
  pl_mod_time :: "string \<Rightarrow> 'z machine_scheme \<Rightarrow> int"

definition detached_pid_file :: "host_env \<Rightarrow> string \<Rightarrow> gerror + string" where
  "detached_pid_file env name =
     (case llama_rig_home env of Inl err \<Rightarrow> Inl err | Inr home \<Rightarrow> Inr (join_path [home, ''run'', name @ ''.pid'']))"

text \<open>From the log on: the child is started with the log as its output, and asked to end when its PID cannot be recorded.\<close>

definition spawn_detached :: "string \<Rightarrow> string \<Rightarrow> string list \<Rightarrow> ('z, unit) mio" where
  "spawn_detached file exe args =
     bindE (interact (\<lambda>n w. mc_spawn w n \<lparr>cmd_executable = exe, cmd_argv = args, cmd_display = []\<rparr> [])) (\<lambda>pid.
       tryE (pid_write file pid) (\<lambda>err. bindE (ignoreE (send_signal pid SIGTERM)) (\<lambda>_. failE err)) retE)"

definition start_detached :: "host_env \<Rightarrow> log_clock \<Rightarrow> gerror + string \<Rightarrow> string \<Rightarrow> string list \<Rightarrow> ('z, unit) mio" where
  "start_detached env lk exe name args =
     bindE (lift_err (detached_pid_file env name)) (\<lambda>file.
     bindE (pid_running file) (\<lambda>found.
       case found of
         Some pid \<Rightarrow> failE (Plain [Lit ''detached llamarig '', Str name, Lit '' already running pid='', Num pid])
       | None \<Rightarrow>
           bindE (lift_err exe) (\<lambda>path.
           bindE get_time (\<lambda>now.
           bindE (attach_logs env lk name now) (\<lambda>log.
             finallyE (spawn_detached file path args) (os_close log))))))"

text \<open>\<^verbatim>\<open>Duration.Round(time.Second)\<close>: to the nearest second, halves away from zero.\<close>

definition round_second :: "int \<Rightarrow> int" where
  "round_second d =
     (let r = \<bar>d\<bar> mod nanos_per_second
      in sgn d * (if r + r < nanos_per_second then \<bar>d\<bar> - r else \<bar>d\<bar> + nanos_per_second - r))"

definition status_detached :: "host_env \<Rightarrow> ('z, 'p) process_lib \<Rightarrow> string \<Rightarrow> ('z, detached_status) mio" where
  "status_detached env lib name =
     bindE (lift_err (detached_pid_file env name)) (\<lambda>file.
     bindE (pid_running file) (\<lambda>found.
       case found of
         None \<Rightarrow> retE \<lparr>ds_running = False, ds_pid = 0, ds_uptime = 0\<rparr>
       | Some pid \<Rightarrow>
           tryE (os_stat file)
             (\<lambda>_. retE \<lparr>ds_running = True, ds_pid = pid, ds_uptime = 0\<rparr>)
             (\<lambda>_ w. (Inr \<lparr>ds_running = True, ds_pid = pid, ds_uptime = round_second (mc_time w - pl_mod_time lib file w)\<rparr>, w))))"

definition shutdown_timeout :: "config \<Rightarrow> int" where
  "shutdown_timeout cfg =
     (let timeout = 5 * nanos_per_second; stop = rc_stop_timeout (cfg_router cfg)
      in if stop \<ge> timeout then stop + nanos_per_second else timeout)"

definition stop_wait :: "gerror + config \<Rightarrow> int" where
  "stop_wait r = (case r of Inl _ \<Rightarrow> 5 * nanos_per_second | Inr cfg \<Rightarrow> shutdown_timeout cfg + nanos_per_second)"

definition go_sleep :: "int \<Rightarrow> ('z, unit) mio" where
  "go_sleep d w = (Inr (), w\<lparr>mc_step := Suc (mc_step w), mc_time := mc_time w + d + mc_elapse w (mc_step w)\<rparr>)"

definition poll_pause :: int where "poll_pause = 100 * 1000000"

text \<open>The loop of \<^verbatim>\<open>StopDetached\<close>: whether the process was seen gone before the deadline.\<close>

fun wait_gone :: "nat \<Rightarrow> int \<Rightarrow> ('z, 'p) process_lib \<Rightarrow> 'p \<Rightarrow> ('z, bool) mio" where
  "wait_gone 0 deadline lib p = failE (Sentinel CtxDeadline)"
| "wait_gone (Suc fuel) deadline lib p =
     bindE get_time (\<lambda>now.
       if deadline \<le> now then retE False
       else bindE (query (pl_running lib p)) (\<lambda>running.
         if \<not> running then retE True
         else bindE (go_sleep poll_pause) (\<lambda>_. wait_gone fuel deadline lib p)))"

definition stop_detached ::
  "nat \<Rightarrow> host_env \<Rightarrow> ('z, 'p) process_lib \<Rightarrow> ('z, config) mio \<Rightarrow> string \<Rightarrow> ('z, unit) mio" where
  "stop_detached fuel env lib load name =
     bindE (lift_err (detached_pid_file env name)) (\<lambda>file.
     bindE (pid_running file) (\<lambda>found.
       case found of
         None \<Rightarrow> retE ()
       | Some pid \<Rightarrow>
           tryE (interact (pl_new lib (wrap32 pid)))
             (\<lambda>_. pid_remove file pid)
             (\<lambda>p.
                bindE (ignoreE (pl_terminate lib p)) (\<lambda>_.
                bindE (tryE load (\<lambda>err. retE (stop_wait (Inl err))) (\<lambda>cfg. retE (stop_wait (Inr cfg)))) (\<lambda>wait.
                bindE get_time (\<lambda>now.
                bindE (wait_gone fuel (now + wait) lib p) (\<lambda>gone.
                  if gone then pid_remove file pid
                  else bindE (query (pl_running lib p)) (\<lambda>running.
                       bindE (if running then ignoreE (pl_kill lib p) else retE ()) (\<lambda>_. pid_remove file pid)))))))))"

subsection \<open>The loop of a service\<close>

text \<open>What the \<^verbatim>\<open>select\<close> receives: the daily ticker, the end of the context or a signal, the result of the server.\<close>

datatype run_event = TickerFired | ContextEnded gerror | ServeEnded "gerror option"

datatype run_outcome = RunReturned | RunFatal string "gerror option"

definition run_cleanup :: "host_env \<Rightarrow> log_clock \<Rightarrow> ('z machine_scheme \<Rightarrow> string list) \<Rightarrow> config \<Rightarrow> 'z machine_scheme \<Rightarrow> 'z machine_scheme" where
  "run_cleanup env lk entries cfg w =
     snd (cleanup_archives env lk (entries w) (cfg_log_archive_retention cfg) (mc_time w) w)"

text \<open>Nothing is received any more: the loop still waits (\<open>None\<close>).\<close>

fun run_loop :: "('w \<Rightarrow> 'w) \<Rightarrow> ('w, gerror, unit) eff \<Rightarrow> string \<Rightarrow> run_event list \<Rightarrow> 'w \<Rightarrow> run_outcome option \<times> 'w" where
  "run_loop cleanup shutdown name [] w = (None, w)"
| "run_loop cleanup shutdown name (TickerFired # es) w = run_loop cleanup shutdown name es (cleanup w)"
| "run_loop cleanup shutdown name (ContextEnded e # es) w =
     (case shutdown w of
        (Inl err, w') \<Rightarrow> (Some (RunFatal (''shutdown '' @ name) (Some err)), w')
      | (Inr _, w') \<Rightarrow> (Some RunReturned, w'))"
| "run_loop cleanup shutdown name (ServeEnded err # es) w =
     (if err \<noteq> None \<and> errors_is (the err) ServerClosed then (Some RunReturned, w)
      else (Some (RunFatal (''serve '' @ name) err), snd (shutdown w)))"

definition run_service ::
  "('w \<Rightarrow> 'w) \<Rightarrow> (int \<Rightarrow> ('w, gerror, unit) eff) \<Rightarrow> config \<Rightarrow> string \<Rightarrow> run_event list \<Rightarrow> 'w \<Rightarrow> run_outcome option \<times> 'w" where
  "run_service cleanup shutdown cfg name es w =
     run_loop cleanup (shutdown (shutdown_timeout cfg)) name es (cleanup w)"

end
