(* ===== verification/Bootstrap.thy ===== *)
theory Bootstrap
  imports Process RouterClient LlamaServer Setup ControlOps RpcTypes
begin

section \<open>Assembling and ending the daemon (\<^verbatim>\<open>bootstrap/service.go\<close>, \<^verbatim>\<open>core/rpc/internal_server.go\<close>, \<^verbatim>\<open>cmd/serve.go\<close>)\<close>

text \<open>
  \<open>new_service\<close> is \<^verbatim>\<open>NewService\<close> from the setup to the listening socket, \<open>watch_storage\<close> the goroutine that refreshes the router when the model
  storage has changed, \<open>shutdown_daemon\<close> what \<^verbatim>\<open>serve\<close> does at the end. The control socket is \<open>sock_lib\<close>: dialling, listening, the timeout
  test of a network error and the two errors of a missing permission. \<open>daemon\<close> is the state of the running program: flag and world of
  the manager, whether the storage is watched and whether the socket is listened on.
\<close>

subsection \<open>The control socket\<close>

record 'z sock_lib =
  sk_dial :: "string \<Rightarrow> ('z, unit) io"
  sk_listen :: "string \<Rightarrow> ('z, unit) io"
  sk_timeout :: "gerror \<Rightarrow> bool"
  sk_no_permission :: "gerror \<Rightarrow> bool"

definition socket_text :: "string \<Rightarrow> msg" where
  "socket_text path = [Lit ''control rpc socket '', Quoted path]"

definition remove_stale_socket :: "'z sock_lib \<Rightarrow> string \<Rightarrow> ('z, unit) io" where
  "remove_stale_socket sk path =
     tryE (os_stat path)
       (\<lambda>err. if err = Sentinel OsNotExist then retE ()
              else failE (Wrap ([Lit ''stat ''] @ socket_text path @ [Lit '': '', TextOf err]) [err]))
       (\<lambda>_. tryE (sk_dial sk path)
          (\<lambda>err.
             if sk_timeout sk err
             then failE (Wrap (socket_text path @ [Lit '' dial timed out (likely in use): '', TextOf err]) [err])
             else if sk_no_permission sk err
             then failE (Plain (socket_text path @ [Lit '' is already in use (permission denied)'']))
             else tryE (os_remove path)
               (\<lambda>err. if err = Sentinel OsNotExist then retE ()
                      else failE (Wrap ([Lit ''remove stale ''] @ socket_text path @ [Lit '': '', TextOf err]) [err]))
               retE)
          (\<lambda>_. failE (Plain (socket_text path @ [Lit '' is already in use'']))))"

definition new_control_listener :: "'z sock_lib \<Rightarrow> host_env \<Rightarrow> ('z, string) io" where
  "new_control_listener sk env =
     bindE (lift_err (control_socket_path env)) (\<lambda>path.
     bindE (mapErrE (wrap_err ''create control rpc socket dir'') (os_mkdir_all (dir_of path) 448)) (\<lambda>_.
     bindE (mapErrE (wrap_err ''chmod control rpc socket dir'') (os_chmod (dir_of path) 448)) (\<lambda>_.
     bindE (remove_stale_socket sk path) (\<lambda>_.
     bindE (mapErrE (\<lambda>err. Wrap ([Lit ''listen ''] @ socket_text path @ [Lit '': '', TextOf err]) [err]) (sk_listen sk path)) (\<lambda>_.
       tryE (os_chmod path 384)
         (\<lambda>err. bindE (ignoreE (os_remove path)) (\<lambda>_.
            failE (Wrap ([Lit ''chmod ''] @ socket_text path @ [Lit '': '', TextOf err]) [err])))
         (\<lambda>_. retE path))))))"

subsection \<open>Assembling\<close>

record service_paths =
  sp_config_file :: string
  sp_models_file :: string
  sp_storage :: string
  sp_cache :: string

definition service_paths_of :: "host_env \<Rightarrow> config \<Rightarrow> gerror + service_paths" where
  "service_paths_of env cfg =
     (case config_path env of Inl err \<Rightarrow> Inl err | Inr cp \<Rightarrow>
     (case llama_rig_home env of Inl err \<Rightarrow> Inl err | Inr home \<Rightarrow>
     (case resolve_model_storage_dir env (cfg_model_storage_dir cfg) of Inl err \<Rightarrow> Inl err | Inr storage \<Rightarrow>
     (case resolve_catalog_cache_dir env (cfg_catalog_cache_dir cfg) of Inl err \<Rightarrow> Inl err | Inr cache \<Rightarrow>
        Inr \<lparr>sp_config_file = cp, sp_models_file = join_path [home, ''models.ini''], sp_storage = storage, sp_cache = cache\<rparr>))))"

text \<open>The client of the router: its address is built from the default host and the configured port.\<close>

definition service_client :: "(string \<Rightarrow> gerror option \<Rightarrow> gerror + router_model list) \<Rightarrow> config \<Rightarrow> router_client" where
  "service_client decode cfg =
     new_client decode (''http://'' @ join_host_port default_llama_host (int_text (rc_port (cfg_router cfg))))"

text \<open>\<open>base\<close> holds the parts that come from elsewhere: the clock, the audit sinks and the deletion of local models.\<close>

definition service_manager ::
  "nat \<Rightarrow> (string \<Rightarrow> gerror option \<Rightarrow> gerror + router_model list) \<Rightarrow> yaml_lib \<Rightarrow> host_env \<Rightarrow> service_paths \<Rightarrow> config \<Rightarrow>
     'z server_os_ext machine_ext manager \<Rightarrow> 'z server_os_ext machine_ext manager" where
  "service_manager fuel decode yl env paths cfg base =
     base\<lparr>mg_config := Some (yl, new_file_store (sp_config_file paths) default_limit_bytes),
          mg_presets := Some (ini_presets (sp_models_file paths) (sp_models_file paths)),
          mg_router := Some (client_iface (service_client decode cfg)), mg_runtime := Some (server_iface fuel),
          mg_router_config := cfg_router cfg, mg_env := env\<rparr>"

definition load_service_config ::
  "('z, unit) io \<Rightarrow> (config \<Rightarrow> string \<Rightarrow> gerror + config) \<Rightarrow> host_env \<Rightarrow> ('z, config \<times> string) io" where
  "load_service_config ensure decode env =
     bindE ensure (\<lambda>_. bindE (load_config decode env) (\<lambda>cfg.
       retE (cfg, he_getenv env (sc_auth_token_env (cfg_security cfg)))))"

record 'z running_service =
  rs_config :: config
  rs_manager :: "'z manager"
  rs_socket :: string
  rs_warnings :: "security_warning list"
  rs_errors :: "gerror list"

text \<open>The runtime is created in the world; a failed recovery and presets that do not start are logged (\<open>rs_errors\<close>).\<close>

definition start_service ::
  "('z server_os_ext machine_ext) manager \<Rightarrow> 'z server_os_ext machine_ext sock_lib \<Rightarrow> host_env \<Rightarrow>
     ('z server_os_scheme control, gerror, string \<times> gerror list) eff" where
  "start_service m sk env =
     bindE (tryE (on_world (recover_router_runtime m)) (\<lambda>err. retE [err]) (\<lambda>_. retE [])) (\<lambda>errs.
     bindE (start_autostart_presets m) (\<lambda>skipped.
     bindE (on_world (new_control_listener sk env)) (\<lambda>path. retE (path, errs @ skipped))))"

definition new_service ::
  "nat \<Rightarrow> (string \<Rightarrow> gerror option \<Rightarrow> gerror + router_model list) \<Rightarrow> yaml_lib \<Rightarrow> (config \<Rightarrow> string \<Rightarrow> gerror + config) \<Rightarrow>
     'z server_os_ext machine_ext sock_lib \<Rightarrow> host_env \<Rightarrow> ('z server_os_ext machine_ext, unit) io \<Rightarrow>
     'z server_os_ext machine_ext manager \<Rightarrow> ('z server_os_scheme control, gerror, 'z server_os_ext machine_ext running_service) eff" where
  "new_service fuel decode yl decode_cfg sk env ensure base =
     bindE (on_world (load_service_config ensure decode_cfg env)) (\<lambda>(cfg, token).
       case service_paths_of env cfg of
         Inl err \<Rightarrow> failE err
       | Inr paths \<Rightarrow>
           (let m = service_manager fuel decode yl env paths cfg base in
            bindE (on_world (\<lambda>w. (Inr (), w\<lparr>sv_state := build_router env (cfg_router cfg) (sp_storage paths) (sp_models_file paths)\<rparr>))) (\<lambda>_.
            bindE (start_service m sk env) (\<lambda>(path, errs).
              retE \<lparr>rs_config = cfg, rs_manager = m, rs_socket = path,
                    rs_warnings = warn_unsafe_security_config cfg token, rs_errors = errs\<rparr>))))"

text \<open>The gateway only needs the configuration and the path of the socket.\<close>

definition new_gateway ::
  "('z, unit) io \<Rightarrow> (config \<Rightarrow> string \<Rightarrow> gerror + config) \<Rightarrow> host_env \<Rightarrow> ('z, config \<times> string \<times> string \<times> security_warning list) io" where
  "new_gateway ensure decode env =
     bindE (load_service_config ensure decode env) (\<lambda>(cfg, token).
     bindE (lift_err (control_socket_path env)) (\<lambda>path. retE (cfg, token, path, warn_unsafe_security_config cfg token)))"

subsection \<open>Watching the model storage\<close>

text \<open>
  One change: the refresh is repeated while another mutation is at work. \<open>others\<close> is what happens during the pause, \<open>ended\<close> whether the
  context has ended by then; the second result is the error that is logged.
\<close>

fun refresh_until_free ::
  "nat \<Rightarrow> ('z os_scheme control \<Rightarrow> 'z os_scheme control) \<Rightarrow> ('z os_scheme control \<Rightarrow> bool) \<Rightarrow> 'z manager \<Rightarrow>
     'z os_scheme control \<Rightarrow> (bool \<times> gerror option) option \<times> 'z os_scheme control" where
  "refresh_until_free 0 others ended m c = (None, c)"
| "refresh_until_free (Suc fuel) others ended m c =
     (case refresh_router_sources_op m [Lit ''model storage changed''] c of
        (r, c1) \<Rightarrow>
          if core_kind (sum_err r) \<noteq> Some ErrorConflict
          then (Some (True, if ended c1 then None else sum_err r), c1)
          else (let c2 = others c1 in
                if ended c2 then (Some (False, None), c2) else refresh_until_free fuel others ended m c2))"

text \<open>The changes one after the other; the goroutine ends with the context.\<close>

fun watch_storage ::
  "nat \<Rightarrow> ('z os_scheme control \<Rightarrow> 'z os_scheme control) \<Rightarrow> ('z os_scheme control \<Rightarrow> bool) \<Rightarrow> 'z manager \<Rightarrow> nat \<Rightarrow>
     'z os_scheme control \<Rightarrow> gerror list option \<times> 'z os_scheme control" where
  "watch_storage fuel others ended m 0 c = (Some [], c)"
| "watch_storage fuel others ended m (Suc n) c =
     (case refresh_until_free fuel others ended m c of
        (None, c1) \<Rightarrow> (None, c1)
      | (Some (False, _), c1) \<Rightarrow> (Some [], c1)
      | (Some (True, err), c1) \<Rightarrow>
          (case watch_storage fuel others ended m n c1 of
             (logged, c2) \<Rightarrow> (map_option (\<lambda>es. (case err of None \<Rightarrow> es | Some e \<Rightarrow> e # es)) logged, c2)))"

subsection \<open>The end\<close>

record 'w daemon =
  dm_control :: "'w control"
  dm_watching :: bool
  dm_listening :: bool

text \<open>
  \<open>drain\<close> is \<^verbatim>\<open>http.Server.Shutdown\<close>: requests that are still served go on meanwhile. The result of stopping the runtime is logged.
\<close>

definition shutdown_daemon ::
  "('z os_scheme daemon, gerror, unit) eff \<Rightarrow> 'z manager \<Rightarrow> string \<Rightarrow> ('z os_scheme daemon, gerror, unit) eff" where
  "shutdown_daemon drain m socket d =
     (case drain (d\<lparr>dm_watching := False\<rparr>) of
        (r, d1) \<Rightarrow>
          let d2 = d1\<lparr>dm_listening := False\<rparr>;
              c1 = (if socket = [] then dm_control d2 else snd (on_world (ignoreE (os_remove socket)) (dm_control d2)));
              c2 = snd (stop_operation m [] c1)
          in (r, d2\<lparr>dm_control := c2\<rparr>))"

end
