(* ===== verification/BootstrapProps.thy ===== *)
theory BootstrapProps
  imports Bootstrap LlamaProps ControlContract
begin

section \<open>Properties of the start and the end of the daemon\<close>

subsection \<open>The assembled manager\<close>

text \<open>What the bootstrap builds is the assembled manager of the properties of the control core, on its own \<^verbatim>\<open>models.ini\<close>.\<close>

lemma service_manager_assembled:
  "service_manager fuel decode yl env paths cfg base =
     assembled fuel (service_client decode cfg) (sp_models_file paths) (sp_models_file paths)
       (base\<lparr>mg_config := Some (yl, new_file_store (sp_config_file paths) default_limit_bytes),
             mg_router_config := cfg_router cfg, mg_env := env\<rparr>)"
  by (simp add: service_manager_def assembled_def)

text \<open>A deviation: the client of the router asks the default address whatever \<^verbatim>\<open>router.host\<close> is, while the router is told to listen on that
  host and its readiness is probed there: with an address of its own (here one of the local network) the client never reaches it.\<close>

theorem router_client_ignores_host:
  "rcl_base (service_client decode (cfg\<lparr>cfg_router := (cfg_router cfg)\<lparr>rc_host := ''192.168.1.5'', rc_port := 80\<rparr>\<rparr>)) =
     ''http://127.0.0.1:80'' \<and>
   (let s = build_router env ((cfg_router cfg)\<lparr>rc_host := ''192.168.1.5'', rc_port := 80\<rparr>) models ini in
    sv_host (ls_cfg s) = ''192.168.1.5'' \<and> readiness_host (sv_host (ls_cfg s)) = ''192.168.1.5'' \<and>
    sublist [''--host'', ''192.168.1.5''] (sv_argv (ls_cfg s)))"
proof -
  have t: "int_text 80 = ''80''" "trim_right_set ''http://127.0.0.1:80'' [slash] = ''http://127.0.0.1:80''"
    "join_host_port ''127.0.0.1'' ''80'' = ''127.0.0.1:80''" by code_simp+
  have base: "''http://'' @ join_host_port default_llama_host ''80'' = ''http://127.0.0.1:80''"
    unfolding default_llama_host_def t by simp
  have host: "readiness_host ''192.168.1.5'' = ''192.168.1.5''" by code_simp
  let ?g = "(cfg_router cfg)\<lparr>rc_host := ''192.168.1.5'', rc_port := 80\<rparr>"
  have s: "sv_host (ls_cfg (build_router env ?g models ini)) = ''192.168.1.5''"
    unfolding build_router_def new_llama_server_def server_defaults_def or_str_def by (simp only: llama_server.simps server_config.simps router_config.simps) simp
  have "sv_argv (ls_cfg (build_router env ?g models ini)) =
      [''--models-dir'', models, ''--models-preset'', ini, ''--models-max'', int_text (rc_models_max ?g)] @
      [''--host'', ''192.168.1.5''] @ [''--port'', int_text (rc_port ?g)]"
    unfolding build_router_def new_llama_server_def server_defaults_def by simp
  then have "sublist [''--host'', ''192.168.1.5''] (sv_argv (ls_cfg (build_router env ?g models ini)))"
    by (metis sublist_appendI)
  moreover have "rc_port (cfg_router (cfg\<lparr>cfg_router := ?g\<rparr>)) = 80" by simp
  ultimately show ?thesis using s host
    unfolding Let_def service_client_def new_client_def
    by (simp only: router_client.simps base t simp_thms)
qed

subsection \<open>The control socket\<close>

text \<open>Something answers at the socket, or dialling it ends in a way that tells of a listener.\<close>

definition in_use :: "'z sock_lib \<Rightarrow> gerror + unit \<Rightarrow> bool" where
  "in_use sk r \<longleftrightarrow> (case r of Inr _ \<Rightarrow> True | Inl e \<Rightarrow> sk_timeout sk e \<or> sk_no_permission sk e)"

definition socket_taken :: "'z sock_lib \<Rightarrow> string \<Rightarrow> bool" where
  "socket_taken sk path \<longleftrightarrow> (\<forall>v. in_use sk (fst (sk_dial sk path v)) \<and> os_files (snd (sk_dial sk path v)) = os_files v)"

lemma stale_socket_kept:
  fixes w :: "'z os_scheme"
  assumes "socket_taken sk path" "stat_node (os_files w) path = Inr n" "honest_faults w" "remove_stale_socket sk path w = (r, w')"
  shows "isl r \<and> os_files w' = os_files w"
proof -
  obtain s w1 where s: "os_stat path w = (s, w1)" by force
  have f: "os_files w1 = os_files w" and ne: "s \<noteq> Inl (Sentinel OsNotExist)"
    using s assms(2,3) by (auto simp: os_stat_def os_call_def Let_def honest_faults_def split: option.splits) fastforce
  obtain d w2 where d: "sk_dial sk path w1 = (d, w2)" by force
  with assms(1) have u: "in_use sk d" "os_files w2 = os_files w1" unfolding socket_taken_def by (metis fst_conv, metis snd_conv)
  show ?thesis
    using assms(4) s d u f ne
    by (cases s; cases d) (auto simp: remove_stale_socket_def tryE_def in_use_def split: if_splits)
qed

lemma files_off_dir:
  fixes w :: "'z os_scheme"
  assumes "os_mkdir_all dir m w = (r, w1) \<or> os_chmod dir m w = (r, w1)" "path \<noteq> dir"
  shows "os_files w1 path = os_files w path \<and> os_fault w1 = os_fault w"
  using assms by (auto simp: os_mkdir_all_def os_chmod_def os_call_def Let_def set_node_def
      split: option.splits sum.splits node.splits if_splits)


definition taken_socket :: "'z sock_lib" where
  "taken_socket = \<lparr>sk_dial = (\<lambda>_. retE ()), sk_listen = (\<lambda>_. retE ()), sk_timeout = (\<lambda>_. False), sk_no_permission = (\<lambda>_. False)\<rparr>"

definition rig_env :: host_env where
  "rig_env = \<lparr>he_getenv = (\<lambda>k. if k = ''LLAMARIG_HOME'' then ''/h'' else []), he_user_home = Inr ''/u''\<rparr>"


subsection \<open>Waiting for a process to end\<close>

lemma wait_gone_outcome:
  fixes w :: "'z machine_scheme"
  assumes "\<forall>n. 0 \<le> mc_elapse w n" "deadline - mc_time w \<le> int fuel * poll_pause"
  shows "\<exists>gone w'. wait_gone (Suc fuel) deadline lib p w = (Inr gone, w') \<and> (\<not> gone \<longrightarrow> deadline \<le> mc_time w')"
  using assms
proof (induction fuel arbitrary: w)
  case (Suc fuel)
  show ?case
  proof (cases "deadline \<le> mc_time w \<or> \<not> pl_running lib p (mc_step w) w")
    case True
    then show ?thesis by (auto simp: bindE_def get_time_def query_def interact_def)
  next
    case False
    let ?w1 = "snd (query (pl_running lib p) w)" let ?w2 = "snd (go_sleep poll_pause ?w1)"
    have e: "mc_elapse ?w2 = mc_elapse w" by (simp add: query_def interact_def go_sleep_def)
    have "mc_time w + poll_pause \<le> mc_time ?w2"
      using Suc.prems(1) by (simp add: query_def interact_def go_sleep_def)
    with Suc.prems(2) have "deadline - mc_time ?w2 \<le> int fuel * poll_pause" by (simp add: algebra_simps)
    with Suc.IH [of ?w2] Suc.prems(1) e obtain gone w' where
      "wait_gone (Suc fuel) deadline lib p ?w2 = (Inr gone, w')" "\<not> gone \<longrightarrow> deadline \<le> mc_time w'" by auto
    moreover have "wait_gone (Suc (Suc fuel)) deadline lib p w = wait_gone (Suc fuel) deadline lib p ?w2"
      using False by (subst wait_gone.simps) (simp add: bindE_def get_time_def query_def interact_def go_sleep_def del: wait_gone.simps)
    ultimately show ?thesis by simp
  qed
qed (auto simp: bindE_def get_time_def)


definition stubborn_lib :: "('z, unit) process_lib" where
  "stubborn_lib = \<lparr>pl_new = (\<lambda>_ _ _. Inr ()), pl_running = (\<lambda>_ _ _. True), pl_terminate = (\<lambda>_. retE ()), pl_kill = (\<lambda>_. retE ()),
     pl_mod_time = (\<lambda>_ _. 0)\<rparr>"


subsection \<open>A change of the model storage\<close>

lemma refresh_busy:
  "ct_busy c \<Longrightarrow> refresh_router_sources_op m reason c = (Inl (core_errorf ErrorConflict [Lit ''another mutating operation is running'']), c)"
  by (simp add: refresh_router_sources_op_def with_mutation_def mutation_enter_def)

lemma conflict_kind: "core_kind (Some (core_errorf ErrorConflict x)) = Some ErrorConflict"
  by (simp add: core_kind_def core_errorf_def)

text \<open>C37: A change of the model storage is not lost to a mutation that is at work: when the busy flag is free after \<open>n\<close> pauses, and the context has
  not ended by then, the router is refreshed in that very state, and the result of this refresh is the one that is reported.\<close>

theorem storage_change_refreshes:
  assumes "n < fuel" "\<forall>k < n. ct_busy ((others ^^ k) c)" "\<forall>k \<le> n. \<not> ended ((others ^^ k) c)"
    and "refresh_router_sources_op m [Lit ''model storage changed''] ((others ^^ n) c) = (r, c')"
    and "core_kind (sum_err r) \<noteq> Some ErrorConflict"
  shows "refresh_until_free fuel others ended m c = (Some (True, if ended c' then None else sum_err r), c')"
  using assms(1-4)
proof (induction n arbitrary: c fuel)
  case 0
  then obtain f where "fuel = Suc f" by (cases fuel) auto
  with 0 assms(5) show ?case by simp
next
  case (Suc n)
  then obtain f where f: "fuel = Suc f" by (cases fuel) auto
  have shift: "(others ^^ k) (others c) = (others ^^ Suc k) c" for k by (simp only: funpow_Suc_right o_apply)
  have b: "ct_busy c" and e: "\<not> ended (others c)" using Suc.prems(2,3) [rule_format, of 0] Suc.prems(3) [rule_format, of 1] by auto
  have "refresh_until_free f others ended m (others c) = (Some (True, if ended c' then None else sum_err r), c')"
  proof (rule Suc.IH)
    show "n < f" using Suc.prems(1) f by simp
    show "\<forall>k < n. ct_busy ((others ^^ k) (others c))"
      unfolding shift using Suc.prems(2) Suc_mono by blast
    show "\<forall>k \<le> n. \<not> ended ((others ^^ k) (others c))"
      unfolding shift using Suc.prems(3) Suc_le_mono by blast
    show "refresh_router_sources_op m [Lit ''model storage changed''] ((others ^^ n) (others c)) = (r, c')"
      unfolding shift by (rule Suc.prems(4))
  qed
  then show ?case using b e f by (simp add: refresh_busy sum_err_def conflict_kind Let_def)
qed

definition busy_for :: "nat \<Rightarrow> machine control" where
  "busy_for n = \<lparr>ct_busy = (n < 2), ct_world = (demo_machine Map.empty)\<lparr>mc_step := n\<rparr>\<rparr>"

definition work_on :: "machine control \<Rightarrow> machine control" where
  "work_on c = busy_for (Suc (mc_step (ct_world c)))"

definition idle_manager :: "unit machine_ext manager" where
  "idle_manager =
     \<lparr>mg_config = None, mg_presets = None, mg_router = None, mg_runtime = None, mg_router_config = cfg_router default_config,
      mg_local = None, mg_audit = None, mg_env = rig_env, mg_now = mc_time, mg_ctx = None\<rparr>"

lemma work_on_busy: "(work_on ^^ k) (busy_for 0) = busy_for k"
  by (induction k) (simp_all add: work_on_def busy_for_def)

theorem storage_change_refreshes_witness:
  "\<exists>err c'. refresh_until_free 5 work_on (\<lambda>_. False) idle_manager (busy_for 0) = (Some (True, err), c') \<and> \<not> ct_busy c'"
proof -
  let ?rc = "refresh_router_sources_op idle_manager [Lit ''model storage changed''] (busy_for 2)"
  have r: "core_kind (sum_err (fst ?rc)) \<noteq> Some ErrorConflict" and b: "\<not> ct_busy (snd ?rc)"
  proof -
    have "?rc = (Inr (op_result ''refresh_router_sources'' ''router'' ''skipped'' [Lit ''router refresh skipped: runtime is not configured'']),
        busy_for 2)"
      by (simp add: refresh_router_sources_op_def with_mutation_def mutation_enter_def mutation_leave_def busy_for_def idle_manager_def
        refresh_router_sources_def audit_record_def)
    then show "core_kind (sum_err (fst ?rc)) \<noteq> Some ErrorConflict" "\<not> ct_busy (snd ?rc)"
      by (simp_all add: sum_err_def core_kind_def busy_for_def)
  qed
  have "refresh_until_free 5 work_on (\<lambda>_. False) idle_manager (busy_for 0) =
      (Some (True, if False then None else sum_err (fst ?rc)), snd ?rc)"
    by (rule storage_change_refreshes [where n = 2])
      (use r in \<open>simp_all only: work_on_busy prod.collapse\<close>, simp_all add: busy_for_def)
  with b show ?thesis by auto
qed

end
