(* ===== verification/ShutdownProps.thy ===== *)
theory ShutdownProps
  imports BootstrapProps
begin

section \<open>The end of the daemon\<close>

text \<open>What \<^verbatim>\<open>serve\<close> leaves behind when it ends: the socket, the supervised router, and what the loop of \<^verbatim>\<open>process.Run\<close> returns.\<close>

subsection \<open>Files only disappear while a process is stopped\<close>

definition no_new_files :: "'z os_scheme \<Rightarrow> 'z os_scheme \<Rightarrow> bool" where
  "no_new_files w w' \<longleftrightarrow> (\<forall>p. os_files w p = None \<longrightarrow> os_files w' p = None)"

interpretation nf: preorder_effects "no_new_files :: 'z server_os_scheme \<Rightarrow> _"
  by unfold_locales (auto simp: no_new_files_def)

lemma nf_same: "same_files f \<Longrightarrow> evolves no_new_files (f :: ('z, 'a) sio)"
  by (simp add: same_files_def evolves_def no_new_files_def)

lemma nf_basic:
  "evolves no_new_files (interact f)" "evolves no_new_files (query g)" "evolves no_new_files get_time"
  "evolves no_new_files (send_signal t sig)" "evolves no_new_files (command_result_of a st c out err)"
  "evolves no_new_files (os_remove p)" "evolves no_new_files (os_read_file p)" "evolves no_new_files (set_server h)"
  by (auto simp: evolves_def no_new_files_def interact_def query_def get_time_def send_signal_def bindE_def command_result_of_def
      os_remove_def os_read_file_def os_call_def Let_def set_node_def set_server_def split: option.splits)

lemma nf_with: "(\<And>s. evolves no_new_files (k s)) \<Longrightarrow> evolves no_new_files (with_server k)"
  by (simp add: evolves_def with_server_def)

lemmas nf_rules = nf.evolves_rules nf_basic nf_with

lemma nf_forget: "evolves no_new_files (forget_pid_file pid)"
  unfolding forget_pid_file_def pid_remove_def remove_existing_def by (intro nf_rules)

lemma nf_poll: "evolves no_new_files poll_done"
  unfolding poll_done_def by (intro nf_rules nf_forget)

lemma nf_alive: "evolves no_new_files (pid_alive pid :: ('z, bool) sio)"
  unfolding pid_alive_def by (intro nf_rules)

lemma nf_is_running: "evolves no_new_files is_running"
  unfolding is_running_def by (intro nf_rules nf_poll nf_alive)

lemma nf_signals: "evolves no_new_files (interrupt_process_group p g :: ('z, unit) sio)"
  "evolves no_new_files (kill_process_group p g :: ('z, unit) sio)"
  unfolding interrupt_process_group_def kill_process_group_def by (intro nf_rules)+

lemma nf_wait_pid: "evolves no_new_files (wait_pid_exit fuel d p :: ('z, unit) sio)"
proof (induction fuel)
  case (Suc fuel)
  show ?case unfolding wait_pid_exit.simps by (intro nf_rules nf_alive Suc)
next
  case 0
  show ?case unfolding wait_pid_exit.simps by (intro nf_rules)
qed

lemma nf_stop: "evolves no_new_files (server_stop fuel)"
  unfolding server_stop_def stop_process_def stop_process_body_def wait_started_process_def Let_def
  by (intro nf_rules nf_is_running nf_poll nf_signals nf_wait_pid nf_forget)

subsection \<open>Stopping the router\<close>

text \<open>A stop ends with nothing supervised, or it found the process gone.\<close>

lemma server_stop_state:
  fixes w :: "'z server_os_scheme"
  assumes "server_stop fuel w = (r, w')"
  shows "ls_pid (sv_state w') = 0 \<or> (\<exists>w1. is_running w = (Inr False, w1) \<and> sv_state w' = sv_state w1)"
proof -
  obtain a w1 where a: "is_running w = (a, w1)" by force
  from a show ?thesis
  proof (cases rule: is_running_cases)
    case gone
    with a assms have "sv_state w' = sv_state w1"
      by (auto simp: server_stop_def bindE_def get_time_def command_result_of_def)
    with a gone show ?thesis by blast
  next
    case running
    obtain s w2 where s: "stop_process fuel w1 = (s, w2)" by force
    with a running assms have "sv_state w' = sv_state w2"
      by (cases s) (auto simp: server_stop_def bindE_def get_time_def command_result_of_def)
    with stop_process_state [OF s] show ?thesis by simp
  qed
qed

text \<open>The audit sinks neither touch files nor the supervised process.\<close>

definition quiet_audit :: "'z server_os_ext machine_ext manager \<Rightarrow> bool" where
  "quiet_audit m \<longleftrightarrow> (\<forall>f. mg_audit m = Some f \<longrightarrow> (\<forall>x w. os_files (f x w) = os_files w \<and> sv_state (f x w) = sv_state w))"

lemma stop_router_state:
  fixes w :: "'z server_os_scheme"
  assumes "mg_runtime m = Some (server_iface fuel)" "stop_router m w = (r, w')"
  shows "(ls_pid (sv_state w') = 0 \<or> (\<exists>w1. is_running w = (Inr False, w1) \<and> sv_state w' = sv_state w1)) \<and> no_new_files w w'"
proof -
  obtain s w1 where s: "server_stop fuel w = (s, w1)" by force
  with assms have "w' = w1" by (cases s) (auto simp: stop_router_def require_some_def server_iface_def bindE_def)
  with server_stop_state [OF s] evolvesD [OF nf_stop s] show ?thesis by simp
qed

lemma stop_all_free:
  fixes c :: "'z server_os_scheme control"
  assumes "mg_runtime m = Some (server_iface fuel)" "quiet_audit m" "\<not> ct_busy c" "stop_operation m [] c = (r, c')"
  shows "(ls_pid (sv_state (ct_world c')) = 0 \<or>
      (\<exists>w1. is_running (ct_world c) = (Inr False, w1) \<and> sv_state (ct_world c') = sv_state w1)) \<and>
    no_new_files (ct_world c) (ct_world c') \<and> \<not> ct_busy c'"
proof -
  obtain s w' where s: "stop_router m (ct_world c) = (s, w')" by force
  with assms(3,4) have c': "ct_world c' = audit_record m ''stop_router'' (mg_now m (ct_world c)) (sum_err s) w'" "\<not> ct_busy c'"
    by (auto simp: stop_operation_def with_mutation_def mutation_enter_def mutation_leave_def)
  have "os_files (ct_world c') = os_files w' \<and> sv_state (ct_world c') = sv_state w'"
    using assms(2) by (auto simp: c' quiet_audit_def audit_record_def split: option.splits)
  with stop_router_state [OF assms(1) s] c' show ?thesis by (auto simp: no_new_files_def)
qed


text \<open>A daemon whose router runs; nothing else is at work, or a mutation is.\<close>

definition ending_daemon :: "bool \<Rightarrow> server_os daemon" where
  "ending_daemon busy =
     \<lparr>dm_control = \<lparr>ct_busy = busy, ct_world = demo_server_os\<rparr>, dm_watching = True, dm_listening = True\<rparr>"




subsection \<open>The loop of a service\<close>

text \<open>The loop goes on through the ticks, and what ends it is the first other event; a server that was closed on purpose is not shut down again.\<close>

lemma run_loop_ticks: "run_loop cleanup shutdown name (replicate n TickerFired @ es) w = run_loop cleanup shutdown name es ((cleanup ^^ n) w)"
  by (induction n arbitrary: w) (simp_all add: funpow_swap1)

lemma run_service_ends:
  assumes "run_service cleanup shutdown cfg name es w = (Some out, w')"
  shows "\<exists>n e. TickerFired \<noteq> e \<and> (\<exists>rest. es = replicate n TickerFired @ e # rest) \<and>
     (let v = (cleanup ^^ Suc n) w in
      w' = (if \<exists>err. e = ServeEnded (Some err) \<and> errors_is err ServerClosed then v else snd (shutdown (shutdown_timeout cfg) v)))"
proof -
  have *: "\<exists>n e. TickerFired \<noteq> e \<and> (\<exists>rest. es = replicate n TickerFired @ e # rest) \<and>
     (let v = (cleanup ^^ n) w in w' = (if \<exists>err. e = ServeEnded (Some err) \<and> errors_is err ServerClosed then v else snd (sh v)))"
    if "run_loop cleanup sh name es w = (Some out, w')" for sh w
    using that
  proof (induction es arbitrary: w)
    case (Cons e es)
    show ?case
    proof (cases "e = TickerFired")
      case True
      with Cons.prems Cons.IH [of "cleanup w"] obtain n x rest where "TickerFired \<noteq> x" "es = replicate n TickerFired @ x # rest"
        "let v = (cleanup ^^ n) (cleanup w) in w' = (if \<exists>err. x = ServeEnded (Some err) \<and> errors_is err ServerClosed then v else snd (sh v))"
        by auto
      with True show ?thesis
        by (intro exI [of _ "Suc n"] exI [of _ x] conjI exI [of _ rest]) (simp_all add: funpow_swap1)
    next
      case False
      have "w' = (if \<exists>err. e = ServeEnded (Some err) \<and> errors_is err ServerClosed then w else snd (sh w))"
        using Cons.prems False by (cases e) (auto split: prod.splits sum.splits if_splits option.splits)
      with False show ?thesis by (intro exI [of _ 0] exI [of _ e]) auto
    qed
  qed simp
  show ?thesis using * [OF assms [unfolded run_service_def]] by (simp add: funpow_swap1)
qed

end
