(* ===== verification/Cli.thy ===== *)
theory Cli
  imports Gateway Process
begin

section \<open>The command line (\<^verbatim>\<open>adapters/cli\<close>, \<^verbatim>\<open>cmd/command.go\<close>)\<close>

text \<open>
  \<open>run_cli\<close> is a command of \<^verbatim>\<open>commandRegistry\<close>: its arguments are checked, the socket is chosen, the procedure of the daemon is called and the
  response printed. What is printed is a \<open>msg\<close>; JSON (in one line or indented) and the aligning writer are \<open>cli_format\<close>. The daemon behind the
  socket is the control service, reached unless \<open>link\<close> gives an error. The log commands of \<^verbatim>\<open>command.go\<close> follow.
\<close>

datatype positional = NoArgs | ExactlyOne | AtMostOne

record cli_command =
  cc_name :: string
  cc_socket :: string
  cc_args :: "string list"
  cc_json :: bool

datatype cli_payload =
    InfoPayload info_response
  | StatusPayload runtime_status_pb
  | PresetsPayload "preset_pb list"
  | PresetPayload preset_pb
  | ResultPayload command_result_pb

record cli_format =
  cf_json :: "cli_payload \<Rightarrow> gerror + string"
  cf_indented :: "preset_pb \<Rightarrow> gerror + string"
  cf_align :: "(string \<times> string) list \<Rightarrow> string"

type_synonym ('z, 'a) cli = "('z os_scheme control, call_error, 'a) eff"

definition newline_frag :: frag where "newline_frag = Lit [nl]"

subsection \<open>Printing (\<^verbatim>\<open>output.go\<close>, \<^verbatim>\<open>mapping.go\<close>)\<close>

definition or_dash :: "string \<Rightarrow> string" where "or_dash s = or_str s ''-''"

definition cli_list :: "string list \<Rightarrow> string" where
  "cli_list values = (if values = [] then ''-'' else join_with CHR '','' values)"

definition cli_suffix :: "msg \<Rightarrow> msg" where
  "cli_suffix val = (if list_all frag_empty val then [] else Lit '': '' # val)"

definition print_json :: "cli_format \<Rightarrow> cli_payload \<Rightarrow> ('z, msg) cli" where
  "print_json f p = (case cf_json f p of Inl err \<Rightarrow> failE (Transport err) | Inr t \<Rightarrow> retE [Str t, newline_frag])"

definition print_info :: "info_response \<Rightarrow> msg" where
  "print_info v =
     [Lit ''status: '', Str (ir_status v), newline_frag, Lit ''default: '', Str (or_dash (ir_default_preset v)), newline_frag,
      Lit ''presets: '', Num (ir_presets_count v), newline_frag, Lit ''autostart: '', Str (cli_list (ir_autostart_presets v)), newline_frag]"

definition print_status :: "runtime_status_pb \<Rightarrow> msg" where
  "print_status v =
     [Lit ''status: '', Str (rsp_state v), newline_frag, Lit ''detail: ''] @
     (if list_all frag_empty (rsp_detail v) then [Lit ''-''] else rsp_detail v) @ [newline_frag]"

text \<open>\<^verbatim>\<open>presetEntry\<close>: the first entry of a key.\<close>

definition preset_entry :: "preset_pb \<Rightarrow> string \<Rightarrow> string" where
  "preset_entry p key = (case map_of (pp_entries p) key of None \<Rightarrow> [] | Some v \<Rightarrow> v)"

definition print_presets :: "cli_format \<Rightarrow> preset_pb list \<Rightarrow> msg" where
  "print_presets f ps =
     [Str (cf_align f (map (\<lambda>p. (pp_name p, or_str (preset_entry p ''model'') (or_str (preset_entry p ''models-dir'') ''-''))) ps))]"

definition print_action :: "command_result_pb \<Rightarrow> msg" where
  "print_action r = [Str (crp_action r), Lit '': '', Str (crp_status r)] @ cli_suffix (crp_message r) @ [newline_frag]"

subsection \<open>The commands (\<^verbatim>\<open>commands.go\<close>)\<close>

definition respond :: "cli_format \<Rightarrow> cli_command \<Rightarrow> cli_payload \<Rightarrow> ('z, msg) cli \<Rightarrow> ('z, msg) cli" where
  "respond f c payload human = (if cc_json c then print_json f payload else human)"

definition dialled :: "('z os_scheme \<Rightarrow> gerror option) \<Rightarrow> ('z, 'a) rpc \<Rightarrow> ('z, 'a) cli" where
  "dialled link procedure c =
     (case link (ct_world c) of
        Some err \<Rightarrow> (Inl (Connect \<lparr>ce_code = CodeUnavailable, ce_kind = None, ce_cause = err\<rparr>), c)
      | None \<Rightarrow> mapErrE Connect procedure c)"

definition run_info :: "('z os_scheme \<Rightarrow> gerror option) \<Rightarrow> 'z service \<Rightarrow> cli_format \<Rightarrow> cli_command \<Rightarrow> ('z, msg) cli" where
  "run_info link s f c = bindE (dialled link (rpc_get_info s)) (\<lambda>v. respond f c (InfoPayload v) (retE (print_info v)))"

definition run_status :: "('z os_scheme \<Rightarrow> gerror option) \<Rightarrow> 'z service \<Rightarrow> cli_format \<Rightarrow> cli_command \<Rightarrow> ('z, msg) cli" where
  "run_status link s f c = bindE (dialled link (rpc_runtime_status s)) (\<lambda>v. respond f c (StatusPayload v) (retE (print_status v)))"

definition run_presets :: "('z os_scheme \<Rightarrow> gerror option) \<Rightarrow> 'z service \<Rightarrow> cli_format \<Rightarrow> cli_command \<Rightarrow> ('z, msg) cli" where
  "run_presets link s f c =
     bindE (dialled link (rpc_list_presets s)) (\<lambda>v.
       respond f c (PresetsPayload (lpr_presets v)) (retE (print_presets f (lpr_presets v))))"

definition print_preset :: "cli_format \<Rightarrow> preset_pb \<Rightarrow> ('z, msg) cli" where
  "print_preset f p = (case cf_indented f p of Inl err \<Rightarrow> failE (Transport err) | Inr t \<Rightarrow> retE [Str t, newline_frag])"

definition run_preset :: "('z os_scheme \<Rightarrow> gerror option) \<Rightarrow> 'z service \<Rightarrow> cli_format \<Rightarrow> cli_command \<Rightarrow> ('z, msg) cli" where
  "run_preset link s f c =
     bindE (dialled link (rpc_get_preset s (hd (cc_args c)))) (\<lambda>p. respond f c (PresetPayload p) (print_preset f p))"

definition call_action :: "('z os_scheme \<Rightarrow> gerror option) \<Rightarrow> 'z service \<Rightarrow> cli_command \<Rightarrow> string \<Rightarrow> ('z, command_result_pb) cli" where
  "call_action link s c target =
     (if cc_name c = ''start'' then dialled link (rpc_start_runtime s target)
      else if cc_name c = ''stop'' then dialled link (rpc_stop_runtime s target)
      else if cc_name c = ''restart'' then dialled link (rpc_restart_runtime s target)
      else failE (Transport (Plain [Lit ''unknown action '', Quoted (cc_name c)])))"

definition run_action :: "('z os_scheme \<Rightarrow> gerror option) \<Rightarrow> 'z service \<Rightarrow> cli_format \<Rightarrow> cli_command \<Rightarrow> ('z, msg) cli" where
  "run_action link s f c =
     bindE (call_action link s c (case cc_args c of [target] \<Rightarrow> target | _ \<Rightarrow> [])) (\<lambda>r.
       respond f c (ResultPayload r) (retE (print_action r)))"

datatype cli_handler = RunInfo | RunStatus | RunPresets | RunPreset | RunAction

text \<open>\<^verbatim>\<open>commandRegistry\<close> in its order: name, usage, arguments, handler.\<close>

definition command_registry :: "(string \<times> string \<times> positional \<times> cli_handler) list" where
  "command_registry =
     [(''info'', [], NoArgs, RunInfo), (''status'', [], NoArgs, RunStatus), (''presets'', [], NoArgs, RunPresets),
      (''preset'', ''<name>'', ExactlyOne, RunPreset), (''start'', ''[preset]'', AtMostOne, RunAction),
      (''stop'', ''[preset]'', AtMostOne, RunAction), (''restart'', ''[preset]'', AtMostOne, RunAction)]"

definition args_ok :: "positional \<Rightarrow> string list \<Rightarrow> bool" where
  "args_ok p args = (case p of NoArgs \<Rightarrow> args = [] | ExactlyOne \<Rightarrow> length args = 1 | AtMostOne \<Rightarrow> length args \<le> 1)"

text \<open>The socket that is dialled: of the flag, else of the environment, else the default one.\<close>

definition cli_socket :: "host_env \<Rightarrow> string option \<Rightarrow> gerror + string" where
  "cli_socket env flag =
     (let socket = (case flag of Some s \<Rightarrow> s | None \<Rightarrow> he_getenv env ''LLAMARIG_CONTROL_SOCKET'')
      in if socket = [] then control_socket_path env else Inr socket)"

definition run_handler ::
  "('z os_scheme \<Rightarrow> gerror option) \<Rightarrow> 'z service \<Rightarrow> cli_format \<Rightarrow> cli_handler \<Rightarrow> cli_command \<Rightarrow> ('z, msg) cli" where
  "run_handler link s f h c =
     (case h of
        RunInfo \<Rightarrow> run_info link s f c | RunStatus \<Rightarrow> run_status link s f c | RunPresets \<Rightarrow> run_presets link s f c
      | RunPreset \<Rightarrow> run_preset link s f c | RunAction \<Rightarrow> run_action link s f c)"

definition bad_arguments :: "call_error" where
  "bad_arguments = Transport (Plain [Lit ''wrong number of arguments''])"

definition run_cli ::
  "host_env \<Rightarrow> (string \<Rightarrow> 'z os_scheme \<Rightarrow> gerror option) \<Rightarrow> 'z service \<Rightarrow> cli_format \<Rightarrow> string option \<Rightarrow> bool \<Rightarrow> string \<Rightarrow> string list \<Rightarrow>
     ('z, msg) cli" where
  "run_cli env link s f flag json name args =
     (case map_of command_registry name of
        None \<Rightarrow> failE (Transport (Plain [Lit ''unknown command '', Quoted name]))
      | Some (usage, spec, h) \<Rightarrow>
          if \<not> args_ok spec args then failE bad_arguments
          else (case cli_socket env flag of
                  Inl err \<Rightarrow> failE (Transport err)
                | Inr socket \<Rightarrow>
                    run_handler (link socket) s f h \<lparr>cc_name = name, cc_socket = socket, cc_args = args, cc_json = json\<rparr>))"

subsection \<open>The log commands (\<^verbatim>\<open>cmd/command.go\<close>)\<close>

definition command_log_name :: "string \<Rightarrow> string \<Rightarrow> gerror + string" where
  "command_log_name default_name source =
     (if source = [] then Inr default_name
      else if source = ''control'' then Inr ''llamarig''
      else if source = ''gateway'' then Inr ''gateway''
      else Inl (Plain [Lit ''log source must be control or gateway'']))"

text \<open>\<^verbatim>\<open>llamarig logs\<close> without \<^verbatim>\<open>--follow\<close>.\<close>

definition print_log_tail :: "host_env \<Rightarrow> string \<Rightarrow> int \<Rightarrow> ('z, string) io" where
  "print_log_tail env name lines = tail_log_lines env name lines"

definition logs_command :: "host_env \<Rightarrow> string \<Rightarrow> string \<Rightarrow> int \<Rightarrow> ('z, string) io" where
  "logs_command env name source lines =
     (case command_log_name name source of Inl err \<Rightarrow> failE err | Inr log_name \<Rightarrow> print_log_tail env log_name lines)"

definition archive_show :: "host_env \<Rightarrow> string \<Rightarrow> int \<Rightarrow> ('z, string) io" where
  "archive_show env ident lines = tail_archive env ident lines"

definition archive_clear :: "host_env \<Rightarrow> log_clock \<Rightarrow> string list \<Rightarrow> bool \<Rightarrow> ('z, msg) io" where
  "archive_clear env lk names yes =
     (if \<not> yes then failE (Plain [Lit ''refusing to clear all log archives without --yes''])
      else bindE (clear_archives env lk names) (\<lambda>(deleted, err).
        case err of
          Some e \<Rightarrow> failE e
        | None \<Rightarrow> retE [Lit ''deleted '', Num (int deleted), Lit '' log archive(s)'', newline_frag]))"

definition archive_line :: "(int \<Rightarrow> string) \<Rightarrow> archive \<Rightarrow> msg" where
  "archive_line stamp a =
     [Str (ar_id a), Lit [CHR 0x09], Str (if ar_service a = ''llamarig'' then ''control'' else ar_service a), Lit [CHR 0x09],
      Num (int (ar_size_bytes a)), Lit [CHR 0x09], Str (stamp (ar_archived_at a)), newline_frag]"

definition list_log_archives :: "host_env \<Rightarrow> log_clock \<Rightarrow> string list \<Rightarrow> (int \<Rightarrow> string) \<Rightarrow> ('z, msg) io" where
  "list_log_archives env lk names stamp =
     bindE (list_archives env lk names) (\<lambda>archives. retE (concat (map (archive_line stamp) archives)))"

end
