(* ===== verification/Mcp.thy ===== *)
theory Mcp
  imports Gateway GoUrl
begin

section \<open>Tools and resources for models (\<^verbatim>\<open>adapters/mcp\<close>)\<close>

text \<open>
  \<open>run_tool\<close> is a tool of \<^verbatim>\<open>addTools\<close> over the control service, \<open>read_resource\<close> the resources \<^verbatim>\<open>presets://\<close> and \<^verbatim>\<open>presets://{name}\<close>. A Go map of
  entries is an association list; \<open>order\<close> is the order in which a map is walked. JSON and the errors of the protocol library are parameters.
\<close>

record preset_map_pb =
  pm_name :: string
  pm_entries :: "(string \<times> string) list"
  pm_source_status :: string
  pm_source_error :: msg

definition preset_entries_map :: "(string \<times> string) list \<Rightarrow> (string \<times> string) list" where
  "preset_entries_map entries = fold (\<lambda>(k, v). AList.update k v) entries []"

definition preset_map_of :: "preset_pb \<Rightarrow> preset_map_pb" where
  "preset_map_of p =
     \<lparr>pm_name = pp_name p, pm_entries = preset_entries_map (pp_entries p), pm_source_status = pp_source_status p,
      pm_source_error = pp_source_error p\<rparr>"

definition preset_maps :: "preset_pb list \<Rightarrow> preset_map_pb list" where
  "preset_maps ps = map preset_map_of ps"

definition preset_entries_proto :: "((string \<times> string) list \<Rightarrow> (string \<times> string) list) \<Rightarrow> (string \<times> string) list \<Rightarrow> (string \<times> string) list" where
  "preset_entries_proto order entries = order entries"

subsection \<open>Tools (\<^verbatim>\<open>tools.go\<close>)\<close>

datatype tool_call =
    ToolInfo | ToolStatus | ToolStart string | ToolStop string | ToolRestart string
  | ToolPresetsList | ToolPresetGet string | ToolPresetPut string "(string \<times> string) list" bool | ToolPresetDelete string

datatype tool_output =
    InfoOutput info_response | StatusOutput runtime_status_pb | ResultOutput command_result_pb
  | ListOutput string "(string \<times> string) list" "preset_map_pb list" | PresetOutput preset_map_pb | DeletedOutput bool

fun tool_name :: "tool_call \<Rightarrow> string" where
  "tool_name ToolInfo = ''llama_info''"
| "tool_name ToolStatus = ''llama_status''"
| "tool_name (ToolStart p) = ''llama_start''"
| "tool_name (ToolStop p) = ''llama_stop''"
| "tool_name (ToolRestart p) = ''llama_restart''"
| "tool_name ToolPresetsList = ''presets_list''"
| "tool_name (ToolPresetGet n) = ''preset_get''"
| "tool_name (ToolPresetPut n es c) = ''preset_put''"
| "tool_name (ToolPresetDelete n) = ''preset_delete''"

definition mapped_tool_output :: "('z, 'a) rpc \<Rightarrow> ('a \<Rightarrow> tool_output) \<Rightarrow> ('z, tool_output) rpc" where
  "mapped_tool_output call f = bindE call (\<lambda>x. retE (f x))"

fun run_tool :: "((string \<times> string) list \<Rightarrow> (string \<times> string) list) \<Rightarrow> 'z service \<Rightarrow> tool_call \<Rightarrow> ('z, tool_output) rpc" where
  "run_tool order s ToolInfo = mapped_tool_output (rpc_get_info s) InfoOutput"
| "run_tool order s ToolStatus = mapped_tool_output (rpc_runtime_status s) StatusOutput"
| "run_tool order s (ToolStart p) = mapped_tool_output (rpc_start_runtime s p) ResultOutput"
| "run_tool order s (ToolStop p) = mapped_tool_output (rpc_stop_runtime s p) ResultOutput"
| "run_tool order s (ToolRestart p) = mapped_tool_output (rpc_restart_runtime s p) ResultOutput"
| "run_tool order s ToolPresetsList =
     mapped_tool_output (rpc_list_presets s)
       (\<lambda>r. ListOutput (lpr_path r) (preset_entries_map (lpr_global r)) (preset_maps (lpr_presets r)))"
| "run_tool order s (ToolPresetGet n) = mapped_tool_output (rpc_get_preset s n) (\<lambda>p. PresetOutput (preset_map_of p))"
| "run_tool order s (ToolPresetPut n es create_only) =
     mapped_tool_output
       (rpc_put_preset s
          (Some \<lparr>pp_name = n, pp_entries = preset_entries_proto order es, pp_source_status = [], pp_source_error = [], pp_autostart = False\<rparr>)
          create_only)
       (\<lambda>p. PresetOutput (preset_map_of p))"
| "run_tool order s (ToolPresetDelete n) = mapped_tool_output (rpc_delete_preset s n) (\<lambda>r. DeletedOutput (mrp_ok r))"

subsection \<open>Resources (\<^verbatim>\<open>resources.go\<close>)\<close>

definition presets_scheme :: string where "presets_scheme = ''presets://''"

definition parse_preset_resource_uri :: "string \<Rightarrow> string option" where
  "parse_preset_resource_uri raw =
     (if \<not> has_prefix raw presets_scheme then None
      else let encoded = drop (length presets_scheme) raw in
        if encoded = [] \<or> list_ex (\<lambda>c. c \<in> set ''/?#'') encoded then None
        else (case path_unescape encoded of Inl _ \<Rightarrow> None | Inr name \<Rightarrow> Some name))"

datatype resource_payload = PresetResource preset_map_pb | PresetListResource "preset_map_pb list"

datatype resource_error = ResourceNotFound string | ResourceCall connect_error | ResourceJson gerror

definition json_resource ::
  "(resource_payload \<Rightarrow> gerror + string) \<Rightarrow> string \<Rightarrow> resource_payload \<Rightarrow> ('z os_scheme control, resource_error, string \<times> string) eff" where
  "json_resource marshal uri p = (case marshal p of Inl err \<Rightarrow> failE (ResourceJson err) | Inr t \<Rightarrow> retE (uri, t))"

definition read_preset_list_resource ::
  "(resource_payload \<Rightarrow> gerror + string) \<Rightarrow> 'z service \<Rightarrow> string \<Rightarrow> ('z os_scheme control, resource_error, string \<times> string) eff" where
  "read_preset_list_resource marshal s uri =
     bindE (mapErrE ResourceCall (rpc_list_presets s)) (\<lambda>r. json_resource marshal uri (PresetListResource (preset_maps (lpr_presets r))))"

definition read_resource ::
  "(resource_payload \<Rightarrow> gerror + string) \<Rightarrow> 'z service \<Rightarrow> string \<Rightarrow> ('z os_scheme control, resource_error, string \<times> string) eff" where
  "read_resource marshal s uri =
     (if uri = presets_scheme then read_preset_list_resource marshal s uri
      else case parse_preset_resource_uri uri of
             None \<Rightarrow> failE (ResourceNotFound uri)
           | Some name \<Rightarrow>
               bindE (mapErrE ResourceCall (rpc_get_preset s name)) (\<lambda>p. json_resource marshal uri (PresetResource (preset_map_of p))))"

subsection \<open>Every preset has an address\<close>

lemma segment_not_special: "segment_char c \<Longrightarrow> c \<notin> set ''/?#''"
  by (auto simp: segment_char_def unreserved_def)

text \<open>Round trip: whatever the name of a preset is, the address made of it by \<^verbatim>\<open>url.PathEscape\<close> is one that \<^verbatim>\<open>readResource\<close> answers with exactly
  that preset; only the empty name addresses the list.\<close>

theorem preset_uri_roundtrip:
  "parse_preset_resource_uri (presets_scheme @ path_escape name) = (if name = [] then None else Some name) \<and>
   read_resource marshal s (presets_scheme @ path_escape name) =
     (if name = [] then read_preset_list_resource marshal s presets_scheme
      else bindE (mapErrE ResourceCall (rpc_get_preset s name)) (\<lambda>p.
        json_resource marshal (presets_scheme @ path_escape name) (PresetResource (preset_map_of p))))"
proof -
  have e: "path_escape name = [] \<longleftrightarrow> name = []" by (cases name) (auto simp: path_escape_def percent_byte_def)
  have "CHR ''%'' \<notin> set ''/?#''" by simp
  then have n: "\<not> list_ex (\<lambda>c. c \<in> set ''/?#'') (path_escape name)"
    unfolding list_ex_iff using path_escape_chars [of name] segment_not_special by blast
  have p: "parse_preset_resource_uri (presets_scheme @ path_escape name) = (if name = [] then None else Some name)"
    using e n by (simp add: parse_preset_resource_uri_def has_prefix_def unescape_escape del: set_simps list.set)
  show ?thesis unfolding read_resource_def using p e by (simp add: path_escape_def)
qed

subsection \<open>The order of a map does not matter\<close>

text \<open>A preset that is put as a map is the same section in whatever order the map is walked.\<close>

lemma put_order_irrelevant:
  assumes "distinct (map fst es)" "set es' = set es" "distinct (map fst es')"
  shows "map_of (preset_entries_map es') = map_of (preset_entries_map es)"
proof -
  have "map_of (preset_entries_map xs) = map_of xs" if "distinct (map fst xs)" for xs :: "(string \<times> string) list"
  proof -
    have "map_of (rev xs) = map_of xs" using that by (intro map_of_inject_set [THEN iffD2]) (simp_all add: rev_map [symmetric])
    then show ?thesis by (simp add: preset_entries_map_def map_of_fold_update)
  qed
  with assms show ?thesis by (metis map_of_inject_set)
qed

end
