(* ===== verification/TuiTabs.thy ===== *)
theory TuiTabs
  imports RpcTypes Process
begin

section \<open>The tabs of the terminal interface (\<^verbatim>\<open>adapters/tui/tabs\<close>: \<open>services.go\<close>, \<open>models.go\<close>, \<open>system.go\<close>, \<open>logs.go\<close>)\<close>

text \<open>
  The state of the tabs and what a key does to it. Drawing is left out; what \<^verbatim>\<open>View\<close> changes of the state is a function of its own. The widgets
  (viewport, table, status line, search view) belong to a terminal library: \<open>ui_lib\<close> is what the tabs call of them. A key is its name. An index
  out of range, a panic in Go, is \<open>None\<close>.
\<close>

subsection \<open>Keys (\<^verbatim>\<open>bindings.go\<close>)\<close>

record key_map =
  km_next_panel :: "string list"
  km_previous_panel :: "string list"
  km_previous_action :: "string list"
  km_next_action :: "string list"
  km_run_action :: "string list"
  km_refresh :: "string list"
  km_up :: "string list"
  km_down :: "string list"
  km_toggle_autostart :: "string list"

definition default_key_map :: key_map where
  "default_key_map =
     \<lparr>km_next_panel = [''tab''], km_previous_panel = [''shift+tab''], km_previous_action = [''left''], km_next_action = [''right''],
      km_run_action = [''enter''], km_refresh = [''r''], km_up = [''up''], km_down = [''down''], km_toggle_autostart = [''a'']\<rparr>"

subsection \<open>What the tabs know\<close>

record tui_preset =
  pv_name :: string
  pv_model :: string
  pv_models_dir :: string
  pv_source_status :: string
  pv_source_error :: msg
  pv_autostart :: bool

record zap_entry =
  ze_level :: string
  ze_time :: string
  ze_msg :: string
  ze_caller :: string
  ze_stacktrace :: string
  ze_fields :: "(string \<times> string) list"

record dashboard_snapshot =
  dn_daemon :: detached_status
  dn_gateway :: detached_status
  dn_config :: config
  dn_runtime :: "runtime_status_pb option"
  dn_resources :: "snapshot option"
  dn_presets :: "tui_preset list"
  dn_local_models :: "local_model_pb list"
  dn_warnings :: "(string \<times> msg) list"
  dn_refreshed :: int
  dn_config_path :: string
  dn_log_path :: string
  dn_daemon_log :: "zap_entry list"
  dn_llama_log :: "string list"

text \<open>The presets of a status; a status that was never received has none.\<close>

definition status_presets :: "runtime_status_pb option \<Rightarrow> runtime_preset_pb list" where
  "status_presets status = (case status of None \<Rightarrow> [] | Some s \<Rightarrow> rsp_presets s)"

text \<open>The messages and the commands; a result carries the text of its error.\<close>

datatype tui_msg =
    KeyPress string
  | DashboardTick
  | SpinnerTick
  | ActionRequest nat int string
  | ActionResult nat int "msg option"
  | PresetStartRequest string
  | PresetStartResult "msg option"
  | ModelDeleteRequest string
  | ModelDeleteResult "msg option"
  | PresetCleanupRequest string
  | PresetCleanupResult "msg option"
  | PresetAutostartRequest string bool
  | PresetAutostartResult bool "msg option"

record ('v, 't, 'p, 's) ui_lib =
  ul_scroll_up :: "'v \<Rightarrow> 'v"
  ul_scroll_down :: "'v \<Rightarrow> 'v"
  ul_cursor :: "'t \<Rightarrow> int"
  ul_move_up :: "'t \<Rightarrow> 't"
  ul_move_down :: "'t \<Rightarrow> 't"
  ul_set_rows :: "string list list \<Rightarrow> 't \<Rightarrow> 't"
  ul_clear :: "'p \<Rightarrow> 'p"
  ul_disarm :: "'p \<Rightarrow> 'p"
  ul_set_error :: "msg \<Rightarrow> 'p \<Rightarrow> 'p"
  ul_set_result :: "msg option \<Rightarrow> string \<Rightarrow> 'p \<Rightarrow> 'p"
  ul_confirm :: "string \<Rightarrow> bool \<Rightarrow> 'p \<Rightarrow> bool \<times> 'p"
  ul_searching :: "'s \<Rightarrow> bool"
  ul_search_key :: "string \<Rightarrow> 's \<Rightarrow> 's"
  ul_format_bytes :: "int \<Rightarrow> string"

definition go_index :: "'a list \<Rightarrow> int \<Rightarrow> 'a option" where
  "go_index xs i = (if 0 \<le> i \<and> i < int (length xs) then Some (xs ! nat i) else None)"

subsection \<open>The services tab (\<^verbatim>\<open>services.go\<close>)\<close>

text \<open>The panels are counted: the daemon, the HTTP server, the models. The arrays of the source are functions of the panel.\<close>

definition panel_daemon :: nat where "panel_daemon = 0"
definition panel_http :: nat where "panel_http = 1"
definition panel_models :: nat where "panel_models = 2"
definition panel_count :: nat where "panel_count = 3"

record 'v services_tab =
  vt_focus :: nat
  vt_selected :: "nat \<Rightarrow> int"
  vt_message :: "nat \<Rightarrow> string"
  vt_err :: "nat \<Rightarrow> msg"
  vt_keys :: key_map
  vt_vp :: 'v
  vt_stopping :: "nat \<Rightarrow> bool"
  vt_runtimes :: "string list"
  vt_autostart :: "string \<Rightarrow> bool"

definition new_services_tab :: "'v \<Rightarrow> 'v services_tab" where
  "new_services_tab vp =
     \<lparr>vt_focus = panel_daemon, vt_selected = (\<lambda>_. 0), vt_message = (\<lambda>_. []), vt_err = (\<lambda>_. []), vt_keys = default_key_map, vt_vp = vp,
      vt_stopping = (\<lambda>_. False), vt_runtimes = [], vt_autostart = (\<lambda>_. False)\<rparr>"

definition action_count :: "'v services_tab \<Rightarrow> int" where
  "action_count t = (if vt_focus t = panel_models then int (length (vt_runtimes t)) else 3)"

definition move_action :: "int \<Rightarrow> 'v services_tab \<Rightarrow> 'v services_tab" where
  "move_action delta t =
     (let count = action_count t in
      if count > 0 then t\<lparr>vt_selected := (vt_selected t)(vt_focus t := (vt_selected t (vt_focus t) + count + delta) mod count)\<rparr> else t)"

definition say :: "nat \<Rightarrow> string \<Rightarrow> msg \<Rightarrow> 'v services_tab \<Rightarrow> 'v services_tab" where
  "say panel message err t = t\<lparr>vt_message := (vt_message t)(panel := message), vt_err := (vt_err t)(panel := err)\<rparr>"

definition services_action :: "'v services_tab \<Rightarrow> (tui_msg option \<times> 'v services_tab) option" where
  "services_action t =
     (if action_count t = 0 then Some (None, t)
      else let focus = vt_focus t; idx = vt_selected t focus;
               t1 = (if focus \<noteq> panel_models \<and> idx = 1 then t\<lparr>vt_stopping := (vt_stopping t)(focus := True)\<rparr> else t)
        in case (if focus = panel_models then go_index (vt_runtimes t) idx else Some []) of
             None \<Rightarrow> None
           | Some name \<Rightarrow> Some (Some (ActionRequest focus idx name), say focus [] [] t1))"

definition toggle_autostart :: "'v services_tab \<Rightarrow> (tui_msg option \<times> 'v services_tab) option" where
  "toggle_autostart t =
     (if vt_focus t \<noteq> panel_models \<or> vt_runtimes t = [] then Some (None, t)
      else case go_index (vt_runtimes t) (vt_selected t panel_models) of
             None \<Rightarrow> None
           | Some name \<Rightarrow> Some (Some (PresetAutostartRequest name (\<not> vt_autostart t name)), say panel_models [] [] t))"

definition control_locked :: "'v services_tab \<Rightarrow> bool" where
  "control_locked t = vt_stopping t (vt_focus t)"

definition any_stopping :: "'v services_tab \<Rightarrow> bool" where
  "any_stopping t = list_ex (vt_stopping t) [0..<panel_count]"

definition update_scroll :: "('v, 't, 'p, 's) ui_lib \<Rightarrow> string \<Rightarrow> 'v services_tab \<Rightarrow> 'v services_tab" where
  "update_scroll ul key t =
     (if key \<in> set (km_up (vt_keys t)) then t\<lparr>vt_vp := ul_scroll_up ul (vt_vp t)\<rparr>
      else if key \<in> set (km_down (vt_keys t)) then t\<lparr>vt_vp := ul_scroll_down ul (vt_vp t)\<rparr> else t)"

definition services_key :: "('v, 't, 'p, 's) ui_lib \<Rightarrow> string \<Rightarrow> 'v services_tab \<Rightarrow> (tui_msg option \<times> 'v services_tab) option" where
  "services_key ul key t =
     (let k = vt_keys t in
      if key \<in> set (km_next_panel k) then Some (None, t\<lparr>vt_focus := (vt_focus t + 1) mod panel_count\<rparr>)
      else if key \<in> set (km_previous_panel k) then Some (None, t\<lparr>vt_focus := (vt_focus t + panel_count - 1) mod panel_count\<rparr>)
      else if key \<in> set (km_previous_action k) \<and> \<not> control_locked t then Some (None, move_action (-1) t)
      else if key \<in> set (km_next_action k) \<and> \<not> control_locked t then Some (None, move_action 1 t)
      else if key \<in> set (km_run_action k) \<and> \<not> control_locked t then services_action t
      else if key \<in> set (km_toggle_autostart k) then toggle_autostart t
      else Some (None, update_scroll ul key t))"

definition set_autostart_result :: "bool \<Rightarrow> msg option \<Rightarrow> 'v services_tab \<Rightarrow> 'v services_tab" where
  "set_autostart_result enabled err t =
     (case err of
        Some e \<Rightarrow> say panel_models [] e t
      | None \<Rightarrow> say panel_models (if enabled then ''autostart enabled'' else ''autostart disabled'') [] t)"

definition services_result :: "nat \<Rightarrow> int \<Rightarrow> msg option \<Rightarrow> 'v services_tab \<Rightarrow> 'v services_tab" where
  "services_result target idx err t =
     (let t1 = (if target \<noteq> panel_models \<and> idx = 1 then t\<lparr>vt_stopping := (vt_stopping t)(target := False)\<rparr> else t)
      in case err of Some e \<Rightarrow> say target [] e t1 | None \<Rightarrow> say target ''completed'' [] t1)"

definition sync_runtimes :: "runtime_status_pb option \<Rightarrow> tui_preset list \<Rightarrow> 'v services_tab \<Rightarrow> 'v services_tab" where
  "sync_runtimes status presets t =
     (let names = map rpp_name (filter (\<lambda>p. rpp_state p = ''running'') (status_presets status))
      in t\<lparr>vt_runtimes := names,
           vt_selected := (vt_selected t)(panel_models := vt_selected t panel_models mod max 1 (int (length names))),
           vt_autostart := (\<lambda>name. case map_of (rev (map (\<lambda>p. (pv_name p, pv_autostart p)) presets)) name of Some b \<Rightarrow> b | None \<Rightarrow> False)\<rparr>)"

text \<open>What \<^verbatim>\<open>View\<close> does before it draws: the list of the runtimes, and the name under the cursor of the models panel.\<close>

definition services_view :: "dashboard_snapshot \<Rightarrow> 'v services_tab \<Rightarrow> (string \<times> 'v services_tab) option" where
  "services_view sn t =
     (let t1 = sync_runtimes (dn_runtime sn) (dn_presets sn) t in
      if vt_runtimes t1 = [] then Some ([], t1)
      else case go_index (vt_runtimes t1) (vt_selected t1 panel_models) of None \<Rightarrow> None | Some target \<Rightarrow> Some (target, t1))"

subsection \<open>The models tab (\<^verbatim>\<open>models.go\<close>)\<close>

record ('t, 'p) models_tab =
  mt_presets :: 't
  mt_models :: 't
  mt_focus_models :: bool
  mt_preset_status :: 'p
  mt_model_status :: 'p
  mt_keys :: key_map

definition preset_unavailable :: "tui_preset \<Rightarrow> bool" where
  "preset_unavailable p \<longleftrightarrow> pv_source_status p = ''unavailable''"

definition preset_model :: "tui_preset \<Rightarrow> string" where
  "preset_model p = (let model = base_of (pv_model p) in if model \<noteq> ''.'' \<and> model \<noteq> [] then model else ''-'')"

definition preset_running :: "runtime_status_pb option \<Rightarrow> string \<Rightarrow> bool" where
  "preset_running status name \<longleftrightarrow> list_ex (\<lambda>p. rpp_name p = name \<and> rpp_state p = ''running'') (status_presets status)"

definition preset_state :: "tui_preset \<Rightarrow> runtime_status_pb option \<Rightarrow> string" where
  "preset_state p status =
     (if preset_unavailable p then ''Unavailable'' else if preset_running status (pv_name p) then ''Running'' else ''Stopped'')"

definition model_use :: "local_model_pb \<Rightarrow> string" where
  "model_use m = (if lmp_used_by m \<noteq> [] then ''in: '' @ join_with CHR '','' (lmp_used_by m) else [])"

definition set_rows :: "('v, 't, 'p, 's) ui_lib \<Rightarrow> dashboard_snapshot \<Rightarrow> ('t, 'p) models_tab \<Rightarrow> ('t, 'p) models_tab" where
  "set_rows ul sn t =
     t\<lparr>mt_presets := ul_set_rows ul (map (\<lambda>p. [pv_name p, preset_model p, preset_state p (dn_runtime sn)]) (dn_presets sn)) (mt_presets t),
       mt_models := ul_set_rows ul (map (\<lambda>m. [lmp_filename m, ul_format_bytes ul (lmp_size m), model_use m]) (dn_local_models sn)) (mt_models t)\<rparr>"

definition cleanup_selected :: "('v, 't, 'p, 's) ui_lib \<Rightarrow> tui_preset \<Rightarrow> bool \<Rightarrow> ('t, 'p) models_tab \<Rightarrow> tui_msg option \<times> ('t, 'p) models_tab" where
  "cleanup_selected ul p confirm t =
     (case ul_confirm ul (pv_name p) confirm (mt_preset_status t) of
        (go, st) \<Rightarrow> (if go then Some (PresetCleanupRequest (pv_name p)) else None, t\<lparr>mt_preset_status := st\<rparr>))"

definition delete_selected :: "('v, 't, 'p, 's) ui_lib \<Rightarrow> local_model_pb \<Rightarrow> bool \<Rightarrow> ('t, 'p) models_tab \<Rightarrow> tui_msg option \<times> ('t, 'p) models_tab" where
  "delete_selected ul m confirm t =
     (if lmp_path m = [] then (None, t)
      else case ul_confirm ul (lmp_path m) confirm (mt_model_status t) of
             (go, st) \<Rightarrow> (if go then Some (ModelDeleteRequest (lmp_path m)) else None, t\<lparr>mt_model_status := st\<rparr>))"

definition update_presets ::
  "('v, 't, 'p, 's) ui_lib \<Rightarrow> string \<Rightarrow> dashboard_snapshot \<Rightarrow> ('t, 'p) models_tab \<Rightarrow> (tui_msg option \<times> ('t, 'p) models_tab) option" where
  "update_presets ul key sn t =
     (let presets = dn_presets sn; k = mt_keys t; sel = min (ul_cursor ul (mt_presets t)) (int (length presets) - 1) in
      if presets = [] then Some (None, t)
      else if key \<in> set (km_up k)
      then Some (None, t\<lparr>mt_presets := ul_move_up ul (mt_presets t), mt_preset_status := ul_clear ul (mt_preset_status t)\<rparr>)
      else if key \<in> set (km_down k)
      then Some (None, t\<lparr>mt_presets := ul_move_down ul (mt_presets t), mt_preset_status := ul_clear ul (mt_preset_status t)\<rparr>)
      else if key = ''esc'' then Some (None, t\<lparr>mt_preset_status := ul_disarm ul (mt_preset_status t)\<rparr>)
      else if key \<notin> {''d'', ''y''} \<and> key \<notin> set (km_run_action k) then Some (None, t)
      else case go_index presets sel of
             None \<Rightarrow> None
           | Some p \<Rightarrow>
               if key \<in> {''d'', ''y''} \<and> preset_unavailable p then Some (cleanup_selected ul p (key = ''y'') t)
               else if key \<in> set (km_run_action k) \<and> \<not> preset_running (dn_runtime sn) (pv_name p)
               then (if preset_unavailable p
                     then Some (None, t\<lparr>mt_preset_status := ul_set_error ul (pv_source_error p) (mt_preset_status t)\<rparr>)
                     else Some (Some (PresetStartRequest (pv_name p)), t))
               else Some (None, t))"

definition update_models ::
  "('v, 't, 'p, 's) ui_lib \<Rightarrow> string \<Rightarrow> local_model_pb list \<Rightarrow> ('t, 'p) models_tab \<Rightarrow> (tui_msg option \<times> ('t, 'p) models_tab) option" where
  "update_models ul key models t =
     (let k = mt_keys t; sel = min (ul_cursor ul (mt_models t)) (int (length models) - 1) in
      if key \<in> set (km_up k)
      then Some (None, t\<lparr>mt_models := ul_move_up ul (mt_models t), mt_model_status := ul_disarm ul (mt_model_status t)\<rparr>)
      else if key \<in> set (km_down k)
      then Some (None, t\<lparr>mt_models := ul_move_down ul (mt_models t), mt_model_status := ul_disarm ul (mt_model_status t)\<rparr>)
      else if key = ''esc'' then Some (None, t\<lparr>mt_model_status := ul_disarm ul (mt_model_status t)\<rparr>)
      else if key \<in> {''d'', ''y''} \<and> models \<noteq> []
      then (case go_index models sel of None \<Rightarrow> None | Some m \<Rightarrow> Some (delete_selected ul m (key = ''y'') t))
      else Some (None, t))"

definition models_key ::
  "('v, 't, 'p, 's) ui_lib \<Rightarrow> string \<Rightarrow> dashboard_snapshot \<Rightarrow> ('t, 'p) models_tab \<Rightarrow> (tui_msg option \<times> ('t, 'p) models_tab) option" where
  "models_key ul key sn t =
     (let t1 = set_rows ul sn t;
          t2 = (if dn_local_models sn = [] then t1\<lparr>mt_focus_models := False\<rparr>
                else if dn_presets sn = [] then t1\<lparr>mt_focus_models := True\<rparr> else t1);
          k = mt_keys t2 in
      if key \<in> set (km_next_panel k) \<or> key \<in> set (km_previous_panel k)
      then Some (None, t2\<lparr>mt_focus_models := \<not> mt_focus_models t2, mt_model_status := ul_disarm ul (mt_model_status t2)\<rparr>)
      else if mt_focus_models t2 then update_models ul key (dn_local_models sn) t2
      else update_presets ul key sn t2)"

definition models_start_result :: "('v, 't, 'p, 's) ui_lib \<Rightarrow> msg option \<Rightarrow> ('t, 'p) models_tab \<Rightarrow> ('t, 'p) models_tab" where
  "models_start_result ul err t = t\<lparr>mt_preset_status := ul_set_result ul err ''preset started'' (mt_preset_status t)\<rparr>"

definition models_delete_result :: "('v, 't, 'p, 's) ui_lib \<Rightarrow> msg option \<Rightarrow> ('t, 'p) models_tab \<Rightarrow> ('t, 'p) models_tab" where
  "models_delete_result ul err t = t\<lparr>mt_model_status := ul_set_result ul err ''model deleted'' (mt_model_status t)\<rparr>"

definition models_cleanup_result :: "('v, 't, 'p, 's) ui_lib \<Rightarrow> msg option \<Rightarrow> ('t, 'p) models_tab \<Rightarrow> ('t, 'p) models_tab" where
  "models_cleanup_result ul err t = t\<lparr>mt_preset_status := ul_set_result ul err ''preset cleaned up'' (mt_preset_status t)\<rparr>"

text \<open>What the view of the tab selects for its detail panel.\<close>

definition selected_preset :: "('v, 't, 'p, 's) ui_lib \<Rightarrow> tui_preset list \<Rightarrow> ('t, 'p) models_tab \<Rightarrow> tui_preset option option" where
  "selected_preset ul presets t =
     (if presets = [] then Some None
      else map_option Some (go_index presets (min (ul_cursor ul (mt_presets t)) (int (length presets) - 1))))"

definition selected_model :: "('v, 't, 'p, 's) ui_lib \<Rightarrow> local_model_pb list \<Rightarrow> ('t, 'p) models_tab \<Rightarrow> local_model_pb option option" where
  "selected_model ul models t =
     (if models = [] then Some None
      else map_option Some (go_index models (min (ul_cursor ul (mt_models t)) (int (length models) - 1))))"

fun join_text :: "string \<Rightarrow> string list \<Rightarrow> string" where
  "join_text sep [] = []"
| "join_text sep [s] = s"
| "join_text sep (s # t # ts) = s @ sep @ join_text sep (t # ts)"

text \<open>The question that is asked before a model is deleted.\<close>

fun pending_delete_warning :: "string \<Rightarrow> local_model_pb list \<Rightarrow> string" where
  "pending_delete_warning pending [] = []"
| "pending_delete_warning pending (m # ms) =
     (if lmp_path m = pending
      then (if lmp_model_paths m \<noteq> []
            then ''Delete model and Presets '' @ join_text '', '' (lmp_model_paths m) @ ''? Press d or y to confirm, esc to cancel''
            else if lmp_models_dirs m \<noteq> []
            then ''Model discovered by '' @ join_text '', '' (lmp_models_dirs m) @
                 ''; directory Presets remain. Press d or y to confirm, esc to cancel''
            else ''Delete '' @ lmp_filename m @ ''? Press d or y to confirm, esc to cancel'')
      else pending_delete_warning pending ms)"

subsection \<open>The system tab and the logs tab\<close>

definition system_key :: "('v, 't, 'p, 's) ui_lib \<Rightarrow> key_map \<Rightarrow> string \<Rightarrow> 'v \<Rightarrow> 'v" where
  "system_key ul k key vp =
     (let vp1 = (if key \<in> set (km_up k) then ul_scroll_up ul vp else vp)
      in if key \<in> set (km_down k) then ul_scroll_down ul vp1 else vp1)"

text \<open>The panes of the logs are counted: the daemon, llama-server.\<close>

definition pane_count :: nat where "pane_count = 2"

record 's logs_tab =
  gt_focus :: nat
  gt_view :: "nat \<Rightarrow> 's"

definition is_searching :: "('v, 't, 'p, 's) ui_lib \<Rightarrow> 's logs_tab \<Rightarrow> bool" where
  "is_searching ul t = ul_searching ul (gt_view t (gt_focus t))"

definition logs_key :: "('v, 't, 'p, 's) ui_lib \<Rightarrow> key_map \<Rightarrow> string \<Rightarrow> 's logs_tab \<Rightarrow> 's logs_tab" where
  "logs_key ul k key t =
     (if \<not> is_searching ul t \<and> key \<in> set (km_next_panel k) then t\<lparr>gt_focus := (gt_focus t + 1) mod pane_count\<rparr>
      else if \<not> is_searching ul t \<and> key \<in> set (km_previous_panel k) then t\<lparr>gt_focus := (gt_focus t + pane_count - 1) mod pane_count\<rparr>
      else t\<lparr>gt_view := (gt_view t)(gt_focus t := ul_search_key ul key (gt_view t (gt_focus t)))\<rparr>)"

end
