(* ===== verification/TuiModel.thy ===== *)
theory TuiModel
  imports TuiTabs Cli StateMachine
begin

section \<open>The dashboard and its backend (\<^verbatim>\<open>adapters/tui/tabs\<close>: \<open>selector.go\<close>, \<open>page.go\<close>, \<open>backend.go\<close>, \<open>net.go\<close>, \<open>logs.go\<close>)\<close>

text \<open>
  \<open>model_update\<close> is \<^verbatim>\<open>Model.Update\<close>: a message changes the model and issues commands. \<open>cmd_answers\<close> says which message a command may end with, and
  \<open>perform_poll\<close>, \<open>perform_run\<close> and \<open>perform_autostart\<close> are what the three commands with logic of their own do to the machine. The order in
  which the four requests of a poll are answered is fixed here; they only read.
\<close>

subsection \<open>The dashboard (\<^verbatim>\<open>selector.go\<close>)\<close>

record poll_result =
  po_snapshot :: dashboard_snapshot
  po_config_ok :: bool
  po_runtime_ok :: bool
  po_resources_ok :: bool
  po_presets_ok :: bool
  po_models_ok :: bool
  po_log_ok :: bool

datatype tab = TabServices | TabModels | TabSystem | TabLogs

datatype model_msg =
    TabMsg tui_msg
  | PollDone poll_result
  | AutostartDone "string list" "(string \<times> msg) list"
  | OtherMsg

datatype tui_cmd =
    Emit tui_msg
  | RunCmd nat int string config
  | PollCmd
  | TickCmd
  | SpinnerCmd
  | StartPresetCmd string
  | DeleteModelCmd string
  | CleanupPresetCmd string
  | PresetAutostartCmd string bool
  | AutostartCmd

record ('v, 't, 'p, 's) tui_model =
  tm_active :: tab
  tm_services :: "'v services_tab"
  tm_models :: "('t, 'p) models_tab"
  tm_system :: 'v
  tm_logs :: "'s logs_tab"
  tm_keys :: key_map
  tm_snapshot :: dashboard_snapshot
  tm_refreshing :: bool
  tm_notice :: msg

definition merge_snapshot :: "dashboard_snapshot \<Rightarrow> poll_result \<Rightarrow> dashboard_snapshot" where
  "merge_snapshot current r =
     (po_snapshot r)\<lparr>
       dn_config := (if po_config_ok r then dn_config (po_snapshot r) else dn_config current),
       dn_runtime := (if po_runtime_ok r then dn_runtime (po_snapshot r) else dn_runtime current),
       dn_resources := (if po_resources_ok r then dn_resources (po_snapshot r) else dn_resources current),
       dn_presets := (if po_presets_ok r then dn_presets (po_snapshot r) else dn_presets current),
       dn_local_models := (if po_models_ok r then dn_local_models (po_snapshot r) else dn_local_models current),
       dn_daemon_log := (if po_log_ok r then dn_daemon_log (po_snapshot r) else dn_daemon_log current),
       dn_llama_log := (if po_log_ok r then dn_llama_log (po_snapshot r) else dn_llama_log current)\<rparr>"

definition refresh :: "('v, 't, 'p, 's) tui_model \<Rightarrow> tui_cmd list \<times> ('v, 't, 'p, 's) tui_model" where
  "refresh m = (if tm_refreshing m then ([], m) else ([PollCmd], m\<lparr>tm_refreshing := True\<rparr>))"

definition tui_init :: "('v, 't, 'p, 's) tui_model \<Rightarrow> tui_cmd list \<times> ('v, 't, 'p, 's) tui_model" where
  "tui_init m = (case refresh m of (cs, m1) \<Rightarrow> ([AutostartCmd] @ cs @ [TickCmd], m1))"

definition autostart_notice :: "string list \<Rightarrow> (string \<times> msg) list \<Rightarrow> msg" where
  "autostart_notice begun errs =
     (let parts = map (\<lambda>name. [Lit (''started '' @ name)]) begun @
                  map (\<lambda>(name, e). Lit (''failed to start '' @ name @ '': '') # e) errs
      in case parts of [] \<Rightarrow> [] | p # ps \<Rightarrow> p @ concat (map (\<lambda>q. Lit ''; '' # q) ps))"

definition update_autostart ::
  "string list \<Rightarrow> (string \<times> msg) list \<Rightarrow> ('v, 't, 'p, 's) tui_model \<Rightarrow> tui_cmd list \<times> ('v, 't, 'p, 's) tui_model" where
  "update_autostart begun errs m =
     (let m1 = m\<lparr>tm_notice := autostart_notice begun errs\<rparr> in if begun \<noteq> [] then refresh m1 else ([], m1))"

definition advance_spinner :: "('v, 't, 'p, 's) tui_model \<Rightarrow> tui_cmd list" where
  "advance_spinner m = (if any_stopping (tm_services m) then [SpinnerCmd] else [])"

definition emit :: "tui_msg option \<Rightarrow> tui_cmd list" where
  "emit c = (case c of None \<Rightarrow> [] | Some x \<Rightarrow> [Emit x])"

definition update_key ::
  "('v, 't, 'p, 's) ui_lib \<Rightarrow> string \<Rightarrow> ('v, 't, 'p, 's) tui_model \<Rightarrow> (tui_cmd list \<times> ('v, 't, 'p, 's) tui_model) option" where
  "update_key ul key m =
     (if (tm_active m \<noteq> TabLogs \<or> \<not> is_searching ul (tm_logs m)) \<and> key \<in> set (km_refresh (tm_keys m)) then Some (refresh m)
      else case tm_active m of
        TabServices \<Rightarrow> map_option (\<lambda>(c, t). (emit c, m\<lparr>tm_services := t\<rparr>)) (services_key ul key (tm_services m))
      | TabModels \<Rightarrow> map_option (\<lambda>(c, t). (emit c, m\<lparr>tm_models := t\<rparr>)) (models_key ul key (tm_snapshot m) (tm_models m))
      | TabSystem \<Rightarrow> Some ([], m\<lparr>tm_system := system_key ul (tm_keys m) key (tm_system m)\<rparr>)
      | TabLogs \<Rightarrow> Some ([], m\<lparr>tm_logs := logs_key ul (tm_keys m) key (tm_logs m)\<rparr>))"

fun tab_message ::
  "('v, 't, 'p, 's) ui_lib \<Rightarrow> tui_msg \<Rightarrow> ('v, 't, 'p, 's) tui_model \<Rightarrow> (tui_cmd list \<times> ('v, 't, 'p, 's) tui_model) option" where
  "tab_message ul (KeyPress key) m = update_key ul key m"
| "tab_message ul DashboardTick m = Some (case refresh m of (cs, m1) \<Rightarrow> (cs @ [TickCmd], m1))"
| "tab_message ul SpinnerTick m = Some (advance_spinner m, m)"
| "tab_message ul (ActionRequest target idx name) m =
     Some ([RunCmd target idx name (dn_config (tm_snapshot m))] @
       (if (target = panel_daemon \<or> target = panel_http) \<and> idx = 1 then [SpinnerCmd] else []), m)"
| "tab_message ul (ActionResult target idx err) m = Some (refresh (m\<lparr>tm_services := services_result target idx err (tm_services m)\<rparr>))"
| "tab_message ul (PresetStartRequest name) m = Some ([StartPresetCmd name], m)"
| "tab_message ul (PresetStartResult err) m = Some (refresh (m\<lparr>tm_models := models_start_result ul err (tm_models m)\<rparr>))"
| "tab_message ul (ModelDeleteRequest path) m = Some ([DeleteModelCmd path], m)"
| "tab_message ul (ModelDeleteResult err) m = Some (refresh (m\<lparr>tm_models := models_delete_result ul err (tm_models m)\<rparr>))"
| "tab_message ul (PresetCleanupRequest name) m = Some ([CleanupPresetCmd name], m)"
| "tab_message ul (PresetCleanupResult err) m = Some (refresh (m\<lparr>tm_models := models_cleanup_result ul err (tm_models m)\<rparr>))"
| "tab_message ul (PresetAutostartRequest name enabled) m = Some ([PresetAutostartCmd name enabled], m)"
| "tab_message ul (PresetAutostartResult enabled err) m =
     Some (refresh (m\<lparr>tm_services := set_autostart_result enabled err (tm_services m)\<rparr>))"

fun model_update ::
  "('v, 't, 'p, 's) ui_lib \<Rightarrow> model_msg \<Rightarrow> ('v, 't, 'p, 's) tui_model \<Rightarrow> (tui_cmd list \<times> ('v, 't, 'p, 's) tui_model) option" where
  "model_update ul (TabMsg x) m = tab_message ul x m"
| "model_update ul (PollDone r) m = Some ([], m\<lparr>tm_snapshot := merge_snapshot (tm_snapshot m) r, tm_refreshing := False\<rparr>)"
| "model_update ul (AutostartDone begun errs) m = Some (update_autostart begun errs m)"
| "model_update ul OtherMsg m = Some ([], m)"

text \<open>The footer: the warnings in the order of their names.\<close>

definition footer_warning :: "dashboard_snapshot \<Rightarrow> msg" where
  "footer_warning sn =
     (let names = sort (map fst (dn_warnings sn));
          parts = map (\<lambda>name. Lit (name @ '': '') # (case map_of (dn_warnings sn) name of Some t \<Rightarrow> t | None \<Rightarrow> [])) names
      in case parts of [] \<Rightarrow> [] | p # ps \<Rightarrow> p @ concat (map (\<lambda>q. Lit '', '' # q) ps))"

subsection \<open>Pages (\<^verbatim>\<open>page.go\<close>)\<close>

definition page_update ::
  "('v, 't, 'p, 's) ui_lib \<Rightarrow> tab \<Rightarrow> model_msg \<Rightarrow> ('v, 't, 'p, 's) tui_model \<Rightarrow> (tui_cmd list \<times> ('v, 't, 'p, 's) tui_model) option" where
  "page_update ul tab x m = model_update ul x (m\<lparr>tm_active := tab\<rparr>)"

text \<open>What \<^verbatim>\<open>View\<close> of a page changes; the lines that a search view is given to show stay in the library.\<close>

definition page_view :: "('v, 't, 'p, 's) ui_lib \<Rightarrow> tab \<Rightarrow> ('v, 't, 'p, 's) tui_model \<Rightarrow> ('v, 't, 'p, 's) tui_model option" where
  "page_view ul tab m =
     (let m1 = m\<lparr>tm_active := tab\<rparr>; sn = tm_snapshot m in
      case tab of
        TabServices \<Rightarrow> map_option (\<lambda>(_, t). m1\<lparr>tm_services := t\<rparr>) (services_view sn (tm_services m))
      | TabModels \<Rightarrow>
          (let t = set_rows ul sn (tm_models m) in
           if mt_focus_models t then map_option (\<lambda>_. m1\<lparr>tm_models := t\<rparr>) (selected_model ul (dn_local_models sn) t)
           else map_option (\<lambda>_. m1\<lparr>tm_models := t\<rparr>) (selected_preset ul (dn_presets sn) t))
      | _ \<Rightarrow> Some m1)"

definition capturing_input :: "('v, 't, 'p, 's) ui_lib \<Rightarrow> tab \<Rightarrow> ('v, 't, 'p, 's) tui_model \<Rightarrow> bool" where
  "capturing_input ul tab m \<longleftrightarrow> tab = TabLogs \<and> is_searching ul (tm_logs m)"

datatype status_level = LevelInfo | LevelWarning | LevelSuccess

definition tui_status :: "('v, 't, 'p, 's) tui_model \<Rightarrow> (int \<Rightarrow> string) \<Rightarrow> msg \<times> status_level" where
  "tui_status m clock =
     (let warning = footer_warning (tm_snapshot m);
          (txt, level) =
            (if \<not> list_all frag_empty warning then (warning, LevelWarning)
             else if \<not> list_all frag_empty (tm_notice m) then (tm_notice m, LevelSuccess) else ([Lit ''Ready''], LevelInfo));
          refreshed = (if dn_refreshed (tm_snapshot m) = 0 then ''--:--:--'' else clock (dn_refreshed (tm_snapshot m)))
      in (txt @ [Lit ''   Last refreshed: '', Str refreshed], level))"

subsection \<open>Commands and their answers\<close>

fun cmd_answers :: "tui_cmd \<Rightarrow> model_msg \<Rightarrow> bool" where
  "cmd_answers (Emit x) y = (y = TabMsg x)"
| "cmd_answers (RunCmd target idx name cfg) y = (\<exists>err. y = TabMsg (ActionResult target idx err))"
| "cmd_answers PollCmd y = (\<exists>r. y = PollDone r)"
| "cmd_answers TickCmd y = (y = TabMsg DashboardTick)"
| "cmd_answers SpinnerCmd y = (y = TabMsg SpinnerTick)"
| "cmd_answers (StartPresetCmd name) y = (\<exists>err. y = TabMsg (PresetStartResult err))"
| "cmd_answers (DeleteModelCmd path) y = (\<exists>err. y = TabMsg (ModelDeleteResult err))"
| "cmd_answers (CleanupPresetCmd name) y = (\<exists>err. y = TabMsg (PresetCleanupResult err))"
| "cmd_answers (PresetAutostartCmd name enabled) y = (\<exists>err. y = TabMsg (PresetAutostartResult enabled err))"
| "cmd_answers AutostartCmd y = (\<exists>begun errs. y = AutostartDone begun errs)"

subsection \<open>The log of the daemon (\<^verbatim>\<open>logs.go\<close>)\<close>

definition max_log_lines :: nat where "max_log_lines = 2000"

text \<open>\<open>decode\<close> is the JSON library: the fields of an object with their values, texts apart.\<close>

datatype json_value = JsonText string | JsonNumber string | JsonOther string

definition text_field :: "(string \<times> json_value) list \<Rightarrow> string \<Rightarrow> string option" where
  "text_field raw key = (case map_of raw key of Some (JsonText s) \<Rightarrow> Some s | _ \<Rightarrow> None)"

definition text_or_empty :: "(string \<times> json_value) list \<Rightarrow> string \<Rightarrow> string" where
  "text_or_empty raw key = (case text_field raw key of Some s \<Rightarrow> s | None \<Rightarrow> [])"

fun json_text :: "json_value \<Rightarrow> string" where
  "json_text (JsonText s) = s"
| "json_text (JsonNumber s) = s"
| "json_text (JsonOther s) = s"

definition zap_known :: "string list" where "zap_known = [''level'', ''ts'', ''msg'', ''caller'', ''stacktrace'']"

definition parse_zap_line :: "(string \<Rightarrow> (string \<times> json_value) list option) \<Rightarrow> string \<Rightarrow> zap_entry option" where
  "parse_zap_line decode line =
     (case decode line of
        None \<Rightarrow> None
      | Some raw \<Rightarrow>
          (case text_field raw ''level'' of
             None \<Rightarrow> None
           | Some level \<Rightarrow>
               if level = [] then None
               else Some \<lparr>ze_level = level, ze_time = (case map_of raw ''ts'' of Some (JsonNumber n) \<Rightarrow> n | _ \<Rightarrow> ''0''),
                      ze_msg = text_or_empty raw ''msg'', ze_caller = text_or_empty raw ''caller'',
                      ze_stacktrace = text_or_empty raw ''stacktrace'',
                      ze_fields = map (\<lambda>(k, v). (k, json_text v)) (filter (\<lambda>(k, v). k \<notin> set zap_known) raw)\<rparr>))"

definition log_view_lines :: "string \<Rightarrow> string list" where
  "log_view_lines txt =
     (let lines = split_on newline txt
      in if length lines > max_log_lines then drop (length lines - max_log_lines) lines else lines)"

definition split_log :: "(string \<Rightarrow> (string \<times> json_value) list option) \<Rightarrow> string \<Rightarrow> zap_entry list \<times> string list" where
  "split_log decode txt =
     (let shown = filter (\<lambda>line. trim_space line \<noteq> []) (log_view_lines txt)
      in (List.map_filter (parse_zap_line decode) shown, filter (\<lambda>line. parse_zap_line decode line = None) shown))"

definition read_daemon_log :: "host_env \<Rightarrow> (string \<Rightarrow> (string \<times> json_value) list option) \<Rightarrow> ('z, zap_entry list \<times> string list) io" where
  "read_daemon_log env decode =
     bindE (tail_log_lines env ''llamarig'' (int max_log_lines)) (\<lambda>txt. retE (split_log decode txt))"

subsection \<open>Polling (\<^verbatim>\<open>backend.go\<close>)\<close>

record ('z, 'p) backend =
  bk_service :: "'z machine_ext service option"
  bk_link :: "'z machine_scheme \<Rightarrow> gerror option"
  bk_text :: "call_error \<Rightarrow> msg"
  bk_env :: host_env
  bk_processes :: "('z, 'p) process_lib"
  bk_decode_config :: "config \<Rightarrow> string \<Rightarrow> gerror + config"
  bk_decode_log :: "string \<Rightarrow> (string \<times> json_value) list option"
  bk_config_path :: string
  bk_log_path :: string
  bk_clock :: log_clock
  bk_exe :: "gerror + string"
  bk_open_url :: "string \<Rightarrow> ('z, unit) mio"
  bk_fuel :: nat

text \<open>The zero value of the configuration.\<close>

definition zero_config :: config where
  "zero_config =
    \<lparr>cfg_listen_addr = [], cfg_model_storage_dir = [], cfg_catalog_cache_dir = [], cfg_catalog_cache_ttl = 0, cfg_log_archive_retention = 0,
     cfg_startup_services = None,
     cfg_router = \<lparr>rc_executable = [], rc_host = [], rc_port = 0, rc_models_max = 0, rc_default_preset = [], rc_autostart_presets = [],
       rc_stop_timeout = 0, rc_env = [], rc_readiness_timeout = 0, rc_readiness_interval = 0\<rparr>,
     cfg_security = \<lparr>sc_auth_token_env = [], sc_disable_origin_check = False\<rparr>\<rparr>"

definition stopped_status :: detached_status where
  "stopped_status = \<lparr>ds_running = False, ds_pid = 0, ds_uptime = 0\<rparr>"

definition no_control :: msg where "no_control = [Lit ''control socket not available'']"

text \<open>A result beside its error: the value, or what is left of it, and the text of the error.\<close>

definition attempt :: "('w, 'e, 'a) eff \<Rightarrow> ('w, 'f, 'e + 'a) eff" where
  "attempt m w = (case m w of (r, w') \<Rightarrow> (Inr r, w'))"

definition tui_preset_entry :: "string \<times> string \<Rightarrow> tui_preset \<Rightarrow> tui_preset" where
  "tui_preset_entry kv v =
     (if fst kv = ''model'' then v\<lparr>pv_model := snd kv\<rparr> else if fst kv = ''models-dir'' then v\<lparr>pv_models_dir := snd kv\<rparr> else v)"

definition presets_to_views :: "preset_pb list \<Rightarrow> tui_preset list" where
  "presets_to_views ps =
     map (\<lambda>p. fold tui_preset_entry (pp_entries p)
       \<lparr>pv_name = pp_name p, pv_model = [], pv_models_dir = [], pv_source_status = pp_source_status p, pv_source_error = pp_source_error p,
        pv_autostart = pp_autostart p\<rparr>) ps"

definition add_warning :: "string \<Rightarrow> msg option \<Rightarrow> (string \<times> msg) list \<Rightarrow> (string \<times> msg) list" where
  "add_warning source err warnings = (case err of None \<Rightarrow> warnings | Some t \<Rightarrow> AList.update source t warnings)"

definition call_warning :: "('z, 'p) backend \<Rightarrow> call_error + 'a \<Rightarrow> msg option" where
  "call_warning b r = (case r of Inl e \<Rightarrow> Some (bk_text b e) | Inr _ \<Rightarrow> None)"

definition io_warning :: "gerror + 'a \<Rightarrow> msg option" where
  "io_warning r = (case r of Inl e \<Rightarrow> Some [TextOf e] | Inr _ \<Rightarrow> None)"

definition is_ok :: "'e + 'a \<Rightarrow> bool" where "is_ok r = (\<not> isl r)"

definition value_or :: "'a \<Rightarrow> 'e + 'a \<Rightarrow> 'a" where "value_or d r = (case r of Inl _ \<Rightarrow> d | Inr x \<Rightarrow> x)"

definition perform_poll :: "('z, 'p) backend \<Rightarrow> ('z machine_scheme control, gerror, poll_result) eff" where
  "perform_poll b =
     bindE (on_world get_time) (\<lambda>now.
     bindE (on_world (attempt (status_detached (bk_env b) (bk_processes b) ''llamarig''))) (\<lambda>daemon.
     bindE (on_world (attempt (status_detached (bk_env b) (bk_processes b) ''gateway''))) (\<lambda>gw.
     bindE (on_world (attempt (read_daemon_log (bk_env b) (bk_decode_log b)))) (\<lambda>logs.
     bindE (on_world (attempt (load_config (bk_decode_config b) (bk_env b)))) (\<lambda>cfg.
       let sn = \<lparr>dn_daemon = value_or stopped_status daemon, dn_gateway = value_or stopped_status gw, dn_config = value_or zero_config cfg,
                 dn_runtime = None, dn_resources = None, dn_presets = [], dn_local_models = [],
                 dn_warnings = add_warning ''config'' (io_warning cfg) (add_warning ''logs'' (io_warning logs) []), dn_refreshed = now,
                 dn_config_path = bk_config_path b, dn_log_path = bk_log_path b,
                 dn_daemon_log = fst (value_or ([], []) logs), dn_llama_log = snd (value_or ([], []) logs)\<rparr>;
           res = \<lparr>po_snapshot = sn, po_config_ok = is_ok cfg, po_runtime_ok = False, po_resources_ok = False, po_presets_ok = False,
                  po_models_ok = False, po_log_ok = is_ok logs\<rparr>
       in case bk_service b of
            None \<Rightarrow> retE (res\<lparr>po_snapshot := sn\<lparr>dn_warnings := AList.update ''control'' no_control (dn_warnings sn)\<rparr>\<rparr>)
          | Some s \<Rightarrow>
              bindE (attempt (dialled (bk_link b) (rpc_runtime_status s))) (\<lambda>rt.
              bindE (attempt (dialled (bk_link b) (rpc_get_signals s))) (\<lambda>sg.
              bindE (attempt (dialled (bk_link b) (rpc_list_presets s))) (\<lambda>pl.
              bindE (attempt (dialled (bk_link b) (rpc_list_local_models s))) (\<lambda>lm.
                retE (res\<lparr>po_snapshot := sn\<lparr>
                    dn_runtime := value_or None (map_sum id Some rt), dn_resources := value_or None (map_sum id Some sg),
                    dn_presets := value_or [] (map_sum id (\<lambda>r. presets_to_views (lpr_presets r)) pl), dn_local_models := value_or [] lm,
                    dn_warnings := add_warning ''models'' (call_warning b lm) (add_warning ''presets'' (call_warning b pl)
                      (add_warning ''resources'' (call_warning b sg) (add_warning ''runtime'' (call_warning b rt) (dn_warnings sn))))\<rparr>,
                  po_runtime_ok := is_ok rt, po_resources_ok := is_ok sg, po_presets_ok := is_ok pl, po_models_ok := is_ok lm\<rparr>))))))))))"

subsection \<open>Actions (\<^verbatim>\<open>backend.go\<close>, \<^verbatim>\<open>net.go\<close>)\<close>

definition public_base_url :: "string \<Rightarrow> string" where
  "public_base_url address =
     (let (host0, port) = (case split_host_port address of Inl _ \<Rightarrow> (address, []) | Inr hp \<Rightarrow> hp);
          host1 = trim_right_set (trim_left_set host0 ''[]'') ''[]'';
          host = (if host1 = [] \<or> host1 = ''0.0.0.0'' \<or> host1 = ''::'' \<or> host1 = ''-'' then ''127.0.0.1'' else host1)
      in if port = [] then ''http://'' @ (if CHR '':'' \<in> set host then ''['' @ host @ '']'' else host)
         else ''http://'' @ GoNet.join_host_port host port)"

definition run_process_action :: "('z, 'p) backend \<Rightarrow> string \<Rightarrow> int \<Rightarrow> string list \<Rightarrow> ('z, unit) mio" where
  "run_process_action b name idx args =
     (if idx = 0 then start_detached (bk_env b) (bk_clock b) (bk_exe b) name args
      else if idx = 1
      then stop_detached (bk_fuel b) (bk_env b) (bk_processes b) (load_config (bk_decode_config b) (bk_env b)) name
      else retE ())"

text \<open>The list of services that is to be recorded, when it differs from the one in force.\<close>

definition startup_base :: "config \<Rightarrow> string list" where
  "startup_base cfg = (if services_of cfg = [] then default_startup_services else services_of cfg)"

definition desired_services :: "config \<Rightarrow> bool \<Rightarrow> string list" where
  "desired_services cfg enabled =
     filter (\<lambda>s. s \<noteq> startup_service_web) (startup_base cfg) @ (if enabled then [startup_service_web] else [])"

definition lift_call :: "('z, 'p) backend \<Rightarrow> ('w, call_error, 'a) eff \<Rightarrow> ('w, msg, 'a) eff" where
  "lift_call b = mapErrE (bk_text b)"

definition lift_io :: "('z, 'a) mio \<Rightarrow> ('z machine_scheme control, msg, 'a) eff" where
  "lift_io f = mapErrE (\<lambda>e. [TextOf e]) (on_world f)"

definition persist_gateway_startup :: "('z, 'p) backend \<Rightarrow> config \<Rightarrow> bool \<Rightarrow> ('z machine_scheme control, msg, unit) eff" where
  "persist_gateway_startup b cfg enabled =
     (if desired_services cfg enabled = startup_base cfg then retE ()
      else case bk_service b of
             None \<Rightarrow> failE no_control
           | Some s \<Rightarrow>
               bindE (lift_call b (dialled (bk_link b) (rpc_set_startup_services s (desired_services cfg enabled)))) (\<lambda>_. retE ()))"

definition perform_run :: "('z, 'p) backend \<Rightarrow> nat \<Rightarrow> int \<Rightarrow> string \<Rightarrow> config \<Rightarrow> ('z machine_scheme control, msg, unit) eff" where
  "perform_run b target idx name cfg =
     (if target = panel_daemon then lift_io (run_process_action b ''llamarig'' idx [''serve''])
      else if target = panel_http then
        (if idx = 2 then lift_io (bk_open_url b (public_base_url (cfg_listen_addr cfg)))
         else bindE (lift_io (run_process_action b ''gateway'' idx [''gateway'', ''--foreground''])) (\<lambda>_. persist_gateway_startup b cfg (idx = 0)))
      else if target = panel_models then
        (case bk_service b of
           None \<Rightarrow> failE no_control
         | Some s \<Rightarrow> bindE (lift_call b (dialled (bk_link b) (rpc_stop_runtime s name))) (\<lambda>_. retE ()))
      else retE ())"

text \<open>A command that is one call of the daemon.\<close>

definition rpc_cmd :: "('z, 'p) backend \<Rightarrow> ('z machine_ext service \<Rightarrow> ('z machine_ext, 'a) rpc) \<Rightarrow> ('z machine_scheme control, msg, unit) eff" where
  "rpc_cmd b call =
     (case bk_service b of
        None \<Rightarrow> failE no_control
      | Some s \<Rightarrow> bindE (lift_call b (dialled (bk_link b) (call s))) (\<lambda>_. retE ()))"

definition perform_start_preset :: "('z, 'p) backend \<Rightarrow> string \<Rightarrow> ('z machine_scheme control, msg, unit) eff" where
  "perform_start_preset b name = rpc_cmd b (\<lambda>s. rpc_start_runtime s name)"

definition perform_delete_model :: "('z, 'p) backend \<Rightarrow> string \<Rightarrow> ('z machine_scheme control, msg, unit) eff" where
  "perform_delete_model b path = rpc_cmd b (\<lambda>s. rpc_delete_local_model s (Some (path, True)))"

definition perform_preset_autostart :: "('z, 'p) backend \<Rightarrow> string \<Rightarrow> bool \<Rightarrow> ('z machine_scheme control, msg, unit) eff" where
  "perform_preset_autostart b name enabled = rpc_cmd b (\<lambda>s. rpc_set_preset_autostart s (Some (name, enabled)))"

definition perform_cleanup :: "('z, 'p) backend \<Rightarrow> string \<Rightarrow> ('z machine_scheme control, msg, unit) eff" where
  "perform_cleanup b name = rpc_cmd b (\<lambda>s. rpc_cleanup_preset s (Some name))"

subsection \<open>Autostart (\<^verbatim>\<open>backend.go\<close>)\<close>

definition startup_service_args :: "string \<Rightarrow> (string \<times> string list) option" where
  "startup_service_args name =
     (if name = startup_service_control then Some (''llamarig'', [''serve''])
      else if name = startup_service_web then Some (''gateway'', [''gateway'', ''--foreground''])
      else None)"

fun autostart_each :: "('z, 'p) backend \<Rightarrow> string list \<Rightarrow> string list \<Rightarrow> (string \<times> msg) list \<Rightarrow> ('z, string list \<times> (string \<times> msg) list) mio" where
  "autostart_each b [] begun errs = retE (begun, errs)"
| "autostart_each b (name # names) begun errs =
     (case startup_service_args name of
        None \<Rightarrow> autostart_each b names begun errs
      | Some (process, args) \<Rightarrow>
          bindE (attempt (status_detached (bk_env b) (bk_processes b) process)) (\<lambda>status.
            if ds_running (value_or stopped_status status) then autostart_each b names begun errs
            else tryE (start_detached (bk_env b) (bk_clock b) (bk_exe b) process args)
              (\<lambda>err. autostart_each b names begun (AList.update name [TextOf err] errs))
              (\<lambda>_. autostart_each b names (begun @ [name]) errs)))"

definition perform_autostart :: "('z, 'p) backend \<Rightarrow> ('z, string list \<times> (string \<times> msg) list) mio" where
  "perform_autostart b =
     tryE (load_config (bk_decode_config b) (bk_env b)) (\<lambda>_. retE ([], []))
       (\<lambda>cfg. autostart_each b (case cfg_startup_services cfg of None \<Rightarrow> default_startup_services | Some ss \<Rightarrow> ss) [] [])"

subsection \<open>The dashboard at the start (\<^verbatim>\<open>NewModel\<close>)\<close>

definition new_models_tab :: "'t \<Rightarrow> 't \<Rightarrow> 'p \<Rightarrow> ('t, 'p) models_tab" where
  "new_models_tab presets models status =
     \<lparr>mt_presets = presets, mt_models = models, mt_focus_models = False, mt_preset_status = status, mt_model_status = status,
      mt_keys = default_key_map\<rparr>"

definition new_logs_tab :: "'s \<Rightarrow> 's logs_tab" where
  "new_logs_tab view = \<lparr>gt_focus = 0, gt_view = (\<lambda>_. view)\<rparr>"

definition zero_snapshot :: dashboard_snapshot where
  "zero_snapshot =
     \<lparr>dn_daemon = stopped_status, dn_gateway = stopped_status, dn_config = zero_config, dn_runtime = None, dn_resources = None, dn_presets = [],
      dn_local_models = [], dn_warnings = [], dn_refreshed = 0, dn_config_path = [], dn_log_path = [], dn_daemon_log = [], dn_llama_log = []\<rparr>"

definition new_model :: "'v \<Rightarrow> 't \<Rightarrow> 't \<Rightarrow> 'p \<Rightarrow> 's \<Rightarrow> ('v, 't, 'p, 's) tui_model" where
  "new_model vp presets models status view =
     \<lparr>tm_active = TabServices, tm_services = new_services_tab vp, tm_models = new_models_tab presets models status, tm_system = vp,
      tm_logs = new_logs_tab view, tm_keys = default_key_map, tm_snapshot = zero_snapshot, tm_refreshing = False, tm_notice = []\<rparr>"

end
