(* ===== verification/TuiProps.thy ===== *)
theory TuiProps
  imports TuiModel BootstrapProps
begin

section \<open>Properties of the terminal interface\<close>

text \<open>
  The dashboard runs as a machine: its state is the model and the commands that are not answered yet. A step is a key, the answer of one of these
  commands, or the drawing of a page; a message goes to the page that is shown. What holds in every reachable state is an \<open>inductive_invariant\<close>.
\<close>

type_synonym ('v, 't, 'p, 's) tui_state = "('v, 't, 'p, 's) tui_model \<times> tui_cmd list"

inductive tui_step :: "('v, 't, 'p, 's) ui_lib \<Rightarrow> ('v, 't, 'p, 's) tui_state \<Rightarrow> ('v, 't, 'p, 's) tui_state \<Rightarrow> bool" for ul where
  tui_key: "page_update ul tab (TabMsg (KeyPress key)) m = Some (cs, m') \<Longrightarrow> tui_step ul (m, pending) (m', pending @ cs)"
| tui_answer: "c \<in> set pending \<Longrightarrow> cmd_answers c y \<Longrightarrow> page_update ul tab y m = Some (cs, m') \<Longrightarrow>
    tui_step ul (m, pending) (m', remove1 c pending @ cs)"
| tui_view: "page_view ul tab m = Some m' \<Longrightarrow> tui_step ul (m, pending) (m', pending)"

definition tui_start :: "('v, 't, 'p, 's) tui_state \<Rightarrow> bool" where
  "tui_start s \<longleftrightarrow> (\<exists>vp presets models status view. s = prod.swap (tui_init (new_model vp presets models status view)))"

subsection \<open>The invariant\<close>

fun is_request :: "tui_msg \<Rightarrow> bool" where
  "is_request (ActionRequest _ _ _) = True"
| "is_request (PresetStartRequest _) = True"
| "is_request (ModelDeleteRequest _) = True"
| "is_request (PresetCleanupRequest _) = True"
| "is_request (PresetAutostartRequest _ _) = True"
| "is_request _ = False"

fun emits_requests :: "tui_cmd \<Rightarrow> bool" where
  "emits_requests (Emit x) = is_request x"
| "emits_requests _ = True"

fun stops_panel :: "nat \<Rightarrow> tui_cmd \<Rightarrow> bool" where
  "stops_panel p (Emit (ActionRequest target idx name)) = (target = p \<and> idx = 1)"
| "stops_panel p (RunCmd target idx name cfg) = (target = p \<and> idx = 1)"
| "stops_panel p _ = False"

definition services_ok :: "'v services_tab \<Rightarrow> bool" where
  "services_ok t \<longleftrightarrow> vt_focus t < panel_count \<and> (\<forall>p. 0 \<le> vt_selected t p) \<and> vt_selected t panel_daemon < 3 \<and> vt_selected t panel_http < 3 \<and>
     vt_selected t panel_models < max 1 (int (length (vt_runtimes t))) \<and> \<not> vt_stopping t panel_models"

definition locks_held :: "'v services_tab \<Rightarrow> tui_cmd list \<Rightarrow> bool" where
  "locks_held t pending \<longleftrightarrow> (\<forall>p. vt_stopping t p \<longrightarrow> list_ex (stops_panel p) pending)"

definition tui_inv :: "('v, 't, 'p, 's) tui_state \<Rightarrow> bool" where
  "tui_inv s \<longleftrightarrow> (case s of (m, pending) \<Rightarrow>
     services_ok (tm_services m) \<and> gt_focus (tm_logs m) < pane_count \<and> locks_held (tm_services m) pending \<and> list_all emits_requests pending \<and>
     count_list pending TickCmd = 1 \<and> count_list pending PollCmd = (if tm_refreshing m then 1 else 0))"

lemmas panels = panel_daemon_def panel_http_def panel_models_def panel_count_def

lemma go_index_inside: "0 \<le> i \<Longrightarrow> i < int (length xs) \<Longrightarrow> go_index xs i = Some (xs ! nat i)"
  by (simp add: go_index_def)

lemma services_key_total:
  assumes "services_ok t"
  shows "services_key ul key t \<noteq> None"
proof -
  have "services_action t \<noteq> None"
    using assms by (cases "vt_runtimes t") (auto simp: services_action_def services_ok_def action_count_def go_index_def Let_def)
  moreover have "toggle_autostart t \<noteq> None"
    using assms by (cases "vt_runtimes t") (auto simp: toggle_autostart_def services_ok_def go_index_def)
  ultimately show ?thesis by (simp add: services_key_def Let_def)
qed

lemma services_view_total: "services_view sn t \<noteq> None"
  by (cases "vt_runtimes (sync_runtimes (dn_runtime sn) (dn_presets sn) t)")
    (auto simp: services_view_def sync_runtimes_def go_index_def Let_def)

lemma move_action_ok: "services_ok t \<Longrightarrow> services_ok (move_action delta t)"
  by (cases "vt_runtimes t") (auto simp: services_ok_def move_action_def action_count_def panels Let_def)

lemma say_ok [simp]: "services_ok (say p message err t) = services_ok t" "locks_held (say p message err t) = locks_held t"
  by (simp_all add: services_ok_def locks_held_def say_def fun_eq_iff)

lemma services_action_ok:
  assumes "services_action t = Some (c, t')" "services_ok t" "locks_held t pending"
  shows "services_ok t' \<and> locks_held t' (pending @ emit c) \<and> list_all emits_requests (emit c)"
  using assms
  by (auto simp: services_action_def emit_def Let_def services_ok_def locks_held_def say_def split: if_splits option.splits)

lemma toggle_autostart_ok:
  assumes "toggle_autostart t = Some (c, t')" "services_ok t" "locks_held t pending"
  shows "services_ok t' \<and> locks_held t' (pending @ emit c) \<and> list_all emits_requests (emit c)"
  using assms by (auto simp: toggle_autostart_def emit_def services_ok_def locks_held_def say_def split: if_splits option.splits)

lemma services_key_ok:
  assumes "services_key ul key t = Some (c, t')" "services_ok t" "locks_held t pending"
  shows "services_ok t' \<and> locks_held t' (pending @ emit c) \<and> list_all emits_requests (emit c)"
proof -
  have still: "services_ok u \<and> locks_held u (pending @ emit None) \<and> list_all emits_requests (emit None)"
    if "services_ok u" "vt_stopping u = vt_stopping t" for u
    using that assms(3) by (simp add: locks_held_def emit_def)
  have moved: "vt_stopping (move_action delta t) = vt_stopping t" for delta by (simp add: move_action_def Let_def)
  have focus: "services_ok (t\<lparr>vt_focus := f mod panel_count\<rparr>)" for f using assms(2) by (simp add: services_ok_def panels)
  have scroll: "services_ok (update_scroll ul key t)" "vt_stopping (update_scroll ul key t) = vt_stopping t"
    using assms(2) by (simp_all add: update_scroll_def services_ok_def)
  show ?thesis
    using assms(1) services_action_ok [OF _ assms(2,3), of c t'] toggle_autostart_ok [OF _ assms(2,3), of c t']
      still [OF focus] still [OF move_action_ok moved, OF assms(2)] still [OF scroll]
    unfolding services_key_def Let_def by (simp split: if_splits) blast+
qed

lemma services_result_ok: "services_ok t \<Longrightarrow> services_ok (services_result target idx err t)"
  by (auto simp: services_result_def services_ok_def say_def Let_def split: option.splits)

lemma services_result_stopping:
  "vt_stopping (services_result target idx err t) =
     (if target \<noteq> panel_models \<and> idx = 1 then (vt_stopping t)(target := False) else vt_stopping t)"
  by (simp add: services_result_def say_def Let_def split: option.splits)

lemma autostart_result_ok [simp]:
  "services_ok (set_autostart_result enabled err t) = services_ok t" "vt_stopping (set_autostart_result enabled err t) = vt_stopping t"
  by (simp_all add: set_autostart_result_def services_ok_def say_def split: option.splits)

lemma services_view_ok:
  assumes "services_view sn t = Some (target, t')" "services_ok t"
  shows "services_ok t' \<and> vt_stopping t' = vt_stopping t"
proof -
  have "t' = sync_runtimes (dn_runtime sn) (dn_presets sn) t"
    using assms(1) by (auto simp: services_view_def Let_def split: if_splits option.splits)
  with assms(2) show ?thesis by (auto simp: sync_runtimes_def services_ok_def panels Let_def)
qed

subsection \<open>A message\<close>

text \<open>What is left of the invariant when a message is on its way: the command it answers is gone from the list.\<close>

fun carries_stop :: "nat \<Rightarrow> model_msg \<Rightarrow> bool" where
  "carries_stop p (TabMsg (ActionRequest target idx name)) = (target = p \<and> idx = 1)"
| "carries_stop p (TabMsg (ActionResult target idx err)) = (target = p \<and> idx = 1)"
| "carries_stop p _ = False"

definition between :: "('v, 't, 'p, 's) tui_model \<Rightarrow> model_msg \<Rightarrow> tui_cmd list \<Rightarrow> bool" where
  "between m y rest \<longleftrightarrow>
     services_ok (tm_services m) \<and> gt_focus (tm_logs m) < pane_count \<and> list_all emits_requests rest \<and>
     (\<forall>p. vt_stopping (tm_services m) p \<longrightarrow> list_ex (stops_panel p) rest \<or> carries_stop p y) \<and>
     count_list rest TickCmd = (if y = TabMsg DashboardTick then 0 else 1) \<and>
     count_list rest PollCmd = (if tm_refreshing m \<and> (\<forall>r. y \<noteq> PollDone r) then 1 else 0)"

lemma refresh_inv:
  assumes "refresh m = (cs, m')"
  shows "tm_services m' = tm_services m" "tm_models m' = tm_models m" "tm_logs m' = tm_logs m" "list_all emits_requests cs" "TickCmd \<notin> set cs"
    "count_list cs PollCmd + (if tm_refreshing m then 1 else 0) = 1" "tm_refreshing m'"
  using assms by (auto simp: refresh_def split: if_splits)

lemma count_poll_tick [simp]:
  "count_list (emit c) PollCmd = 0" "count_list (emit c) TickCmd = 0"
  by (cases c; simp add: emit_def)+

lemma refreshed_inv:
  assumes "between m y rest" "tm_logs u = tm_logs m" "tm_refreshing u = tm_refreshing m" "\<forall>r. y \<noteq> PollDone r" "y \<noteq> TabMsg DashboardTick"
    "services_ok (tm_services u)" "\<forall>p. vt_stopping (tm_services u) p \<longrightarrow> vt_stopping (tm_services m) p \<and> \<not> carries_stop p y" "refresh u = (cs, m')"
  shows "tui_inv (m', rest @ cs)"
  using assms refresh_inv [OF assms(8)]
  by (auto simp: between_def tui_inv_def locks_held_def count_list_0_iff)

lemma key_inv:
  assumes "between m (TabMsg (KeyPress key)) rest" "update_key ul key m = Some (cs, m')"
  shows "tui_inv (m', rest @ cs)"
proof (cases "(tm_active m \<noteq> TabLogs \<or> \<not> is_searching ul (tm_logs m)) \<and> key \<in> set (km_refresh (tm_keys m))")
  case True
  with assms(2) have r: "refresh m = (cs, m')" by (simp add: update_key_def)
  from assms(1) show ?thesis by (intro refreshed_inv [OF assms(1) _ _ _ _ _ _ r]) (auto simp: between_def)
next
  case False
  have ok: "services_ok (tm_services m)" "locks_held (tm_services m) rest" using assms(1) by (auto simp: between_def locks_held_def)
  have logs: "gt_focus (logs_key ul k key (tm_logs m)) < pane_count" for k
    using assms(1) by (auto simp: logs_key_def between_def pane_count_def)
  have more: "locks_held (tm_services m) (rest @ emit c)" for c
    using ok(2) by (auto simp: locks_held_def)
  have models: "list_all emits_requests (emit c)" if "models_key ul key sn t = Some (c, t')" for c t' sn t
    using that
    by (auto simp: models_key_def update_models_def update_presets_def delete_selected_def cleanup_selected_def emit_def Let_def
        split: if_splits option.splits prod.splits)
  show ?thesis
  proof (cases "tm_active m")
    case TabServices
    with assms(2) False obtain c t where "services_key ul key (tm_services m) = Some (c, t)" "cs = emit c" "m' = m\<lparr>tm_services := t\<rparr>"
      by (auto simp: update_key_def)
    with assms(1) services_key_ok [OF _ ok] show ?thesis by (auto simp: between_def tui_inv_def)
  next
    case TabModels
    with assms(2) False obtain c t where
      k: "models_key ul key (tm_snapshot m) (tm_models m) = Some (c, t)" "cs = emit c" "m' = m\<lparr>tm_models := t\<rparr>"
      by (auto simp: update_key_def)
    with assms(1) models [OF k(1)] more show ?thesis by (auto simp: between_def tui_inv_def)
  next
    case TabSystem
    with assms False more [of None] show ?thesis by (auto simp: update_key_def between_def tui_inv_def emit_def)
  next
    case TabLogs
    with assms False more [of None] logs show ?thesis by (auto simp: update_key_def between_def tui_inv_def emit_def)
  qed
qed

lemma message_inv:
  assumes "between m y rest" "model_update ul y m = Some (cs, m')"
  shows "tui_inv (m', rest @ cs)"
proof (cases y)
  case (TabMsg x)
  show ?thesis
  proof (cases x)
    case (KeyPress key)
    with assms TabMsg show ?thesis by (intro key_inv) simp_all
  next
    case DashboardTick
    obtain cs1 where r: "refresh m = (cs1, m')" "cs = cs1 @ [TickCmd]"
      using assms(2) TabMsg DashboardTick by (cases "refresh m") auto
    from assms(1) TabMsg DashboardTick r(2) refresh_inv [OF r(1)] show ?thesis
      by (auto simp: between_def tui_inv_def locks_held_def count_list_0_iff)
  next
    case (ActionRequest target idx name)
    with assms TabMsg show ?thesis by (auto simp: between_def tui_inv_def locks_held_def)
  next
    case SpinnerTick
    with assms TabMsg show ?thesis by (auto simp: between_def tui_inv_def locks_held_def advance_spinner_def)
  next
    case (ActionResult target idx err)
    have r: "refresh (m\<lparr>tm_services := services_result target idx err (tm_services m)\<rparr>) = (cs, m')"
      using assms(2) TabMsg ActionResult by simp
    have "\<not> vt_stopping (tm_services m) panel_models" using assms(1) by (simp add: between_def services_ok_def)
    with assms(1) TabMsg ActionResult show ?thesis
      by (intro refreshed_inv [OF assms(1) _ _ _ _ _ _ r])
        (auto simp: between_def services_result_ok services_result_stopping split: if_splits)
  next
    case (PresetAutostartResult enabled err)
    have r: "refresh (m\<lparr>tm_services := set_autostart_result enabled err (tm_services m)\<rparr>) = (cs, m')"
      using assms(2) TabMsg PresetAutostartResult by simp
    from assms(1) TabMsg PresetAutostartResult show ?thesis
      by (intro refreshed_inv [OF assms(1) _ _ _ _ _ _ r])
        (auto simp: between_def)
  next
    case (PresetStartResult err)
    have r: "refresh (m\<lparr>tm_models := models_start_result ul err (tm_models m)\<rparr>) = (cs, m')"
      using assms(2) TabMsg PresetStartResult by simp
    from assms(1) TabMsg PresetStartResult show ?thesis
      by (intro refreshed_inv [OF assms(1) _ _ _ _ _ _ r]) (auto simp: between_def)
  next
    case (ModelDeleteResult err)
    have r: "refresh (m\<lparr>tm_models := models_delete_result ul err (tm_models m)\<rparr>) = (cs, m')"
      using assms(2) TabMsg ModelDeleteResult by simp
    from assms(1) TabMsg ModelDeleteResult show ?thesis
      by (intro refreshed_inv [OF assms(1) _ _ _ _ _ _ r]) (auto simp: between_def)
  next
    case (PresetCleanupResult err)
    have r: "refresh (m\<lparr>tm_models := models_cleanup_result ul err (tm_models m)\<rparr>) = (cs, m')"
      using assms(2) TabMsg PresetCleanupResult by simp
    from assms(1) TabMsg PresetCleanupResult show ?thesis
      by (intro refreshed_inv [OF assms(1) _ _ _ _ _ _ r]) (auto simp: between_def)
  qed (use assms TabMsg in \<open>auto simp: between_def tui_inv_def locks_held_def\<close>)
next
  case (PollDone r)
  with assms show ?thesis by (auto simp: between_def tui_inv_def locks_held_def)
next
  case (AutostartDone begun errs)
  show ?thesis
  proof (cases "begun = []")
    case True
    with assms AutostartDone show ?thesis by (auto simp: update_autostart_def between_def tui_inv_def locks_held_def)
  next
    case False
    with assms(2) AutostartDone have r: "refresh (m\<lparr>tm_notice := autostart_notice begun errs\<rparr>) = (cs, m')"
      by (simp add: update_autostart_def Let_def)
    from assms(1) AutostartDone show ?thesis by (intro refreshed_inv [OF assms(1) _ _ _ _ _ _ r]) (auto simp: between_def)
  qed
next
  case OtherMsg
  with assms show ?thesis by (auto simp: between_def tui_inv_def locks_held_def)
qed

subsection \<open>Steps\<close>

lemma between_key: "tui_inv (m, pending) \<Longrightarrow> between (m\<lparr>tm_active := tab\<rparr>) (TabMsg (KeyPress key)) pending"
  by (auto simp: tui_inv_def between_def locks_held_def)

lemma count_remove1: "count_list (remove1 x xs) y = (if x = y then count_list xs y - 1 else count_list xs y)"
  by (induction xs) auto

lemma list_all_remove1: "list_all P xs \<Longrightarrow> list_all P (remove1 x xs)"
  by (induction xs) auto

lemma list_ex_remove1: "list_ex P xs \<Longrightarrow> list_ex P (remove1 x xs) \<or> P x"
  by (induction xs) auto

lemma answer_carries_stop: "cmd_answers c y \<Longrightarrow> stops_panel p c \<Longrightarrow> carries_stop p y"
  by (induction p c rule: stops_panel.induct) auto

lemma cmd_answers_of_poll: "cmd_answers c y \<Longrightarrow> emits_requests c \<Longrightarrow> c = PollCmd \<longleftrightarrow> (\<exists>r. y = PollDone r)"
  by (cases c) auto

lemma cmd_answers_of_tick: "cmd_answers c y \<Longrightarrow> emits_requests c \<Longrightarrow> c = TickCmd \<longleftrightarrow> y = TabMsg DashboardTick"
  by (cases c) auto

lemma between_answer:
  assumes "tui_inv (m, pending)" "c \<in> set pending" "cmd_answers c y"
  shows "between (m\<lparr>tm_active := tab\<rparr>) y (remove1 c pending)"
proof -
  have e: "emits_requests c" using assms(1,2) by (auto simp: tui_inv_def list_all_iff)
  have held: "list_ex (stops_panel p) (remove1 c pending) \<or> carries_stop p y" if "vt_stopping (tm_services m) p" for p
  proof -
    have "list_ex (stops_panel p) pending" using assms(1) that by (simp add: tui_inv_def locks_held_def)
    then have "list_ex (stops_panel p) (remove1 c pending) \<or> stops_panel p c" by (rule list_ex_remove1)
    with answer_carries_stop [OF assms(3), of p] show ?thesis by blast
  qed
  have "count_list (remove1 c pending) TickCmd = (if y = TabMsg DashboardTick then 0 else 1)"
    "count_list (remove1 c pending) PollCmd = (if tm_refreshing m \<and> (\<forall>r. y \<noteq> PollDone r) then 1 else 0)"
    using assms(1) cmd_answers_of_tick [OF assms(3) e] cmd_answers_of_poll [OF assms(3) e] by (auto simp: tui_inv_def count_remove1)
  with assms(1) held show ?thesis by (simp add: tui_inv_def between_def list_all_remove1)
qed

lemma view_inv:
  assumes "page_view ul tab m = Some m'" "tui_inv (m, pending)"
  shows "tui_inv (m', pending)"
proof (cases tab)
  case TabServices
  with assms(1) obtain target t where v: "services_view (tm_snapshot m) (tm_services m) = Some (target, t)"
    "m' = m\<lparr>tm_active := tab, tm_services := t\<rparr>"
    by (auto simp: page_view_def Let_def)
  with assms(2) services_view_ok [OF v(1)] show ?thesis by (simp add: tui_inv_def locks_held_def)
qed (use assms in \<open>auto simp: page_view_def tui_inv_def Let_def split: if_splits\<close>)

interpretation dashboard: inductive_invariant tui_start "tui_step ul" tui_inv for ul :: "('v, 't, 'p, 's) ui_lib"
proof
  show "tui_inv s" if "tui_start s" for s :: "('v, 't, 'p, 's) tui_state"
    using that
    by (auto simp: tui_start_def tui_init_def refresh_def new_model_def new_services_tab_def new_logs_tab_def tui_inv_def services_ok_def locks_held_def
        panels pane_count_def)
  show "tui_inv s'" if "tui_inv s" "tui_step ul s s'" for s s'
    using that(2,1)
  proof cases
    case (tui_key tab key m cs m' pending)
    then show ?thesis using that(1) message_inv [OF between_key] by (simp add: page_update_def) blast
  next
    case (tui_answer c pending y tab m cs m')
    then show ?thesis using that(1) message_inv [OF between_answer] by (simp add: page_update_def) blast
  next
    case (tui_view tab m m' pending)
    then show ?thesis using that(1) view_inv by blast
  qed
qed

lemma reach_inv: "reach tui_start (tui_step ul) s \<Longrightarrow> tui_inv s"
  by (rule dashboard.inv_reach)

text \<open>Every tab but that of the models is safe with any library; that one takes a row by the cursor of a table, which it bounds from above only.\<close>

lemma models_key_total: "(\<And>t. 0 \<le> ul_cursor ul t) \<Longrightarrow> models_key ul key sn t \<noteq> None"
  by (cases "dn_presets sn"; cases "dn_local_models sn")
    (auto simp: models_key_def update_models_def update_presets_def go_index_def cleanup_selected_def delete_selected_def Let_def
      split: prod.splits)

lemma update_key_total:
  assumes "services_ok (tm_services m)" "tm_active m = TabModels \<Longrightarrow> \<forall>t. 0 \<le> ul_cursor ul t"
  shows "update_key ul key m \<noteq> None"
  using assms services_key_total [of "tm_services m" ul key] models_key_total [of ul key "tm_snapshot m" "tm_models m"]
  by (cases "tm_active m") (auto simp: update_key_def)

lemma update_total:
  assumes "services_ok (tm_services m)" "tm_active m = TabModels \<Longrightarrow> \<forall>t. 0 \<le> ul_cursor ul t"
  shows "model_update ul y m \<noteq> None"
proof (cases y)
  case (TabMsg x)
  then show ?thesis using update_key_total [OF assms] by (cases x) auto
qed auto

lemma page_view_total:
  assumes "tab = TabModels \<Longrightarrow> \<forall>t. 0 \<le> ul_cursor ul t"
  shows "page_view ul tab m \<noteq> None"
proof (cases tab)
  case TabServices
  then show ?thesis using services_view_total [of "tm_snapshot m" "tm_services m"] by (auto simp: page_view_def Let_def)
next
  case TabModels
  with assms show ?thesis
    by (cases "dn_presets (tm_snapshot m)"; cases "dn_local_models (tm_snapshot m)")
      (auto simp: page_view_def selected_preset_def selected_model_def go_index_def Let_def)
qed (simp_all add: page_view_def Let_def)


text \<open>C40: The dashboard keeps itself alive: in every state it can reach exactly one tick is under way, a poll is under way exactly when the model says
  so (never two), and the controls of a panel are locked only while a command is under way whose answer unlocks them.\<close>

theorem tui_commands_under_way:
  assumes "reach tui_start (tui_step ul) (m, pending)"
  shows "count_list pending TickCmd = 1 \<and> count_list pending PollCmd = (if tm_refreshing m then 1 else 0) \<and>
    (vt_stopping (tm_services m) p \<longrightarrow>
       list_ex (stops_panel p) pending \<and>
       (\<forall>tab err cs m'. page_update ul tab (TabMsg (ActionResult p 1 err)) m = Some (cs, m') \<longrightarrow> \<not> vt_stopping (tm_services m') p))"
proof -
  have inv: "tui_inv (m, pending)" by (rule reach_inv [OF assms])
  have "\<not> vt_stopping (tm_services m') p"
    if "vt_stopping (tm_services m) p" "page_update ul tab (TabMsg (ActionResult p 1 err)) m = Some (cs, m')" for tab err cs m'
  proof -
    have "p \<noteq> panel_models" using inv that(1) by (auto simp: tui_inv_def services_ok_def)
    moreover have "refresh (m\<lparr>tm_active := tab, tm_services := services_result p 1 err (tm_services m)\<rparr>) = (cs, m')"
      using that(2) by (simp add: page_update_def)
    ultimately show ?thesis by (auto dest: refresh_inv(1) simp: services_result_stopping)
  qed
  with inv show ?thesis by (simp add: tui_inv_def locks_held_def)
qed

subsection \<open>Witnesses\<close>

definition demo_ul :: "(unit, nat, unit, unit) ui_lib" where
  "demo_ul =
     \<lparr>ul_scroll_up = id, ul_scroll_down = id, ul_cursor = int, ul_move_up = (\<lambda>t. t - 1), ul_move_down = Suc, ul_set_rows = (\<lambda>_. id), ul_clear = id,
      ul_disarm = id, ul_set_error = (\<lambda>_. id), ul_set_result = (\<lambda>_ _. id), ul_confirm = (\<lambda>_ yes st. (yes, st)), ul_searching = (\<lambda>_. False),
      ul_search_key = (\<lambda>_. id), ul_format_bytes = (\<lambda>_. [])\<rparr>"

definition demo_dashboard :: "(unit, nat, unit, unit) tui_model" where
  "demo_dashboard = (new_model () 0 0 () ())\<lparr>tm_refreshing := True\<rparr>"

lemma demo_dashboard_start: "tui_start (demo_dashboard, [AutostartCmd, PollCmd, TickCmd])"
  unfolding tui_start_def by (intro exI) (simp add: tui_init_def refresh_def demo_dashboard_def new_model_def)

lemma demo_reached: "reach tui_start (tui_step demo_ul) (demo_dashboard, [AutostartCmd, PollCmd, TickCmd])"
  by (rule reach_init) (rule demo_dashboard_start)


text \<open>The action beside the first is chosen and run: the daemon is to stop, and its panel is locked.\<close>

lemma demo_locked:
  "\<exists>m pending. reach tui_start (tui_step demo_ul) (m, pending) \<and> vt_stopping (tm_services m) panel_daemon"
proof -
  have "case page_update demo_ul TabServices (TabMsg (KeyPress ''right'')) demo_dashboard of
      None \<Rightarrow> False
    | Some (_, m1) \<Rightarrow>
        (case page_update demo_ul TabServices (TabMsg (KeyPress ''enter'')) m1 of
           None \<Rightarrow> False
         | Some (_, m2) \<Rightarrow> vt_stopping (tm_services m2) panel_daemon)"
    by code_simp
  then obtain cs1 m1 cs2 m2 where s:
    "page_update demo_ul TabServices (TabMsg (KeyPress ''right'')) demo_dashboard = Some (cs1, m1)"
    "page_update demo_ul TabServices (TabMsg (KeyPress ''enter'')) m1 = Some (cs2, m2)" "vt_stopping (tm_services m2) panel_daemon"
    by (auto split: option.splits prod.splits)
  have "reach tui_start (tui_step demo_ul) (m2, ([AutostartCmd, PollCmd, TickCmd] @ cs1) @ cs2)"
    by (rule reach_step [OF reach_step [OF demo_reached tui_key [OF s(1)]] tui_key [OF s(2)]])
  with s(3) show ?thesis by blast
qed

theorem tui_commands_under_way_witness:
  "\<exists>m pending. reach tui_start (tui_step demo_ul) (m, pending) \<and> list_ex (stops_panel panel_daemon) pending \<and> count_list pending TickCmd = 1"
proof -
  obtain m pending where r: "reach tui_start (tui_step demo_ul) (m, pending)" "vt_stopping (tm_services m) panel_daemon"
    using demo_locked by blast
  from tui_commands_under_way [OF r(1), of panel_daemon] r show ?thesis by blast
qed

subsection \<open>What the dashboard remembers of the web gateway\<close>

lemma gateway_stop_remembered:
  "startup_service_web \<notin> set (desired_services cfg False)" "startup_service_web \<in> set (desired_services cfg True)"
  "s \<noteq> startup_service_web \<Longrightarrow> s \<in> set (desired_services cfg enabled) \<longleftrightarrow> s \<in> set (startup_base cfg)"
  by (simp_all add: desired_services_def)

text \<open>A deviation: with a configuration that lists no startup service, starting the web gateway from the dashboard is not recorded (an empty list
  counts as the default there), and nothing is started at the next launch (where an empty list means none); stopping the gateway records a daemon
  that starts by itself.\<close>

theorem gateway_start_forgotten:
  assumes "load_config (bk_decode_config b) (bk_env b) w = (Inr cfg, w')" "cfg_startup_services cfg = Some []"
  shows "persist_gateway_startup b cfg True c = (Inr (), c) \<and> perform_autostart b w = (Inr ([], []), w') \<and>
    desired_services cfg False = [startup_service_control]"
  using assms
  by (simp add: persist_gateway_startup_def perform_autostart_def tryE_def desired_services_def startup_base_def services_of_def
      default_startup_services_def startup_service_control_def startup_service_web_def)

definition demo_backend :: "(unit, unit) backend" where
  "demo_backend =
     \<lparr>bk_service = None, bk_link = (\<lambda>_. None), bk_text = (\<lambda>_. []), bk_env = demo_home\<lparr>he_getenv := (\<lambda>_. ''/c'')\<rparr>, bk_processes = stubborn_lib,
      bk_decode_config = (\<lambda>cfg _. Inr (cfg\<lparr>cfg_startup_services := Some []\<rparr>)), bk_decode_log = (\<lambda>_. None), bk_config_path = [],
      bk_log_path = [], bk_clock = demo_clock, bk_exe = Inr ''/x'', bk_open_url = (\<lambda>_. retE ()), bk_fuel = 9\<rparr>"

theorem gateway_start_forgotten_witness:
  "perform_autostart demo_backend (demo_machine [''/c'' \<mapsto> RegFile [] 384]) =
     (Inr ([], []), snd (load_config (bk_decode_config demo_backend) (bk_env demo_backend) (demo_machine [''/c'' \<mapsto> RegFile [] 384])))"
proof -
  let ?w = "demo_machine [''/c'' \<mapsto> RegFile [] 384]"
  have "case fst (load_config (bk_decode_config demo_backend) (bk_env demo_backend) ?w) of Inl _ \<Rightarrow> False | Inr cfg \<Rightarrow> cfg_startup_services cfg = Some []"
    by code_simp
  moreover obtain r v where l: "load_config (bk_decode_config demo_backend) (bk_env demo_backend) ?w = (r, v)" by force
  ultimately obtain cfg where c: "r = Inr cfg" "cfg_startup_services cfg = Some []" by (cases r) auto
  from gateway_start_forgotten [OF l [unfolded c(1)] c(2)] l show ?thesis by simp
qed

subsection \<open>The log of the daemon\<close>

text \<open>A full log loses a line: a text of two thousand complete lines ends in a line break, which makes one piece more.\<close>

lemma full_log_loses_first_line:
  assumes "length ls = max_log_lines" "\<And>l. l \<in> set ls \<Longrightarrow> newline \<notin> set l"
  shows "log_view_lines (join_with newline ls @ [newline]) = tl ls @ [[]]"
proof -
  have ne: "ls \<noteq> []" using assms(1) by (auto simp: max_log_lines_def)
  have "split_on newline (join_with newline ls @ [newline]) = ls @ [[]]"
    using split_join [OF ne] assms(2) by (simp add: split_on_snoc_sep)
  with assms(1) ne show ?thesis by (cases ls) (simp_all add: log_view_lines_def)
qed

text \<open>A table whose cursor is negative takes the models page out of range: the cursor is bounded from above only.\<close>

lemma negative_cursor_panics:
  assumes "ul_cursor ul (mt_presets (set_rows ul (tm_snapshot m) (tm_models m))) < 0" "dn_presets (tm_snapshot m) \<noteq> []"
    "\<not> mt_focus_models (tm_models m)"
  shows "page_view ul TabModels m = None"
  using assms by (auto simp: page_view_def selected_preset_def go_index_def set_rows_def Let_def)

end
