(* ===== verification/Spec2Isabelle.thy ===== *)
theory Spec2Isabelle
  imports FileDocProps PresetProps ConfigProps DownloadProps LocalModels LlamaProps LlamaHelp CatalogProps LogArchive LlamaInstall GoNet Signals RpcTypes RpcService RpcProps ServiceProps Gateway GatewayProps Exposure Setup SetupProps Process Bootstrap BootstrapProps ShutdownProps Cli Mcp CliProps TuiTabs TuiModel TuiProps
begin

text \<open>
  llamarig keeps one \<^verbatim>\<open>llama-server\<close> process running on a machine and lets several front ends control it. This library models the
  program and its front ends, as they are written under \<^verbatim>\<open>src/\<close>, and proves what its parts promise to each other.

  The parts and how they interact. A control manager (\<^verbatim>\<open>core/control\<close>) receives every operation. It holds a busy flag, refuses a
  mutation while another works, records the outcome of each in an event store, and calls five parts: the preset store (the sections of
  \<^verbatim>\<open>models.ini\<close>), the store of \<^verbatim>\<open>config.yaml\<close>, the runtime that supervises the process, the router client that talks to it over
  HTTP, and the local models. The preset store and the configuration store replace their file through \<^verbatim>\<open>platform/filedoc\<close>; the
  runtime keeps a PID file. The model catalog lists models of Hugging Face, the download manager fetches one into the storage
  directory, from which the local models are read again. The logs and the installation of \<^verbatim>\<open>llama-server\<close> stand beside these.
  The daemon that \<^verbatim>\<open>bootstrap\<close> assembles answers at a socket with the procedures of \<^verbatim>\<open>core/rpc\<close>; the HTTP gateway, the command line,
  the MCP adapter and the terminal interface are clients of them.

  The state. \<open>Os\<close> holds the world of the calls of package \<open>os\<close>: a map of paths to files, directories and links, the
  environment, a clock and a plan that decides for each call whether it fails; a call yields a value or an error and a new world. \<open>eff\<close> of
  \<open>Prelude\<close> is a function of that shape, composed with \<open>bindE\<close>. \<open>Machine\<close> extends the world by the process table, the
  exchanges over HTTP, signals and the time that passes. A claim that holds for every plan of failures holds for a crash at any call, since the
  traces of the file lemmas name every state on the way.

  The theories, and the code of each:
  \<^item> \<open>Prelude\<close>, \<open>StateMachine\<close>: results, state passing, the lists and maps that all share; reachable states and invariants of step
    relations.
  \<^item> \<open>GoStrings\<close>, \<open>GoErrors\<close>, \<open>GoPath\<close>, \<open>GoNumbers\<close>, \<open>GoRegex\<close>, \<open>GoUrl\<close>: what the source uses of the standard library
    (\<^verbatim>\<open>strings\<close>, \<^verbatim>\<open>errors\<close>, \<^verbatim>\<open>filepath\<close>, \<^verbatim>\<open>strconv\<close>, \<^verbatim>\<open>regexp\<close>, \<^verbatim>\<open>net/url\<close>) on byte strings.
  \<^item> \<open>Os\<close>, \<open>OsFrame\<close>, \<open>FileTree\<close>: the calls of package \<open>os\<close>, which paths each may change, and whole directories.
  \<^item> \<open>FileDoc\<close>, \<open>FileDocProps\<close>: \<^verbatim>\<open>platform/filedoc/filedoc.go\<close>. The replacement of a file is atomic for every plan of failures.
  \<^item> \<open>PresetIni\<close>, \<open>PresetIniFacts\<close>, \<open>PresetStore\<close>, \<open>PresetContract\<close>, \<open>PresetProps\<close>: \<^verbatim>\<open>core/modelpresets/store.go\<close>.
    The grammar of \<^verbatim>\<open>models.ini\<close>, what is read back after a write, the contract \<open>preset_store\<close> of its clients and its interpretation.
  \<^item> \<open>PresetSource\<close>: \<^verbatim>\<open>core/modelpresets/source.go\<close>, where a preset's model lies and which presets refer to a model.
  \<^item> \<open>Config\<close>, \<open>YamlTree\<close>, \<open>YamlFacts\<close>, \<open>ConfigStore\<close>, \<open>ConfigProps\<close>: \<^verbatim>\<open>config/config.go\<close> and
    \<^verbatim>\<open>core/configstore\<close>. Defaults and checks, the edits of the YAML node tree and their effect at every other path, the cycle of read, edit,
    check and replace.
  \<^item> \<open>CatalogTypes\<close>, \<open>Download\<close>, \<open>DownloadSteps\<close>, \<open>DownloadFiles\<close>, \<open>DownloadProps\<close>: \<^verbatim>\<open>core/modeldownload\<close>. The job
    table under any interleaving of callers and goroutines, and the goroutine of one download on the file system.
  \<^item> \<open>LocalModels\<close>: \<^verbatim>\<open>core/modelcatalog/local.go\<close>. Canonical paths through links, containment, listing, deletion, the watch.
  \<^item> \<open>CatalogFit\<close>, \<open>CatalogModels\<close>, \<open>CatalogRanking\<close>, \<open>CatalogPaths\<close>, \<open>CatalogClient\<close>, \<open>CatalogListing\<close>,
    \<open>CatalogProps\<close>: the other files of \<^verbatim>\<open>core/modelcatalog\<close>. Estimates in 64 bits, scores and their order, URLs and paths, requests,
    the cache, refreshes and their broker.
  \<^item> \<open>ControlErrors\<close>, \<open>ControlEvents\<close>, \<open>RuntimeTypes\<close>, \<open>ControlManager\<close>, \<open>ControlOps\<close>, \<open>ControlContract\<close>,
    \<open>ControlMutex\<close>, \<open>ControlProps\<close>: \<^verbatim>\<open>core/control\<close>. The kinds of errors, the event store against its log, each operation,
    the contract \<open>control_core\<close> of the parts it calls, interleaved callers, and the guarantees of the assembled manager.
  \<^item> \<open>LlamaHelp\<close>: \<^verbatim>\<open>core/control/llama_help.go\<close>, the parser of the program's help.
  \<^item> \<open>Machine\<close>, \<open>RouterClient\<close>, \<open>PidFile\<close>, \<open>LlamaServer\<close>, \<open>LlamaFrame\<close>, \<open>LlamaFacts\<close>, \<open>LlamaRuns\<close>,
    \<open>LlamaProps\<close>: \<^verbatim>\<open>core/router\<close>, \<^verbatim>\<open>platform/pidfile\<close> and \<^verbatim>\<open>core/runtime\<close>. Start, stop, status and recovery of the
    process with their polling loops, and the invariant of the supervisor.
  \<^item> \<open>LogTail\<close>, \<open>LogArchive\<close>: \<^verbatim>\<open>platform/audit/logs.go\<close>. Tails, the follower of a growing file, the archive.
  \<^item> \<open>LlamaInstall\<close>: \<^verbatim>\<open>core/llamainstall\<close>. Choice and check of a release, builds, activation and recorded state.
  \<^item> \<open>GoNet\<close>, \<open>Exposure\<close>: host, port and IP addresses of \<^verbatim>\<open>net\<close>, and which addresses a configuration opens to other machines.
  \<^item> \<open>Signals\<close>: \<^verbatim>\<open>core/signals\<close>. The snapshot of the machine from probes that may fail, and the text of \<^verbatim>\<open>nvidia-smi\<close>.
  \<^item> \<open>RpcTypes\<close>, \<open>RpcService\<close>, \<open>RpcProps\<close>, \<open>ServiceProps\<close>: \<^verbatim>\<open>core/rpc\<close>. The messages, the two directions of the error mapping, every
    procedure over the manager and the two streams; reading procedures change nothing, a watch goes on behind the event it is given, and a
    download is applied to one preset.
  \<^item> \<open>Gateway\<close>, \<open>GatewayProps\<close>: \<^verbatim>\<open>adapters/public_http\<close>. Guards, routes and authorization as one function from a request to an action, and
    what a request without the token can reach and change.
  \<^item> \<open>Setup\<close>, \<open>SetupProps\<close>: \<^verbatim>\<open>core/setup\<close>. The dialogue, the files that it writes, and what is kept.
  \<^item> \<open>Process\<close>, \<open>Bootstrap\<close>, \<open>BootstrapProps\<close>, \<open>ShutdownProps\<close>: \<^verbatim>\<open>platform/process\<close>, \<^verbatim>\<open>bootstrap/service.go\<close>,
    \<^verbatim>\<open>core/rpc/internal_server.go\<close> and the end of \<^verbatim>\<open>cmd/serve.go\<close>. Detached processes, the assembled daemon, its socket, the watch of the
    model storage, and what is left when the daemon ends.
  \<^item> \<open>Cli\<close>, \<open>Mcp\<close>, \<open>CliProps\<close>: \<^verbatim>\<open>adapters/cli\<close>, \<^verbatim>\<open>cmd/command.go\<close> and \<^verbatim>\<open>adapters/mcp\<close>. Commands, tools and resources over the
    service; the log commands show what the routes of the gateway show.
  \<^item> \<open>TuiTabs\<close>, \<open>TuiModel\<close>, \<open>TuiProps\<close>: \<^verbatim>\<open>adapters/tui/tabs\<close>. The state of the dashboard under keys, messages and drawing, the commands it
    issues and what they do, and the invariant of its reachable states.
  Interfaces are locales: \<open>preset_store\<close> and \<open>control_core\<close> for the parts of the manager, \<open>inductive_invariant\<close> for step
  relations, the single flight of refreshes; each is interpreted on the definitions of the code, and the properties rest on those
  interpretations.

  Bounds and fuel. Links are followed at most 40 times, as the kernel does. A temporary file tries 10000 names. A tail reads at most the last
  10 MiB in chunks of 64 KiB, and a line limit of 5000. A subscriber of the event store has a channel of 100 events, a subscriber of refreshes one of 4. Polling loops are functions
  whose measure is the nanoseconds left to the deadline, since each interaction lets time pass; the property on them states that they end.
  Where a loop depends on others it has fuel: \<open>wait_gone\<close> ends within 321 turns for the default timeouts, \<open>refresh_until_free\<close> after as
  many turns as the flag is held, and their properties say that the fuel is enough. Sizes and estimates wrap at 64 bits where the code computes with \<^verbatim>\<open>int64\<close>.

  Parameters. Code that is not in the repository is an argument: the YAML library (decoding, and parsing to a node tree and back), JSON, the
  layout of time stamps, \<^verbatim>\<open>log10\<close>, SHA-256, the bodies of HTTP responses, and the programs that the installer runs.
  Scores are rational numbers, so the rounding of floating point is not modelled.

  Not modelled: the generated protobuf code and the transport; the drawing of the terminal interface (what it changes of the state is
  \<open>page_view\<close>); the registration of commands and tools with their libraries and the printed help; the embedded files of the web application and
  the version text. JSON, YAML, forms, terminal widgets, foreign processes, sockets and the probes of the machine are libraries, and so
  parameters.
\<close>

end
